(* ===== verification/Rust_Strings.thy ===== *)
theory Rust_Strings
  imports Meta_Prelude
begin

text \<open>
  The operations of Rust's \<open>str\<close> and of integer formatting and parsing that the sources
  use. A \<open>String\<close> is its UTF-8 byte sequence, a HOL \<open>string\<close>: equality, the byte-wise
  order of \<open>String\<close>'s \<open>Ord\<close> (the lexicographic order of \<open>List_Lexorder\<close>), prefixes
  and ASCII case all agree with the byte view. \<open>trim\<close> removes Unicode white space, so the
  multi-byte encodings of the \<open>White_Space\<close> characters are spelled out.
\<close>

section \<open>White space\<close>

definition byte :: "char \<Rightarrow> nat" where
  "byte c = of_char c"

definition ascii_ws :: "char \<Rightarrow> bool" where
  "ascii_ws c = (byte c = 32 \<or> 9 \<le> byte c \<and> byte c \<le> 13)"

text \<open>Two bytes: U+0085 and U+00A0.\<close>

definition ws2 :: "char \<Rightarrow> char \<Rightarrow> bool" where
  "ws2 a b = (byte a = 0xC2 \<and> (byte b = 0x85 \<or> byte b = 0xA0))"

text \<open>
  Three bytes: U+1680, U+2000 to U+200A, U+2028, U+2029, U+202F, U+205F and U+3000.
\<close>

definition ws3 :: "char \<Rightarrow> char \<Rightarrow> char \<Rightarrow> bool" where
  "ws3 a b c =
     (byte a = 0xE1 \<and> byte b = 0x9A \<and> byte c = 0x80
      \<or> byte a = 0xE2 \<and> byte b = 0x80
          \<and> (0x80 \<le> byte c \<and> byte c \<le> 0x8A \<or> byte c \<in> {0xA8, 0xA9, 0xAF})
      \<or> byte a = 0xE2 \<and> byte b = 0x81 \<and> byte c = 0x9F
      \<or> byte a = 0xE3 \<and> byte b = 0x80 \<and> byte c = 0x80)"

text \<open>The byte length of the white-space character a string starts with, 0 for none.\<close>

fun ws_len :: "string \<Rightarrow> nat" where
  "ws_len [] = 0"
| "ws_len [a] = (if ascii_ws a then 1 else 0)"
| "ws_len [a, b] = (if ascii_ws a then 1 else if ws2 a b then 2 else 0)"
| "ws_len (a # b # c # _) =
     (if ascii_ws a then 1 else if ws2 a b then 2 else if ws3 a b c then 3 else 0)"

text \<open>The same at the end of a string, on the reversed bytes.\<close>

fun ws_len_rev :: "string \<Rightarrow> nat" where
  "ws_len_rev [] = 0"
| "ws_len_rev [a] = (if ascii_ws a then 1 else 0)"
| "ws_len_rev [b, a] = (if ascii_ws b then 1 else if ws2 a b then 2 else 0)"
| "ws_len_rev (c # b # a # _) =
     (if ascii_ws c then 1 else if ws2 b c then 2 else if ws3 a b c then 3 else 0)"

function strip_with :: "(string \<Rightarrow> nat) \<Rightarrow> string \<Rightarrow> string" where
  "strip_with f s = (if s \<noteq> [] \<and> 0 < f s then strip_with f (drop (f s) s) else s)"
  by pat_completeness auto
termination
  by (relation "measure (\<lambda>(f, s). length s)") auto

declare strip_with.simps [simp del]

definition trim_start :: "string \<Rightarrow> string" where
  "trim_start s = strip_with ws_len s"

definition trim_end :: "string \<Rightarrow> string" where
  "trim_end s = rev (strip_with ws_len_rev (rev s))"

definition trim :: "string \<Rightarrow> string" where
  "trim s = trim_end (trim_start s)"

lemma strip_with_id [simp]: "f s = 0 \<Longrightarrow> strip_with f s = s"
  by (simp add: strip_with.simps [of f s])

lemma strip_with_Nil [simp]: "strip_with f [] = []"
  by (simp add: strip_with.simps [of f "[]"])

lemma strip_with_done: "strip_with f s \<noteq> [] \<Longrightarrow> f (strip_with f s) = 0"
proof (induction f s rule: strip_with.induct)
  case (1 f s)
  show ?case
  proof (cases "s \<noteq> [] \<and> 0 < f s")
    case True
    with 1 show ?thesis by (simp add: strip_with.simps [of f s])
  next
    case False
    with 1 show ?thesis by (auto simp: strip_with.simps [of f s])
  qed
qed

lemma strip_with_idem [simp]: "strip_with f (strip_with f s) = strip_with f s"
  by (cases "strip_with f s = []") (simp_all add: strip_with_done)

lemma strip_with_suffix: "suffix (strip_with f s) s"
proof (induction f s rule: strip_with.induct)
  case (1 f s)
  show ?case
  proof (cases "s \<noteq> [] \<and> 0 < f s")
    case True
    with 1 have "suffix (strip_with f (drop (f s) s)) (drop (f s) s)" by simp
    also have "suffix (drop (f s) s) s" by (rule suffix_drop)
    finally show ?thesis using True by (simp add: strip_with.simps [of f s])
  next
    case False
    then show ?thesis by (auto simp: strip_with.simps [of f s])
  qed
qed

text \<open>
  A white-space character at the start of a prefix of a string is one at the start of the
  string, so stripping the end cannot expose new white space at the start.
\<close>

lemma ws_len_append: "0 < ws_len p \<Longrightarrow> 0 < ws_len (p @ q)"
  by (cases p rule: ws_len.cases; cases q rule: ws_len.cases) (auto split: if_splits)

lemma ws_len_prefix: "prefix p s \<Longrightarrow> ws_len s = 0 \<Longrightarrow> ws_len p = 0"
  by (metis neq0_conv prefix_def ws_len_append)

lemma trim_end_prefix: "prefix (trim_end s) s"
  using strip_with_suffix [of ws_len_rev "rev s"]
  by (simp add: trim_end_def suffix_to_prefix)

lemma set_trim_subset: "set (trim s) \<subseteq> set s"
  using set_mono_prefix [OF trim_end_prefix [of "trim_start s"]]
    set_mono_suffix [OF strip_with_suffix [of ws_len s]]
  by (simp add: trim_def trim_start_def)

lemma ws_len_trim [simp]: "ws_len (trim s) = 0"
proof (cases "trim_start s = []")
  case True
  then show ?thesis by (simp add: trim_def trim_end_def)
next
  case False
  then have "ws_len (trim_start s) = 0"
    unfolding trim_start_def by (rule strip_with_done)
  then show ?thesis
    unfolding trim_def by (rule ws_len_prefix [OF trim_end_prefix])
qed

lemma trim_trim [simp]: "trim (trim s) = trim s"
proof -
  have "trim_start (trim s) = trim s" by (simp add: trim_start_def)
  moreover have "trim_end (trim s) = trim s" by (simp add: trim_def trim_end_def)
  ultimately show ?thesis by (simp add: trim_def)
qed

lemma trim_id: "ws_len s = 0 \<Longrightarrow> ws_len_rev (rev s) = 0 \<Longrightarrow> trim s = s"
  by (simp add: trim_def trim_start_def trim_end_def)

lemma trim_Nil [simp]: "trim [] = []"
  by (simp add: trim_id)

lemma trim_sublist: "sublist (trim s) s"
proof -
  have "suffix (trim_start s) s" unfolding trim_start_def by (rule strip_with_suffix)
  then have "sublist (trim_start s) s" by (rule suffix_imp_sublist)
  moreover have "sublist (trim_end (trim_start s)) (trim_start s)"
    by (rule prefix_imp_sublist [OF trim_end_prefix])
  ultimately show ?thesis unfolding trim_def using sublist_order.order_trans by blast
qed

text \<open>\<open>s.trim().is_empty()\<close>\<close>

definition blank :: "string \<Rightarrow> bool" where
  "blank s = (trim s = [])"

lemma blank_Nil [simp]: "blank []"
  by (simp add: blank_def)

section \<open>Prefixes, case and splitting\<close>

definition starts_with :: "string \<Rightarrow> string \<Rightarrow> bool" where
  "starts_with s p = (take (length p) s = p)"

definition strip_prefix :: "string \<Rightarrow> string \<Rightarrow> string option" where
  "strip_prefix s p = (if take (length p) s = p then Some (drop (length p) s) else None)"

definition strip_suffix :: "string \<Rightarrow> string \<Rightarrow> string option" where
  "strip_suffix s p = map_option rev (strip_prefix (rev s) (rev p))"

lemma strip_prefix_Some [simp]: "strip_prefix s p = Some r \<longleftrightarrow> s = p @ r"
  by (auto simp: strip_prefix_def) (metis append_take_drop_id)

lemma strip_suffix_Some [simp]: "strip_suffix s p = Some r \<longleftrightarrow> s = r @ p"
  by (auto simp: strip_suffix_def) (metis rev_append rev_rev_ident)

lemma strip_affix_append [simp]:
  "strip_prefix (p @ r) p = Some r" "strip_suffix (r @ p) p = Some r"
  by (simp_all only: strip_prefix_Some strip_suffix_Some)

lemma starts_with_prefix [simp]: "starts_with s p \<longleftrightarrow> prefix p s"
  unfolding starts_with_def prefix_def by (metis append_eq_conv_conj)

definition to_ascii_lowercase_char :: "char \<Rightarrow> char" where
  "to_ascii_lowercase_char c =
     (if 65 \<le> byte c \<and> byte c \<le> 90 then char_of (byte c + 32) else c)"

definition to_ascii_lowercase :: "string \<Rightarrow> string" where
  "to_ascii_lowercase s = map to_ascii_lowercase_char s"

definition eq_ignore_ascii_case :: "string \<Rightarrow> string \<Rightarrow> bool" where
  "eq_ignore_ascii_case s t = (to_ascii_lowercase s = to_ascii_lowercase t)"

lemma byte_char_of: "n < 256 \<Longrightarrow> byte (char_of n) = n"
  by (simp add: byte_def)

lemma to_ascii_lowercase_char_idem [simp]:
  "to_ascii_lowercase_char (to_ascii_lowercase_char c) = to_ascii_lowercase_char c"
  by (simp add: to_ascii_lowercase_char_def byte_char_of)

lemma to_ascii_lowercase_idem [simp]:
  "to_ascii_lowercase (to_ascii_lowercase s) = to_ascii_lowercase s"
  by (simp add: to_ascii_lowercase_def)

definition str_contains :: "string \<Rightarrow> string \<Rightarrow> bool" where
  "str_contains s needle = sublist needle s"

text \<open>\<open>split_once(sep)\<close> for a one-byte separator, and \<open>split(sep)\<close>.\<close>

fun split_once :: "char \<Rightarrow> string \<Rightarrow> (string \<times> string) option" where
  "split_once sep [] = None"
| "split_once sep (c # cs) =
     (if c = sep then Some ([], cs)
      else map_option (\<lambda>(l, r). (c # l, r)) (split_once sep cs))"

lemma split_once_append [simp]: "sep \<notin> set l \<Longrightarrow> split_once sep (l @ sep # r) = Some (l, r)"
  by (induction l) auto

lemma split_once_SomeD: "split_once sep s = Some (l, r) \<Longrightarrow> s = l @ sep # r \<and> sep \<notin> set l"
  by (induction s arbitrary: l) (auto split: if_splits)

definition rsplit_once :: "char \<Rightarrow> string \<Rightarrow> (string \<times> string) option" where
  "rsplit_once sep s = map_option (\<lambda>(r, l). (rev l, rev r)) (split_once sep (rev s))"

lemma rsplit_once_append: "sep \<notin> set r \<Longrightarrow> rsplit_once sep (l @ sep # r) = Some (l, r)"
  by (simp add: rsplit_once_def)

fun split_on :: "char \<Rightarrow> string \<Rightarrow> string list" where
  "split_on sep [] = [[]]"
| "split_on sep (c # cs) =
     (if c = sep then [] # split_on sep cs
      else (case split_on sep cs of [] \<Rightarrow> [[c]] | seg # segs \<Rightarrow> (c # seg) # segs))"

lemma split_on_not_Nil [simp]: "split_on sep s \<noteq> []"
  by (induction s) (auto split: list.splits)

section \<open>Decimal numbers\<close>

fun nat_decimal :: "nat \<Rightarrow> string" where
  "nat_decimal n =
     (if n < 10 then [char_of (48 + n)] else nat_decimal (n div 10) @ [char_of (48 + n mod 10)])"

declare nat_decimal.simps [simp del]

definition is_digit :: "char \<Rightarrow> bool" where
  "is_digit c = (48 \<le> byte c \<and> byte c \<le> 57)"

definition decimal_value :: "string \<Rightarrow> nat" where
  "decimal_value s = foldl (\<lambda>acc c. acc * 10 + (byte c - 48)) 0 s"

text \<open>\<open>format!("{:06}")\<close>: at least six digits, padded with zeros.\<close>

definition pad6 :: "nat \<Rightarrow> string" where
  "pad6 n = (let ds = nat_decimal n in replicate (6 - length ds) (CHR ''0'') @ ds)"

definition fmt06 :: "u64 \<Rightarrow> string" where
  "fmt06 n = pad6 (unat n)"

text \<open>
  \<open>str::parse::<u64>\<close>: an optional leading \<open>+\<close>, then at least one digit and nothing
  else, with overflow refused.
\<close>

definition parse_u64 :: "string \<Rightarrow> u64 option" where
  "parse_u64 s =
     (let ds = (case s of c # cs \<Rightarrow> if c = CHR ''+'' \<and> cs \<noteq> [] then cs else s | [] \<Rightarrow> []) in
      if ds \<noteq> [] \<and> list_all is_digit ds \<and> decimal_value ds < 2 ^ 64
      then Some (of_nat (decimal_value ds)) else None)"

lemma byte_digit [simp]: "n < 10 \<Longrightarrow> byte (char_of (48 + n)) = 48 + n"
  by (simp add: byte_char_of)

lemma is_digit_char_of [simp]: "(n :: nat) < 10 \<Longrightarrow> is_digit (char_of (48 + n))"
  by (simp add: is_digit_def)

lemma nat_decimal_digits: "list_all is_digit (nat_decimal n)"
proof (induction n rule: nat_decimal.induct)
  case (1 n)
  then show ?case
    by (subst nat_decimal.simps) simp
qed

lemma nat_decimal_nonempty [simp]: "nat_decimal n \<noteq> []"
  by (subst nat_decimal.simps) simp

lemma decimal_value_snoc [simp]:
  "decimal_value (s @ [c]) = decimal_value s * 10 + (byte c - 48)"
  by (simp add: decimal_value_def)

lemma decimal_value_nat_decimal [simp]: "decimal_value (nat_decimal n) = n"
proof (induction n rule: nat_decimal.induct)
  case (1 n)
  show ?case
  proof (cases "n < 10")
    case True
    then show ?thesis by (simp add: nat_decimal.simps [of n] decimal_value_def byte_char_of)
  next
    case False
    with 1 have "decimal_value (nat_decimal n) = n div 10 * 10 + n mod 10"
      by (simp add: nat_decimal.simps [of n] byte_char_of)
    then show ?thesis by simp
  qed
qed

lemma decimal_value_zeros [simp]: "decimal_value (replicate k (CHR ''0'') @ s) = decimal_value s"
proof -
  have "foldl (\<lambda>acc c. acc * 10 + (byte c - 48)) 0 (replicate k (CHR ''0'')) = (0 :: nat)"
    by (induction k) (simp_all add: byte_def)
  then show ?thesis by (simp add: decimal_value_def)
qed

lemma pad6_facts [simp]:
  "list_all is_digit (pad6 n)" "pad6 n \<noteq> []" "decimal_value (pad6 n) = n"
  by (simp_all add: pad6_def Let_def nat_decimal_digits list_all_iff is_digit_def byte_def)
    (use nat_decimal_digits [of n] in \<open>auto simp: list_all_iff is_digit_def byte_def\<close>)

lemma fmt06_inj [simp]: "fmt06 m = fmt06 n \<longleftrightarrow> m = n"
  unfolding fmt06_def by (metis pad6_facts(3) word_unat_eq_iff)

lemma digits_not_plus: "list_all is_digit s \<Longrightarrow> s = c # cs \<Longrightarrow> c \<noteq> CHR ''+''"
  by (auto simp: is_digit_def byte_def)

lemma parse_u64_fmt06 [simp]: "parse_u64 (fmt06 n) = Some n"
proof -
  obtain c cs where s: "pad6 (unat n) = c # cs" by (metis pad6_facts(2) neq_Nil_conv)
  then have "c \<noteq> CHR ''+''" using digits_not_plus [OF pad6_facts(1)] by blast
  with s pad6_facts [of "unat n"] unsigned_less [of n] show ?thesis
    by (simp add: parse_u64_def fmt06_def)
qed

lemma dash_not_digit: "list_all is_digit s \<Longrightarrow> CHR ''-'' \<notin> set s"
  by (auto simp: list_all_iff is_digit_def byte_def)

lemma dash_not_in_fmt06 [simp]: "CHR ''-'' \<notin> set (fmt06 n)"
  unfolding fmt06_def by (rule dash_not_digit [OF pad6_facts(1)])

end
