(* ===== verification/Rust_Collections.thy ===== *)
theory Rust_Collections
  imports Meta_Prelude
begin

text \<open>
  The standard collections of the sources. A \<open>BTreeMap\<close> is the list of its entries in
  ascending key order, which is what \<open>iter\<close> and \<open>values\<close> visit; a \<open>BTreeSet\<close> of
  strings is a finite set, a list where its iteration order is observed. The locale
  \<open>kv_map\<close> is the interface the components rely on; the insertion-ordered, bounded index
  that the router and the approval gate keep beside their maps is verified once against it.
\<close>

section \<open>BTreeMap\<close>

type_synonym ('k, 'v) btree = "('k \<times> 'v) list"

definition bt_inv :: "('k::linorder, 'v) btree \<Rightarrow> bool" where
  "bt_inv m = sorted_wrt (<) (map fst m)"

fun bt_get :: "('k::linorder, 'v) btree \<Rightarrow> 'k \<Rightarrow> 'v option" where
  "bt_get [] k = None"
| "bt_get ((a, v) # m) k = (if k = a then Some v else bt_get m k)"

fun bt_insert :: "'k::linorder \<Rightarrow> 'v \<Rightarrow> ('k, 'v) btree \<Rightarrow> ('k, 'v) btree" where
  "bt_insert k v [] = [(k, v)]"
| "bt_insert k v ((a, w) # m) =
     (if k < a then (k, v) # (a, w) # m
      else if k = a then (k, v) # m
      else (a, w) # bt_insert k v m)"

definition bt_remove :: "'k::linorder \<Rightarrow> ('k, 'v) btree \<Rightarrow> ('k, 'v) btree" where
  "bt_remove k m = filter (\<lambda>e. fst e \<noteq> k) m"

definition bt_retain :: "('k \<Rightarrow> 'v \<Rightarrow> bool) \<Rightarrow> ('k::linorder, 'v) btree \<Rightarrow> ('k, 'v) btree" where
  "bt_retain P m = filter (\<lambda>(k, v). P k v) m"

definition bt_contains :: "('k::linorder, 'v) btree \<Rightarrow> 'k \<Rightarrow> bool" where
  "bt_contains m k = (bt_get m k \<noteq> None)"

abbreviation bt_values :: "('k, 'v) btree \<Rightarrow> 'v list" where
  "bt_values m \<equiv> map snd m"

definition bt_of_list :: "('k::linorder \<times> 'v) list \<Rightarrow> ('k, 'v) btree" where
  "bt_of_list es = foldl (\<lambda>m (k, v). bt_insert k v m) [] es"

lemma bt_get_eq_map_of: "bt_get m k = map_of m k"
  by (induction m) auto

lemma dom_bt_get: "dom (bt_get m) = fst ` set m"
proof -
  have "bt_get m = map_of m" by (rule ext) (rule bt_get_eq_map_of)
  then show ?thesis by (simp add: dom_map_of_conv_image_fst)
qed

lemma bt_get_in_set: "bt_get m k = Some v \<Longrightarrow> (k, v) \<in> set m"
  by (induction m) (auto split: if_splits)

lemma bt_inv_Nil [simp]: "bt_inv []"
  by (simp add: bt_inv_def)

lemma bt_inv_Cons: "bt_inv (e # m) \<longleftrightarrow> (\<forall>k \<in> fst ` set m. fst e < k) \<and> bt_inv m"
  by (simp add: bt_inv_def)

lemma bt_inv_distinct: "bt_inv m \<Longrightarrow> distinct (map fst m)"
  by (induction m) (auto simp: bt_inv_Cons)

lemma bt_in_set_get: "bt_inv m \<Longrightarrow> (k, v) \<in> set m \<Longrightarrow> bt_get m k = Some v"
  by (simp add: bt_get_eq_map_of bt_inv_distinct)

lemma bt_get_insert: "bt_get (bt_insert k v m) = (bt_get m)(k \<mapsto> v)"
  by (induction m) auto

lemma bt_get_remove: "bt_get (bt_remove k m) = (bt_get m)(k := None)"
  by (induction m) (auto simp: bt_remove_def)

lemma keys_bt_insert [simp]: "fst ` set (bt_insert k v m) = insert k (fst ` set m)"
  by (induction k v m rule: bt_insert.induct) auto

lemma bt_inv_insert: "bt_inv m \<Longrightarrow> bt_inv (bt_insert k v m)"
proof (induction k v m rule: bt_insert.induct)
  case (1 k v)
  then show ?case by (simp add: bt_inv_Cons)
next
  case (2 k v a w m)
  then show ?case by (auto simp: bt_inv_Cons)
qed

lemma bt_inv_filter: "bt_inv m \<Longrightarrow> bt_inv (filter P m)"
  by (induction m) (auto simp: bt_inv_Cons)

lemma bt_inv_remove: "bt_inv m \<Longrightarrow> bt_inv (bt_remove k m)"
  by (simp add: bt_remove_def bt_inv_filter)

lemma bt_inv_retain: "bt_inv m \<Longrightarrow> bt_inv (bt_retain P m)"
  by (simp add: bt_retain_def bt_inv_filter)

lemma set_bt_insert_subset: "set (bt_insert k v m) \<subseteq> insert (k, v) (set m)"
  by (induction k v m rule: bt_insert.induct) auto

lemma set_bt_remove [simp]: "set (bt_remove k m) = {e \<in> set m. fst e \<noteq> k}"
  by (simp add: bt_remove_def)

lemma length_bt_insert_le: "length (bt_insert k v m) \<le> Suc (length m)"
  by (induction k v m rule: bt_insert.induct) auto

text \<open>The entries of a sorted map are determined by its lookups.\<close>

lemma bt_get_set_eq: "bt_inv m \<Longrightarrow> set m = {(k, v). bt_get m k = Some v}"
  using bt_in_set_get bt_get_in_set by fastforce

lemma bt_of_list_snoc: "bt_of_list (es @ [(k, v)]) = bt_insert k v (bt_of_list es)"
  by (simp add: bt_of_list_def)

lemma bt_of_list_facts:
  "bt_inv (bt_of_list es)" "bt_get (bt_of_list es) k = map_of (rev es) k" "set (bt_of_list es) \<subseteq> set es"
proof (induction es rule: rev_induct)
  case (snoc e es)
  obtain k v where e: "e = (k, v)" by (cases e)
  {
    case 1
    show ?case using snoc(1) by (simp add: e bt_of_list_snoc bt_inv_insert)
  next
    case 2
    show ?case using snoc(2) by (simp add: e bt_of_list_snoc bt_get_insert)
  next
    case 3
    show ?case using snoc(3) set_bt_insert_subset [of k v "bt_of_list es"] by (auto simp: e bt_of_list_snoc)
  }
qed (simp_all add: bt_of_list_def)

lemma bt_rebuild: "bt_inv m \<Longrightarrow> map (\<lambda>k. (k, the (bt_get m k))) (map fst m) = m"
  by (auto simp: comp_def bt_in_set_get intro!: map_idI)

lemma bt_ext:
  assumes "bt_inv m" and "bt_inv m'" and "bt_get m = bt_get m'"
  shows "m = m'"
proof -
  have "set m = set m'" using assms by (simp add: bt_get_set_eq)
  then have "map fst m = map fst m'"
    using assms(1,2) unfolding bt_inv_def
    by (metis list.set_map strict_sorted_equal)
  then show ?thesis
    using bt_rebuild [OF assms(1)] bt_rebuild [OF assms(2)] assms(3) by simp
qed

section \<open>The interface of a keyed store\<close>

locale kv_map =
  fixes get :: "'m \<Rightarrow> 'k \<Rightarrow> 'v option"
    and put :: "'k \<Rightarrow> 'v \<Rightarrow> 'm \<Rightarrow> 'm"
    and del :: "'k \<Rightarrow> 'm \<Rightarrow> 'm"
    and inv :: "'m \<Rightarrow> bool"
  assumes get_put: "inv m \<Longrightarrow> get (put k v m) = (get m)(k \<mapsto> v)"
    and get_del: "inv m \<Longrightarrow> get (del k m) = (get m)(k := None)"
    and inv_put: "inv m \<Longrightarrow> inv (put k v m)"
    and inv_del: "inv m \<Longrightarrow> inv (del k m)"

text \<open>
  An insertion-ordered index beside a store: the order vector lists exactly the keys of the
  store, once each. Pushing a fresh key and then evicting the oldest keys while the vector
  is longer than its bound keeps that agreement.
\<close>

fun evict_over :: "nat \<Rightarrow> ('k \<Rightarrow> 'm \<Rightarrow> 'm) \<Rightarrow> 'k list \<Rightarrow> 'm \<Rightarrow> 'k list \<times> 'm" where
  "evict_over cap rm [] m = ([], m)"
| "evict_over cap rm (k # ks) m =
     (if cap < Suc (length ks) then evict_over cap rm ks (rm k m) else (k # ks, m))"

lemma evict_over_order: "fst (evict_over cap rm ks m) = drop_oldest cap ks"
  by (induction ks arbitrary: m) auto

context kv_map
begin

definition indexed :: "'k list \<Rightarrow> 'm \<Rightarrow> bool" where
  "indexed ks m \<longleftrightarrow> inv m \<and> distinct ks \<and> dom (get m) = set ks"

lemma indexed_push:
  assumes "indexed ks m"
  shows "indexed (filter (\<lambda>c. c \<noteq> k) ks @ [k]) (put k v m)"
  using assms by (auto simp: indexed_def get_put inv_put)

lemma indexed_delete:
  assumes "indexed ks m"
  shows "indexed (filter (\<lambda>c. c \<noteq> k) ks) (del k m)"
  using assms by (auto simp: indexed_def get_del inv_del)

lemma indexed_evict_one:
  assumes "indexed (k # ks) m"
  shows "indexed ks (del k m)"
proof -
  from assms have "k \<notin> set ks" by (simp add: indexed_def)
  then have "filter (\<lambda>c. c \<noteq> k) ks = ks" by (auto intro: filter_True)
  with indexed_delete [OF assms, of k] show ?thesis by simp
qed

lemma indexed_evict:
  assumes "indexed ks m"
  shows "indexed (fst (evict_over cap del ks m)) (snd (evict_over cap del ks m))"
  using assms
proof (induction ks arbitrary: m)
  case Nil
  then show ?case by simp
next
  case (Cons k ks)
  then show ?case using indexed_evict_one by (auto simp del: fun_upd_apply)
qed

lemma evict_keeps:
  assumes "indexed ks m" and "k \<in> set (drop_oldest cap ks)"
  shows "get (snd (evict_over cap del ks m)) k = get m k"
  using assms
proof (induction ks arbitrary: m)
  case Nil
  then show ?case by simp
next
  case (Cons a ks)
  show ?case
  proof (cases "cap < Suc (length ks)")
    case True
    with Cons.prems(2) have "k \<in> set ks"
      using set_drop_oldest_subset by fastforce
    with Cons.prems(1) have "k \<noteq> a" by (auto simp: indexed_def)
    then have "get (del a m) k = get m k"
      using Cons.prems(1) by (simp add: indexed_def get_del)
    with True Cons show ?thesis using indexed_evict_one by simp
  next
    case False
    then show ?thesis by simp
  qed
qed

end

interpretation bt: kv_map bt_get bt_insert bt_remove bt_inv
  by unfold_locales (simp_all add: bt_get_insert bt_get_remove bt_inv_insert bt_inv_remove)

text \<open>Evicting only removes entries.\<close>

lemma evict_over_subset: "set (snd (evict_over cap bt_remove ks m)) \<subseteq> set m"
proof (induction ks arbitrary: m)
  case Nil
  then show ?case by simp
next
  case (Cons k ks)
  have "set (snd (evict_over cap bt_remove ks (bt_remove k m))) \<subseteq> set m"
    using Cons.IH [of "bt_remove k m"] by auto
  then show ?case by simp
qed

section \<open>Binary search\<close>

text \<open>
  \<open>slice::binary_search_by\<close> as the standard library implements it: the loop halves
  \<open>size\<close> and never leaves early on an equal element. \<open>Inr i\<close> is \<open>Ok(i)\<close>.
\<close>

function bs_loop :: "('a \<Rightarrow> ordering) \<Rightarrow> 'a list \<Rightarrow> nat \<Rightarrow> nat \<Rightarrow> nat" where
  "bs_loop f xs base sz =
     (if 1 < sz
      then let half = sz div 2; mid = base + half in
           bs_loop f xs (if f (xs ! mid) = Greater then base else mid) (sz - half)
      else base)"
  by pat_completeness auto
termination
  by (relation "measure (\<lambda>(f, xs, base, sz). sz)") auto

declare bs_loop.simps [simp del]

definition binary_search_by :: "('a \<Rightarrow> ordering) \<Rightarrow> 'a list \<Rightarrow> nat + nat" where
  "binary_search_by f xs =
     (if xs = [] then Inl 0
      else let base = bs_loop f xs 0 (length xs) in
           (case f (xs ! base) of
              Equal \<Rightarrow> Inr base
            | Less \<Rightarrow> Inl (base + 1)
            | Greater \<Rightarrow> Inl base))"

text \<open>The comparison orders the slice: nothing after a \<open>Greater\<close> is \<open>Less\<close> or \<open>Equal\<close>, etc.\<close>

definition partitioned :: "('a \<Rightarrow> ordering) \<Rightarrow> 'a list \<Rightarrow> bool" where
  "partitioned f xs \<longleftrightarrow>
     (\<forall>i j. i < j \<longrightarrow> j < length xs \<longrightarrow>
        (f (xs ! j) = Less \<longrightarrow> f (xs ! i) = Less) \<and> (f (xs ! i) = Greater \<longrightarrow> f (xs ! j) = Greater))"

lemma bs_loop_bounds:
  assumes "0 < sz"
  shows "base \<le> bs_loop f xs base sz \<and> bs_loop f xs base sz < base + sz"
  using assms
proof (induction f xs base sz rule: bs_loop.induct)
  case (1 f xs base sz)
  show ?case
  proof (cases "1 < sz")
    case True
    let ?half = "sz div 2"
    let ?b = "if f (xs ! (base + ?half)) = Greater then base else base + ?half"
    have "?b \<le> bs_loop f xs ?b (sz - ?half) \<and> bs_loop f xs ?b (sz - ?half) < ?b + (sz - ?half)"
      using 1 True by (simp add: Let_def)
    with True show ?thesis
      by (subst (1 2) bs_loop.simps) (auto simp: Let_def split: if_splits)
  next
    case False
    with 1 show ?thesis by (simp add: bs_loop.simps [of f xs base sz])
  qed
qed

text \<open>
  The loop's invariant: everything before \<open>base\<close> is not \<open>Greater\<close>, everything from
  \<open>base + sz\<close> on is \<open>Greater\<close>.
\<close>

lemma bs_loop_split:
  assumes "0 < sz" and "base + sz \<le> length xs" and "partitioned f xs"
    and "\<forall>i < base. f (xs ! i) \<noteq> Greater"
    and "\<forall>i. base + sz \<le> i \<longrightarrow> i < length xs \<longrightarrow> f (xs ! i) = Greater"
  shows "(\<forall>i < bs_loop f xs base sz. f (xs ! i) \<noteq> Greater)
    \<and> (\<forall>i. bs_loop f xs base sz < i \<longrightarrow> i < length xs \<longrightarrow> f (xs ! i) = Greater)"
  using assms
proof (induction f xs base sz rule: bs_loop.induct)
  case (1 f xs base sz)
  show ?case
  proof (cases "1 < sz")
    case False
    with 1 show ?thesis by (auto simp: bs_loop.simps [of f xs base sz])
  next
    case True
    let ?half = "sz div 2"
    let ?mid = "base + ?half"
    let ?b = "if f (xs ! ?mid) = Greater then base else ?mid"
    have mid: "?mid < length xs" using True "1.prems"(2) by linarith
    have low: "\<forall>i < ?b. f (xs ! i) \<noteq> Greater"
      using "1.prems"(3,4) mid by (auto simp: partitioned_def)
    have high: "\<forall>i. ?b + (sz - ?half) \<le> i \<longrightarrow> i < length xs \<longrightarrow> f (xs ! i) = Greater"
    proof (cases "f (xs ! ?mid) = Greater")
      case g: True
      have "?mid \<le> i \<Longrightarrow> i < length xs \<Longrightarrow> f (xs ! i) = Greater" for i
        using g "1.prems"(3) unfolding partitioned_def
        by (metis le_neq_implies_less)
      moreover have "?mid \<le> base + (sz - ?half)" by simp
      ultimately show ?thesis using g by fastforce
    next
      case False
      then show ?thesis using "1.prems"(5) by simp
    qed
    have step: "bs_loop f xs base sz = bs_loop f xs ?b (sz - ?half)"
      using True by (simp add: bs_loop.simps [of f xs base sz] Let_def)
    have "0 < sz - ?half" "?b + (sz - ?half) \<le> length xs"
      using True "1.prems"(2) by auto
    note "1.IH" [OF True refl refl this "1.prems"(3) low high]
    then show ?thesis unfolding step .
  qed
qed

end
