(* ===== verification/Json_Value.thy ===== *)
theory Json_Value
  imports Rust_Strings Rust_Collections
begin

text \<open>
  \<open>serde_json::Value\<close> as the sources use it: the value type, its accessors, and the encodings
  of the standard types that \<open>to_value\<close> and \<open>json!\<close> produce. An object is the sorted list of
  its members (the default, \<open>BTreeMap\<close>-backed map). Reading and printing JSON text is the work
  of the \<open>serde_json\<close> crate and stays a parameter of the operations that need it.
\<close>

text \<open>
  Numbers: a float is carried by its bit pattern. Equality of the model is equality of
  patterns, which tells the two zeros apart; no operation below compares floats.
\<close>

datatype json_number = PosInt u64 | NegInt int | Float u64

datatype json =
    JNull
  | JBool bool
  | JNumber json_number
  | JString string
  | JArray "json list"
  | JObject "(string \<times> json) list"

definition json_object :: "(string \<times> json) list \<Rightarrow> json" where
  "json_object members = JObject (bt_of_list members)"

fun as_object :: "json \<Rightarrow> (string, json) btree option" where
  "as_object (JObject members) = Some members"
| "as_object _ = None"

fun as_str :: "json \<Rightarrow> string option" where
  "as_str (JString s) = Some s"
| "as_str _ = None"

fun as_bool :: "json \<Rightarrow> bool option" where
  "as_bool (JBool b) = Some b"
| "as_bool _ = None"

fun as_u64 :: "json \<Rightarrow> u64 option" where
  "as_u64 (JNumber (PosInt n)) = Some n"
| "as_u64 _ = None"

definition is_null :: "json \<Rightarrow> bool" where
  "is_null v = (v = JNull)"

text \<open>\<open>Value::get\<close> with a string index: a member of an object, nothing otherwise.\<close>

definition json_get :: "json \<Rightarrow> string \<Rightarrow> json option" where
  "json_get v key = Option.bind (as_object v) (\<lambda>members. bt_get members key)"

lemma json_get_object: "json_get (json_object kvs) k = map_of (rev kvs) k"
  by (simp add: json_get_def json_object_def bt_of_list_facts)

text \<open>\<open>u32::try_from(u64)\<close>\<close>

definition u32_try_from :: "u64 \<Rightarrow> u32 option" where
  "u32_try_from n = (if unat n < 2 ^ 32 then Some (of_nat (unat n)) else None)"

lemma u32_try_from_code [code]:
  "u32_try_from n = (if n < 0x100000000 then Some (ucast n) else None)"
proof -
  have "unat n < 2 ^ 32 \<longleftrightarrow> n < 0x100000000" by (simp add: word_less_nat_alt)
  moreover have "of_nat (unat n) = (ucast n :: u32)" by (simp add: unsigned_of_nat)
  ultimately show ?thesis by (simp add: u32_try_from_def)
qed

lemma u32_try_from_Some: "u32_try_from n = Some m \<Longrightarrow> unat m = unat n"
  by (auto simp: u32_try_from_def unsigned_ucast_eq take_bit_nat_eq_self split: if_splits)

section \<open>Encodings\<close>

definition json_u64 :: "u64 \<Rightarrow> json" where
  "json_u64 n = JNumber (PosInt n)"

definition json_u32 :: "u32 \<Rightarrow> json" where
  "json_u32 n = JNumber (PosInt (ucast n))"

definition json_usize :: "nat \<Rightarrow> json" where
  "json_usize n = JNumber (PosInt (of_nat n))"

definition json_option :: "('a \<Rightarrow> json) \<Rightarrow> 'a option \<Rightarrow> json" where
  "json_option f x = (case x of None \<Rightarrow> JNull | Some v \<Rightarrow> f v)"

abbreviation json_opt_str :: "string option \<Rightarrow> json" where
  "json_opt_str \<equiv> json_option JString"

text \<open>A member that \<open>skip_serializing_if = "Option::is_none"\<close> leaves out.\<close>

definition json_some :: "string \<Rightarrow> ('a \<Rightarrow> json) \<Rightarrow> 'a option \<Rightarrow> (string \<times> json) list" where
  "json_some key f x = (case x of None \<Rightarrow> [] | Some v \<Rightarrow> [(key, f v)])"

section \<open>Optional strings\<close>

text \<open>
  The sources clean optional strings with \<open>.map(str::trim).filter(|v| !v.is_empty())\<close>, and
  \<open>require_non_empty\<close> does the same to a string.
\<close>

definition require_non_empty :: "string \<Rightarrow> string option" where
  "require_non_empty s = (let trimmed = trim s in if trimmed = [] then None else Some trimmed)"

definition trimmed_some :: "string option \<Rightarrow> string option" where
  "trimmed_some x = opt_filter (\<lambda>v. v \<noteq> []) (map_option trim x)"

lemma require_non_empty_Some:
  "require_non_empty s = Some t \<longleftrightarrow> t = trim s \<and> t \<noteq> []"
  by (auto simp: require_non_empty_def Let_def)

lemma require_non_empty_None [simp]: "require_non_empty s = None \<longleftrightarrow> blank s"
  by (simp add: require_non_empty_def Let_def blank_def)

text \<open>A canonical token: trimmed and not empty.\<close>

definition canonical :: "string \<Rightarrow> bool" where
  "canonical s \<longleftrightarrow> s \<noteq> [] \<and> trim s = s"

lemma canonical_require [simp]: "require_non_empty s = Some t \<Longrightarrow> canonical t"
  by (auto simp: require_non_empty_Some canonical_def)

lemma canonical_trimmed [simp]: "trimmed_some x = Some t \<Longrightarrow> canonical t"
  by (auto simp: trimmed_some_def canonical_def)

lemma canonical_not_blank: "canonical s \<Longrightarrow> \<not> blank s"
  by (auto simp: canonical_def blank_def)

end
