(* ===== verification/Transition_Systems.thy ===== *)
theory Transition_Systems
  imports Meta_Prelude
begin

text \<open>
  State machines of the components: reachability from the initial states of a step relation,
  the invariant rule, and quantities that never decrease along steps. Components instantiate
  the locales with their own step relation and discharge one preservation law per operation.
\<close>

inductive reachable :: "('s \<Rightarrow> bool) \<Rightarrow> ('s \<Rightarrow> 's \<Rightarrow> bool) \<Rightarrow> 's \<Rightarrow> bool"
  for init :: "'s \<Rightarrow> bool" and step :: "'s \<Rightarrow> 's \<Rightarrow> bool" where
  reachable_init: "init s \<Longrightarrow> reachable init step s"
| reachable_step: "reachable init step s \<Longrightarrow> step s t \<Longrightarrow> reachable init step t"

locale step_invariant =
  fixes init :: "'s \<Rightarrow> bool"
    and step :: "'s \<Rightarrow> 's \<Rightarrow> bool"
    and inv :: "'s \<Rightarrow> bool"
  assumes inv_init: "init s \<Longrightarrow> inv s"
    and inv_step: "inv s \<Longrightarrow> step s t \<Longrightarrow> inv t"
begin

lemma inv_reachable: "reachable init step s \<Longrightarrow> inv s"
  by (induction rule: reachable.induct) (auto intro: inv_init inv_step)

lemma inv_steps: "step\<^sup>*\<^sup>* s t \<Longrightarrow> inv s \<Longrightarrow> inv t"
  by (induction rule: rtranclp_induct) (auto intro: inv_step)

end

text \<open>
  A machine that implements an abstract one: under its invariant every step is a sequence of
  abstract steps between the abstractions of its ends.
\<close>

locale simulation = step_invariant init step inv
  for init :: "'s \<Rightarrow> bool" and step :: "'s \<Rightarrow> 's \<Rightarrow> bool" and inv :: "'s \<Rightarrow> bool" +
  fixes abs :: "'s \<Rightarrow> 'a"
    and astep :: "'a \<Rightarrow> 'a \<Rightarrow> bool"
  assumes simulates: "inv s \<Longrightarrow> step s t \<Longrightarrow> astep\<^sup>*\<^sup>* (abs s) (abs t)"
begin

lemma simulates_steps:
  assumes "step\<^sup>*\<^sup>* s t" and "inv s"
  shows "astep\<^sup>*\<^sup>* (abs s) (abs t)"
  using assms
proof (induction rule: rtranclp_induct)
  case (step t u)
  have "inv t" by (rule inv_steps [OF step.hyps(1) step.prems])
  then show ?case using step simulates by (meson rtranclp_trans)
qed simp

end

text \<open>A quantity (a revision, a sequence, a clock) that steps never decrease.\<close>

locale step_monotone =
  fixes step :: "'s \<Rightarrow> 's \<Rightarrow> bool"
    and quantity :: "'s \<Rightarrow> 'q::preorder"
  assumes quantity_step: "step s t \<Longrightarrow> quantity s \<le> quantity t"
begin

lemma quantity_steps: "step\<^sup>*\<^sup>* s t \<Longrightarrow> quantity s \<le> quantity t"
  by (induction rule: rtranclp_induct) (auto intro: order_trans quantity_step)

end

end
