(* ===== verification/Runtime_Types.thy ===== *)
theory Runtime_Types
  imports Json_Value Transition_Systems "HOL-Library.Product_Lexorder"
begin

text \<open>
  The data model of the runtime (\<open>types.rs\<close>, \<open>runtime.rs\<close>): events, module configuration,
  the boundary errors, the request and record types of routing, delivery, memory and gating,
  and \<open>MetaRuntimeHandle\<close>, the one record all of them update. \<open>Env\<close> collects what the
  runtime obtains from outside: the wall clock, the MCP servers behind the modules, process
  runs, JSON text and the derived decoders of \<open>serde\<close>, \<open>Debug\<close> renderings and the ledger
  file. Every interaction with the outside
  advances \<open>rt_tick\<close>, and the answer of the environment may depend on it, so the clock need
  not be monotone and a module may answer differently each time.
\<close>

section \<open>Events and configuration\<close>

record ModuleEvent =
  me_module :: string
  me_event_type :: string
  me_payload :: json

datatype UnifiedEvent =
    AgentEvent (ae_agent_id: string) (ae_event_type: string) (ae_payload: "json option")
  | ModuleEv ModuleEvent

record EventEnvelope =
  ev_event_id :: string
  ev_source :: string
  ev_timestamp_ms :: u64
  ev_event :: UnifiedEvent

datatype RestartPolicy = RestartNever | RestartOnFailure | RestartAlways

record ModuleConfig =
  mc_id :: string
  mc_command :: string
  mc_args :: "string list"
  mc_restart_policy :: RestartPolicy

record DiscoverySpec =
  ds_namespace :: string
  ds_modules :: "string list"

record PreSpawnData =
  ps_module_id :: string
  ps_env :: "(string \<times> string) list"

record MetaConfig =
  mk_modules :: "ModuleConfig list"
  mk_discovery :: DiscoverySpec
  mk_pre_spawn :: "PreSpawnData list"

section \<open>Boundary errors\<close>

datatype ProcessBoundaryError =
    SpawnFailed string
  | MissingStdout
  | ProcessIo string
  | ProcessTimeout u64
  | EmptyOutput
  | InvalidJsonLine
  | CleanupUnconfirmed u32 string

datatype NormalizationError =
    InvalidJson
  | InvalidSchema
  | MissingField string
  | InvalidFieldType string
  | SourceMismatch string string

datatype McpCloseUnsettledClass =
    WaitFailed | NotReaped | StdoutOpen | StdoutUnobserved | NotHeld | CloseFailedClass | TaskFailed

datatype McpBoundaryError =
    RuntimeUnavailable string
  | McpRequired string string
  | McpTimeout string string u64
  | ConnectionFailed string string
  | ToolListFailed string string
  | ToolNotFound string string "string list"
  | ToolCallFailed string string string
  | CloseFailed string string
  | CloseUnsettled string McpCloseUnsettledClass
  | OperationFailedWithCloseFailure McpBoundaryError McpBoundaryError
  | InvalidToolPayload string string string
  | InvalidJsonResponse string string string

datatype RuntimeBoundaryError =
    ProcessErr ProcessBoundaryError
  | NormalizeErr NormalizationError
  | McpErr McpBoundaryError

section \<open>Routing and delivery\<close>

record RoutingResolveRequest =
  rq_recipient :: string
  rq_channel :: "string option"
  rq_retry_max :: "u32 option"
  rq_backoff_ms :: "u64 option"
  rq_rate_limit_per_minute :: "u32 option"

record RuntimeRoute =
  ro_route_key :: string
  ro_recipient :: string
  ro_channel :: "string option"
  ro_sink :: string
  ro_target_module :: string
  ro_retry_max :: "u32 option"
  ro_backoff_ms :: "u64 option"
  ro_rate_limit_per_minute :: "u32 option"

record RoutingResolution =
  rs_route_id :: string
  rs_recipient :: string
  rs_channel :: string
  rs_sink :: string
  rs_target_module :: string
  rs_retry_max :: u32
  rs_backoff_ms :: u64
  rs_rate_limit_per_minute :: u32

record DeliverySendRequest =
  dq_resolution :: RoutingResolution
  dq_payload :: json
  dq_idempotency_key :: "string option"

record DeliveryAttempt =
  da_attempt :: u32
  da_status :: string
  da_backoff_ms :: u64

record DeliveryRecord =
  dr_delivery_id :: string
  dr_route_id :: string
  dr_recipient :: string
  dr_sink :: string
  dr_target_module :: string
  dr_payload :: json
  dr_status :: string
  dr_attempts :: "DeliveryAttempt list"
  dr_first_attempt_ms :: u64
  dr_final_attempt_ms :: u64
  dr_idempotency_key :: "string option"
  dr_sink_adapter :: "string option"

record DeliveryHistoryRequest =
  dh_recipient :: "string option"
  dh_sink :: "string option"
  dh_limit :: nat

datatype RoutingResolveError =
    RouterModuleNotLoaded
  | RouteDeliveryModuleNotLoaded
  | EmptyRecipient
  | InvalidChannel
  | InvalidRateLimitPerMinute
  | RetryMaxExceedsCap u32 u32
  | RouterBoundary RuntimeBoundaryError

datatype DeliverySendError =
    DeliveryModuleNotLoaded
  | InvalidRouteTarget string
  | InvalidRouteId
  | UnknownRouteId string
  | ForgedResolution
  | InvalidRecipient
  | InvalidSink
  | InvalidIdempotencyKey
  | IdempotencyPayloadMismatch
  | RateLimited string u64 u32
  | DeliveryBoundary RuntimeBoundaryError

datatype RuntimeRouteMutationError =
    RmEmptyRouteKey
  | RmEmptyRecipient
  | RmInvalidChannel
  | RmEmptySink
  | RmEmptyTargetModule
  | RmInvalidRateLimitPerMinute
  | RmRetryMaxExceedsCap u32 u32
  | RmRouteNotFound string

record DeliveryIdempotencyEntry =
  di_delivery_id :: string
  di_payload :: json
  di_canonical_resolution :: RoutingResolution

record RouterBoundaryOverrides =
  rb_channel :: "string option"
  rb_sink :: "string option"
  rb_target_module :: "string option"
  rb_retry_max :: "u32 option"
  rb_backoff_ms :: "u64 option"
  rb_rate_limit_per_minute :: "u32 option"

record DeliveryBoundaryOutcome =
  do_sink_adapter :: "string option"
  do_force_fail :: bool

text \<open>Map keys with the derived, field-by-field order.\<close>

datatype DeliveryRateWindowKey =
  DeliveryRateWindowKey (rw_route_id: string) (rw_recipient: string) (rw_sink: string)
    (rw_window_start_ms: u64)

definition rate_key_tuple :: "DeliveryRateWindowKey \<Rightarrow> string \<times> string \<times> string \<times> u64" where
  "rate_key_tuple k = (rw_route_id k, rw_recipient k, rw_sink k, rw_window_start_ms k)"

lemma rate_key_tuple_inj [simp]: "rate_key_tuple a = rate_key_tuple b \<longleftrightarrow> a = b"
  by (cases a; cases b) (auto simp: rate_key_tuple_def)

instantiation DeliveryRateWindowKey :: linorder
begin

definition less_eq_DeliveryRateWindowKey :: "DeliveryRateWindowKey \<Rightarrow> DeliveryRateWindowKey \<Rightarrow> bool" where
  "less_eq_DeliveryRateWindowKey a b = (rate_key_tuple a \<le> rate_key_tuple b)"

definition less_DeliveryRateWindowKey :: "DeliveryRateWindowKey \<Rightarrow> DeliveryRateWindowKey \<Rightarrow> bool" where
  "less_DeliveryRateWindowKey a b = (rate_key_tuple a < rate_key_tuple b)"

instance
  by standard
    (auto simp: less_eq_DeliveryRateWindowKey_def less_DeliveryRateWindowKey_def
      simp del: less_eq_prod_def less_prod_def dest: order.trans order.antisym)

end

datatype MemoryConflictKey =
  MemoryConflictKey (ck_entity: string) (ck_topic: string) (ck_store: string)

definition conflict_key_tuple :: "MemoryConflictKey \<Rightarrow> string \<times> string \<times> string" where
  "conflict_key_tuple k = (ck_entity k, ck_topic k, ck_store k)"

lemma conflict_key_tuple_inj [simp]: "conflict_key_tuple a = conflict_key_tuple b \<longleftrightarrow> a = b"
  by (cases a; cases b) (auto simp: conflict_key_tuple_def)

instantiation MemoryConflictKey :: linorder
begin

definition less_eq_MemoryConflictKey :: "MemoryConflictKey \<Rightarrow> MemoryConflictKey \<Rightarrow> bool" where
  "less_eq_MemoryConflictKey a b = (conflict_key_tuple a \<le> conflict_key_tuple b)"

definition less_MemoryConflictKey :: "MemoryConflictKey \<Rightarrow> MemoryConflictKey \<Rightarrow> bool" where
  "less_MemoryConflictKey a b = (conflict_key_tuple a < conflict_key_tuple b)"

instance
  by standard
    (auto simp: less_eq_MemoryConflictKey_def less_MemoryConflictKey_def
      simp del: less_eq_prod_def less_prod_def dest: order.trans order.antisym)

end

section \<open>Memory ledger\<close>

record MemoryIndexRequest =
  mi_entity :: string
  mi_topic :: string
  mi_store :: "string option"
  mi_fact :: "string option"
  mi_metadata :: "json option"
  mi_conflict :: "bool option"
  mi_conflict_reason :: "string option"

record MemoryAssertion =
  ma_assertion_id :: string
  ma_entity :: string
  ma_topic :: string
  ma_store :: string
  ma_fact :: string
  ma_metadata :: "json option"
  ma_indexed_at_ms :: u64

record MemoryConflictSignal =
  mcs_entity :: string
  mcs_topic :: string
  mcs_store :: string
  mcs_reason :: "string option"
  mcs_updated_at_ms :: u64

record MemoryIndexResult =
  mr_entity :: string
  mr_topic :: string
  mr_store :: string
  mr_assertion_id :: "string option"
  mr_conflict_active :: bool

record MemoryQueryRequest =
  mq_entity :: "string option"
  mq_topic :: "string option"
  mq_store :: "string option"
  mq_query :: "string option"

record MemoryQueryResult =
  mqr_assertions :: "MemoryAssertion list"
  mqr_conflicts :: "MemoryConflictSignal list"

record PersistedMemoryState =
  pm_assertions :: "MemoryAssertion list"
  pm_conflicts :: "MemoryConflictSignal list"

datatype LocalJsonMemoryStoreError =
    LedgerInvalidConfig string
  | LedgerIo string
  | LedgerSerialize string
  | LedgerInvalidStoreData string
  | LedgerExternalCallFailed string

datatype MemoryIndexError =
    EntityRequired
  | TopicRequired
  | UnsupportedStore string
  | FactRequiredWhenConflictUnset
  | BackendPersistFailed LocalJsonMemoryStoreError

section \<open>Gating\<close>

datatype GatingRiskTier = R0 | R1 | R2 | R3

record GatingEvaluateRequest =
  ge_action :: string
  ge_actor_id :: string
  ge_risk_tier :: GatingRiskTier
  ge_rationale :: "string option"
  ge_requested_approver :: "string option"
  ge_approval_recipient :: "string option"
  ge_approval_channel :: "string option"
  ge_approval_timeout_ms :: "u64 option"
  ge_entity :: "string option"
  ge_topic :: "string option"

datatype GatingOutcome = Allowed | AllowedWithAudit | PendingApproval | SafeDraft

record GatingEvaluateResult =
  gr_action_id :: string
  gr_action :: string
  gr_actor_id :: string
  gr_risk_tier :: GatingRiskTier
  gr_outcome :: GatingOutcome
  gr_pending_id :: "string option"
  gr_fallback_reason :: "string option"

record GatingOrigin =
  go_identity :: string
  go_conversation_id :: "string option"
  go_interaction_id :: "string option"

record GatingPendingEntry =
  gp_pending_id :: string
  gp_action_id :: string
  gp_action :: string
  gp_actor_id :: string
  gp_risk_tier :: GatingRiskTier
  gp_requested_approver :: "string option"
  gp_approval_recipient :: "string option"
  gp_approval_channel :: "string option"
  gp_approval_route_id :: "string option"
  gp_approval_delivery_id :: "string option"
  gp_created_at_ms :: u64
  gp_deadline_at_ms :: u64
  gp_rationale :: "string option"
  gp_origin :: "GatingOrigin option"

datatype GatingDecision = Approve | Reject | Escalate

record GatingEscalationRoutes =
  er_default :: "string option"
  er_routes :: "(string, string) btree"

record GatingDecider =
  de_principal :: string
  de_held_approver_ids :: "string set"

record GatingDecideRequest =
  gd_pending_id :: string
  gd_approver_id :: string
  gd_decision :: GatingDecision
  gd_reason :: "string option"

record GatingDecisionResult =
  gx_pending_id :: string
  gx_action_id :: string
  gx_approver_id :: string
  gx_decision :: GatingDecision
  gx_outcome :: GatingOutcome
  gx_decided_at_ms :: u64
  gx_reason :: "string option"
  gx_next_pending_id :: "string option"

record GatingAuditEntry =
  ga_audit_id :: string
  ga_timestamp_ms :: u64
  ga_event_type :: string
  ga_action_id :: string
  ga_pending_id :: "string option"
  ga_actor_id :: string
  ga_risk_tier :: GatingRiskTier
  ga_outcome :: GatingOutcome
  ga_detail :: json

record GatingAuditPage =
  pg_entries :: "GatingAuditEntry list"
  pg_gap :: bool

record GatingStateSnapshot =
  gs_version :: u32
  gs_owner_epoch :: "string option"
  gs_next_sequence :: u64
  gs_pending :: "GatingPendingEntry list"
  gs_audit :: "GatingAuditEntry list"

datatype GatingStateRestoreError =
    RuntimeNotPristine
  | UnsupportedVersion u32
  | InvalidSnapshot string

record GatingResolutionNotice =
  gn_pending_id :: string
  gn_action_id :: string
  gn_approved :: bool
  gn_next_pending_id :: "string option"
  gn_cause :: string

datatype GatingIdUnavailable = EpochUnavailable | SequenceExhausted

datatype GatingDecideError =
    UnknownPendingId string
  | SelfApprovalForbidden
  | ApproverMismatch string string
  | EmptyPrincipal
  | NoEscalationRoute "string option"
  | IdsUnavailable GatingIdUnavailable

section \<open>The runtime handle\<close>

record MetaRuntimeHandle =
  rt_config :: MetaConfig
  rt_loaded_modules :: "string set"
  rt_merged_events :: "EventEnvelope list"
  rt_routing_sequence :: u64
  rt_routing_resolutions :: "(string, RoutingResolution) btree"
  rt_routing_resolution_order :: "string list"
  rt_runtime_routes :: "(string, RuntimeRoute) btree"
  rt_delivery_sequence :: u64
  rt_delivery_runtime_epoch_ms :: u64
  rt_delivery_now_floor_ms :: u64
  rt_delivery_clock_ms :: u64
  rt_delivery_history :: "DeliveryRecord list"
  rt_delivery_idempotency :: "(string, DeliveryIdempotencyEntry) btree"
  rt_delivery_idempotency_by_delivery :: "(string, string list) btree"
  rt_delivery_rate_window_counts :: "(DeliveryRateWindowKey, u32) btree"
  rt_gating_epoch :: "string option"
  rt_gating_sequence :: u64
  rt_gating_pending :: "(string, GatingPendingEntry) btree"
  rt_gating_pending_order :: "string list"
  rt_gating_audit :: "GatingAuditEntry list"
  rt_gating_notice_queue :: "GatingResolutionNotice list"
  rt_gating_delivered :: "GatingResolutionNotice list"
  rt_gating_escalation_routes :: GatingEscalationRoutes
  rt_memory_sequence :: u64
  rt_memory_assertions :: "MemoryAssertion list"
  rt_memory_conflicts :: "(MemoryConflictKey, MemoryConflictSignal) btree"
  rt_memory_backend :: bool
  rt_tick :: nat

text \<open>
  \<open>rt_gating_delivered\<close> records the notices handed to the registered observers, in order;
  \<open>rt_memory_backend\<close> says whether a ledger backend is configured.
\<close>

section \<open>The environment\<close>

datatype 'a mcp_call = McpTimedOut | McpFailed string | McpOk 'a

datatype ContentBlock = TextBlock string | OtherBlock json

text \<open>How a server close ended: settled, or unsettled in a class with the native close error.\<close>

type_synonym mcp_close = "(McpCloseUnsettledClass \<times> string option) option"

record McpConnectFailure =
  cf_timed_out :: bool
  cf_error :: string
  cf_close :: mcp_close

record McpSession =
  ss_in_runtime :: bool
  ss_build_error :: "string option"
  ss_connect :: "McpConnectFailure option"
  ss_list_tools :: "string list mcp_call"
  ss_call_tool :: "string \<Rightarrow> json \<Rightarrow> ContentBlock list mcp_call"
  ss_close :: mcp_close

record Env =
  env_clock :: "nat \<Rightarrow> u64"
  env_mcp :: "nat \<Rightarrow> ModuleConfig \<Rightarrow> (string \<times> string) list \<Rightarrow> McpSession"
  env_process :: "nat \<Rightarrow> ModuleConfig \<Rightarrow> (string \<times> string) list \<Rightarrow> ProcessBoundaryError + string"
  env_parse_json :: "string \<Rightarrow> json option"
  env_print_event :: "UnifiedEvent \<Rightarrow> string option"
  env_print_blocks :: "ContentBlock list \<Rightarrow> string"
  env_decode_envelope :: "json \<Rightarrow> EventEnvelope option"
  env_decode_conflict :: "json \<Rightarrow> string + MemoryConflictSignal"
  env_decode_origin :: "json \<Rightarrow> GatingOrigin option"
  env_debug_boundary :: "RuntimeBoundaryError \<Rightarrow> string"
  env_debug_routing :: "RoutingResolveError \<Rightarrow> string"
  env_debug_delivery :: "DeliverySendError \<Rightarrow> string"
  env_write_ledger :: "nat \<Rightarrow> PersistedMemoryState \<Rightarrow> LocalJsonMemoryStoreError option"

definition current_time_ms :: "Env \<Rightarrow> MetaRuntimeHandle \<Rightarrow> u64 \<times> MetaRuntimeHandle" where
  "current_time_ms env h = (env_clock env (rt_tick h), h\<lparr>rt_tick := Suc (rt_tick h)\<rparr>)"

definition next_sequence :: "u64 \<Rightarrow> u64 \<times> u64" where
  "next_sequence counter = (counter, saturating_add counter 1)"

end
