(* ===== verification/Event_Transport.thy ===== *)
theory Event_Transport
  imports Runtime_Types
begin

text \<open>
  Event normalization and transport (\<open>runtime/event_transport.rs\<close>): the reading of one event
  line, the merged event log kept in its canonical order by binary insertion, and the bounded,
  scoped replay a subscription receives.
\<close>

section \<open>Normalization\<close>

definition enforce_source_consistency :: "EventEnvelope \<Rightarrow> NormalizationError + EventEnvelope" where
  "enforce_source_consistency envelope =
     (let expected = (case ev_event envelope of AgentEvent _ _ _ \<Rightarrow> ''agent'' | ModuleEv _ \<Rightarrow> ''module'') in
      if ev_source envelope \<noteq> expected then Inl (SourceMismatch expected (ev_source envelope))
      else Inr envelope)"

definition required_string :: "json option \<Rightarrow> string \<Rightarrow> NormalizationError + string" where
  "required_string value field =
     (case value of
        None \<Rightarrow> Inl (MissingField field)
      | Some v \<Rightarrow> ok_or (as_str v) (InvalidFieldType field))"

definition required_u64 :: "json option \<Rightarrow> string \<Rightarrow> NormalizationError + u64" where
  "required_u64 value field =
     (case value of
        None \<Rightarrow> Inl (MissingField field)
      | Some v \<Rightarrow> ok_or (as_u64 v) (InvalidFieldType field))"

definition parse_unified_event_line :: "Env \<Rightarrow> string \<Rightarrow> EventEnvelope option" where
  "parse_unified_event_line env line = Option.bind (env_parse_json env line) (env_decode_envelope env)"

text \<open>The module branch and the agent branch of the legacy line shape.\<close>

definition normalize_module_fields ::
  "(string, json) btree \<Rightarrow> json \<Rightarrow> string \<Rightarrow> string \<Rightarrow> u64 \<Rightarrow> NormalizationError + EventEnvelope" where
  "normalize_module_fields object module event_id source timestamp_ms =
     (case required_string (Some module) ''module'' of
        Inl e \<Rightarrow> Inl e
      | Inr module \<Rightarrow>
         (case required_string (bt_get object ''event_type'') ''event_type'' of
            Inl e \<Rightarrow> Inl e
          | Inr event_type \<Rightarrow>
             (case bt_get object ''payload'' of
                None \<Rightarrow> Inl (MissingField ''payload'')
              | Some payload \<Rightarrow>
                  enforce_source_consistency
                    \<lparr>ev_event_id = event_id, ev_source = source, ev_timestamp_ms = timestamp_ms,
                     ev_event = ModuleEv \<lparr>me_module = module, me_event_type = event_type,
                                          me_payload = payload\<rparr>\<rparr>)))"

definition normalize_agent_fields ::
  "(string, json) btree \<Rightarrow> string \<Rightarrow> string \<Rightarrow> u64 \<Rightarrow> NormalizationError + EventEnvelope" where
  "normalize_agent_fields object event_id source timestamp_ms =
     (case required_string (bt_get object ''agent_id'') ''agent_id'' of
        Inl e \<Rightarrow> Inl e
      | Inr agent_id \<Rightarrow>
         (case required_string (bt_get object ''event_type'') ''event_type'' of
            Inl e \<Rightarrow> Inl e
          | Inr event_type \<Rightarrow>
              enforce_source_consistency
                \<lparr>ev_event_id = event_id, ev_source = source, ev_timestamp_ms = timestamp_ms,
                 ev_event = AgentEvent agent_id event_type (bt_get object ''payload'')\<rparr>))"

definition normalize_event_line :: "Env \<Rightarrow> string \<Rightarrow> NormalizationError + EventEnvelope" where
  "normalize_event_line env line =
     (case parse_unified_event_line env line of
        Some envelope \<Rightarrow> enforce_source_consistency envelope
      | None \<Rightarrow>
         (case env_parse_json env line of
            None \<Rightarrow> Inl InvalidJson
          | Some value \<Rightarrow>
             (case as_object value of
                None \<Rightarrow> Inl InvalidSchema
              | Some object \<Rightarrow>
                 (case required_string (bt_get object ''event_id'') ''event_id'' of
                    Inl e \<Rightarrow> Inl e
                  | Inr event_id \<Rightarrow>
                     (case required_string (bt_get object ''source'') ''source'' of
                        Inl e \<Rightarrow> Inl e
                      | Inr source \<Rightarrow>
                         (case required_u64 (bt_get object ''timestamp_ms'') ''timestamp_ms'' of
                            Inl e \<Rightarrow> Inl e
                          | Inr timestamp_ms \<Rightarrow>
                             (case bt_get object ''module'' of
                                Some module \<Rightarrow>
                                  normalize_module_fields object module event_id source timestamp_ms
                              | None \<Rightarrow>
                                  normalize_agent_fields object event_id source timestamp_ms)))))))"

section \<open>The merged log\<close>

definition event_cmp :: "EventEnvelope \<Rightarrow> EventEnvelope \<Rightarrow> ordering" where
  "event_cmp left right =
     then_with
       (then_with (cmp (ev_timestamp_ms left) (ev_timestamp_ms right))
          (cmp (ev_event_id left) (ev_event_id right)))
       (cmp (ev_source left) (ev_source right))"

definition insert_event_sorted :: "EventEnvelope \<Rightarrow> EventEnvelope list \<Rightarrow> EventEnvelope list" where
  "insert_event_sorted event events =
     (let insertion_index =
        (case binary_search_by (\<lambda>existing. event_cmp existing event) events of
           Inr i \<Rightarrow> i
         | Inl i \<Rightarrow> i) in
      take insertion_index events @ [event] @ drop insertion_index events)"

definition append_normalized_event ::
  "EventEnvelope \<Rightarrow> MetaRuntimeHandle \<Rightarrow> (NormalizationError + unit) \<times> MetaRuntimeHandle" where
  "append_normalized_event event h =
     (case enforce_source_consistency event of
        Inl e \<Rightarrow> (Inl e, h)
      | Inr event \<Rightarrow> (Inr (), h\<lparr>rt_merged_events := insert_event_sorted event (rt_merged_events h)\<rparr>))"

definition inject_test_events :: "EventEnvelope list \<Rightarrow> MetaRuntimeHandle \<Rightarrow> MetaRuntimeHandle" where
  "inject_test_events events h =
     h\<lparr>rt_merged_events := foldl (\<lambda>log event. insert_event_sorted event log) (rt_merged_events h) events\<rparr>"

text \<open>The sort key of an event; \<open>sort_by\<close> is stable, as \<open>sort_key\<close> is.\<close>

definition event_key :: "EventEnvelope \<Rightarrow> u64 \<times> string \<times> string" where
  "event_key e = (ev_timestamp_ms e, ev_event_id e, ev_source e)"

definition merge_unified_events :: "EventEnvelope list \<Rightarrow> EventEnvelope list \<Rightarrow> EventEnvelope list" where
  "merge_unified_events module_events agent_events = sort_key event_key (module_events @ agent_events)"

section \<open>Subscription\<close>







definition agent_scope_filter_matches :: "string \<Rightarrow> string \<Rightarrow> bool" where
  "agent_scope_filter_matches selected agent_id =
     (if selected = agent_id then True
      else is_some_and
        (Option.bind (strip_prefix agent_id selected) (\<lambda>rest. strip_prefix rest '':''))
        (\<lambda>generation. generation \<noteq> [] \<and> list_all is_digit generation))"









section \<open>The log stays sorted\<close>

definition events_sorted :: "EventEnvelope list \<Rightarrow> bool" where
  "events_sorted events = sorted (map event_key events)"

lemma event_cmp_key: "event_cmp a b = cmp (event_key a) (event_key b)"
  by (auto simp: event_cmp_def event_key_def cmp_def then_with_def split: ordering.splits)

lemma cmp_simps:
  "cmp a b = Greater \<longleftrightarrow> b < a" "cmp a b = Less \<longleftrightarrow> a < b" "cmp a b = Equal \<longleftrightarrow> a = b"
  for a b :: "'a::linorder"
  by (auto simp: cmp_def)

lemma sorted_partitioned:
  assumes "events_sorted events"
  shows "partitioned (\<lambda>existing. event_cmp existing event) events"
proof -
  have "event_key (events ! i) \<le> event_key (events ! j)" if "i < j" "j < length events" for i j
    using sorted_nth_mono [of "map event_key events" i j] assms that by (simp add: events_sorted_def)
  then show ?thesis
    unfolding partitioned_def event_cmp_key cmp_simps by (blast intro: le_less_trans less_le_trans)
qed

text \<open>The insertion point separates what is not greater from what is not smaller.\<close>

lemma insertion_point:
  assumes "events_sorted events"
  obtains i where "insert_event_sorted event events = take i events @ [event] @ drop i events"
    and "i \<le> length events"
    and "\<forall>e \<in> set (take i events). event_key e \<le> event_key event"
    and "\<forall>e \<in> set (drop i events). event_key event \<le> event_key e"
proof (cases "events = []")
  case True
  then show ?thesis by (intro that [of 0]) (auto simp: insert_event_sorted_def binary_search_by_def)
next
  case False
  let ?f = "\<lambda>existing. event_cmp existing event"
  define b where "b = bs_loop ?f events 0 (length events)"
  have bound: "b < length events"
    using bs_loop_bounds [of "length events" 0 ?f events] False by (simp add: b_def)
  have split: "\<forall>i < b. ?f (events ! i) \<noteq> Greater"
    "\<forall>i. b < i \<longrightarrow> i < length events \<longrightarrow> ?f (events ! i) = Greater"
    using bs_loop_split [of "length events" 0 events ?f] False sorted_partitioned [OF assms]
    unfolding b_def by simp_all
  define i where "i = (if ?f (events ! b) = Less then Suc b else b)"
  have ins: "insert_event_sorted event events = take i events @ [event] @ drop i events"
    using False by (auto simp: insert_event_sorted_def binary_search_by_def b_def [symmetric] i_def Let_def
        split: ordering.splits)
  have low: "event_key (events ! j) \<le> event_key event" if "j < i" for j
    using that split(1) i_def by (auto simp: event_cmp_key cmp_simps less_Suc_eq split: if_splits)
  have high: "event_key event \<le> event_key (events ! j)" if "i \<le> j" "j < length events" for j
    using that split(2) i_def
    by (cases "j = b") (auto simp: event_cmp_key cmp_simps less_imp_le split: if_splits)
  show ?thesis
  proof (rule that [OF ins])
    show "i \<le> length events" using bound by (simp add: i_def)
    show "\<forall>e \<in> set (take i events). event_key e \<le> event_key event"
      using low bound by (auto simp: in_set_conv_nth)
    show "\<forall>e \<in> set (drop i events). event_key event \<le> event_key e"
      using high by (auto simp: in_set_conv_nth)
  qed
qed

lemma insert_event_sorted_sorted:
  assumes "events_sorted events"
  shows "events_sorted (insert_event_sorted event events)"
  using assms
proof (rule insertion_point [where event = event])
  fix i
  assume i: "insert_event_sorted event events = take i events @ [event] @ drop i events"
    "\<forall>e \<in> set (take i events). event_key e \<le> event_key event"
    "\<forall>e \<in> set (drop i events). event_key event \<le> event_key e"
  have "sorted (map event_key (take i events) @ map event_key (drop i events))"
    using assms by (simp add: events_sorted_def flip: map_append)
  then show ?thesis
    using i by (auto simp: events_sorted_def sorted_append)
qed

lemma mset_insert_event_sorted [simp]:
  "mset (insert_event_sorted event events) = add_mset event (mset events)"
proof -
  have "mset (take i events) + mset (drop i events) = mset events" for i
    by (metis append_take_drop_id mset_append)
  then show ?thesis by (simp add: insert_event_sorted_def Let_def)
qed

lemma insert_event_sorted_nonempty [simp]: "insert_event_sorted event events \<noteq> []"
  by (simp add: insert_event_sorted_def Let_def)

lemma merge_unified_events_sorted: "events_sorted (merge_unified_events ms as)"
  by (simp add: events_sorted_def merge_unified_events_def)

lemma last_timestamp_bound:
  assumes "events_sorted events" and "e \<in> set events"
  shows "ev_timestamp_ms e \<le> ev_timestamp_ms (last events)"
proof -
  have "event_key e \<le> event_key (last events)"
    using assms
  proof (induction events rule: rev_induct)
    case Nil
    then show ?case by simp
  next
    case (snoc x xs)
    then show ?case by (auto simp: events_sorted_def sorted_append)
  qed
  then show ?thesis by (auto simp: event_key_def)
qed

section \<open>Replay\<close>

text \<open>An agent filter accepts the public alias or its bare form without the numeric generation.\<close>

lemma agent_scope_filter_matches_iff:
  "agent_scope_filter_matches selected agent_id \<longleftrightarrow>
     agent_id = selected
     \<or> (\<exists>generation. agent_id = selected @ '':'' @ generation \<and> generation \<noteq> []
          \<and> list_all is_digit generation)"
  by (auto simp: agent_scope_filter_matches_def is_some_and_iff bind_eq_Some_conv)

section \<open>Properties\<close>

text \<open>
  Appending an event keeps the merged log sorted by timestamp, id and source and adds
  exactly that event; an event whose source contradicts its kind is refused and the log is
  unchanged.
\<close>

theorem append_normalized_event_sorted:
  assumes "events_sorted (rt_merged_events h)"
  shows "case append_normalized_event event h of
     (Inl e, h') \<Rightarrow> h' = h \<and> \<not> is_ok (enforce_source_consistency event)
   | (Inr _, h') \<Rightarrow> events_sorted (rt_merged_events h')
       \<and> mset (rt_merged_events h') = add_mset event (mset (rt_merged_events h))
       \<and> h' = h\<lparr>rt_merged_events := rt_merged_events h'\<rparr>"
proof (cases "enforce_source_consistency event")
  case (Inl e)
  then show ?thesis by (simp add: append_normalized_event_def)
next
  case (Inr event')
  then have "event' = event" by (simp add: enforce_source_consistency_def Let_def split: if_splits)
  with Inr show ?thesis
    using assms by (simp add: append_normalized_event_def insert_event_sorted_sorted)
qed

definition sample_event :: "string \<Rightarrow> u64 \<Rightarrow> EventEnvelope" where
  "sample_event i t =
     \<lparr>ev_event_id = i, ev_source = ''agent'', ev_timestamp_ms = t,
      ev_event = AgentEvent ''worker:0'' ''interaction.started'' None\<rparr>"

definition sample_handle :: MetaRuntimeHandle where
  "sample_handle =
     \<lparr>rt_config = \<lparr>mk_modules = [], mk_discovery = \<lparr>ds_namespace = [], ds_modules = []\<rparr>, mk_pre_spawn = []\<rparr>,
      rt_loaded_modules = {}, rt_merged_events = [], rt_routing_sequence = 0,
      rt_routing_resolutions = [], rt_routing_resolution_order = [], rt_runtime_routes = [],
      rt_delivery_sequence = 0, rt_delivery_runtime_epoch_ms = 0, rt_delivery_now_floor_ms = 0,
      rt_delivery_clock_ms = 0, rt_delivery_history = [], rt_delivery_idempotency = [],
      rt_delivery_idempotency_by_delivery = [], rt_delivery_rate_window_counts = [],
      rt_gating_epoch = Some ''0123456789abcdef0123456789abcdef'', rt_gating_sequence = 0,
      rt_gating_pending = [], rt_gating_pending_order = [], rt_gating_audit = [],
      rt_gating_notice_queue = [], rt_gating_delivered = [],
      rt_gating_escalation_routes = \<lparr>er_default = None, er_routes = []\<rparr>,
      rt_memory_sequence = 0, rt_memory_assertions = [], rt_memory_conflicts = [],
      rt_memory_backend = False, rt_tick = 0\<rparr>"

theorem append_normalized_event_sorted_witness:
  "let h = sample_handle\<lparr>rt_merged_events := [sample_event ''a'' 1, sample_event ''c'' 5]\<rparr> in
   events_sorted (rt_merged_events h)
   \<and> events_sorted (rt_merged_events (snd (append_normalized_event (sample_event ''b'' 5) h)))"
proof -
  let ?h = "sample_handle\<lparr>rt_merged_events := [sample_event ''a'' 1, sample_event ''c'' 5]\<rparr>"
  have "events_sorted (rt_merged_events ?h)"
    by (simp add: events_sorted_def event_key_def sample_event_def)
  moreover have "fst (append_normalized_event (sample_event ''b'' 5) ?h) = Inr ()"
    by (simp add: append_normalized_event_def enforce_source_consistency_def sample_event_def)
  ultimately show ?thesis
    using append_normalized_event_sorted [of ?h "sample_event ''b'' 5"]
    by (simp add: Let_def case_prod_beta)
qed

text \<open>
  Merging module and agent events at startup yields the log in its canonical order with
  exactly the events given.
\<close>

theorem merge_unified_events_correct:
  "events_sorted (merge_unified_events module_events agent_events)
   \<and> mset (merge_unified_events module_events agent_events) = mset module_events + mset agent_events"
  by (simp add: merge_unified_events_sorted) (simp add: merge_unified_events_def)








text \<open>
  Every event line that is accepted carries the source its kind demands: agent events the
  source \<open>agent\<close>, module events the source \<open>module\<close>.
\<close>

theorem normalize_event_line_consistent:
  "case normalize_event_line env line of
     Inl _ \<Rightarrow> True
   | Inr envelope \<Rightarrow>
      (case ev_event envelope of
         AgentEvent _ _ _ \<Rightarrow> ev_source envelope = ''agent''
       | ModuleEv _ \<Rightarrow> ev_source envelope = ''module'')"
proof -
  have ok: "case r of Inl _ \<Rightarrow> True | Inr envelope \<Rightarrow>
      (case ev_event envelope of AgentEvent _ _ _ \<Rightarrow> ev_source envelope = ''agent''
       | ModuleEv _ \<Rightarrow> ev_source envelope = ''module'')"
    if "r = enforce_source_consistency x \<or> (\<exists>e. r = Inl e)" for r x
    using that by (auto simp: enforce_source_consistency_def Let_def split: UnifiedEvent.splits)
  have "\<exists>x. normalize_module_fields object m i s t = enforce_source_consistency x
      \<or> (\<exists>e. normalize_module_fields object m i s t = Inl e)" for object m i s t
    by (auto simp: normalize_module_fields_def split: sum.splits option.splits)
  moreover have "\<exists>x. normalize_agent_fields object i s t = enforce_source_consistency x
      \<or> (\<exists>e. normalize_agent_fields object i s t = Inl e)" for object i s t
    by (auto simp: normalize_agent_fields_def split: sum.splits)
  ultimately have "\<exists>x. normalize_event_line env line = enforce_source_consistency x
      \<or> (\<exists>e. normalize_event_line env line = Inl e)"
    unfolding normalize_event_line_def by (auto split: option.splits sum.splits)
  then show ?thesis using ok by blast
qed

end
