(* ===== verification/Module_Process.thy ===== *)
theory Module_Process
  imports Event_Transport
begin

text \<open>
  Ownership of module processes (\<open>runtime/module_process.rs\<close>): a process is owned until the
  operating system confirmed its exit. Termination and cleanup steps, the retained set, and its
  observation. The system calls are parameters that answer by tick; every call takes a tick. The
  test seam that makes terminations fail is off outside tests.
\<close>

section \<open>Types\<close>

datatype ModuleCleanupPhase = CleanupPending | CleanupFailed | CleanupSettled

datatype ModuleCleanupOperation = KillOp | WaitOp

record ModuleCleanupFailure =
  mf_operation :: ModuleCleanupOperation
  mf_message :: string

datatype FirstLine = Line string | Closed_Stdout | TimedOut | ReadFailed string

datatype ProcessState = Running | Reaped

record ModuleProcess =
  mp_module_id :: string
  mp_pid :: u32
  mp_state :: ProcessState
  mp_kill_sent :: bool
  mp_failure :: "ModuleCleanupFailure option"

record ModuleCleanupProcessObservation =
  po_module_id :: string
  po_process_id :: u32
  po_kill_sent :: bool
  po_child_reaped :: bool
  po_reader_pending :: bool
  po_failure :: "ModuleCleanupFailure option"

record ModuleCleanupReapedProcess =
  rp_module_id :: string
  rp_process_id :: u32

record ModuleCleanupObservation =
  co_phase :: ModuleCleanupPhase
  co_outstanding :: "ModuleCleanupProcessObservation list"
  co_reaped :: "ModuleCleanupReapedProcess list"

text \<open>
  The operating system: spawning, the first output line, and the three calls on a child.
  \<open>try_wait\<close> answers whether the child has exited; \<open>wait\<close> that its exit was observed.
\<close>

record Os =
  os_spawn :: "nat \<Rightarrow> ModuleConfig \<Rightarrow> (string \<times> string) list \<Rightarrow> string + u32"
  os_first_line :: "nat \<Rightarrow> u32 \<Rightarrow> u64 \<Rightarrow> FirstLine"
  os_try_wait :: "nat \<Rightarrow> u32 \<Rightarrow> string + bool"
  os_kill :: "nat \<Rightarrow> u32 \<Rightarrow> string + unit"
  os_wait :: "nat \<Rightarrow> u32 \<Rightarrow> string + unit"
  os_debug_normalize :: "NormalizationError \<Rightarrow> string"

section \<open>One process\<close>

text \<open>Standard output is piped, so a spawned child has one.\<close>

definition spawn_process :: "Os \<Rightarrow> ModuleConfig \<Rightarrow> (string \<times> string) list \<Rightarrow> nat \<Rightarrow> (ProcessBoundaryError + ModuleProcess) \<times> nat" where
  "spawn_process os module envs t =
     ((case os_spawn os t module envs of
         Inl err \<Rightarrow> Inl (SpawnFailed err)
       | Inr pid \<Rightarrow> Inr \<lparr>mp_module_id = mc_id module, mp_pid = pid, mp_state = Running, mp_kill_sent = False,
           mp_failure = None\<rparr>), Suc t)"

text \<open>How the three calls of a termination ended, whether a kill was sent, and the ticks taken.\<close>

definition terminate_calls :: "Os \<Rightarrow> u32 \<Rightarrow> nat \<Rightarrow> (ModuleCleanupFailure + unit) \<times> bool \<times> nat" where
  "terminate_calls os pid t =
     (case os_try_wait os t pid of
        Inr True \<Rightarrow> (Inr (), False, t + 1)
      | Inr False \<Rightarrow>
         (case os_kill os (t + 1) pid of
            Inr _ \<Rightarrow>
              (case os_wait os (t + 2) pid of
                 Inr _ \<Rightarrow> Inr ()
               | Inl err \<Rightarrow> Inl \<lparr>mf_operation = WaitOp, mf_message = ''wait after kill failed: '' @ err\<rparr>, True, t + 3)
          | Inl kill_err \<Rightarrow>
              (case os_try_wait os (t + 2) pid of
                 Inr True \<Rightarrow> Inr ()
               | Inr False \<Rightarrow> Inl \<lparr>mf_operation = KillOp,
                   mf_message = ''kill failed while process still running: '' @ kill_err\<rparr>
               | Inl probe_err \<Rightarrow> Inl \<lparr>mf_operation = WaitOp,
                   mf_message = ''kill failed and process status probe failed: '' @ kill_err @ ''; '' @ probe_err\<rparr>,
               False, t + 3))
      | Inl err \<Rightarrow> (Inl \<lparr>mf_operation = WaitOp, mf_message = ''try_wait failed: '' @ err\<rparr>, False, t + 1))"

definition terminate :: "Os \<Rightarrow> bool \<Rightarrow> ModuleProcess \<Rightarrow> nat \<Rightarrow> (string + unit) \<times> ModuleProcess \<times> nat" where
  "terminate os force_failure p t =
     (if mp_state p = Reaped then (Inr (), p, t)
      else if force_failure then
        (let message = ''forced terminate failure for testing'' in
         (Inl message, p\<lparr>mp_failure := Some \<lparr>mf_operation = KillOp, mf_message = message\<rparr>\<rparr>, t))
      else
        (let (result, kill_sent, t) = terminate_calls os (mp_pid p) t;
             p = (if kill_sent then p\<lparr>mp_kill_sent := True\<rparr> else p) in
         case result of
           Inr _ \<Rightarrow> (Inr (), p\<lparr>mp_state := Reaped\<rparr>, t)
         | Inl failure \<Rightarrow> (Inl (mf_message failure), p\<lparr>mp_failure := Some failure\<rparr>, t)))"

definition progress_cleanup :: "Os \<Rightarrow> ModuleProcess \<Rightarrow> nat \<Rightarrow> bool \<times> ModuleProcess \<times> nat" where
  "progress_cleanup os p t =
     (if mp_state p = Reaped then (True, p, t)
      else case os_try_wait os t (mp_pid p) of
        Inr True \<Rightarrow> (True, p\<lparr>mp_state := Reaped\<rparr>, t + 1)
      | Inr False \<Rightarrow>
         (if mp_kill_sent p then (False, p, t + 1)
          else case os_kill os (t + 1) (mp_pid p) of
            Inr _ \<Rightarrow> (False, p\<lparr>mp_kill_sent := True\<rparr>, t + 2)
          | Inl err \<Rightarrow> (False, p\<lparr>mp_failure := Some \<lparr>mf_operation = KillOp,
                mf_message = ''kill failed while process still running: '' @ err\<rparr>\<rparr>, t + 2))
      | Inl err \<Rightarrow> (False, p\<lparr>mp_failure := Some \<lparr>mf_operation = WaitOp,
            mf_message = ''try_wait failed: '' @ err\<rparr>\<rparr>, t + 1))"

definition reaped_process :: "ModuleProcess \<Rightarrow> ModuleCleanupReapedProcess" where
  "reaped_process p = \<lparr>rp_module_id = mp_module_id p, rp_process_id = mp_pid p\<rparr>"

text \<open>What an owner reports; \<open>reader_pending\<close> is the value on Linux and macOS, the targets with a pollable pipe.\<close>

definition process_observation :: "ModuleProcess \<Rightarrow> ModuleCleanupProcessObservation" where
  "process_observation p =
     \<lparr>po_module_id = mp_module_id p, po_process_id = mp_pid p, po_kill_sent = mp_kill_sent p,
      po_child_reaped = (mp_state p = Reaped), po_reader_pending = False, po_failure = mp_failure p\<rparr>"

text \<open>Dropping an owner: kill, then wait; a wait that failed is only logged.\<close>

definition release :: "Os \<Rightarrow> ModuleProcess \<Rightarrow> nat \<Rightarrow> ModuleProcess \<times> nat" where
  "release os p t =
     (if mp_state p = Reaped then (p, t)
      else (case os_wait os (t + 1) (mp_pid p) of
          Inr _ \<Rightarrow> p\<lparr>mp_state := Reaped\<rparr>
        | Inl _ \<Rightarrow> p, t + 2))"

section \<open>Retained processes\<close>

definition retain :: "ModuleProcess \<Rightarrow> ModuleProcess list \<Rightarrow> ModuleProcess list" where
  "retain p processes = (if mp_state p \<noteq> Reaped then processes @ [p] else processes)"

definition cleanup_observation :: "ModuleProcess list \<Rightarrow> ModuleCleanupReapedProcess list \<Rightarrow> ModuleCleanupObservation" where
  "cleanup_observation processes reaped =
     (let outstanding = map process_observation processes in
      \<lparr>co_phase = (if outstanding = [] then CleanupSettled
          else if list_ex (\<lambda>p. po_failure p \<noteq> None) outstanding then CleanupFailed else CleanupPending),
       co_outstanding = outstanding, co_reaped = reaped\<rparr>)"

text \<open>\<open>retain_mut\<close>: the processes that stay, and the confirmed ones in order.\<close>

fun progress_all ::
  "Os \<Rightarrow> ModuleProcess list \<Rightarrow> nat \<Rightarrow> ModuleProcess list \<times> ModuleCleanupReapedProcess list \<times> nat" where
  "progress_all os [] t = ([], [], t)"
| "progress_all os (p # ps) t =
     (let (confirmed, p, t) = progress_cleanup os p t;
          (kept, reaped, t) = progress_all os ps t in
      if confirmed then (kept, reaped_process p # reaped, t) else (p # kept, reaped, t))"

definition progress :: "Os \<Rightarrow> ModuleProcess list \<Rightarrow> nat \<Rightarrow> ModuleCleanupObservation \<times> ModuleProcess list \<times> nat" where
  "progress os processes t =
     (let (kept, reaped, t) = progress_all os processes t in (cleanup_observation kept reaped, kept, t))"

section \<open>Custody\<close>

text \<open>The system confirmed the exit of a process at some tick of an interval.\<close>

definition confirmed :: "Os \<Rightarrow> nat \<Rightarrow> nat \<Rightarrow> u32 \<Rightarrow> bool" where
  "confirmed os t t' pid \<longleftrightarrow>
     (\<exists>k. t \<le> k \<and> k < t' \<and> (os_try_wait os k pid = Inr True \<or> os_wait os k pid = Inr ()))"

lemma confirmed_mono: "confirmed os t t' pid \<Longrightarrow> s \<le> t \<Longrightarrow> t' \<le> s' \<Longrightarrow> confirmed os s s' pid"
  unfolding confirmed_def by (meson le_trans less_le_trans)

lemma terminate_calls_facts:
  assumes "terminate_calls os pid t = (r, sent, t')"
  shows "t \<le> t'" and "r = Inr () \<Longrightarrow> confirmed os t t' pid"
proof -
  have at: "confirmed os t t' pid" if "k \<in> {t, t + 2}" "k < t'" "os_try_wait os k pid = Inr True \<or> os_wait os k pid = Inr ()" for k
    using that unfolding confirmed_def by (intro exI [of _ k]) auto
  show "t \<le> t'" "r = Inr () \<Longrightarrow> confirmed os t t' pid"
    using assms at [of t] at [of "t + 2"]
    by (auto simp: terminate_calls_def split: sum.splits bool.splits)
qed

text \<open>A termination that reports success was confirmed; otherwise the process stays unreaped.\<close>

lemma terminate_facts:
  assumes "terminate os force p t = (r, p', t')"
  shows "mp_pid p' = mp_pid p" and "mp_module_id p' = mp_module_id p" and "t \<le> t'"
    and "r = Inr () \<Longrightarrow> mp_state p' = Reaped \<and> (mp_state p = Reaped \<or> confirmed os t t' (mp_pid p))"
    and "r \<noteq> Inr () \<Longrightarrow> mp_state p' = Running \<and> mp_state p = Running"
proof -
  obtain c s t1 where c: "terminate_calls os (mp_pid p) t = (c, s, t1)" by (metis prod_cases3)
  note f = terminate_calls_facts [OF c]
  have two: "mp_state p = Reaped \<or> mp_state p = Running" by (cases "mp_state p") auto
  show "mp_pid p' = mp_pid p" "mp_module_id p' = mp_module_id p" "t \<le> t'"
    "r = Inr () \<Longrightarrow> mp_state p' = Reaped \<and> (mp_state p = Reaped \<or> confirmed os t t' (mp_pid p))"
    "r \<noteq> Inr () \<Longrightarrow> mp_state p' = Running \<and> mp_state p = Running"
    using assms c f two by (auto simp: terminate_def Let_def split: if_splits sum.splits)
qed

lemma progress_cleanup_facts:
  assumes "progress_cleanup os p t = (ok, p', t')"
  shows "mp_pid p' = mp_pid p" and "mp_module_id p' = mp_module_id p" and "t \<le> t'"
    and "ok \<Longrightarrow> mp_state p = Reaped \<or> confirmed os t t' (mp_pid p)"
    and "\<not> ok \<Longrightarrow> mp_state p' = Running"
proof -
  have two: "mp_state p = Reaped \<or> mp_state p = Running" by (cases "mp_state p") auto
  have at: "confirmed os t (t + 1) (mp_pid p)" if "os_try_wait os t (mp_pid p) = Inr True"
    using that unfolding confirmed_def by (intro exI [of _ t]) simp
  show "mp_pid p' = mp_pid p" "mp_module_id p' = mp_module_id p" "t \<le> t'"
    "ok \<Longrightarrow> mp_state p = Reaped \<or> confirmed os t t' (mp_pid p)" "\<not> ok \<Longrightarrow> mp_state p' = Running"
    using assms two at by (auto simp: progress_cleanup_def split: if_splits sum.splits bool.splits)
qed

text \<open>A cleanup step loses no process: each is kept or reported as reaped, and then confirmed.\<close>

lemma progress_all_custody:
  assumes "progress_all os ps t = (kept, reaped, t')" and "\<forall>p \<in> set ps. mp_state p = Running"
  shows "t \<le> t'" and "\<forall>p \<in> set kept. mp_state p = Running"
    and "mset (map mp_pid ps) = mset (map mp_pid kept) + mset (map rp_process_id reaped)"
    and "\<forall>r \<in> set reaped. confirmed os t t' (rp_process_id r)"
proof -
  have "t \<le> t' \<and> (\<forall>p \<in> set kept. mp_state p = Running)
      \<and> mset (map mp_pid ps) = mset (map mp_pid kept) + mset (map rp_process_id reaped)
      \<and> (\<forall>r \<in> set reaped. confirmed os t t' (rp_process_id r))"
    using assms
  proof (induction os ps t arbitrary: kept reaped t' rule: progress_all.induct)
    case (2 os p ps t)
    obtain ok p1 t1 where c: "progress_cleanup os p t = (ok, p1, t1)" by (metis prod_cases3)
    obtain k r t2 where rest: "progress_all os ps t1 = (k, r, t2)" by (metis prod_cases3)
    note f = progress_cleanup_facts [OF c]
    have IH: "t1 \<le> t2 \<and> (\<forall>p \<in> set k. mp_state p = Running)
        \<and> mset (map mp_pid ps) = mset (map mp_pid k) + mset (map rp_process_id r)
        \<and> (\<forall>x \<in> set r. confirmed os t1 t2 (rp_process_id x))"
      using "2.IH" [OF c [symmetric] refl refl rest] "2.prems"(2) by simp
    have t': "t' = t2" using "2.prems"(1) c rest by (simp split: if_splits)
    have later: "\<forall>x \<in> set r. confirmed os t t' (rp_process_id x)"
      using IH confirmed_mono f(3) t' by blast
    show ?case
    proof (cases ok)
      case True
      have "confirmed os t t' (mp_pid p)" using f(4) [OF True] "2.prems"(2) confirmed_mono [of os t t1 "mp_pid p" t t2] IH t'
        by auto
      then show ?thesis
        using "2.prems"(1) c rest True IH f t' later by (auto simp: reaped_process_def)
    next
      case False
      then show ?thesis using "2.prems"(1) c rest IH f t' later by auto
    qed
  qed simp
  then show "t \<le> t'" "\<forall>p \<in> set kept. mp_state p = Running"
    "mset (map mp_pid ps) = mset (map mp_pid kept) + mset (map rp_process_id reaped)"
    "\<forall>r \<in> set reaped. confirmed os t t' (rp_process_id r)"
    by blast+
qed

end
