(* ===== verification/Module_Boundary.thy ===== *)
theory Module_Boundary
  imports Runtime_Types
begin

text \<open>
  The module boundary (\<open>runtime/module_boundary.rs\<close>): which modules speak MCP, one tool call
  on a fresh connection with its timeouts, and how a close that did not settle joins the
  operation's own result. The connection is the environment's \<open>McpSession\<close>; a timeout is its
  length in milliseconds.
\<close>

definition MODULE_BOUNDARY_KIND_ENV :: string where
  "MODULE_BOUNDARY_KIND_ENV = ''META_MODULE_BOUNDARY''"

definition MODULE_BOUNDARY_KIND_MCP :: string where
  "MODULE_BOUNDARY_KIND_MCP = ''mcp''"

definition CORE_MODULE_MCP_TIMEOUT :: u64 where
  "CORE_MODULE_MCP_TIMEOUT = 5000"

definition ROUTER_RESOLVE_MCP_TOOL :: string where
  "ROUTER_RESOLVE_MCP_TOOL = ''routing.resolve''"

definition DELIVERY_SEND_MCP_TOOL :: string where
  "DELIVERY_SEND_MCP_TOOL = ''delivery.send''"

definition MEMORY_CONFLICT_READ_MCP_TOOL :: string where
  "MEMORY_CONFLICT_READ_MCP_TOOL = ''memory.conflict_read''"

definition own_pre_spawn :: "ModuleConfig \<Rightarrow> PreSpawnData option \<Rightarrow> PreSpawnData option" where
  "own_pre_spawn module pre_spawn = opt_filter (\<lambda>data. ps_module_id data = mc_id module) pre_spawn"

definition module_uses_mcp :: "ModuleConfig \<Rightarrow> PreSpawnData option \<Rightarrow> bool" where
  "module_uses_mcp module pre_spawn =
     is_some_and
       (Option.bind (own_pre_spawn module pre_spawn)
          (\<lambda>data. map_option snd (List.find (\<lambda>(key, _). key = MODULE_BOUNDARY_KIND_ENV) (ps_env data))))
       (\<lambda>value. eq_ignore_ascii_case (trim value) MODULE_BOUNDARY_KIND_MCP)"

definition module_env_with_extra ::
  "ModuleConfig \<Rightarrow> PreSpawnData option \<Rightarrow> (string \<times> string) list \<Rightarrow> (string \<times> string) list" where
  "module_env_with_extra module pre_spawn extra_env =
     unwrap_or (map_option ps_env (own_pre_spawn module pre_spawn)) [] @ extra_env"

definition mcp_required_error :: "string \<Rightarrow> string \<Rightarrow> RuntimeBoundaryError" where
  "mcp_required_error module_id flow = McpErr (McpRequired module_id flow)"

definition mcp_timeout_error :: "string \<Rightarrow> string \<Rightarrow> u64 \<Rightarrow> RuntimeBoundaryError" where
  "mcp_timeout_error module_id operation timeout = McpErr (McpTimeout module_id operation timeout)"

definition close_failure :: "string \<Rightarrow> mcp_close \<Rightarrow> RuntimeBoundaryError option" where
  "close_failure module_id outcome =
     (case outcome of
        None \<Rightarrow> None
      | Some (class, Some error) \<Rightarrow> Some (McpErr (CloseFailed module_id error))
      | Some (class, None) \<Rightarrow> Some (McpErr (CloseUnsettled module_id class)))"

definition close_settled :: "string \<Rightarrow> McpSession \<Rightarrow> RuntimeBoundaryError + unit" where
  "close_settled module_id session =
     (case close_failure module_id (ss_close session) of
        None \<Rightarrow> Inr ()
      | Some close \<Rightarrow> Inl close)"

fun attach_mcp_close_failure :: "RuntimeBoundaryError \<Rightarrow> RuntimeBoundaryError \<Rightarrow> RuntimeBoundaryError" where
  "attach_mcp_close_failure (McpErr primary) (McpErr close) =
     McpErr (OperationFailedWithCloseFailure primary close)"
| "attach_mcp_close_failure operation_error _ = operation_error"

fun finalize_mcp_operation_with_close ::
  "RuntimeBoundaryError + 'a \<Rightarrow> RuntimeBoundaryError + unit \<Rightarrow> RuntimeBoundaryError + 'a" where
  "finalize_mcp_operation_with_close (Inr value) (Inr _) = Inr value"
| "finalize_mcp_operation_with_close (Inr _) (Inl close_error) = Inl close_error"
| "finalize_mcp_operation_with_close (Inl operation_error) (Inr _) = Inl operation_error"
| "finalize_mcp_operation_with_close (Inl operation_error) (Inl close_error) =
     Inl (attach_mcp_close_failure operation_error close_error)"

definition connect_within :: "string \<Rightarrow> McpSession \<Rightarrow> u64 \<Rightarrow> RuntimeBoundaryError + unit" where
  "connect_within module_id session timeout =
     (case ss_connect session of
        None \<Rightarrow> Inr ()
      | Some failure \<Rightarrow>
         (let primary =
            (if cf_timed_out failure then mcp_timeout_error module_id ''connect'' timeout
             else McpErr (ConnectionFailed module_id (cf_error failure))) in
          case close_failure module_id (cf_close failure) of
            Some close \<Rightarrow> Inl (attach_mcp_close_failure primary close)
          | None \<Rightarrow> Inl primary))"

definition list_tools_with_timeout :: "string \<Rightarrow> McpSession \<Rightarrow> u64 \<Rightarrow> RuntimeBoundaryError + string list" where
  "list_tools_with_timeout module_id session timeout =
     (case ss_list_tools session of
        McpTimedOut \<Rightarrow> Inl (mcp_timeout_error module_id ''list_tools'' timeout)
      | McpFailed error \<Rightarrow> Inl (McpErr (ToolListFailed module_id error))
      | McpOk tools \<Rightarrow> Inr tools)"

fun text_of :: "ContentBlock \<Rightarrow> string option" where
  "text_of (TextBlock text) = Some text"
| "text_of (OtherBlock _) = None"

definition content_blocks_to_text :: "Env \<Rightarrow> ContentBlock list \<Rightarrow> string" where
  "content_blocks_to_text env blocks =
     (if list_all (\<lambda>b. text_of b \<noteq> None) blocks then concat (List.map_filter text_of blocks)
      else env_print_blocks env blocks)"

definition call_tool_with_timeout ::
  "Env \<Rightarrow> string \<Rightarrow> string \<Rightarrow> McpSession \<Rightarrow> json \<Rightarrow> u64 \<Rightarrow> RuntimeBoundaryError + string" where
  "call_tool_with_timeout env module_id tool_name session args timeout =
     (case ss_call_tool session tool_name args of
        McpTimedOut \<Rightarrow> Inl (mcp_timeout_error module_id (''call_tool:'' @ tool_name) timeout)
      | McpFailed error \<Rightarrow> Inl (McpErr (ToolCallFailed module_id tool_name error))
      | McpOk blocks \<Rightarrow> Inr (content_blocks_to_text env blocks))"

definition run_in_tokio_runtime :: "McpSession \<Rightarrow> RuntimeBoundaryError + 'a \<Rightarrow> RuntimeBoundaryError + 'a" where
  "run_in_tokio_runtime session future =
     (if ss_in_runtime session
      then Inl (McpErr (RuntimeUnavailable
        ''cannot execute blocking MCP boundary call inside an active tokio runtime''))
      else case ss_build_error session of
        Some error \<Rightarrow> Inl (McpErr (RuntimeUnavailable error))
      | None \<Rightarrow> future)"

text \<open>The part of a tool call between connecting and closing.\<close>

definition call_listed_tool ::
  "Env \<Rightarrow> string \<Rightarrow> McpSession \<Rightarrow> string \<Rightarrow> json \<Rightarrow> u64 \<Rightarrow> RuntimeBoundaryError + string" where
  "call_listed_tool env module_id session tool_name args timeout =
     (case list_tools_with_timeout module_id session timeout of
        Inl e \<Rightarrow> Inl e
      | Inr available_tools \<Rightarrow>
          if tool_name \<notin> set available_tools
          then Inl (McpErr (ToolNotFound module_id tool_name available_tools))
          else call_tool_with_timeout env module_id tool_name session args timeout)"

definition call_module_mcp_tool_text ::
  "Env \<Rightarrow> nat \<Rightarrow> ModuleConfig \<Rightarrow> PreSpawnData option \<Rightarrow> string \<Rightarrow> json \<Rightarrow> u64
     \<Rightarrow> RuntimeBoundaryError + string" where
  "call_module_mcp_tool_text env tick module pre_spawn tool_name args timeout =
     (let module_id = mc_id module;
          session = env_mcp env tick module (module_env_with_extra module pre_spawn []) in
      run_in_tokio_runtime session
        (case connect_within module_id session timeout of
           Inl e \<Rightarrow> Inl e
         | Inr _ \<Rightarrow>
             finalize_mcp_operation_with_close
               (call_listed_tool env module_id session tool_name args timeout)
               (close_settled module_id session)))"

definition call_module_mcp_tool_json ::
  "Env \<Rightarrow> ModuleConfig \<Rightarrow> PreSpawnData option \<Rightarrow> string \<Rightarrow> json \<Rightarrow> u64 \<Rightarrow> MetaRuntimeHandle
     \<Rightarrow> (RuntimeBoundaryError + json) \<times> MetaRuntimeHandle" where
  "call_module_mcp_tool_json env module pre_spawn tool_name args timeout h =
     ((case call_module_mcp_tool_text env (rt_tick h) module pre_spawn tool_name args timeout of
         Inl e \<Rightarrow> Inl e
       | Inr response \<Rightarrow>
          (case env_parse_json env response of
             Some v \<Rightarrow> Inr v
           | None \<Rightarrow> Inl (McpErr (InvalidJsonResponse (mc_id module) tool_name response)))),
      h\<lparr>rt_tick := Suc (rt_tick h)\<rparr>)"

definition probe_module_mcp_tools ::
  "Env \<Rightarrow> nat \<Rightarrow> ModuleConfig \<Rightarrow> PreSpawnData option \<Rightarrow> u64 \<Rightarrow> RuntimeBoundaryError + string list" where
  "probe_module_mcp_tools env tick module pre_spawn timeout =
     (let module_id = mc_id module;
          session = env_mcp env tick module (module_env_with_extra module pre_spawn []) in
      run_in_tokio_runtime session
        (case connect_within module_id session timeout of
           Inl e \<Rightarrow> Inl e
         | Inr _ \<Rightarrow>
            (case finalize_mcp_operation_with_close (list_tools_with_timeout module_id session timeout)
                    (close_settled module_id session) of
               Inl e \<Rightarrow> Inl e
             | Inr tools \<Rightarrow> Inr (sort tools))))"

section \<open>Module lookups of the handle\<close>

definition is_module_loaded :: "MetaRuntimeHandle \<Rightarrow> string \<Rightarrow> bool" where
  "is_module_loaded h module_id = (module_id \<in> rt_loaded_modules h)"

definition module_and_prespawn ::
  "MetaRuntimeHandle \<Rightarrow> string \<Rightarrow> (ModuleConfig \<times> PreSpawnData option) option" where
  "module_and_prespawn h module_id =
     (case List.find (\<lambda>module. mc_id module = module_id) (mk_modules (rt_config h)) of
        None \<Rightarrow> None
      | Some module \<Rightarrow>
          Some (module, List.find (\<lambda>data. ps_module_id data = module_id) (mk_pre_spawn (rt_config h))))"

section \<open>What a successful call means\<close>

lemma finalize_ok [simp]:
  "finalize_mcp_operation_with_close r c = Inr v \<longleftrightarrow> r = Inr v \<and> c = Inr ()"
  by (cases r; cases c) auto

lemma close_settled_ok [simp]: "close_settled m s = Inr u \<longleftrightarrow> ss_close s = None"
  by (auto simp: close_settled_def close_failure_def split: option.splits prod.splits)

text \<open>
  A tool call reports text only from a connected server that listed the tool, answered it
  within the timeout, and whose close settled.
\<close>

lemma call_module_mcp_tool_text_ok:
  assumes "call_module_mcp_tool_text env tick module pre_spawn tool args timeout = Inr text"
  shows "\<exists>tools blocks. let session = env_mcp env tick module (module_env_with_extra module pre_spawn []) in
    ss_connect session = None \<and> ss_list_tools session = McpOk tools \<and> tool \<in> set tools
    \<and> ss_call_tool session tool args = McpOk blocks \<and> ss_close session = None
    \<and> text = content_blocks_to_text env blocks"
  using assms
  by (auto simp: call_module_mcp_tool_text_def run_in_tokio_runtime_def connect_within_def
      call_listed_tool_def list_tools_with_timeout_def call_tool_with_timeout_def Let_def
      split: option.splits if_splits mcp_call.splits)

lemma call_module_mcp_tool_json_handle [simp]:
  "snd (call_module_mcp_tool_json env m p t a to h) = h\<lparr>rt_tick := Suc (rt_tick h)\<rparr>"
  by (simp add: call_module_mcp_tool_json_def)

lemma current_time_ms_simps [simp]:
  "fst (current_time_ms env h) = env_clock env (rt_tick h)"
  "snd (current_time_ms env h) = h\<lparr>rt_tick := Suc (rt_tick h)\<rparr>"
  by (simp_all add: current_time_ms_def)

end
