(* ===== verification/Routing.thy ===== *)
theory Routing
  imports Module_Boundary Event_Transport
begin

text \<open>
  Routing (\<open>runtime/routing.rs\<close>): the runtime route table, the resolution of a recipient and
  channel to a sink through the router module and that table, and the bounded memory of
  resolutions that delivery later trusts. The delivery clock (\<open>runtime/delivery.rs\<close>) that
  stamps a resolution's event is here too, because resolving is the first to advance it.
\<close>

section \<open>The delivery clock\<close>

definition refresh_delivery_clocks_from_now :: "Env \<Rightarrow> MetaRuntimeHandle \<Rightarrow> MetaRuntimeHandle" where
  "refresh_delivery_clocks_from_now env h =
     (let (now, h) = current_time_ms env h;
          observed_now_ms = saturating_sub now (rt_delivery_runtime_epoch_ms h);
          floor = max (rt_delivery_now_floor_ms h) observed_now_ms in
      h\<lparr>rt_delivery_now_floor_ms := floor,
        rt_delivery_clock_ms := max (rt_delivery_clock_ms h) floor\<rparr>)"

definition next_route_resolved_timestamp_ms :: "Env \<Rightarrow> MetaRuntimeHandle \<Rightarrow> u64 \<times> MetaRuntimeHandle" where
  "next_route_resolved_timestamp_ms env h =
     (let h = refresh_delivery_clocks_from_now env h;
          latest_merged_timestamp_ms =
            (if rt_merged_events h = [] then 0 else ev_timestamp_ms (last (rt_merged_events h)));
          timestamp_ms = max (rt_delivery_clock_ms h) latest_merged_timestamp_ms in
      (timestamp_ms, h\<lparr>rt_delivery_clock_ms := timestamp_ms\<rparr>))"

section \<open>Router overrides\<close>

definition ROUTING_RESOLUTION_LIMIT_MAX :: nat where
  "ROUTING_RESOLUTION_LIMIT_MAX = 512"

definition ROUTING_RETRY_MAX_CAP :: u32 where
  "ROUTING_RETRY_MAX_CAP = 10"

definition WILDCARD_ROUTE :: string where
  "WILDCARD_ROUTE = ''*''"

definition payload_text :: "(string, json) btree \<Rightarrow> string \<Rightarrow> string option" where
  "payload_text payload key = Option.bind (Option.bind (bt_get payload key) as_str) require_non_empty"

definition parse_router_payload_overrides :: "(string, json) btree \<Rightarrow> RouterBoundaryOverrides" where
  "parse_router_payload_overrides payload =
     \<lparr>rb_channel = payload_text payload ''channel'',
      rb_sink = payload_text payload ''sink'',
      rb_target_module = payload_text payload ''target_module'',
      rb_retry_max = Option.bind (Option.bind (bt_get payload ''retry_max'') as_u64) u32_try_from,
      rb_backoff_ms = Option.bind (bt_get payload ''backoff_ms'') as_u64,
      rb_rate_limit_per_minute =
        Option.bind (Option.bind (bt_get payload ''rate_limit_per_minute'') as_u64) u32_try_from\<rparr>"

definition no_overrides :: RouterBoundaryOverrides where
  "no_overrides = \<lparr>rb_channel = None, rb_sink = None, rb_target_module = None, rb_retry_max = None,
     rb_backoff_ms = None, rb_rate_limit_per_minute = None\<rparr>"

definition parse_router_mcp_overrides :: "json \<Rightarrow> RouterBoundaryOverrides" where
  "parse_router_mcp_overrides response =
     (case as_object response of
        None \<Rightarrow> no_overrides
      | Some payload \<Rightarrow> parse_router_payload_overrides payload)"

section \<open>Remembered resolutions\<close>

definition remember_routing_resolution :: "RoutingResolution \<Rightarrow> MetaRuntimeHandle \<Rightarrow> MetaRuntimeHandle" where
  "remember_routing_resolution resolution h =
     (let route_id = rs_route_id resolution;
          resolutions = bt_insert route_id resolution (rt_routing_resolutions h);
          (order, resolutions) =
            evict_over ROUTING_RESOLUTION_LIMIT_MAX bt_remove
              (rt_routing_resolution_order h @ [route_id]) resolutions in
      h\<lparr>rt_routing_resolutions := resolutions, rt_routing_resolution_order := order\<rparr>)"

definition next_routing_sequence :: "MetaRuntimeHandle \<Rightarrow> u64 \<times> MetaRuntimeHandle" where
  "next_routing_sequence h =
     (let (seq, counter) = next_sequence (rt_routing_sequence h) in
      (seq, h\<lparr>rt_routing_sequence := counter\<rparr>))"

section \<open>The route table\<close>

definition matching_runtime_route :: "MetaRuntimeHandle \<Rightarrow> string \<Rightarrow> string \<Rightarrow> RuntimeRoute option" where
  "matching_runtime_route h recipient channel =
     (let routes = bt_values (rt_runtime_routes h);
          named = (\<lambda>route. ro_recipient route \<noteq> WILDCARD_ROUTE \<and> ro_recipient route = recipient);
          wild = (\<lambda>route. ro_recipient route = WILDCARD_ROUTE);
          exact_channel = (\<lambda>route. is_none_or (ro_channel route) (\<lambda>c. c \<noteq> WILDCARD_ROUTE \<and> c = channel));
          wild_channel = (\<lambda>route. ro_channel route = Some WILDCARD_ROUTE) in
      case List.find (\<lambda>route. named route \<and> exact_channel route) routes of
        Some route \<Rightarrow> Some route
      | None \<Rightarrow>
         (case List.find (\<lambda>route. named route \<and> wild_channel route) routes of
            Some route \<Rightarrow> Some route
          | None \<Rightarrow>
             (case List.find (\<lambda>route. wild route \<and> exact_channel route) routes of
                Some route \<Rightarrow> Some route
              | None \<Rightarrow> List.find (\<lambda>route. wild route \<and> wild_channel route) routes)))"

definition list_runtime_routes :: "MetaRuntimeHandle \<Rightarrow> RuntimeRoute list" where
  "list_runtime_routes h = bt_values (rt_runtime_routes h)"

text \<open>The canonical form of a route, or the first reason to refuse it.\<close>

definition canonical_route :: "RuntimeRoute \<Rightarrow> RuntimeRouteMutationError + RuntimeRoute" where
  "canonical_route route =
     (case require_non_empty (ro_route_key route) of
        None \<Rightarrow> Inl RmEmptyRouteKey
      | Some route_key \<Rightarrow>
         (case require_non_empty (ro_recipient route) of
            None \<Rightarrow> Inl RmEmptyRecipient
          | Some recipient \<Rightarrow>
             (if is_some_and (ro_channel route) (\<lambda>channel. require_non_empty channel = None)
              then Inl RmInvalidChannel
              else case require_non_empty (ro_sink route) of
                None \<Rightarrow> Inl RmEmptySink
              | Some sink \<Rightarrow>
                 (case require_non_empty (ro_target_module route) of
                    None \<Rightarrow> Inl RmEmptyTargetModule
                  | Some target_module \<Rightarrow>
                     (if is_some_and (ro_retry_max route) (\<lambda>retry_max. retry_max > ROUTING_RETRY_MAX_CAP)
                      then Inl (RmRetryMaxExceedsCap (unwrap_or (ro_retry_max route) 0) ROUTING_RETRY_MAX_CAP)
                      else if ro_rate_limit_per_minute route = Some 0 then Inl RmInvalidRateLimitPerMinute
                      else Inr (route\<lparr>ro_route_key := route_key, ro_recipient := recipient,
                                  ro_channel := Option.bind (ro_channel route) require_non_empty,
                                  ro_sink := sink, ro_target_module := target_module\<rparr>))))))"

definition add_runtime_route ::
  "RuntimeRoute \<Rightarrow> MetaRuntimeHandle \<Rightarrow> (RuntimeRouteMutationError + RuntimeRoute) \<times> MetaRuntimeHandle" where
  "add_runtime_route route h =
     (case canonical_route route of
        Inl e \<Rightarrow> (Inl e, h)
      | Inr canon \<Rightarrow>
          (Inr canon,
           h\<lparr>rt_runtime_routes := bt_insert (ro_route_key canon) canon (rt_runtime_routes h)\<rparr>))"

definition delete_runtime_route ::
  "string \<Rightarrow> MetaRuntimeHandle \<Rightarrow> (RuntimeRouteMutationError + RuntimeRoute) \<times> MetaRuntimeHandle" where
  "delete_runtime_route route_key h =
     (let route_key = trim route_key in
      if route_key = [] then (Inl RmEmptyRouteKey, h)
      else case bt_get (rt_runtime_routes h) route_key of
        None \<Rightarrow> (Inl (RmRouteNotFound route_key), h)
      | Some route \<Rightarrow> (Inr route, h\<lparr>rt_runtime_routes := bt_remove route_key (rt_runtime_routes h)\<rparr>))"

section \<open>Encodings\<close>

definition routing_request_json :: "RoutingResolveRequest \<Rightarrow> json" where
  "routing_request_json rq = json_object
     [(''recipient'', JString (rq_recipient rq)),
      (''channel'', json_opt_str (rq_channel rq)),
      (''retry_max'', json_option json_u32 (rq_retry_max rq)),
      (''backoff_ms'', json_option json_u64 (rq_backoff_ms rq)),
      (''rate_limit_per_minute'', json_option json_u32 (rq_rate_limit_per_minute rq))]"

definition resolution_json :: "RoutingResolution \<Rightarrow> json" where
  "resolution_json r = json_object
     [(''route_id'', JString (rs_route_id r)),
      (''recipient'', JString (rs_recipient r)),
      (''channel'', JString (rs_channel r)),
      (''sink'', JString (rs_sink r)),
      (''target_module'', JString (rs_target_module r)),
      (''retry_max'', json_u32 (rs_retry_max r)),
      (''backoff_ms'', json_u64 (rs_backoff_ms r)),
      (''rate_limit_per_minute'', json_u32 (rs_rate_limit_per_minute r))]"

section \<open>Resolution\<close>

text \<open>The resolution under construction: the mutable locals of \<open>resolve_routing\<close>.\<close>

record RouteDraft =
  dft_recipient :: string
  dft_channel :: string
  dft_sink :: string
  dft_target_module :: string
  dft_retry_max :: u32
  dft_backoff_ms :: u64
  dft_rate_limit :: u32

definition check_draft :: "RouteDraft \<Rightarrow> RoutingResolveError + unit" where
  "check_draft draft =
     (if dft_retry_max draft > ROUTING_RETRY_MAX_CAP
      then Inl (RetryMaxExceedsCap (dft_retry_max draft) ROUTING_RETRY_MAX_CAP)
      else if dft_rate_limit draft = 0 then Inl InvalidRateLimitPerMinute
      else Inr ())"

definition default_sink :: "string \<Rightarrow> string" where
  "default_sink recipient =
     (if CHR ''@'' \<in> set recipient then ''email''
      else if starts_with recipient ''+'' then ''sms''
      else ''webhook'')"

definition initial_draft :: "RoutingResolveRequest \<Rightarrow> RoutingResolveError + RouteDraft" where
  "initial_draft request =
     (case require_non_empty (rq_recipient request) of
        None \<Rightarrow> Inl EmptyRecipient
      | Some recipient \<Rightarrow>
         (case require_non_empty (unwrap_or (rq_channel request) ''notification'') of
            None \<Rightarrow> Inl InvalidChannel
          | Some channel \<Rightarrow>
             (let draft = \<lparr>dft_recipient = recipient, dft_channel = channel,
                    dft_sink = default_sink recipient, dft_target_module = ''delivery'',
                    dft_retry_max = unwrap_or (rq_retry_max request) 1,
                    dft_backoff_ms = unwrap_or (rq_backoff_ms request) 250,
                    dft_rate_limit = unwrap_or (rq_rate_limit_per_minute request) 2\<rparr> in
              case check_draft draft of Inl e \<Rightarrow> Inl e | Inr _ \<Rightarrow> Inr draft)))"

definition call_router ::
  "Env \<Rightarrow> RoutingResolveRequest \<Rightarrow> MetaRuntimeHandle
     \<Rightarrow> (RoutingResolveError + RouterBoundaryOverrides) \<times> MetaRuntimeHandle" where
  "call_router env request h =
     (case module_and_prespawn h ''router'' of
        None \<Rightarrow> (Inl (RouterBoundary (mcp_required_error ''router'' ROUTER_RESOLVE_MCP_TOOL)), h)
      | Some (router_module, pre_spawn) \<Rightarrow>
          if \<not> module_uses_mcp router_module pre_spawn
          then (Inl (RouterBoundary (mcp_required_error ''router'' ROUTER_RESOLVE_MCP_TOOL)), h)
          else
            (let (response, h) = call_module_mcp_tool_json env router_module pre_spawn
                   ROUTER_RESOLVE_MCP_TOOL (routing_request_json request) CORE_MODULE_MCP_TIMEOUT h in
             case response of
               Inl e \<Rightarrow> (Inl (RouterBoundary e), h)
             | Inr value \<Rightarrow> (Inr (parse_router_mcp_overrides value), h)))"

definition apply_overrides :: "RouterBoundaryOverrides \<Rightarrow> RouteDraft \<Rightarrow> RouteDraft" where
  "apply_overrides overrides draft =
     draft\<lparr>dft_channel := unwrap_or (rb_channel overrides) (dft_channel draft),
           dft_sink := unwrap_or (rb_sink overrides) (dft_sink draft),
           dft_target_module := unwrap_or (rb_target_module overrides) (dft_target_module draft),
           dft_retry_max := unwrap_or (rb_retry_max overrides) (dft_retry_max draft),
           dft_backoff_ms := unwrap_or (rb_backoff_ms overrides) (dft_backoff_ms draft),
           dft_rate_limit := unwrap_or (rb_rate_limit_per_minute overrides) (dft_rate_limit draft)\<rparr>"

definition apply_route :: "RuntimeRoute option \<Rightarrow> RouteDraft \<Rightarrow> RouteDraft" where
  "apply_route route_override draft =
     (case route_override of
        None \<Rightarrow> draft
      | Some route \<Rightarrow>
          draft\<lparr>dft_sink := ro_sink route,
                dft_target_module := ro_target_module route,
                dft_retry_max := unwrap_or (ro_retry_max route) (dft_retry_max draft),
                dft_backoff_ms := unwrap_or (ro_backoff_ms route) (dft_backoff_ms draft),
                dft_rate_limit := unwrap_or (ro_rate_limit_per_minute route) (dft_rate_limit draft)\<rparr>)"

definition draft_resolution :: "string \<Rightarrow> RouteDraft \<Rightarrow> RoutingResolution" where
  "draft_resolution route_id draft =
     \<lparr>rs_route_id = route_id, rs_recipient = dft_recipient draft, rs_channel = dft_channel draft,
      rs_sink = dft_sink draft, rs_target_module = dft_target_module draft,
      rs_retry_max = dft_retry_max draft, rs_backoff_ms = dft_backoff_ms draft,
      rs_rate_limit_per_minute = dft_rate_limit draft\<rparr>"

text \<open>Mint the route id, remember the resolution and log it.\<close>

definition record_resolution ::
  "Env \<Rightarrow> RouteDraft \<Rightarrow> MetaRuntimeHandle \<Rightarrow> RoutingResolution \<times> MetaRuntimeHandle" where
  "record_resolution env draft h =
     (let (route_sequence, h) = next_routing_sequence h;
          resolution = draft_resolution (''route-'' @ fmt06 route_sequence) draft;
          h = remember_routing_resolution resolution h;
          (resolved_timestamp_ms, h) = next_route_resolved_timestamp_ms env h;
          event = \<lparr>ev_event_id = ''evt-routing-'' @ fmt06 route_sequence, ev_source = ''module'',
                   ev_timestamp_ms = resolved_timestamp_ms,
                   ev_event = ModuleEv \<lparr>me_module = ''router'', me_event_type = ''resolved'',
                                        me_payload = resolution_json resolution\<rparr>\<rparr> in
      (resolution, h\<lparr>rt_merged_events := insert_event_sorted event (rt_merged_events h)\<rparr>))"

definition resolve_routing ::
  "Env \<Rightarrow> RoutingResolveRequest \<Rightarrow> MetaRuntimeHandle
     \<Rightarrow> (RoutingResolveError + RoutingResolution) \<times> MetaRuntimeHandle" where
  "resolve_routing env request h =
     (if \<not> is_module_loaded h ''router'' then (Inl RouterModuleNotLoaded, h)
      else if \<not> is_module_loaded h ''delivery'' then (Inl RouteDeliveryModuleNotLoaded, h)
      else case initial_draft request of
        Inl e \<Rightarrow> (Inl e, h)
      | Inr draft \<Rightarrow>
         (case call_router env request h of
            (Inl e, h) \<Rightarrow> (Inl e, h)
          | (Inr overrides, h) \<Rightarrow>
             (let draft = apply_overrides overrides draft in
              case check_draft draft of
                Inl e \<Rightarrow> (Inl e, h)
              | Inr _ \<Rightarrow>
                 (let draft = apply_route
                        (matching_runtime_route h (dft_recipient draft) (dft_channel draft)) draft in
                  case check_draft draft of
                    Inl e \<Rightarrow> (Inl e, h)
                  | Inr _ \<Rightarrow>
                     (let (resolution, h) = record_resolution env draft h in (Inr resolution, h))))))"

section \<open>Calling a module\<close>

record ModuleRouteRequest =
  mrq_module_id :: string
  mrq_method :: string
  mrq_params :: json

record ModuleRouteResponse =
  mrp_module_id :: string
  mrp_method :: string
  mrp_payload :: json

datatype ModuleRouteError =
    UnloadedModule string
  | ModuleRuntime RuntimeBoundaryError
  | UnexpectedRouteResponse

definition core_module_requires_mcp :: "string \<Rightarrow> bool" where
  "core_module_requires_mcp module_id = (module_id \<in> set [''router'', ''delivery'', ''memory''])"

definition run_module_boundary_with_env ::
  "Env \<Rightarrow> nat \<Rightarrow> ModuleConfig \<Rightarrow> PreSpawnData option \<Rightarrow> (string \<times> string) list
     \<Rightarrow> RuntimeBoundaryError + EventEnvelope" where
  "run_module_boundary_with_env env tick module pre_spawn extra_env =
     (case env_process env tick module (module_env_with_extra module pre_spawn extra_env) of
        Inl e \<Rightarrow> Inl (ProcessErr e)
      | Inr line \<Rightarrow> map_sum NormalizeErr id (normalize_event_line env line))"

definition run_module_boundary_once ::
  "Env \<Rightarrow> nat \<Rightarrow> ModuleConfig \<Rightarrow> PreSpawnData option \<Rightarrow> RuntimeBoundaryError + EventEnvelope" where
  "run_module_boundary_once env tick module pre_spawn =
     run_module_boundary_with_env env tick module pre_spawn []"

definition route_module_call ::
  "Env \<Rightarrow> MetaRuntimeHandle \<Rightarrow> ModuleRouteRequest \<Rightarrow> u64 \<Rightarrow> ModuleRouteError + ModuleRouteResponse" where
  "route_module_call env h request timeout =
     (let module_id = mrq_module_id request;
          respond = (\<lambda>payload. Inr \<lparr>mrp_module_id = module_id, mrp_method = mrq_method request,
                                    mrp_payload = payload\<rparr>) in
      if module_id \<notin> rt_loaded_modules h then Inl (UnloadedModule module_id)
      else case module_and_prespawn h module_id of
        None \<Rightarrow> Inl (UnloadedModule module_id)
      | Some (module, pre_spawn) \<Rightarrow>
         (let uses_mcp = module_uses_mcp module pre_spawn in
          if core_module_requires_mcp (mc_id module) \<and> \<not> uses_mcp
          then Inl (ModuleRuntime (mcp_required_error module_id (mrq_method request)))
          else if uses_mcp then
            (case call_module_mcp_tool_text env (rt_tick h) module pre_spawn (mrq_method request)
                    (mrq_params request) timeout of
               Inl e \<Rightarrow> Inl (ModuleRuntime e)
             | Inr response \<Rightarrow> respond (unwrap_or (env_parse_json env response) (JString response)))
          else
            (case run_module_boundary_once env (rt_tick h) module pre_spawn of
               Inl e \<Rightarrow> Inl (ModuleRuntime e)
             | Inr envelope \<Rightarrow>
                (case ev_event envelope of
                   ModuleEv event \<Rightarrow>
                     if me_module event = module_id then respond (me_payload event)
                     else Inl UnexpectedRouteResponse
                 | AgentEvent _ _ _ \<Rightarrow> Inl UnexpectedRouteResponse))))"

section \<open>Invariants\<close>

definition route_ok :: "RuntimeRoute \<Rightarrow> bool" where
  "route_ok r \<longleftrightarrow>
     canonical (ro_route_key r) \<and> canonical (ro_recipient r) \<and> canonical (ro_sink r)
     \<and> canonical (ro_target_module r) \<and> is_none_or (ro_channel r) canonical
     \<and> is_none_or (ro_retry_max r) (\<lambda>n. n \<le> ROUTING_RETRY_MAX_CAP)
     \<and> ro_rate_limit_per_minute r \<noteq> Some 0"

definition routes_inv :: "(string, RuntimeRoute) btree \<Rightarrow> bool" where
  "routes_inv routes \<longleftrightarrow>
     bt_inv routes \<and> (\<forall>(k, r) \<in> set routes. ro_route_key r = k \<and> route_ok r)"

definition resolution_ok :: "RoutingResolution \<Rightarrow> bool" where
  "resolution_ok r \<longleftrightarrow>
     rs_retry_max r \<le> ROUTING_RETRY_MAX_CAP \<and> rs_rate_limit_per_minute r \<noteq> 0
     \<and> canonical (rs_recipient r) \<and> canonical (rs_channel r) \<and> canonical (rs_sink r)
     \<and> canonical (rs_target_module r)"

definition route_id_of :: "u64 \<Rightarrow> string" where
  "route_id_of n = ''route-'' @ fmt06 n"

lemma route_id_of_inj [simp]: "route_id_of m = route_id_of n \<longleftrightarrow> m = n"
  by (simp add: route_id_of_def)

text \<open>
  The remembered resolutions: at most 512, all within bounds, and, as long as the route
  sequence has not been exhausted, indexed by their insertion order.
\<close>

definition resolutions_inv :: "MetaRuntimeHandle \<Rightarrow> bool" where
  "resolutions_inv h \<longleftrightarrow>
     (\<forall>(k, r) \<in> set (rt_routing_resolutions h). rs_route_id r = k \<and> resolution_ok r)
     \<and> length (rt_routing_resolution_order h) \<le> ROUTING_RESOLUTION_LIMIT_MAX
     \<and> (rt_routing_sequence h \<noteq> u64_max \<longrightarrow>
          bt.indexed (rt_routing_resolution_order h) (rt_routing_resolutions h)
          \<and> (\<forall>k \<in> set (rt_routing_resolution_order h). \<exists>n < rt_routing_sequence h. k = route_id_of n))"

definition routing_inv :: "MetaRuntimeHandle \<Rightarrow> bool" where
  "routing_inv h \<longleftrightarrow>
     events_sorted (rt_merged_events h) \<and> routes_inv (rt_runtime_routes h) \<and> resolutions_inv h"

subsection \<open>The table\<close>

lemma canonical_route_ok:
  assumes "canonical_route route = Inr canon"
  shows "route_ok canon \<and> ro_route_key canon = trim (ro_route_key route)"
  using assms
  by (auto simp: canonical_route_def route_ok_def require_non_empty_Some canonical_def is_none_or_iff
      is_some_and_iff bind_eq_Some_conv not_less split: option.splits if_splits)

lemma routes_inv_insert:
  "routes_inv routes \<Longrightarrow> route_ok r \<Longrightarrow> routes_inv (bt_insert (ro_route_key r) r routes)"
  using set_bt_insert_subset [of "ro_route_key r" r routes]
  by (fastforce simp: routes_inv_def bt_inv_insert)

lemma routes_inv_remove: "routes_inv routes \<Longrightarrow> routes_inv (bt_remove k routes)"
  by (auto simp: routes_inv_def bt_inv_remove)

subsection \<open>Matching\<close>

text \<open>The priority of a route for a recipient and channel, lower first.\<close>

definition route_rank :: "string \<Rightarrow> string \<Rightarrow> RuntimeRoute \<Rightarrow> nat option" where
  "route_rank recipient channel route =
     (let base = (if ro_recipient route = WILDCARD_ROUTE then Some 3
                  else if ro_recipient route = recipient then Some 1 else None) in
      case base of
        None \<Rightarrow> None
      | Some b \<Rightarrow>
          if ro_channel route = Some WILDCARD_ROUTE then Some (b + 1)
          else if is_none_or (ro_channel route) (\<lambda>c. c = channel) then Some b
          else None)"

lemma matching_runtime_route_rank:
  "matching_runtime_route h recipient channel =
     (let routes = bt_values (rt_runtime_routes h); at = (\<lambda>n. List.find (\<lambda>r. route_rank recipient channel r = Some n) routes) in
      opt_or (at 1) (opt_or (at 2) (opt_or (at 3) (at 4))))"
proof -
  have rank:
    "(ro_recipient r \<noteq> WILDCARD_ROUTE \<and> ro_recipient r = recipient)
       \<and> is_none_or (ro_channel r) (\<lambda>c. c \<noteq> WILDCARD_ROUTE \<and> c = channel)
     \<longleftrightarrow> route_rank recipient channel r = Some 1"
    "(ro_recipient r \<noteq> WILDCARD_ROUTE \<and> ro_recipient r = recipient) \<and> ro_channel r = Some WILDCARD_ROUTE
     \<longleftrightarrow> route_rank recipient channel r = Some 2"
    "ro_recipient r = WILDCARD_ROUTE \<and> is_none_or (ro_channel r) (\<lambda>c. c \<noteq> WILDCARD_ROUTE \<and> c = channel)
     \<longleftrightarrow> route_rank recipient channel r = Some 3"
    "ro_recipient r = WILDCARD_ROUTE \<and> ro_channel r = Some WILDCARD_ROUTE
     \<longleftrightarrow> route_rank recipient channel r = Some 4" for r
    by (auto simp: route_rank_def is_none_or_iff Let_def)
  show ?thesis
    unfolding matching_runtime_route_def Let_def rank
    by (simp add: opt_or_def split: option.split)
qed

lemma route_rank_bounds: "route_rank recipient channel r = Some n \<Longrightarrow> n = 1 \<or> n = 2 \<or> n = 3 \<or> n = 4"
  by (auto simp: route_rank_def Let_def split: if_splits)

lemma matching_runtime_route_in:
  "matching_runtime_route h recipient channel = Some r \<Longrightarrow> \<exists>k. (k, r) \<in> set (rt_runtime_routes h)"
  by (force simp: matching_runtime_route_rank Let_def opt_or_def split: option.splits
      dest: find_Some_iff_split)

subsection \<open>Resolving\<close>

lemma check_draft_ok [simp]:
  "check_draft d = Inr u \<longleftrightarrow> dft_retry_max d \<le> ROUTING_RETRY_MAX_CAP \<and> dft_rate_limit d \<noteq> 0"
  by (auto simp: check_draft_def not_less)

definition draft_ok :: "RouteDraft \<Rightarrow> bool" where
  "draft_ok d \<longleftrightarrow> canonical (dft_recipient d) \<and> canonical (dft_channel d) \<and> canonical (dft_sink d)
     \<and> canonical (dft_target_module d)"

lemma canonical_literals [simp]:
  "canonical ''email''" "canonical ''sms''" "canonical ''webhook''" "canonical ''delivery''"
  by (auto simp: canonical_def intro!: trim_id) (auto simp: ascii_ws_def byte_def ws2_def ws3_def)

lemma canonical_default_sink [simp]: "canonical (default_sink r)"
  by (simp add: default_sink_def)

lemma initial_draft_ok:
  assumes "initial_draft rq = Inr d"
  shows "draft_ok d" and "dft_recipient d = trim (rq_recipient rq)"
  using assms
  by (auto simp: initial_draft_def draft_ok_def Let_def require_non_empty_Some canonical_def
      simp flip: canonical_def split: option.splits)

lemma apply_overrides_recipient [simp]: "dft_recipient (apply_overrides ov d) = dft_recipient d"
  by (simp add: apply_overrides_def)

lemma apply_route_simps [simp]:
  "dft_recipient (apply_route ro d) = dft_recipient d" "dft_channel (apply_route ro d) = dft_channel d"
  by (simp_all add: apply_route_def split: option.split)

definition overrides_ok :: "RouterBoundaryOverrides \<Rightarrow> bool" where
  "overrides_ok ov \<longleftrightarrow> is_none_or (rb_channel ov) canonical \<and> is_none_or (rb_sink ov) canonical
     \<and> is_none_or (rb_target_module ov) canonical"

lemma payload_text_canonical: "is_none_or (payload_text p k) canonical"
  by (auto simp: payload_text_def is_none_or_iff bind_eq_Some_conv)

lemma parse_overrides_ok: "overrides_ok (parse_router_mcp_overrides v)"
  by (auto simp: parse_router_mcp_overrides_def no_overrides_def overrides_ok_def
      parse_router_payload_overrides_def payload_text_canonical split: option.split)

lemma apply_overrides_ok: "overrides_ok ov \<Longrightarrow> draft_ok d \<Longrightarrow> draft_ok (apply_overrides ov d)"
  by (cases "rb_channel ov"; cases "rb_sink ov"; cases "rb_target_module ov")
    (simp_all add: overrides_ok_def draft_ok_def apply_overrides_def)

lemma apply_route_ok:
  "routes_inv (rt_runtime_routes h) \<Longrightarrow> draft_ok d \<Longrightarrow>
     draft_ok (apply_route (matching_runtime_route h rc ch) d)"
proof (cases "matching_runtime_route h rc ch")
  case (Some r)
  assume "routes_inv (rt_runtime_routes h)" "draft_ok d"
  with matching_runtime_route_in [OF Some] Some show ?thesis
    by (auto simp: routes_inv_def draft_ok_def apply_route_def route_ok_def)
qed (simp add: apply_route_def)

lemma call_router_handle:
  assumes "call_router env rq h = (r, h')"
  shows "h' = h\<lparr>rt_tick := rt_tick h'\<rparr>" and "r = Inr ov \<Longrightarrow> overrides_ok ov"
proof -
  show "h' = h\<lparr>rt_tick := rt_tick h'\<rparr>"
    using assms
    by (auto simp: call_router_def call_module_mcp_tool_json_def split: option.splits if_splits sum.splits
        prod.splits)
  show "r = Inr ov \<Longrightarrow> overrides_ok ov"
    using assms by (auto simp: call_router_def parse_overrides_ok split: option.splits if_splits sum.splits
        prod.splits)
qed

subsection \<open>Recording\<close>

text \<open>What a resolution may change of the handle.\<close>

definition routing_frame :: "MetaRuntimeHandle \<Rightarrow> MetaRuntimeHandle \<Rightarrow> bool" where
  "routing_frame h h' \<longleftrightarrow>
     h' = h\<lparr>rt_merged_events := rt_merged_events h', rt_routing_sequence := rt_routing_sequence h',
            rt_routing_resolutions := rt_routing_resolutions h',
            rt_routing_resolution_order := rt_routing_resolution_order h',
            rt_delivery_now_floor_ms := rt_delivery_now_floor_ms h',
            rt_delivery_clock_ms := rt_delivery_clock_ms h', rt_tick := rt_tick h'\<rparr>"

text \<open>The clock after an observation, and the timestamp of a resolution, as functions of the handle.\<close>

definition delivery_floor :: "Env \<Rightarrow> MetaRuntimeHandle \<Rightarrow> u64" where
  "delivery_floor env h =
     max (rt_delivery_now_floor_ms h)
       (saturating_sub (env_clock env (rt_tick h)) (rt_delivery_runtime_epoch_ms h))"

definition resolved_timestamp :: "Env \<Rightarrow> MetaRuntimeHandle \<Rightarrow> u64" where
  "resolved_timestamp env h =
     max (max (rt_delivery_clock_ms h) (delivery_floor env h))
       (if rt_merged_events h = [] then 0 else ev_timestamp_ms (last (rt_merged_events h)))"

lemma refresh_delivery_clocks_eq:
  "refresh_delivery_clocks_from_now env h =
     h\<lparr>rt_tick := Suc (rt_tick h), rt_delivery_now_floor_ms := delivery_floor env h,
       rt_delivery_clock_ms := max (rt_delivery_clock_ms h) (delivery_floor env h)\<rparr>"
  by (simp add: refresh_delivery_clocks_from_now_def current_time_ms_def delivery_floor_def Let_def)

lemma next_route_resolved_timestamp_eq:
  "next_route_resolved_timestamp_ms env h =
     (resolved_timestamp env h,
      h\<lparr>rt_tick := Suc (rt_tick h), rt_delivery_now_floor_ms := delivery_floor env h,
        rt_delivery_clock_ms := resolved_timestamp env h\<rparr>)"
  by (simp add: next_route_resolved_timestamp_ms_def refresh_delivery_clocks_eq resolved_timestamp_def Let_def)

lemma remember_routing_resolution_eq:
  "remember_routing_resolution r h =
     h\<lparr>rt_routing_resolutions := snd (evict_over ROUTING_RESOLUTION_LIMIT_MAX bt_remove
          (rt_routing_resolution_order h @ [rs_route_id r])
          (bt_insert (rs_route_id r) r (rt_routing_resolutions h))),
       rt_routing_resolution_order := fst (evict_over ROUTING_RESOLUTION_LIMIT_MAX bt_remove
          (rt_routing_resolution_order h @ [rs_route_id r])
          (bt_insert (rs_route_id r) r (rt_routing_resolutions h)))\<rparr>"
  by (simp add: remember_routing_resolution_def Let_def case_prod_beta)

lemma next_routing_sequence_eq:
  "next_routing_sequence h =
     (rt_routing_sequence h, h\<lparr>rt_routing_sequence := saturating_add (rt_routing_sequence h) 1\<rparr>)"
  by (simp add: next_routing_sequence_def next_sequence_def)

lemma delivery_floor_ge: "rt_delivery_now_floor_ms h \<le> delivery_floor env h"
  by (simp add: delivery_floor_def)

lemma resolved_timestamp_ge: "rt_delivery_clock_ms h \<le> resolved_timestamp env h"
  by (simp add: resolved_timestamp_def le_max_iff_disj)

lemma delivery_floor_cong:
  "rt_delivery_now_floor_ms h' = rt_delivery_now_floor_ms h \<Longrightarrow> rt_tick h' = rt_tick h \<Longrightarrow>
   rt_delivery_runtime_epoch_ms h' = rt_delivery_runtime_epoch_ms h \<Longrightarrow>
   delivery_floor env h' = delivery_floor env h"
  by (simp add: delivery_floor_def)

lemma record_resolution_facts:
  assumes "record_resolution env d h = (r, h')"
  shows "r = draft_resolution (route_id_of (rt_routing_sequence h)) d"
    and "routing_frame h h'"
    and "rt_routing_sequence h' = saturating_add (rt_routing_sequence h) 1"
    and "(rt_routing_resolution_order h', rt_routing_resolutions h') =
      evict_over ROUTING_RESOLUTION_LIMIT_MAX bt_remove
        (rt_routing_resolution_order h @ [rs_route_id r])
        (bt_insert (rs_route_id r) r (rt_routing_resolutions h))"
    and "\<exists>event. rt_merged_events h' = insert_event_sorted event (rt_merged_events h)"
    and "rt_delivery_clock_ms h \<le> rt_delivery_clock_ms h'"
    and "rt_delivery_now_floor_ms h \<le> rt_delivery_now_floor_ms h'"
proof -
  define h1 where "h1 = h\<lparr>rt_routing_sequence := saturating_add (rt_routing_sequence h) 1\<rparr>"
  define h2 where "h2 = remember_routing_resolution r h1"
  have r: "r = draft_resolution (route_id_of (rt_routing_sequence h)) d"
    using assms by (auto simp: record_resolution_def next_routing_sequence_eq next_route_resolved_timestamp_eq
        Let_def route_id_of_def)
  obtain event where h': "h' = h2\<lparr>rt_tick := Suc (rt_tick h2), rt_delivery_now_floor_ms := delivery_floor env h2,
        rt_delivery_clock_ms := resolved_timestamp env h2,
        rt_merged_events := insert_event_sorted event (rt_merged_events h2)\<rparr>"
    using assms unfolding r h1_def h2_def
    by (auto simp: record_resolution_def next_routing_sequence_eq next_route_resolved_timestamp_eq Let_def
        route_id_of_def)
  have h2: "h2 = h\<lparr>rt_routing_sequence := saturating_add (rt_routing_sequence h) 1,
      rt_routing_resolutions := rt_routing_resolutions h2,
      rt_routing_resolution_order := rt_routing_resolution_order h2\<rparr>"
    by (simp add: h2_def h1_def remember_routing_resolution_eq)
  have order: "(rt_routing_resolution_order h2, rt_routing_resolutions h2) =
      evict_over ROUTING_RESOLUTION_LIMIT_MAX bt_remove (rt_routing_resolution_order h @ [rs_route_id r])
        (bt_insert (rs_route_id r) r (rt_routing_resolutions h))"
    by (simp add: h2_def h1_def remember_routing_resolution_eq)
  have same: "rt_merged_events h2 = rt_merged_events h" "rt_delivery_clock_ms h2 = rt_delivery_clock_ms h"
    "rt_delivery_now_floor_ms h2 = rt_delivery_now_floor_ms h"
    "rt_routing_sequence h2 = saturating_add (rt_routing_sequence h) 1"
    by (subst h2, simp)+
  have upd: "h' = h2\<lparr>rt_tick := rt_tick h', rt_delivery_now_floor_ms := rt_delivery_now_floor_ms h',
      rt_delivery_clock_ms := rt_delivery_clock_ms h', rt_merged_events := rt_merged_events h'\<rparr>"
    and kept: "rt_routing_resolutions h2 = rt_routing_resolutions h'"
      "rt_routing_resolution_order h2 = rt_routing_resolution_order h'"
      "saturating_add (rt_routing_sequence h) 1 = rt_routing_sequence h'"
    by (simp_all add: h' same)
  show "routing_frame h h'"
    unfolding routing_frame_def by (rule trans [OF upd]) (subst h2, simp add: kept)
  show "rt_delivery_clock_ms h \<le> rt_delivery_clock_ms h'"
    using resolved_timestamp_ge [of h2 env] by (simp add: h' same)
  show "rt_delivery_now_floor_ms h \<le> rt_delivery_now_floor_ms h'"
    using delivery_floor_ge [of h2 env] by (simp add: h' same)
  show "r = draft_resolution (route_id_of (rt_routing_sequence h)) d" by (rule r)
  show "(rt_routing_resolution_order h', rt_routing_resolutions h') =
      evict_over ROUTING_RESOLUTION_LIMIT_MAX bt_remove (rt_routing_resolution_order h @ [rs_route_id r])
        (bt_insert (rs_route_id r) r (rt_routing_resolutions h))"
    using order by (simp add: h')
  show "rt_routing_sequence h' = saturating_add (rt_routing_sequence h) 1"
    "\<exists>event. rt_merged_events h' = insert_event_sorted event (rt_merged_events h)"
    by (auto simp: h' same)
qed

lemma routing_frameD:
  assumes "routing_frame h h'"
  shows "rt_runtime_routes h' = rt_runtime_routes h" "rt_config h' = rt_config h"
    "rt_loaded_modules h' = rt_loaded_modules h"
    "rt_delivery_sequence h' = rt_delivery_sequence h"
    "rt_delivery_history h' = rt_delivery_history h"
    "rt_delivery_idempotency h' = rt_delivery_idempotency h"
    "rt_delivery_idempotency_by_delivery h' = rt_delivery_idempotency_by_delivery h"
    "rt_delivery_rate_window_counts h' = rt_delivery_rate_window_counts h"
    "rt_gating_epoch h' = rt_gating_epoch h" "rt_gating_sequence h' = rt_gating_sequence h"
    "rt_gating_pending h' = rt_gating_pending h" "rt_gating_pending_order h' = rt_gating_pending_order h"
    "rt_gating_audit h' = rt_gating_audit h" "rt_gating_notice_queue h' = rt_gating_notice_queue h"
    "rt_gating_delivered h' = rt_gating_delivered h"
    "rt_gating_escalation_routes h' = rt_gating_escalation_routes h"
    "rt_memory_sequence h' = rt_memory_sequence h" "rt_memory_assertions h' = rt_memory_assertions h"
    "rt_memory_conflicts h' = rt_memory_conflicts h" "rt_memory_backend h' = rt_memory_backend h"
    "rt_delivery_runtime_epoch_ms h' = rt_delivery_runtime_epoch_ms h"
  by (subst assms [unfolded routing_frame_def], simp)+

lemma resolve_routing_cases:
  assumes "resolve_routing env rq h = (r, h')"
  obtains (refused) e where "r = Inl e" "h' = h\<lparr>rt_tick := rt_tick h'\<rparr>"
  | (ok) d resolution h1 where "r = Inr resolution" "h1 = h\<lparr>rt_tick := rt_tick h1\<rparr>"
      "record_resolution env d h1 = (resolution, h')"
      "dft_recipient d = trim (rq_recipient rq)" "check_draft d = Inr ()"
      "routes_inv (rt_runtime_routes h) \<Longrightarrow> draft_ok d"
      "is_module_loaded h ''router''" "is_module_loaded h ''delivery''"
proof (cases "is_module_loaded h ''router'' \<and> is_module_loaded h ''delivery'' \<and> is_ok (initial_draft rq)")
  case False
  with assms have "\<exists>e. r = Inl e \<and> h' = h"
    by (auto simp: resolve_routing_def is_ok_def split: if_splits sum.splits)
  then show ?thesis using refused by auto
next
  case True
  then obtain d0 where d0: "initial_draft rq = Inr d0" by (auto simp: is_ok_iff)
  obtain ro h1 where router: "call_router env rq h = (ro, h1)" by fastforce
  have h1: "h1 = h\<lparr>rt_tick := rt_tick h1\<rparr>" by (rule call_router_handle(1) [OF router])
  show ?thesis
  proof (cases ro)
    case (Inl e)
    with assms True d0 router h1 show ?thesis
      by (intro refused [of e]) (auto simp: resolve_routing_def)
  next
    case (Inr ov)
    define d1 where "d1 = apply_overrides ov d0"
    define d2 where "d2 = apply_route (matching_runtime_route h1 (dft_recipient d1) (dft_channel d1)) d1"
    show ?thesis
    proof (cases "check_draft d1 = Inr () \<and> check_draft d2 = Inr ()")
      case False
      with assms True d0 router h1 Inr show ?thesis
        by (cases "check_draft d1"; cases "check_draft d2")
          (auto simp: resolve_routing_def d1_def [symmetric] d2_def [symmetric] Let_def intro: refused)
    next
      case ok2: True
      obtain resolution h2 where rec: "record_resolution env d2 h1 = (resolution, h2)" by fastforce
      have "rt_runtime_routes h1 = rt_runtime_routes h" by (subst h1) simp
      then have "routes_inv (rt_runtime_routes h) \<Longrightarrow> draft_ok d2"
        using initial_draft_ok(1) [OF d0] call_router_handle(2) [OF router Inr]
        by (simp add: d1_def d2_def apply_overrides_ok apply_route_ok)
      moreover have "r = Inr resolution" "h' = h2"
        using assms True d0 router Inr ok2 rec
        by (auto simp: resolve_routing_def d1_def [symmetric] d2_def [symmetric] Let_def)
      ultimately show ?thesis
        using ok h1 rec ok2 initial_draft_ok(2) [OF d0] True by (auto simp: d1_def d2_def)
    qed
  qed
qed

lemma resolutions_inv_record:
  assumes "record_resolution env d h = (r, h')" and "draft_ok d" and "check_draft d = Inr ()"
    and "resolutions_inv h"
  shows "resolutions_inv h'"
proof -
  note facts = record_resolution_facts [OF assms(1)]
  let ?ks = "rt_routing_resolution_order h @ [rs_route_id r]"
  let ?m = "bt_insert (rs_route_id r) r (rt_routing_resolutions h)"
  have order: "rt_routing_resolution_order h' = drop_oldest ROUTING_RESOLUTION_LIMIT_MAX ?ks"
    using facts(4) by (metis evict_over_order fst_conv)
  have res: "rt_routing_resolutions h' = snd (evict_over ROUTING_RESOLUTION_LIMIT_MAX bt_remove ?ks ?m)"
    using facts(4) by (metis snd_conv)
  have "resolution_ok r"
    using assms(2,3) facts(1) by (simp add: resolution_ok_def draft_ok_def draft_resolution_def)
  then have "\<forall>(k, x) \<in> set ?m. rs_route_id x = k \<and> resolution_ok x"
    using assms(4) set_bt_insert_subset [of "rs_route_id r" r "rt_routing_resolutions h"]
    by (fastforce simp: resolutions_inv_def)
  then have "\<forall>(k, x) \<in> set (rt_routing_resolutions h'). rs_route_id x = k \<and> resolution_ok x"
    using evict_over_subset unfolding res by blast
  moreover have "length (rt_routing_resolution_order h') \<le> ROUTING_RESOLUTION_LIMIT_MAX"
    by (simp add: order)
  moreover have "bt.indexed (rt_routing_resolution_order h') (rt_routing_resolutions h')
      \<and> (\<forall>k \<in> set (rt_routing_resolution_order h'). \<exists>n < rt_routing_sequence h'. k = route_id_of n)"
    if "rt_routing_sequence h' \<noteq> u64_max"
  proof -
    let ?s = "rt_routing_sequence h"
    have step: "?s < rt_routing_sequence h'"
      using that facts(3) by (auto simp: saturating_add_def word_less_nat_alt unat_add_no_overflow split: if_splits)
    then have "?s \<noteq> u64_max" by auto
    then have idx: "bt.indexed (rt_routing_resolution_order h) (rt_routing_resolutions h)"
      and ids: "\<forall>k \<in> set (rt_routing_resolution_order h). \<exists>n < ?s. k = route_id_of n"
      using assms(4) by (simp_all add: resolutions_inv_def)
    have rid: "rs_route_id r = route_id_of ?s" using facts(1) by (simp add: draft_resolution_def)
    have "rs_route_id r \<notin> set (rt_routing_resolution_order h)"
      using ids unfolding rid by auto
    then have "filter (\<lambda>c. c \<noteq> rs_route_id r) (rt_routing_resolution_order h) = rt_routing_resolution_order h"
      by (auto intro: filter_True)
    then have "bt.indexed ?ks ?m" using bt.indexed_push [OF idx, of "rs_route_id r" r] by simp
    then have indexed: "bt.indexed (rt_routing_resolution_order h') (rt_routing_resolutions h')"
      unfolding order res evict_over_order [symmetric, where rm = bt_remove and m = ?m]
      by (rule bt.indexed_evict)
    have "\<exists>n < rt_routing_sequence h'. k = route_id_of n" if "k \<in> set ?ks" for k
      using that ids step rid order.strict_trans by auto
    moreover have "set (rt_routing_resolution_order h') \<subseteq> set ?ks"
      unfolding order by (rule set_drop_oldest_subset)
    ultimately show ?thesis using indexed by (meson subsetD)
  qed
  ultimately show ?thesis unfolding resolutions_inv_def by blast
qed

lemma routing_inv_tick: "h1 = h\<lparr>rt_tick := t\<rparr> \<Longrightarrow> routing_inv h1 = routing_inv h"
  by (simp add: routing_inv_def resolutions_inv_def)

lemma routing_inv_resolve:
  assumes "resolve_routing env rq h = (r, h')" and "routing_inv h"
  shows "routing_inv h'"
  using assms(1)
proof (cases rule: resolve_routing_cases)
  case (refused e)
  show ?thesis by (rule iffD2 [OF routing_inv_tick [OF refused(2)] assms(2)])
next
  case (ok d resolution h1)
  have inv1: "routing_inv h1" by (rule iffD2 [OF routing_inv_tick [OF ok(2)] assms(2)])
  have routes1: "routes_inv (rt_runtime_routes h)" using assms(2) by (simp add: routing_inv_def)
  note facts = record_resolution_facts [OF ok(3)]
  have "resolutions_inv h'"
    using resolutions_inv_record [OF ok(3) ok(6) [OF routes1] ok(5)] inv1 by (simp add: routing_inv_def)
  moreover have "rt_runtime_routes h' = rt_runtime_routes h1"
    by (rule routing_frameD(1) [OF facts(2)])
  ultimately show ?thesis
    using inv1 facts(5) by (auto simp: routing_inv_def insert_event_sorted_sorted)
qed

lemma resolve_remembers:
  assumes "resolve_routing env rq h = (Inr res, h')" and "routing_inv h" and "rt_routing_sequence h' \<noteq> u64_max"
  shows "bt_get (rt_routing_resolutions h') (rs_route_id res) = Some res"
  using assms(1)
proof (cases rule: resolve_routing_cases)
  case (ok d resolution h1)
  note facts = record_resolution_facts [OF ok(3)]
  have h1: "resolutions_inv h1"
    using iffD2 [OF routing_inv_tick [OF ok(2)] assms(2)] by (simp add: routing_inv_def)
  let ?ks = "rt_routing_resolution_order h1 @ [rs_route_id resolution]"
  let ?m = "bt_insert (rs_route_id resolution) resolution (rt_routing_resolutions h1)"
  have res: "rt_routing_resolutions h' = snd (evict_over ROUTING_RESOLUTION_LIMIT_MAX bt_remove ?ks ?m)"
    using facts(4) by (metis snd_conv)
  have "resolutions_inv h'"
    using resolutions_inv_record [OF ok(3) _ ok(5) h1] ok(6) assms(2) by (simp add: routing_inv_def)
  have "rt_routing_sequence h1 < rt_routing_sequence h'"
    using assms(3) facts(3)
    by (auto simp: saturating_add_def word_less_nat_alt unat_add_no_overflow split: if_splits)
  then have "rt_routing_sequence h1 \<noteq> u64_max" by auto
  then have idx: "bt.indexed (rt_routing_resolution_order h1) (rt_routing_resolutions h1)"
    and ids: "\<forall>k \<in> set (rt_routing_resolution_order h1). \<exists>n < rt_routing_sequence h1. k = route_id_of n"
    using h1 by (simp_all add: resolutions_inv_def)
  have "rs_route_id resolution \<notin> set (rt_routing_resolution_order h1)"
    using ids facts(1) by (auto simp: draft_resolution_def)
  then have "filter (\<lambda>c. c \<noteq> rs_route_id resolution) (rt_routing_resolution_order h1)
      = rt_routing_resolution_order h1"
    by (auto intro: filter_True)
  then have "bt.indexed ?ks ?m" using bt.indexed_push [OF idx, of "rs_route_id resolution" resolution] by simp
  then have "bt_get (rt_routing_resolutions h') (rs_route_id resolution) = bt_get ?m (rs_route_id resolution)"
    unfolding res by (rule bt.evict_keeps) (simp add: ROUTING_RESOLUTION_LIMIT_MAX_def)
  with ok(1) show ?thesis by (simp add: bt_get_insert)
qed simp

section \<open>Properties\<close>

text \<open>
  The route chosen for a recipient and channel is the first route, in key order, of the
  best priority that any route of the table has for them: named recipient before the wildcard
  recipient, and within each a route that names the channel or leaves it open before one with
  the wildcard channel; without any match no route is chosen.
\<close>

theorem matching_runtime_route_best:
  "case matching_runtime_route h recipient channel of
     None \<Rightarrow> \<not> (\<exists>r \<in> set (list_runtime_routes h). route_rank recipient channel r \<noteq> None)
   | Some route \<Rightarrow>
       \<exists>n. List.find (\<lambda>r. route_rank recipient channel r = Some n) (list_runtime_routes h) = Some route
         \<and> \<not> (\<exists>r \<in> set (list_runtime_routes h). \<exists>m < n. route_rank recipient channel r = Some m)"
proof -
  define at where "at n = List.find (\<lambda>r. route_rank recipient channel r = Some n) (list_runtime_routes h)" for n
  have none: "at n = None \<longleftrightarrow> \<not> (\<exists>r \<in> set (list_runtime_routes h). route_rank recipient channel r = Some n)" for n
    by (auto simp: at_def find_None_iff)
  have m: "matching_runtime_route h recipient channel = opt_or (at 1) (opt_or (at 2) (opt_or (at 3) (at 4)))"
    by (simp add: matching_runtime_route_rank at_def list_runtime_routes_def Let_def)
  have better: "\<not> (\<exists>r \<in> set (list_runtime_routes h). \<exists>m < n. route_rank recipient channel r = Some m)"
    if "\<And>m. m < n \<Longrightarrow> m \<in> {1, 2, 3, 4} \<Longrightarrow> at m = None" for n
  proof
    assume "\<exists>r \<in> set (list_runtime_routes h). \<exists>m < n. route_rank recipient channel r = Some m"
    then obtain r m where rm: "r \<in> set (list_runtime_routes h)" "m < n" "route_rank recipient channel r = Some m"
      by blast
    then have "at m = None" using that route_rank_bounds [OF rm(3)] by auto
    with rm none show False by blast
  qed
  show ?thesis
  proof (cases "matching_runtime_route h recipient channel")
    case None
    then have gone: "at n = None" if "n \<in> {1, 2, 3, 4}" for n
      using that m by (auto simp: opt_or_def split: option.splits)
    have "route_rank recipient channel r = None" if "r \<in> set (list_runtime_routes h)" for r
    proof (cases "route_rank recipient channel r")
      case (Some n)
      with route_rank_bounds [OF Some] gone [of n] none [of n] that show ?thesis by auto
    qed
    with None show ?thesis by auto
  next
    case (Some route)
    then have "at 1 = Some route \<or> at 1 = None \<and> at 2 = Some route
        \<or> at 1 = None \<and> at 2 = None \<and> at 3 = Some route
        \<or> at 1 = None \<and> at 2 = None \<and> at 3 = None \<and> at 4 = Some route"
      using m by (auto simp: opt_or_def split: option.splits)
    then have "\<exists>n. at n = Some route \<and> (\<forall>m \<in> {1, 2, 3, 4}. m < n \<longrightarrow> at m = None)"
      by (elim disjE) (rule exI [of _ 1], simp, rule exI [of _ 2], simp, rule exI [of _ 3], simp,
          rule exI [of _ 4], simp)
    then obtain n where "at n = Some route" "\<And>m. m < n \<Longrightarrow> m \<in> {1, 2, 3, 4} \<Longrightarrow> at m = None" by blast
    with better Some show ?thesis unfolding at_def by auto
  qed
qed

text \<open>
  Resolving returns a bounded, canonical resolution under a fresh route id, remembers it
  for delivery and keeps the routing state well formed; a refusal changes nothing of the
  handle.
\<close>

theorem resolve_routing_trusted:
  assumes "routing_inv h"
  shows "case resolve_routing env request h of
     (Inl e, h') \<Rightarrow> h' = h\<lparr>rt_tick := rt_tick h'\<rparr>
   | (Inr resolution, h') \<Rightarrow>
       resolution_ok resolution \<and> rs_recipient resolution = trim (rq_recipient request)
       \<and> rs_route_id resolution = route_id_of (rt_routing_sequence h) \<and> routing_inv h'
       \<and> routing_frame h h'
       \<and> (rt_routing_sequence h' = u64_max
          \<or> bt_get (rt_routing_resolutions h') (rs_route_id resolution) = Some resolution)"
proof -
  obtain r h' where e: "resolve_routing env request h = (r, h')" by fastforce
  from e show ?thesis
  proof (cases rule: resolve_routing_cases)
    case (refused err)
    show ?thesis unfolding e refused(1) prod.case sum.case by (rule refused(2))
  next
    case (ok d resolution h1)
    note facts = record_resolution_facts [OF ok(3)]
    have "routing_inv h'" by (rule routing_inv_resolve [OF e assms])
    moreover have "resolution_ok resolution" "rs_recipient resolution = trim (rq_recipient request)"
      using ok(4,5) ok(6) assms facts(1)
      by (simp_all add: resolution_ok_def draft_ok_def draft_resolution_def routing_inv_def)
    moreover have "rt_routing_sequence h1 = rt_routing_sequence h" by (subst ok(2)) simp
    then have "rs_route_id resolution = route_id_of (rt_routing_sequence h)"
      using facts(1) by (simp add: draft_resolution_def)
    moreover have "routing_frame h h'"
      unfolding routing_frame_def
      by (rule trans [OF facts(2) [unfolded routing_frame_def]]) (subst ok(2), simp)
    moreover have "rt_routing_sequence h' = u64_max
          \<or> bt_get (rt_routing_resolutions h') (rs_route_id resolution) = Some resolution"
      using resolve_remembers [OF _ assms] e ok(1) by blast
    ultimately show ?thesis by (simp add: e ok(1))
  qed
qed

text \<open>
  The route table stays canonical: adding a route stores its trimmed form under its key or
  refuses it without effect, deleting removes exactly the named route or reports it missing,
  and neither lets an unusable route into the table.
\<close>

theorem runtime_route_table_canonical:
  assumes "routes_inv (rt_runtime_routes h)"
  shows "(case add_runtime_route route h of
       (Inl e, h') \<Rightarrow> h' = h
     | (Inr canon, h') \<Rightarrow> route_ok canon \<and> routes_inv (rt_runtime_routes h')
         \<and> bt_get (rt_runtime_routes h') = (bt_get (rt_runtime_routes h))(trim (ro_route_key route) \<mapsto> canon))
   \<and> (case delete_runtime_route key h of
       (Inl e, h') \<Rightarrow> h' = h \<and> (trim key = [] \<or> bt_get (rt_runtime_routes h) (trim key) = None)
     | (Inr gone, h') \<Rightarrow> bt_get (rt_runtime_routes h) (trim key) = Some gone
         \<and> routes_inv (rt_runtime_routes h')
         \<and> bt_get (rt_runtime_routes h') = (bt_get (rt_runtime_routes h))(trim key := None))"
proof (rule conjI)
  show "case add_runtime_route route h of
       (Inl e, h') \<Rightarrow> h' = h
     | (Inr canon, h') \<Rightarrow> route_ok canon \<and> routes_inv (rt_runtime_routes h')
         \<and> bt_get (rt_runtime_routes h') = (bt_get (rt_runtime_routes h))(trim (ro_route_key route) \<mapsto> canon)"
  proof (cases "canonical_route route")
    case (Inl e)
    then show ?thesis by (simp add: add_runtime_route_def)
  next
    case (Inr canon)
    with canonical_route_ok [OF Inr] routes_inv_insert [OF assms, of canon] show ?thesis
      by (simp add: add_runtime_route_def bt_get_insert)
  qed
  show "case delete_runtime_route key h of
       (Inl e, h') \<Rightarrow> h' = h \<and> (trim key = [] \<or> bt_get (rt_runtime_routes h) (trim key) = None)
     | (Inr gone, h') \<Rightarrow> bt_get (rt_runtime_routes h) (trim key) = Some gone
         \<and> routes_inv (rt_runtime_routes h')
         \<and> bt_get (rt_runtime_routes h') = (bt_get (rt_runtime_routes h))(trim key := None)"
    using assms
    by (auto simp: delete_runtime_route_def Let_def routes_inv_remove bt_get_remove split: option.splits)
qed

section \<open>A concrete runtime\<close>

text \<open>
  Router and delivery modules that speak MCP and answer every call with the same object, at a
  fixed wall-clock time.
\<close>

definition demo_session :: McpSession where
  "demo_session = \<lparr>ss_in_runtime = False, ss_build_error = None, ss_connect = None,
     ss_list_tools = McpOk [''routing.resolve'', ''delivery.send'', ''memory.conflict_read''],
     ss_call_tool = (\<lambda>_ _. McpOk [TextBlock ''{}'']), ss_close = None\<rparr>"

definition demo_env :: Env where
  "demo_env = \<lparr>env_clock = (\<lambda>_. 120000), env_mcp = (\<lambda>_ _ _. demo_session),
     env_process = (\<lambda>_ _ _. Inl EmptyOutput), env_parse_json = (\<lambda>_. Some (JObject [])),
     env_print_event = (\<lambda>_. None), env_print_blocks = (\<lambda>_. []),
     env_decode_envelope = (\<lambda>_. None), env_decode_conflict = (\<lambda>_. Inl ''missing field''),
     env_decode_origin = (\<lambda>_. None), env_debug_boundary = (\<lambda>_. ''boundary''),
     env_debug_routing = (\<lambda>_. ''routing''), env_debug_delivery = (\<lambda>_. ''delivery''),
     env_write_ledger = (\<lambda>_ _. None)\<rparr>"

definition demo_module :: "string \<Rightarrow> ModuleConfig" where
  "demo_module i = \<lparr>mc_id = i, mc_command = ''run'', mc_args = [], mc_restart_policy = RestartNever\<rparr>"

definition demo_pre_spawn :: "string \<Rightarrow> PreSpawnData" where
  "demo_pre_spawn i = \<lparr>ps_module_id = i, ps_env = [(''META_MODULE_BOUNDARY'', '' MCP '')]\<rparr>"

definition demo_handle :: MetaRuntimeHandle where
  "demo_handle = sample_handle
     \<lparr>rt_config := \<lparr>mk_modules = [demo_module ''router'', demo_module ''delivery''],
        mk_discovery = \<lparr>ds_namespace = ''demo'', ds_modules = [''router'', ''delivery'']\<rparr>,
        mk_pre_spawn = [demo_pre_spawn ''router'', demo_pre_spawn ''delivery'']\<rparr>,
      rt_loaded_modules := {''router'', ''delivery''}\<rparr>"

definition demo_request :: RoutingResolveRequest where
  "demo_request = \<lparr>rq_recipient = '' ops@example.com '', rq_channel = None, rq_retry_max = Some 2,
     rq_backoff_ms = None, rq_rate_limit_per_minute = None\<rparr>"

lemma demo_routing_inv: "routing_inv demo_handle"
  by (simp add: routing_inv_def resolutions_inv_def routes_inv_def events_sorted_def demo_handle_def
      sample_handle_def bt.indexed_def fun_eq_iff)

definition demo_draft :: RouteDraft where
  "demo_draft = \<lparr>dft_recipient = ''ops@example.com'', dft_channel = ''notification'',
     dft_sink = ''email'', dft_target_module = ''delivery'', dft_retry_max = 2, dft_backoff_ms = 250,
     dft_rate_limit = 2\<rparr>"

lemma demo_tick: "rt_tick demo_handle = 0"
  by (simp add: demo_handle_def sample_handle_def)

lemma demo_resolve_eq:
  "resolve_routing demo_env demo_request demo_handle =
     (Inr (fst (record_resolution demo_env demo_draft (demo_handle\<lparr>rt_tick := 1\<rparr>))),
      snd (record_resolution demo_env demo_draft (demo_handle\<lparr>rt_tick := 1\<rparr>)))"
proof -
  have draft: "initial_draft demo_request = Inr demo_draft" by code_simp
  have ov: "fst (call_router demo_env demo_request demo_handle) = Inr no_overrides" by code_simp
  have "module_and_prespawn demo_handle ''router'' = Some (demo_module ''router'', Some (demo_pre_spawn ''router''))"
    "module_uses_mcp (demo_module ''router'') (Some (demo_pre_spawn ''router''))"
    by code_simp+
  then have tick: "snd (call_router demo_env demo_request demo_handle) = demo_handle\<lparr>rt_tick := 1\<rparr>"
    by (simp add: call_router_def case_prod_beta demo_tick split: sum.split)
  have "apply_overrides no_overrides demo_draft = demo_draft" "check_draft demo_draft = Inr ()"
    "is_module_loaded demo_handle ''router''" "is_module_loaded demo_handle ''delivery''"
    by code_simp+
  moreover have "matching_runtime_route (demo_handle\<lparr>rt_tick := 1\<rparr>) rc ch = None" for rc ch
    by (simp add: matching_runtime_route_def demo_handle_def sample_handle_def)
  moreover have "call_router demo_env demo_request demo_handle = (Inr no_overrides, demo_handle\<lparr>rt_tick := 1\<rparr>)"
    using ov tick by (metis prod.collapse)
  ultimately show ?thesis using draft
    by (simp add: resolve_routing_def apply_route_def Let_def case_prod_beta del: check_draft_ok)
qed

theorem resolve_routing_trusted_witness:
  "routing_inv demo_handle
   \<and> is_ok (fst (resolve_routing demo_env demo_request demo_handle))
   \<and> routing_inv (snd (resolve_routing demo_env demo_request demo_handle))"
proof -
  have "is_ok (fst (resolve_routing demo_env demo_request demo_handle))" by (simp add: demo_resolve_eq)
  with resolve_routing_trusted [OF demo_routing_inv, where env = demo_env and request = demo_request] demo_routing_inv
  show ?thesis by (auto simp: is_ok_iff split: prod.splits)
qed

definition demo_route :: "string \<Rightarrow> string \<Rightarrow> string option \<Rightarrow> RuntimeRoute" where
  "demo_route key recipient channel =
     \<lparr>ro_route_key = key, ro_recipient = recipient, ro_channel = channel, ro_sink = key,
      ro_target_module = ''delivery'', ro_retry_max = None, ro_backoff_ms = None,
      ro_rate_limit_per_minute = None\<rparr>"

theorem runtime_route_table_canonical_witness:
  "let h = snd (add_runtime_route (demo_route '' a '' ''bob'' None) demo_handle) in
   routes_inv (rt_runtime_routes demo_handle) \<and> routes_inv (rt_runtime_routes h)"
proof -
  have start: "routes_inv (rt_runtime_routes demo_handle)"
    using demo_routing_inv by (simp add: routing_inv_def)
  have "is_ok (fst (add_runtime_route (demo_route '' a '' ''bob'' None) demo_handle))" by code_simp
  with runtime_route_table_canonical [OF start, of "demo_route '' a '' ''bob'' None" "[]"] start
  show ?thesis by (auto simp: Let_def is_ok_iff split: prod.splits)
qed

end
