(* ===== verification/Delivery.thy ===== *)
theory Delivery
  imports Routing
begin

text \<open>
  Delivery (\<open>runtime/delivery.rs\<close>): sending over a trusted resolution, idempotent replay,
  the per-window rate limit, the bounded history with its idempotency index, and the history
  query.
\<close>

section \<open>Constants and encodings\<close>

definition DELIVERY_HISTORY_LIMIT_MAX :: nat where
  "DELIVERY_HISTORY_LIMIT_MAX = 200"

definition DELIVERY_RATE_WINDOW_MS :: u64 where
  "DELIVERY_RATE_WINDOW_MS = 60000"

definition DELIVERY_RATE_WINDOWS_RETAINED :: u64 where
  "DELIVERY_RATE_WINDOWS_RETAINED = 2"

definition DELIVERY_CLOCK_STEP_MS :: u64 where
  "DELIVERY_CLOCK_STEP_MS = 1000"

definition attempt_json :: "DeliveryAttempt \<Rightarrow> json" where
  "attempt_json a = json_object
     [(''attempt'', json_u32 (da_attempt a)), (''status'', JString (da_status a)),
      (''backoff_ms'', json_u64 (da_backoff_ms a))]"

definition delivery_request_json :: "DeliverySendRequest \<Rightarrow> json" where
  "delivery_request_json rq = json_object
     [(''resolution'', resolution_json (dq_resolution rq)), (''payload'', dq_payload rq),
      (''idempotency_key'', json_opt_str (dq_idempotency_key rq))]"

definition delivery_event_json :: "DeliveryRecord \<Rightarrow> json" where
  "delivery_event_json r = json_object
     [(''delivery_id'', JString (dr_delivery_id r)), (''route_id'', JString (dr_route_id r)),
      (''recipient'', JString (dr_recipient r)), (''sink'', JString (dr_sink r)),
      (''status'', JString (dr_status r)), (''attempts'', JArray (map attempt_json (dr_attempts r)))]"

section \<open>Boundary outcome\<close>

definition parse_delivery_outcome_payload :: "(string, json) btree \<Rightarrow> DeliveryBoundaryOutcome" where
  "parse_delivery_outcome_payload payload =
     \<lparr>do_sink_adapter = payload_text payload ''adapter'',
      do_force_fail = unwrap_or (Option.bind (bt_get payload ''force_fail'') as_bool) False\<rparr>"

definition parse_delivery_mcp_outcome :: "json \<Rightarrow> DeliveryBoundaryOutcome" where
  "parse_delivery_mcp_outcome response =
     (case as_object response of
        None \<Rightarrow> \<lparr>do_sink_adapter = None, do_force_fail = False\<rparr>
      | Some payload \<Rightarrow> parse_delivery_outcome_payload payload)"

section \<open>Trust, replay and rate windows\<close>

definition scoped_idempotency_key :: "string \<Rightarrow> string \<Rightarrow> string" where
  "scoped_idempotency_key route_id idempotency_key = route_id @ '':'' @ idempotency_key"

definition trusted_resolution_for_delivery ::
  "MetaRuntimeHandle \<Rightarrow> RoutingResolution \<Rightarrow> DeliverySendError + RoutingResolution" where
  "trusted_resolution_for_delivery h provided =
     (let route_id = trim (rs_route_id provided) in
      if route_id = [] then Inl InvalidRouteId
      else case bt_get (rt_routing_resolutions h) route_id of
        None \<Rightarrow> Inl (UnknownRouteId route_id)
      | Some trusted \<Rightarrow> if trusted \<noteq> provided then Inl ForgedResolution else Inr trusted)"

definition prune_delivery_rate_window_counts :: "u64 \<Rightarrow> MetaRuntimeHandle \<Rightarrow> MetaRuntimeHandle" where
  "prune_delivery_rate_window_counts current_window_start_ms h =
     (let earliest_window_start_ms = saturating_sub current_window_start_ms
            (saturating_mul DELIVERY_RATE_WINDOW_MS (DELIVERY_RATE_WINDOWS_RETAINED - 1)) in
      h\<lparr>rt_delivery_rate_window_counts :=
          bt_retain (\<lambda>key _. rw_window_start_ms key \<ge> earliest_window_start_ms)
            (rt_delivery_rate_window_counts h)\<rparr>)"

definition next_delivery_sequence :: "MetaRuntimeHandle \<Rightarrow> u64 \<times> MetaRuntimeHandle" where
  "next_delivery_sequence h =
     (let (seq, counter) = next_sequence (rt_delivery_sequence h) in
      (seq, h\<lparr>rt_delivery_sequence := counter\<rparr>))"

text \<open>Forget an idempotency entry whose delivery left the history.\<close>

definition drop_scoped_key :: "string \<Rightarrow> string \<Rightarrow> MetaRuntimeHandle \<Rightarrow> MetaRuntimeHandle" where
  "drop_scoped_key scoped_key delivery_id h =
     (let h = h\<lparr>rt_delivery_idempotency := bt_remove scoped_key (rt_delivery_idempotency h)\<rparr> in
      case bt_get (rt_delivery_idempotency_by_delivery h) delivery_id of
        None \<Rightarrow> h
      | Some scoped_keys \<Rightarrow>
         (let kept = filter (\<lambda>candidate. candidate \<noteq> scoped_key) scoped_keys in
          h\<lparr>rt_delivery_idempotency_by_delivery :=
              (if kept = [] then bt_remove delivery_id (rt_delivery_idempotency_by_delivery h)
               else bt_insert delivery_id kept (rt_delivery_idempotency_by_delivery h))\<rparr>))"

definition replay_delivery_for_scoped_idempotency ::
  "RoutingResolution \<Rightarrow> string \<Rightarrow> json \<Rightarrow> MetaRuntimeHandle
     \<Rightarrow> (DeliverySendError + DeliveryRecord option) \<times> MetaRuntimeHandle" where
  "replay_delivery_for_scoped_idempotency provided idempotency_key payload h =
     (let route_id = trim (rs_route_id provided);
          scoped_key = scoped_idempotency_key route_id idempotency_key in
      case bt_get (rt_delivery_idempotency h) scoped_key of
        None \<Rightarrow> (Inr None, h)
      | Some entry \<Rightarrow>
         (if di_payload entry \<noteq> payload then (Inl IdempotencyPayloadMismatch, h)
          else if unwrap_or (bt_get (rt_routing_resolutions h) route_id) (di_canonical_resolution entry)
                    \<noteq> provided
          then (Inl ForgedResolution, h)
          else case List.find (\<lambda>record. dr_delivery_id record = di_delivery_id entry) (rt_delivery_history h) of
            Some existing \<Rightarrow> (Inr (Some existing), h)
          | None \<Rightarrow> (Inr None, drop_scoped_key scoped_key (di_delivery_id entry) h)))"

section \<open>Sending\<close>

definition delivery_attempts :: "RoutingResolution \<Rightarrow> string \<Rightarrow> DeliveryAttempt list" where
  "delivery_attempts resolution status =
     (let total_attempts = saturating_add (rs_retry_max resolution) 1 in
      map (\<lambda>n. let attempt = of_nat n in
             \<lparr>da_attempt = attempt,
              da_status = (if attempt = total_attempts then status else ''transient_failure''),
              da_backoff_ms = (if attempt = total_attempts then 0 else rs_backoff_ms resolution)\<rparr>)
        [1 ..< Suc (unat total_attempts)])"

definition call_delivery ::
  "Env \<Rightarrow> DeliverySendRequest \<Rightarrow> MetaRuntimeHandle
     \<Rightarrow> (DeliverySendError + DeliveryBoundaryOutcome) \<times> MetaRuntimeHandle" where
  "call_delivery env request h =
     (case module_and_prespawn h ''delivery'' of
        None \<Rightarrow> (Inl (DeliveryBoundary (mcp_required_error ''delivery'' DELIVERY_SEND_MCP_TOOL)), h)
      | Some (delivery_module, pre_spawn) \<Rightarrow>
          if \<not> module_uses_mcp delivery_module pre_spawn
          then (Inl (DeliveryBoundary (mcp_required_error ''delivery'' DELIVERY_SEND_MCP_TOOL)), h)
          else
            (let (response, h) = call_module_mcp_tool_json env delivery_module pre_spawn
                   DELIVERY_SEND_MCP_TOOL (delivery_request_json request) CORE_MODULE_MCP_TIMEOUT h in
             case response of
               Inl e \<Rightarrow> (Inl (DeliveryBoundary e), h)
             | Inr value \<Rightarrow> (Inr (parse_delivery_mcp_outcome value), h)))"

fun remove_keys :: "string list \<Rightarrow> (string, 'v) btree \<Rightarrow> (string, 'v) btree" where
  "remove_keys [] m = m"
| "remove_keys (k # ks) m = remove_keys ks (bt_remove k m)"

text \<open>Evict the oldest deliveries over the bound, with their idempotency entries.\<close>

fun evict_history ::
  "nat \<Rightarrow> DeliveryRecord list \<Rightarrow> (string, string list) btree \<Rightarrow> (string, DeliveryIdempotencyEntry) btree
     \<Rightarrow> DeliveryRecord list \<times> (string, string list) btree \<times> (string, DeliveryIdempotencyEntry) btree" where
  "evict_history cap [] by_delivery idem = ([], by_delivery, idem)"
| "evict_history cap (r # rs) by_delivery idem =
     (if cap < Suc (length rs) then
        (case bt_get by_delivery (dr_delivery_id r) of
           None \<Rightarrow> evict_history cap rs by_delivery idem
         | Some scoped_keys \<Rightarrow>
             evict_history cap rs (bt_remove (dr_delivery_id r) by_delivery) (remove_keys scoped_keys idem))
      else (r # rs, by_delivery, idem))"

definition push_scoped_key ::
  "string \<Rightarrow> string \<Rightarrow> (string, string list) btree \<Rightarrow> (string, string list) btree" where
  "push_scoped_key delivery_id scoped_key by_delivery =
     bt_insert delivery_id (unwrap_or (bt_get by_delivery delivery_id) [] @ [scoped_key]) by_delivery"

text \<open>Index the delivery under its scoped key and append it to the history.\<close>

definition store_delivery ::
  "DeliveryRecord \<Rightarrow> string option \<Rightarrow> RoutingResolution \<Rightarrow> MetaRuntimeHandle \<Rightarrow> MetaRuntimeHandle" where
  "store_delivery record scoped_key trusted h =
     (let (by_delivery, idem) =
        (case scoped_key of
           None \<Rightarrow> (rt_delivery_idempotency_by_delivery h, rt_delivery_idempotency h)
         | Some key \<Rightarrow>
             (push_scoped_key (dr_delivery_id record) key (rt_delivery_idempotency_by_delivery h),
              bt_insert key \<lparr>di_delivery_id = dr_delivery_id record, di_payload = dr_payload record,
                             di_canonical_resolution = trusted\<rparr> (rt_delivery_idempotency h)));
          (history, by_delivery, idem) =
            evict_history DELIVERY_HISTORY_LIMIT_MAX (rt_delivery_history h @ [record]) by_delivery idem in
      h\<lparr>rt_delivery_history := history, rt_delivery_idempotency_by_delivery := by_delivery,
        rt_delivery_idempotency := idem\<rparr>)"

definition rate_window_start :: "u64 \<Rightarrow> u64" where
  "rate_window_start now = now - now mod DELIVERY_RATE_WINDOW_MS"

definition rate_key_of :: "RoutingResolution \<Rightarrow> u64 \<Rightarrow> DeliveryRateWindowKey" where
  "rate_key_of trusted window_start_ms =
     DeliveryRateWindowKey (rs_route_id trusted) (rs_recipient trusted) (rs_sink trusted) window_start_ms"

definition payload_force_fail :: "json \<Rightarrow> bool" where
  "payload_force_fail payload = unwrap_or (Option.bind (json_get payload ''force_fail'') as_bool) False"

text \<open>Build the record of an acknowledged boundary call, log it and store it.\<close>

definition complete_delivery ::
  "DeliverySendRequest \<Rightarrow> RoutingResolution \<Rightarrow> u64 \<Rightarrow> DeliveryBoundaryOutcome \<Rightarrow> MetaRuntimeHandle
     \<Rightarrow> DeliveryRecord \<times> MetaRuntimeHandle" where
  "complete_delivery request trusted first_attempt_ms outcome h =
     (let status = (if payload_force_fail (dq_payload request) \<or> do_force_fail outcome
                    then ''failed'' else ''sent'');
          (delivery_sequence, h) = next_delivery_sequence h;
          final_attempt_ms = saturating_add first_attempt_ms
            (saturating_mul (rs_backoff_ms trusted) (ucast (rs_retry_max trusted)));
          record = \<lparr>dr_delivery_id = ''delivery-'' @ fmt06 delivery_sequence,
            dr_route_id = rs_route_id trusted, dr_recipient = rs_recipient trusted,
            dr_sink = rs_sink trusted, dr_target_module = rs_target_module trusted,
            dr_payload = dq_payload request, dr_status = status,
            dr_attempts = delivery_attempts trusted status,
            dr_first_attempt_ms = first_attempt_ms, dr_final_attempt_ms = final_attempt_ms,
            dr_idempotency_key = dq_idempotency_key request,
            dr_sink_adapter = do_sink_adapter outcome\<rparr>;
          event = \<lparr>ev_event_id = ''evt-delivery-'' @ fmt06 delivery_sequence, ev_source = ''module'',
            ev_timestamp_ms = final_attempt_ms,
            ev_event = ModuleEv \<lparr>me_module = ''delivery'', me_event_type = ''send'',
                                 me_payload = delivery_event_json record\<rparr>\<rparr>;
          h = h\<lparr>rt_merged_events := insert_event_sorted event (rt_merged_events h),
                rt_delivery_clock_ms := max (rt_delivery_clock_ms h) final_attempt_ms\<rparr>;
          scoped_key = map_option (scoped_idempotency_key (rs_route_id trusted)) (dq_idempotency_key request) in
      (record, store_delivery record scoped_key trusted h))"

text \<open>Rate limit, clock step, boundary call and completion for a trusted resolution.\<close>

definition deliver_trusted ::
  "Env \<Rightarrow> DeliverySendRequest \<Rightarrow> RoutingResolution \<Rightarrow> MetaRuntimeHandle
     \<Rightarrow> (DeliverySendError + DeliveryRecord) \<times> MetaRuntimeHandle" where
  "deliver_trusted env request trusted h =
     (let h = refresh_delivery_clocks_from_now env h;
          window_start_ms = rate_window_start (rt_delivery_now_floor_ms h);
          h = prune_delivery_rate_window_counts window_start_ms h;
          rate_key = rate_key_of trusted window_start_ms;
          current_count = unwrap_or (bt_get (rt_delivery_rate_window_counts h) rate_key) 0 in
      if current_count \<ge> rs_rate_limit_per_minute trusted
      then (Inl (RateLimited (rs_sink trusted) window_start_ms (rs_rate_limit_per_minute trusted)), h)
      else
        (let first_attempt_ms = saturating_add (rt_delivery_clock_ms h) DELIVERY_CLOCK_STEP_MS;
             h = h\<lparr>rt_delivery_clock_ms := first_attempt_ms\<rparr> in
         case call_delivery env request h of
           (Inl e, h) \<Rightarrow> (Inl e, h)
         | (Inr outcome, h) \<Rightarrow>
            (let h = h\<lparr>rt_delivery_rate_window_counts :=
                       bt_insert rate_key (saturating_add current_count 1)
                         (rt_delivery_rate_window_counts h)\<rparr>;
                 (record, h) = complete_delivery request trusted first_attempt_ms outcome h in
             (Inr record, h))))"

text \<open>The checks after replay: the resolution must be the remembered one and usable.\<close>

definition check_trusted ::
  "MetaRuntimeHandle \<Rightarrow> RoutingResolution \<Rightarrow> DeliverySendError + RoutingResolution" where
  "check_trusted h provided =
     (case trusted_resolution_for_delivery h provided of
        Inl e \<Rightarrow> Inl e
      | Inr trusted \<Rightarrow>
          if rs_target_module trusted \<noteq> ''delivery'' then Inl (InvalidRouteTarget (rs_target_module trusted))
          else if blank (rs_recipient trusted) then Inl InvalidRecipient
          else if blank (rs_sink trusted) then Inl InvalidSink
          else Inr trusted)"

definition send_delivery ::
  "Env \<Rightarrow> DeliverySendRequest \<Rightarrow> MetaRuntimeHandle
     \<Rightarrow> (DeliverySendError + DeliveryRecord) \<times> MetaRuntimeHandle" where
  "send_delivery env request h =
     (if \<not> is_module_loaded h ''delivery'' then (Inl DeliveryModuleNotLoaded, h)
      else if is_some_and (dq_idempotency_key request) blank then (Inl InvalidIdempotencyKey, h)
      else
        (let (replay, h) =
           (case dq_idempotency_key request of
              None \<Rightarrow> (Inr None, h)
            | Some key \<Rightarrow>
                replay_delivery_for_scoped_idempotency (dq_resolution request) key (dq_payload request) h) in
         case replay of
           Inl e \<Rightarrow> (Inl e, h)
         | Inr (Some existing) \<Rightarrow> (Inr existing, h)
         | Inr None \<Rightarrow>
            (case check_trusted h (dq_resolution request) of
               Inl e \<Rightarrow> (Inl e, h)
             | Inr trusted \<Rightarrow> deliver_trusted env request trusted h)))"

section \<open>History\<close>

definition delivery_history :: "MetaRuntimeHandle \<Rightarrow> DeliveryHistoryRequest \<Rightarrow> DeliveryRecord list" where
  "delivery_history h request =
     (let recipient_filter = trimmed_some (dh_recipient request);
          sink_filter = trimmed_some (dh_sink request) in
      rev (take (dh_limit request)
        (rev (filter (\<lambda>record. is_none_or sink_filter (\<lambda>sink. dr_sink record = sink))
          (filter (\<lambda>record. is_none_or recipient_filter (\<lambda>recipient. dr_recipient record = recipient))
            (rt_delivery_history h))))))"

section \<open>The idempotency index\<close>

lemma bt_get_remove_keys: "bt_get (remove_keys ks m) k = (if k \<in> set ks then None else bt_get m k)"
  by (induction ks arbitrary: m) (auto simp: bt_get_remove)

lemma bt_inv_remove_keys: "bt_inv m \<Longrightarrow> bt_inv (remove_keys ks m)"
  by (induction ks arbitrary: m) (auto simp: bt_inv_remove)

text \<open>An index entry and the record it stands for agree.\<close>

definition entry_for :: "string \<Rightarrow> DeliveryIdempotencyEntry \<Rightarrow> DeliveryRecord \<Rightarrow> bool" where
  "entry_for key entry record \<longleftrightarrow>
     dr_delivery_id record = di_delivery_id entry \<and> dr_payload record = di_payload entry
     \<and> dr_route_id record = rs_route_id (di_canonical_resolution entry)
     \<and> (\<exists>k. dr_idempotency_key record = Some k \<and> key = scoped_idempotency_key (dr_route_id record) k)"

text \<open>
  The forward map, the reverse map and the history agree: every indexed key stands for a
  retained record and is listed under its delivery, every listed key is indexed, and delivery
  ids are unique in the history.
\<close>

definition idem_inv ::
  "DeliveryRecord list \<Rightarrow> (string, string list) btree \<Rightarrow> (string, DeliveryIdempotencyEntry) btree \<Rightarrow> bool" where
  "idem_inv history by_delivery idem \<longleftrightarrow>
     bt_inv by_delivery \<and> bt_inv idem \<and> distinct (map dr_delivery_id history)
     \<and> (\<forall>k e. bt_get idem k = Some e \<longrightarrow>
          (\<exists>r \<in> set history. entry_for k e r)
          \<and> (\<exists>ks. bt_get by_delivery (di_delivery_id e) = Some ks \<and> k \<in> set ks))
     \<and> (\<forall>d ks. bt_get by_delivery d = Some ks \<longrightarrow>
          (\<forall>k \<in> set ks. \<exists>e. bt_get idem k = Some e \<and> di_delivery_id e = d))"

lemma idem_inv_record:
  "idem_inv history bd idem \<Longrightarrow> bt_get idem k = Some e \<Longrightarrow> \<exists>r \<in> set history. entry_for k e r"
  by (simp add: idem_inv_def)

lemma idem_inv_evict_one:
  assumes "idem_inv (r # rs) bd idem"
  shows "case bt_get bd (dr_delivery_id r) of
     None \<Rightarrow> idem_inv rs bd idem
   | Some ks \<Rightarrow> idem_inv rs (bt_remove (dr_delivery_id r) bd) (remove_keys ks idem)"
proof -
  let ?d = "dr_delivery_id r"
  have fwd: "(\<exists>x \<in> set (r # rs). entry_for k e x)"
    "(\<exists>ks. bt_get bd (di_delivery_id e) = Some ks \<and> k \<in> set ks)" if "bt_get idem k = Some e" for k e
    using assms that unfolding idem_inv_def by blast+
  have bwd: "\<exists>e. bt_get idem k = Some e \<and> di_delivery_id e = d"
    if "bt_get bd d = Some ks" "k \<in> set ks" for d ks k
    using assms that unfolding idem_inv_def by blast
  have rest: "\<exists>x \<in> set rs. entry_for k e x" if "bt_get idem k = Some e" "di_delivery_id e \<noteq> ?d" for k e
    using fwd(1) [OF that(1)] that(2) by (auto simp: entry_for_def)
  show ?thesis
  proof (cases "bt_get bd ?d")
    case None
    then have "di_delivery_id e \<noteq> ?d" if "bt_get idem k = Some e" for k e
      using fwd(2) [OF that] by auto
    with rest fwd(2) bwd None assms show ?thesis by (auto simp: idem_inv_def)
  next
    case (Some ks)
    have gone: "k \<in> set ks" if "bt_get idem k = Some e" "di_delivery_id e = ?d" for k e
      using fwd(2) [OF that(1)] that(2) Some by auto
    have other: "k \<notin> set ks" if "bt_get idem k = Some e" "di_delivery_id e \<noteq> ?d" for k e
      using bwd [OF Some] that by fastforce
    have "idem_inv rs (bt_remove ?d bd) (remove_keys ks idem)"
      unfolding idem_inv_def bt_get_remove bt_get_remove_keys
      using assms rest gone fwd(2) bwd other
      by (auto simp: idem_inv_def bt_inv_remove bt_inv_remove_keys) (metis other)+
    with Some show ?thesis by simp
  qed
qed

lemma idem_inv_evict:
  assumes "idem_inv history bd idem" and "evict_history cap history bd idem = (history', bd', idem')"
  shows "idem_inv history' bd' idem' \<and> history' = drop_oldest cap history"
  using assms
proof (induction cap history bd idem rule: evict_history.induct)
  case (1 cap bd idem)
  then show ?case by simp
next
  case (2 cap r rs bd idem)
  show ?case
  proof (cases "cap < Suc (length rs)")
    case True
    then show ?thesis
      using 2 idem_inv_evict_one [OF "2.prems"(1)]
      by (cases "bt_get bd (dr_delivery_id r)") auto
  next
    case False
    with 2 show ?thesis by auto
  qed
qed

lemma idem_inv_evicted:
  assumes "idem_inv history bd idem"
  shows "idem_inv (fst (evict_history cap history bd idem)) (fst (snd (evict_history cap history bd idem)))
    (snd (snd (evict_history cap history bd idem)))"
  using idem_inv_evict [OF assms, of cap] by (metis prod.collapse)

lemma idem_inv_push:
  assumes "idem_inv history bd idem" and "dr_delivery_id record \<notin> dr_delivery_id ` set history"
  shows "idem_inv (history @ [record]) bd idem"
  using assms unfolding idem_inv_def by (auto simp del: bt_get.simps)

lemma idem_inv_index:
  assumes "idem_inv (history @ [record]) bd idem" and "bt_get idem key = None"
    and "entry_for key entry record"
  shows "idem_inv (history @ [record]) (push_scoped_key (dr_delivery_id record) key bd) (bt_insert key entry idem)"
proof -
  let ?d = "dr_delivery_id record"
  have d: "di_delivery_id entry = ?d" using assms(3) by (simp add: entry_for_def)
  have fwd: "(\<exists>x \<in> set (history @ [record]). entry_for k e x)"
    "(\<exists>ks. bt_get bd (di_delivery_id e) = Some ks \<and> k \<in> set ks)" if "bt_get idem k = Some e" for k e
    using assms(1) that unfolding idem_inv_def by blast+
  have bwd: "\<exists>e. bt_get idem k = Some e \<and> di_delivery_id e = d'"
    if "bt_get bd d' = Some ks" "k \<in> set ks" for d' ks k
    using assms(1) that unfolding idem_inv_def by blast
  have fresh: "k \<noteq> key" if "bt_get bd d' = Some ks" "k \<in> set ks" for d' ks k
    using bwd [OF that] assms(2) by auto
  show ?thesis
    unfolding idem_inv_def push_scoped_key_def bt_get_insert
  proof (intro conjI allI impI)
    show "bt_inv (bt_insert ?d (unwrap_or (bt_get bd ?d) [] @ [key]) bd)" "bt_inv (bt_insert key entry idem)"
      "distinct (map dr_delivery_id (history @ [record]))"
      using assms(1) by (auto simp: idem_inv_def bt_inv_insert)
  next
    fix k e assume "((bt_get idem)(key \<mapsto> entry)) k = Some e"
    then show "\<exists>r \<in> set (history @ [record]). entry_for k e r"
      using assms(3) fwd(1) by (auto split: if_splits)
  next
    fix k e assume "((bt_get idem)(key \<mapsto> entry)) k = Some e"
    then show "\<exists>ks. ((bt_get bd)(?d \<mapsto> unwrap_or (bt_get bd ?d) [] @ [key])) (di_delivery_id e) = Some ks \<and> k \<in> set ks"
      using d fwd(2) by (fastforce split: if_splits)
  next
    fix d' ks assume k: "((bt_get bd)(?d \<mapsto> unwrap_or (bt_get bd ?d) [] @ [key])) d' = Some ks"
    show "\<forall>k \<in> set ks. \<exists>e. ((bt_get idem)(key \<mapsto> entry)) k = Some e \<and> di_delivery_id e = d'"
    proof
      fix k assume "k \<in> set ks"
      with k consider "k = key" "d' = ?d" | ks' where "bt_get bd d' = Some ks'" "k \<in> set ks'"
        by (cases "bt_get bd ?d") (auto split: if_splits)
      then show "\<exists>e. ((bt_get idem)(key \<mapsto> entry)) k = Some e \<and> di_delivery_id e = d'"
        by cases (use d fresh bwd in auto)
    qed
  qed
qed

section \<open>What a send changes\<close>

definition delivery_frame :: "MetaRuntimeHandle \<Rightarrow> MetaRuntimeHandle \<Rightarrow> bool" where
  "delivery_frame h h' \<longleftrightarrow>
     h' = h\<lparr>rt_merged_events := rt_merged_events h', rt_delivery_sequence := rt_delivery_sequence h',
            rt_delivery_now_floor_ms := rt_delivery_now_floor_ms h',
            rt_delivery_clock_ms := rt_delivery_clock_ms h',
            rt_delivery_history := rt_delivery_history h',
            rt_delivery_idempotency := rt_delivery_idempotency h',
            rt_delivery_idempotency_by_delivery := rt_delivery_idempotency_by_delivery h',
            rt_delivery_rate_window_counts := rt_delivery_rate_window_counts h',
            rt_tick := rt_tick h'\<rparr>"

lemma delivery_frameD:
  assumes "delivery_frame h h'"
  shows "rt_config h' = rt_config h" "rt_loaded_modules h' = rt_loaded_modules h"
    "rt_routing_sequence h' = rt_routing_sequence h"
    "rt_routing_resolutions h' = rt_routing_resolutions h"
    "rt_routing_resolution_order h' = rt_routing_resolution_order h"
    "rt_runtime_routes h' = rt_runtime_routes h"
    "rt_gating_epoch h' = rt_gating_epoch h" "rt_gating_sequence h' = rt_gating_sequence h"
    "rt_gating_pending h' = rt_gating_pending h" "rt_gating_pending_order h' = rt_gating_pending_order h"
    "rt_gating_audit h' = rt_gating_audit h" "rt_gating_notice_queue h' = rt_gating_notice_queue h"
    "rt_gating_delivered h' = rt_gating_delivered h"
    "rt_gating_escalation_routes h' = rt_gating_escalation_routes h"
    "rt_memory_sequence h' = rt_memory_sequence h" "rt_memory_assertions h' = rt_memory_assertions h"
    "rt_memory_conflicts h' = rt_memory_conflicts h" "rt_memory_backend h' = rt_memory_backend h"
    "rt_delivery_runtime_epoch_ms h' = rt_delivery_runtime_epoch_ms h"
  by (subst assms [unfolded delivery_frame_def], simp)+

lemma delivery_frame_trans:
  assumes "delivery_frame h1 h2" and "delivery_frame h2 h3"
  shows "delivery_frame h1 h3"
  unfolding delivery_frame_def
  by (rule trans [OF assms(2) [unfolded delivery_frame_def]])
    (subst (1) assms(1) [unfolded delivery_frame_def], simp)

definition delivery_id_of :: "u64 \<Rightarrow> string" where
  "delivery_id_of n = ''delivery-'' @ fmt06 n"

lemma delivery_id_of_inj [simp]: "delivery_id_of m = delivery_id_of n \<longleftrightarrow> m = n"
  by (simp add: delivery_id_of_def)

text \<open>The record of a delivery as a function of the request, its resolution and the outcome.\<close>

definition final_attempt :: "RoutingResolution \<Rightarrow> u64 \<Rightarrow> u64" where
  "final_attempt trusted first = saturating_add first
     (saturating_mul (rs_backoff_ms trusted) (ucast (rs_retry_max trusted)))"

definition delivery_status :: "DeliverySendRequest \<Rightarrow> DeliveryBoundaryOutcome \<Rightarrow> string" where
  "delivery_status request outcome =
     (if payload_force_fail (dq_payload request) \<or> do_force_fail outcome then ''failed'' else ''sent'')"

definition delivery_record_of ::
  "DeliverySendRequest \<Rightarrow> RoutingResolution \<Rightarrow> u64 \<Rightarrow> DeliveryBoundaryOutcome \<Rightarrow> u64 \<Rightarrow> DeliveryRecord" where
  "delivery_record_of request trusted first outcome seq =
     \<lparr>dr_delivery_id = delivery_id_of seq, dr_route_id = rs_route_id trusted,
      dr_recipient = rs_recipient trusted, dr_sink = rs_sink trusted,
      dr_target_module = rs_target_module trusted, dr_payload = dq_payload request,
      dr_status = delivery_status request outcome,
      dr_attempts = delivery_attempts trusted (delivery_status request outcome),
      dr_first_attempt_ms = first, dr_final_attempt_ms = final_attempt trusted first,
      dr_idempotency_key = dq_idempotency_key request, dr_sink_adapter = do_sink_adapter outcome\<rparr>"

text \<open>The index and history after storing a record.\<close>

definition stored ::
  "DeliveryRecord \<Rightarrow> string option \<Rightarrow> RoutingResolution \<Rightarrow> MetaRuntimeHandle
     \<Rightarrow> DeliveryRecord list \<times> (string, string list) btree \<times> (string, DeliveryIdempotencyEntry) btree" where
  "stored record scoped_key trusted h =
     (case scoped_key of
        None \<Rightarrow> evict_history DELIVERY_HISTORY_LIMIT_MAX (rt_delivery_history h @ [record])
                 (rt_delivery_idempotency_by_delivery h) (rt_delivery_idempotency h)
      | Some key \<Rightarrow> evict_history DELIVERY_HISTORY_LIMIT_MAX (rt_delivery_history h @ [record])
                 (push_scoped_key (dr_delivery_id record) key (rt_delivery_idempotency_by_delivery h))
                 (bt_insert key \<lparr>di_delivery_id = dr_delivery_id record, di_payload = dr_payload record,
                             di_canonical_resolution = trusted\<rparr> (rt_delivery_idempotency h)))"

lemma store_delivery_eq:
  "store_delivery record k t h =
     h\<lparr>rt_delivery_history := fst (stored record k t h),
       rt_delivery_idempotency_by_delivery := fst (snd (stored record k t h)),
       rt_delivery_idempotency := snd (snd (stored record k t h))\<rparr>"
  by (simp add: store_delivery_def stored_def case_prod_beta split: option.split)

lemma stored_cong:
  "rt_delivery_history h' = rt_delivery_history h \<Longrightarrow>
   rt_delivery_idempotency_by_delivery h' = rt_delivery_idempotency_by_delivery h \<Longrightarrow>
   rt_delivery_idempotency h' = rt_delivery_idempotency h \<Longrightarrow> stored r k t h' = stored r k t h"
  by (simp add: stored_def split: option.split)

definition request_scoped_key :: "DeliverySendRequest \<Rightarrow> RoutingResolution \<Rightarrow> string option" where
  "request_scoped_key request trusted =
     map_option (scoped_idempotency_key (rs_route_id trusted)) (dq_idempotency_key request)"

lemma complete_delivery_facts:
  assumes "complete_delivery rq tr fa oc h = (r, h')"
  shows "r = delivery_record_of rq tr fa oc (rt_delivery_sequence h)"
    and "\<exists>event. h' = h\<lparr>rt_delivery_sequence := saturating_add (rt_delivery_sequence h) 1,
        rt_merged_events := insert_event_sorted event (rt_merged_events h),
        rt_delivery_clock_ms := max (rt_delivery_clock_ms h) (final_attempt tr fa),
        rt_delivery_history := fst (stored r (request_scoped_key rq tr) tr h),
        rt_delivery_idempotency_by_delivery := fst (snd (stored r (request_scoped_key rq tr) tr h)),
        rt_delivery_idempotency := snd (snd (stored r (request_scoped_key rq tr) tr h))\<rparr>"
proof -
  define h1 where "h1 = h\<lparr>rt_delivery_sequence := saturating_add (rt_delivery_sequence h) 1\<rparr>"
  have r: "r = delivery_record_of rq tr fa oc (rt_delivery_sequence h)"
    using assms by (auto simp: complete_delivery_def next_delivery_sequence_def next_sequence_def Let_def
        delivery_record_of_def delivery_status_def final_attempt_def delivery_id_of_def)
  then show "r = delivery_record_of rq tr fa oc (rt_delivery_sequence h)" .
  obtain event where h': "h' = store_delivery r (request_scoped_key rq tr) tr
      (h1\<lparr>rt_merged_events := insert_event_sorted event (rt_merged_events h1),
          rt_delivery_clock_ms := max (rt_delivery_clock_ms h1) (final_attempt tr fa)\<rparr>)"
    using assms unfolding r h1_def
    by (auto simp: complete_delivery_def next_delivery_sequence_def next_sequence_def Let_def
        delivery_record_of_def delivery_status_def final_attempt_def delivery_id_of_def request_scoped_key_def)
  have st: "stored r (request_scoped_key rq tr) tr
      (h1\<lparr>rt_merged_events := insert_event_sorted event (rt_merged_events h1),
          rt_delivery_clock_ms := max (rt_delivery_clock_ms h1) (final_attempt tr fa)\<rparr>)
    = stored r (request_scoped_key rq tr) tr h"
    by (rule stored_cong) (simp_all add: h1_def)
  have "h' = h\<lparr>rt_delivery_sequence := saturating_add (rt_delivery_sequence h) 1,
        rt_merged_events := insert_event_sorted event (rt_merged_events h),
        rt_delivery_clock_ms := max (rt_delivery_clock_ms h) (final_attempt tr fa),
        rt_delivery_history := fst (stored r (request_scoped_key rq tr) tr h),
        rt_delivery_idempotency_by_delivery := fst (snd (stored r (request_scoped_key rq tr) tr h)),
        rt_delivery_idempotency := snd (snd (stored r (request_scoped_key rq tr) tr h))\<rparr>"
    unfolding h' store_delivery_eq st by (simp add: h1_def)
  then show "\<exists>event. h' = h\<lparr>rt_delivery_sequence := saturating_add (rt_delivery_sequence h) 1,
        rt_merged_events := insert_event_sorted event (rt_merged_events h),
        rt_delivery_clock_ms := max (rt_delivery_clock_ms h) (final_attempt tr fa),
        rt_delivery_history := fst (stored r (request_scoped_key rq tr) tr h),
        rt_delivery_idempotency_by_delivery := fst (snd (stored r (request_scoped_key rq tr) tr h)),
        rt_delivery_idempotency := snd (snd (stored r (request_scoped_key rq tr) tr h))\<rparr>"
    by blast
qed

lemma call_delivery_handle:
  assumes "call_delivery env rq h = (r, h')"
  shows "h' = h\<lparr>rt_tick := rt_tick h'\<rparr>" and "r = Inl e \<Longrightarrow> \<exists>b. e = DeliveryBoundary b"
  using assms
  by (auto simp: call_delivery_def call_module_mcp_tool_json_def split: option.splits if_splits sum.splits
      prod.splits)

text \<open>The rate counts a send starts from: the live ones after pruning to the current window.\<close>

definition pruned_counts :: "Env \<Rightarrow> MetaRuntimeHandle \<Rightarrow> (DeliveryRateWindowKey, u32) btree" where
  "pruned_counts env h =
     bt_retain (\<lambda>key _. rw_window_start_ms key \<ge>
         saturating_sub (rate_window_start (delivery_floor env h))
           (saturating_mul DELIVERY_RATE_WINDOW_MS (DELIVERY_RATE_WINDOWS_RETAINED - 1)))
       (rt_delivery_rate_window_counts h)"

definition send_rate_key :: "Env \<Rightarrow> RoutingResolution \<Rightarrow> MetaRuntimeHandle \<Rightarrow> DeliveryRateWindowKey" where
  "send_rate_key env trusted h = rate_key_of trusted (rate_window_start (delivery_floor env h))"

definition send_rate_count :: "Env \<Rightarrow> RoutingResolution \<Rightarrow> MetaRuntimeHandle \<Rightarrow> u32" where
  "send_rate_count env trusted h = unwrap_or (bt_get (pruned_counts env h) (send_rate_key env trusted h)) 0"

definition send_first_attempt :: "Env \<Rightarrow> MetaRuntimeHandle \<Rightarrow> u64" where
  "send_first_attempt env h =
     saturating_add (max (rt_delivery_clock_ms h) (delivery_floor env h)) DELIVERY_CLOCK_STEP_MS"

text \<open>The handle after the clock refresh and the pruning.\<close>

definition send_base :: "Env \<Rightarrow> MetaRuntimeHandle \<Rightarrow> MetaRuntimeHandle" where
  "send_base env h =
     h\<lparr>rt_tick := Suc (rt_tick h), rt_delivery_now_floor_ms := delivery_floor env h,
       rt_delivery_clock_ms := max (rt_delivery_clock_ms h) (delivery_floor env h),
       rt_delivery_rate_window_counts := pruned_counts env h\<rparr>"

lemma send_base_eq:
  "prune_delivery_rate_window_counts (rate_window_start (rt_delivery_now_floor_ms
      (refresh_delivery_clocks_from_now env h))) (refresh_delivery_clocks_from_now env h) = send_base env h"
  by (simp add: prune_delivery_rate_window_counts_def refresh_delivery_clocks_eq send_base_def
      pruned_counts_def Let_def)

lemma deliver_trusted_eq:
  "deliver_trusted env rq tr h =
     (if send_rate_count env tr h \<ge> rs_rate_limit_per_minute tr
      then (Inl (RateLimited (rs_sink tr) (rate_window_start (delivery_floor env h))
                   (rs_rate_limit_per_minute tr)), send_base env h)
      else case call_delivery env rq ((send_base env h)\<lparr>rt_delivery_clock_ms := send_first_attempt env h\<rparr>) of
        (Inl e, h1) \<Rightarrow> (Inl e, h1)
      | (Inr oc, h1) \<Rightarrow>
          (let (record, h2) = complete_delivery rq tr (send_first_attempt env h) oc
             (h1\<lparr>rt_delivery_rate_window_counts := bt_insert (send_rate_key env tr h)
                   (saturating_add (send_rate_count env tr h) 1) (rt_delivery_rate_window_counts h1)\<rparr>) in
           (Inr record, h2)))"
proof -
  have floor: "rt_delivery_now_floor_ms (refresh_delivery_clocks_from_now env h) = delivery_floor env h"
    by (simp add: refresh_delivery_clocks_eq)
  have counts: "rt_delivery_rate_window_counts (send_base env h) = pruned_counts env h"
    and clock: "rt_delivery_clock_ms (send_base env h) = max (rt_delivery_clock_ms h) (delivery_floor env h)"
    by (simp_all add: send_base_def)
  have base: "prune_delivery_rate_window_counts (rate_window_start (delivery_floor env h))
      (refresh_delivery_clocks_from_now env h) = send_base env h"
    using send_base_eq [of env h] by (simp add: floor)
  show ?thesis
    unfolding deliver_trusted_def Let_def floor base counts clock send_rate_count_def send_rate_key_def
      send_first_attempt_def
    by (rule refl)
qed

lemma delivery_frame_refl [simp]: "delivery_frame h h"
  by (simp add: delivery_frame_def)

text \<open>The outcome of delivering over a trusted resolution.\<close>

lemma deliver_trusted_cases:
  assumes "deliver_trusted env rq tr h = (r, h')"
  obtains (limited) "r = Inl (RateLimited (rs_sink tr) (rate_window_start (delivery_floor env h))
        (rs_rate_limit_per_minute tr))"
      "rs_rate_limit_per_minute tr \<le> send_rate_count env tr h" "h' = send_base env h"
  | (boundary) e where "r = Inl (DeliveryBoundary e)"
      "h' = (send_base env h)\<lparr>rt_delivery_clock_ms := send_first_attempt env h, rt_tick := rt_tick h'\<rparr>"
  | (sent) oc event rec where "r = Inr rec"
      "send_rate_count env tr h < rs_rate_limit_per_minute tr"
      "rec = delivery_record_of rq tr (send_first_attempt env h) oc (rt_delivery_sequence h)"
      "h' = h\<lparr>rt_tick := rt_tick h', rt_delivery_now_floor_ms := delivery_floor env h,
        rt_delivery_clock_ms := max (send_first_attempt env h) (final_attempt tr (send_first_attempt env h)),
        rt_delivery_rate_window_counts := bt_insert (send_rate_key env tr h)
          (saturating_add (send_rate_count env tr h) 1) (pruned_counts env h),
        rt_delivery_sequence := saturating_add (rt_delivery_sequence h) 1,
        rt_merged_events := insert_event_sorted event (rt_merged_events h),
        rt_delivery_history := fst (stored rec (request_scoped_key rq tr) tr h),
        rt_delivery_idempotency_by_delivery := fst (snd (stored rec (request_scoped_key rq tr) tr h)),
        rt_delivery_idempotency := snd (snd (stored rec (request_scoped_key rq tr) tr h))\<rparr>"
proof (cases "rs_rate_limit_per_minute tr \<le> send_rate_count env tr h")
  case True
  with assms limited show ?thesis by (simp add: deliver_trusted_eq)
next
  case False
  let ?hb = "(send_base env h)\<lparr>rt_delivery_clock_ms := send_first_attempt env h\<rparr>"
  obtain cr h1 where call: "call_delivery env rq ?hb = (cr, h1)" by fastforce
  have h1: "h1 = ?hb\<lparr>rt_tick := rt_tick h1\<rparr>" by (rule call_delivery_handle(1) [OF call])
  show ?thesis
  proof (cases cr)
    case (Inl e)
    then obtain b where "e = DeliveryBoundary b" using call_delivery_handle(2) [OF call Inl] by blast
    moreover have "r = Inl e" "h' = h1" using assms False call Inl by (auto simp: deliver_trusted_eq)
    ultimately show ?thesis using boundary [of b] h1 by simp
  next
    case (Inr oc)
    define h2 where "h2 = h1\<lparr>rt_delivery_rate_window_counts := bt_insert (send_rate_key env tr h)
        (saturating_add (send_rate_count env tr h) 1) (rt_delivery_rate_window_counts h1)\<rparr>"
    obtain rec h3 where comp: "complete_delivery rq tr (send_first_attempt env h) oc h2 = (rec, h3)"
      by fastforce
    have res: "r = Inr rec" "h' = h3"
      using assms False call Inr comp by (auto simp: deliver_trusted_eq h2_def [symmetric])
    have h2: "h2 = h\<lparr>rt_tick := rt_tick h1, rt_delivery_now_floor_ms := delivery_floor env h,
        rt_delivery_clock_ms := send_first_attempt env h,
        rt_delivery_rate_window_counts := bt_insert (send_rate_key env tr h)
          (saturating_add (send_rate_count env tr h) 1) (pruned_counts env h)\<rparr>"
      unfolding h2_def by (subst (1 2) h1) (simp add: send_base_def)
    note facts = complete_delivery_facts [OF comp]
    have st: "stored rec (request_scoped_key rq tr) tr h2 = stored rec (request_scoped_key rq tr) tr h"
      by (rule stored_cong) (simp_all add: h2)
    obtain event where h3: "h3 = h2\<lparr>rt_delivery_sequence := saturating_add (rt_delivery_sequence h2) 1,
        rt_merged_events := insert_event_sorted event (rt_merged_events h2),
        rt_delivery_clock_ms := max (rt_delivery_clock_ms h2) (final_attempt tr (send_first_attempt env h)),
        rt_delivery_history := fst (stored rec (request_scoped_key rq tr) tr h),
        rt_delivery_idempotency_by_delivery := fst (snd (stored rec (request_scoped_key rq tr) tr h)),
        rt_delivery_idempotency := snd (snd (stored rec (request_scoped_key rq tr) tr h))\<rparr>"
      using facts(2) unfolding st by blast
    have rec_eq: "rec = delivery_record_of rq tr (send_first_attempt env h) oc (rt_delivery_sequence h)"
      using facts(1) by (simp add: h2)
    show ?thesis
      by (rule sent [OF res(1) _ rec_eq, of event]) (use False in simp, simp add: res(2) h3 h2)
  qed
qed

text \<open>The replay step of a send, for requests with and without a key.\<close>

definition replay_step ::
  "DeliverySendRequest \<Rightarrow> MetaRuntimeHandle \<Rightarrow> (DeliverySendError + DeliveryRecord option) \<times> MetaRuntimeHandle" where
  "replay_step rq h =
     (case dq_idempotency_key rq of
        None \<Rightarrow> (Inr None, h)
      | Some key \<Rightarrow> replay_delivery_for_scoped_idempotency (dq_resolution rq) key (dq_payload rq) h)"

lemma send_delivery_eq:
  "send_delivery env rq h =
     (if \<not> is_module_loaded h ''delivery'' then (Inl DeliveryModuleNotLoaded, h)
      else if is_some_and (dq_idempotency_key rq) blank then (Inl InvalidIdempotencyKey, h)
      else case replay_step rq h of
         (Inl e, h1) \<Rightarrow> (Inl e, h1)
       | (Inr (Some existing), h1) \<Rightarrow> (Inr existing, h1)
       | (Inr None, h1) \<Rightarrow>
          (case check_trusted h1 (dq_resolution rq) of
             Inl e \<Rightarrow> (Inl e, h1)
           | Inr trusted \<Rightarrow> deliver_trusted env rq trusted h1))"
  by (simp add: send_delivery_def replay_step_def case_prod_beta split: option.split)

lemma drop_scoped_key_frame:
  "drop_scoped_key k d h =
     h\<lparr>rt_delivery_idempotency := rt_delivery_idempotency (drop_scoped_key k d h),
       rt_delivery_idempotency_by_delivery := rt_delivery_idempotency_by_delivery (drop_scoped_key k d h)\<rparr>"
  by (simp add: drop_scoped_key_def Let_def split: option.split)

lemma replay_step_handle:
  assumes "replay_step rq h = (r, h1)"
  shows "h1 = h\<lparr>rt_delivery_idempotency := rt_delivery_idempotency h1,
      rt_delivery_idempotency_by_delivery := rt_delivery_idempotency_by_delivery h1\<rparr>"
    and "\<not> is_ok r \<or> r \<noteq> Inr None \<Longrightarrow> h1 = h"
  using assms drop_scoped_key_frame
  by (auto simp: replay_step_def replay_delivery_for_scoped_idempotency_def Let_def
      split: option.splits if_splits)

lemma replay_step_hit:
  assumes "replay_step rq h = (Inr (Some existing), h1)"
  obtains key entry where "dq_idempotency_key rq = Some key"
    "bt_get (rt_delivery_idempotency h)
       (scoped_idempotency_key (trim (rs_route_id (dq_resolution rq))) key) = Some entry"
    "di_payload entry = dq_payload rq"
    "unwrap_or (bt_get (rt_routing_resolutions h) (trim (rs_route_id (dq_resolution rq))))
       (di_canonical_resolution entry) = dq_resolution rq"
    "List.find (\<lambda>record. dr_delivery_id record = di_delivery_id entry) (rt_delivery_history h) = Some existing"
  using assms
  by (auto simp: replay_step_def replay_delivery_for_scoped_idempotency_def Let_def
      split: option.splits if_splits)

text \<open>Under the index invariant a miss means the key is not indexed, and leaves the handle alone.\<close>

lemma replay_step_miss:
  assumes "replay_step rq h = (Inr None, h1)"
    and "idem_inv (rt_delivery_history h) (rt_delivery_idempotency_by_delivery h) (rt_delivery_idempotency h)"
  shows "h1 = h" and "dq_idempotency_key rq = Some key \<Longrightarrow>
    bt_get (rt_delivery_idempotency h)
      (scoped_idempotency_key (trim (rs_route_id (dq_resolution rq))) key) = None"
proof -
  have found: False
    if "bt_get (rt_delivery_idempotency h) k = Some e"
      "List.find (\<lambda>record. dr_delivery_id record = di_delivery_id e) (rt_delivery_history h) = None" for k e
    using idem_inv_record [OF assms(2) that(1)] that(2) by (auto simp: find_None_iff entry_for_def)
  have "h1 = h \<and> (dq_idempotency_key rq = Some key \<longrightarrow> bt_get (rt_delivery_idempotency h)
      (scoped_idempotency_key (trim (rs_route_id (dq_resolution rq))) key) = None)"
    using assms(1)
    by (auto simp: replay_step_def replay_delivery_for_scoped_idempotency_def Let_def
        split: option.splits if_splits dest: found)
  then show "h1 = h" and "dq_idempotency_key rq = Some key \<Longrightarrow>
    bt_get (rt_delivery_idempotency h)
      (scoped_idempotency_key (trim (rs_route_id (dq_resolution rq))) key) = None"
    by blast+
qed

lemma check_trusted_ok:
  assumes "check_trusted h provided = Inr tr"
  shows "tr = provided" "bt_get (rt_routing_resolutions h) (trim (rs_route_id provided)) = Some provided"
    "rs_target_module tr = ''delivery''" "\<not> blank (rs_recipient tr)" "\<not> blank (rs_sink tr)"
  using assms
  by (auto simp: check_trusted_def trusted_resolution_for_delivery_def Let_def split: option.splits if_splits)

section \<open>Invariants\<close>

definition delivery_inv :: "MetaRuntimeHandle \<Rightarrow> bool" where
  "delivery_inv h \<longleftrightarrow>
     length (rt_delivery_history h) \<le> DELIVERY_HISTORY_LIMIT_MAX
     \<and> (rt_delivery_sequence h \<noteq> u64_max \<longrightarrow>
          idem_inv (rt_delivery_history h) (rt_delivery_idempotency_by_delivery h) (rt_delivery_idempotency h)
          \<and> (\<forall>r \<in> set (rt_delivery_history h). \<exists>n < rt_delivery_sequence h. dr_delivery_id r = delivery_id_of n))"

text \<open>
  No window was charged more often than the limit of the remembered resolution it belongs to.
\<close>

definition rate_inv :: "MetaRuntimeHandle \<Rightarrow> bool" where
  "rate_inv h \<longleftrightarrow>
     bt_inv (rt_delivery_rate_window_counts h)
     \<and> (rt_routing_sequence h \<noteq> u64_max \<longrightarrow>
          (\<forall>(key, count) \<in> set (rt_delivery_rate_window_counts h).
             (\<exists>n < rt_routing_sequence h. rw_route_id key = route_id_of n)
             \<and> (\<forall>r. bt_get (rt_routing_resolutions h) (rw_route_id key) = Some r \<longrightarrow>
                   count \<le> rs_rate_limit_per_minute r)))"

lemma history_evicted: "fst (evict_history cap hs bd idem) = drop_oldest cap hs"
  by (induction cap hs bd idem rule: evict_history.induct) (auto split: option.splits)

lemma stored_history:
  "fst (stored rec k t h) = drop_oldest DELIVERY_HISTORY_LIMIT_MAX (rt_delivery_history h @ [rec])"
  by (simp add: stored_def history_evicted split: option.split)

lemma stored_history_snoc:
  "fst (stored rec k t h) = drop_oldest (DELIVERY_HISTORY_LIMIT_MAX - 1) (rt_delivery_history h) @ [rec]"
  by (simp add: stored_history DELIVERY_HISTORY_LIMIT_MAX_def)

lemma sequence_step:
  assumes "saturating_add s (1 :: u64) \<noteq> u64_max"
  shows "s < saturating_add s 1" and "s \<noteq> u64_max"
proof -
  show "s < saturating_add s 1"
    using assms by (auto simp: saturating_add_def word_less_nat_alt unat_add_no_overflow split: if_splits)
  then show "s \<noteq> u64_max" by auto
qed

lemma stored_idem_inv:
  assumes "idem_inv (rt_delivery_history h) (rt_delivery_idempotency_by_delivery h) (rt_delivery_idempotency h)"
    and "dr_delivery_id rec \<notin> dr_delivery_id ` set (rt_delivery_history h)"
    and "\<And>key. scoped = Some key \<Longrightarrow> bt_get (rt_delivery_idempotency h) key = None
      \<and> entry_for key \<lparr>di_delivery_id = dr_delivery_id rec, di_payload = dr_payload rec,
            di_canonical_resolution = tr\<rparr> rec"
  shows "idem_inv (fst (stored rec scoped tr h)) (fst (snd (stored rec scoped tr h)))
      (snd (snd (stored rec scoped tr h)))"
proof -
  have push: "idem_inv (rt_delivery_history h @ [rec]) (rt_delivery_idempotency_by_delivery h)
      (rt_delivery_idempotency h)"
    by (rule idem_inv_push [OF assms(1,2)])
  show ?thesis
  proof (cases scoped)
    case None
    then show ?thesis using idem_inv_evicted [OF push] by (simp add: stored_def)
  next
    case (Some key)
    with assms(3) [OF Some] idem_inv_evicted [OF idem_inv_index [OF push]] show ?thesis
      by (simp add: stored_def)
  qed
qed

lemma trusted_scoped_key:
  assumes "check_trusted h (dq_resolution rq) = Inr tr"
    and "\<forall>(k, r) \<in> set (rt_routing_resolutions h). rs_route_id r = k \<and> resolution_ok r"
  shows "trim (rs_route_id (dq_resolution rq)) = rs_route_id tr"
  using check_trusted_ok(1,2) [OF assms(1)] assms(2) bt_get_in_set by fastforce

lemma delivery_inv_deliver:
  assumes "deliver_trusted env rq tr h = (r, h')" and "delivery_inv h"
    and "check_trusted h (dq_resolution rq) = Inr tr" and "resolutions_inv h"
    and "replay_step rq h = (Inr None, h)"
  shows "delivery_inv h'"
  using assms(1)
proof (cases rule: deliver_trusted_cases)
  case limited
  then show ?thesis using assms(2) by (simp add: delivery_inv_def send_base_def)
next
  case (boundary e)
  have "rt_delivery_history h' = rt_delivery_history h" "rt_delivery_sequence h' = rt_delivery_sequence h"
    "rt_delivery_idempotency_by_delivery h' = rt_delivery_idempotency_by_delivery h"
    "rt_delivery_idempotency h' = rt_delivery_idempotency h"
    by (subst boundary(2), simp add: send_base_def)+
  then show ?thesis using assms(2) by (simp add: delivery_inv_def)
next
  case (sent oc event rec)
  have fields: "rt_delivery_history h' = fst (stored rec (request_scoped_key rq tr) tr h)"
    "rt_delivery_idempotency_by_delivery h' = fst (snd (stored rec (request_scoped_key rq tr) tr h))"
    "rt_delivery_idempotency h' = snd (snd (stored rec (request_scoped_key rq tr) tr h))"
    "rt_delivery_sequence h' = saturating_add (rt_delivery_sequence h) 1"
    by (subst sent(4), simp)+
  have "idem_inv (rt_delivery_history h') (rt_delivery_idempotency_by_delivery h') (rt_delivery_idempotency h')
      \<and> (\<forall>x \<in> set (rt_delivery_history h'). \<exists>n < rt_delivery_sequence h'. dr_delivery_id x = delivery_id_of n)"
    if "rt_delivery_sequence h' \<noteq> u64_max"
  proof -
    let ?s = "rt_delivery_sequence h"
    have step: "?s < rt_delivery_sequence h'" "?s \<noteq> u64_max"
      using sequence_step that unfolding fields by blast+
    have inv: "idem_inv (rt_delivery_history h) (rt_delivery_idempotency_by_delivery h) (rt_delivery_idempotency h)"
      and ids: "\<forall>x \<in> set (rt_delivery_history h). \<exists>n < ?s. dr_delivery_id x = delivery_id_of n"
      using assms(2) step(2) by (simp_all add: delivery_inv_def)
    have rec_id: "dr_delivery_id rec = delivery_id_of ?s" and rec_route: "dr_route_id rec = rs_route_id tr"
      and rec_key: "dr_idempotency_key rec = dq_idempotency_key rq"
      using sent(3) by (simp_all add: delivery_record_of_def)
    have fresh: "dr_delivery_id rec \<notin> dr_delivery_id ` set (rt_delivery_history h)"
      using ids unfolding rec_id by fastforce
    have route: "trim (rs_route_id (dq_resolution rq)) = rs_route_id tr"
      by (rule trusted_scoped_key [OF assms(3)]) (use assms(4) in \<open>simp add: resolutions_inv_def\<close>)
    have "idem_inv (rt_delivery_history h') (rt_delivery_idempotency_by_delivery h') (rt_delivery_idempotency h')"
      unfolding fields
    proof (rule stored_idem_inv [OF inv fresh])
      fix key assume "request_scoped_key rq tr = Some key"
      then obtain k where k: "dq_idempotency_key rq = Some k" "key = scoped_idempotency_key (rs_route_id tr) k"
        by (auto simp: request_scoped_key_def)
      then show "bt_get (rt_delivery_idempotency h) key = None
        \<and> entry_for key \<lparr>di_delivery_id = dr_delivery_id rec, di_payload = dr_payload rec,
            di_canonical_resolution = tr\<rparr> rec"
        using replay_step_miss(2) [OF assms(5) inv k(1)] rec_route rec_key
        by (simp add: entry_for_def route)
    qed
    moreover have "\<exists>n < rt_delivery_sequence h'. dr_delivery_id x = delivery_id_of n"
      if "x \<in> set (rt_delivery_history h')" for x
    proof -
      have "x \<in> set (rt_delivery_history h) \<or> x = rec"
        using that set_drop_oldest_subset unfolding fields stored_history by fastforce
      then show ?thesis using ids rec_id step(1) order.strict_trans by blast
    qed
    ultimately show ?thesis by blast
  qed
  moreover have "length (rt_delivery_history h') \<le> DELIVERY_HISTORY_LIMIT_MAX"
    unfolding fields stored_history by simp
  ultimately show ?thesis unfolding delivery_inv_def by blast
qed

lemma deliver_trusted_saturated:
  assumes "deliver_trusted env rq tr h = (r, h')"
    and "length (rt_delivery_history h) \<le> DELIVERY_HISTORY_LIMIT_MAX" and "rt_delivery_sequence h = u64_max"
  shows "length (rt_delivery_history h') \<le> DELIVERY_HISTORY_LIMIT_MAX \<and> rt_delivery_sequence h' = u64_max"
  using assms(1)
proof (cases rule: deliver_trusted_cases)
  case limited
  then show ?thesis using assms(2,3) by (simp add: send_base_def)
next
  case (boundary e)
  show ?thesis by (subst (1 2) boundary(2)) (simp add: send_base_def assms)
next
  case (sent oc event rec)
  show ?thesis
    by (subst (1 2) sent(4)) (simp add: stored_history assms saturating_add_def unsigned_minus_1_eq_mask
        mask_eq_exp_minus_1)
qed

lemma delivery_inv_send:
  assumes "send_delivery env rq h = (r, h')" and "delivery_inv h" and "resolutions_inv h"
  shows "delivery_inv h'"
proof (cases "rt_delivery_sequence h = u64_max")
  case False
  then have inv: "idem_inv (rt_delivery_history h) (rt_delivery_idempotency_by_delivery h) (rt_delivery_idempotency h)"
    using assms(2) by (simp add: delivery_inv_def)
  obtain rp h1 where rp: "replay_step rq h = (rp, h1)" by fastforce
  have h1: "h1 = h"
    using replay_step_handle(2) [OF rp] replay_step_miss(1) [OF _ inv] rp by (cases "rp = Inr None") auto
  then show ?thesis
    using assms rp delivery_inv_deliver [OF _ assms(2) _ assms(3)]
    by (auto simp: send_delivery_eq split: if_splits sum.splits option.splits)
next
  case True
  obtain rp h1 where rp: "replay_step rq h = (rp, h1)" by fastforce
  have "rt_delivery_history h1 = rt_delivery_history h" "rt_delivery_sequence h1 = rt_delivery_sequence h"
    by (subst replay_step_handle(1) [OF rp], simp)+
  then have h1: "length (rt_delivery_history h1) \<le> DELIVERY_HISTORY_LIMIT_MAX" "rt_delivery_sequence h1 = u64_max"
    using True assms(2) by (simp_all add: delivery_inv_def)
  then show ?thesis
    using deliver_trusted_saturated [OF _ h1]
    using assms(1,2) rp h1 True
    by (auto simp: send_delivery_eq delivery_inv_def split: if_splits sum.splits option.splits)
qed

subsection \<open>Frames\<close>

lemma deliver_trusted_frame:
  assumes "deliver_trusted env rq tr h = (r, h')"
  shows "delivery_frame h h'"
  using assms
proof (cases rule: deliver_trusted_cases)
  case limited
  then show ?thesis by (simp add: delivery_frame_def send_base_def)
next
  case (boundary e)
  have "rt_merged_events h' = rt_merged_events h" "rt_delivery_sequence h' = rt_delivery_sequence h"
    "rt_delivery_history h' = rt_delivery_history h" "rt_delivery_idempotency h' = rt_delivery_idempotency h"
    "rt_delivery_idempotency_by_delivery h' = rt_delivery_idempotency_by_delivery h"
    "rt_delivery_now_floor_ms h' = delivery_floor env h" "rt_delivery_clock_ms h' = send_first_attempt env h"
    "rt_delivery_rate_window_counts h' = pruned_counts env h"
    by (subst boundary(2), simp add: send_base_def)+
  then show ?thesis
    unfolding delivery_frame_def by (intro trans [OF boundary(2)]) (simp add: send_base_def)
next
  case (sent oc event rec)
  have "rt_delivery_history h' = fst (stored rec (request_scoped_key rq tr) tr h)"
    "rt_delivery_idempotency_by_delivery h' = fst (snd (stored rec (request_scoped_key rq tr) tr h))"
    "rt_delivery_idempotency h' = snd (snd (stored rec (request_scoped_key rq tr) tr h))"
    "rt_delivery_sequence h' = saturating_add (rt_delivery_sequence h) 1"
    "rt_merged_events h' = insert_event_sorted event (rt_merged_events h)"
    "rt_delivery_now_floor_ms h' = delivery_floor env h"
    "rt_delivery_clock_ms h' = max (send_first_attempt env h) (final_attempt tr (send_first_attempt env h))"
    "rt_delivery_rate_window_counts h' = bt_insert (send_rate_key env tr h)
          (saturating_add (send_rate_count env tr h) 1) (pruned_counts env h)"
    by (subst sent(4), simp)+
  then show ?thesis
    unfolding delivery_frame_def by (intro trans [OF sent(4)]) simp
qed

lemma replay_step_frame:
  assumes "replay_step rq h = (r, h1)"
  shows "delivery_frame h h1" "rt_merged_events h1 = rt_merged_events h"
    "rt_delivery_rate_window_counts h1 = rt_delivery_rate_window_counts h"
    "rt_delivery_clock_ms h1 = rt_delivery_clock_ms h"
    "rt_delivery_now_floor_ms h1 = rt_delivery_now_floor_ms h"
    "rt_delivery_history h1 = rt_delivery_history h" "rt_delivery_sequence h1 = rt_delivery_sequence h"
proof -
  note h1 = replay_step_handle(1) [OF assms]
  show "rt_merged_events h1 = rt_merged_events h"
    "rt_delivery_rate_window_counts h1 = rt_delivery_rate_window_counts h"
    "rt_delivery_clock_ms h1 = rt_delivery_clock_ms h"
    "rt_delivery_now_floor_ms h1 = rt_delivery_now_floor_ms h"
    "rt_delivery_history h1 = rt_delivery_history h" "rt_delivery_sequence h1 = rt_delivery_sequence h"
    by (subst h1, simp)+
  moreover have "rt_tick h1 = rt_tick h" by (subst h1) simp
  ultimately show "delivery_frame h h1"
    unfolding delivery_frame_def by (intro trans [OF h1]) simp
qed

text \<open>A send is a replay, a refusal that delivered nothing, or a delivery over a trusted resolution.\<close>

lemma send_delivery_cases:
  assumes "send_delivery env rq h = (r, h')"
  obtains (unsent) e h1 where "r = Inl e" "h' = h1" "h1 = h \<or> replay_step rq h = (Inr None, h1)"
  | (replayed) rec where "r = Inr rec" "h' = h" "replay_step rq h = (Inr (Some rec), h)"
  | (trusted) tr h1 where "replay_step rq h = (Inr None, h1)" "is_module_loaded h ''delivery''"
      "check_trusted h1 (dq_resolution rq) = Inr tr" "deliver_trusted env rq tr h1 = (r, h')"
proof (cases "is_module_loaded h ''delivery'' \<and> \<not> is_some_and (dq_idempotency_key rq) blank")
  case False
  then have "\<exists>e. r = Inl e \<and> h' = h" using assms by (auto simp: send_delivery_eq split: if_splits)
  then show ?thesis using unsent by auto
next
  case True
  obtain rp h1 where rp: "replay_step rq h = (rp, h1)" by fastforce
  show ?thesis
  proof (cases rp)
    case (Inl e)
    then have "h1 = h" using replay_step_handle(2) [OF rp] by simp
    with Inl True assms rp show ?thesis by (intro unsent [of e h1]) (auto simp: send_delivery_eq)
  next
    case (Inr hit)
    show ?thesis
    proof (cases hit)
      case (Some rec)
      then have "h1 = h" using replay_step_handle(2) [OF rp] Inr by simp
      with Some Inr True assms rp show ?thesis by (intro replayed [of rec]) (auto simp: send_delivery_eq)
    next
      case None
      show ?thesis
      proof (cases "check_trusted h1 (dq_resolution rq)")
        case (Inl e)
        with None \<open>rp = Inr hit\<close> True assms rp show ?thesis
          by (intro unsent [of e h1]) (auto simp: send_delivery_eq)
      next
        case tr: (Inr tr)
        with None Inr True assms rp show ?thesis
          by (intro trusted [of h1 tr]) (auto simp: send_delivery_eq)
      qed
    qed
  qed
qed

lemma send_delivery_frame:
  assumes "send_delivery env rq h = (r, h')"
  shows "delivery_frame h h'"
  using assms
proof (cases rule: send_delivery_cases)
  case (unsent e h1)
  then show ?thesis using replay_step_frame(1) by auto
next
  case (replayed rec)
  then show ?thesis by simp
next
  case (trusted tr h1)
  then show ?thesis
    using delivery_frame_trans [OF replay_step_frame(1) deliver_trusted_frame] by blast
qed

lemma deliver_trusted_events:
  assumes "deliver_trusted env rq tr h = (r, h')"
  shows "rt_merged_events h' = rt_merged_events h
     \<or> (\<exists>event. rt_merged_events h' = insert_event_sorted event (rt_merged_events h))"
  using assms
proof (cases rule: deliver_trusted_cases)
  case limited
  then show ?thesis by (simp add: send_base_def)
next
  case (boundary e)
  have "rt_merged_events h' = rt_merged_events h" by (subst boundary(2)) (simp add: send_base_def)
  then show ?thesis ..
next
  case (sent oc event rec)
  have "rt_merged_events h' = insert_event_sorted event (rt_merged_events h)" by (subst sent(4)) simp
  then show ?thesis by blast
qed

lemma routing_inv_send:
  assumes "send_delivery env rq h = (r, h')" and "routing_inv h"
  shows "routing_inv h'"
proof -
  have "events_sorted (rt_merged_events h')"
    using assms(1)
  proof (cases rule: send_delivery_cases)
    case (unsent e h1)
    then show ?thesis using replay_step_frame(2) assms(2) by (auto simp: routing_inv_def)
  next
    case (replayed rec)
    then show ?thesis using assms(2) by (simp add: routing_inv_def)
  next
    case (trusted tr h1)
    then show ?thesis
      using deliver_trusted_events [OF trusted(4)] replay_step_frame(2) [OF trusted(1)] assms(2)
      by (auto simp: routing_inv_def insert_event_sorted_sorted)
  qed
  then show ?thesis
    using assms(2) delivery_frameD(3-6) [OF send_delivery_frame [OF assms(1)]]
    by (simp add: routing_inv_def resolutions_inv_def)
qed

subsection \<open>Rate windows\<close>

lemma pruned_counts_subset: "set (pruned_counts env h) \<subseteq> set (rt_delivery_rate_window_counts h)"
  by (auto simp: pruned_counts_def bt_retain_def)

lemma pruned_counts_inv: "bt_inv (rt_delivery_rate_window_counts h) \<Longrightarrow> bt_inv (pruned_counts env h)"
  unfolding pruned_counts_def by (rule bt_inv_retain)

lemma saturating_succ_le: "c < limit \<Longrightarrow> saturating_add c 1 \<le> (limit :: 'a::len word)"
proof -
  assume "c < limit"
  then have "unat c < unat limit" by (simp add: word_less_nat_alt)
  moreover have "unat limit < 2 ^ LENGTH('a)" by (rule unsigned_less)
  moreover have "unat (1 :: 'a word) \<le> 1" by (cases "LENGTH('a)") simp_all
  ultimately show ?thesis by (simp add: word_le_nat_alt unat_saturating_add)
qed

lemma rate_inv_deliver:
  assumes "deliver_trusted env rq tr h = (r, h')" and "check_trusted h (dq_resolution rq) = Inr tr"
    and "resolutions_inv h" and "rate_inv h"
  shows "rate_inv h'"
proof -
  note frame = deliver_trusted_frame [OF assms(1)]
  have same: "rt_routing_sequence h' = rt_routing_sequence h" "rt_routing_resolutions h' = rt_routing_resolutions h"
    using delivery_frameD(3,4) [OF frame] by simp_all
  define good where "good = (\<lambda>key (count :: u32).
     (\<exists>n < rt_routing_sequence h. rw_route_id key = route_id_of n)
     \<and> (\<forall>r. bt_get (rt_routing_resolutions h) (rw_route_id key) = Some r \<longrightarrow> count \<le> rs_rate_limit_per_minute r))"
  have start: "bt_inv (rt_delivery_rate_window_counts h)"
    "rt_routing_sequence h \<noteq> u64_max \<Longrightarrow> \<forall>(key, count) \<in> set (rt_delivery_rate_window_counts h). good key count"
    using assms(4) by (simp_all add: rate_inv_def good_def)
  have pruned: "bt_inv (pruned_counts env h)"
    "rt_routing_sequence h \<noteq> u64_max \<Longrightarrow> \<forall>(key, count) \<in> set (pruned_counts env h). good key count"
    using pruned_counts_inv [OF start(1)] start(2) pruned_counts_subset [of env h] by blast+
  have "bt_inv (rt_delivery_rate_window_counts h')
      \<and> (rt_routing_sequence h \<noteq> u64_max \<longrightarrow>
          (\<forall>(key, count) \<in> set (rt_delivery_rate_window_counts h'). good key count))"
    using assms(1)
  proof (cases rule: deliver_trusted_cases)
    case limited
    then show ?thesis using pruned by (simp add: send_base_def)
  next
    case (boundary e)
    have "rt_delivery_rate_window_counts h' = pruned_counts env h"
      by (subst boundary(2)) (simp add: send_base_def)
    then show ?thesis using pruned by simp
  next
    case (sent oc event rec)
    let ?k = "send_rate_key env tr h" and ?c = "saturating_add (send_rate_count env tr h) 1"
    have counts: "rt_delivery_rate_window_counts h' = bt_insert ?k ?c (pruned_counts env h)"
      by (subst sent(4)) simp
    have tr: "bt_get (rt_routing_resolutions h) (rs_route_id tr) = Some tr"
      using check_trusted_ok(1,2) [OF assms(2)] trusted_scoped_key [OF assms(2)] assms(3)
      by (simp add: resolutions_inv_def)
    have "good ?k ?c" if "rt_routing_sequence h \<noteq> u64_max"
    proof -
      have "rs_route_id tr \<in> set (rt_routing_resolution_order h)"
        using assms(3) that tr by (auto simp: resolutions_inv_def bt.indexed_def dom_def)
      then have "\<exists>n < rt_routing_sequence h. rs_route_id tr = route_id_of n"
        using assms(3) that by (simp add: resolutions_inv_def)
      with tr saturating_succ_le [OF sent(2)] show ?thesis
        by (simp add: good_def send_rate_key_def rate_key_of_def)
    qed
    with pruned set_bt_insert_subset [of ?k ?c "pruned_counts env h"] show ?thesis
      unfolding counts by (fastforce simp: bt_inv_insert)
  qed
  then show ?thesis unfolding rate_inv_def same good_def .
qed

lemma rate_inv_send:
  assumes "send_delivery env rq h = (r, h')" and "resolutions_inv h" and "rate_inv h"
  shows "rate_inv h'"
  using assms(1)
proof (cases rule: send_delivery_cases)
  case (unsent e h1)
  have "rate_inv h1 = rate_inv h" if "replay_step rq h = (Inr None, h1)"
    using replay_step_frame(3) [OF that] delivery_frameD(3,4) [OF replay_step_frame(1) [OF that]]
    by (simp add: rate_inv_def)
  then show ?thesis using unsent(2,3) assms(3) by auto
next
  case (replayed rec)
  then show ?thesis using assms(3) by simp
next
  case (trusted tr h1)
  have "resolutions_inv h1" "rate_inv h1"
    using replay_step_frame(3) [OF trusted(1)] delivery_frameD(3-5) [OF replay_step_frame(1) [OF trusted(1)]]
      assms(2,3) by (simp_all add: rate_inv_def resolutions_inv_def)
  then show ?thesis using rate_inv_deliver [OF trusted(4,3)] by simp
qed


text \<open>A new resolution comes under a fresh route id, so it belongs to no charged window.\<close>

lemma rate_inv_record:
  assumes "record_resolution env d h = (res, h')" and "resolutions_inv h" and "rate_inv h"
  shows "rate_inv h'"
proof -
  note facts = record_resolution_facts [OF assms(1)]
  have counts: "rt_delivery_rate_window_counts h' = rt_delivery_rate_window_counts h"
    by (rule routing_frameD(8) [OF facts(2)])
  let ?s = "rt_routing_sequence h"
  have res: "set (rt_routing_resolutions h') \<subseteq> insert (route_id_of ?s, res) (set (rt_routing_resolutions h))"
  proof -
    have "rs_route_id res = route_id_of ?s" using facts(1) by (simp add: draft_resolution_def)
    moreover have "rt_routing_resolutions h' = snd (evict_over ROUTING_RESOLUTION_LIMIT_MAX bt_remove
        (rt_routing_resolution_order h @ [rs_route_id res])
        (bt_insert (rs_route_id res) res (rt_routing_resolutions h)))"
      using facts(4) by (metis snd_conv)
    ultimately show ?thesis
      using order.trans [OF evict_over_subset set_bt_insert_subset [of "rs_route_id res" res]] by metis
  qed
  have "(\<exists>n < rt_routing_sequence h'. rw_route_id key = route_id_of n)
      \<and> (\<forall>r. bt_get (rt_routing_resolutions h') (rw_route_id key) = Some r \<longrightarrow> count \<le> rs_rate_limit_per_minute r)"
    if "rt_routing_sequence h' \<noteq> u64_max" "(key, count) \<in> set (rt_delivery_rate_window_counts h)" for key count
  proof -
    have step: "?s < rt_routing_sequence h'" "?s \<noteq> u64_max"
      using sequence_step that(1) unfolding facts(3) by blast+
    have old: "(\<exists>n < ?s. rw_route_id key = route_id_of n)"
      "\<And>r. bt_get (rt_routing_resolutions h) (rw_route_id key) = Some r \<Longrightarrow> count \<le> rs_rate_limit_per_minute r"
      using assms(3) that(2) step(2) by (auto simp: rate_inv_def)
    have inv: "bt_inv (rt_routing_resolutions h)"
      using assms(2) step(2) by (simp add: resolutions_inv_def bt.indexed_def)
    have "bt_get (rt_routing_resolutions h) (rw_route_id key) = Some r"
      if "bt_get (rt_routing_resolutions h') (rw_route_id key) = Some r" for r
      using bt_get_in_set [OF that] res old(1) bt_in_set_get [OF inv] by auto
    with old step(1) show ?thesis using order.strict_trans by blast
  qed
  moreover have "bt_inv (rt_delivery_rate_window_counts h)" using assms(3) by (simp add: rate_inv_def)
  ultimately show ?thesis unfolding rate_inv_def counts by blast
qed

lemma rate_inv_tick: "h1 = h\<lparr>rt_tick := t\<rparr> \<Longrightarrow> rate_inv h1 = rate_inv h"
  by (simp add: rate_inv_def)

lemma rate_inv_resolve:
  assumes "resolve_routing env rq h = (r, h')" and "routing_inv h" and "rate_inv h"
  shows "rate_inv h'"
  using assms(1)
proof (cases rule: resolve_routing_cases)
  case (refused e)
  show ?thesis by (rule iffD2 [OF rate_inv_tick [OF refused(2)] assms(3)])
next
  case (ok d resolution h1)
  have "resolutions_inv h1"
    using iffD2 [OF routing_inv_tick [OF ok(2)] assms(2)] by (simp add: routing_inv_def)
  then show ?thesis
    by (rule rate_inv_record [OF ok(3)]) (rule iffD2 [OF rate_inv_tick [OF ok(2)] assms(3)])
qed

lemma delivery_inv_frame:
  assumes "rt_delivery_history h' = rt_delivery_history h" "rt_delivery_sequence h' = rt_delivery_sequence h"
    "rt_delivery_idempotency_by_delivery h' = rt_delivery_idempotency_by_delivery h"
    "rt_delivery_idempotency h' = rt_delivery_idempotency h"
  shows "delivery_inv h' = delivery_inv h"
  unfolding delivery_inv_def assms ..

lemma resolve_routing_frame:
  assumes "resolve_routing env rq h = (r, h')"
  shows "routing_frame h h'"
  using assms
proof (cases rule: resolve_routing_cases)
  case (refused e)
  have "rt_routing_sequence h' = rt_routing_sequence h" "rt_routing_resolutions h' = rt_routing_resolutions h"
    "rt_routing_resolution_order h' = rt_routing_resolution_order h" "rt_merged_events h' = rt_merged_events h"
    "rt_delivery_now_floor_ms h' = rt_delivery_now_floor_ms h" "rt_delivery_clock_ms h' = rt_delivery_clock_ms h"
    by (subst refused(2), simp)+
  then show ?thesis unfolding routing_frame_def by (intro trans [OF refused(2)]) simp
next
  case (ok d resolution h1)
  show ?thesis
    unfolding routing_frame_def
    by (rule trans [OF record_resolution_facts(2) [OF ok(3), unfolded routing_frame_def]]) (subst ok(2), simp)
qed

lemma delivery_inv_resolve:
  assumes "resolve_routing env rq h = (r, h')" and "delivery_inv h"
  shows "delivery_inv h'"
  using delivery_inv_frame [OF routing_frameD(5,4,7,6) [OF resolve_routing_frame [OF assms(1)]]] assms(2) by simp

subsection \<open>Route scoping\<close>

text \<open>
  Route ids contain no colon, so a scoped key determines its route id: a key used on one route
  never replays a delivery of another.
\<close>

definition colon_free :: "string \<Rightarrow> bool" where
  "colon_free s \<longleftrightarrow> CHR '':'' \<notin> set s"

definition route_scoped :: "MetaRuntimeHandle \<Rightarrow> bool" where
  "route_scoped h \<longleftrightarrow>
     (\<forall>(k, r) \<in> set (rt_routing_resolutions h). colon_free k \<and> colon_free (rs_route_id r))
     \<and> (\<forall>r \<in> set (rt_delivery_history h). colon_free (dr_route_id r))"

lemma colon_not_in_route_id [simp]: "colon_free (route_id_of n)"
  using pad6_facts(1) [of "unat n"] by (auto simp: colon_free_def route_id_of_def fmt06_def list_all_iff is_digit_def byte_def)

lemma scoped_key_inj:
  assumes "colon_free a" and "colon_free b"
    and "scoped_idempotency_key a k = scoped_idempotency_key b l"
  shows "a = b \<and> k = l"
proof -
  have "a @ CHR '':'' # k = b @ CHR '':'' # l" using assms(3) by (simp add: scoped_idempotency_key_def)
  moreover from this have "takeWhile (\<lambda>c. c \<noteq> CHR '':'') (a @ CHR '':'' # k)
      = takeWhile (\<lambda>c. c \<noteq> CHR '':'') (b @ CHR '':'' # l)" by simp
  then have "a = b" using assms(1,2) unfolding colon_free_def
    by (simp add: takeWhile_append split: if_splits)
  ultimately show ?thesis by simp
qed

lemma route_scoped_resolve:
  assumes "resolve_routing env rq h = (r, h')" and "route_scoped h"
  shows "route_scoped h'"
  using assms(1)
proof (cases rule: resolve_routing_cases)
  case (refused e)
  have "rt_routing_resolutions h' = rt_routing_resolutions h" "rt_delivery_history h' = rt_delivery_history h"
    by (subst refused(2), simp)+
  then show ?thesis using assms(2) by (simp add: route_scoped_def)
next
  case (ok d res h1)
  note facts = record_resolution_facts [OF ok(3)]
  have h1: "rt_routing_resolutions h1 = rt_routing_resolutions h" "rt_delivery_history h1 = rt_delivery_history h"
    by (subst ok(2), simp)+
  have id: "rs_route_id res = route_id_of (rt_routing_sequence h1)" using facts(1) by (simp add: draft_resolution_def)
  have "rt_routing_resolutions h' = snd (evict_over ROUTING_RESOLUTION_LIMIT_MAX bt_remove
        (rt_routing_resolution_order h1 @ [rs_route_id res])
        (bt_insert (rs_route_id res) res (rt_routing_resolutions h1)))"
    using facts(4) by (metis snd_conv)
  then have "set (rt_routing_resolutions h') \<subseteq> insert (rs_route_id res, res) (set (rt_routing_resolutions h))"
    using order.trans [OF evict_over_subset set_bt_insert_subset [of "rs_route_id res" res]] h1 by metis
  moreover have "rt_delivery_history h' = rt_delivery_history h"
    using routing_frameD(5) [OF facts(2)] h1 by simp
  moreover have "\<forall>(k, x) \<in> insert (rs_route_id res, res) (set (rt_routing_resolutions h)).
      colon_free k \<and> colon_free (rs_route_id x)"
    using assms(2) id by (simp add: route_scoped_def)
  ultimately show ?thesis
    using assms(2) unfolding route_scoped_def by (metis (no_types, lifting) subsetD)
qed

lemma check_trusted_route_id:
  assumes "check_trusted h provided = Inr tr" and "resolutions_inv h"
  shows "trim (rs_route_id provided) = rs_route_id provided" "tr = provided"
    "bt_get (rt_routing_resolutions h) (rs_route_id provided) = Some provided" "resolution_ok provided"
proof -
  note ok = check_trusted_ok(1,2) [OF assms(1)]
  show "trim (rs_route_id provided) = rs_route_id provided" "resolution_ok provided"
    using bt_get_in_set [OF ok(2)] assms(2) by (auto simp: resolutions_inv_def)
  then show "tr = provided" "bt_get (rt_routing_resolutions h) (rs_route_id provided) = Some provided"
    using ok by simp_all
qed

lemma deliver_trusted_history:
  assumes "deliver_trusted env rq tr h = (r, h')"
  shows "case r of Inl e \<Rightarrow> rt_delivery_history h' = rt_delivery_history h
     | Inr rec \<Rightarrow> rt_delivery_history h' = drop_oldest (DELIVERY_HISTORY_LIMIT_MAX - 1) (rt_delivery_history h) @ [rec]"
  using assms
proof (cases rule: deliver_trusted_cases)
  case limited
  then show ?thesis by (simp add: send_base_def)
next
  case (boundary e)
  have "rt_delivery_history h' = rt_delivery_history h" by (subst boundary(2)) (simp add: send_base_def)
  then show ?thesis by (simp add: boundary(1))
next
  case (sent oc event rec)
  have "rt_delivery_history h' = fst (stored rec (request_scoped_key rq tr) tr h)" by (subst sent(4)) simp
  then show ?thesis by (simp add: sent(1) stored_history_snoc)
qed

lemma deliver_trusted_record:
  assumes "deliver_trusted env rq tr h = (Inr rec, h')"
  obtains oc where "rec = delivery_record_of rq tr (send_first_attempt env h) oc (rt_delivery_sequence h)"
  using assms by (cases rule: deliver_trusted_cases) auto

lemma route_scoped_send:
  assumes "send_delivery env rq h = (r, h')" and "route_scoped h" and "resolutions_inv h"
  shows "route_scoped h'"
proof -
  have res: "rt_routing_resolutions h' = rt_routing_resolutions h"
    by (rule delivery_frameD(4) [OF send_delivery_frame [OF assms(1)]])
  have "\<forall>x \<in> set (rt_delivery_history h'). colon_free (dr_route_id x)"
    using assms(1)
  proof (cases rule: send_delivery_cases)
    case (unsent e h1)
    then show ?thesis using replay_step_frame(6) assms(2) by (auto simp: route_scoped_def)
  next
    case (replayed rec)
    then show ?thesis using assms(2) by (simp add: route_scoped_def)
  next
    case (trusted tr h1)
    have h1: "rt_delivery_history h1 = rt_delivery_history h" "rt_routing_resolutions h1 = rt_routing_resolutions h"
      using replay_step_frame(6) [OF trusted(1)] delivery_frameD(4) [OF replay_step_frame(1) [OF trusted(1)]] by simp_all
    have tr: "colon_free (rs_route_id tr)"
      using check_trusted_ok(1,2) [OF trusted(3)] bt_get_in_set assms(2) h1(2) by (fastforce simp: route_scoped_def)
    have "colon_free (dr_route_id rec)" if "r = Inr rec" for rec
      by (rule deliver_trusted_record [OF trusted(4) [unfolded that]]) (simp add: delivery_record_of_def tr)
    moreover have "set (rt_delivery_history h') \<subseteq> set (rt_delivery_history h) \<union> {rec. r = Inr rec}"
      using deliver_trusted_history [OF trusted(4)] set_drop_oldest_subset [of _ "rt_delivery_history h"]
      by (cases r) (auto simp: h1(1))
    moreover have "\<forall>x \<in> set (rt_delivery_history h). colon_free (dr_route_id x)"
      using assms(2) by (simp add: route_scoped_def)
    ultimately show ?thesis by auto
  qed
  then show ?thesis using assms(2) unfolding route_scoped_def res by blast
qed

subsection \<open>Replay\<close>

lemma evict_history_keeps:
  assumes "idem_inv history bd idem" and "bt_get idem k = Some e"
    and "di_delivery_id e \<in> dr_delivery_id ` set (drop_oldest cap history)"
  shows "bt_get (snd (snd (evict_history cap history bd idem))) k = Some e"
  using assms
proof (induction cap history bd idem rule: evict_history.induct)
  case (1 cap bd idem)
  then show ?case by simp
next
  case (2 cap r rs bd idem)
  show ?case
  proof (cases "cap < Suc (length rs)")
    case False
    with 2 show ?thesis by simp
  next
    case True
    note one = idem_inv_evict_one [OF "2.prems"(1)]
    have later: "di_delivery_id e \<in> dr_delivery_id ` set (drop_oldest cap rs)"
      using "2.prems"(3) True by simp
    then have other: "di_delivery_id e \<noteq> dr_delivery_id r"
      using "2.prems"(1) set_drop_oldest_subset [of cap rs] by (auto simp: idem_inv_def)
    show ?thesis
    proof (cases "bt_get bd (dr_delivery_id r)")
      case None
      with one True 2 later show ?thesis by simp
    next
      case (Some ks)
      have "k \<notin> set ks"
        using "2.prems"(1,2) Some other unfolding idem_inv_def by fastforce
      with one True Some "2.IH"(2) [OF True Some] later "2.prems"(2) show ?thesis
        by (simp add: bt_get_remove_keys)
    qed
  qed
qed

lemma find_unique_id:
  assumes "distinct (map f xs)" and "x \<in> set xs"
  shows "List.find (\<lambda>y. f y = f x) xs = Some x"
  using assms by (induction xs) auto

lemma replay_step_found:
  assumes "dq_idempotency_key rq = Some key"
    and "bt_get (rt_delivery_idempotency h)
      (scoped_idempotency_key (trim (rs_route_id (dq_resolution rq))) key) = Some e"
    and "di_payload e = dq_payload rq"
    and "unwrap_or (bt_get (rt_routing_resolutions h) (trim (rs_route_id (dq_resolution rq))))
       (di_canonical_resolution e) = dq_resolution rq"
    and "List.find (\<lambda>record. dr_delivery_id record = di_delivery_id e) (rt_delivery_history h) = Some rec"
  shows "replay_step rq h = (Inr (Some rec), h)"
  using assms by (simp add: replay_step_def replay_delivery_for_scoped_idempotency_def Let_def)

text \<open>A delivery just made over a key is found again under that key.\<close>

lemma delivered_is_replayed:
  assumes "deliver_trusted env rq tr h = (Inr rec, h')" and "delivery_inv h" and "resolutions_inv h"
    and "replay_step rq h = (Inr None, h)" and "check_trusted h (dq_resolution rq) = Inr tr"
    and "dq_idempotency_key rq = Some key" and "rt_delivery_sequence h' \<noteq> u64_max"
  shows "replay_step rq h' = (Inr (Some rec), h')"
  using assms(1)
proof (cases rule: deliver_trusted_cases)
  case (sent oc event rec')
  note route = check_trusted_route_id [OF assms(5,3)]
  let ?sk = "scoped_idempotency_key (rs_route_id tr) key"
  let ?e = "\<lparr>di_delivery_id = dr_delivery_id rec, di_payload = dr_payload rec, di_canonical_resolution = tr\<rparr>"
  let ?bd = "push_scoped_key (dr_delivery_id rec) ?sk (rt_delivery_idempotency_by_delivery h)"
  let ?idem = "bt_insert ?sk ?e (rt_delivery_idempotency h)"
  have fields: "rt_delivery_history h' = fst (stored rec (request_scoped_key rq tr) tr h)"
    "rt_delivery_idempotency h' = snd (snd (stored rec (request_scoped_key rq tr) tr h))"
    "rt_delivery_sequence h' = saturating_add (rt_delivery_sequence h) 1"
    "rt_routing_resolutions h' = rt_routing_resolutions h"
    using sent(1) by (subst sent(4), simp)+
  have seq: "rt_delivery_sequence h \<noteq> u64_max" using sequence_step(2) assms(7) unfolding fields by blast
  have inv: "idem_inv (rt_delivery_history h) (rt_delivery_idempotency_by_delivery h) (rt_delivery_idempotency h)"
    and ids: "\<forall>x \<in> set (rt_delivery_history h). \<exists>n < rt_delivery_sequence h. dr_delivery_id x = delivery_id_of n"
    using assms(2) seq by (simp_all add: delivery_inv_def)
  have rec: "rec = delivery_record_of rq tr (send_first_attempt env h) oc (rt_delivery_sequence h)"
    using sent(1,3) by simp
  have fresh: "dr_delivery_id rec \<notin> dr_delivery_id ` set (rt_delivery_history h)"
    using ids by (fastforce simp: rec delivery_record_of_def)
  have "bt_get (rt_delivery_idempotency h) ?sk = None"
    using replay_step_miss(2) [OF assms(4) inv assms(6)] route(1,2) by simp
  then have full: "idem_inv (rt_delivery_history h @ [rec]) ?bd ?idem"
    by (intro idem_inv_index [OF idem_inv_push [OF inv fresh]])
      (simp_all add: entry_for_def rec delivery_record_of_def assms(6))
  have st: "stored rec (request_scoped_key rq tr) tr h
      = evict_history DELIVERY_HISTORY_LIMIT_MAX (rt_delivery_history h @ [rec]) ?bd ?idem"
    using assms(6) by (simp add: stored_def request_scoped_key_def)
  have "dr_delivery_id rec \<in> dr_delivery_id ` set (drop_oldest DELIVERY_HISTORY_LIMIT_MAX (rt_delivery_history h @ [rec]))"
    by (simp add: DELIVERY_HISTORY_LIMIT_MAX_def)
  then have key: "bt_get (rt_delivery_idempotency h') ?sk = Some ?e"
    unfolding fields st by (intro evict_history_keeps [OF full]) (simp_all add: bt_get_insert)
  have "idem_inv (rt_delivery_history h') (fst (snd (stored rec (request_scoped_key rq tr) tr h)))
      (rt_delivery_idempotency h')"
    unfolding fields st by (rule idem_inv_evicted [OF full])
  then have "distinct (map dr_delivery_id (rt_delivery_history h'))" by (simp add: idem_inv_def)
  moreover have "rec \<in> set (rt_delivery_history h')" unfolding fields stored_history_snoc by simp
  ultimately have "List.find (\<lambda>record. dr_delivery_id record = di_delivery_id ?e) (rt_delivery_history h') = Some rec"
    using find_unique_id [of dr_delivery_id] by simp
  then show ?thesis
    using replay_step_found [OF assms(6), of h' ?e] key route fields(4)
    by (simp add: rec delivery_record_of_def)
qed simp_all

section \<open>Attempts\<close>

lemma length_delivery_attempts:
  "rs_retry_max r \<le> ROUTING_RETRY_MAX_CAP \<Longrightarrow> length (delivery_attempts r status) = Suc (unat (rs_retry_max r))"
proof -
  assume "rs_retry_max r \<le> ROUTING_RETRY_MAX_CAP"
  then have "unat (rs_retry_max r) \<le> unat ROUTING_RETRY_MAX_CAP" by (simp add: word_le_nat_alt)
  then have "unat (saturating_add (rs_retry_max r) 1) = Suc (unat (rs_retry_max r))"
    by (simp add: unat_saturating_add ROUTING_RETRY_MAX_CAP_def)
  then show ?thesis by (simp add: delivery_attempts_def Let_def)
qed

lemma delivery_attempts_last:
  "rs_retry_max r \<le> ROUTING_RETRY_MAX_CAP \<Longrightarrow>
   last (delivery_attempts r status) = \<lparr>da_attempt = saturating_add (rs_retry_max r) 1, da_status = status, da_backoff_ms = 0\<rparr>"
proof -
  let ?t = "saturating_add (rs_retry_max r) 1"
  assume "rs_retry_max r \<le> ROUTING_RETRY_MAX_CAP"
  then have "unat (rs_retry_max r) \<le> unat ROUTING_RETRY_MAX_CAP" by (simp add: word_le_nat_alt)
  then have "unat ?t = Suc (unat (rs_retry_max r))"
    by (simp add: unat_saturating_add ROUTING_RETRY_MAX_CAP_def)
  then have "[1 ..< Suc (unat ?t)] = [1 ..< unat ?t] @ [unat ?t]" by simp
  then show ?thesis by (simp add: delivery_attempts_def Let_def last_map)
qed

section \<open>Properties\<close>

text \<open>
  C32. A delivery is made only over the resolution the router remembered, unaltered, addressed
  to the delivery module, within its rate limit: the record carries that resolution's route,
  recipient and sink and the request's payload, one attempt more than its retry bound with the
  final status last, and is appended to the history. Otherwise the result is a replay of a
  retained record of the same route, key and payload without effect on the handle, or an error
  that leaves history and event log alone.
\<close>

theorem send_delivery_only_trusted:
  assumes "routing_inv h" and "delivery_inv h" and "route_scoped h" and "rt_delivery_sequence h \<noteq> u64_max"
  shows "case send_delivery env rq h of
     (Inl e, h') \<Rightarrow> rt_delivery_history h' = rt_delivery_history h \<and> rt_merged_events h' = rt_merged_events h
   | (Inr rec, h') \<Rightarrow>
       dr_route_id rec = rs_route_id (dq_resolution rq) \<and> dr_payload rec = dq_payload rq
       \<and> dr_idempotency_key rec = dq_idempotency_key rq \<and> rec \<in> set (rt_delivery_history h')
       \<and> (h' = h \<or>
          bt_get (rt_routing_resolutions h) (rs_route_id (dq_resolution rq)) = Some (dq_resolution rq)
          \<and> rs_target_module (dq_resolution rq) = ''delivery''
          \<and> send_rate_count env (dq_resolution rq) h < rs_rate_limit_per_minute (dq_resolution rq)
          \<and> dr_recipient rec = rs_recipient (dq_resolution rq) \<and> dr_sink rec = rs_sink (dq_resolution rq)
          \<and> length (dr_attempts rec) = Suc (unat (rs_retry_max (dq_resolution rq)))
          \<and> da_status (last (dr_attempts rec)) = dr_status rec
          \<and> dr_delivery_id rec = delivery_id_of (rt_delivery_sequence h)
          \<and> rt_delivery_history h' = drop_oldest (DELIVERY_HISTORY_LIMIT_MAX - 1) (rt_delivery_history h) @ [rec])"
proof -
  obtain r h' where e: "send_delivery env rq h = (r, h')" by fastforce
  have inv: "idem_inv (rt_delivery_history h) (rt_delivery_idempotency_by_delivery h) (rt_delivery_idempotency h)"
    and res: "resolutions_inv h"
    using assms(1,2,4) by (simp_all add: delivery_inv_def routing_inv_def)
  from e show ?thesis
  proof (cases rule: send_delivery_cases)
    case (unsent err h1)
    then show ?thesis using replay_step_frame(2,6) by (auto simp: e)
  next
    case (replayed rec)
    then obtain key entry where hit: "dq_idempotency_key rq = Some key"
      "bt_get (rt_delivery_idempotency h) (scoped_idempotency_key (trim (rs_route_id (dq_resolution rq))) key) = Some entry"
      "di_payload entry = dq_payload rq"
      "unwrap_or (bt_get (rt_routing_resolutions h) (trim (rs_route_id (dq_resolution rq))))
         (di_canonical_resolution entry) = dq_resolution rq"
      "List.find (\<lambda>record. dr_delivery_id record = di_delivery_id entry) (rt_delivery_history h) = Some rec"
      using replay_step_hit by metis
    have rec: "rec \<in> set (rt_delivery_history h)" "dr_delivery_id rec = di_delivery_id entry"
      using find_Some_iff_split [OF hit(5)] by auto
    obtain x where x: "x \<in> set (rt_delivery_history h)"
      "entry_for (scoped_idempotency_key (trim (rs_route_id (dq_resolution rq))) key) entry x"
      using idem_inv_record [OF inv hit(2)] by blast
    have "inj_on dr_delivery_id (set (rt_delivery_history h))"
      using inv by (simp add: idem_inv_def distinct_map)
    then have "x = rec" using x rec by (simp add: entry_for_def inj_onD)
    then obtain k where k: "dr_idempotency_key rec = Some k" "dr_payload rec = di_payload entry"
      "dr_route_id rec = rs_route_id (di_canonical_resolution entry)"
      "scoped_idempotency_key (trim (rs_route_id (dq_resolution rq))) key = scoped_idempotency_key (dr_route_id rec) k"
      using x(2) by (auto simp: entry_for_def)
    have free: "colon_free (dr_route_id rec)" using assms(3) rec(1) by (simp add: route_scoped_def)
    have same: "rs_route_id (dq_resolution rq) = dr_route_id rec \<and> key = k"
    proof (cases "bt_get (rt_routing_resolutions h) (trim (rs_route_id (dq_resolution rq)))")
      case None
      then have "dq_resolution rq = di_canonical_resolution entry" using hit(4) by simp
      then have route: "rs_route_id (dq_resolution rq) = dr_route_id rec" using k(3) by simp
      have "set (trim (dr_route_id rec)) \<subseteq> set (dr_route_id rec)" by (rule set_trim_subset)
      then have "colon_free (trim (dr_route_id rec))" using free by (auto simp: colon_free_def)
      then show ?thesis using scoped_key_inj [OF _ free k(4)] route by simp
    next
      case (Some y)
      then have y: "y = dq_resolution rq" using hit(4) by simp
      have "rs_route_id y = trim (rs_route_id (dq_resolution rq))" "colon_free (trim (rs_route_id (dq_resolution rq)))"
        using bt_get_in_set [OF Some] res assms(3) by (auto simp: resolutions_inv_def route_scoped_def)
      then show ?thesis using scoped_key_inj [OF _ free k(4)] y by simp
    qed
    then show ?thesis using replayed rec(1) hit(1,3) k(1,2) by (simp add: e)
  next
    case (trusted tr h1)
    have h1: "h1 = h" by (rule replay_step_miss(1) [OF trusted(1) inv])
    note route = check_trusted_route_id [OF trusted(3) [unfolded h1] res]
    note deliver = trusted(4) [unfolded h1]
    note hist = deliver_trusted_history [OF deliver]
    from deliver show ?thesis
    proof (cases rule: deliver_trusted_cases)
      case limited
      then show ?thesis by (simp add: e send_base_def)
    next
      case (boundary b)
      have "rt_merged_events h' = rt_merged_events h" by (subst boundary(2)) (simp add: send_base_def)
      then show ?thesis using hist boundary(1) by (simp add: e)
    next
      case (sent oc event rec)
      have retry: "rs_retry_max tr \<le> ROUTING_RETRY_MAX_CAP" using route(2,4) by (simp add: resolution_ok_def)
      have "dr_route_id rec = rs_route_id tr" "dr_payload rec = dq_payload rq"
        "dr_idempotency_key rec = dq_idempotency_key rq" "dr_recipient rec = rs_recipient tr"
        "dr_sink rec = rs_sink tr" "length (dr_attempts rec) = Suc (unat (rs_retry_max tr))"
        "da_status (last (dr_attempts rec)) = dr_status rec"
        "dr_delivery_id rec = delivery_id_of (rt_delivery_sequence h)"
        using length_delivery_attempts [OF retry] delivery_attempts_last [OF retry]
        unfolding sent(3) by (simp_all add: delivery_record_of_def)
      then show ?thesis
        using hist sent(1,2) route check_trusted_ok(3) [OF trusted(3)] by (simp add: e)
    qed
  qed
qed

text \<open>
  Sending is idempotent per key: once a request with an idempotency key succeeded, the same
  request returns the same record, at whatever time it comes again, and changes nothing.
\<close>

theorem send_delivery_idempotent:
  assumes "routing_inv h" and "delivery_inv h" and "dq_idempotency_key rq = Some key"
    and "send_delivery env rq h = (Inr rec, h')" and "rt_delivery_sequence h' \<noteq> u64_max"
  shows "send_delivery env' rq h' = (Inr rec, h')"
proof -
  have res: "resolutions_inv h" using assms(1) by (simp add: routing_inv_def)
  have ok: "is_module_loaded h ''delivery''" "\<not> is_some_and (dq_idempotency_key rq) blank"
    using assms(4) by (auto simp: send_delivery_eq split: if_splits)
  have "rt_loaded_modules h' = rt_loaded_modules h"
    by (rule delivery_frameD(2) [OF send_delivery_frame [OF assms(4)]])
  then have ok': "is_module_loaded h' ''delivery''" using ok(1) by (simp add: is_module_loaded_def)
  have "replay_step rq h' = (Inr (Some rec), h')"
    using assms(4)
  proof (cases rule: send_delivery_cases)
    case (trusted tr h1)
    have "rt_delivery_sequence h \<noteq> u64_max"
    proof
      assume max: "rt_delivery_sequence h = u64_max"
      have "rt_delivery_sequence h1 = u64_max" using replay_step_frame(7) [OF trusted(1)] max by simp
      moreover have "length (rt_delivery_history h1) \<le> DELIVERY_HISTORY_LIMIT_MAX"
        using replay_step_frame(6) [OF trusted(1)] assms(2) by (simp add: delivery_inv_def)
      ultimately show False using deliver_trusted_saturated [OF trusted(4)] assms(5) by simp
    qed
    then have inv: "idem_inv (rt_delivery_history h) (rt_delivery_idempotency_by_delivery h) (rt_delivery_idempotency h)"
      using assms(2) by (simp add: delivery_inv_def)
    have h1: "h1 = h" by (rule replay_step_miss(1) [OF trusted(1) inv])
    show ?thesis
      by (rule delivered_is_replayed [OF trusted(4) [unfolded h1] assms(2) res trusted(1) [unfolded h1]
            trusted(3) [unfolded h1] assms(3,5)])
  qed simp_all
  then show ?thesis using ok(2) ok' by (simp add: send_delivery_eq)
qed

definition charged :: "MetaRuntimeHandle \<Rightarrow> DeliveryRateWindowKey \<Rightarrow> u32" where
  "charged h key = unwrap_or (bt_get (rt_delivery_rate_window_counts h) key) 0"

lemma bt_get_retain_le:
  "bt_inv m \<Longrightarrow> unwrap_or (bt_get (bt_retain P m) k) 0 \<le> unwrap_or (bt_get m k) (0 :: 'v::len word)"
proof (cases "bt_get (bt_retain P m) k")
  case (Some v)
  assume "bt_inv m"
  moreover have "(k, v) \<in> set m" using bt_get_in_set [OF Some] by (auto simp: bt_retain_def)
  ultimately show ?thesis using Some bt_in_set_get by fastforce
qed simp

lemma deliver_trusted_charge:
  assumes "deliver_trusted env rq tr h = (r, h')" and "bt_inv (rt_delivery_rate_window_counts h)"
    and "charged h key < charged h' key"
  shows "is_ok r \<and> key = send_rate_key env tr h \<and> charged h' key \<le> rs_rate_limit_per_minute tr"
proof -
  have pruned: "unwrap_or (bt_get (pruned_counts env h) key) 0 \<le> charged h key"
    unfolding charged_def pruned_counts_def by (rule bt_get_retain_le [OF assms(2)])
  from assms(1) show ?thesis
  proof (cases rule: deliver_trusted_cases)
    case limited
    then show ?thesis using pruned assms(3) by (simp add: charged_def send_base_def)
  next
    case (boundary e)
    have "rt_delivery_rate_window_counts h' = pruned_counts env h" by (subst boundary(2)) (simp add: send_base_def)
    then show ?thesis using pruned assms(3) by (simp add: charged_def)
  next
    case (sent oc event rec)
    have counts: "rt_delivery_rate_window_counts h' = bt_insert (send_rate_key env tr h)
        (saturating_add (send_rate_count env tr h) 1) (pruned_counts env h)" by (subst sent(4)) simp
    have "key = send_rate_key env tr h"
    proof (rule ccontr)
      assume "key \<noteq> send_rate_key env tr h"
      then have "charged h' key = unwrap_or (bt_get (pruned_counts env h) key) 0"
        by (simp add: charged_def counts bt_get_insert)
      with pruned assms(3) show False by simp
    qed
    then show ?thesis
      using saturating_succ_le [OF sent(2)] sent(1) by (simp add: charged_def counts bt_get_insert)
  qed
qed

text \<open>
  C38. The rate limit holds: no window is ever charged beyond the limit of the resolution it
  belongs to, and a send charges a window only when it delivers, only the window of its own
  resolution at the current time, and never past that resolution's limit.
\<close>

theorem delivery_rate_limit_holds:
  assumes "routing_inv h" and "rate_inv h"
  shows "case send_delivery env rq h of (r, h') \<Rightarrow>
     rate_inv h'
     \<and> (\<forall>key. charged h key < charged h' key \<longrightarrow>
          is_ok r \<and> key = send_rate_key env (dq_resolution rq) h
          \<and> charged h' key \<le> rs_rate_limit_per_minute (dq_resolution rq))"
proof -
  obtain r h' where e: "send_delivery env rq h = (r, h')" by fastforce
  have res: "resolutions_inv h" using assms(1) by (simp add: routing_inv_def)
  have "is_ok r \<and> key = send_rate_key env (dq_resolution rq) h
          \<and> charged h' key \<le> rs_rate_limit_per_minute (dq_resolution rq)"
    if more: "charged h key < charged h' key" for key
    using e
  proof (cases rule: send_delivery_cases)
    case (unsent err h1)
    then show ?thesis using more replay_step_frame(3) by (auto simp: charged_def)
  next
    case (replayed rec)
    then show ?thesis using more by simp
  next
    case (trusted tr h1)
    have tr: "tr = dq_resolution rq" by (rule check_trusted_ok(1) [OF trusted(3)])
    have counts: "rt_delivery_rate_window_counts h1 = rt_delivery_rate_window_counts h"
      by (rule replay_step_frame(3) [OF trusted(1)])
    have "rt_tick h1 = rt_tick h" by (subst replay_step_handle(1) [OF trusted(1)]) simp
    moreover have "rt_delivery_now_floor_ms h1 = rt_delivery_now_floor_ms h"
      "rt_delivery_runtime_epoch_ms h1 = rt_delivery_runtime_epoch_ms h"
      using replay_step_frame(5) [OF trusted(1)] delivery_frameD(19) [OF replay_step_frame(1) [OF trusted(1)]] by simp_all
    ultimately have "delivery_floor env h1 = delivery_floor env h" by (simp add: delivery_floor_def)
    then have key: "send_rate_key env tr h1 = send_rate_key env tr h" by (simp add: send_rate_key_def)
    have "bt_inv (rt_delivery_rate_window_counts h1)" using assms(2) counts by (simp add: rate_inv_def)
    moreover have "charged h1 key < charged h' key" using more counts by (simp add: charged_def)
    ultimately show ?thesis using deliver_trusted_charge [OF trusted(4)] tr key by simp
  qed
  then show ?thesis using rate_inv_send [OF e res assms(2)] by (simp add: e)
qed

text \<open>
  A history query returns the newest matching deliveries, at most the requested number, in
  the order they were made: what it leaves out is an older part of the matches.
\<close>

theorem delivery_history_newest:
  "let matching = filter (\<lambda>record.
         is_none_or (trimmed_some (dh_recipient request)) (\<lambda>recipient. dr_recipient record = recipient)
         \<and> is_none_or (trimmed_some (dh_sink request)) (\<lambda>sink. dr_sink record = sink)) (rt_delivery_history h)
   in \<exists>older. matching = older @ delivery_history h request
        \<and> length (delivery_history h request) = min (dh_limit request) (length matching)"
proof -
  have newest: "\<exists>older. xs = older @ rev (take n (rev xs)) \<and> length (rev (take n (rev xs))) = min n (length xs)"
    for n and xs :: "DeliveryRecord list"
    by (rule exI [of _ "rev (drop n (rev xs))"]) (simp flip: rev_append)
  show ?thesis unfolding delivery_history_def Let_def filter_filter by (rule newest)
qed

section \<open>A concrete delivery\<close>

definition demo_resolution :: RoutingResolution where
  "demo_resolution = draft_resolution (route_id_of 0) demo_draft"

definition demo_sender :: MetaRuntimeHandle where
  "demo_sender = demo_handle
     \<lparr>rt_routing_sequence := 1, rt_routing_resolutions := [(route_id_of 0, demo_resolution)],
      rt_routing_resolution_order := [route_id_of 0]\<rparr>"

definition demo_send :: DeliverySendRequest where
  "demo_send = \<lparr>dq_resolution = demo_resolution, dq_payload = JString ''hello'', dq_idempotency_key = Some ''k''\<rparr>"

lemma demo_sender_inv:
  "routing_inv demo_sender" "delivery_inv demo_sender" "rate_inv demo_sender" "route_scoped demo_sender"
  "rt_delivery_sequence demo_sender = 0"
proof -
  have ok: "resolution_ok demo_resolution"
    by (simp add: resolution_ok_def demo_resolution_def draft_resolution_def demo_draft_def ROUTING_RETRY_MAX_CAP_def)
      code_simp
  have id: "rs_route_id demo_resolution = route_id_of 0" by (simp add: demo_resolution_def draft_resolution_def)
  have bt: "bt_inv [(route_id_of 0, demo_resolution)]" by (simp add: bt_inv_Cons)
  show "routing_inv demo_sender"
    using ok id bt demo_routing_inv
    by (auto simp: routing_inv_def resolutions_inv_def bt.indexed_def demo_sender_def ROUTING_RESOLUTION_LIMIT_MAX_def
        dom_def fun_eq_iff split: if_splits)
  show "delivery_inv demo_sender"
    by (simp add: delivery_inv_def idem_inv_def demo_sender_def demo_handle_def sample_handle_def)
  show "rate_inv demo_sender" by (simp add: rate_inv_def demo_sender_def demo_handle_def sample_handle_def)
  show "route_scoped demo_sender"
    by (simp add: route_scoped_def demo_sender_def demo_handle_def sample_handle_def id)
  show "rt_delivery_sequence demo_sender = 0"
    by (simp add: demo_sender_def demo_handle_def sample_handle_def)
qed

lemma demo_sent: "is_ok (fst (send_delivery demo_env demo_send demo_sender))"
  by code_simp

theorem send_delivery_only_trusted_witness:
  "routing_inv demo_sender \<and> delivery_inv demo_sender \<and> route_scoped demo_sender
   \<and> (case send_delivery demo_env demo_send demo_sender of
        (Inl e, h') \<Rightarrow> False
      | (Inr rec, h') \<Rightarrow> dr_payload rec = JString ''hello'' \<and> rec \<in> set (rt_delivery_history h'))"
proof -
  have "rt_delivery_sequence demo_sender \<noteq> u64_max" by (simp add: demo_sender_inv(5))
  note send_delivery_only_trusted [OF demo_sender_inv(1,2,4) this, where env = demo_env and rq = demo_send]
  with demo_sent demo_sender_inv show ?thesis
    by (auto simp: is_ok_iff demo_send_def split: prod.splits)
qed

lemma demo_sent_sequence: "rt_delivery_sequence (snd (send_delivery demo_env demo_send demo_sender)) = 1"
  by code_simp

theorem send_delivery_idempotent_witness:
  "let sent = send_delivery demo_env demo_send demo_sender in
   routing_inv demo_sender \<and> delivery_inv demo_sender \<and> is_ok (fst sent)
   \<and> send_delivery (demo_env\<lparr>env_clock := (\<lambda>_. 990000)\<rparr>) demo_send (snd sent) = sent"
proof -
  obtain rec h' where e: "send_delivery demo_env demo_send demo_sender = (Inr rec, h')"
    using demo_sent by (metis is_ok_iff prod.collapse)
  have "rt_delivery_sequence h' \<noteq> u64_max" using demo_sent_sequence by (simp add: e)
  moreover have "dq_idempotency_key demo_send = Some ''k''" by (simp add: demo_send_def)
  ultimately have "send_delivery (demo_env\<lparr>env_clock := (\<lambda>_. 990000)\<rparr>) demo_send h' = (Inr rec, h')"
    using send_delivery_idempotent [OF demo_sender_inv(1,2) _ e] by blast
  then show ?thesis using demo_sender_inv by (simp add: e)
qed

theorem delivery_rate_limit_holds_witness:
  "let h' = snd (send_delivery demo_env demo_send demo_sender);
       key = rate_key_of demo_resolution 120000 in
   rate_inv demo_sender \<and> rate_inv h' \<and> charged demo_sender key < charged h' key
   \<and> charged h' key \<le> rs_rate_limit_per_minute demo_resolution"
proof -
  have start: "charged demo_sender (rate_key_of demo_resolution 120000) = 0" by code_simp
  have after: "charged (snd (send_delivery demo_env demo_send demo_sender)) (rate_key_of demo_resolution 120000) = 1"
    by code_simp
  obtain r h' where e: "send_delivery demo_env demo_send demo_sender = (r, h')" by fastforce
  have "charged demo_sender (rate_key_of demo_resolution 120000) < charged h' (rate_key_of demo_resolution 120000)"
    using start after by (simp add: e)
  then have "rate_inv h' \<and> charged h' (rate_key_of demo_resolution 120000)
      \<le> rs_rate_limit_per_minute (dq_resolution demo_send)"
    using delivery_rate_limit_holds [OF demo_sender_inv(1,3), where env = demo_env and rq = demo_send]
    by (auto simp: e)
  then show ?thesis using demo_sender_inv(3) start after
    by (simp add: e) (simp add: demo_send_def)
qed

end
