(* ===== verification/Memory_Ledger.thy ===== *)
theory Memory_Ledger
  imports Delivery
begin

text \<open>
  The memory ledger (\<open>runtime/memory.rs\<close>, and its restore in \<open>runtime/bootstrap.rs\<close>): canonical
  entity, topic and store tokens, indexing of assertions and conflict signals with rollback when
  the ledger cannot be written, queries, the conflict lookup gating relies on, and the restore of
  a persisted ledger at start. Writing the file and the health check's network exchange are the
  environment's \<open>env_write_ledger\<close>.
\<close>

section \<open>Backend configuration\<close>

record LocalJsonMemoryBackendConfig =
  lj_state_path :: string
  lj_health_check_endpoint :: "string option"

record LocalJsonMemoryStoreAdapter =
  la_health_check_endpoint :: "string option"
  la_state_path :: string

definition from_config :: "LocalJsonMemoryBackendConfig \<Rightarrow> LocalJsonMemoryStoreError + LocalJsonMemoryStoreAdapter" where
  "from_config config =
     (case (case lj_health_check_endpoint config of
              None \<Rightarrow> Inr None
            | Some raw \<Rightarrow>
                (let endpoint = trim raw in
                 if endpoint = []
                 then Inl (LedgerInvalidConfig ''memory backend health_check_endpoint must not be empty when provided'')
                 else Inr (Some endpoint))) of
        Inl e \<Rightarrow> Inl e
      | Inr health_check_endpoint \<Rightarrow>
          (let state_path = trim (lj_state_path config) in
           if state_path = [] then Inl (LedgerInvalidConfig ''memory backend state_path must not be empty'')
           else Inr \<lparr>la_health_check_endpoint = health_check_endpoint, la_state_path = state_path\<rparr>))"

record ParsedHttpUrl =
  hu_host :: string
  hu_port :: nat
  hu_path :: string

definition quote :: "string \<Rightarrow> string" where
  "quote s = CHR 0x27 # s @ [CHR 0x27]"

text \<open>\<open>str::parse::<u16>\<close> on a string of digits.\<close>

definition parse_u16_digits :: "string \<Rightarrow> nat option" where
  "parse_u16_digits s = (if s = [] \<or> \<not> decimal_value s < 2 ^ 16 then None else Some (decimal_value s))"

definition parse_authority :: "string \<Rightarrow> string \<Rightarrow> LocalJsonMemoryStoreError + string \<times> nat" where
  "parse_authority trimmed authority =
     (case rsplit_once (CHR '':'') authority of
        Some (host, raw_port) \<Rightarrow>
          (if host \<noteq> [] \<and> list_all is_digit raw_port then
             (case parse_u16_digits raw_port of
                None \<Rightarrow> Inl (LedgerInvalidConfig (''memory backend endpoint port is invalid in '' @ quote trimmed))
              | Some parsed \<Rightarrow> Inr (host, parsed))
           else Inr (authority, 80))
      | None \<Rightarrow> Inr (authority, 80))"

definition parse_http_url :: "string \<Rightarrow> LocalJsonMemoryStoreError + ParsedHttpUrl" where
  "parse_http_url url =
     (let trimmed = trim url;
          empty_host = LedgerInvalidConfig ''memory backend endpoint host must not be empty'' in
      case strip_prefix trimmed ''http://'' of
        None \<Rightarrow> Inl (LedgerInvalidConfig
                 (''memory backend endpoint must start with http:// (got '' @ quote trimmed @ '')''))
      | Some without_scheme \<Rightarrow>
          if without_scheme = [] then Inl empty_host
          else
            (let (authority, path_suffix) =
               (case split_once (CHR ''/'') without_scheme of
                  Some (left, right) \<Rightarrow> (left, ''/'' @ right)
                | None \<Rightarrow> (without_scheme, ''/'')) in
             if authority = [] then Inl empty_host
             else case parse_authority trimmed authority of
               Inl e \<Rightarrow> Inl e
             | Inr (host, port) \<Rightarrow>
                 if host = [] then Inl empty_host
                 else Inr \<lparr>hu_host = host, hu_port = port, hu_path = path_suffix\<rparr>))"

section \<open>Tokens and stores\<close>

definition MEMORY_ASSERTIONS_MAX_RETAINED :: nat where
  "MEMORY_ASSERTIONS_MAX_RETAINED = 4096"

definition MEMORY_SUPPORTED_STORES :: "string list" where
  "MEMORY_SUPPORTED_STORES = [''knowledge_graph'', ''vector'', ''timeline'', ''todo'', ''top_of_mind'']"

definition next_memory_sequence :: "MetaRuntimeHandle \<Rightarrow> u64 \<times> MetaRuntimeHandle" where
  "next_memory_sequence h =
     (let (seq, counter) = next_sequence (rt_memory_sequence h) in
      (seq, h\<lparr>rt_memory_sequence := counter\<rparr>))"

definition canonical_memory_token :: "string \<Rightarrow> string option" where
  "canonical_memory_token raw =
     (let token = to_ascii_lowercase (trim raw) in if token = [] then None else Some token)"

definition canonical_memory_store :: "string \<Rightarrow> string option" where
  "canonical_memory_store raw =
     (case canonical_memory_token raw of
        None \<Rightarrow> None
      | Some store \<Rightarrow> if store \<in> set MEMORY_SUPPORTED_STORES then Some store else None)"

definition default_memory_store :: string where
  "default_memory_store = ''knowledge_graph''"

definition memory_conflict_for_reference ::
  "MetaRuntimeHandle \<Rightarrow> string option \<Rightarrow> string option \<Rightarrow> MemoryConflictSignal option" where
  "memory_conflict_for_reference h entity topic =
     (let signals = map snd (rt_memory_conflicts h) in
      case (Option.bind entity canonical_memory_token, Option.bind topic canonical_memory_token) of
        (Some entity, Some topic) \<Rightarrow> List.find (\<lambda>s. mcs_entity s = entity \<and> mcs_topic s = topic) signals
      | (Some entity, None) \<Rightarrow> List.find (\<lambda>s. mcs_entity s = entity) signals
      | (None, Some topic) \<Rightarrow> List.find (\<lambda>s. mcs_topic s = topic) signals
      | (None, None) \<Rightarrow> None)"

definition memory_stores :: "MetaRuntimeHandle \<Rightarrow> (string \<times> nat) list" where
  "memory_stores h =
     map (\<lambda>store. (store,
            length (filter (\<lambda>a. ma_store a = store) (rt_memory_assertions h))
            + length (filter (\<lambda>s. mcs_store s = store) (map snd (rt_memory_conflicts h)))))
       MEMORY_SUPPORTED_STORES"

section \<open>Indexing\<close>

definition persisted_state :: "MetaRuntimeHandle \<Rightarrow> PersistedMemoryState" where
  "persisted_state h =
     \<lparr>pm_assertions = rt_memory_assertions h, pm_conflicts = map snd (rt_memory_conflicts h)\<rparr>"

definition persist_memory_state ::
  "Env \<Rightarrow> MetaRuntimeHandle \<Rightarrow> (MemoryIndexError + unit) \<times> MetaRuntimeHandle" where
  "persist_memory_state env h =
     (if \<not> rt_memory_backend h then (Inr (), h)
      else
        (let h' = h\<lparr>rt_tick := Suc (rt_tick h)\<rparr> in
         case env_write_ledger env (rt_tick h) (persisted_state h) of
           Some e \<Rightarrow> (Inl (BackendPersistFailed e), h')
         | None \<Rightarrow> (Inr (), h')))"

definition memory_id_of :: "u64 \<Rightarrow> string" where
  "memory_id_of n = ''memory-assert-'' @ fmt06 n"

text \<open>Push the assertion of a fact, keeping the newest ones.\<close>

definition index_fact ::
  "Env \<Rightarrow> string \<Rightarrow> string \<Rightarrow> string \<Rightarrow> MemoryIndexRequest \<Rightarrow> string option \<Rightarrow> MetaRuntimeHandle
     \<Rightarrow> string option \<times> MetaRuntimeHandle" where
  "index_fact env entity topic store request stated h =
     (case stated of
        None \<Rightarrow> (None, h)
      | Some stated \<Rightarrow>
          (let (assertion_sequence, h) = next_memory_sequence h;
               (now, h) = current_time_ms env h;
               assertion = \<lparr>ma_assertion_id = memory_id_of assertion_sequence, ma_entity = entity,
                 ma_topic = topic, ma_store = store, ma_fact = stated, ma_metadata = mi_metadata request,
                 ma_indexed_at_ms = now\<rparr> in
           (Some (ma_assertion_id assertion),
            h\<lparr>rt_memory_assertions :=
                drop_oldest MEMORY_ASSERTIONS_MAX_RETAINED (rt_memory_assertions h @ [assertion])\<rparr>)))"

definition index_conflict ::
  "Env \<Rightarrow> string \<Rightarrow> string \<Rightarrow> string \<Rightarrow> MemoryIndexRequest \<Rightarrow> bool \<Rightarrow> MetaRuntimeHandle \<Rightarrow> MetaRuntimeHandle" where
  "index_conflict env entity topic store request conflict h =
     (if \<not> conflict then h
      else
        (let (now, h) = current_time_ms env h in
         h\<lparr>rt_memory_conflicts := bt_insert (MemoryConflictKey entity topic store)
             \<lparr>mcs_entity = entity, mcs_topic = topic, mcs_store = store,
              mcs_reason = trimmed_some (mi_conflict_reason request), mcs_updated_at_ms = now\<rparr>
             (rt_memory_conflicts h)\<rparr>))"

text \<open>The checks of an index request: entity, topic, store, fact and the conflict flag.\<close>

definition check_index_request ::
  "MemoryIndexRequest \<Rightarrow> MemoryIndexError + string \<times> string \<times> string \<times> string option \<times> bool" where
  "check_index_request request =
     (case canonical_memory_token (mi_entity request) of
        None \<Rightarrow> Inl EntityRequired
      | Some entity \<Rightarrow>
      (case canonical_memory_token (mi_topic request) of
        None \<Rightarrow> Inl TopicRequired
      | Some topic \<Rightarrow>
      (case (case mi_store request of
               None \<Rightarrow> Inr default_memory_store
             | Some raw_store \<Rightarrow> ok_or (canonical_memory_store raw_store) (UnsupportedStore (trim raw_store))) of
        Inl e \<Rightarrow> Inl e
      | Inr store \<Rightarrow>
          (let stated = trimmed_some (mi_fact request);
               conflict = unwrap_or (mi_conflict request) False in
           if stated = None \<and> \<not> conflict then Inl FactRequiredWhenConflictUnset
           else Inr (entity, topic, store, stated, conflict)))))"

definition memory_index ::
  "Env \<Rightarrow> MemoryIndexRequest \<Rightarrow> MetaRuntimeHandle \<Rightarrow> (MemoryIndexError + MemoryIndexResult) \<times> MetaRuntimeHandle" where
  "memory_index env request h =
     (case check_index_request request of
        Inl e \<Rightarrow> (Inl e, h)
      | Inr (entity, topic, store, stated, conflict) \<Rightarrow>
          (let (assertion_id, h1) = index_fact env entity topic store request stated h;
               h2 = index_conflict env entity topic store request conflict h1 in
           case persist_memory_state env h2 of
             (Inl e, h3) \<Rightarrow>
               (Inl e, h3\<lparr>rt_memory_assertions := rt_memory_assertions h,
                          rt_memory_conflicts := rt_memory_conflicts h,
                          rt_memory_sequence := rt_memory_sequence h\<rparr>)
           | (Inr _, h3) \<Rightarrow>
               (Inr \<lparr>mr_entity = entity, mr_topic = topic, mr_store = store, mr_assertion_id = assertion_id,
                     mr_conflict_active = (memory_conflict_for_reference h3 (Some entity) (Some topic) \<noteq> None)\<rparr>,
                h3)))"

section \<open>Queries\<close>

definition assertion_matches_query :: "string option \<Rightarrow> MemoryAssertion \<Rightarrow> bool" where
  "assertion_matches_query query a =
     is_none_or query (\<lambda>needle. str_contains (ma_entity a) needle \<or> str_contains (ma_topic a) needle
       \<or> str_contains (to_ascii_lowercase (ma_fact a)) needle)"

definition conflict_matches_query :: "string option \<Rightarrow> MemoryConflictSignal \<Rightarrow> bool" where
  "conflict_matches_query query s =
     is_none_or query (\<lambda>needle. str_contains (mcs_entity s) needle \<or> str_contains (mcs_topic s) needle
       \<or> is_some_and (mcs_reason s) (\<lambda>reason. str_contains (to_ascii_lowercase reason) needle))"

definition memory_query :: "MetaRuntimeHandle \<Rightarrow> MemoryQueryRequest \<Rightarrow> MemoryQueryResult" where
  "memory_query h request =
     (let entity = Option.bind (mq_entity request) canonical_memory_token;
          topic = Option.bind (mq_topic request) canonical_memory_token;
          store = Option.bind (mq_store request) canonical_memory_store;
          query = Option.bind (mq_query request) canonical_memory_token in
      \<lparr>mqr_assertions = filter (assertion_matches_query query)
         (filter (\<lambda>a. is_none_or store (\<lambda>v. ma_store a = v))
         (filter (\<lambda>a. is_none_or topic (\<lambda>v. ma_topic a = v))
         (filter (\<lambda>a. is_none_or entity (\<lambda>v. ma_entity a = v)) (rt_memory_assertions h)))),
       mqr_conflicts = filter (conflict_matches_query query)
         (filter (\<lambda>s. is_none_or store (\<lambda>v. mcs_store s = v))
         (filter (\<lambda>s. is_none_or topic (\<lambda>v. mcs_topic s = v))
         (filter (\<lambda>s. is_none_or entity (\<lambda>v. mcs_entity s = v)) (map snd (rt_memory_conflicts h)))))\<rparr>)"

section \<open>Restore\<close>

definition parse_memory_assertion_sequence :: "string \<Rightarrow> u64 option" where
  "parse_memory_assertion_sequence assertion_id =
     Option.bind (strip_prefix assertion_id ''memory-assert-'') parse_u64"

definition restore_assertion :: "MemoryAssertion \<Rightarrow> MemoryAssertion option" where
  "restore_assertion a =
     (case canonical_memory_token (ma_entity a) of None \<Rightarrow> None | Some entity \<Rightarrow>
     (case canonical_memory_token (ma_topic a) of None \<Rightarrow> None | Some topic \<Rightarrow>
     (case canonical_memory_store (ma_store a) of None \<Rightarrow> None | Some store \<Rightarrow>
       (let stated = trim (ma_fact a) in
        if stated = [] then None
        else Some (a\<lparr>ma_entity := entity, ma_topic := topic, ma_store := store, ma_fact := stated\<rparr>)))))"

fun restore_conflicts ::
  "MemoryConflictSignal list \<Rightarrow> (MemoryConflictKey, MemoryConflictSignal) btree
     \<Rightarrow> (MemoryConflictKey, MemoryConflictSignal) btree" where
  "restore_conflicts [] m = m"
| "restore_conflicts (signal # signals) m =
     (case (canonical_memory_token (mcs_entity signal), canonical_memory_token (mcs_topic signal),
            canonical_memory_store (mcs_store signal)) of
        (Some entity, Some topic, Some store) \<Rightarrow>
          restore_conflicts signals
            (bt_insert (MemoryConflictKey entity topic store)
              \<lparr>mcs_entity = entity, mcs_topic = topic, mcs_store = store,
               mcs_reason = trimmed_some (mcs_reason signal), mcs_updated_at_ms = mcs_updated_at_ms signal\<rparr> m)
      | _ \<Rightarrow> restore_conflicts signals m)"

definition restore_sequence :: "MemoryAssertion list \<Rightarrow> u64" where
  "restore_sequence assertions =
     (case List.map_filter (\<lambda>a. parse_memory_assertion_sequence (ma_assertion_id a)) assertions of
        [] \<Rightarrow> of_nat (length assertions)
      | n # ns \<Rightarrow> saturating_add (fold max ns n) 1)"

definition restore_memory :: "PersistedMemoryState \<Rightarrow> MetaRuntimeHandle \<Rightarrow> MetaRuntimeHandle" where
  "restore_memory persisted h =
     (let assertions = drop_oldest MEMORY_ASSERTIONS_MAX_RETAINED
            (List.map_filter restore_assertion (pm_assertions persisted)) in
      h\<lparr>rt_memory_assertions := assertions,
        rt_memory_conflicts := restore_conflicts (pm_conflicts persisted) [],
        rt_memory_sequence := restore_sequence assertions\<rparr>)"

section \<open>Canonical tokens\<close>

lemma byte_to_lower:
  "byte (to_ascii_lowercase_char c) = (if 65 \<le> byte c \<and> byte c \<le> 90 then byte c + 32 else byte c)"
  by (simp add: to_ascii_lowercase_char_def byte_char_of)

lemma ws_lower [simp]:
  "ascii_ws (to_ascii_lowercase_char a) = ascii_ws a"
  "ws2 (to_ascii_lowercase_char a) (to_ascii_lowercase_char b) = ws2 a b"
  "ws3 (to_ascii_lowercase_char a) (to_ascii_lowercase_char b) (to_ascii_lowercase_char c) = ws3 a b c"
  unfolding ascii_ws_def ws2_def ws3_def byte_to_lower by auto

lemma ws_len_lower: "ws_len (to_ascii_lowercase s) = ws_len s"
  by (cases s rule: ws_len.cases) (simp_all add: to_ascii_lowercase_def)

lemma ws_len_rev_lower: "ws_len_rev (to_ascii_lowercase s) = ws_len_rev s"
  by (cases s rule: ws_len_rev.cases) (simp_all add: to_ascii_lowercase_def)

lemma trim_lower_trim [simp]: "trim (to_ascii_lowercase (trim s)) = to_ascii_lowercase (trim s)"
proof (rule trim_id)
  show "ws_len (to_ascii_lowercase (trim s)) = 0" by (simp add: ws_len_lower)
  have "rev (to_ascii_lowercase (trim s)) = to_ascii_lowercase (rev (trim s))"
    by (simp add: to_ascii_lowercase_def rev_map)
  moreover have "ws_len_rev (rev (trim s)) = 0"
    using strip_with_done [of ws_len_rev "rev (trim_start s)"]
    by (cases "trim s = []") (simp_all add: trim_def trim_end_def)
  ultimately show "ws_len_rev (rev (to_ascii_lowercase (trim s))) = 0" by (simp add: ws_len_rev_lower)
qed

text \<open>A token that is its own canonical form.\<close>

definition memory_token :: "string \<Rightarrow> bool" where
  "memory_token t \<longleftrightarrow> canonical_memory_token t = Some t"

lemma memory_token_canonical: "canonical_memory_token raw = Some t \<Longrightarrow> memory_token t"
  by (auto simp: memory_token_def canonical_memory_token_def Let_def split: if_splits)

lemma supported_tokens: "s \<in> set MEMORY_SUPPORTED_STORES \<Longrightarrow> memory_token s"
proof -
  have "list_all memory_token MEMORY_SUPPORTED_STORES" by code_simp
  then show "s \<in> set MEMORY_SUPPORTED_STORES \<Longrightarrow> memory_token s" by (simp add: list_all_iff)
qed

lemma canonical_memory_store_id: "s \<in> set MEMORY_SUPPORTED_STORES \<Longrightarrow> canonical_memory_store s = Some s"
  using supported_tokens by (simp add: canonical_memory_store_def memory_token_def)

lemma canonical_memory_store_supported:
  "canonical_memory_store raw = Some s \<Longrightarrow> s \<in> set MEMORY_SUPPORTED_STORES"
  by (auto simp: canonical_memory_store_def split: option.splits if_splits)

lemma default_store_supported [simp]: "default_memory_store \<in> set MEMORY_SUPPORTED_STORES"
  by (simp add: default_memory_store_def MEMORY_SUPPORTED_STORES_def)

lemma memory_id_of_inj [simp]: "memory_id_of m = memory_id_of n \<longleftrightarrow> m = n"
  by (simp add: memory_id_of_def)

lemma parse_memory_id [simp]: "parse_memory_assertion_sequence (memory_id_of n) = Some n"
proof -
  have strip: "strip_prefix (memory_id_of n) ''memory-assert-'' = Some (fmt06 n)"
    unfolding strip_prefix_Some by (simp add: memory_id_of_def)
  show ?thesis unfolding parse_memory_assertion_sequence_def strip by simp
qed

section \<open>The ledger invariant\<close>

definition assertion_ok :: "MemoryAssertion \<Rightarrow> bool" where
  "assertion_ok a \<longleftrightarrow> memory_token (ma_entity a) \<and> memory_token (ma_topic a)
     \<and> ma_store a \<in> set MEMORY_SUPPORTED_STORES \<and> canonical (ma_fact a)"

definition conflict_ok :: "MemoryConflictKey \<Rightarrow> MemoryConflictSignal \<Rightarrow> bool" where
  "conflict_ok k s \<longleftrightarrow> k = MemoryConflictKey (mcs_entity s) (mcs_topic s) (mcs_store s)
     \<and> memory_token (mcs_entity s) \<and> memory_token (mcs_topic s)
     \<and> mcs_store s \<in> set MEMORY_SUPPORTED_STORES \<and> is_none_or (mcs_reason s) canonical"

definition memory_inv :: "MetaRuntimeHandle \<Rightarrow> bool" where
  "memory_inv h \<longleftrightarrow>
     length (rt_memory_assertions h) \<le> MEMORY_ASSERTIONS_MAX_RETAINED
     \<and> list_all assertion_ok (rt_memory_assertions h)
     \<and> bt_inv (rt_memory_conflicts h)
     \<and> (\<forall>(k, s) \<in> set (rt_memory_conflicts h). conflict_ok k s)"

text \<open>Assertion ids are distinct and below the sequence, which keeps new ones fresh.\<close>

definition memory_ids_inv :: "MemoryAssertion list \<Rightarrow> u64 \<Rightarrow> bool" where
  "memory_ids_inv assertions seq \<longleftrightarrow>
     seq = u64_max \<or>
     distinct (map ma_assertion_id assertions)
     \<and> (\<forall>a \<in> set assertions. \<forall>n. ma_assertion_id a = memory_id_of n \<longrightarrow> n < seq)"

section \<open>What indexing does\<close>

lemma check_index_request_ok:
  assumes "check_index_request rq = Inr (entity, topic, store, stated, conflict)"
  shows "canonical_memory_token (mi_entity rq) = Some entity" "canonical_memory_token (mi_topic rq) = Some topic"
    "memory_token entity" "memory_token topic" "store \<in> set MEMORY_SUPPORTED_STORES"
    "stated = trimmed_some (mi_fact rq)" "conflict = unwrap_or (mi_conflict rq) False"
    "stated \<noteq> None \<or> conflict"
  using assms memory_token_canonical canonical_memory_store_supported
  by (auto simp: check_index_request_def ok_or_def Let_def split: option.splits sum.splits if_splits)

definition new_assertion :: "MemoryIndexRequest \<Rightarrow> string \<Rightarrow> string \<Rightarrow> string \<Rightarrow> string \<Rightarrow> u64 \<Rightarrow> u64 \<Rightarrow> MemoryAssertion" where
  "new_assertion rq entity topic store stated seq now =
     \<lparr>ma_assertion_id = memory_id_of seq, ma_entity = entity, ma_topic = topic, ma_store = store,
      ma_fact = stated, ma_metadata = mi_metadata rq, ma_indexed_at_ms = now\<rparr>"

definition new_signal :: "MemoryIndexRequest \<Rightarrow> string \<Rightarrow> string \<Rightarrow> string \<Rightarrow> u64 \<Rightarrow> MemoryConflictSignal" where
  "new_signal rq entity topic store now =
     \<lparr>mcs_entity = entity, mcs_topic = topic, mcs_store = store,
      mcs_reason = trimmed_some (mi_conflict_reason rq), mcs_updated_at_ms = now\<rparr>"

text \<open>The ledger part of the handle after an accepted request.\<close>

definition indexed_assertions where
  "indexed_assertions rq entity topic store stated now h =
     (case stated of None \<Rightarrow> rt_memory_assertions h
      | Some f \<Rightarrow> drop_oldest MEMORY_ASSERTIONS_MAX_RETAINED
          (rt_memory_assertions h @ [new_assertion rq entity topic store f (rt_memory_sequence h) now]))"

definition indexed_conflicts where
  "indexed_conflicts rq entity topic store conflict now h =
     (if conflict then bt_insert (MemoryConflictKey entity topic store) (new_signal rq entity topic store now)
        (rt_memory_conflicts h) else rt_memory_conflicts h)"

definition indexed_sequence :: "string option \<Rightarrow> MetaRuntimeHandle \<Rightarrow> u64" where
  "indexed_sequence stated h =
     (case stated of None \<Rightarrow> rt_memory_sequence h | Some _ \<Rightarrow> saturating_add (rt_memory_sequence h) 1)"

lemma memory_index_cases:
  assumes "memory_index env rq h = (r, h')"
  obtains (refused) e where "r = Inl e" "check_index_request rq = Inl e" "h' = h"
  | (unwritten) e where "r = Inl (BackendPersistFailed e)" "h' = h\<lparr>rt_tick := rt_tick h'\<rparr>"
  | (ok) entity topic store stated conflict t1 t2 res where
      "check_index_request rq = Inr (entity, topic, store, stated, conflict)" "r = Inr res"
      "mr_entity res = entity" "mr_topic res = topic" "mr_store res = store"
      "mr_assertion_id res = map_option (\<lambda>_. memory_id_of (rt_memory_sequence h)) stated"
      "mr_conflict_active res = (memory_conflict_for_reference h' (Some entity) (Some topic) \<noteq> None)"
      "h' = h\<lparr>rt_tick := rt_tick h', rt_memory_sequence := indexed_sequence stated h,
        rt_memory_assertions := indexed_assertions rq entity topic store stated t1 h,
        rt_memory_conflicts := indexed_conflicts rq entity topic store conflict t2 h\<rparr>"
      "rt_memory_backend h \<Longrightarrow> \<exists>t. env_write_ledger env t (persisted_state h') = None"
proof (cases "check_index_request rq")
  case (Inl e)
  with assms refused [of e] show ?thesis by (auto simp: memory_index_def)
next
  case (Inr c)
  obtain entity topic store stated conflict where c: "c = (entity, topic, store, stated, conflict)"
    by (cases c) auto
  obtain i h1 where fct: "index_fact env entity topic store rq stated h = (i, h1)" by fastforce
  define h2 where "h2 = index_conflict env entity topic store rq conflict h1"
  obtain p h3 where p: "persist_memory_state env h2 = (p, h3)" by fastforce
  have h1: "h1 = h\<lparr>rt_tick := rt_tick h1, rt_memory_sequence := indexed_sequence stated h,
      rt_memory_assertions := indexed_assertions rq entity topic store stated (env_clock env (rt_tick h)) h\<rparr>"
    and i: "i = map_option (\<lambda>_. memory_id_of (rt_memory_sequence h)) stated"
    using fct by (auto simp: index_fact_def next_memory_sequence_def next_sequence_def current_time_ms_def
        indexed_assertions_def indexed_sequence_def new_assertion_def Let_def split: option.splits)
  have h1c: "rt_memory_conflicts h1 = rt_memory_conflicts h" by (subst h1) simp
  have h2: "h2 = h1\<lparr>rt_tick := rt_tick h2,
      rt_memory_conflicts := indexed_conflicts rq entity topic store conflict (env_clock env (rt_tick h1)) h\<rparr>"
    by (simp add: h2_def index_conflict_def current_time_ms_def indexed_conflicts_def new_signal_def h1c)
  have h3: "h3 = h2\<lparr>rt_tick := rt_tick h3\<rparr>" "p = Inr () \<or> (\<exists>e. p = Inl (BackendPersistFailed e))"
    "p = Inr () \<Longrightarrow> rt_memory_backend h2 \<Longrightarrow> env_write_ledger env (rt_tick h2) (persisted_state h2) = None"
    using p by (auto simp: persist_memory_state_def Let_def split: if_splits option.splits)
  have all: "h3 = h\<lparr>rt_tick := rt_tick h3, rt_memory_sequence := indexed_sequence stated h,
      rt_memory_assertions := indexed_assertions rq entity topic store stated (env_clock env (rt_tick h)) h,
      rt_memory_conflicts := indexed_conflicts rq entity topic store conflict (env_clock env (rt_tick h1)) h\<rparr>"
    by (rule trans [OF h3(1)]) (subst h2, subst h1, simp)
  show ?thesis
  proof (cases p)
    case (Inl e)
    then obtain e' where e': "e = BackendPersistFailed e'" using h3(2) by auto
    have out: "r = Inl e" "h' = h3\<lparr>rt_memory_assertions := rt_memory_assertions h,
        rt_memory_conflicts := rt_memory_conflicts h, rt_memory_sequence := rt_memory_sequence h\<rparr>"
      using assms Inl p c fct \<open>check_index_request rq = Inr c\<close>
      by (auto simp: memory_index_def h2_def [symmetric])
    have "h' = h\<lparr>rt_tick := rt_tick h'\<rparr>" unfolding out(2) by (subst (1) all) simp
    then show ?thesis using unwritten out(1) e' by blast
  next
    case pin: (Inr u)
    have same: "persisted_state h3 = persisted_state h2" "rt_memory_backend h2 = rt_memory_backend h"
      unfolding persisted_state_def by (subst h3(1), simp)+ (subst h2, subst h1, simp)
    show ?thesis
      by (rule ok [where entity = entity and topic = topic and store = store and stated = stated
            and conflict = conflict and ?t1.0 = "env_clock env (rt_tick h)" and ?t2.0 = "env_clock env (rt_tick h1)"])
        (use assms pin p c fct \<open>check_index_request rq = Inr c\<close> i all h3(3) same in
          \<open>auto simp: memory_index_def h2_def [symmetric]\<close>)
  qed
qed

section \<open>Preservation\<close>

lemma assertions_ok_indexed:
  assumes "check_index_request rq = Inr (entity, topic, store, stated, conflict)" and "memory_inv h"
  shows "list_all assertion_ok (indexed_assertions rq entity topic store stated now h)"
    "length (indexed_assertions rq entity topic store stated now h) \<le> MEMORY_ASSERTIONS_MAX_RETAINED"
proof -
  note c = check_index_request_ok [OF assms(1)]
  have "\<forall>x \<in> set (indexed_assertions rq entity topic store stated now h). assertion_ok x"
  proof (cases stated)
    case None
    then show ?thesis using assms(2) by (simp add: indexed_assertions_def memory_inv_def list_all_iff)
  next
    case (Some f)
    then have "canonical f" using c(6) canonical_trimmed by simp
    then have "assertion_ok (new_assertion rq entity topic store f (rt_memory_sequence h) now)"
      using c by (simp add: assertion_ok_def new_assertion_def)
    moreover have "set (indexed_assertions rq entity topic store stated now h)
        \<subseteq> set (rt_memory_assertions h @ [new_assertion rq entity topic store f (rt_memory_sequence h) now])"
      unfolding indexed_assertions_def Some option.case by (rule set_drop_oldest_subset)
    ultimately show ?thesis using assms(2) by (auto simp: memory_inv_def list_all_iff)
  qed
  then show "list_all assertion_ok (indexed_assertions rq entity topic store stated now h)"
    by (simp add: list_all_iff)
  show "length (indexed_assertions rq entity topic store stated now h) \<le> MEMORY_ASSERTIONS_MAX_RETAINED"
    using assms(2) by (simp add: indexed_assertions_def memory_inv_def split: option.split)
qed

lemma conflicts_ok_indexed:
  assumes "check_index_request rq = Inr (entity, topic, store, stated, conflict)" and "memory_inv h"
  shows "bt_inv (indexed_conflicts rq entity topic store conflict now h)"
    "\<forall>(k, s) \<in> set (indexed_conflicts rq entity topic store conflict now h). conflict_ok k s"
proof -
  note c = check_index_request_ok [OF assms(1)]
  show "bt_inv (indexed_conflicts rq entity topic store conflict now h)"
    using assms(2) by (simp add: indexed_conflicts_def memory_inv_def bt_inv_insert)
  have "conflict_ok (MemoryConflictKey entity topic store) (new_signal rq entity topic store now)"
    using c canonical_trimmed by (auto simp: conflict_ok_def new_signal_def is_none_or_iff)
  moreover have "set (indexed_conflicts rq entity topic store conflict now h)
      \<subseteq> insert (MemoryConflictKey entity topic store, new_signal rq entity topic store now) (set (rt_memory_conflicts h))"
    by (cases conflict) (simp_all add: indexed_conflicts_def set_bt_insert_subset subset_insertI)
  ultimately show "\<forall>(k, s) \<in> set (indexed_conflicts rq entity topic store conflict now h). conflict_ok k s"
    using assms(2) by (auto simp: memory_inv_def)
qed

lemma memory_index_fields:
  assumes "h' = h\<lparr>rt_tick := t, rt_memory_sequence := q, rt_memory_assertions := a, rt_memory_conflicts := c\<rparr>"
  shows "rt_memory_sequence h' = q" "rt_memory_assertions h' = a" "rt_memory_conflicts h' = c"
  by (simp_all add: assms)

lemma memory_inv_index:
  assumes "memory_index env rq h = (r, h')" and "memory_inv h"
  shows "memory_inv h'"
  using assms(1)
proof (cases rule: memory_index_cases)
  case (refused e)
  then show ?thesis using assms(2) by simp
next
  case (unwritten e)
  have "rt_memory_assertions h' = rt_memory_assertions h" "rt_memory_conflicts h' = rt_memory_conflicts h"
    by (subst unwritten(2), simp)+
  then show ?thesis using assms(2) by (simp add: memory_inv_def)
next
  case (ok entity topic store stated conflict t1 t2 res)
  note f = memory_index_fields [OF ok(8)]
  show ?thesis
    using assertions_ok_indexed [OF ok(1) assms(2)] conflicts_ok_indexed [OF ok(1) assms(2)]
    unfolding memory_inv_def f by blast
qed

lemma memory_ids_indexed:
  assumes "memory_ids_inv (rt_memory_assertions h) (rt_memory_sequence h)"
  shows "memory_ids_inv (indexed_assertions rq entity topic store stated now h) (indexed_sequence stated h)"
proof (cases stated)
  case None
  then show ?thesis using assms by (simp add: indexed_assertions_def indexed_sequence_def)
next
  case (Some f)
  let ?s = "rt_memory_sequence h"
  let ?new = "new_assertion rq entity topic store f ?s now"
  let ?all = "rt_memory_assertions h @ [?new]"
  have id: "ma_assertion_id ?new = memory_id_of ?s" by (simp add: new_assertion_def)
  have sub: "set (drop_oldest MEMORY_ASSERTIONS_MAX_RETAINED ?all) \<subseteq> set ?all" by (rule set_drop_oldest_subset)
  have "distinct (map ma_assertion_id (drop_oldest MEMORY_ASSERTIONS_MAX_RETAINED ?all))
      \<and> (\<forall>a \<in> set (drop_oldest MEMORY_ASSERTIONS_MAX_RETAINED ?all). \<forall>n. ma_assertion_id a = memory_id_of n \<longrightarrow> n < saturating_add ?s 1)"
    if "saturating_add ?s 1 \<noteq> u64_max"
  proof -
    note step = sequence_step [OF that]
    have old: "distinct (map ma_assertion_id (rt_memory_assertions h))"
      "\<forall>a \<in> set (rt_memory_assertions h). \<forall>n. ma_assertion_id a = memory_id_of n \<longrightarrow> n < ?s"
      using assms step(2) by (simp_all add: memory_ids_inv_def)
    have "memory_id_of ?s \<notin> ma_assertion_id ` set (rt_memory_assertions h)"
      using old(2) by (metis image_iff order.strict_iff_not)
    then have "distinct (map ma_assertion_id ?all)" using old(1) id by simp
    then have "distinct (map ma_assertion_id (drop_oldest MEMORY_ASSERTIONS_MAX_RETAINED ?all))"
      unfolding drop_oldest_eq drop_map [symmetric] by (rule distinct_drop)
    moreover have "n < saturating_add ?s 1" if "a \<in> set ?all" "ma_assertion_id a = memory_id_of n" for a n
      using that old(2) id step(1) order.strict_trans by auto
    ultimately show ?thesis using sub by blast
  qed
  then show ?thesis by (auto simp: indexed_assertions_def indexed_sequence_def Some memory_ids_inv_def)
qed

lemma memory_ids_index:
  assumes "memory_index env rq h = (r, h')" and "memory_ids_inv (rt_memory_assertions h) (rt_memory_sequence h)"
  shows "memory_ids_inv (rt_memory_assertions h') (rt_memory_sequence h')"
  using assms(1)
proof (cases rule: memory_index_cases)
  case (unwritten e)
  have "rt_memory_assertions h' = rt_memory_assertions h" "rt_memory_sequence h' = rt_memory_sequence h"
    by (subst unwritten(2), simp)+
  then show ?thesis using assms(2) by simp
next
  case (ok entity topic store stated conflict t1 t2 res)
  note f = memory_index_fields [OF ok(8)]
  show ?thesis unfolding f by (rule memory_ids_indexed [OF assms(2)])
qed (use assms(2) in simp)

section \<open>Restart\<close>

lemma restore_assertion_id: "assertion_ok a \<Longrightarrow> restore_assertion a = Some a"
  by (simp add: assertion_ok_def restore_assertion_def memory_token_def canonical_memory_store_id canonical_def Let_def)

lemma restore_assertion_ok: "restore_assertion a = Some b \<Longrightarrow> assertion_ok b"
  by (auto simp: restore_assertion_def assertion_ok_def canonical_def Let_def memory_token_canonical
      canonical_memory_store_supported split: option.splits if_splits)

lemma map_filter_restore_id: "list_all assertion_ok as \<Longrightarrow> List.map_filter restore_assertion as = as"
  by (induction as) (simp_all add: restore_assertion_id List.map_filter_def)

lemma trimmed_canonical: "is_none_or x canonical \<Longrightarrow> trimmed_some x = x"
  by (cases x) (simp_all add: trimmed_some_def canonical_def)

text \<open>Restoring signals of distinct keys inserts each under its key.\<close>

lemma restore_conflicts_get:
  assumes "\<forall>(k, s) \<in> set ms. conflict_ok k s" and "distinct (map fst ms)"
  shows "bt_get (restore_conflicts (map snd ms) m) k = (case map_of ms k of Some s \<Rightarrow> Some s | None \<Rightarrow> bt_get m k)"
  using assms
proof (induction ms arbitrary: m)
  case Nil
  then show ?case by simp
next
  case (Cons e ms)
  obtain k' s where e: "e = (k', s)" by fastforce
  have ok: "conflict_ok k' s" using Cons.prems(1) e by simp
  then have "restore_conflicts (map snd (e # ms)) m = restore_conflicts (map snd ms) (bt_insert k' s m)"
    by (cases s) (simp add: e conflict_ok_def memory_token_def canonical_memory_store_id trimmed_canonical)
  moreover have "map_of ms k' = None" using Cons.prems(2) e by (simp add: map_of_eq_None_iff)
  ultimately show ?case
    using Cons by (auto simp: e bt_get_insert split: option.split)
qed

lemma bt_inv_restore_conflicts: "bt_inv m \<Longrightarrow> bt_inv (restore_conflicts ss m)"
  by (induction ss m rule: restore_conflicts.induct) (auto simp: bt_inv_insert split: option.split)

lemma conflicts_ok_restore:
  "\<forall>(k, s) \<in> set m. conflict_ok k s \<Longrightarrow> \<forall>(k, s) \<in> set (restore_conflicts ss m). conflict_ok k s"
proof (induction ss arbitrary: m)
  case Nil
  then show ?case by simp
next
  case (Cons signal signals)
  consider (skip) "restore_conflicts (signal # signals) m = restore_conflicts signals m"
    | (take) entity topic store where "canonical_memory_token (mcs_entity signal) = Some entity"
      "canonical_memory_token (mcs_topic signal) = Some topic" "canonical_memory_store (mcs_store signal) = Some store"
    by (cases "canonical_memory_token (mcs_entity signal)"; cases "canonical_memory_token (mcs_topic signal)";
        cases "canonical_memory_store (mcs_store signal)") auto
  then show ?case
  proof cases
    case skip
    then show ?thesis using Cons by simp
  next
    case (take entity topic store)
    let ?k = "MemoryConflictKey entity topic store"
    let ?s = "\<lparr>mcs_entity = entity, mcs_topic = topic, mcs_store = store,
               mcs_reason = trimmed_some (mcs_reason signal), mcs_updated_at_ms = mcs_updated_at_ms signal\<rparr>"
    have "conflict_ok ?k ?s"
      using take memory_token_canonical canonical_memory_store_supported canonical_trimmed
      by (auto simp: conflict_ok_def is_none_or_iff)
    then have "\<forall>(k, s) \<in> insert (?k, ?s) (set m). conflict_ok k s" using Cons.prems by simp
    then have "\<forall>(k, s) \<in> set (bt_insert ?k ?s m). conflict_ok k s"
      using set_bt_insert_subset [of ?k ?s m] by (meson subsetD)
    then show ?thesis using Cons.IH take by simp
  qed
qed

lemma fold_max_ge: "x \<in> set (n # ns) \<Longrightarrow> x \<le> fold max ns (n :: 'a::linorder)"
  by (simp add: Max.set_eq_fold [symmetric] del: set_simps)

lemma restore_sequence_fresh:
  assumes "a \<in> set as" and "parse_memory_assertion_sequence (ma_assertion_id a) = Some n"
    and "restore_sequence as \<noteq> u64_max"
  shows "n < restore_sequence as"
proof -
  let ?ns = "List.map_filter (\<lambda>a. parse_memory_assertion_sequence (ma_assertion_id a)) as"
  have "n \<in> set ?ns" using assms(1,2) by (induction as) (auto simp: List.map_filter_def split: option.splits)
  then obtain m ms where ns: "?ns = m # ms" by (cases ?ns) auto
  then have "n \<le> fold max ms m" using \<open>n \<in> set ?ns\<close> fold_max_ge by metis
  moreover have "fold max ms m < saturating_add (fold max ms m) 1"
    using sequence_step(1) assms(3) by (simp add: restore_sequence_def ns)
  ultimately show ?thesis by (simp add: restore_sequence_def ns)
qed

section \<open>Properties\<close>

text \<open>
  Indexing is atomic: a refused request, or one whose ledger write failed, leaves assertions,
  conflicts and sequence as they were; an accepted one was written to the ledger exactly as the
  runtime now holds it, keeps the ledger invariant, and touches nothing else of the handle.
\<close>

theorem memory_index_atomic:
  assumes "memory_inv h"
  shows "case memory_index env rq h of
     (Inl e, h') \<Rightarrow> h' = h\<lparr>rt_tick := rt_tick h'\<rparr>
   | (Inr res, h') \<Rightarrow>
       memory_inv h' \<and> (rt_memory_backend h \<longrightarrow> (\<exists>t. env_write_ledger env t (persisted_state h') = None))
       \<and> h' = h\<lparr>rt_tick := rt_tick h', rt_memory_sequence := rt_memory_sequence h',
                rt_memory_assertions := rt_memory_assertions h', rt_memory_conflicts := rt_memory_conflicts h'\<rparr>"
proof -
  obtain r h' where e: "memory_index env rq h = (r, h')" by fastforce
  have inv: "memory_inv h'" by (rule memory_inv_index [OF e assms])
  from e show ?thesis
  proof (cases rule: memory_index_cases)
    case (refused err)
    then show ?thesis by (simp add: e)
  next
    case (unwritten err)
    show ?thesis unfolding e unwritten(1) prod.case sum.case by (rule unwritten(2))
  next
    case (ok entity topic store stated conflict t1 t2 res)
    note f = memory_index_fields [OF ok(8)]
    have "h' = h\<lparr>rt_tick := rt_tick h', rt_memory_sequence := rt_memory_sequence h',
                rt_memory_assertions := rt_memory_assertions h', rt_memory_conflicts := rt_memory_conflicts h'\<rparr>"
      unfolding f by (rule ok(8))
    then show ?thesis using inv ok(2,9) unfolding e by simp
  qed
qed

text \<open>The query that names a request's entity, topic and store.\<close>

definition query_for :: "MemoryIndexRequest \<Rightarrow> MemoryIndexResult \<Rightarrow> MemoryQueryRequest" where
  "query_for rq res = \<lparr>mq_entity = Some (mi_entity rq), mq_topic = Some (mi_topic rq),
     mq_store = Some (mr_store res), mq_query = None\<rparr>"

text \<open>
  What was indexed is found: a query by the request's own spelling of entity and topic
  returns the new assertion, with its fact trimmed and the id of the result, and a request that
  flagged a conflict makes the conflict active for that entity and topic and visible to queries.
\<close>

theorem memory_index_then_query:
  "case memory_index env rq h of
     (Inl e, h') \<Rightarrow> True
   | (Inr res, h') \<Rightarrow>
       (case trimmed_some (mi_fact rq) of
          None \<Rightarrow> mr_assertion_id res = None
        | Some f \<Rightarrow> \<exists>a \<in> set (mqr_assertions (memory_query h' (query_for rq res))).
            ma_fact a = f \<and> mr_assertion_id res = Some (ma_assertion_id a))
       \<and> (if unwrap_or (mi_conflict rq) False
          then mr_conflict_active res
            \<and> (\<exists>s \<in> set (mqr_conflicts (memory_query h' (query_for rq res))).
                 mcs_reason s = trimmed_some (mi_conflict_reason rq))
          else mr_assertion_id res \<noteq> None)"
proof -
  obtain r h' where e: "memory_index env rq h = (r, h')" by fastforce
  from e show ?thesis
  proof (cases rule: memory_index_cases)
    case (ok entity topic store stated conflict t1 t2 res)
    note c = check_index_request_ok [OF ok(1)]
    note f = memory_index_fields [OF ok(8)]
    have st: "canonical_memory_store store = Some store" by (rule canonical_memory_store_id [OF c(5)])
    have A: "\<exists>a \<in> set (mqr_assertions (memory_query h' (query_for rq res))).
        ma_fact a = g \<and> mr_assertion_id res = Some (ma_assertion_id a)" if "stated = Some g" for g
    proof -
      let ?a = "new_assertion rq entity topic store g (rt_memory_sequence h) t1"
      have "?a \<in> set (rt_memory_assertions h')"
        unfolding f(2) by (simp add: indexed_assertions_def that MEMORY_ASSERTIONS_MAX_RETAINED_def)
      then show ?thesis
        using c(1,2) ok(5,6) st that
        by (intro bexI [of _ ?a])
          (simp_all add: memory_query_def query_for_def Let_def new_assertion_def assertion_matches_query_def)
    qed
    have S: "mr_conflict_active res \<and> (\<exists>s \<in> set (mqr_conflicts (memory_query h' (query_for rq res))).
        mcs_reason s = trimmed_some (mi_conflict_reason rq))" if "conflict"
    proof -
      let ?s = "new_signal rq entity topic store t2"
      have "bt_get (rt_memory_conflicts h') (MemoryConflictKey entity topic store) = Some ?s"
        unfolding f(3) by (simp add: indexed_conflicts_def that bt_get_insert)
      then have s: "?s \<in> snd ` set (rt_memory_conflicts h')" using bt_get_in_set by force
      then have "memory_conflict_for_reference h' (Some entity) (Some topic) \<noteq> None"
        using c(3,4)
        by (auto simp: memory_conflict_for_reference_def memory_token_def find_None_iff new_signal_def
            intro!: bexI [of _ "(_, new_signal rq entity topic store t2)"])
      moreover have "?s \<in> set (mqr_conflicts (memory_query h' (query_for rq res)))"
        using s c(1,2) ok(5) st
        by (simp add: memory_query_def query_for_def Let_def new_signal_def conflict_matches_query_def)
      ultimately show ?thesis using ok(7) by (intro conjI bexI [of _ ?s]) (simp_all add: new_signal_def)
    qed
    show ?thesis using A S c(6-8) ok(2,6) by (auto simp: e split: option.split)
  qed (simp_all add: e)
qed

text \<open>
  C39. A restart loses nothing: restoring a persisted ledger that satisfies the invariant gives
  back the same assertions and conflicts, and the restored sequence is above every retained
  assertion id, so new ids stay fresh.
\<close>

theorem memory_restart_roundtrip:
  assumes "memory_inv h"
  shows "rt_memory_assertions (restore_memory (persisted_state h) h0) = rt_memory_assertions h
   \<and> rt_memory_conflicts (restore_memory (persisted_state h) h0) = rt_memory_conflicts h
   \<and> (rt_memory_sequence (restore_memory (persisted_state h) h0) = u64_max
      \<or> \<not> (\<exists>a \<in> set (rt_memory_assertions h). \<exists>n \<ge> rt_memory_sequence (restore_memory (persisted_state h) h0).
             ma_assertion_id a = memory_id_of n))"
proof -
  have inv: "list_all assertion_ok (rt_memory_assertions h)" "bt_inv (rt_memory_conflicts h)"
    "\<forall>(k, s) \<in> set (rt_memory_conflicts h). conflict_ok k s"
    "length (rt_memory_assertions h) \<le> MEMORY_ASSERTIONS_MAX_RETAINED"
    using assms by (simp_all add: memory_inv_def)
  have A: "rt_memory_assertions (restore_memory (persisted_state h) h0) = rt_memory_assertions h"
    using map_filter_restore_id [OF inv(1)] inv(4) by (simp add: restore_memory_def persisted_state_def Let_def)
  have "bt_get (restore_conflicts (map snd (rt_memory_conflicts h)) []) = bt_get (rt_memory_conflicts h)"
    using restore_conflicts_get [OF inv(3) bt_inv_distinct [OF inv(2)], of "[]"]
    by (auto simp: fun_eq_iff bt_get_eq_map_of split: option.split)
  then have C: "rt_memory_conflicts (restore_memory (persisted_state h) h0) = rt_memory_conflicts h"
    using bt_ext [OF bt_inv_restore_conflicts [OF bt_inv_Nil] inv(2)]
    by (simp add: restore_memory_def persisted_state_def Let_def)
  have "rt_memory_sequence (restore_memory (persisted_state h) h0) = restore_sequence (rt_memory_assertions h)"
    using A by (simp add: restore_memory_def Let_def)
  moreover have "n < restore_sequence (rt_memory_assertions h)"
    if "restore_sequence (rt_memory_assertions h) \<noteq> u64_max" "a \<in> set (rt_memory_assertions h)"
      "ma_assertion_id a = memory_id_of n" for a n
    using restore_sequence_fresh [OF that(2) _ that(1)] that(3) by simp
  ultimately show ?thesis using A C by (auto simp: not_le)
qed

lemma memory_inv_restore: "memory_inv (restore_memory persisted h)"
proof -
  have "list_all assertion_ok (List.map_filter restore_assertion as)" for as
    by (induction as) (auto simp: List.map_filter_def restore_assertion_ok split: option.split)
  then have "list_all assertion_ok (drop_oldest MEMORY_ASSERTIONS_MAX_RETAINED (List.map_filter restore_assertion as))" for as
    unfolding list_all_iff by (meson set_drop_oldest_subset subsetD)
  moreover have "\<forall>(k, s) \<in> set (restore_conflicts ss []). conflict_ok k s" for ss
    by (rule conflicts_ok_restore) simp
  ultimately show ?thesis
    using bt_inv_restore_conflicts [OF bt_inv_Nil]
    by (simp add: memory_inv_def restore_memory_def Let_def)
qed

text \<open>
  Whatever a ledger file holds, what is restored from it satisfies the ledger invariant:
  unusable entries are dropped, the rest is brought into canonical form and bounded.
\<close>

theorem restore_memory_sanitizes: "memory_inv (restore_memory persisted h)"
  by (rule memory_inv_restore)


text \<open>
  The endpoint parser reads back what a plain endpoint says: host, decimal port and path.
\<close>

theorem parse_http_url_roundtrip:
  assumes "host \<noteq> []" and "CHR ''/'' \<notin> set host" and "port < 2 ^ 16"
    and "trim (''http://'' @ host @ '':'' @ nat_decimal port @ ''/'' @ rest)
         = ''http://'' @ host @ '':'' @ nat_decimal port @ ''/'' @ rest"
  shows "parse_http_url (''http://'' @ host @ '':'' @ nat_decimal port @ ''/'' @ rest)
         = Inr \<lparr>hu_host = host, hu_port = port, hu_path = ''/'' @ rest\<rparr>"
proof -
  let ?authority = "host @ CHR '':'' # nat_decimal port"
  have digits: "list_all is_digit (nat_decimal port)" by (rule nat_decimal_digits)
  then have free: "CHR '':'' \<notin> set (rev (nat_decimal port))" "CHR ''/'' \<notin> set ?authority"
    using assms(2) by (auto simp: list_all_iff is_digit_def byte_def)
  have "split_once (CHR '':'') (rev (nat_decimal port) @ CHR '':'' # rev host)
      = Some (rev (nat_decimal port), rev host)"
    by (rule split_once_append [OF free(1)])
  then have "rsplit_once (CHR '':'') ?authority = Some (host, nat_decimal port)"
    by (simp add: rsplit_once_def)
  then have auth: "parse_authority t ?authority = Inr (host, port)" for t
    using assms(1,3) digits by (simp add: parse_authority_def parse_u16_digits_def)
  have strip: "strip_prefix (''http://'' @ host @ '':'' @ nat_decimal port @ ''/'' @ rest) ''http://''
      = Some (?authority @ CHR ''/'' # rest)"
    unfolding strip_prefix_Some by simp
  have split: "split_once (CHR ''/'') (?authority @ CHR ''/'' # rest) = Some (?authority, rest)"
    by (rule split_once_append [OF free(2)])
  show ?thesis
    unfolding parse_http_url_def Let_def assms(4) strip option.case split prod.case auth sum.case
    using assms(1) by simp
qed

section \<open>A concrete ledger\<close>

definition demo_index :: MemoryIndexRequest where
  "demo_index = \<lparr>mi_entity = '' Delivery '', mi_topic = ''Email'', mi_store = None, mi_fact = Some '' ok '',
     mi_metadata = None, mi_conflict = Some True, mi_conflict_reason = None\<rparr>"

lemma demo_memory_inv: "memory_inv demo_handle"
  by (simp add: memory_inv_def demo_handle_def sample_handle_def)

theorem memory_index_atomic_witness:
  "memory_inv demo_handle \<and> is_ok (fst (memory_index demo_env demo_index demo_handle))
   \<and> memory_inv (snd (memory_index demo_env demo_index demo_handle))"
proof -
  have "is_ok (fst (memory_index demo_env demo_index demo_handle))" by code_simp
  with memory_index_atomic [OF demo_memory_inv, where env = demo_env and rq = demo_index] demo_memory_inv
  show ?thesis by (auto simp: is_ok_iff split: prod.splits)
qed

theorem memory_restart_roundtrip_witness:
  "let h = snd (memory_index demo_env demo_index demo_handle) in
   memory_inv h
   \<and> map ma_fact (rt_memory_assertions (restore_memory (persisted_state h) demo_handle)) = [''ok'']"
proof -
  let ?h = "snd (memory_index demo_env demo_index demo_handle)"
  have inv: "memory_inv ?h" using memory_inv_index [OF prod.collapse [symmetric] demo_memory_inv] by blast
  have "map ma_fact (rt_memory_assertions ?h) = [''ok'']" by code_simp
  then show ?thesis using memory_restart_roundtrip [OF inv, of demo_handle] inv by (simp add: Let_def)
qed

theorem parse_http_url_roundtrip_witness:
  "parse_http_url ''http://host:81/x'' = Inr \<lparr>hu_host = ''host'', hu_port = 81, hu_path = ''/x''\<rparr>"
proof -
  have "trim (''http://'' @ ''host'' @ '':'' @ nat_decimal 81 @ ''/'' @ ''x'')
      = ''http://'' @ ''host'' @ '':'' @ nat_decimal 81 @ ''/'' @ ''x''" by code_simp
  moreover have "nat_decimal 81 = ''81''" by code_simp
  ultimately show ?thesis using parse_http_url_roundtrip [of "''host''" 81 "''x''"] by simp
qed

end
