(* ===== verification/Gating_Identity.thy ===== *)
theory Gating_Identity
  imports Memory_Ledger
begin

text \<open>
  The identities of the approval gate (\<open>runtime/gating.rs\<close>, \<open>GatingIdUnavailable\<close> and
  \<open>GatingEscalationRoutes\<close> of \<open>runtime.rs\<close>): owner epochs, the two canonical forms of a gate
  id and their parser, minting that fails closed, and the successor of an escalated gate.
\<close>

section \<open>Constants\<close>

definition GATING_APPROVAL_TIMEOUT_DEFAULT_MS :: u64 where
  "GATING_APPROVAL_TIMEOUT_DEFAULT_MS = 60000"

definition GATING_APPROVAL_TIMEOUT_MIN_MS :: u64 where
  "GATING_APPROVAL_TIMEOUT_MIN_MS = 1000"

definition GATING_APPROVAL_TIMEOUT_MAX_MS :: u64 where
  "GATING_APPROVAL_TIMEOUT_MAX_MS = 7 * 24 * 60 * 60 * 1000"

definition GATING_AUDIT_MAX_RETAINED :: nat where
  "GATING_AUDIT_MAX_RETAINED = 512"

definition GATING_ID_FORMAT :: string where
  "GATING_ID_FORMAT = ''v2''"

definition GATING_IDS_PER_EVALUATION :: u64 where
  "GATING_IDS_PER_EVALUATION = 4"

definition GATING_IDS_PER_DECISION :: u64 where
  "GATING_IDS_PER_DECISION = 3"

definition GATING_PENDING_MAX_RETAINED :: nat where
  "GATING_PENDING_MAX_RETAINED = 512"

section \<open>Origins, epochs and ids\<close>

definition valid_gating_origin :: "GatingOrigin \<Rightarrow> bool" where
  "valid_gating_origin origin \<longleftrightarrow>
     trim (go_identity origin) \<noteq> []
     \<and> is_none_or (go_conversation_id origin) (\<lambda>value. trim value \<noteq> [])
     \<and> is_none_or (go_interaction_id origin) (\<lambda>value. trim value \<noteq> [])"

definition epoch_byte :: "char \<Rightarrow> bool" where
  "epoch_byte c \<longleftrightarrow> is_digit c \<or> 97 \<le> byte c \<and> byte c \<le> 102"

definition valid_gating_epoch :: "string \<Rightarrow> bool" where
  "valid_gating_epoch epoch \<longleftrightarrow> length epoch = 32 \<and> list_all epoch_byte epoch"

datatype GatingIdForm = Legacy u64 | EpochForm string u64

definition canonical_digits :: "string \<Rightarrow> u64 option" where
  "canonical_digits digits = opt_filter (\<lambda>sequence. digits = fmt06 sequence) (parse_u64 digits)"

definition parse_gating_id :: "string \<Rightarrow> string \<Rightarrow> GatingIdForm option" where
  "parse_gating_id value pre =
     (case strip_prefix value pre of
        None \<Rightarrow> None
      | Some rest \<Rightarrow>
         (case Option.bind (strip_prefix rest GATING_ID_FORMAT) (\<lambda>rest. strip_prefix rest ''-'') of
            Some rest \<Rightarrow>
              (case split_once (CHR ''-'') rest of
                 None \<Rightarrow> None
               | Some (epoch, digits) \<Rightarrow>
                   if \<not> valid_gating_epoch epoch then None
                   else map_option (EpochForm epoch) (canonical_digits digits))
          | None \<Rightarrow> map_option Legacy (canonical_digits rest)))"

definition is_legacy_sequential_pending_id :: "string \<Rightarrow> bool" where
  "is_legacy_sequential_pending_id pending_id \<longleftrightarrow>
     (case parse_gating_id pending_id ''gate-pending-'' of Some (Legacy _) \<Rightarrow> True | _ \<Rightarrow> False)"

section \<open>Minting\<close>

fun fallback_reason :: "GatingIdUnavailable \<Rightarrow> string" where
  "fallback_reason EpochUnavailable = ''gating_identity_unavailable''"
| "fallback_reason SequenceExhausted = ''gating_sequence_exhausted''"

definition gating_ids_available :: "u64 \<Rightarrow> MetaRuntimeHandle \<Rightarrow> GatingIdUnavailable + unit" where
  "gating_ids_available needed h =
     (if rt_gating_epoch h = None then Inl EpochUnavailable
      else ok_or (map_option (\<lambda>_. ()) (checked_add (rt_gating_sequence h) needed)) SequenceExhausted)"

definition gate_id :: "string \<Rightarrow> string \<Rightarrow> u64 \<Rightarrow> string" where
  "gate_id kind epoch sequence =
     ''gate-'' @ kind @ ''-'' @ GATING_ID_FORMAT @ ''-'' @ epoch @ ''-'' @ fmt06 sequence"

definition mint_gating_id ::
  "string \<Rightarrow> MetaRuntimeHandle \<Rightarrow> (GatingIdUnavailable + string) \<times> MetaRuntimeHandle" where
  "mint_gating_id kind h =
     (case rt_gating_epoch h of
        None \<Rightarrow> (Inl EpochUnavailable, h)
      | Some epoch \<Rightarrow>
         (case checked_add (rt_gating_sequence h) 1 of
            None \<Rightarrow> (Inl SequenceExhausted, h)
          | Some next \<Rightarrow>
             (Inr (gate_id kind epoch (rt_gating_sequence h)), h\<lparr>rt_gating_sequence := next\<rparr>)))"

section \<open>Escalation routes\<close>

definition routes_validate :: "GatingEscalationRoutes \<Rightarrow> string + unit" where
  "routes_validate r =
     (let valid = (\<lambda>id. id \<noteq> [] \<and> trim id = id) in
      if is_some_and (er_default r) (\<lambda>id. \<not> valid id)
         \<or> list_ex (\<lambda>(from, to). \<not> valid from \<or> \<not> valid to) (er_routes r)
      then Inl ''escalation approver ids must be non-empty and unpadded''
      else Inr ())"

definition successor_for :: "GatingEscalationRoutes \<Rightarrow> string option \<Rightarrow> string option" where
  "successor_for r requested_approver =
     opt_or (Option.bind requested_approver (\<lambda>approver. bt_get (er_routes r) approver)) (er_default r)"

section \<open>Facts\<close>

lemma mint_gating_id_cases:
  assumes "mint_gating_id kind h = (r, h')"
  obtains (none) e where "r = Inl e" "h' = h" "rt_gating_epoch h = None \<or> rt_gating_sequence h = u64_max"
  | (minted) epoch where "r = Inr (gate_id kind epoch (rt_gating_sequence h))"
      "rt_gating_epoch h = Some epoch" "rt_gating_sequence h \<noteq> u64_max"
      "h' = h\<lparr>rt_gating_sequence := rt_gating_sequence h + 1\<rparr>"
  using assms
  by (auto simp: mint_gating_id_def split: option.splits dest: checked_add_SomeD(1)
      simp flip: checked_add_one_None)

text \<open>The availability check covers that many mints.\<close>

lemma gating_ids_available_ok:
  "gating_ids_available needed h = Inr () \<longleftrightarrow>
     rt_gating_epoch h \<noteq> None \<and> unat (rt_gating_sequence h) + unat needed < 2 ^ 64"
  by (auto simp: gating_ids_available_def ok_or_def checked_add_def split: option.splits)

lemma next_u64: "s \<noteq> u64_max \<Longrightarrow> unat (s + 1) = Suc (unat s)" and next_u64_less: "s \<noteq> u64_max \<Longrightarrow> s < s + 1"
proof -
  assume "s \<noteq> u64_max"
  then have "checked_add s 1 = Some (s + 1)" using checked_add_one_None [of s] checked_add_SomeD(1)
    by (metis not_None_eq)
  then show u: "unat (s + 1) = Suc (unat s)" using checked_add_SomeD(2) by fastforce
  then show "s < s + 1" by (simp add: word_less_nat_alt)
qed

lemma mint_available:
  assumes "rt_gating_epoch h = Some epoch" and "unat (rt_gating_sequence h) + Suc n < 2 ^ 64"
  shows "mint_gating_id kind h =
    (Inr (gate_id kind epoch (rt_gating_sequence h)), h\<lparr>rt_gating_sequence := rt_gating_sequence h + 1\<rparr>)"
    and "unat (rt_gating_sequence h + 1) = Suc (unat (rt_gating_sequence h))"
proof -
  have "checked_add (rt_gating_sequence h) 1 = Some (rt_gating_sequence h + 1)"
    using assms(2) by (simp add: checked_add_def)
  then show "mint_gating_id kind h =
    (Inr (gate_id kind epoch (rt_gating_sequence h)), h\<lparr>rt_gating_sequence := rt_gating_sequence h + 1\<rparr>)"
    and "unat (rt_gating_sequence h + 1) = Suc (unat (rt_gating_sequence h))"
    using assms(1) checked_add_SomeD(2) by (fastforce simp: mint_gating_id_def)+
qed

lemma gate_id_inj [simp]: "gate_id kind epoch m = gate_id kind epoch n \<longleftrightarrow> m = n"
  by (simp add: gate_id_def)

lemma canonical_digits_fmt06 [simp]: "canonical_digits (fmt06 n) = Some n"
  by (simp add: canonical_digits_def)

lemma canonical_digits_Some: "canonical_digits s = Some n \<Longrightarrow> s = fmt06 n"
  by (simp add: canonical_digits_def)

lemma dash_not_in_epoch: "valid_gating_epoch epoch \<Longrightarrow> CHR ''-'' \<notin> set epoch"
  by (auto simp: valid_gating_epoch_def list_all_iff epoch_byte_def is_digit_def byte_def)

lemma parse_minted:
  assumes "valid_gating_epoch epoch"
  shows "parse_gating_id (gate_id kind epoch n) (''gate-'' @ kind @ ''-'') = Some (EpochForm epoch n)"
proof -
  have 1: "strip_prefix (gate_id kind epoch n) (''gate-'' @ kind @ ''-'')
      = Some (GATING_ID_FORMAT @ ''-'' @ epoch @ ''-'' @ fmt06 n)"
    unfolding strip_prefix_Some gate_id_def by simp
  have 2: "strip_prefix (GATING_ID_FORMAT @ ''-'' @ epoch @ ''-'' @ fmt06 n) GATING_ID_FORMAT
      = Some (''-'' @ epoch @ ''-'' @ fmt06 n)" unfolding strip_prefix_Some by simp
  have 3: "strip_prefix (''-'' @ epoch @ ''-'' @ fmt06 n) ''-'' = Some (epoch @ ''-'' @ fmt06 n)"
    unfolding strip_prefix_Some by simp
  have 4: "split_once (CHR ''-'') (epoch @ ''-'' @ fmt06 n) = Some (epoch, fmt06 n)"
    using split_once_append [OF dash_not_in_epoch [OF assms], of "fmt06 n"] by simp
  show ?thesis
    unfolding parse_gating_id_def 1 option.case 2 Option.bind.simps 3 option.case 4 prod.case
    using assms by simp
qed

end
