(* ===== verification/Gating.thy ===== *)
theory Gating
  imports Gating_Identity
begin

text \<open>
  The approval gate (\<open>runtime/gating.rs\<close>): evaluation of risky actions by tier, pending
  approvals with their deadlines, decisions by trusted or authenticated deciders, escalation,
  timeouts, the bounded audit log, resolution notices, and snapshot and restore of the gate.
  A wake sent to the change channel carries no data and is left out.
\<close>

section \<open>Encodings\<close>

fun risk_tier_json :: "GatingRiskTier \<Rightarrow> json" where
  "risk_tier_json R0 = JString ''r0''"
| "risk_tier_json R1 = JString ''r1''"
| "risk_tier_json R2 = JString ''r2''"
| "risk_tier_json R3 = JString ''r3''"

fun decision_json :: "GatingDecision \<Rightarrow> json" where
  "decision_json Approve = JString ''approve''"
| "decision_json Reject = JString ''reject''"
| "decision_json Escalate = JString ''escalate''"

definition origin_json :: "GatingOrigin \<Rightarrow> json" where
  "origin_json o1 = json_object
     ((''identity'', JString (go_identity o1))
      # json_some ''conversation_id'' JString (go_conversation_id o1)
      @ json_some ''interaction_id'' JString (go_interaction_id o1))"

definition signal_json :: "MemoryConflictSignal \<Rightarrow> json" where
  "signal_json s = json_object
     [(''entity'', JString (mcs_entity s)), (''topic'', JString (mcs_topic s)),
      (''store'', JString (mcs_store s)), (''reason'', json_opt_str (mcs_reason s)),
      (''updated_at_ms'', json_u64 (mcs_updated_at_ms s))]"

definition reference_json :: "string option \<Rightarrow> string option \<Rightarrow> json" where
  "reference_json entity topic =
     json_object [(''entity'', json_opt_str entity), (''topic'', json_opt_str topic)]"

section \<open>Audit and timeouts\<close>

definition approval_notification_disposition :: "DeliverySendError + DeliveryRecord \<Rightarrow> string" where
  "approval_notification_disposition sent =
     (case sent of
        Inr record \<Rightarrow> if dr_status record = ''sent'' then ''acknowledged'' else ''not_delivered''
      | Inl (DeliveryBoundary (McpErr (McpRequired _ _))) \<Rightarrow> ''not_sent''
      | Inl (DeliveryBoundary _) \<Rightarrow> ''unknown''
      | Inl _ \<Rightarrow> ''not_sent'')"

definition audit_entry ::
  "string \<Rightarrow> string \<Rightarrow> string option \<Rightarrow> string \<Rightarrow> GatingRiskTier \<Rightarrow> GatingOutcome \<Rightarrow> json \<Rightarrow> GatingAuditEntry" where
  "audit_entry event_type action_id pending_id actor_id risk_tier outcome detail =
     \<lparr>ga_audit_id = [], ga_timestamp_ms = 0, ga_event_type = event_type, ga_action_id = action_id,
      ga_pending_id = pending_id, ga_actor_id = actor_id, ga_risk_tier = risk_tier,
      ga_outcome = outcome, ga_detail = detail\<rparr>"

definition record_gating_audit ::
  "Env \<Rightarrow> string \<Rightarrow> GatingAuditEntry \<Rightarrow> MetaRuntimeHandle \<Rightarrow> MetaRuntimeHandle" where
  "record_gating_audit env audit_id entry h =
     (let (now, h) = current_time_ms env h;
          entry = entry\<lparr>ga_audit_id := audit_id, ga_timestamp_ms := now\<rparr> in
      h\<lparr>rt_gating_audit := drop_oldest GATING_AUDIT_MAX_RETAINED (rt_gating_audit h @ [entry])\<rparr>)"

definition append_gating_audit ::
  "Env \<Rightarrow> GatingAuditEntry \<Rightarrow> MetaRuntimeHandle \<Rightarrow> (GatingIdUnavailable + unit) \<times> MetaRuntimeHandle" where
  "append_gating_audit env entry h =
     (case mint_gating_id ''audit'' h of
        (Inl e, h) \<Rightarrow> (Inl e, h)
      | (Inr audit_id, h) \<Rightarrow> (Inr (), record_gating_audit env audit_id entry h))"

text \<open>Settle one expired entry under a minted audit id.\<close>

definition settle_timeout :: "Env \<Rightarrow> string \<Rightarrow> string \<Rightarrow> MetaRuntimeHandle \<Rightarrow> MetaRuntimeHandle" where
  "settle_timeout env audit_id pending_id h =
     (case bt_get (rt_gating_pending h) pending_id of
        None \<Rightarrow> h
      | Some expired_entry \<Rightarrow>
         (let h = h\<lparr>rt_gating_pending := bt_remove pending_id (rt_gating_pending h),
                    rt_gating_pending_order :=
                      filter (\<lambda>candidate. candidate \<noteq> pending_id) (rt_gating_pending_order h)\<rparr>;
              h = record_gating_audit env audit_id
                    (audit_entry ''timeout_fallback'' (gp_action_id expired_entry) (Some pending_id)
                      (gp_actor_id expired_entry) (gp_risk_tier expired_entry) SafeDraft
                      (json_object
                        [(''fallback'', JString ''safe_draft''), (''reason'', JString ''approval_timeout''),
                         (''origin'', json_option origin_json (gp_origin expired_entry))])) h in
          h\<lparr>rt_gating_notice_queue := rt_gating_notice_queue h @
              [\<lparr>gn_pending_id = pending_id, gn_action_id = gp_action_id expired_entry, gn_approved = False,
                gn_next_pending_id = None, gn_cause = ''timeout_fallback''\<rparr>]\<rparr>))"

fun settle_expired :: "Env \<Rightarrow> string list \<Rightarrow> MetaRuntimeHandle \<Rightarrow> MetaRuntimeHandle" where
  "settle_expired env [] h = h"
| "settle_expired env (pending_id # rest) h =
     (case mint_gating_id ''audit'' h of
        (Inl _, h) \<Rightarrow> h
      | (Inr audit_id, h) \<Rightarrow> settle_expired env rest (settle_timeout env audit_id pending_id h))"

definition expired_ids :: "u64 \<Rightarrow> MetaRuntimeHandle \<Rightarrow> string list" where
  "expired_ids now_ms h = map fst (filter (\<lambda>(_, entry). now_ms \<ge> gp_deadline_at_ms entry) (rt_gating_pending h))"

definition refresh_gating_timeouts_at :: "Env \<Rightarrow> u64 \<Rightarrow> MetaRuntimeHandle \<Rightarrow> MetaRuntimeHandle" where
  "refresh_gating_timeouts_at env now_ms h = settle_expired env (expired_ids now_ms h) h"

definition refresh_gating_timeouts :: "Env \<Rightarrow> MetaRuntimeHandle \<Rightarrow> MetaRuntimeHandle" where
  "refresh_gating_timeouts env h =
     (let (now, h) = current_time_ms env h in refresh_gating_timeouts_at env now h)"

definition upsert_gating_pending_entry :: "GatingPendingEntry \<Rightarrow> MetaRuntimeHandle \<Rightarrow> MetaRuntimeHandle" where
  "upsert_gating_pending_entry entry h =
     (let pending_id = gp_pending_id entry;
          (order, pending) = evict_over GATING_PENDING_MAX_RETAINED bt_remove
            (filter (\<lambda>candidate. candidate \<noteq> pending_id) (rt_gating_pending_order h) @ [pending_id])
            (bt_insert pending_id entry (rt_gating_pending h)) in
      h\<lparr>rt_gating_pending := pending, rt_gating_pending_order := order\<rparr>)"

definition take_gating_notices :: "MetaRuntimeHandle \<Rightarrow> GatingResolutionNotice list \<times> MetaRuntimeHandle" where
  "take_gating_notices h = (rt_gating_notice_queue h, h\<lparr>rt_gating_notice_queue := []\<rparr>)"

definition deliver_notices :: "GatingResolutionNotice list \<Rightarrow> MetaRuntimeHandle \<Rightarrow> MetaRuntimeHandle" where
  "deliver_notices notices h = h\<lparr>rt_gating_delivered := rt_gating_delivered h @ notices\<rparr>"

definition flush_gating_notices :: "MetaRuntimeHandle \<Rightarrow> MetaRuntimeHandle" where
  "flush_gating_notices h = (let (notices, h) = take_gating_notices h in deliver_notices notices h)"

section \<open>Memory conflicts\<close>

definition parse_memory_conflict_mcp_response ::
  "Env \<Rightarrow> json \<Rightarrow> RuntimeBoundaryError + MemoryConflictSignal option" where
  "parse_memory_conflict_mcp_response env response =
     (let candidate = unwrap_or (Option.bind (as_object response) (\<lambda>payload. bt_get payload ''conflict'')) response in
      if is_null candidate then Inr None
      else case env_decode_conflict env candidate of
        Inr signal \<Rightarrow> Inr (Some signal)
      | Inl reason \<Rightarrow> Inl (McpErr (InvalidToolPayload ''memory'' MEMORY_CONFLICT_READ_MCP_TOOL reason)))"

definition gating_memory_conflict_for_reference ::
  "Env \<Rightarrow> string option \<Rightarrow> string option \<Rightarrow> MetaRuntimeHandle
     \<Rightarrow> (RuntimeBoundaryError + MemoryConflictSignal option) \<times> MetaRuntimeHandle" where
  "gating_memory_conflict_for_reference env entity topic h =
     (if \<not> is_module_loaded h ''memory'' then (Inr (memory_conflict_for_reference h entity topic), h)
      else case module_and_prespawn h ''memory'' of
        None \<Rightarrow> (Inl (mcp_required_error ''memory'' MEMORY_CONFLICT_READ_MCP_TOOL), h)
      | Some (memory_module, pre_spawn) \<Rightarrow>
          if \<not> module_uses_mcp memory_module pre_spawn
          then (Inl (mcp_required_error ''memory'' MEMORY_CONFLICT_READ_MCP_TOOL), h)
          else
            (let (response, h) = call_module_mcp_tool_json env memory_module pre_spawn
                   MEMORY_CONFLICT_READ_MCP_TOOL (reference_json entity topic) CORE_MODULE_MCP_TIMEOUT h in
             case response of
               Inl e \<Rightarrow> (Inl e, h)
             | Inr value \<Rightarrow> (parse_memory_conflict_mcp_response env value, h)))"

section \<open>Evaluation\<close>

text \<open>The cleaned fields of a request that the branches share.\<close>

record GateCall =
  gc_action_id :: string
  gc_action :: string
  gc_actor_id :: string
  gc_risk_tier :: GatingRiskTier
  gc_entity :: "string option"
  gc_topic :: "string option"
  gc_origin :: "GatingOrigin option"

definition clean_origin :: "GatingOrigin \<Rightarrow> GatingOrigin" where
  "clean_origin origin = origin\<lparr>
     go_conversation_id := opt_filter (\<lambda>value. trim value \<noteq> []) (go_conversation_id origin),
     go_interaction_id := opt_filter (\<lambda>value. trim value \<noteq> []) (go_interaction_id origin)\<rparr>"

definition gate_result ::
  "GateCall \<Rightarrow> GatingOutcome \<Rightarrow> string option \<Rightarrow> string option \<Rightarrow> GatingEvaluateResult" where
  "gate_result c outcome pending_id reason =
     \<lparr>gr_action_id = gc_action_id c, gr_action = gc_action c, gr_actor_id = gc_actor_id c,
      gr_risk_tier = gc_risk_tier c, gr_outcome = outcome, gr_pending_id = pending_id,
      gr_fallback_reason = reason\<rparr>"

definition gate_audit ::
  "GateCall \<Rightarrow> string \<Rightarrow> string option \<Rightarrow> GatingOutcome \<Rightarrow> (string \<times> json) list \<Rightarrow> GatingAuditEntry" where
  "gate_audit c event_type pending_id outcome detail =
     audit_entry event_type (gc_action_id c) pending_id (gc_actor_id c) (gc_risk_tier c) outcome
       (json_object detail)"

abbreviation origin_member :: "GateCall \<Rightarrow> string \<times> json" where
  "origin_member c \<equiv> (''origin'', json_option origin_json (gc_origin c))"

text \<open>The memory conflict check of the R2 and R3 tiers: the reason and audit record of a block.\<close>

definition conflict_block ::
  "Env \<Rightarrow> GateCall \<Rightarrow> MetaRuntimeHandle \<Rightarrow> (string \<times> GatingAuditEntry) option \<times> MetaRuntimeHandle" where
  "conflict_block env c h =
     (if rt_memory_conflicts h \<noteq> [] \<and> (gc_entity c = None \<or> gc_topic c = None) then
        (Some (''memory_conflict_context_missing'',
           gate_audit c ''conflict_blocked'' None SafeDraft
             [(''policy'', JString ''memory_conflict_context_required_v0_1''),
              (''reason'', JString ''memory_conflict_context_missing''),
              (''action'', JString (gc_action c)),
              (''reference'', reference_json (gc_entity c) (gc_topic c)),
              (''missing_context'', json_object [(''entity'', JBool (gc_entity c = None)),
                 (''topic'', JBool (gc_topic c = None))]),
              (''conflict_count'', json_usize (length (rt_memory_conflicts h))),
              origin_member c]), h)
      else
        (let (conflict, h) = gating_memory_conflict_for_reference env (gc_entity c) (gc_topic c) h in
         case conflict of
           Inl error \<Rightarrow>
             (Some (''memory_conflict_lookup_failed'',
                gate_audit c ''memory_conflict_lookup_failed'' None SafeDraft
                  [(''policy'', JString ''memory_conflict_lookup_via_core_mcp''),
                   (''reason'', JString ''memory_conflict_lookup_failed''),
                   (''error'', JString (env_debug_boundary env error)),
                   origin_member c,
                   (''reference'', reference_json (gc_entity c) (gc_topic c))]), h)
         | Inr (Some signal) \<Rightarrow>
             (Some (''memory_conflict'',
                gate_audit c ''conflict_blocked'' None SafeDraft
                  [(''policy'', JString ''memory_conflict_block_v0_1''),
                   (''reason'', JString ''memory_conflict''),
                   (''action'', JString (gc_action c)),
                   (''reference'', reference_json (gc_entity c) (gc_topic c)),
                   (''conflict'', signal_json signal),
                   origin_member c]), h)
         | Inr None \<Rightarrow> (None, h)))"

text \<open>The route of an approval request, or why none was resolved.\<close>

fun join_comma :: "string list \<Rightarrow> string" where
  "join_comma [] = []"
| "join_comma [x] = x"
| "join_comma (x # xs) = x @ '','' @ join_comma xs"

definition resolve_approval_route ::
  "Env \<Rightarrow> string option \<Rightarrow> string option \<Rightarrow> MetaRuntimeHandle
     \<Rightarrow> RoutingResolution option \<times> string option \<times> MetaRuntimeHandle" where
  "resolve_approval_route env approval_recipient approval_channel h =
     (case (approval_recipient, approval_channel) of
        (Some recipient, Some channel) \<Rightarrow>
          (if is_module_loaded h ''router'' \<and> is_module_loaded h ''delivery'' then
             (case resolve_routing env \<lparr>rq_recipient = recipient, rq_channel = Some channel, rq_retry_max = None,
                     rq_backoff_ms = None, rq_rate_limit_per_minute = None\<rparr> h of
                (Inr resolved, h) \<Rightarrow> (Some resolved, None, h)
              | (Inl err, h) \<Rightarrow> (None, Some (''routing:'' @ env_debug_routing env err), h))
           else
             (None, Some (''notification_modules_unavailable:'' @
                join_comma ((if \<not> is_module_loaded h ''router'' then [''router''] else [])
                  @ (if \<not> is_module_loaded h ''delivery'' then [''delivery''] else []))), h))
      | _ \<Rightarrow> (None, None, h))"

definition approval_timeout :: "GatingEvaluateRequest \<Rightarrow> u64" where
  "approval_timeout request =
     clamp (unwrap_or (ge_approval_timeout_ms request) GATING_APPROVAL_TIMEOUT_DEFAULT_MS)
       GATING_APPROVAL_TIMEOUT_MIN_MS GATING_APPROVAL_TIMEOUT_MAX_MS"

definition new_pending_entry ::
  "GatingEvaluateRequest \<Rightarrow> GateCall \<Rightarrow> string \<Rightarrow> u64 \<Rightarrow> RoutingResolution option \<Rightarrow> GatingPendingEntry" where
  "new_pending_entry request c pending_id created_at_ms resolution =
     \<lparr>gp_pending_id = pending_id, gp_action_id = gc_action_id c, gp_action = gc_action c,
      gp_actor_id = gc_actor_id c, gp_risk_tier = gc_risk_tier c,
      gp_requested_approver = trimmed_some (ge_requested_approver request),
      gp_approval_recipient = trimmed_some (ge_approval_recipient request),
      gp_approval_channel = trimmed_some (ge_approval_channel request),
      gp_approval_route_id = map_option rs_route_id resolution, gp_approval_delivery_id = None,
      gp_created_at_ms = created_at_ms,
      gp_deadline_at_ms = saturating_add created_at_ms (approval_timeout request),
      gp_rationale = ge_rationale request, gp_origin = gc_origin c\<rparr>"

definition pending_created_audit :: "GateCall \<Rightarrow> GatingPendingEntry \<Rightarrow> string option \<Rightarrow> GatingAuditEntry" where
  "pending_created_audit c entry error =
     gate_audit c ''pending_created'' (Some (gp_pending_id entry)) PendingApproval
       [(''requested_approver'', json_opt_str (gp_requested_approver entry)),
        (''approval_recipient'', json_opt_str (gp_approval_recipient entry)),
        (''approval_channel'', json_opt_str (gp_approval_channel entry)),
        (''approval_route_id'', json_opt_str (gp_approval_route_id entry)),
        (''approval_delivery_id'', json_opt_str (gp_approval_delivery_id entry)),
        (''approval_notification_error'', json_opt_str error),
        (''deadline_at_ms'', json_u64 (gp_deadline_at_ms entry)),
        (''action'', JString (gc_action c)),
        (''origin'', json_option origin_json (gp_origin entry))]"

definition notification_audit ::
  "GateCall \<Rightarrow> string \<Rightarrow> string \<Rightarrow> string option \<Rightarrow> string option \<Rightarrow> string option \<Rightarrow> GatingAuditEntry" where
  "notification_audit c pending_id disposition route_id delivery_id error =
     gate_audit c ''approval_notification'' (Some pending_id) PendingApproval
       [(''disposition'', JString disposition), (''approval_route_id'', json_opt_str route_id),
        (''approval_delivery_id'', json_opt_str delivery_id),
        (''approval_notification_error'', json_opt_str error), origin_member c]"

definition approval_send_request ::
  "GateCall \<Rightarrow> GatingPendingEntry \<Rightarrow> RoutingResolution \<Rightarrow> DeliverySendRequest" where
  "approval_send_request c entry resolution =
     \<lparr>dq_resolution = resolution,
      dq_payload = json_object
        [(''kind'', JString ''gating_approval_request''), (''pending_id'', JString (gp_pending_id entry)),
         (''action_id'', JString (gc_action_id c)), (''action'', JString (gc_action c)),
         (''actor_id'', JString (gc_actor_id c)), (''risk_tier'', risk_tier_json (gc_risk_tier c)),
         (''requested_approver'', json_opt_str (gp_requested_approver entry)),
         (''deadline_at_ms'', json_u64 (gp_deadline_at_ms entry))],
      dq_idempotency_key = Some (''gating-approval-'' @ gp_pending_id entry)\<rparr>"

text \<open>The delivery id and error text of a sent approval request.\<close>

definition sent_outcome :: "Env \<Rightarrow> DeliverySendError + DeliveryRecord \<Rightarrow> string option \<times> string option" where
  "sent_outcome env sent =
     (case sent of
        Inr record \<Rightarrow>
          (Some (dr_delivery_id record),
           if dr_status record = ''sent'' then None
           else Some (''delivery_status:'' @ dr_status record @ '':'' @ dr_delivery_id record))
      | Inl err \<Rightarrow> (None, Some (''delivery:'' @ env_debug_delivery env err)))"

text \<open>An acknowledged approval request notes its delivery on the pending entry it belongs to.\<close>

definition note_delivery :: "GateCall \<Rightarrow> string \<Rightarrow> string option \<Rightarrow> MetaRuntimeHandle \<Rightarrow> MetaRuntimeHandle" where
  "note_delivery c pending_id delivery_id h =
     (case bt_get (rt_gating_pending h) pending_id of
        Some entry \<Rightarrow>
          (if gp_action_id entry = gc_action_id c
           then h\<lparr>rt_gating_pending := bt_insert pending_id (entry\<lparr>gp_approval_delivery_id := delivery_id\<rparr>)
                    (rt_gating_pending h)\<rparr>
           else h)
      | None \<Rightarrow> h)"

definition publish_approval ::
  "Env \<Rightarrow> GateCall \<Rightarrow> GatingPendingEntry \<Rightarrow> RoutingResolution option \<Rightarrow> string option \<Rightarrow> MetaRuntimeHandle
     \<Rightarrow> (GatingIdUnavailable + unit) \<times> MetaRuntimeHandle" where
  "publish_approval env c entry resolution error h =
     (case resolution of
        None \<Rightarrow>
          (case error of
             None \<Rightarrow> (Inr (), h)
           | Some error \<Rightarrow>
               append_gating_audit env
                 (notification_audit c (gp_pending_id entry) ''not_sent'' None None (Some error)) h)
      | Some resolution \<Rightarrow>
          (let (sent, h) = send_delivery env (approval_send_request c entry resolution) h;
               disposition = approval_notification_disposition sent;
               (delivery_id, error) = sent_outcome env sent;
               h = (if disposition = ''acknowledged'' then note_delivery c (gp_pending_id entry) delivery_id h else h) in
           append_gating_audit env
             (notification_audit c (gp_pending_id entry) disposition (Some (rs_route_id resolution))
                delivery_id error) h))"

text \<open>The R3 branch: mint, resolve the route, commit the entry with its audit, then publish.\<close>

definition request_approval ::
  "Env \<Rightarrow> GatingEvaluateRequest \<Rightarrow> GateCall \<Rightarrow> MetaRuntimeHandle
     \<Rightarrow> (GatingIdUnavailable + GatingEvaluateResult) \<times> MetaRuntimeHandle" where
  "request_approval env request c h =
     (case mint_gating_id ''pending'' h of
        (Inl e, h) \<Rightarrow> (Inl e, h)
      | (Inr pending_id, h) \<Rightarrow>
         (let (created_at_ms, h) = current_time_ms env h;
              (resolution, error, h) = resolve_approval_route env
                (trimmed_some (ge_approval_recipient request)) (trimmed_some (ge_approval_channel request)) h;
              entry = new_pending_entry request c pending_id created_at_ms resolution;
              h = upsert_gating_pending_entry entry h in
          case append_gating_audit env (pending_created_audit c entry error) h of
            (Inl e, h) \<Rightarrow> (Inl e, h)
          | (Inr _, h) \<Rightarrow>
             (case publish_approval env c entry resolution error h of
                (Inl e, h) \<Rightarrow> (Inl e, h)
              | (Inr _, h) \<Rightarrow> (Inr (gate_result c PendingApproval (Some pending_id) None), h))))"

definition audited_result ::
  "Env \<Rightarrow> GatingAuditEntry \<Rightarrow> GatingEvaluateResult \<Rightarrow> MetaRuntimeHandle
     \<Rightarrow> (GatingIdUnavailable + GatingEvaluateResult) \<times> MetaRuntimeHandle" where
  "audited_result env entry result h =
     (case append_gating_audit env entry h of
        (Inl e, h) \<Rightarrow> (Inl e, h)
      | (Inr _, h) \<Rightarrow> (Inr result, h))"

text \<open>The tiers after the conflict check.\<close>

definition evaluate_tier ::
  "Env \<Rightarrow> GatingEvaluateRequest \<Rightarrow> GateCall \<Rightarrow> MetaRuntimeHandle
     \<Rightarrow> (GatingIdUnavailable + GatingEvaluateResult) \<times> MetaRuntimeHandle" where
  "evaluate_tier env request c h =
     (let evaluated = (\<lambda>policy outcome.
            audited_result env
              (gate_audit c ''evaluated'' None outcome
                [(''policy'', JString policy), origin_member c,
                 (''rationale'', json_opt_str (ge_rationale request)), (''action'', JString (gc_action c))])
              (gate_result c outcome None None) h) in
      case gc_risk_tier c of
        R0 \<Rightarrow> evaluated ''allow_immediate'' Allowed
      | R1 \<Rightarrow> evaluated ''allow_immediate'' Allowed
      | R2 \<Rightarrow> evaluated ''consequence_mode_allow_with_audit_v0_1'' AllowedWithAudit
      | R3 \<Rightarrow> request_approval env request c h)"

definition evaluate_checked ::
  "Env \<Rightarrow> GatingEvaluateRequest \<Rightarrow> GateCall \<Rightarrow> MetaRuntimeHandle
     \<Rightarrow> (GatingIdUnavailable + GatingEvaluateResult) \<times> MetaRuntimeHandle" where
  "evaluate_checked env request c h =
     (if is_some_and (gc_origin c) (\<lambda>origin. \<not> valid_gating_origin origin)
      then (Inr (gate_result c SafeDraft None (Some ''invalid_gating_origin'')), h)
      else if gc_risk_tier c = R2 \<or> gc_risk_tier c = R3 then
        (case conflict_block env c h of
           (Some (reason, audit), h) \<Rightarrow>
             audited_result env audit (gate_result c SafeDraft None (Some reason)) h
         | (None, h) \<Rightarrow> evaluate_tier env request c h)
      else evaluate_tier env request c h)"

definition gate_call :: "GatingEvaluateRequest \<Rightarrow> GatingOrigin option \<Rightarrow> string \<Rightarrow> GateCall" where
  "gate_call request origin action_id =
     \<lparr>gc_action_id = action_id, gc_action = trim (ge_action request), gc_actor_id = trim (ge_actor_id request),
      gc_risk_tier = ge_risk_tier request, gc_entity = trimmed_some (ge_entity request),
      gc_topic = trimmed_some (ge_topic request), gc_origin = map_option clean_origin origin\<rparr>"

definition evaluate_gating_action_minting ::
  "Env \<Rightarrow> GatingEvaluateRequest \<Rightarrow> GatingOrigin option \<Rightarrow> MetaRuntimeHandle
     \<Rightarrow> (GatingIdUnavailable + GatingEvaluateResult) \<times> MetaRuntimeHandle" where
  "evaluate_gating_action_minting env request origin h =
     (let h = refresh_gating_timeouts env h in
      case gating_ids_available GATING_IDS_PER_EVALUATION h of
        Inl e \<Rightarrow> (Inl e, h)
      | Inr _ \<Rightarrow>
         (case mint_gating_id ''action'' h of
            (Inl e, h) \<Rightarrow> (Inl e, h)
          | (Inr action_id, h) \<Rightarrow> evaluate_checked env request (gate_call request origin action_id) h))"

definition evaluate_gating_action_with_origin ::
  "Env \<Rightarrow> GatingEvaluateRequest \<Rightarrow> GatingOrigin option \<Rightarrow> MetaRuntimeHandle
     \<Rightarrow> GatingEvaluateResult \<times> MetaRuntimeHandle" where
  "evaluate_gating_action_with_origin env request origin h =
     (let (r, h) = evaluate_gating_action_minting env request origin h;
          result = (case r of
             Inr result \<Rightarrow> result
           | Inl unavailable \<Rightarrow>
               \<lparr>gr_action_id = [], gr_action = trim (ge_action request), gr_actor_id = trim (ge_actor_id request),
                gr_risk_tier = ge_risk_tier request, gr_outcome = SafeDraft, gr_pending_id = None,
                gr_fallback_reason = Some (fallback_reason unavailable)\<rparr>) in
      (result, flush_gating_notices h))"

definition evaluate_gating_action ::
  "Env \<Rightarrow> GatingEvaluateRequest \<Rightarrow> MetaRuntimeHandle \<Rightarrow> GatingEvaluateResult \<times> MetaRuntimeHandle" where
  "evaluate_gating_action env request h = evaluate_gating_action_with_origin env request None h"

end
