(* ===== verification/Gating_Decisions.thy ===== *)
theory Gating_Decisions
  imports Gating
begin

text \<open>
  Decisions on pending approvals (\<open>runtime/gating.rs\<close>): the checks on a copy of the entry, the
  commit with its audit, escalation successor and notice, decisions by trusted hosts, by an
  authenticated principal and under an authorization fence, the readers of the gate, and
  snapshot and restore.
\<close>

section \<open>Readers\<close>

definition pending_in_order :: "MetaRuntimeHandle \<Rightarrow> GatingPendingEntry list" where
  "pending_in_order h = List.map_filter (\<lambda>pending_id. bt_get (rt_gating_pending h) pending_id) (rt_gating_pending_order h)"

definition list_gating_pending :: "Env \<Rightarrow> MetaRuntimeHandle \<Rightarrow> GatingPendingEntry list \<times> MetaRuntimeHandle" where
  "list_gating_pending env h =
     (let h = flush_gating_notices (refresh_gating_timeouts env h) in (pending_in_order h, h))"

definition set_gating_escalation_routes :: "GatingEscalationRoutes \<Rightarrow> MetaRuntimeHandle \<Rightarrow> MetaRuntimeHandle" where
  "set_gating_escalation_routes routes h = h\<lparr>rt_gating_escalation_routes := routes\<rparr>"

definition gating_audit_after :: "Env \<Rightarrow> string option \<Rightarrow> MetaRuntimeHandle \<Rightarrow> GatingAuditPage \<times> MetaRuntimeHandle" where
  "gating_audit_after env after_audit_id h =
     (let h = flush_gating_notices (refresh_gating_timeouts env h);
          start = (case after_audit_id of
             None \<Rightarrow> Some 0
           | Some cursor \<Rightarrow> map_option (\<lambda>index. index + 1)
               (position (\<lambda>entry. ga_audit_id entry = cursor) (rt_gating_audit h))) in
      (\<lparr>pg_entries = drop (unwrap_or start 0) (rt_gating_audit h), pg_gap = (start = None)\<rparr>, h))"

definition gating_audit_entries :: "Env \<Rightarrow> nat \<Rightarrow> MetaRuntimeHandle \<Rightarrow> GatingAuditEntry list \<times> MetaRuntimeHandle" where
  "gating_audit_entries env limit h =
     (let h = flush_gating_notices (refresh_gating_timeouts env h) in
      (rev (take limit (rev (rt_gating_audit h))), h))"

section \<open>Deciding\<close>

text \<open>Who decides, and in which capacity.\<close>

definition approver_of ::
  "GatingDecideRequest \<Rightarrow> GatingDecider option \<Rightarrow> GatingPendingEntry \<Rightarrow> string \<times> string option" where
  "approver_of request decider entry =
     (case decider of
        None \<Rightarrow> (trim (gd_approver_id request), None)
      | Some decider \<Rightarrow>
         (case gp_requested_approver entry of
            Some requested \<Rightarrow>
              if requested \<in> de_held_approver_ids decider then (requested, Some ''held'')
              else (de_principal decider, Some ''principal'')
          | None \<Rightarrow> (de_principal decider, Some ''principal'')))"

definition actor_is_decider ::
  "GatingDecideRequest \<Rightarrow> GatingDecider option \<Rightarrow> GatingPendingEntry \<Rightarrow> bool" where
  "actor_is_decider request decider entry =
     (case decider of
        None \<Rightarrow> fst (approver_of request decider entry) = gp_actor_id entry
      | Some d \<Rightarrow> de_principal d = gp_actor_id entry \<or> gp_actor_id entry \<in> de_held_approver_ids d)"

text \<open>The refusals of a decision on an entry, and the successor approver of an escalation.\<close>

definition check_decision ::
  "GatingDecideRequest \<Rightarrow> GatingDecider option \<Rightarrow> GatingPendingEntry \<Rightarrow> MetaRuntimeHandle
     \<Rightarrow> GatingDecideError + string option" where
  "check_decision request decider entry h =
     (let approver_id = fst (approver_of request decider entry) in
      if gd_decision request = Approve \<and> actor_is_decider request decider entry then Inl SelfApprovalForbidden
      else case opt_filter (\<lambda>expected. expected \<noteq> approver_id) (gp_requested_approver entry) of
        Some expected \<Rightarrow> Inl (ApproverMismatch expected approver_id)
      | None \<Rightarrow>
         (if gd_decision request = Escalate then
            (case successor_for (rt_gating_escalation_routes h) (gp_requested_approver entry) of
               Some successor \<Rightarrow> Inr (Some successor)
             | None \<Rightarrow> Inl (NoEscalationRoute (gp_requested_approver entry)))
          else Inr None))"

definition remove_pending :: "string \<Rightarrow> MetaRuntimeHandle \<Rightarrow> MetaRuntimeHandle" where
  "remove_pending pending_id h =
     h\<lparr>rt_gating_pending := bt_remove pending_id (rt_gating_pending h),
       rt_gating_pending_order := filter (\<lambda>candidate. candidate \<noteq> pending_id) (rt_gating_pending_order h)\<rparr>"

definition successor_entry :: "GatingPendingEntry \<Rightarrow> string \<Rightarrow> string option \<Rightarrow> u64 \<Rightarrow> GatingPendingEntry" where
  "successor_entry entry pending_id successor now_ms = entry
     \<lparr>gp_pending_id := pending_id, gp_requested_approver := successor, gp_approval_route_id := None,
      gp_approval_delivery_id := None, gp_created_at_ms := now_ms\<rparr>"

definition successor_audit :: "string \<Rightarrow> GatingPendingEntry \<Rightarrow> GatingAuditEntry" where
  "successor_audit pending_id entry =
     audit_entry ''pending_created'' (gp_action_id entry) (Some (gp_pending_id entry)) (gp_actor_id entry)
       (gp_risk_tier entry) PendingApproval
       (json_object
         [(''escalated_from_pending_id'', JString pending_id),
          (''requested_approver'', json_opt_str (gp_requested_approver entry)),
          (''approval_recipient'', json_opt_str (gp_approval_recipient entry)),
          (''approval_channel'', json_opt_str (gp_approval_channel entry)),
          (''approval_route_id'', json_opt_str (gp_approval_route_id entry)),
          (''approval_delivery_id'', json_opt_str (gp_approval_delivery_id entry)),
          (''deadline_at_ms'', json_u64 (gp_deadline_at_ms entry)),
          (''action'', JString (gp_action entry)),
          (''origin'', json_option origin_json (gp_origin entry))])"

text \<open>Create the successor of an escalated entry, with its audit record.\<close>

definition escalate_entry ::
  "Env \<Rightarrow> GatingPendingEntry \<Rightarrow> string \<Rightarrow> string option \<Rightarrow> u64 \<Rightarrow> MetaRuntimeHandle
     \<Rightarrow> (GatingIdUnavailable + string) \<times> MetaRuntimeHandle" where
  "escalate_entry env entry pending_id successor now_ms h =
     (case mint_gating_id ''pending'' h of
        (Inl e, h) \<Rightarrow> (Inl e, h)
      | (Inr successor_pending_id, h) \<Rightarrow>
         (let next = successor_entry entry successor_pending_id successor now_ms;
              h = upsert_gating_pending_entry next h in
          case append_gating_audit env (successor_audit pending_id next) h of
            (Inl e, h) \<Rightarrow> (Inl e, h)
          | (Inr _, h) \<Rightarrow> (Inr successor_pending_id, h)))"

fun decision_outcome :: "GatingDecision \<Rightarrow> GatingOutcome \<times> string" where
  "decision_outcome Approve = (Allowed, ''approval_decided'')"
| "decision_outcome Reject = (SafeDraft, ''rejection_decided'')"
| "decision_outcome Escalate = (PendingApproval, ''escalation_decided'')"

definition decision_audit ::
  "GatingDecideRequest \<Rightarrow> GatingDecider option \<Rightarrow> GatingPendingEntry \<Rightarrow> string \<Rightarrow> string option \<Rightarrow> GatingAuditEntry" where
  "decision_audit request decider entry pending_id next_pending_id =
     (let (approver_id, binding) = approver_of request decider entry;
          (outcome, event_type) = decision_outcome (gd_decision request) in
      audit_entry event_type (gp_action_id entry) (Some pending_id) (gp_actor_id entry) (gp_risk_tier entry) outcome
        (json_object
          [(''approver_id'', JString approver_id),
           (''deciding_principal'', json_opt_str (map_option de_principal decider)),
           (''approver_binding'', json_opt_str binding),
           (''decision'', decision_json (gd_decision request)),
           (''reason'', json_opt_str (gd_reason request)),
           (''approval_route_id'', json_opt_str (gp_approval_route_id entry)),
           (''approval_delivery_id'', json_opt_str (gp_approval_delivery_id entry)),
           (''next_pending_id'', json_opt_str next_pending_id),
           (''origin'', json_option origin_json (gp_origin entry))]))"

text \<open>Record the decision: audit, notice and result.\<close>

definition conclude_decision ::
  "Env \<Rightarrow> GatingDecideRequest \<Rightarrow> GatingDecider option \<Rightarrow> GatingPendingEntry \<Rightarrow> string \<Rightarrow> string option \<Rightarrow> u64
     \<Rightarrow> MetaRuntimeHandle \<Rightarrow> (GatingDecideError + GatingDecisionResult) \<times> MetaRuntimeHandle" where
  "conclude_decision env request decider entry pending_id next_pending_id now_ms h =
     (case append_gating_audit env (decision_audit request decider entry pending_id next_pending_id) h of
        (Inl e, h) \<Rightarrow> (Inl (IdsUnavailable e), h)
      | (Inr _, h) \<Rightarrow>
         (let (outcome, event_type) = decision_outcome (gd_decision request);
              h = h\<lparr>rt_gating_notice_queue := rt_gating_notice_queue h @
                [\<lparr>gn_pending_id = pending_id, gn_action_id = gp_action_id entry,
                  gn_approved = (gd_decision request = Approve), gn_next_pending_id = next_pending_id,
                  gn_cause = event_type\<rparr>]\<rparr> in
          (Inr \<lparr>gx_pending_id = pending_id, gx_action_id = gp_action_id entry,
                gx_approver_id = fst (approver_of request decider entry), gx_decision = gd_decision request,
                gx_outcome = outcome, gx_decided_at_ms = now_ms, gx_reason = gd_reason request,
                gx_next_pending_id = next_pending_id\<rparr>, h)))"

definition commit_decision ::
  "Env \<Rightarrow> GatingDecideRequest \<Rightarrow> GatingDecider option \<Rightarrow> GatingPendingEntry \<Rightarrow> string \<Rightarrow> string option \<Rightarrow> u64
     \<Rightarrow> MetaRuntimeHandle \<Rightarrow> (GatingDecideError + GatingDecisionResult) \<times> MetaRuntimeHandle" where
  "commit_decision env request decider entry pending_id successor now_ms h =
     (let h = remove_pending pending_id h in
      if gd_decision request = Escalate then
        (case escalate_entry env entry pending_id successor now_ms h of
           (Inl e, h) \<Rightarrow> (Inl (IdsUnavailable e), h)
         | (Inr next, h) \<Rightarrow> conclude_decision env request decider entry pending_id (Some next) now_ms h)
      else conclude_decision env request decider entry pending_id None now_ms h)"

definition decide_gating_action_as ::
  "Env \<Rightarrow> GatingDecideRequest \<Rightarrow> GatingDecider option \<Rightarrow> MetaRuntimeHandle
     \<Rightarrow> (GatingDecideError + GatingDecisionResult) \<times> MetaRuntimeHandle" where
  "decide_gating_action_as env request decider h =
     (let (now_ms, h) = current_time_ms env h;
          h = refresh_gating_timeouts_at env now_ms h in
      case gating_ids_available GATING_IDS_PER_DECISION h of
        Inl e \<Rightarrow> (Inl (IdsUnavailable e), h)
      | Inr _ \<Rightarrow>
         (if is_some_and decider (\<lambda>decider. trim (de_principal decider) = []) then (Inl EmptyPrincipal, h)
          else
            (let pending_id = trim (gd_pending_id request) in
             case bt_get (rt_gating_pending h) pending_id of
               None \<Rightarrow> (Inl (UnknownPendingId pending_id), h)
             | Some entry \<Rightarrow>
                (case check_decision request decider entry h of
                   Inl e \<Rightarrow> (Inl e, h)
                 | Inr successor \<Rightarrow> commit_decision env request decider entry pending_id successor now_ms h))))"

definition decide_gating_action ::
  "Env \<Rightarrow> GatingDecideRequest \<Rightarrow> MetaRuntimeHandle
     \<Rightarrow> (GatingDecideError + GatingDecisionResult) \<times> MetaRuntimeHandle" where
  "decide_gating_action env request h =
     (let (result, h) = decide_gating_action_as env request None h in (result, flush_gating_notices h))"

definition decide_gating_action_for ::
  "Env \<Rightarrow> GatingDecideRequest \<Rightarrow> GatingDecider \<Rightarrow> MetaRuntimeHandle
     \<Rightarrow> (GatingDecideError + GatingDecisionResult) \<times> MetaRuntimeHandle" where
  "decide_gating_action_for env request decider h =
     (let (result, h) = decide_gating_action_as env request (Some decider) h in (result, flush_gating_notices h))"

text \<open>
  Under a fence: \<open>authorize\<close> sees the live entry and names the decider or refuses; the notices
  are returned for delivery after the fence is released.
\<close>

definition decide_gating_action_authorized ::
  "Env \<Rightarrow> GatingDecideRequest \<Rightarrow> (GatingPendingEntry option \<Rightarrow> 'e + GatingDecider) \<Rightarrow> MetaRuntimeHandle
     \<Rightarrow> ('e + (GatingDecideError + GatingDecisionResult)) \<times> GatingResolutionNotice list \<times> MetaRuntimeHandle" where
  "decide_gating_action_authorized env request authorize h =
     (let h = refresh_gating_timeouts env h;
          pending = bt_get (rt_gating_pending h) (trim (gd_pending_id request)) in
      case authorize pending of
        Inl e \<Rightarrow> (Inl e, take_gating_notices h)
      | Inr decider \<Rightarrow>
         (let (result, h) = decide_gating_action_as env request (Some decider) h in
          (Inr result, take_gating_notices h)))"

section \<open>Snapshot and restore\<close>

definition gating_state_snapshot :: "Env \<Rightarrow> MetaRuntimeHandle \<Rightarrow> GatingStateSnapshot \<times> MetaRuntimeHandle" where
  "gating_state_snapshot env h =
     (let h = flush_gating_notices (refresh_gating_timeouts env h) in
      (\<lparr>gs_version = 2, gs_owner_epoch = rt_gating_epoch h, gs_next_sequence = rt_gating_sequence h,
        gs_pending = pending_in_order h, gs_audit = rt_gating_audit h\<rparr>, h))"

definition valid_snapshot_id :: "bool \<Rightarrow> GatingStateSnapshot \<Rightarrow> string \<Rightarrow> string \<Rightarrow> bool" where
  "valid_snapshot_id legacy s value pre =
     (case parse_gating_id value pre of
        Some (Legacy sequence) \<Rightarrow> \<not> legacy \<or> sequence < gs_next_sequence s
      | Some (EpochForm epoch sequence) \<Rightarrow>
          \<not> legacy \<and> (gs_owner_epoch s \<noteq> Some epoch \<or> sequence < gs_next_sequence s)
      | None \<Rightarrow> False)"

fun validate_pending ::
  "bool \<Rightarrow> GatingStateSnapshot \<Rightarrow> string list \<Rightarrow> GatingPendingEntry list \<Rightarrow> GatingStateRestoreError + string list" where
  "validate_pending legacy s seen [] = Inr seen"
| "validate_pending legacy s seen (entry # rest) =
     (if \<not> valid_snapshot_id legacy s (gp_pending_id entry) ''gate-pending-''
         \<or> \<not> valid_snapshot_id legacy s (gp_action_id entry) ''gate-action-''
         \<or> gp_pending_id entry \<in> set seen
      then Inl (InvalidSnapshot ''invalid or duplicate pending ID'')
      else if gp_risk_tier entry \<noteq> R3 \<or> gp_deadline_at_ms entry < gp_created_at_ms entry
      then Inl (InvalidSnapshot ''invalid pending policy or deadline'')
      else if is_some_and (gp_origin entry) (\<lambda>origin. \<not> valid_gating_origin origin)
      then Inl (InvalidSnapshot ''invalid pending origin'')
      else validate_pending legacy s (gp_pending_id entry # seen) rest)"

definition resolution_events :: "string list" where
  "resolution_events = [''approval_decided'', ''rejection_decided'', ''escalation_decided'', ''timeout_fallback'']"

definition validate_audit_origin :: "Env \<Rightarrow> GatingAuditEntry \<Rightarrow> GatingStateRestoreError + unit" where
  "validate_audit_origin env entry =
     (case opt_filter (\<lambda>value. \<not> is_null value) (json_get (ga_detail entry) ''origin'') of
        None \<Rightarrow> Inr ()
      | Some value \<Rightarrow>
         (case env_decode_origin env value of
            None \<Rightarrow> Inl (InvalidSnapshot ''invalid audit origin'')
          | Some origin \<Rightarrow>
              if valid_gating_origin origin then Inr () else Inl (InvalidSnapshot ''invalid audit origin'')))"

fun validate_audit ::
  "Env \<Rightarrow> bool \<Rightarrow> GatingStateSnapshot \<Rightarrow> string list \<Rightarrow> string list \<Rightarrow> GatingAuditEntry list
     \<Rightarrow> GatingStateRestoreError + unit" where
  "validate_audit env legacy s pending_ids seen [] = Inr ()"
| "validate_audit env legacy s pending_ids seen (entry # rest) =
     (if \<not> valid_snapshot_id legacy s (ga_audit_id entry) ''gate-audit-''
         \<or> \<not> valid_snapshot_id legacy s (ga_action_id entry) ''gate-action-''
         \<or> ga_audit_id entry \<in> set seen
         \<or> is_some_and (ga_pending_id entry) (\<lambda>id. \<not> valid_snapshot_id legacy s id ''gate-pending-'')
      then Inl (InvalidSnapshot ''invalid or duplicate audit ID'')
      else if is_some_and (ga_pending_id entry) (\<lambda>id. id \<in> set pending_ids)
              \<and> ga_event_type entry \<in> set resolution_events
      then Inl (InvalidSnapshot ''resolved request is also pending'')
      else case validate_audit_origin env entry of
        Inl e \<Rightarrow> Inl e
      | Inr _ \<Rightarrow> validate_audit env legacy s pending_ids (ga_audit_id entry # seen) rest)"

definition validate_gating_snapshot :: "Env \<Rightarrow> GatingStateSnapshot \<Rightarrow> GatingStateRestoreError + unit" where
  "validate_gating_snapshot env s =
     (if gs_version s \<noteq> 1 \<and> gs_version s \<noteq> 2 then Inl (UnsupportedVersion (gs_version s))
      else
        (let legacy = (gs_version s = 1) in
         if legacy \<and> gs_owner_epoch s \<noteq> None
         then Inl (InvalidSnapshot ''version 1 snapshot names an owner epoch'')
         else if is_some_and (gs_owner_epoch s) (\<lambda>epoch. \<not> valid_gating_epoch epoch)
         then Inl (InvalidSnapshot ''invalid owner epoch'')
         else if length (gs_pending s) > GATING_PENDING_MAX_RETAINED
              \<or> length (gs_audit s) > GATING_AUDIT_MAX_RETAINED
         then Inl (InvalidSnapshot ''retention bounds exceeded'')
         else if legacy \<and> checked_add (gs_next_sequence s) (of_nat (length (gs_pending s)) + 1) = None
         then Inl (InvalidSnapshot ''sequence is exhausted'')
         else case validate_pending legacy s [] (gs_pending s) of
           Inl e \<Rightarrow> Inl e
         | Inr pending_ids \<Rightarrow> validate_audit env legacy s pending_ids [] (gs_audit s)))"

definition pristine :: "MetaRuntimeHandle \<Rightarrow> bool" where
  "pristine h \<longleftrightarrow> rt_gating_sequence h = 0 \<and> rt_gating_pending h = [] \<and> rt_gating_pending_order h = []
     \<and> rt_gating_audit h = []"

text \<open>The handle holding a validated snapshot, before timeouts are applied.\<close>

definition adopt_snapshot :: "GatingStateSnapshot \<Rightarrow> MetaRuntimeHandle \<Rightarrow> MetaRuntimeHandle" where
  "adopt_snapshot s h =
     h\<lparr>rt_gating_pending_order := map gp_pending_id (gs_pending s),
       rt_gating_pending := bt_of_list (map (\<lambda>entry. (gp_pending_id entry, entry)) (gs_pending s)),
       rt_gating_audit := gs_audit s\<rparr>"

definition restore_gating_state ::
  "Env \<Rightarrow> GatingStateSnapshot \<Rightarrow> MetaRuntimeHandle \<Rightarrow> (GatingStateRestoreError + unit) \<times> MetaRuntimeHandle" where
  "restore_gating_state env s h =
     (if \<not> pristine h then (Inl RuntimeNotPristine, h)
      else case validate_gating_snapshot env s of
        Inl e \<Rightarrow> (Inl e, h)
      | Inr _ \<Rightarrow> (Inr (), flush_gating_notices (refresh_gating_timeouts env (adopt_snapshot s h))))"

end
