(* ===== verification/Gating_Invariant.thy ===== *)
theory Gating_Invariant
  imports Gating_Decisions
begin

text \<open>
  The invariant of the approval gate and its preservation: pending entries and their order
  agree and stay bounded, every id the gate holds is well formed and below the owner's
  sequence, every resolution was announced once and never for an entry that is still pending,
  and the audit log is one a restore accepts.
\<close>

section \<open>What gate operations change\<close>

definition gating_frame :: "MetaRuntimeHandle \<Rightarrow> MetaRuntimeHandle \<Rightarrow> bool" where
  "gating_frame h h' \<longleftrightarrow>
     h' = h\<lparr>rt_gating_sequence := rt_gating_sequence h', rt_gating_pending := rt_gating_pending h',
            rt_gating_pending_order := rt_gating_pending_order h', rt_gating_audit := rt_gating_audit h',
            rt_gating_notice_queue := rt_gating_notice_queue h',
            rt_gating_delivered := rt_gating_delivered h', rt_tick := rt_tick h'\<rparr>"

named_theorems gframe

lemma gating_frame_refl [gframe]: "gating_frame h h"
  by (simp add: gating_frame_def)

lemma gating_frame_trans:
  assumes "gating_frame h1 h2" and "gating_frame h2 h3"
  shows "gating_frame h1 h3"
  unfolding gating_frame_def
  by (rule trans [OF assms(2) [unfolded gating_frame_def]])
    (subst (1) assms(1) [unfolded gating_frame_def], simp)

lemma gating_frameD:
  assumes "gating_frame h h'"
  shows "rt_config h' = rt_config h" "rt_loaded_modules h' = rt_loaded_modules h"
    "rt_merged_events h' = rt_merged_events h"
    "rt_routing_sequence h' = rt_routing_sequence h" "rt_routing_resolutions h' = rt_routing_resolutions h"
    "rt_routing_resolution_order h' = rt_routing_resolution_order h" "rt_runtime_routes h' = rt_runtime_routes h"
    "rt_delivery_sequence h' = rt_delivery_sequence h" "rt_delivery_history h' = rt_delivery_history h"
    "rt_delivery_idempotency h' = rt_delivery_idempotency h"
    "rt_delivery_idempotency_by_delivery h' = rt_delivery_idempotency_by_delivery h"
    "rt_delivery_rate_window_counts h' = rt_delivery_rate_window_counts h"
    "rt_gating_epoch h' = rt_gating_epoch h"
    "rt_gating_escalation_routes h' = rt_gating_escalation_routes h"
    "rt_memory_sequence h' = rt_memory_sequence h" "rt_memory_assertions h' = rt_memory_assertions h"
    "rt_memory_conflicts h' = rt_memory_conflicts h" "rt_memory_backend h' = rt_memory_backend h"
  by (subst assms [unfolded gating_frame_def], simp)+

lemma record_gating_audit_eq:
  "record_gating_audit env i a h =
     h\<lparr>rt_tick := Suc (rt_tick h), rt_gating_audit := drop_oldest GATING_AUDIT_MAX_RETAINED
         (rt_gating_audit h @ [a\<lparr>ga_audit_id := i, ga_timestamp_ms := env_clock env (rt_tick h)\<rparr>])\<rparr>"
  by (simp add: record_gating_audit_def current_time_ms_def)

lemma frame_mint [gframe]: "mint_gating_id kind h = (r, h') \<Longrightarrow> gating_frame h h'"
  by (erule mint_gating_id_cases) (simp_all add: gating_frame_def)

lemma frame_record [gframe]: "gating_frame h (record_gating_audit env i a h)"
  by (simp add: record_gating_audit_eq gating_frame_def)

lemma frame_append [gframe]: "append_gating_audit env a h = (r, h') \<Longrightarrow> gating_frame h h'"
  by (auto simp: append_gating_audit_def split: prod.splits sum.splits
      intro: gating_frame_trans [OF frame_mint frame_record] frame_mint)

lemma frame_settle_timeout [gframe]: "gating_frame h (settle_timeout env i p h)"
  by (simp add: settle_timeout_def record_gating_audit_eq gating_frame_def Let_def split: option.split)

lemma frame_settle_expired [gframe]: "gating_frame h (settle_expired env ids h)"
proof (induction env ids h rule: settle_expired.induct)
  case (1 env h)
  then show ?case by (simp add: gframe)
next
  case (2 env p rest h)
  obtain r h1 where m: "mint_gating_id ''audit'' h = (r, h1)" by fastforce
  show ?case
  proof (cases r)
    case (Inl e)
    with m show ?thesis using frame_mint [OF m] by simp
  next
    case (Inr i)
    with m 2 show ?thesis
      using gating_frame_trans [OF frame_mint [OF m] gating_frame_trans [OF frame_settle_timeout]] by simp
  qed
qed

lemma frame_refresh_at [gframe]: "gating_frame h (refresh_gating_timeouts_at env now h)"
  unfolding refresh_gating_timeouts_at_def by (rule frame_settle_expired)

lemma frame_tick [gframe]: "gating_frame h (h\<lparr>rt_tick := t\<rparr>)"
  by (simp add: gating_frame_def)

lemma frame_refresh [gframe]: "gating_frame h (refresh_gating_timeouts env h)"
  unfolding refresh_gating_timeouts_def current_time_ms_def Let_def prod.case
  by (rule gating_frame_trans [OF frame_tick frame_refresh_at])

lemma frame_upsert [gframe]: "gating_frame h (upsert_gating_pending_entry e h)"
  by (simp add: upsert_gating_pending_entry_def gating_frame_def Let_def case_prod_beta)

lemma frame_note_delivery [gframe]: "gating_frame h (note_delivery c p d h)"
  by (simp add: note_delivery_def gating_frame_def split: option.split)

lemma frame_flush [gframe]: "gating_frame h (flush_gating_notices h)"
  by (simp add: flush_gating_notices_def take_gating_notices_def deliver_notices_def gating_frame_def)

lemma frame_remove_pending [gframe]: "gating_frame h (remove_pending p h)"
  by (simp add: remove_pending_def gating_frame_def)

lemma frame_conflict_lookup [gframe]:
  "gating_memory_conflict_for_reference env e t h = (r, h') \<Longrightarrow> gating_frame h h'"
  by (auto simp: gating_memory_conflict_for_reference_def call_module_mcp_tool_json_def gframe
      split: if_splits option.splits prod.splits sum.splits)

lemma frame_conflict_block [gframe]: "conflict_block env c h = (r, h') \<Longrightarrow> gating_frame h h'"
  by (auto simp: conflict_block_def gframe Let_def split: if_splits prod.splits sum.splits option.splits
      dest: frame_conflict_lookup)

section \<open>Well-formed ids\<close>

definition gate_id_ok :: "string option \<Rightarrow> u64 \<Rightarrow> string \<Rightarrow> string \<Rightarrow> bool" where
  "gate_id_ok epoch seq kind value \<longleftrightarrow>
     (case parse_gating_id value (''gate-'' @ kind @ ''-'') of
        Some (Legacy _) \<Rightarrow> True
      | Some (EpochForm e n) \<Rightarrow> epoch \<noteq> Some e \<or> n < seq
      | None \<Rightarrow> False)"

abbreviation gate_ids :: "MetaRuntimeHandle \<Rightarrow> string \<Rightarrow> string \<Rightarrow> bool" where
  "gate_ids h \<equiv> gate_id_ok (rt_gating_epoch h) (rt_gating_sequence h)"

lemma gate_id_ok_mono: "gate_id_ok epoch s kind v \<Longrightarrow> s \<le> t \<Longrightarrow> gate_id_ok epoch t kind v"
  by (auto simp: gate_id_ok_def split: option.splits GatingIdForm.splits)

lemma gate_id_ok_minted:
  "valid_gating_epoch epoch \<Longrightarrow> gate_id_ok (Some epoch) s kind (gate_id kind epoch n) \<longleftrightarrow> n < s"
  unfolding gate_id_ok_def by (subst parse_minted) simp_all

text \<open>The kinds as the code spells their prefixes.\<close>

lemma gate_prefixes:
  "''gate-'' @ ''pending'' @ ''-'' = ''gate-pending-''" "''gate-'' @ ''action'' @ ''-'' = ''gate-action-''"
  "''gate-'' @ ''audit'' @ ''-'' = ''gate-audit-''"
  by simp_all

section \<open>The invariant\<close>

definition resolved :: "MetaRuntimeHandle \<Rightarrow> GatingResolutionNotice list" where
  "resolved h = rt_gating_delivered h @ rt_gating_notice_queue h"

abbreviation resolved_ids :: "MetaRuntimeHandle \<Rightarrow> string list" where
  "resolved_ids h \<equiv> map gn_pending_id (resolved h)"

definition pending_ok :: "MetaRuntimeHandle \<Rightarrow> string \<Rightarrow> GatingPendingEntry \<Rightarrow> bool" where
  "pending_ok h k e \<longleftrightarrow> gp_pending_id e = k \<and> gate_ids h ''pending'' k \<and> gate_ids h ''action'' (gp_action_id e)
     \<and> gp_risk_tier e = R3 \<and> gp_created_at_ms e \<le> gp_deadline_at_ms e
     \<and> is_none_or (gp_origin e) valid_gating_origin"

text \<open>An audit record fits the gate: it names known ids, and nothing it resolved is pending.\<close>

definition audit_fits :: "MetaRuntimeHandle \<Rightarrow> GatingAuditEntry \<Rightarrow> bool" where
  "audit_fits h a \<longleftrightarrow> gate_ids h ''action'' (ga_action_id a)
     \<and> is_none_or (ga_pending_id a) (\<lambda>p. gate_ids h ''pending'' p
         \<and> (ga_event_type a \<in> set resolution_events \<longrightarrow> p \<notin> set (rt_gating_pending_order h)))"

definition gating_inv :: "MetaRuntimeHandle \<Rightarrow> bool" where
  "gating_inv h \<longleftrightarrow>
     is_none_or (rt_gating_epoch h) valid_gating_epoch
     \<and> bt.indexed (rt_gating_pending_order h) (rt_gating_pending h)
     \<and> length (rt_gating_pending_order h) \<le> GATING_PENDING_MAX_RETAINED
     \<and> (\<forall>(k, e) \<in> set (rt_gating_pending h). pending_ok h k e)
     \<and> length (rt_gating_audit h) \<le> GATING_AUDIT_MAX_RETAINED
     \<and> distinct (map ga_audit_id (rt_gating_audit h))
     \<and> (\<forall>a \<in> set (rt_gating_audit h). gate_ids h ''audit'' (ga_audit_id a) \<and> audit_fits h a)
     \<and> distinct (resolved_ids h)
     \<and> (\<forall>k \<in> set (resolved_ids h). gate_ids h ''pending'' k \<and> k \<notin> set (rt_gating_pending_order h))
     \<and> (resolved h \<noteq> [] \<longrightarrow> rt_gating_sequence h \<noteq> 0)"

text \<open>Only the gate's own part of the handle matters.\<close>

lemma gating_inv_cong:
  assumes "rt_gating_epoch h' = rt_gating_epoch h" "rt_gating_sequence h' = rt_gating_sequence h"
    "rt_gating_pending h' = rt_gating_pending h" "rt_gating_pending_order h' = rt_gating_pending_order h"
    "rt_gating_audit h' = rt_gating_audit h" "resolved h' = resolved h"
  shows "gating_inv h' = gating_inv h"
  unfolding gating_inv_def pending_ok_def audit_fits_def assms ..

lemma gating_inv_tick [simp]: "gating_inv (h\<lparr>rt_tick := t\<rparr>) = gating_inv h"
  by (rule gating_inv_cong) (simp_all add: resolved_def)

lemma gating_inv_flush [simp]: "gating_inv (flush_gating_notices h) = gating_inv h"
  by (rule gating_inv_cong)
    (simp_all add: resolved_def flush_gating_notices_def take_gating_notices_def deliver_notices_def)

lemma gating_inv_pending:
  "gating_inv h \<Longrightarrow> bt_get (rt_gating_pending h) k = Some e \<Longrightarrow> pending_ok h k e \<and> k \<in> set (rt_gating_pending_order h)"
  using bt_get_in_set by (fastforce simp: gating_inv_def bt.indexed_def dom_def)

lemma gating_inv_order:
  "gating_inv h \<Longrightarrow> k \<in> set (rt_gating_pending_order h) \<Longrightarrow> \<exists>e. bt_get (rt_gating_pending h) k = Some e"
  by (auto simp: gating_inv_def bt.indexed_def dom_def)

lemma gating_inv_order_ids:
  "gating_inv h \<Longrightarrow> k \<in> set (rt_gating_pending_order h) \<Longrightarrow> gate_ids h ''pending'' k"
  using gating_inv_order gating_inv_pending by (fastforce simp: pending_ok_def)

section \<open>Preservation\<close>

lemma gating_inv_advance:
  assumes "gating_inv h" and "rt_gating_sequence h \<le> s"
  shows "gating_inv (h\<lparr>rt_gating_sequence := s\<rparr>)"
proof -
  let ?h = "h\<lparr>rt_gating_sequence := s\<rparr>"
  have ids: "gate_ids h kind v \<Longrightarrow> gate_ids ?h kind v" for kind v
    using gate_id_ok_mono assms(2) by simp
  have "pending_ok h k e \<Longrightarrow> pending_ok ?h k e" for k e
    using ids unfolding pending_ok_def by blast
  moreover have "audit_fits h a \<Longrightarrow> audit_fits ?h a" for a
    using ids unfolding audit_fits_def is_none_or_iff by simp
  moreover have "rt_gating_sequence h \<noteq> 0 \<Longrightarrow> s \<noteq> 0" using assms(2) by auto
  moreover have "resolved ?h = resolved h" by (simp add: resolved_def)
  ultimately show ?thesis
    using assms(1) ids unfolding gating_inv_def
    by simp (metis (no_types, lifting) case_prod_beta)
qed

lemma gating_inv_mint:
  assumes "gating_inv h" and "mint_gating_id kind h = (r, h')"
  shows "gating_inv h'" and "\<And>i. r = Inr i \<Longrightarrow> gate_ids h' kind i \<and> \<not> gate_ids h kind i \<and> rt_gating_sequence h' \<noteq> 0"
proof -
  have "gating_inv h' \<and> (\<forall>i. r = Inr i \<longrightarrow> gate_ids h' kind i \<and> \<not> gate_ids h kind i \<and> rt_gating_sequence h' \<noteq> 0)"
    using assms(2)
  proof (cases rule: mint_gating_id_cases)
    case (none e)
    then show ?thesis using assms(1) by simp
  next
    case (minted epoch)
    have "valid_gating_epoch epoch" using assms(1) minted(2) by (simp add: gating_inv_def)
    moreover have "rt_gating_sequence h < rt_gating_sequence h + 1" by (rule next_u64_less [OF minted(3)])
    moreover from this have "rt_gating_sequence h + 1 \<noteq> 0" by auto
    ultimately show ?thesis
      using gating_inv_advance [OF assms(1), of "rt_gating_sequence h + 1"] minted gate_id_ok_minted by simp
  qed
  then show "gating_inv h'" and "\<And>i. r = Inr i \<Longrightarrow> gate_ids h' kind i \<and> \<not> gate_ids h kind i \<and> rt_gating_sequence h' \<noteq> 0"
    by blast+
qed

lemma mint_fields:
  assumes "mint_gating_id kind h = (r, h')"
  shows "rt_gating_pending h' = rt_gating_pending h" "rt_gating_pending_order h' = rt_gating_pending_order h"
    "rt_gating_audit h' = rt_gating_audit h" "resolved h' = resolved h" "rt_gating_epoch h' = rt_gating_epoch h"
    "rt_gating_sequence h \<le> rt_gating_sequence h'" "rt_tick h' = rt_tick h"
  using assms by (cases rule: mint_gating_id_cases; simp add: resolved_def next_u64_less less_imp_le)+


text \<open>Recording an audit entry under a fresh id.\<close>

lemma gating_inv_record:
  assumes "gating_inv h" and "gate_ids h ''audit'' i" and "i \<notin> ga_audit_id ` set (rt_gating_audit h)"
    and "audit_fits h a"
  shows "gating_inv (record_gating_audit env i a h)"
proof -
  let ?a = "a\<lparr>ga_audit_id := i, ga_timestamp_ms := env_clock env (rt_tick h)\<rparr>"
  let ?all = "rt_gating_audit h @ [?a]"
  let ?kept = "drop_oldest GATING_AUDIT_MAX_RETAINED ?all"
  let ?h = "record_gating_audit env i a h"
  have h: "rt_gating_audit ?h = ?kept" "rt_gating_epoch ?h = rt_gating_epoch h"
    "rt_gating_sequence ?h = rt_gating_sequence h" "rt_gating_pending ?h = rt_gating_pending h"
    "rt_gating_pending_order ?h = rt_gating_pending_order h" "resolved ?h = resolved h"
    by (simp_all add: record_gating_audit_eq resolved_def)
  have "distinct (map ga_audit_id ?all)" using assms(1,3) by (simp add: gating_inv_def)
  then have "distinct (map ga_audit_id ?kept)"
    unfolding drop_oldest_eq drop_map [symmetric] by (rule distinct_drop)
  moreover have "audit_fits h ?a" using assms(4) by (simp add: audit_fits_def)
  then have "\<forall>x \<in> set ?all. gate_ids h ''audit'' (ga_audit_id x) \<and> audit_fits h x"
    using assms(1,2) by (simp add: gating_inv_def)
  then have "\<forall>x \<in> set ?kept. gate_ids h ''audit'' (ga_audit_id x) \<and> audit_fits h x"
    by (meson set_drop_oldest_subset subsetD)
  ultimately show ?thesis
    using assms(1) unfolding gating_inv_def pending_ok_def audit_fits_def h by simp
qed

lemma gating_inv_append:
  assumes "gating_inv h" and "append_gating_audit env a h = (r, h')" and "audit_fits h a"
  shows "gating_inv h'"
proof -
  obtain m h1 where m: "mint_gating_id ''audit'' h = (m, h1)" by fastforce
  note inv = gating_inv_mint [OF assms(1) m] and f = mint_fields [OF m]
  show ?thesis
  proof (cases m)
    case (Inl e)
    then show ?thesis using assms(2) m inv(1) by (auto simp: append_gating_audit_def)
  next
    case (Inr i)
    have "i \<notin> ga_audit_id ` set (rt_gating_audit h1)"
      using inv(2) [OF Inr] assms(1) f(3) by (auto simp: gating_inv_def)
    moreover have "audit_fits h1 a"
      using assms(3) gate_id_ok_mono [OF _ f(6)] by (auto simp: audit_fits_def is_none_or_iff f(2,5))
    ultimately have "gating_inv (record_gating_audit env i a h1)"
      using gating_inv_record [OF inv(1)] inv(2) [OF Inr] by blast
    then show ?thesis using assms(2) m Inr by (auto simp: append_gating_audit_def)
  qed
qed

lemma append_fields:
  assumes "append_gating_audit env a h = (r, h')"
  shows "rt_gating_pending h' = rt_gating_pending h" "rt_gating_pending_order h' = rt_gating_pending_order h"
    "resolved h' = resolved h" "rt_gating_epoch h' = rt_gating_epoch h"
    "rt_gating_sequence h \<le> rt_gating_sequence h'"
    "rt_gating_notice_queue h' = rt_gating_notice_queue h" "rt_gating_delivered h' = rt_gating_delivered h"
proof -
  obtain m h1 where m: "mint_gating_id ''audit'' h = (m, h1)" by fastforce
  have q: "rt_gating_notice_queue h1 = rt_gating_notice_queue h" "rt_gating_delivered h1 = rt_gating_delivered h"
    using m by (cases rule: mint_gating_id_cases; simp)+
  show "rt_gating_pending h' = rt_gating_pending h" "rt_gating_pending_order h' = rt_gating_pending_order h"
    "resolved h' = resolved h" "rt_gating_epoch h' = rt_gating_epoch h"
    "rt_gating_sequence h \<le> rt_gating_sequence h'"
    "rt_gating_notice_queue h' = rt_gating_notice_queue h" "rt_gating_delivered h' = rt_gating_delivered h"
    using assms m mint_fields [OF m] q
    by (auto simp: append_gating_audit_def record_gating_audit_eq resolved_def split: sum.splits)
qed

text \<open>
  Between leaving the pending set and being announced an id is in limbo: neither pending nor
  resolved.
\<close>

definition limbo :: "string \<Rightarrow> MetaRuntimeHandle \<Rightarrow> bool" where
  "limbo k h \<longleftrightarrow> gating_inv h \<and> gate_ids h ''pending'' k \<and> k \<notin> set (rt_gating_pending_order h)
     \<and> k \<notin> set (resolved_ids h)"

lemma limbo_remove:
  assumes "gating_inv h" and "k \<in> set (rt_gating_pending_order h)"
  shows "limbo k (remove_pending k h)"
proof -
  let ?h = "remove_pending k h"
  have h: "rt_gating_pending ?h = bt_remove k (rt_gating_pending h)"
    "rt_gating_pending_order ?h = filter (\<lambda>c. c \<noteq> k) (rt_gating_pending_order h)"
    "rt_gating_epoch ?h = rt_gating_epoch h" "rt_gating_sequence ?h = rt_gating_sequence h"
    "rt_gating_audit ?h = rt_gating_audit h" "resolved ?h = resolved h"
    by (simp_all add: remove_pending_def resolved_def)
  have idx: "bt.indexed (filter (\<lambda>c. c \<noteq> k) (rt_gating_pending_order h)) (bt_remove k (rt_gating_pending h))"
    by (rule bt.indexed_delete) (use assms(1) in \<open>simp add: gating_inv_def\<close>)
  have "length (filter (\<lambda>c. c \<noteq> k) (rt_gating_pending_order h)) \<le> GATING_PENDING_MAX_RETAINED"
    using assms(1) length_filter_le [of "\<lambda>c. c \<noteq> k" "rt_gating_pending_order h"] unfolding gating_inv_def by linarith
  then have "gating_inv ?h"
    using assms(1) idx unfolding gating_inv_def pending_ok_def audit_fits_def is_none_or_iff h by simp
  moreover have "gate_ids h ''pending'' k" by (rule gating_inv_order_ids [OF assms])
  moreover have "k \<notin> set (resolved_ids h)" using assms unfolding gating_inv_def by blast
  ultimately show ?thesis by (simp add: limbo_def h)
qed

lemma limbo_append:
  assumes "limbo k h" and "append_gating_audit env a h = (r, h')" and "audit_fits h a"
  shows "limbo k h'"
  using assms(1) gating_inv_append [OF _ assms(2,3)] append_fields [OF assms(2)] gate_id_ok_mono
  unfolding limbo_def by metis

text \<open>Announcing an id in limbo resolves it.\<close>

definition announce :: "GatingResolutionNotice \<Rightarrow> MetaRuntimeHandle \<Rightarrow> MetaRuntimeHandle" where
  "announce n h = h\<lparr>rt_gating_notice_queue := rt_gating_notice_queue h @ [n]\<rparr>"

lemma gating_inv_announce:
  assumes "limbo (gn_pending_id n) h" and "rt_gating_sequence h \<noteq> 0"
  shows "gating_inv (announce n h)"
proof -
  have r: "resolved (announce n h) = resolved h @ [n]" by (simp add: announce_def resolved_def)
  have h: "rt_gating_pending (announce n h) = rt_gating_pending h"
    "rt_gating_pending_order (announce n h) = rt_gating_pending_order h"
    "rt_gating_epoch (announce n h) = rt_gating_epoch h" "rt_gating_sequence (announce n h) = rt_gating_sequence h"
    "rt_gating_audit (announce n h) = rt_gating_audit h"
    by (simp_all add: announce_def)
  show ?thesis
    using assms unfolding limbo_def gating_inv_def pending_ok_def audit_fits_def h r by simp
qed

text \<open>Adding an entry under an id that is neither pending nor resolved.\<close>

lemma upsert_fields:
  "rt_gating_pending_order (upsert_gating_pending_entry e h) =
     drop_oldest GATING_PENDING_MAX_RETAINED (filter (\<lambda>c. c \<noteq> gp_pending_id e) (rt_gating_pending_order h) @ [gp_pending_id e])"
  "rt_gating_pending (upsert_gating_pending_entry e h) =
     snd (evict_over GATING_PENDING_MAX_RETAINED bt_remove
       (filter (\<lambda>c. c \<noteq> gp_pending_id e) (rt_gating_pending_order h) @ [gp_pending_id e])
       (bt_insert (gp_pending_id e) e (rt_gating_pending h)))"
  "rt_gating_epoch (upsert_gating_pending_entry e h) = rt_gating_epoch h"
  "rt_gating_sequence (upsert_gating_pending_entry e h) = rt_gating_sequence h"
  "rt_gating_audit (upsert_gating_pending_entry e h) = rt_gating_audit h"
  "resolved (upsert_gating_pending_entry e h) = resolved h"
  by (simp_all add: upsert_gating_pending_entry_def resolved_def Let_def case_prod_beta evict_over_order
      del: last_drop_oldest)

definition unused :: "MetaRuntimeHandle \<Rightarrow> string \<Rightarrow> bool" where
  "unused h i \<longleftrightarrow> i \<notin> set (rt_gating_pending_order h) \<and> i \<notin> set (resolved_ids h)
     \<and> (\<forall>a \<in> set (rt_gating_audit h). ga_pending_id a \<noteq> Some i)"

lemma mint_unused:
  assumes "gating_inv h" and "mint_gating_id ''pending'' h = (Inr i, h')"
  shows "unused h' i"
proof -
  have "\<not> gate_ids h ''pending'' i" using gating_inv_mint(2) [OF assms refl] by blast
  moreover have "gate_ids h ''pending'' k" if "k \<in> set (rt_gating_pending_order h) \<or> k \<in> set (resolved_ids h)" for k
    using that gating_inv_order_ids [OF assms(1)] assms(1) unfolding gating_inv_def by blast
  moreover have "gate_ids h ''pending'' k" if "a \<in> set (rt_gating_audit h)" "ga_pending_id a = Some k" for a k
    using that assms(1) unfolding gating_inv_def audit_fits_def is_none_or_iff by blast
  ultimately show ?thesis unfolding unused_def mint_fields [OF assms(2)] by blast
qed

lemma gating_inv_upsert:
  assumes "gating_inv h" and "unused h (gp_pending_id e)" and "pending_ok h (gp_pending_id e) e"
  shows "gating_inv (upsert_gating_pending_entry e h)"
    and "bt_get (rt_gating_pending (upsert_gating_pending_entry e h)) (gp_pending_id e) = Some e"
proof -
  let ?i = "gp_pending_id e" and ?h = "upsert_gating_pending_entry e h"
  let ?order = "filter (\<lambda>c. c \<noteq> ?i) (rt_gating_pending_order h) @ [?i]"
  let ?m = "bt_insert ?i e (rt_gating_pending h)"
  have idx: "bt.indexed ?order ?m"
    by (rule bt.indexed_push) (use assms(1) in \<open>simp add: gating_inv_def\<close>)
  then have idx': "bt.indexed (rt_gating_pending_order ?h) (rt_gating_pending ?h)"
    unfolding upsert_fields evict_over_order [symmetric, where rm = bt_remove and m = ?m]
    by (rule bt.indexed_evict)
  have "\<forall>(k, x) \<in> insert (?i, e) (set (rt_gating_pending h)). pending_ok h k x"
    using assms(1,3) by (simp add: gating_inv_def)
  moreover have sub: "set (rt_gating_pending ?h) \<subseteq> insert (?i, e) (set (rt_gating_pending h))"
    unfolding upsert_fields by (rule order.trans [OF evict_over_subset set_bt_insert_subset])
  ultimately have pend: "\<forall>(k, x) \<in> set (rt_gating_pending ?h). pending_ok h k x" by (meson subsetD)
  have order: "set (rt_gating_pending_order ?h) \<subseteq> insert ?i (set (rt_gating_pending_order h))"
    unfolding upsert_fields by (rule order.trans [OF set_drop_oldest_subset]) auto
  have audits: "audit_fits h a \<Longrightarrow> a \<in> set (rt_gating_audit h) \<Longrightarrow> audit_fits ?h a" for a
    using order assms(2) by (auto simp: audit_fits_def unused_def is_none_or_iff upsert_fields(3,4))
  have same: "pending_ok ?h k x = pending_ok h k x" for k x by (simp add: pending_ok_def upsert_fields)
  have "\<forall>k \<in> set (resolved_ids h). k \<notin> set (rt_gating_pending_order ?h)"
    using assms(1,2) order unfolding gating_inv_def unused_def by blast
  moreover have "length (rt_gating_pending_order ?h) \<le> GATING_PENDING_MAX_RETAINED"
    unfolding upsert_fields by simp
  moreover have "\<forall>a \<in> set (rt_gating_audit h). gate_ids h ''audit'' (ga_audit_id a) \<and> audit_fits ?h a"
    using assms(1) audits unfolding gating_inv_def by blast
  ultimately show "gating_inv ?h"
    using assms(1) idx' pend unfolding gating_inv_def same upsert_fields(3-6) by blast
  show "bt_get (rt_gating_pending ?h) ?i = Some e"
    unfolding upsert_fields using bt.evict_keeps [OF idx, of ?i GATING_PENDING_MAX_RETAINED]
    by (simp add: GATING_PENDING_MAX_RETAINED_def bt_get_insert)
qed

text \<open>Noting a delivery rewrites one field of a pending entry.\<close>

lemma note_delivery_fields:
  "rt_gating_pending_order (note_delivery c p d h) = rt_gating_pending_order h"
  "rt_gating_epoch (note_delivery c p d h) = rt_gating_epoch h"
  "rt_gating_sequence (note_delivery c p d h) = rt_gating_sequence h"
  "rt_gating_audit (note_delivery c p d h) = rt_gating_audit h"
  "resolved (note_delivery c p d h) = resolved h"
  by (simp_all add: note_delivery_def resolved_def split: option.split)

lemma gating_inv_note_delivery:
  assumes "gating_inv h"
  shows "gating_inv (note_delivery c p d h)"
proof (cases "bt_get (rt_gating_pending h) p")
  case None
  then show ?thesis using assms by (simp add: note_delivery_def)
next
  case (Some e)
  show ?thesis
  proof (cases "gp_action_id e = gc_action_id c")
    case False
    with Some show ?thesis using assms by (simp add: note_delivery_def)
  next
    case True
    let ?e = "e\<lparr>gp_approval_delivery_id := d\<rparr>" and ?h = "note_delivery c p d h"
    have pend: "rt_gating_pending ?h = bt_insert p ?e (rt_gating_pending h)"
      using True Some by (simp add: note_delivery_def)
    have ok: "pending_ok h p e" "p \<in> set (rt_gating_pending_order h)" using gating_inv_pending [OF assms Some] by auto
    then have "pending_ok h p ?e" by (simp add: pending_ok_def)
    then have "\<forall>(k, x) \<in> insert (p, ?e) (set (rt_gating_pending h)). pending_ok h k x"
      using assms by (simp add: gating_inv_def)
    then have new: "\<forall>(k, x) \<in> set (rt_gating_pending ?h). pending_ok h k x"
      unfolding pend by (meson set_bt_insert_subset subsetD)
    have idx: "bt.indexed (rt_gating_pending_order h) (rt_gating_pending ?h)"
      using assms ok(2) unfolding gating_inv_def bt.indexed_def pend by (auto simp: bt_inv_insert bt_get_insert)
    have same: "pending_ok ?h k x = pending_ok h k x" "audit_fits ?h a = audit_fits h a" for k x a
      by (simp_all add: pending_ok_def audit_fits_def note_delivery_fields)
    show ?thesis
      using assms new idx unfolding gating_inv_def same note_delivery_fields by blast
  qed
qed

subsection \<open>Timeouts\<close>

definition timeout_notice :: "string \<Rightarrow> GatingPendingEntry \<Rightarrow> GatingResolutionNotice" where
  "timeout_notice k e = \<lparr>gn_pending_id = k, gn_action_id = gp_action_id e, gn_approved = False,
     gn_next_pending_id = None, gn_cause = ''timeout_fallback''\<rparr>"

lemma settle_timeout_eq:
  "settle_timeout env i k h =
     (case bt_get (rt_gating_pending h) k of
        None \<Rightarrow> h
      | Some e \<Rightarrow> announce (timeout_notice k e) (record_gating_audit env i
          (audit_entry ''timeout_fallback'' (gp_action_id e) (Some k) (gp_actor_id e) (gp_risk_tier e) SafeDraft
            (json_object [(''fallback'', JString ''safe_draft''), (''reason'', JString ''approval_timeout''),
               (''origin'', json_option origin_json (gp_origin e))])) (remove_pending k h)))"
  by (simp add: settle_timeout_def announce_def timeout_notice_def remove_pending_def Let_def split: option.split)

lemma audit_entry_fields [simp]:
  "ga_event_type (audit_entry t a p ac r ou d) = t" "ga_action_id (audit_entry t a p ac r ou d) = a"
  "ga_pending_id (audit_entry t a p ac r ou d) = p" "ga_detail (audit_entry t a p ac r ou d) = d"
  "ga_outcome (audit_entry t a p ac r ou d) = ou"
  by (simp_all add: audit_entry_def)

lemma record_fields:
  "rt_gating_pending (record_gating_audit env i a h) = rt_gating_pending h"
  "rt_gating_pending_order (record_gating_audit env i a h) = rt_gating_pending_order h"
  "rt_gating_sequence (record_gating_audit env i a h) = rt_gating_sequence h"
  "rt_gating_epoch (record_gating_audit env i a h) = rt_gating_epoch h"
  "resolved (record_gating_audit env i a h) = resolved h"
  by (simp_all add: record_gating_audit_eq resolved_def)

lemma gating_inv_settle_timeout:
  assumes "gating_inv h" and "gate_ids h ''audit'' i" and "i \<notin> ga_audit_id ` set (rt_gating_audit h)"
    and "rt_gating_sequence h \<noteq> 0"
  shows "gating_inv (settle_timeout env i k h)"
proof (cases "bt_get (rt_gating_pending h) k")
  case None
  then show ?thesis using assms(1) by (simp add: settle_timeout_eq)
next
  case (Some e)
  let ?a = "audit_entry ''timeout_fallback'' (gp_action_id e) (Some k) (gp_actor_id e) (gp_risk_tier e) SafeDraft
      (json_object [(''fallback'', JString ''safe_draft''), (''reason'', JString ''approval_timeout''),
         (''origin'', json_option origin_json (gp_origin e))])"
  let ?r = "remove_pending k h"
  have pk: "pending_ok h k e" "k \<in> set (rt_gating_pending_order h)" using gating_inv_pending [OF assms(1) Some] by auto
  have lim: "limbo k ?r" by (rule limbo_remove [OF assms(1) pk(2)])
  have same: "rt_gating_epoch ?r = rt_gating_epoch h" "rt_gating_sequence ?r = rt_gating_sequence h"
    "rt_gating_audit ?r = rt_gating_audit h" by (simp_all add: remove_pending_def)
  have "audit_fits ?r ?a"
    using pk(1) lim by (simp add: audit_fits_def pending_ok_def limbo_def same)
  then have "gating_inv (record_gating_audit env i ?a ?r)"
    using gating_inv_record [of ?r i ?a env] lim assms(2,3) by (simp add: limbo_def same)
  then have "limbo k (record_gating_audit env i ?a ?r)"
    using lim by (simp add: limbo_def record_fields)
  then show ?thesis
    using gating_inv_announce [of "timeout_notice k e"] assms(4)
    by (simp add: settle_timeout_eq Some timeout_notice_def record_fields same)
qed

lemma gating_inv_settle_expired: "gating_inv h \<Longrightarrow> gating_inv (settle_expired env ids h)"
proof (induction env ids h rule: settle_expired.induct)
  case (1 env h)
  then show ?case by simp
next
  case (2 env k rest h)
  obtain m h1 where m: "mint_gating_id ''audit'' h = (m, h1)" by fastforce
  note inv = gating_inv_mint [OF "2.prems" m] and f = mint_fields [OF m]
  show ?case
  proof (cases m)
    case (Inl e)
    then show ?thesis using m inv(1) by simp
  next
    case (Inr i)
    have "i \<notin> ga_audit_id ` set (rt_gating_audit h1)"
      using inv(2) [OF Inr] "2.prems" f(3) by (auto simp: gating_inv_def)
    then have "gating_inv (settle_timeout env i k h1)"
      using gating_inv_settle_timeout [OF inv(1)] inv(2) [OF Inr] by blast
    then show ?thesis using 2 m Inr by simp
  qed
qed

lemma gating_inv_refresh_at: "gating_inv h \<Longrightarrow> gating_inv (refresh_gating_timeouts_at env now h)"
  unfolding refresh_gating_timeouts_at_def by (rule gating_inv_settle_expired)

lemma gating_inv_refresh: "gating_inv h \<Longrightarrow> gating_inv (refresh_gating_timeouts env h)"
  unfolding refresh_gating_timeouts_def current_time_ms_def Let_def prod.case
  by (rule gating_inv_refresh_at) simp

end
