(* ===== verification/Gating_Safety.thy ===== *)
theory Gating_Safety
  imports Gating_Invariant
begin

text \<open>
  What the approval gate guarantees: decisions are made by an entitled decider on a live entry,
  exactly once; refusals leave the gate to its timeouts; escalation keeps the candidate and its
  deadline; evaluation follows the risk tier and never leaves a partial request behind.
\<close>

section \<open>Timeouts\<close>

lemma settle_timeout_pending:
  "bt_get (rt_gating_pending (settle_timeout env i k h)) = (bt_get (rt_gating_pending h))(k := None)"
  "rt_gating_epoch (settle_timeout env i k h) = rt_gating_epoch h"
  "rt_gating_sequence (settle_timeout env i k h) = rt_gating_sequence h"
  by (auto simp: settle_timeout_eq announce_def record_fields remove_pending_def bt_get_remove fun_eq_iff
      split: option.split)

lemma settle_expired_pending:
  defines "pend \<equiv> \<lambda>h. bt_get (rt_gating_pending h)"
  shows "pend (settle_expired env ids h) k = Some e \<Longrightarrow> pend h k = Some e"
    and "k \<notin> set ids \<Longrightarrow> pend (settle_expired env ids h) k = pend h k"
    and "rt_gating_epoch h = None \<or> rt_gating_sequence (settle_expired env ids h) = u64_max
      \<or> (\<forall>k \<in> set ids. pend (settle_expired env ids h) k = None)"
proof -
  have "(pend (settle_expired env ids h) k = Some e \<longrightarrow> pend h k = Some e)
      \<and> (k \<notin> set ids \<longrightarrow> pend (settle_expired env ids h) k = pend h k)
      \<and> (rt_gating_epoch h = None \<or> rt_gating_sequence (settle_expired env ids h) = u64_max
      \<or> (\<forall>k \<in> set ids. pend (settle_expired env ids h) k = None))" for k e
  proof (induction env ids h arbitrary: k e rule: settle_expired.induct)
    case (1 env h)
    then show ?case by simp
  next
    case (2 env x rest h)
    obtain m h1 where m: "mint_gating_id ''audit'' h = (m, h1)" by fastforce
    note f = mint_fields [OF m]
    show ?case
    proof (cases m)
      case (Inl err)
      then have "rt_gating_epoch h = None \<or> rt_gating_sequence h1 = u64_max"
        using m by (auto elim: mint_gating_id_cases)
      then show ?thesis using m Inl f(1) by (auto simp: pend_def)
    next
      case (Inr i)
      let ?h2 = "settle_timeout env i x h1"
      have step: "settle_expired env (x # rest) h = settle_expired env rest ?h2" using m Inr by simp
      have p2: "pend ?h2 = (pend h)(x := None)"
        unfolding pend_def settle_timeout_pending f(1) ..
      note IH = "2.IH" [OF m [symmetric] Inr]
      have gone: "pend (settle_expired env rest ?h2) x = None"
        using IH [of x] p2 by (metis fun_upd_same not_None_eq)
      have "rt_gating_epoch ?h2 = rt_gating_epoch h" unfolding settle_timeout_pending f(5) ..
      then show ?thesis
        unfolding step using IH [of k e] p2 gone by (auto split: if_splits)
    qed
  qed
  then show "pend (settle_expired env ids h) k = Some e \<Longrightarrow> pend h k = Some e"
    and "k \<notin> set ids \<Longrightarrow> pend (settle_expired env ids h) k = pend h k"
    and "rt_gating_epoch h = None \<or> rt_gating_sequence (settle_expired env ids h) = u64_max
      \<or> (\<forall>k \<in> set ids. pend (settle_expired env ids h) k = None)"
    by blast+
qed

lemma refresh_pending:
  assumes "bt_get (rt_gating_pending (refresh_gating_timeouts_at env now h)) k = Some e"
  shows "bt_get (rt_gating_pending h) k = Some e"
  using assms settle_expired_pending(1) unfolding refresh_gating_timeouts_at_def by blast

text \<open>While ids can be minted, a refresh leaves only live entries.\<close>

lemma refresh_live:
  assumes "bt_get (rt_gating_pending (refresh_gating_timeouts_at env now h)) k = Some e"
    and "gating_ids_available n (refresh_gating_timeouts_at env now h) = Inr ()" and "n \<noteq> 0"
  shows "now < gp_deadline_at_ms e"
proof (rule ccontr)
  assume late: "\<not> now < gp_deadline_at_ms e"
  let ?h = "refresh_gating_timeouts_at env now h"
  have "bt_get (rt_gating_pending h) k = Some e" by (rule refresh_pending [OF assms(1)])
  then have "k \<in> set (expired_ids now h)"
    using late bt_get_in_set [of "rt_gating_pending h" k e] by (force simp: expired_ids_def)
  then have "rt_gating_epoch h = None \<or> rt_gating_sequence ?h = u64_max"
    using settle_expired_pending(3) [of h env "expired_ids now h"] assms(1)
    unfolding refresh_gating_timeouts_at_def by auto
  moreover have "rt_gating_epoch ?h = rt_gating_epoch h" by (rule gating_frameD(13) [OF frame_refresh_at])
  moreover have "unat n \<noteq> 0" using assms(3) by (simp add: unat_eq_zero)
  ultimately show False
    using assms(2) by (auto simp: gating_ids_available_ok unsigned_minus_1_eq_mask mask_eq_exp_minus_1)
qed

lemma refresh_keeps_live:
  assumes "bt_get (rt_gating_pending h) k = Some e" and "now < gp_deadline_at_ms e" and "bt_inv (rt_gating_pending h)"
  shows "bt_get (rt_gating_pending (refresh_gating_timeouts_at env now h)) k = Some e"
proof -
  have "k \<notin> set (expired_ids now h)"
    using assms bt_in_set_get [OF assms(3)] by (fastforce simp: expired_ids_def)
  then show ?thesis
    using settle_expired_pending(2) assms(1) unfolding refresh_gating_timeouts_at_def by metis
qed

section \<open>Minting that cannot fail\<close>

definition audited :: "Env \<Rightarrow> GatingAuditEntry \<Rightarrow> MetaRuntimeHandle \<Rightarrow> MetaRuntimeHandle" where
  "audited env a h = snd (append_gating_audit env a h)"

definition can_mint :: "nat \<Rightarrow> MetaRuntimeHandle \<Rightarrow> bool" where
  "can_mint n h \<longleftrightarrow> rt_gating_epoch h \<noteq> None \<and> unat (rt_gating_sequence h) + n < 2 ^ 64"

lemma can_mint_available: "gating_ids_available n h = Inr () \<longleftrightarrow> can_mint (unat n) h"
  by (simp add: gating_ids_available_ok can_mint_def)

lemma can_mint_mono: "can_mint m h \<Longrightarrow> n \<le> m \<Longrightarrow> can_mint n h"
  by (simp add: can_mint_def)

lemma can_mint_mint:
  assumes "can_mint (Suc n) h"
  obtains i h' where "mint_gating_id kind h = (Inr i, h')" "can_mint n h'"
proof -
  obtain epoch where e: "rt_gating_epoch h = Some epoch" using assms by (auto simp: can_mint_def)
  have u: "unat (rt_gating_sequence h) + Suc n < 2 ^ 64" using assms by (simp add: can_mint_def)
  note m = mint_available [OF e u]
  show thesis
    by (rule that [OF m(1)]) (use m(2) u e in \<open>simp add: can_mint_def\<close>)
qed

lemma can_mint_append:
  assumes "can_mint (Suc n) h"
  shows "append_gating_audit env a h = (Inr (), audited env a h)" and "can_mint n (audited env a h)"
proof -
  obtain i h' where m: "mint_gating_id ''audit'' h = (Inr i, h')" "can_mint n h'"
    using can_mint_mint [OF assms] by blast
  then show "append_gating_audit env a h = (Inr (), audited env a h)" "can_mint n (audited env a h)"
    by (simp_all add: audited_def append_gating_audit_def can_mint_def record_fields)
qed

lemma can_mint_cong:
  "rt_gating_epoch h' = rt_gating_epoch h \<Longrightarrow> rt_gating_sequence h' = rt_gating_sequence h \<Longrightarrow>
   can_mint n h' = can_mint n h"
  by (simp add: can_mint_def)

section \<open>Decisions\<close>

definition decision_notice ::
  "GatingDecideRequest \<Rightarrow> GatingPendingEntry \<Rightarrow> string \<Rightarrow> string option \<Rightarrow> GatingResolutionNotice" where
  "decision_notice rq entry k next =
     \<lparr>gn_pending_id = k, gn_action_id = gp_action_id entry, gn_approved = (gd_decision rq = Approve),
      gn_next_pending_id = next, gn_cause = snd (decision_outcome (gd_decision rq))\<rparr>"

definition decision_result ::
  "GatingDecideRequest \<Rightarrow> GatingDecider option \<Rightarrow> GatingPendingEntry \<Rightarrow> string \<Rightarrow> string option \<Rightarrow> u64 \<Rightarrow> GatingDecisionResult" where
  "decision_result rq d entry k next now =
     \<lparr>gx_pending_id = k, gx_action_id = gp_action_id entry, gx_approver_id = fst (approver_of rq d entry),
      gx_decision = gd_decision rq, gx_outcome = fst (decision_outcome (gd_decision rq)),
      gx_decided_at_ms = now, gx_reason = gd_reason rq, gx_next_pending_id = next\<rparr>"

lemma conclude_decision_eq:
  assumes "can_mint (Suc n) h"
  shows "conclude_decision env rq d entry k next now h =
    (Inr (decision_result rq d entry k next now),
     announce (decision_notice rq entry k next) (audited env (decision_audit rq d entry k next) h))"
  by (simp add: conclude_decision_def can_mint_append(1) [OF assms] decision_result_def decision_notice_def
      announce_def case_prod_beta)

text \<open>The handle between the checks and the concluding audit record.\<close>

definition escalated :: "Env \<Rightarrow> GatingPendingEntry \<Rightarrow> string \<Rightarrow> GatingPendingEntry \<Rightarrow> MetaRuntimeHandle \<Rightarrow> MetaRuntimeHandle" where
  "escalated env entry k succ h = audited env (successor_audit k succ) (upsert_gating_pending_entry succ h)"

lemma escalate_entry_eq:
  assumes "mint_gating_id ''pending'' h = (Inr i, h1)" and "can_mint (Suc n) h1"
  shows "escalate_entry env entry k succ now h = (Inr i, escalated env entry k (successor_entry entry i succ now) h1)"
    and "can_mint n (escalated env entry k (successor_entry entry i succ now) h1)"
proof -
  let ?h = "upsert_gating_pending_entry (successor_entry entry i succ now) h1"
  have "can_mint (Suc n) ?h" using assms(2) by (simp add: can_mint_def upsert_fields)
  note m = can_mint_append [OF this, of env "successor_audit k (successor_entry entry i succ now)"]
  show "escalate_entry env entry k succ now h = (Inr i, escalated env entry k (successor_entry entry i succ now) h1)"
    using assms(1) m(1) by (simp add: escalate_entry_def Let_def escalated_def)
  show "can_mint n (escalated env entry k (successor_entry entry i succ now) h1)"
    using m(2) by (simp add: escalated_def)
qed

text \<open>The instant of a decision, and the gate as of then.\<close>

definition decision_now :: "Env \<Rightarrow> MetaRuntimeHandle \<Rightarrow> u64" where
  "decision_now env h = env_clock env (rt_tick h)"

definition decision_base :: "Env \<Rightarrow> MetaRuntimeHandle \<Rightarrow> MetaRuntimeHandle" where
  "decision_base env h = refresh_gating_timeouts_at env (decision_now env h) (h\<lparr>rt_tick := Suc (rt_tick h)\<rparr>)"

lemma decide_cases:
  assumes "decide_gating_action_as env rq d h = (r, h')"
  obtains (refused) e where "r = Inl e" "h' = decision_base env h"
  | (committed) entry successor where
      "can_mint 3 (decision_base env h)" "is_none_or d (\<lambda>d. trim (de_principal d) \<noteq> [])"
      "bt_get (rt_gating_pending (decision_base env h)) (trim (gd_pending_id rq)) = Some entry"
      "check_decision rq d entry (decision_base env h) = Inr successor"
      "commit_decision env rq d entry (trim (gd_pending_id rq)) successor (decision_now env h)
         (decision_base env h) = (r, h')"
proof -
  let ?h = "decision_base env h"
  have def: "decide_gating_action_as env rq d h =
     (case gating_ids_available GATING_IDS_PER_DECISION ?h of
        Inl e \<Rightarrow> (Inl (IdsUnavailable e), ?h)
      | Inr _ \<Rightarrow>
         (if is_some_and d (\<lambda>decider. trim (de_principal decider) = []) then (Inl EmptyPrincipal, ?h)
          else case bt_get (rt_gating_pending ?h) (trim (gd_pending_id rq)) of
               None \<Rightarrow> (Inl (UnknownPendingId (trim (gd_pending_id rq))), ?h)
             | Some entry \<Rightarrow>
                (case check_decision rq d entry ?h of
                   Inl e \<Rightarrow> (Inl e, ?h)
                 | Inr successor \<Rightarrow> commit_decision env rq d entry (trim (gd_pending_id rq)) successor
                     (decision_now env h) ?h)))"
    unfolding decide_gating_action_as_def current_time_ms_def decision_base_def decision_now_def Let_def prod.case
    by (rule refl)
  show ?thesis
  proof (cases "can_mint 3 ?h \<and> \<not> is_some_and d (\<lambda>decider. trim (de_principal decider) = [])")
    case False
    then have "gating_ids_available GATING_IDS_PER_DECISION ?h \<noteq> Inr ()
        \<or> is_some_and d (\<lambda>decider. trim (de_principal decider) = [])"
      by (simp add: can_mint_available GATING_IDS_PER_DECISION_def)
    then have "\<exists>e. r = Inl e \<and> h' = ?h"
      using assms by (cases "gating_ids_available GATING_IDS_PER_DECISION ?h") (auto simp: def split: if_splits)
    then show ?thesis using refused by blast
  next
    case True
    then have avail: "gating_ids_available GATING_IDS_PER_DECISION ?h = Inr ()"
      by (simp add: can_mint_available GATING_IDS_PER_DECISION_def)
    have some: "is_none_or d (\<lambda>d. trim (de_principal d) \<noteq> [])"
      using True by (auto simp: is_some_and_iff is_none_or_iff)
    show ?thesis
    proof (cases "bt_get (rt_gating_pending ?h) (trim (gd_pending_id rq))")
      case None
      then show ?thesis using assms True avail refused by (auto simp: def)
    next
      case entry: (Some entry)
      show ?thesis
      proof (cases "check_decision rq d entry ?h")
        case (Inl e)
        then show ?thesis using assms True avail entry refused by (auto simp: def)
      next
        case (Inr successor)
        then show ?thesis using assms True avail entry committed some by (auto simp: def)
      qed
    qed
  qed
qed

text \<open>The commit of a decision that the checks passed: it cannot fail.\<close>

lemma commit_decision_cases:
  assumes "commit_decision env rq d entry k successor now h = (r, h')" and "can_mint 3 h"
  obtains (final) "gd_decision rq \<noteq> Escalate" "r = Inr (decision_result rq d entry k None now)"
      "h' = announce (decision_notice rq entry k None)
         (audited env (decision_audit rq d entry k None) (remove_pending k h))"
      "can_mint 1 (remove_pending k h)"
  | (escalate) i h1 where "gd_decision rq = Escalate" "r = Inr (decision_result rq d entry k (Some i) now)"
      "mint_gating_id ''pending'' (remove_pending k h) = (Inr i, h1)" "can_mint 2 h1"
      "can_mint 1 (escalated env entry k (successor_entry entry i successor now) h1)"
      "h' = announce (decision_notice rq entry k (Some i)) (audited env (decision_audit rq d entry k (Some i))
         (escalated env entry k (successor_entry entry i successor now) h1))"
proof -
  let ?h = "remove_pending k h"
  have avail: "can_mint 3 ?h" using assms(2) by (simp add: can_mint_def remove_pending_def)
  show ?thesis
  proof (cases "gd_decision rq = Escalate")
    case False
    have one: "can_mint (Suc 0) ?h" by (rule can_mint_mono [OF avail]) simp
    then show ?thesis
      using assms(1) False final conclude_decision_eq [OF one]
      by (auto simp: commit_decision_def Let_def)
  next
    case True
    obtain i h1 where m: "mint_gating_id ''pending'' ?h = (Inr i, h1)" "can_mint 2 h1"
      using can_mint_mint [of 2 ?h] avail by (auto simp: numeral_eq_Suc)
    have "can_mint (Suc 1) h1" using m(2) by (simp add: numeral_eq_Suc)
    note e = escalate_entry_eq [OF m(1) this, of env entry k successor now]
    have "can_mint (Suc 0) (escalated env entry k (successor_entry entry i successor now) h1)" using e(2) by simp
    note c = conclude_decision_eq [OF this]
    show ?thesis
      by (rule escalate [OF True _ m e(2)])
        (use assms(1) True e(1) c in \<open>auto simp: commit_decision_def Let_def\<close>)
  qed
qed

section \<open>Decisions keep the invariant\<close>

lemma audited_eq: "append_gating_audit env a h = (fst (append_gating_audit env a h), audited env a h)"
  by (simp add: audited_def)

lemma gating_inv_base: "gating_inv h \<Longrightarrow> gating_inv (decision_base env h)"
  unfolding decision_base_def by (rule gating_inv_refresh_at) simp

lemma seq_audited: "can_mint (Suc n) h \<Longrightarrow> rt_gating_sequence (audited env a h) \<noteq> 0"
proof -
  assume c: "can_mint (Suc n) h"
  then obtain i h' where m: "mint_gating_id ''audit'' h = (Inr i, h')" using can_mint_mint by blast
  then have "rt_gating_sequence h' \<noteq> 0"
  proof (cases rule: mint_gating_id_cases)
    case (minted epoch)
    then show ?thesis using next_u64_less [OF minted(3)] by auto
  qed simp
  then show ?thesis using m by (simp add: audited_def append_gating_audit_def record_fields)
qed

lemma limbo_mint:
  assumes "limbo k h" and "mint_gating_id kind h = (r, h')"
  shows "limbo k h'"
  using assms(1) gating_inv_mint(1) [OF _ assms(2)] mint_fields [OF assms(2)] gate_id_ok_mono
  unfolding limbo_def by metis

text \<open>The successor of an escalated entry is ready to be added once its id is minted.\<close>

lemma escalate_ready:
  assumes "gating_inv h" and "bt_get (rt_gating_pending h) k = Some entry" and "now \<le> gp_deadline_at_ms entry"
    and "mint_gating_id ''pending'' (remove_pending k h) = (Inr i, h1)"
  shows "limbo k h1" and "unused h1 i" and "pending_ok h1 i (successor_entry entry i successor now)" and "k \<noteq> i"
    and "\<not> gate_ids h ''pending'' i"
proof -
  let ?r = "remove_pending k h"
  have pk: "pending_ok h k entry" "k \<in> set (rt_gating_pending_order h)"
    using gating_inv_pending [OF assms(1,2)] by auto
  have lim: "limbo k ?r" by (rule limbo_remove [OF assms(1) pk(2)])
  then have inv: "gating_inv ?r" and kid: "gate_ids ?r ''pending'' k" by (simp_all add: limbo_def)
  have same: "rt_gating_epoch ?r = rt_gating_epoch h" "rt_gating_sequence ?r = rt_gating_sequence h"
    by (simp_all add: remove_pending_def)
  note f = mint_fields [OF assms(4)] and minted = gating_inv_mint(2) [OF inv assms(4) refl]
  show "limbo k h1" by (rule limbo_mint [OF lim assms(4)])
  show "unused h1 i" by (rule mint_unused [OF inv assms(4)])
  show "k \<noteq> i" using minted kid by auto
  show "\<not> gate_ids h ''pending'' i" using minted by (simp add: same)
  have "gate_ids h1 ''action'' (gp_action_id entry)"
    using pk(1) gate_id_ok_mono [OF _ f(6)] f(5) by (simp add: pending_ok_def same)
  then show "pending_ok h1 i (successor_entry entry i successor now)"
    using pk(1) minted assms(3) by (simp add: pending_ok_def successor_entry_def)
qed

lemma gating_inv_commit:
  assumes "commit_decision env rq d entry k successor now h = (r, h')" and "can_mint 3 h" and "gating_inv h"
    and "bt_get (rt_gating_pending h) k = Some entry" and "now \<le> gp_deadline_at_ms entry"
  shows "gating_inv h'"
proof -
  have pk: "pending_ok h k entry" "k \<in> set (rt_gating_pending_order h)"
    using gating_inv_pending [OF assms(3,4)] by auto
  let ?r = "remove_pending k h"
  have lim: "limbo k ?r" by (rule limbo_remove [OF assms(3) pk(2)])
  have act: "gate_ids ?r ''action'' (gp_action_id entry)" using pk(1) by (simp add: pending_ok_def remove_pending_def)
  have fits: "audit_fits g (decision_audit rq d entry k nx)" if "limbo k g" "gate_ids g ''action'' (gp_action_id entry)" for g nx
    using that by (simp add: audit_fits_def decision_audit_def case_prod_beta limbo_def)
  from assms(1,2) show ?thesis
  proof (cases rule: commit_decision_cases)
    case final
    have "limbo k (audited env (decision_audit rq d entry k None) ?r)"
      using limbo_append [OF lim audited_eq fits [OF lim act]] .
    then show ?thesis
      using gating_inv_announce [of "decision_notice rq entry k None"] final(3,4) seq_audited [of 0]
      by (simp add: decision_notice_def)
  next
    case (escalate i h1)
    let ?e = "successor_entry entry i successor now"
    let ?u = "upsert_gating_pending_entry ?e h1"
    note ready = escalate_ready [OF assms(3,4,5) escalate(3)]
    have id: "gp_pending_id ?e = i" "gp_action_id ?e = gp_action_id entry" by (simp_all add: successor_entry_def)
    have ids: "gate_ids h1 ''pending'' i" "gate_ids h1 ''action'' (gp_action_id entry)"
      using ready(3) [of successor] by (simp_all add: pending_ok_def successor_entry_def)
    have inv1: "gating_inv h1" using ready(1) by (simp add: limbo_def)
    have invu: "gating_inv ?u" using gating_inv_upsert(1) [of h1 ?e] inv1 ready(2,3) id by simp
    have "set (rt_gating_pending_order ?u) \<subseteq> insert i (set (rt_gating_pending_order h1))"
      unfolding upsert_fields id by (rule order.trans [OF set_drop_oldest_subset]) auto
    then have limu: "limbo k ?u"
      using ready(1,4) invu unfolding limbo_def upsert_fields(3,4,6) by blast
    have "audit_fits ?u (successor_audit k ?e)"
      using ids by (simp add: audit_fits_def successor_audit_def id upsert_fields resolution_events_def)
    then have lime: "limbo k (escalated env entry k ?e h1)"
      unfolding escalated_def by (rule limbo_append [OF limu audited_eq])
    have "gate_ids ?u ''action'' (gp_action_id entry)" using ids(2) by (simp add: upsert_fields)
    then have "gate_ids (escalated env entry k ?e h1) ''action'' (gp_action_id entry)"
      using append_fields(4,5) [OF audited_eq] gate_id_ok_mono unfolding escalated_def by metis
    then have "limbo k (audited env (decision_audit rq d entry k (Some i)) (escalated env entry k ?e h1))"
      by (intro limbo_append [OF lime audited_eq] fits lime)
    then show ?thesis
      using gating_inv_announce [of "decision_notice rq entry k (Some i)"] escalate(5,6) seq_audited [of 0]
      by (simp add: decision_notice_def)
  qed
qed

lemma gating_inv_decide:
  assumes "decide_gating_action_as env rq d h = (r, h')" and "gating_inv h"
  shows "gating_inv h'"
  using assms(1)
proof (cases rule: decide_cases)
  case (refused e)
  then show ?thesis using gating_inv_base [OF assms(2)] by simp
next
  case (committed entry successor)
  have "gating_ids_available 3 (decision_base env h) = Inr ()"
    using committed(1) by (simp add: can_mint_available)
  then have "decision_now env h < gp_deadline_at_ms entry"
    using refresh_live committed(3) unfolding decision_base_def by fastforce
  then show ?thesis
    using gating_inv_commit [OF committed(5,1) gating_inv_base [OF assms(2)] committed(3)] by simp
qed

end
