(* ===== verification/Gating_Evaluation.thy ===== *)
theory Gating_Evaluation
  imports Gating_Safety
begin

text \<open>
  Evaluation of risky actions keeps the gate's invariant, follows the risk tier, and either
  refuses before it changes anything but timeouts or runs to its end: the ids an evaluation may
  need are available up front. The services below the gate see it only through routing and
  delivery calls, which a locale turns into preservation of their invariants.
\<close>

section \<open>The gate's part of the handle\<close>

definition gate_view where
  "gate_view h = (rt_gating_epoch h, rt_gating_sequence h, rt_gating_pending h, rt_gating_pending_order h,
     rt_gating_audit h, rt_gating_notice_queue h, rt_gating_delivered h, rt_gating_escalation_routes h)"

lemma gate_viewD:
  assumes "gate_view h' = gate_view h"
  shows "rt_gating_epoch h' = rt_gating_epoch h" "rt_gating_sequence h' = rt_gating_sequence h"
    "rt_gating_pending h' = rt_gating_pending h" "rt_gating_pending_order h' = rt_gating_pending_order h"
    "rt_gating_audit h' = rt_gating_audit h" "resolved h' = resolved h"
    "can_mint n h' = can_mint n h" "gating_inv h' = gating_inv h" "unused h' k = unused h k"
    "pending_ok h' k e = pending_ok h k e"
  using assms gating_inv_cong [of h' h]
  by (simp_all add: gate_view_def resolved_def can_mint_def unused_def pending_ok_def)

lemma gate_view_tick [simp]: "gate_view (h\<lparr>rt_tick := t\<rparr>) = gate_view h"
  by (simp add: gate_view_def)

lemma gate_view_resolve: "resolve_routing env rq h = (r, h') \<Longrightarrow> gate_view h' = gate_view h"
  unfolding gate_view_def using routing_frameD [OF resolve_routing_frame] by simp

lemma gate_view_send: "send_delivery env rq h = (r, h') \<Longrightarrow> gate_view h' = gate_view h"
  unfolding gate_view_def using delivery_frameD [OF send_delivery_frame] by simp

lemma conflict_lookup_tick:
  "gating_memory_conflict_for_reference env e t h = (r, h') \<Longrightarrow> \<exists>n. h' = h\<lparr>rt_tick := n\<rparr>"
  by (auto simp: gating_memory_conflict_for_reference_def call_module_mcp_tool_json_def Let_def
      split: if_splits option.splits prod.splits sum.splits intro: exI [of _ "rt_tick h"])

lemma conflict_block_tick: "conflict_block env c h = (r, h') \<Longrightarrow> \<exists>n. h' = h\<lparr>rt_tick := n\<rparr>"
  by (auto simp: conflict_block_def Let_def split: if_splits prod.splits sum.splits option.splits
      dest!: conflict_lookup_tick intro: exI [of _ "rt_tick h"])

lemma gate_view_conflict_block: "conflict_block env c h = (r, h') \<Longrightarrow> gate_view h' = gate_view h"
  by (auto dest: conflict_block_tick)

lemma conflict_block_audit:
  "conflict_block env c h = (Some (reason, a), h') \<Longrightarrow> ga_action_id a = gc_action_id c \<and> ga_pending_id a = None"
  by (auto simp: conflict_block_def gate_audit_def split: if_splits prod.splits sum.splits option.splits)

lemma gate_view_route:
  "resolve_approval_route env rc ch h = (res, err, h') \<Longrightarrow> gate_view h' = gate_view h"
  by (auto simp: resolve_approval_route_def split: option.splits if_splits prod.splits sum.splits
      dest: gate_view_resolve)

section \<open>Requesting approval\<close>

lemma audited_result_eq:
  assumes "can_mint (Suc n) h"
  shows "audited_result env a r h = (Inr r, audited env a h)"
  by (simp add: audited_result_def can_mint_append(1) [OF assms])

lemma approval_timeout_bounds:
  "GATING_APPROVAL_TIMEOUT_MIN_MS \<le> approval_timeout rq" "approval_timeout rq \<le> GATING_APPROVAL_TIMEOUT_MAX_MS"
  unfolding approval_timeout_def
  by (rule clamp_bounds; simp add: GATING_APPROVAL_TIMEOUT_MIN_MS_def GATING_APPROVAL_TIMEOUT_MAX_MS_def)+

text \<open>An entry up to the delivery noted on it.\<close>

definition same_request :: "GatingPendingEntry \<Rightarrow> GatingPendingEntry \<Rightarrow> bool" where
  "same_request e e' \<longleftrightarrow> e' = e\<lparr>gp_approval_delivery_id := gp_approval_delivery_id e'\<rparr>"

lemma same_request_refl [simp]: "same_request e e"
  by (simp add: same_request_def)

lemma note_delivery_get:
  assumes "bt_get (rt_gating_pending h) k = Some e"
  shows "\<exists>e'. bt_get (rt_gating_pending (note_delivery c k d h)) k = Some e' \<and> same_request e e'"
  using assms by (simp add: note_delivery_def bt_get_insert same_request_def)

lemma audited_fields:
  "rt_gating_pending (audited env a h) = rt_gating_pending h"
  "rt_gating_pending_order (audited env a h) = rt_gating_pending_order h"
  "resolved (audited env a h) = resolved h" "rt_gating_epoch (audited env a h) = rt_gating_epoch h"
  "rt_gating_sequence h \<le> rt_gating_sequence (audited env a h)"
  using append_fields [OF audited_eq] by blast+

lemma gating_inv_audited: "gating_inv h \<Longrightarrow> audit_fits h a \<Longrightarrow> gating_inv (audited env a h)"
  using gating_inv_append [OF _ audited_eq] .

lemma fits_notification:
  assumes "gate_ids h ''action'' (gc_action_id c)" and "gate_ids h ''pending'' k"
  shows "audit_fits h (notification_audit c k d r i e)"
  using assms by (simp add: audit_fits_def notification_audit_def gate_audit_def resolution_events_def)

text \<open>Publishing a committed request cannot fail and keeps the entry.\<close>

lemma publish_ok:
  assumes "publish_approval env c entry res err h = (r, h')" and "can_mint 1 h" and "gating_inv h"
    and "gate_ids h ''action'' (gc_action_id c)" and "gate_ids h ''pending'' (gp_pending_id entry)"
    and "bt_get (rt_gating_pending h) (gp_pending_id entry) = Some entry"
  shows "r = Inr ()" and "gating_inv h'" and "resolved h' = resolved h"
    and "rt_gating_pending_order h' = rt_gating_pending_order h"
    and "\<exists>e. bt_get (rt_gating_pending h') (gp_pending_id entry) = Some e \<and> same_request entry e"
proof -
  let ?k = "gp_pending_id entry"
  have final: "r = Inr () \<and> gating_inv h' \<and> resolved h' = resolved h
      \<and> rt_gating_pending_order h' = rt_gating_pending_order h
      \<and> (\<exists>e. bt_get (rt_gating_pending h') ?k = Some e \<and> same_request entry e)"
    if "append_gating_audit env (notification_audit c ?k d ro i er) g = (r, h')" "gating_inv g" "can_mint 1 g"
      "rt_gating_epoch g = rt_gating_epoch h" "rt_gating_sequence g = rt_gating_sequence h"
      "resolved g = resolved h" "rt_gating_pending_order g = rt_gating_pending_order h"
      "\<exists>e. bt_get (rt_gating_pending g) ?k = Some e \<and> same_request entry e" for d ro i er g
  proof -
    have "can_mint (Suc 0) g" using that(3) by simp
    then have "r = Inr ()" "h' = audited env (notification_audit c ?k d ro i er) g"
      using can_mint_append(1) that(1) by auto
    moreover have "audit_fits g (notification_audit c ?k d ro i er)"
      by (rule fits_notification) (use assms(4,5) that(4,5) in simp_all)
    ultimately show ?thesis using gating_inv_audited [OF that(2)] that by (simp add: audited_fields)
  qed
  have "r = Inr () \<and> gating_inv h' \<and> resolved h' = resolved h
      \<and> rt_gating_pending_order h' = rt_gating_pending_order h
      \<and> (\<exists>e. bt_get (rt_gating_pending h') ?k = Some e \<and> same_request entry e)"
  proof (cases res)
    case None
    show ?thesis
    proof (cases err)
      case err: None
      then show ?thesis using assms None by (auto simp: publish_approval_def)
    next
      case (Some e)
      show ?thesis
        by (rule final [of _ _ _ _ h]) (use assms None Some in \<open>auto simp: publish_approval_def\<close>)
    qed
  next
    case (Some resolution)
    obtain sent h1 where s: "send_delivery env (approval_send_request c entry resolution) h = (sent, h1)" by fastforce
    note v = gate_viewD [OF gate_view_send [OF s]]
    let ?h2 = "if approval_notification_disposition sent = ''acknowledged''
      then note_delivery c ?k (fst (sent_outcome env sent)) h1 else h1"
    have pend: "\<exists>e. bt_get (rt_gating_pending ?h2) ?k = Some e \<and> same_request entry e"
      using note_delivery_get [of h1 ?k entry c "fst (sent_outcome env sent)"] assms(6)
      by (simp add: v(3))
    have "gating_inv h1" using assms(3) v(8) by blast
    then have inv: "gating_inv ?h2" by (simp add: gating_inv_note_delivery)
    have cm: "can_mint 1 ?h2" using assms(2) v(1,2) by (simp add: can_mint_def note_delivery_fields)
    have same: "rt_gating_epoch ?h2 = rt_gating_epoch h" "rt_gating_sequence ?h2 = rt_gating_sequence h"
      "resolved ?h2 = resolved h" "rt_gating_pending_order ?h2 = rt_gating_pending_order h"
      by (simp_all add: note_delivery_fields v)
    have "append_gating_audit env (notification_audit c ?k (approval_notification_disposition sent)
        (Some (rs_route_id resolution)) (fst (sent_outcome env sent)) (snd (sent_outcome env sent))) ?h2 = (r, h')"
      using assms(1) s Some by (cases "sent_outcome env sent") (simp add: publish_approval_def Let_def split del: if_split cong: if_cong)
    then show ?thesis by (rule final [OF _ inv cm same pend])
  qed
  then show "r = Inr ()" "gating_inv h'" "resolved h' = resolved h"
    "rt_gating_pending_order h' = rt_gating_pending_order h"
    "\<exists>e. bt_get (rt_gating_pending h') ?k = Some e \<and> same_request entry e"
    by blast+
qed

text \<open>The R3 branch: the request is committed under a fresh id with a bounded deadline.\<close>

lemma request_approval_ok:
  assumes "request_approval env rq c h = (r, h')" and "can_mint 3 h" and "gating_inv h"
    and "gate_ids h ''action'' (gc_action_id c)" and "gc_risk_tier c = R3"
    and "is_none_or (gc_origin c) valid_gating_origin"
  obtains i h1 resolution e where "mint_gating_id ''pending'' h = (Inr i, h1)"
    "r = Inr (gate_result c PendingApproval (Some i) None)" "gating_inv h'" "resolved h' = resolved h"
    "bt_get (rt_gating_pending h') i = Some e"
    "same_request (new_pending_entry rq c i (env_clock env (rt_tick h)) resolution) e"
    "rt_gating_pending_order h' = drop_oldest GATING_PENDING_MAX_RETAINED (rt_gating_pending_order h @ [i])"
    "i \<notin> set (rt_gating_pending_order h)" "\<not> gate_ids h ''pending'' i"
proof -
  obtain i h1 where m: "mint_gating_id ''pending'' h = (Inr i, h1)" and cm1: "can_mint 2 h1"
    using can_mint_mint [of 2 h "''pending''"] assms(2) by (auto simp: numeral_eq_Suc)
  note f = mint_fields [OF m]
  let ?t = "h1\<lparr>rt_tick := Suc (rt_tick h1)\<rparr>"
  obtain resolution err h2 where ro: "resolve_approval_route env (trimmed_some (ge_approval_recipient rq))
      (trimmed_some (ge_approval_channel rq)) ?t = (resolution, err, h2)"
    using prod_cases3 by blast
  have gv: "gate_view h2 = gate_view h1" using gate_view_route [OF ro] by simp
  note v = gate_viewD [OF gv]
  let ?e = "new_pending_entry rq c i (env_clock env (rt_tick h)) resolution"
  let ?u = "upsert_gating_pending_entry ?e h2"
  have id: "gp_pending_id ?e = i" by (simp add: new_pending_entry_def)
  note minted = gating_inv_mint [OF assms(3) m]
  have ids: "gate_ids h1 ''pending'' i" "\<not> gate_ids h ''pending'' i" using minted(2) [OF refl] by auto
  have act: "gate_ids h1 ''action'' (gc_action_id c)" using gate_id_ok_mono [OF assms(4) f(6)] f(5) by simp
  have "pending_ok h1 i ?e"
    using ids(1) act assms(5,6) by (simp add: pending_ok_def new_pending_entry_def)
  moreover have un: "unused h1 i" by (rule mint_unused [OF assms(3) m])
  ultimately have u: "gating_inv ?u" "bt_get (rt_gating_pending ?u) i = Some ?e"
    using gating_inv_upsert [of h2 ?e] minted(1) v(8-10) id by auto
  have fits: "audit_fits ?u (pending_created_audit c ?e err)"
    using ids(1) act by (simp add: audit_fits_def pending_created_audit_def gate_audit_def upsert_fields v id
        resolution_events_def)
  have cmu: "can_mint (Suc 1) ?u" using cm1 by (simp add: can_mint_def upsert_fields v)
  let ?a = "audited env (pending_created_audit c ?e err) ?u"
  note a = can_mint_append [OF cmu, of env "pending_created_audit c ?e err"]
  have inva: "gating_inv ?a" by (rule gating_inv_audited [OF u(1) fits])
  obtain p h3 where pub: "publish_approval env c ?e resolution err ?a = (p, h3)" by fastforce
  have seq: "rt_gating_sequence h1 \<le> rt_gating_sequence ?a"
    using audited_fields(5) [of ?u env] by (simp add: upsert_fields v)
  have idsa: "gate_ids ?a ''action'' (gc_action_id c)" "gate_ids ?a ''pending'' i"
    using gate_id_ok_mono [OF act seq] gate_id_ok_mono [OF ids(1) seq] by (simp_all add: audited_fields upsert_fields v)
  have "bt_get (rt_gating_pending ?a) i = Some ?e" using u(2) by (simp add: audited_fields)
  note p = publish_ok [OF pub a(2) inva idsa(1), unfolded id, OF idsa(2) this]
  have eq: "r = Inr (gate_result c PendingApproval (Some i) None)" "h' = h3"
    using assms(1) m ro a(1) pub p(1) f(7) by (auto simp: request_approval_def current_time_ms_def Let_def)
  obtain e where e: "bt_get (rt_gating_pending h') i = Some e" "same_request ?e e" using p(5) eq(2) by blast
  have new: "i \<notin> set (rt_gating_pending_order h)" using un f(2) by (simp add: unused_def)
  have "filter (\<lambda>c. c \<noteq> i) (rt_gating_pending_order h) = rt_gating_pending_order h"
    using new by (auto simp: filter_id_conv)
  then have order: "rt_gating_pending_order h' = drop_oldest GATING_PENDING_MAX_RETAINED (rt_gating_pending_order h @ [i])"
    unfolding eq(2) p(4) audited_fields upsert_fields id v f by simp
  have res: "resolved h' = resolved h" unfolding eq(2) p(3) audited_fields upsert_fields v f ..
  show thesis
    by (rule that [OF m eq(1) _ res e order new ids(2)]) (use p(2) eq(2) in simp)
qed

section \<open>Evaluation\<close>

text \<open>The cases of an evaluation after its action id was minted.\<close>

lemma evaluate_checked_cases:
  assumes "evaluate_checked env rq c h = (r, h')" and "can_mint 3 h" and "gating_inv h"
    and "gate_ids h ''action'' (gc_action_id c)"
  obtains (invalid) "r = Inr (gate_result c SafeDraft None (Some ''invalid_gating_origin''))" "h' = h"
      "\<not> is_none_or (gc_origin c) valid_gating_origin"
  | (blocked) reason a h1 where "gc_risk_tier c \<in> {R2, R3}" "conflict_block env c h = (Some (reason, a), h1)"
      "r = Inr (gate_result c SafeDraft None (Some reason))" "h' = audited env a h1" "gating_inv h'"
      "resolved h' = resolved h" "rt_gating_pending h' = rt_gating_pending h"
  | (allowed) outcome a h1 where "gc_risk_tier c \<noteq> R3" "r = Inr (gate_result c outcome None None)"
      "outcome = (if gc_risk_tier c = R2 then AllowedWithAudit else Allowed)"
      "gc_risk_tier c = R2 \<Longrightarrow> conflict_block env c h = (None, h1)"
      "h' = audited env a h1" "gating_inv h'" "resolved h' = resolved h" "rt_gating_pending h' = rt_gating_pending h"
  | (requested) h1 where "gc_risk_tier c = R3" "conflict_block env c h = (None, h1)"
      "request_approval env rq c h1 = (r, h')" "can_mint 3 h1" "gating_inv h1"
      "gate_ids h1 ''action'' (gc_action_id c)" "is_none_or (gc_origin c) valid_gating_origin"
proof -
  have settled: "r' = Inr res \<and> h'' = audited env a g \<and> gating_inv h'' \<and> resolved h'' = resolved h
      \<and> rt_gating_pending h'' = rt_gating_pending h"
    if "audited_result env a res g = (r', h'')" "gate_view g = gate_view h" "ga_action_id a = gc_action_id c"
      "ga_pending_id a = None" for r' h'' a res g
  proof -
    note v = gate_viewD [OF that(2)]
    have "can_mint (Suc 2) g" using assms(2) v(7) [of 3] by (simp add: numeral_eq_Suc)
    from audited_result_eq [OF this, of env a res] that(1)
    have eq: "r' = Inr res" "h'' = audited env a g" by simp_all
    have "audit_fits g a" using assms(4) that(3,4) by (simp add: audit_fits_def v)
    moreover have "gating_inv g" using assms(3) v(8) by simp
    ultimately show ?thesis using eq gating_inv_audited by (simp add: audited_fields v)
  qed
  show thesis
  proof (cases "is_none_or (gc_origin c) valid_gating_origin")
    case False
    then show ?thesis
      using assms(1) invalid by (auto simp: evaluate_checked_def is_none_or_iff is_some_and_iff)
  next
    case origin: True
    then have no: "\<not> is_some_and (gc_origin c) (\<lambda>origin. \<not> valid_gating_origin origin)"
      by (auto simp: is_none_or_iff is_some_and_iff)
    obtain block h1 where b: "conflict_block env c h = (block, h1)" by fastforce
    note gv = gate_view_conflict_block [OF b]
    show ?thesis
    proof (cases "gc_risk_tier c \<in> {R2, R3} \<and> block \<noteq> None")
      case True
      then obtain reason a where block: "block = Some (reason, a)" by auto
      have "audited_result env a (gate_result c SafeDraft None (Some reason)) h1 = (r, h')"
        using assms(1) no True b block by (auto simp: evaluate_checked_def)
      note s = settled [OF this gv] conflict_block_audit [OF b [unfolded block]]
      show ?thesis by (rule blocked [OF _ b [unfolded block]]) (use s True in auto)
    next
      case unblocked: False
      let ?g = "if gc_risk_tier c \<in> {R2, R3} then h1 else h"
      have tier: "evaluate_tier env rq c ?g = (r, h')"
        using assms(1) no unblocked b by (cases block) (auto simp: evaluate_checked_def)
      show ?thesis
      proof (cases "gc_risk_tier c = R3")
        case True
        then have "block = None" using unblocked by (cases block) auto
        note b' = b [unfolded this]
        note v = gate_viewD [OF gv]
        show ?thesis
          by (rule requested [OF True b'])
            (use tier True assms(2-4) v origin in \<open>simp_all add: evaluate_tier_def\<close>)
      next
        case False
        let ?outcome = "if gc_risk_tier c = R2 then AllowedWithAudit else Allowed"
        obtain policy where p: "audited_result env (gate_audit c ''evaluated'' None ?outcome
            [(''policy'', JString policy), origin_member c, (''rationale'', json_opt_str (ge_rationale rq)),
             (''action'', JString (gc_action c))]) (gate_result c ?outcome None None) ?g = (r, h')"
          using tier False by (cases "gc_risk_tier c") (auto simp: evaluate_tier_def)
        have "gate_view ?g = gate_view h" using gv by simp
        note s = settled [OF p this]
        have none: "gc_risk_tier c = R2 \<Longrightarrow> block = None" using unblocked by (cases block) auto
        have fits: "ga_action_id (gate_audit c t None ou d) = gc_action_id c" "ga_pending_id (gate_audit c t None ou d) = None"
          for t ou d by (simp_all add: gate_audit_def)
        show ?thesis
          by (rule allowed [OF False, of ?outcome ?g]) (use s [OF fits] b none in auto)
      qed
    qed
  qed
qed

text \<open>Refused for want of ids before anything but timeouts, or run to the end with a result.\<close>

lemma evaluate_minting_cases:
  assumes "evaluate_gating_action_minting env rq origin h = (r, h')"
  obtains (refused) e where "r = Inl e" "h' = refresh_gating_timeouts env h"
      "\<not> can_mint 4 (refresh_gating_timeouts env h)"
  | (minted) i h1 where "can_mint 4 (refresh_gating_timeouts env h)"
      "mint_gating_id ''action'' (refresh_gating_timeouts env h) = (Inr i, h1)" "can_mint 3 h1"
      "evaluate_checked env rq (gate_call rq origin i) h1 = (r, h')"
proof (cases "can_mint 4 (refresh_gating_timeouts env h)")
  case False
  then have "gating_ids_available GATING_IDS_PER_EVALUATION (refresh_gating_timeouts env h) \<noteq> Inr ()"
    by (simp add: can_mint_available GATING_IDS_PER_EVALUATION_def)
  then have "\<exists>e. r = Inl e \<and> h' = refresh_gating_timeouts env h"
    using assms by (auto simp: evaluate_gating_action_minting_def Let_def split: sum.splits)
  then show ?thesis using refused False by blast
next
  case True
  then obtain i h1 where m: "mint_gating_id ''action'' (refresh_gating_timeouts env h) = (Inr i, h1)" "can_mint 3 h1"
    using can_mint_mint [of 3 "refresh_gating_timeouts env h" "''action''"] by (auto simp: numeral_eq_Suc)
  have "gating_ids_available GATING_IDS_PER_EVALUATION (refresh_gating_timeouts env h) = Inr ()"
    using True by (simp add: can_mint_available GATING_IDS_PER_EVALUATION_def)
  then show ?thesis
    using assms minted [OF True m] m(1) by (simp add: evaluate_gating_action_minting_def Let_def)
qed

lemma gate_call_fields [simp]:
  "gc_action_id (gate_call rq origin i) = i" "gc_risk_tier (gate_call rq origin i) = ge_risk_tier rq"
  "gc_origin (gate_call rq origin i) = map_option clean_origin origin"
  "gc_actor_id (gate_call rq origin i) = trim (ge_actor_id rq)" "gc_action (gate_call rq origin i) = trim (ge_action rq)"
  by (simp_all add: gate_call_def)

lemma gate_result_fields [simp]:
  "gr_action_id (gate_result c ou p re) = gc_action_id c" "gr_outcome (gate_result c ou p re) = ou"
  "gr_pending_id (gate_result c ou p re) = p" "gr_risk_tier (gate_result c ou p re) = gc_risk_tier c"
  "gr_fallback_reason (gate_result c ou p re) = re"
  by (simp_all add: gate_result_def)

lemma gating_inv_evaluate_minting:
  assumes "evaluate_gating_action_minting env rq origin h = (r, h')" and "gating_inv h"
  shows "gating_inv h'"
  using assms(1)
proof (cases rule: evaluate_minting_cases)
  case (refused e)
  then show ?thesis using gating_inv_refresh [OF assms(2)] by simp
next
  case (minted i h1)
  note m = gating_inv_mint [OF gating_inv_refresh [OF assms(2)] minted(2)]
  have "gate_ids h1 ''action'' (gc_action_id (gate_call rq origin i))" using m(2) [OF refl] by simp
  from minted(4,3) m(1) this show ?thesis
  proof (cases rule: evaluate_checked_cases)
    case (requested g)
    from requested(3-6,1,7) show ?thesis by (rule request_approval_ok)
  qed (use m(1) in auto)
qed

lemma gating_inv_evaluate:
  "evaluate_gating_action_with_origin env rq origin h = (r, h') \<Longrightarrow> gating_inv h \<Longrightarrow> gating_inv h'"
  by (auto simp: evaluate_gating_action_with_origin_def Let_def split: prod.splits
      dest: gating_inv_evaluate_minting)

section \<open>The gate above its services\<close>

text \<open>
  What a call of the gate does to the rest of the runtime: changes of the gate's own fields and
  of the tick, route resolutions and deliveries, in some order.
\<close>

inductive gate_moves :: "Env \<Rightarrow> MetaRuntimeHandle \<Rightarrow> MetaRuntimeHandle \<Rightarrow> bool" for env where
  moves_frame: "gating_frame h h' \<Longrightarrow> gate_moves env h h'"
| moves_resolve: "resolve_routing env rq h = (r, h') \<Longrightarrow> gate_moves env h h'"
| moves_send: "send_delivery env sq h = (s, h') \<Longrightarrow> gate_moves env h h'"
| moves_trans: "gate_moves env h h1 \<Longrightarrow> gate_moves env h1 h' \<Longrightarrow> gate_moves env h h'"

lemmas moves_then_frame = moves_trans [OF _ moves_frame] and frame_then_moves = moves_trans [OF moves_frame]

lemma moves_audited: "gate_moves env h (audited env a h)"
  by (rule moves_frame [OF frame_append [OF audited_eq]])

lemma moves_audited_result: "audited_result env a x h = (r, h') \<Longrightarrow> gate_moves env h h'"
  by (auto simp: audited_result_def split: prod.splits sum.splits intro: moves_frame frame_append)

lemma moves_route: "resolve_approval_route env rc ch h = (res, err, h') \<Longrightarrow> gate_moves env h h'"
  by (auto simp: resolve_approval_route_def split: option.splits if_splits prod.splits sum.splits
      intro: moves_resolve moves_frame gating_frame_refl)

lemma moves_publish:
  assumes "publish_approval env c entry res err h = (r, h')"
  shows "gate_moves env h h'"
proof (cases res)
  case None
  then show ?thesis
    using assms by (auto simp: publish_approval_def split: option.splits
        intro: moves_frame gating_frame_refl frame_append)
next
  case (Some resolution)
  obtain sent h1 where s: "send_delivery env (approval_send_request c entry resolution) h = (sent, h1)" by fastforce
  obtain h2 a where h2: "h2 = h1 \<or> (\<exists>d. h2 = note_delivery c (gp_pending_id entry) d h1)"
    "append_gating_audit env a h2 = (r, h')"
    using assms s Some by (auto simp: publish_approval_def Let_def case_prod_beta split: if_splits)
  have "gating_frame h1 h2" using h2(1) frame_note_delivery gating_frame_refl by auto
  then show ?thesis
    using moves_send [OF s] moves_then_frame frame_append [OF h2(2)] by blast
qed

lemma moves_request:
  assumes "request_approval env rq c h = (r, h')"
  shows "gate_moves env h h'"
proof -
  obtain m h1 where m: "mint_gating_id ''pending'' h = (m, h1)" by fastforce
  note fm = frame_mint [OF m]
  show ?thesis
  proof (cases m)
    case (Inl e)
    then show ?thesis using assms m moves_frame [OF fm] by (simp add: request_approval_def)
  next
    case (Inr i)
    let ?t = "h1\<lparr>rt_tick := Suc (rt_tick h1)\<rparr>"
    obtain resolution err h2 where ro: "resolve_approval_route env (trimmed_some (ge_approval_recipient rq))
        (trimmed_some (ge_approval_channel rq)) ?t = (resolution, err, h2)"
      using prod_cases3 by blast
    let ?e = "new_pending_entry rq c i (env_clock env (rt_tick h1)) resolution"
    let ?u = "upsert_gating_pending_entry ?e h2"
    obtain b h3 where a: "append_gating_audit env (pending_created_audit c ?e err) ?u = (b, h3)" by fastforce
    have "gate_moves env h ?t" by (rule moves_frame [OF gating_frame_trans [OF fm frame_tick]])
    then have to3: "gate_moves env h h3"
      using moves_trans [OF _ moves_trans [OF moves_route [OF ro]
        moves_frame [OF gating_frame_trans [OF frame_upsert frame_append [OF a]]]]] by blast
    show ?thesis
    proof (cases b)
      case (Inl e)
      then show ?thesis using assms m Inr ro a to3 by (simp add: request_approval_def current_time_ms_def Let_def)
    next
      case b: (Inr x)
      obtain p h4 where p: "publish_approval env c ?e resolution err h3 = (p, h4)" by fastforce
      have "h' = h4"
        using assms m Inr ro a b p
        by (auto simp: request_approval_def current_time_ms_def Let_def split: sum.splits)
      then show ?thesis using moves_trans [OF to3 moves_publish [OF p]] by simp
    qed
  qed
qed

lemma moves_tier: "evaluate_tier env rq c h = (r, h') \<Longrightarrow> gate_moves env h h'"
  by (auto simp: evaluate_tier_def Let_def split: GatingRiskTier.splits intro: moves_audited_result moves_request)

lemma moves_evaluate_checked:
  assumes "evaluate_checked env rq c h = (r, h')"
  shows "gate_moves env h h'"
proof -
  obtain b h1 where b: "conflict_block env c h = (b, h1)" by fastforce
  have "gate_moves env h h1" by (rule moves_frame [OF frame_conflict_block [OF b]])
  then show ?thesis
    using assms b moves_frame [OF gating_frame_refl] moves_trans moves_tier moves_audited_result
    by (auto simp: evaluate_checked_def split: if_splits option.splits)
qed

lemma moves_evaluate:
  assumes "evaluate_gating_action_with_origin env rq origin h = (r, h')"
  shows "gate_moves env h h'"
proof -
  obtain x h2 where e: "evaluate_gating_action_minting env rq origin h = (x, h2)" by fastforce
  have "gate_moves env h h2"
    using e
  proof (cases rule: evaluate_minting_cases)
    case (refused err)
    then show ?thesis using moves_frame [OF frame_refresh] by simp
  next
    case (minted i h1)
    show ?thesis
      by (rule frame_then_moves [OF gating_frame_trans [OF frame_refresh frame_mint [OF minted(2)]]
        moves_evaluate_checked [OF minted(4)]])
  qed
  moreover have "h' = flush_gating_notices h2"
    using assms e by (simp add: evaluate_gating_action_with_origin_def)
  ultimately show ?thesis using moves_then_frame [OF _ frame_flush] by blast
qed

text \<open>A property of the services that resolutions, deliveries and gate changes keep.\<close>

locale gate_host =
  fixes env :: Env and I :: "MetaRuntimeHandle \<Rightarrow> bool"
  assumes host_frame: "gating_frame h h' \<Longrightarrow> I h \<Longrightarrow> I h'"
    and host_resolve: "resolve_routing env rq h = (r, h') \<Longrightarrow> I h \<Longrightarrow> I h'"
    and host_send: "send_delivery env sq h = (s, h') \<Longrightarrow> I h \<Longrightarrow> I h'"
begin

lemma host_moves: "gate_moves env h h' \<Longrightarrow> I h \<Longrightarrow> I h'"
  by (induction rule: gate_moves.induct) (blast intro: host_frame host_resolve host_send)+

lemma host_evaluate: "evaluate_gating_action_with_origin env rq origin h = (r, h') \<Longrightarrow> I h \<Longrightarrow> I h'"
  by (rule host_moves [OF moves_evaluate])

end

end
