(* ===== verification/Gating_Properties.thy ===== *)
theory Gating_Properties
  imports Gating_Evaluation
begin

text \<open>
  The guarantees of the approval gate as its callers see them: who can decide what and when,
  what a refusal leaves behind, what an evaluation grants per risk tier, where an escalation
  goes, and that timeouts settle every expired request.
\<close>

section \<open>A concrete gate\<close>

definition demo_epoch :: string where
  "demo_epoch = ''0123456789abcdef0123456789abcdef''"

definition demo_gate :: MetaRuntimeHandle where
  "demo_gate = demo_handle\<lparr>rt_gating_epoch := Some demo_epoch,
     rt_gating_escalation_routes := \<lparr>er_default = None, er_routes = [(''lead'', ''director'')]\<rparr>\<rparr>"

definition demo_action :: GatingEvaluateRequest where
  "demo_action = \<lparr>ge_action = '' wipe disk '', ge_actor_id = ''agent'', ge_risk_tier = R3,
     ge_rationale = None, ge_requested_approver = Some '' lead '', ge_approval_recipient = None,
     ge_approval_channel = None, ge_approval_timeout_ms = Some 5, ge_entity = None, ge_topic = None\<rparr>"

definition demo_waiting :: MetaRuntimeHandle where
  "demo_waiting = snd (evaluate_gating_action demo_env demo_action demo_gate)"

definition demo_decision :: "GatingDecision \<Rightarrow> GatingDecideRequest" where
  "demo_decision d = \<lparr>gd_pending_id = gate_id ''pending'' demo_epoch 1, gd_approver_id = ''lead'',
     gd_decision = d, gd_reason = None\<rparr>"

definition demo_decider :: GatingDecider where
  "demo_decider = \<lparr>de_principal = ''alice'', de_held_approver_ids = {''lead''}\<rparr>"

lemma demo_gate_inv: "gating_inv demo_gate"
proof -
  have "valid_gating_epoch demo_epoch" by code_simp
  then show ?thesis
    by (simp add: gating_inv_def demo_gate_def demo_handle_def sample_handle_def resolved_def bt.indexed_def fun_eq_iff)
qed

lemma demo_waiting_inv: "gating_inv demo_waiting"
  unfolding demo_waiting_def evaluate_gating_action_def
  by (rule gating_inv_evaluate [OF prod.collapse [symmetric] demo_gate_inv])

section \<open>Timeouts\<close>

definition timeout_of :: "GatingResolutionNotice \<Rightarrow> bool" where
  "timeout_of n \<longleftrightarrow> \<not> gn_approved n \<and> gn_cause n = ''timeout_fallback''"

text \<open>The notices a refresh adds are timeouts, one per request it settles.\<close>

lemma ball_append_image:
  "\<forall>n \<in> set xs. P n \<and> f n = x \<Longrightarrow> \<forall>n \<in> set ys. P n \<and> f n \<in> set zs \<Longrightarrow> \<forall>n \<in> set (xs @ ys). P n \<and> f n \<in> set (x # zs)"
  by auto

lemma settle_expired_notices:
  "\<exists>ns. resolved (settle_expired env ids h) = resolved h @ ns
     \<and> (\<forall>n \<in> set ns. timeout_of n \<and> gn_pending_id n \<in> set ids)
     \<and> (\<forall>k. bt_get (rt_gating_pending h) k \<noteq> None \<and> bt_get (rt_gating_pending (settle_expired env ids h)) k = None
          \<longrightarrow> k \<in> gn_pending_id ` set ns)"
proof (induction env ids h rule: settle_expired.induct)
  case (1 env h)
  then show ?case by (simp del: not_None_eq)
next
  case (2 env x rest h)
  obtain m h1 where m: "mint_gating_id ''audit'' h = (m, h1)" by fastforce
  note f = mint_fields [OF m]
  show ?case
  proof (cases m)
    case (Inl err)
    then show ?thesis using m f(1,4) by (intro exI [of _ "[]"]) (simp del: not_None_eq)
  next
    case (Inr i)
    let ?h2 = "settle_timeout env i x h1"
    let ?new = "case bt_get (rt_gating_pending h) x of None \<Rightarrow> [] | Some e \<Rightarrow> [timeout_notice x e]"
    have step: "settle_expired env (x # rest) h = settle_expired env rest ?h2" using m Inr by simp
    have res: "resolved ?h2 = resolved h @ ?new"
      using f(1,4) by (auto simp: settle_timeout_eq announce_def resolved_def record_gating_audit_eq remove_pending_def
          split: option.split)
    have pend: "bt_get (rt_gating_pending ?h2) = (bt_get (rt_gating_pending h))(x := None)"
      unfolding settle_timeout_pending f(1) ..
    obtain ns where ns: "resolved (settle_expired env rest ?h2) = resolved ?h2 @ ns"
      "\<forall>n \<in> set ns. timeout_of n \<and> gn_pending_id n \<in> set rest"
      "\<forall>k. bt_get (rt_gating_pending ?h2) k \<noteq> None \<and> bt_get (rt_gating_pending (settle_expired env rest ?h2)) k = None
          \<longrightarrow> k \<in> gn_pending_id ` set ns"
      using "2.IH" [OF m [symmetric] Inr] by blast
    have new: "\<forall>n \<in> set ?new. timeout_of n \<and> gn_pending_id n = x"
      "bt_get (rt_gating_pending h) x \<noteq> None \<Longrightarrow> x \<in> gn_pending_id ` set ?new"
      by (auto simp: timeout_notice_def timeout_of_def split: option.split)
    have all: "\<forall>n \<in> set (?new @ ns). timeout_of n \<and> gn_pending_id n \<in> set (x # rest)"
      by (rule ball_append_image [OF new(1) ns(2)])
    have hit: "k \<in> gn_pending_id ` set (?new @ ns)"
      if "bt_get (rt_gating_pending h) k \<noteq> None" "bt_get (rt_gating_pending (settle_expired env rest ?h2)) k = None" for k
      using that new(2) ns(3) [rule_format, of k] unfolding pend set_append image_Un by (cases "k = x") simp_all
    show ?thesis
      unfolding step ns(1) res append_assoc by (intro exI [of _ "?new @ ns"] conjI refl all allI impI; elim conjE; rule hit)
  qed
qed

lemma refresh_notices:
  "\<exists>ns. resolved (refresh_gating_timeouts_at env now h) = resolved h @ ns
     \<and> (\<forall>n \<in> set ns. timeout_of n)
     \<and> (\<forall>k. bt_get (rt_gating_pending h) k \<noteq> None
          \<and> bt_get (rt_gating_pending (refresh_gating_timeouts_at env now h)) k = None
          \<longrightarrow> k \<in> gn_pending_id ` set ns)"
  using settle_expired_notices [of env "expired_ids now h" h] unfolding refresh_gating_timeouts_at_def by blast

section \<open>Decisions\<close>

text \<open>What the checks of a decision establish about its entry.\<close>

definition entitled :: "GatingDecideRequest \<Rightarrow> GatingDecider option \<Rightarrow> GatingPendingEntry \<Rightarrow> bool" where
  "entitled rq d entry \<longleftrightarrow>
     (case d of
        None \<Rightarrow> is_none_or (gp_requested_approver entry) (\<lambda>a. a = trim (gd_approver_id rq))
          \<and> (gd_decision rq = Approve \<longrightarrow> gp_actor_id entry \<noteq> trim (gd_approver_id rq))
      | Some decider \<Rightarrow> trim (de_principal decider) \<noteq> []
          \<and> is_none_or (gp_requested_approver entry) (\<lambda>a. a = de_principal decider \<or> a \<in> de_held_approver_ids decider)
          \<and> (gd_decision rq = Approve \<longrightarrow> gp_actor_id entry \<noteq> de_principal decider
               \<and> gp_actor_id entry \<notin> de_held_approver_ids decider))"

lemma check_decision_ok:
  assumes "check_decision rq d entry h = Inr successor" and "is_none_or d (\<lambda>d. trim (de_principal d) \<noteq> [])"
  shows "entitled rq d entry"
  using assms
  by (auto simp: check_decision_def entitled_def actor_is_decider_def approver_of_def is_none_or_iff opt_filter_def Let_def
      split: if_splits option.splits)

lemma check_decision_successor:
  assumes "check_decision rq d entry h = Inr successor" and "gd_decision rq = Escalate"
  shows "successor_for (rt_gating_escalation_routes h) (gp_requested_approver entry) = successor \<and> successor \<noteq> None"
proof -
  have "\<exists>x. successor = Some x \<and> successor_for (rt_gating_escalation_routes h) (gp_requested_approver entry) = Some x"
    using assms by (auto simp: check_decision_def Let_def split: if_splits option.splits) metis
  then show ?thesis by auto
qed

text \<open>The gate a decision looks at holds live entries only, all of them entries it held before.\<close>

lemma base_pending: "bt_get (rt_gating_pending (decision_base env h)) k = Some e \<Longrightarrow> bt_get (rt_gating_pending h) k = Some e"
  unfolding decision_base_def by (drule refresh_pending) simp

lemma base_live:
  assumes "bt_get (rt_gating_pending (decision_base env h)) k = Some e" and "can_mint 3 (decision_base env h)"
  shows "decision_now env h < gp_deadline_at_ms e"
  using assms unfolding decision_base_def
  by (intro refresh_live [where n = 3]) (simp_all add: can_mint_available)

lemma commit_facts:
  assumes "commit_decision env rq d entry k successor now h = (r, h')" and "can_mint 3 h"
  shows "\<exists>nx. r = Inr (decision_result rq d entry k nx now) \<and> resolved h' = resolved h @ [decision_notice rq entry k nx]
      \<and> (nx = None \<longleftrightarrow> gd_decision rq \<noteq> Escalate)"
proof -
  have rem: "resolved (remove_pending k h) = resolved h" by (simp add: remove_pending_def resolved_def)
  have ann: "resolved (announce n g) = resolved g @ [n]" for n g by (simp add: announce_def resolved_def)
  from assms show ?thesis
  proof (cases rule: commit_decision_cases)
    case final
    then show ?thesis using rem by (simp add: ann audited_fields)
  next
    case (escalate i h1)
    then show ?thesis
      using mint_fields(4) [OF escalate(3)] rem
      by (intro exI [of _ "Some i"]) (simp add: ann audited_fields escalated_def upsert_fields)
  qed
qed

lemma resolved_not_pending:
  "gating_inv h \<Longrightarrow> k \<in> set (resolved_ids h) \<Longrightarrow> bt_get (rt_gating_pending h) k = None"
  using gating_inv_pending [of h k] unfolding gating_inv_def by (metis not_None_eq)

text \<open>
  C6. A decision that succeeds was made on a request that was pending and whose deadline had
  not passed, by a decider entitled to it: the requested approver (or a principal that holds
  that approver id), and for an approval never the actor who asked. The request leaves the
  pending set, exactly one resolution notice is added, it says approved only for an approval,
  and only an approval reports the action as allowed.
\<close>

theorem decide_gating_action_entitled:
  assumes "gating_inv h" and "decide_gating_action_as env rq d h = (Inr res, h')"
  shows "\<exists>entry notice. bt_get (rt_gating_pending h) (trim (gd_pending_id rq)) = Some entry
      \<and> decision_now env h < gp_deadline_at_ms entry \<and> entitled rq d entry
      \<and> bt_get (rt_gating_pending h') (trim (gd_pending_id rq)) = None
      \<and> resolved h' = resolved (decision_base env h) @ [notice]
      \<and> gn_pending_id notice = trim (gd_pending_id rq) \<and> gn_action_id notice = gp_action_id entry
      \<and> gn_approved notice = (gd_decision rq = Approve)
      \<and> (gx_outcome res = Allowed \<longleftrightarrow> gd_decision rq = Approve)
      \<and> gx_action_id res = gp_action_id entry"
  using assms(2)
proof (cases rule: decide_cases)
  case (refused e)
  then show ?thesis by simp
next
  case (committed entry successor)
  note live = base_live [OF committed(3,1)] and was = base_pending [OF committed(3)]
  have inv': "gating_inv h'" by (rule gating_inv_decide [OF assms(2,1)])
  from commit_facts [OF committed(5,1)] obtain nx where nx: "res = decision_result rq d entry (trim (gd_pending_id rq)) nx (decision_now env h)"
    "resolved h' = resolved (decision_base env h) @ [decision_notice rq entry (trim (gd_pending_id rq)) nx]"
    by auto
  have gone: "bt_get (rt_gating_pending h') (trim (gd_pending_id rq)) = None"
    by (rule resolved_not_pending [OF inv']) (simp add: nx(2) decision_notice_def)
  have "fst (decision_outcome (gd_decision rq)) = Allowed \<longleftrightarrow> gd_decision rq = Approve"
    by (cases "gd_decision rq") simp_all
  then show ?thesis
    using was live check_decision_ok [OF committed(4,2)] gone nx
    by (intro exI [of _ entry] exI [of _ "decision_notice rq entry (trim (gd_pending_id rq)) nx"])
      (simp add: decision_result_def decision_notice_def)
qed

lemma demo_approved: "is_ok (fst (decide_gating_action_as demo_env (demo_decision Approve) (Some demo_decider) demo_waiting))"
  unfolding demo_waiting_def by code_simp

theorem decide_gating_action_entitled_witness:
  "gating_inv demo_waiting
   \<and> (\<exists>entry. bt_get (rt_gating_pending demo_waiting) (gate_id ''pending'' demo_epoch 1) = Some entry
        \<and> entitled (demo_decision Approve) (Some demo_decider) entry)"
proof -
  obtain res h' where "decide_gating_action_as demo_env (demo_decision Approve) (Some demo_decider) demo_waiting = (Inr res, h')"
    using demo_approved by (metis is_ok_iff prod.collapse)
  from decide_gating_action_entitled [OF demo_waiting_inv this] demo_waiting_inv
  have "\<exists>entry. bt_get (rt_gating_pending demo_waiting) (trim (gd_pending_id (demo_decision Approve))) = Some entry
      \<and> entitled (demo_decision Approve) (Some demo_decider) entry" by blast
  moreover have "trim (gd_pending_id (demo_decision Approve)) = gate_id ''pending'' demo_epoch 1" by code_simp
  ultimately show ?thesis using demo_waiting_inv by simp
qed

text \<open>
  A refused decision changes nothing but the timeouts that were due: the gate is the
  refreshed gate, every request whose deadline lies ahead is still pending unchanged, nothing
  is announced as approved, and the escalation routes stay.
\<close>

theorem decide_gating_action_refused:
  assumes "gating_inv h" and "decide_gating_action_as env rq d h = (Inl e, h')"
  shows "h' = decision_base env h \<and> gating_inv h'
    \<and> (\<forall>k entry. bt_get (rt_gating_pending h) k = Some entry \<and> decision_now env h < gp_deadline_at_ms entry
         \<longrightarrow> bt_get (rt_gating_pending h') k = Some entry)
    \<and> (\<forall>n \<in> set (resolved h'). n \<in> set (resolved h) \<or> \<not> gn_approved n)"
proof -
  have h': "h' = decision_base env h"
    using assms(2)
  proof (cases rule: decide_cases)
    case (committed entry successor)
    then show ?thesis using commit_facts [OF committed(5,1)] by simp
  qed
  have bt: "bt_inv (rt_gating_pending h)" using assms(1) by (simp add: gating_inv_def bt.indexed_def)
  have keeps: "bt_get (rt_gating_pending (decision_base env h)) k = Some entry"
    if "bt_get (rt_gating_pending h) k = Some entry" "decision_now env h < gp_deadline_at_ms entry" for k entry
    unfolding decision_base_def by (rule refresh_keeps_live) (use that bt in simp_all)
  obtain ns where "resolved (decision_base env h) = resolved (h\<lparr>rt_tick := Suc (rt_tick h)\<rparr>) @ ns"
    "\<forall>n \<in> set ns. \<not> gn_approved n"
    using refresh_notices [of env "decision_now env h" "h\<lparr>rt_tick := Suc (rt_tick h)\<rparr>"]
    unfolding decision_base_def timeout_of_def by blast
  then have "\<forall>n \<in> set (resolved (decision_base env h)). n \<in> set (resolved h) \<or> \<not> gn_approved n"
    by (auto simp: resolved_def [of "h\<lparr>rt_tick := _\<rparr>"] resolved_def [of h])
  then show ?thesis using h' keeps gating_inv_base [OF assms(1)] by blast
qed

lemma not_ok: "is_ok r = False \<Longrightarrow> \<exists>e. r = Inl e"
  by (cases r) (auto simp: is_ok_iff)

definition demo_self :: GatingDecideRequest where
  "demo_self = (demo_decision Approve)\<lparr>gd_approver_id := ''agent''\<rparr>"

lemma demo_self_refused:
  "is_ok (fst (decide_gating_action_as demo_env demo_self None demo_waiting)) = False"
  unfolding demo_waiting_def by code_simp

lemma demo_waiting_entry:
  "map_option (\<lambda>e. (gp_deadline_at_ms e, gp_requested_approver e, gp_action e))
     (bt_get (rt_gating_pending demo_waiting) (gate_id ''pending'' demo_epoch 1))
   = Some (121000, Some ''lead'', ''wipe disk'')"
  unfolding demo_waiting_def by code_simp

theorem decide_gating_action_refused_witness:
  "let h' = snd (decide_gating_action_as demo_env demo_self None demo_waiting);
       k = gate_id ''pending'' demo_epoch 1 in
   gating_inv demo_waiting \<and> bt_get (rt_gating_pending h') k = bt_get (rt_gating_pending demo_waiting) k
   \<and> bt_get (rt_gating_pending h') k \<noteq> None"
proof -
  obtain e h' where d: "decide_gating_action_as demo_env demo_self None demo_waiting = (Inl e, h')"
    using not_ok [OF demo_self_refused] by (metis prod.collapse)
  obtain entry where en: "bt_get (rt_gating_pending demo_waiting) (gate_id ''pending'' demo_epoch 1) = Some entry"
    "gp_deadline_at_ms entry = 121000"
    using demo_waiting_entry by auto
  have "decision_now demo_env demo_waiting < gp_deadline_at_ms entry"
    using en(2) by (simp add: decision_now_def demo_env_def)
  then have "bt_get (rt_gating_pending h') (gate_id ''pending'' demo_epoch 1) = Some entry"
    using decide_gating_action_refused [OF demo_waiting_inv d] en(1) by blast
  then show ?thesis using en(1) demo_waiting_inv by (simp add: d)
qed

lemma refresh_base: "refresh_gating_timeouts env h = decision_base env h"
  by (simp add: refresh_gating_timeouts_def decision_base_def decision_now_def current_time_ms_def)

lemma flush_fields:
  "rt_gating_delivered (flush_gating_notices h) = resolved h" "rt_gating_pending (flush_gating_notices h) = rt_gating_pending h"
  "rt_gating_pending_order (flush_gating_notices h) = rt_gating_pending_order h" "resolved (flush_gating_notices h) = resolved h"
  "rt_gating_epoch (flush_gating_notices h) = rt_gating_epoch h" "rt_gating_sequence (flush_gating_notices h) = rt_gating_sequence h"
  "rt_gating_audit (flush_gating_notices h) = rt_gating_audit h" "rt_gating_notice_queue (flush_gating_notices h) = []"
  by (simp_all add: flush_gating_notices_def take_gating_notices_def deliver_notices_def resolved_def)

lemma in_set_map_filter: "y \<in> set (List.map_filter f xs) \<longleftrightarrow> (\<exists>x \<in> set xs. f x = Some y)"
  by (induction xs) (auto simp: List.map_filter_simps split: option.splits)

lemma set_pending_in_order:
  assumes "gating_inv h"
  shows "e \<in> set (pending_in_order h) \<longleftrightarrow> bt_get (rt_gating_pending h) (gp_pending_id e) = Some e"
proof -
  have "e \<in> set (pending_in_order h) \<longleftrightarrow> (\<exists>k \<in> set (rt_gating_pending_order h). bt_get (rt_gating_pending h) k = Some e)"
    unfolding pending_in_order_def by (rule in_set_map_filter)
  then show ?thesis using gating_inv_pending [OF assms] unfolding pending_ok_def by metis
qed

text \<open>
  C36. Timeouts settle: while the gate can mint ids, listing the pending requests returns only
  requests whose deadline lies ahead; every request that vanished was announced with a timeout
  notice that does not approve, and every request whose deadline lies ahead is still there.
\<close>

theorem list_gating_pending_live:
  assumes "gating_inv h" and "list_gating_pending env h = (entries, h')" and "can_mint 1 h'"
  shows "(\<forall>e \<in> set entries. env_clock env (rt_tick h) < gp_deadline_at_ms e
      \<and> bt_get (rt_gating_pending h) (gp_pending_id e) = Some e)
    \<and> (\<forall>k e. bt_get (rt_gating_pending h) k = Some e \<longrightarrow>
         (if env_clock env (rt_tick h) < gp_deadline_at_ms e then e \<in> set entries
          else \<exists>n \<in> set (rt_gating_delivered h'). gn_pending_id n = k \<and> \<not> gn_approved n
                 \<and> gn_cause n = ''timeout_fallback''))"
proof -
  let ?b = "decision_base env h" and ?now = "env_clock env (rt_tick h)"
  have h': "h' = flush_gating_notices ?b" "entries = pending_in_order h'"
    using assms(2) by (auto simp: list_gating_pending_def refresh_base Let_def)
  have inv: "gating_inv ?b" by (rule gating_inv_base [OF assms(1)])
  then have ent: "e \<in> set entries \<longleftrightarrow> bt_get (rt_gating_pending ?b) (gp_pending_id e) = Some e" for e
    using set_pending_in_order [of h' e] by (simp add: h' flush_fields)
  have avail: "gating_ids_available 1 (refresh_gating_timeouts_at env ?now (h\<lparr>rt_tick := Suc (rt_tick h)\<rparr>)) = Inr ()"
    using assms(3) by (simp add: can_mint_available can_mint_def h' flush_fields decision_base_def decision_now_def)
  have live: "?now < gp_deadline_at_ms e" if "bt_get (rt_gating_pending ?b) k = Some e" for k e
    by (rule refresh_live [OF _ avail]) (use that in \<open>simp_all add: decision_base_def decision_now_def\<close>)
  have bt: "bt_inv (rt_gating_pending h)" using assms(1) by (simp add: gating_inv_def bt.indexed_def)
  have key: "gp_pending_id e = k" if "bt_get (rt_gating_pending h) k = Some e" for k e
    using gating_inv_pending [OF assms(1) that] by (simp add: pending_ok_def)
  obtain ns where ns: "resolved ?b = resolved (h\<lparr>rt_tick := Suc (rt_tick h)\<rparr>) @ ns" "\<forall>n \<in> set ns. timeout_of n"
    "\<forall>k. bt_get (rt_gating_pending (h\<lparr>rt_tick := Suc (rt_tick h)\<rparr>)) k \<noteq> None \<and> bt_get (rt_gating_pending ?b) k = None
       \<longrightarrow> k \<in> gn_pending_id ` set ns"
    using refresh_notices [of env ?now "h\<lparr>rt_tick := Suc (rt_tick h)\<rparr>"] unfolding decision_base_def decision_now_def by blast
  have gone: "\<exists>n \<in> set (rt_gating_delivered h'). gn_pending_id n = k \<and> timeout_of n"
    if "bt_get (rt_gating_pending h) k = Some e" "\<not> ?now < gp_deadline_at_ms e" for k e
  proof -
    have "bt_get (rt_gating_pending ?b) k = None"
      using live that base_pending by (metis not_None_eq option.inject)
    then have "k \<in> gn_pending_id ` set ns" using ns(3) that(1) by simp
    then show ?thesis using ns(2) unfolding h'(1) flush_fields ns(1) by auto
  qed
  have kept: "e \<in> set entries" if "bt_get (rt_gating_pending h) k = Some e" "?now < gp_deadline_at_ms e" for k e
    using refresh_keeps_live [of "h\<lparr>rt_tick := Suc (rt_tick h)\<rparr>" k e ?now env] that bt key [OF that(1)]
    by (simp add: ent decision_base_def decision_now_def)
  show ?thesis
  proof (intro conjI ballI allI impI)
    fix e assume "e \<in> set entries"
    then show "?now < gp_deadline_at_ms e" "bt_get (rt_gating_pending h) (gp_pending_id e) = Some e"
      using live base_pending unfolding ent by blast+
  next
    fix k e assume "bt_get (rt_gating_pending h) k = Some e"
    then show "if ?now < gp_deadline_at_ms e then e \<in> set entries
      else \<exists>n \<in> set (rt_gating_delivered h'). gn_pending_id n = k \<and> \<not> gn_approved n \<and> gn_cause n = ''timeout_fallback''"
      using gone [of k e] kept [of k e] unfolding timeout_of_def by simp
  qed
qed

theorem list_gating_pending_live_witness:
  "let late = demo_env\<lparr>env_clock := (\<lambda>_. 500000)\<rparr>; result = list_gating_pending late demo_waiting in
   gating_inv demo_waiting \<and> can_mint 1 (snd result)
   \<and> (\<exists>n \<in> set (rt_gating_delivered (snd result)). gn_pending_id n = gate_id ''pending'' demo_epoch 1
        \<and> \<not> gn_approved n)"
proof -
  let ?late = "demo_env\<lparr>env_clock := (\<lambda>_. 500000)\<rparr>"
  obtain entries h' where l: "list_gating_pending ?late demo_waiting = (entries, h')" by fastforce
  have "rt_gating_sequence (snd (list_gating_pending ?late demo_waiting)) = 4"
    "rt_gating_epoch (snd (list_gating_pending ?late demo_waiting)) = Some demo_epoch"
    unfolding demo_waiting_def by code_simp+
  then have mint: "can_mint 1 h'" by (simp add: can_mint_def l)
  obtain entry where en: "bt_get (rt_gating_pending demo_waiting) (gate_id ''pending'' demo_epoch 1) = Some entry"
    "gp_deadline_at_ms entry = 121000"
    using demo_waiting_entry by auto
  have "\<not> env_clock ?late (rt_tick demo_waiting) < gp_deadline_at_ms entry" using en(2) by simp
  with conjunct2 [OF list_gating_pending_live [OF demo_waiting_inv l mint], rule_format, OF en(1)]
  have "\<exists>n \<in> set (rt_gating_delivered h'). gn_pending_id n = gate_id ''pending'' demo_epoch 1 \<and> \<not> gn_approved n"
    by (simp only: if_False) blast
  then show ?thesis using mint demo_waiting_inv by (simp add: l)
qed

section \<open>Evaluation\<close>

lemma settle_expired_sequence: "rt_gating_sequence h \<le> rt_gating_sequence (settle_expired env ids h)"
proof (induction env ids h rule: settle_expired.induct)
  case (2 env x rest h)
  obtain m h1 where m: "mint_gating_id ''audit'' h = (m, h1)" by fastforce
  show ?case
  proof (cases m)
    case (Inl err)
    then show ?thesis using m mint_fields(6) [OF m] by simp
  next
    case (Inr i)
    have "rt_gating_sequence h \<le> rt_gating_sequence (settle_timeout env i x h1)"
      unfolding settle_timeout_pending(3) by (rule mint_fields(6) [OF m])
    also have "\<dots> \<le> rt_gating_sequence (settle_expired env rest (settle_timeout env i x h1))"
      by (rule "2.IH" [OF m [symmetric] Inr])
    finally show ?thesis using m Inr by simp
  qed
qed simp

lemma refresh_sequence: "rt_gating_sequence h \<le> rt_gating_sequence (refresh_gating_timeouts env h)"
  using settle_expired_sequence [of "h\<lparr>rt_tick := Suc (rt_tick h)\<rparr>"]
  by (simp add: refresh_gating_timeouts_def refresh_gating_timeouts_at_def current_time_ms_def)

text \<open>
  C8. What an evaluation grants follows from the risk tier. Only tiers R0 and R1 are allowed
  outright, only R2 is allowed with audit, and only R3 waits for approval: then the result
  names a fresh id whose request is pending in the new gate, with the actor, action and
  cleaned origin of the call, under a deadline between one second and seven days after its
  creation (saturating at the clock's end). Any other outcome is a safe draft with a reason,
  without a pending id, and it opens no request.
\<close>

theorem evaluate_gating_action_by_tier:
  assumes "gating_inv h" and "evaluate_gating_action_with_origin env rq origin h = (res, h')"
  shows "gating_inv h' \<and> gr_risk_tier res = ge_risk_tier rq \<and>
    (case gr_outcome res of
       Allowed \<Rightarrow> ge_risk_tier rq \<in> {R0, R1} \<and> gr_pending_id res = None
     | AllowedWithAudit \<Rightarrow> ge_risk_tier rq = R2 \<and> gr_pending_id res = None
     | PendingApproval \<Rightarrow> ge_risk_tier rq = R3 \<and>
         (\<exists>i e. gr_pending_id res = Some i \<and> bt_get (rt_gating_pending h') i = Some e
            \<and> \<not> gate_ids h ''pending'' i \<and> gp_action_id e = gr_action_id res
            \<and> gp_actor_id e = trim (ge_actor_id rq) \<and> gp_action e = trim (ge_action rq)
            \<and> gp_requested_approver e = trimmed_some (ge_requested_approver rq)
            \<and> gp_origin e = map_option clean_origin origin
            \<and> saturating_add (gp_created_at_ms e) 1000 \<le> gp_deadline_at_ms e
            \<and> gp_deadline_at_ms e \<le> saturating_add (gp_created_at_ms e) 604800000)
     | SafeDraft \<Rightarrow> gr_pending_id res = None \<and> gr_fallback_reason res \<noteq> None
         \<and> rt_gating_pending h' = rt_gating_pending (refresh_gating_timeouts env h))"
proof -
  obtain x h1 where e: "evaluate_gating_action_minting env rq origin h = (x, h1)" by fastforce
  have h': "h' = flush_gating_notices h1"
    using assms(2) e by (simp add: evaluate_gating_action_with_origin_def)
  have inv: "gating_inv h'" by (rule gating_inv_evaluate [OF assms(2,1)])
  let ?b = "refresh_gating_timeouts env h"
  from e show ?thesis
  proof (cases rule: evaluate_minting_cases)
    case (refused err)
    have res: "gr_outcome res = SafeDraft" "gr_pending_id res = None" "gr_fallback_reason res \<noteq> None"
      "gr_risk_tier res = ge_risk_tier rq"
      using assms(2) e refused(1) by (auto simp: evaluate_gating_action_with_origin_def)
    show ?thesis using inv refused(2) by (simp add: res h' flush_fields del: not_None_eq)
  next
    case (minted i h2)
    let ?c = "gate_call rq origin i"
    have binv: "gating_inv ?b" by (rule gating_inv_refresh [OF assms(1)])
    note m = gating_inv_mint [OF binv minted(2)] and f = mint_fields [OF minted(2)]
    have act: "gate_ids h2 ''action'' (gc_action_id ?c)" using m(2) [OF refl] by simp
    have ok: "x = Inr y \<Longrightarrow> res = y" for y
      using assms(2) e by (simp add: evaluate_gating_action_with_origin_def)
    from minted(4,3) m(1) act show ?thesis
    proof (cases rule: evaluate_checked_cases)
      case invalid
      then show ?thesis using inv ok [OF invalid(1)] f(1) by (simp add: h' flush_fields)
    next
      case (blocked reason a g)
      then show ?thesis using inv ok [OF blocked(3)] f(1) by (simp add: h' flush_fields)
    next
      case (allowed outcome a g)
      then show ?thesis using inv ok [OF allowed(2)]
        by (cases "ge_risk_tier rq") (simp_all add: h' flush_fields)
    next
      case (requested g)
      obtain k g1 resolution entry where k: "x = Inr (gate_result ?c PendingApproval (Some k) None)"
        "bt_get (rt_gating_pending h1) k = Some entry"
        "same_request (new_pending_entry rq ?c k (env_clock env (rt_tick g)) resolution) entry"
        "\<not> gate_ids g ''pending'' k"
        by (rule request_approval_ok [OF requested(3-6,1,7)]) blast
      have fresh: "\<not> gate_ids h ''pending'' k"
      proof
        assume "gate_ids h ''pending'' k"
        moreover have "rt_gating_epoch g = rt_gating_epoch h"
          using gate_viewD(1) [OF gate_view_conflict_block [OF requested(2)]] f(5)
            gating_frameD(13) [OF frame_refresh] by metis
        moreover have "rt_gating_sequence h \<le> rt_gating_sequence g"
          using gate_viewD(2) [OF gate_view_conflict_block [OF requested(2)]] f(6) refresh_sequence [of h env] by simp
        ultimately show False using k(4) gate_id_ok_mono by metis
      qed
      have entry: "gp_action_id entry = i" "gp_actor_id entry = trim (ge_actor_id rq)" "gp_action entry = trim (ge_action rq)"
        "gp_requested_approver entry = trimmed_some (ge_requested_approver rq)"
        "gp_origin entry = map_option clean_origin origin"
        "gp_deadline_at_ms entry = saturating_add (gp_created_at_ms entry) (approval_timeout rq)"
        by (subst k(3) [unfolded same_request_def], simp add: new_pending_entry_def)+
      have "saturating_add t 1000 \<le> saturating_add t (approval_timeout rq)"
        "saturating_add t (approval_timeout rq) \<le> saturating_add t 604800000" for t
        using approval_timeout_bounds [of rq]
        by (auto intro!: saturating_add_mono simp: GATING_APPROVAL_TIMEOUT_MIN_MS_def GATING_APPROVAL_TIMEOUT_MAX_MS_def)
      then show ?thesis
        using inv ok [OF k(1)] requested(1) k(2) fresh entry by (simp add: h' flush_fields)
    qed
  qed
qed

theorem evaluate_gating_action_by_tier_witness:
  "let result = evaluate_gating_action_with_origin demo_env demo_action None demo_gate in
   gating_inv demo_gate \<and> gating_inv (snd result) \<and> gr_outcome (fst result) = PendingApproval
   \<and> (\<exists>e. bt_get (rt_gating_pending (snd result)) (the (gr_pending_id (fst result))) = Some e
        \<and> saturating_add (gp_created_at_ms e) 1000 \<le> gp_deadline_at_ms e)"
proof -
  obtain res h' where r: "evaluate_gating_action_with_origin demo_env demo_action None demo_gate = (res, h')" by fastforce
  have "gr_outcome (fst (evaluate_gating_action_with_origin demo_env demo_action None demo_gate)) = PendingApproval"
    by code_simp
  then show ?thesis
    using evaluate_gating_action_by_tier [OF demo_gate_inv r] demo_gate_inv by (auto simp: r)
qed

section \<open>Escalation\<close>

text \<open>
  An escalation that succeeds hands the same request to the configured successor: the new
  entry is pending under an id the gate never used, asks the approver the escalation routes
  name for the previous one, and keeps action, actor, origin, rationale and above all the
  deadline, so escalating cannot buy time. The result names the new id and stays pending.
\<close>

theorem escalation_keeps_deadline:
  assumes "gating_inv h" and "decide_gating_action_as env rq d h = (Inr res, h')" and "gd_decision rq = Escalate"
  shows "\<exists>entry succ i approver. bt_get (rt_gating_pending h) (trim (gd_pending_id rq)) = Some entry
      \<and> gx_next_pending_id res = Some i \<and> gx_outcome res = PendingApproval
      \<and> \<not> gate_ids h ''pending'' i \<and> bt_get (rt_gating_pending h') i = Some succ
      \<and> successor_for (rt_gating_escalation_routes h) (gp_requested_approver entry) = Some approver
      \<and> succ = entry\<lparr>gp_pending_id := i, gp_requested_approver := Some approver, gp_approval_route_id := None,
           gp_approval_delivery_id := None, gp_created_at_ms := decision_now env h\<rparr>"
  using assms(2)
proof (cases rule: decide_cases)
  case (refused e)
  then show ?thesis by simp
next
  case (committed entry successor)
  let ?k = "trim (gd_pending_id rq)" and ?b = "decision_base env h"
  have inv: "gating_inv ?b" by (rule gating_inv_base [OF assms(1)])
  have live: "decision_now env h \<le> gp_deadline_at_ms entry" using base_live [OF committed(3,1)] by simp
  obtain approver where ap: "successor = Some approver"
    "successor_for (rt_gating_escalation_routes ?b) (gp_requested_approver entry) = Some approver"
    using check_decision_successor [OF committed(4) assms(3)] by auto
  have fr: "gating_frame h ?b" unfolding refresh_base [symmetric] by (rule frame_refresh)
  from committed(5,1) show ?thesis
  proof (cases rule: commit_decision_cases)
    case final
    then show ?thesis using assms(3) by simp
  next
    case (escalate i h1)
    let ?e = "successor_entry entry i successor (decision_now env h)"
    note ready = escalate_ready [OF inv committed(3) live escalate(3)]
    have id: "gp_pending_id ?e = i" by (simp add: successor_entry_def)
    have "bt_get (rt_gating_pending (upsert_gating_pending_entry ?e h1)) i = Some ?e"
      using gating_inv_upsert(2) [of h1 ?e] ready(1,2,3) id by (simp add: limbo_def)
    then have new: "bt_get (rt_gating_pending h') i = Some ?e"
      by (simp add: escalate(6) announce_def audited_fields escalated_def)
    have "\<not> gate_ids h ''pending'' i"
      using ready(5) gate_id_ok_mono refresh_sequence [of h env] gating_frameD(13) [OF fr]
      unfolding refresh_base by metis
    then show ?thesis
      using new base_pending [OF committed(3)] ap gating_frameD(14) [OF fr] escalate(2) assms(3)
      by (simp add: decision_result_def successor_entry_def)
  qed
qed

theorem escalation_keeps_deadline_witness:
  "let result = decide_gating_action_as demo_env (demo_decision Escalate) (Some demo_decider) demo_waiting in
   gating_inv demo_waiting \<and> is_ok (fst result)
   \<and> (\<exists>i succ. bt_get (rt_gating_pending (snd result)) i = Some succ
        \<and> gp_requested_approver succ = Some ''director'' \<and> gp_deadline_at_ms succ = 121000)"
proof -
  let ?d = "decide_gating_action_as demo_env (demo_decision Escalate) (Some demo_decider) demo_waiting"
  have "is_ok (fst ?d)" unfolding demo_waiting_def by code_simp
  then obtain res h' where d: "?d = (Inr res, h')" by (metis is_ok_iff prod.collapse)
  have esc: "gd_decision (demo_decision Escalate) = Escalate" by (simp add: demo_decision_def)
  have k: "trim (gd_pending_id (demo_decision Escalate)) = gate_id ''pending'' demo_epoch 1" by code_simp
  have r: "successor_for (rt_gating_escalation_routes demo_waiting) (Some ''lead'') = Some ''director''"
    unfolding demo_waiting_def by code_simp
  from escalation_keeps_deadline [OF demo_waiting_inv d esc] obtain entry succ i approver where
    "bt_get (rt_gating_pending demo_waiting) (gate_id ''pending'' demo_epoch 1) = Some entry"
    "bt_get (rt_gating_pending h') i = Some succ"
    "successor_for (rt_gating_escalation_routes demo_waiting) (gp_requested_approver entry) = Some approver"
    "gp_requested_approver succ = Some approver" "gp_deadline_at_ms succ = gp_deadline_at_ms entry"
    unfolding k by force
  then show ?thesis using demo_waiting_entry demo_waiting_inv r by (auto simp: d)
qed

section \<open>Identities\<close>

text \<open>
  C37. Gate ids identify: an id minted for a kind under a well-formed owner epoch parses back
  as exactly that epoch and sequence and never as a legacy id; two ids of a kind are equal
  only when epoch and sequence are; minting moves the sequence up by one, and it refuses
  instead of wrapping when the sequence is used up or the runtime has no epoch.
\<close>

theorem gate_ids_unique:
  assumes "valid_gating_epoch epoch" and "valid_gating_epoch epoch'"
  shows "parse_gating_id (gate_id kind epoch n) (''gate-'' @ kind @ ''-'') = Some (EpochForm epoch n)
    \<and> (gate_id kind epoch n = gate_id kind epoch' m \<longleftrightarrow> epoch = epoch' \<and> n = m)
    \<and> \<not> is_legacy_sequential_pending_id (gate_id ''pending'' epoch n)
    \<and> (case mint_gating_id kind h of
         (Inl e, h') \<Rightarrow> h' = h \<and> (rt_gating_epoch h = None \<or> rt_gating_sequence h = u64_max)
       | (Inr i, h') \<Rightarrow> unat (rt_gating_sequence h') = Suc (unat (rt_gating_sequence h))
           \<and> (\<exists>e. rt_gating_epoch h = Some e \<and> i = gate_id kind e (rt_gating_sequence h)))"
proof -
  have parse: "parse_gating_id (gate_id kind epoch n) (''gate-'' @ kind @ ''-'') = Some (EpochForm epoch n)"
    if "valid_gating_epoch epoch" for kind epoch n by (rule parse_minted [OF that])
  have "gate_id kind epoch n = gate_id kind epoch' m \<longleftrightarrow> epoch = epoch' \<and> n = m"
    using parse [OF assms(1), of kind n] parse [OF assms(2), of kind m]
    by (metis option.inject GatingIdForm.inject(2))
  moreover have "\<not> is_legacy_sequential_pending_id (gate_id ''pending'' epoch n)"
    using parse [OF assms(1), of "''pending''" n] by (simp add: is_legacy_sequential_pending_id_def)
  moreover obtain r h' where m: "mint_gating_id kind h = (r, h')" by fastforce
  from m have "case mint_gating_id kind h of
         (Inl e, h') \<Rightarrow> h' = h \<and> (rt_gating_epoch h = None \<or> rt_gating_sequence h = u64_max)
       | (Inr i, h') \<Rightarrow> unat (rt_gating_sequence h') = Suc (unat (rt_gating_sequence h))
           \<and> (\<exists>e. rt_gating_epoch h = Some e \<and> i = gate_id kind e (rt_gating_sequence h))"
  proof (cases rule: mint_gating_id_cases)
    case (minted e)
    then show ?thesis unfolding m using next_u64 [OF minted(3)] by simp
  qed (simp add: m)
  ultimately show ?thesis using parse [OF assms(1)] by simp
qed

theorem gate_ids_unique_witness:
  "valid_gating_epoch demo_epoch
   \<and> parse_gating_id (gate_id ''pending'' demo_epoch 41) ''gate-pending-'' = Some (EpochForm demo_epoch 41)
   \<and> gate_id ''audit'' demo_epoch 7 \<noteq> gate_id ''audit'' demo_epoch 8"
proof -
  have e: "valid_gating_epoch demo_epoch" by code_simp
  have "parse_gating_id (gate_id ''pending'' demo_epoch 41) (''gate-'' @ ''pending'' @ ''-'') = Some (EpochForm demo_epoch 41)"
    by (rule gate_ids_unique [OF e e, THEN conjunct1])
  moreover have "gate_id ''audit'' demo_epoch 7 = gate_id ''audit'' demo_epoch 8 \<longleftrightarrow> demo_epoch = demo_epoch \<and> (7 :: u64) = 8"
    by (rule gate_ids_unique [OF e e, THEN conjunct2, THEN conjunct1])
  ultimately show ?thesis using e unfolding gate_prefixes by simp
qed

end
