(* ===== verification/Gating_Snapshot.thy ===== *)
theory Gating_Snapshot
  imports Gating_Properties
begin

text \<open>
  Snapshot and restore of the approval gate: a snapshot of a well-formed gate is one that
  restore accepts, restoring it gives the same requests and audit log back, and what a restore
  adopts from outside is well formed, whoever wrote it.
\<close>

section \<open>Origins in the audit log\<close>

text \<open>The encoding of an origin decodes to itself, as the derived serializers promise.\<close>

definition origin_codec :: "Env \<Rightarrow> bool" where
  "origin_codec env \<longleftrightarrow> (\<forall>origin. valid_gating_origin origin \<longrightarrow> env_decode_origin env (origin_json origin) = Some origin)"

definition origins_ok :: "Env \<Rightarrow> MetaRuntimeHandle \<Rightarrow> bool" where
  "origins_ok env h \<longleftrightarrow> (\<forall>a \<in> set (rt_gating_audit h). validate_audit_origin env a = Inr ())"

definition states_origin :: "GatingOrigin option \<Rightarrow> GatingAuditEntry \<Rightarrow> bool" where
  "states_origin origin a \<longleftrightarrow> json_get (ga_detail a) ''origin'' = Some (json_option origin_json origin)"

lemma states_origin_valid:
  assumes "origin_codec env" and "is_none_or origin valid_gating_origin" and "states_origin origin a"
  shows "validate_audit_origin env a = Inr ()"
  using assms
  by (cases origin) (auto simp: states_origin_def validate_audit_origin_def origin_codec_def json_option_def
      is_null_def origin_json_def json_object_def)

lemma origin_stated:
  "states_origin (gp_origin e) (successor_audit k e)"
  "states_origin (gp_origin e) (decision_audit rq d e k nx)"
  "states_origin (gp_origin e) (pending_created_audit c e err)"
  "states_origin (gc_origin c) (notification_audit c k disp ro i err)"
  by (simp_all add: states_origin_def json_get_object successor_audit_def decision_audit_def pending_created_audit_def
      notification_audit_def gate_audit_def case_prod_beta)

section \<open>Validation\<close>

definition pending_valid :: "bool \<Rightarrow> GatingStateSnapshot \<Rightarrow> GatingPendingEntry \<Rightarrow> bool" where
  "pending_valid legacy s e \<longleftrightarrow> valid_snapshot_id legacy s (gp_pending_id e) ''gate-pending-''
     \<and> valid_snapshot_id legacy s (gp_action_id e) ''gate-action-'' \<and> gp_risk_tier e = R3
     \<and> gp_created_at_ms e \<le> gp_deadline_at_ms e \<and> is_none_or (gp_origin e) valid_gating_origin"

definition audit_valid :: "Env \<Rightarrow> bool \<Rightarrow> GatingStateSnapshot \<Rightarrow> string list \<Rightarrow> GatingAuditEntry \<Rightarrow> bool" where
  "audit_valid env legacy s pids a \<longleftrightarrow> valid_snapshot_id legacy s (ga_audit_id a) ''gate-audit-''
     \<and> valid_snapshot_id legacy s (ga_action_id a) ''gate-action-''
     \<and> is_none_or (ga_pending_id a) (\<lambda>id. valid_snapshot_id legacy s id ''gate-pending-''
          \<and> (ga_event_type a \<in> set resolution_events \<longrightarrow> id \<notin> set pids))
     \<and> validate_audit_origin env a = Inr ()"

lemma validate_pending_ok:
  "validate_pending legacy s seen es = Inr r \<longleftrightarrow> r = rev (map gp_pending_id es) @ seen
     \<and> (\<forall>e \<in> set es. pending_valid legacy s e) \<and> distinct (map gp_pending_id es)
     \<and> (\<forall>e \<in> set es. gp_pending_id e \<notin> set seen)"
proof (induction es arbitrary: seen)
  case (Cons e es)
  show ?case
  proof (cases "pending_valid legacy s e \<and> gp_pending_id e \<notin> set seen")
    case True
    then have step: "validate_pending legacy s seen (e # es) = validate_pending legacy s (gp_pending_id e # seen) es"
      by (auto simp: pending_valid_def is_none_or_iff is_some_and_iff)
    show ?thesis unfolding step Cons.IH using True by (auto simp: image_iff)
  next
    case False
    then have step: "\<exists>err. validate_pending legacy s seen (e # es) = Inl err"
      by (auto simp: pending_valid_def is_none_or_iff is_some_and_iff)
    obtain err where err: "validate_pending legacy s seen (e # es) = Inl err" using step by blast
    show ?thesis unfolding err using False by auto
  qed
qed auto

lemma unit_sum_cases: "(x :: 'a + unit) = Inr () \<or> (\<exists>e. x = Inl e)"
  by (cases x) auto

lemma validate_audit_ok:
  "validate_audit env legacy s pids seen as = Inr () \<longleftrightarrow>
     (\<forall>a \<in> set as. audit_valid env legacy s pids a) \<and> distinct (map ga_audit_id as)
     \<and> (\<forall>a \<in> set as. ga_audit_id a \<notin> set seen)"
proof (induction as arbitrary: seen)
  case (Cons a as)
  show ?case
  proof (cases "audit_valid env legacy s pids a \<and> ga_audit_id a \<notin> set seen")
    case True
    then have step: "validate_audit env legacy s pids seen (a # as) = validate_audit env legacy s pids (ga_audit_id a # seen) as"
      by (auto simp: audit_valid_def is_none_or_iff is_some_and_iff)
    show ?thesis unfolding step Cons.IH using True by (auto simp: image_iff)
  next
    case False
    then have step: "\<exists>err. validate_audit env legacy s pids seen (a # as) = Inl err"
      using unit_sum_cases [of "validate_audit_origin env a"]
      by (auto simp: audit_valid_def is_none_or_iff is_some_and_iff)
    obtain err where err: "validate_audit env legacy s pids seen (a # as) = Inl err" using step by blast
    show ?thesis unfolding err using False by auto
  qed
qed simp

definition snapshot_valid :: "Env \<Rightarrow> GatingStateSnapshot \<Rightarrow> bool" where
  "snapshot_valid env s \<longleftrightarrow>
     (\<forall>e \<in> set (gs_pending s). pending_valid (gs_version s = 1) s e) \<and> distinct (map gp_pending_id (gs_pending s))
     \<and> (\<forall>a \<in> set (gs_audit s). audit_valid env (gs_version s = 1) s (map gp_pending_id (gs_pending s)) a)
     \<and> distinct (map ga_audit_id (gs_audit s))
     \<and> length (gs_pending s) \<le> GATING_PENDING_MAX_RETAINED \<and> length (gs_audit s) \<le> GATING_AUDIT_MAX_RETAINED"

lemma audit_valid_rev: "audit_valid env l s (rev ks) a = audit_valid env l s ks a"
  by (simp add: audit_valid_def)

lemma validate_gating_snapshot_valid:
  assumes "validate_gating_snapshot env s = Inr ()"
  shows "snapshot_valid env s"
proof -
  obtain pids where p: "validate_pending (gs_version s = 1) s [] (gs_pending s) = Inr pids"
    "validate_audit env (gs_version s = 1) s pids [] (gs_audit s) = Inr ()"
    and len: "length (gs_pending s) \<le> GATING_PENDING_MAX_RETAINED" "length (gs_audit s) \<le> GATING_AUDIT_MAX_RETAINED"
    using assms by (auto simp: validate_gating_snapshot_def Let_def not_less split: if_splits sum.splits)
  from p(1) have pids: "pids = rev (map gp_pending_id (gs_pending s))" unfolding validate_pending_ok by simp
  show ?thesis
    using p len unfolding snapshot_valid_def validate_pending_ok validate_audit_ok pids append_Nil2 audit_valid_rev by blast
qed

text \<open>A snapshot id that is not legacy is one the gate accepts as its own or another owner's.\<close>

lemma valid_snapshot_id_gate:
  "valid_snapshot_id False s v (''gate-'' @ kind @ ''-'') = gate_id_ok (gs_owner_epoch s) (gs_next_sequence s) kind v"
  by (auto simp: valid_snapshot_id_def gate_id_ok_def split: option.split GatingIdForm.split)

text \<open>No id of a snapshot was minted under an epoch.\<close>

definition not_of :: "string option \<Rightarrow> string \<Rightarrow> string \<Rightarrow> bool" where
  "not_of owner kind v \<longleftrightarrow> (case parse_gating_id v (''gate-'' @ kind @ ''-'') of
     Some (EpochForm e _) \<Rightarrow> owner \<noteq> Some e | _ \<Rightarrow> True)"

definition foreign :: "string option \<Rightarrow> GatingStateSnapshot \<Rightarrow> bool" where
  "foreign owner s \<longleftrightarrow>
     list_all (\<lambda>e. not_of owner ''pending'' (gp_pending_id e) \<and> not_of owner ''action'' (gp_action_id e)) (gs_pending s)
     \<and> list_all (\<lambda>a. not_of owner ''audit'' (ga_audit_id a) \<and> not_of owner ''action'' (ga_action_id a)
         \<and> is_none_or (ga_pending_id a) (not_of owner ''pending'')) (gs_audit s)"

lemma valid_foreign_id:
  assumes "valid_snapshot_id legacy s v (''gate-'' @ kind @ ''-'')" and "not_of owner kind v"
  shows "gate_id_ok owner seq kind v"
  using assms by (auto simp: valid_snapshot_id_def gate_id_ok_def not_of_def split: option.splits GatingIdForm.splits)

lemmas valid_foreign_ids = valid_foreign_id [where kind = "''pending''", unfolded gate_prefixes]
  valid_foreign_id [where kind = "''action''", unfolded gate_prefixes]
  valid_foreign_id [where kind = "''audit''", unfolded gate_prefixes]

text \<open>What a restore adopts is well formed.\<close>

lemma adopt_fields:
  "rt_gating_epoch (adopt_snapshot s h) = rt_gating_epoch h" "rt_gating_sequence (adopt_snapshot s h) = rt_gating_sequence h"
  "rt_gating_pending_order (adopt_snapshot s h) = map gp_pending_id (gs_pending s)"
  "rt_gating_audit (adopt_snapshot s h) = gs_audit s" "resolved (adopt_snapshot s h) = resolved h"
  by (simp_all add: adopt_snapshot_def resolved_def)

lemma adopt_get:
  assumes "distinct (map gp_pending_id (gs_pending s))"
  shows "bt_get (rt_gating_pending (adopt_snapshot s h)) k = Some e \<longleftrightarrow> e \<in> set (gs_pending s) \<and> gp_pending_id e = k"
proof -
  let ?es = "map (\<lambda>e. (gp_pending_id e, e)) (gs_pending s)"
  have dist: "distinct (map fst (rev ?es))" using assms by (simp add: rev_map [symmetric] comp_def)
  have mem: "map_of (rev ?es) k = Some e \<longleftrightarrow> (k, e) \<in> set ?es"
    unfolding map_of_eq_Some_iff [OF dist] by (simp only: set_rev)
  have pend: "rt_gating_pending (adopt_snapshot s h) = bt_of_list ?es" by (simp add: adopt_snapshot_def)
  show ?thesis unfolding pend bt_of_list_facts mem by auto
qed

lemma gating_inv_adopt:
  assumes "snapshot_valid env s" and "foreign (rt_gating_epoch h) s" and "gating_inv h" and "resolved h = []"
  shows "gating_inv (adopt_snapshot s h)"
proof -
  let ?h = "adopt_snapshot s h"
  note v = assms(1) [unfolded snapshot_valid_def]
  have bt: "bt_inv (rt_gating_pending ?h)" by (simp add: adopt_snapshot_def bt_of_list_facts)
  have d: "distinct (map gp_pending_id (gs_pending s))" using v by blast
  have "dom (bt_get (rt_gating_pending ?h)) = set (map gp_pending_id (gs_pending s))"
    using adopt_get [OF d] by (auto simp: dom_def)
  then have idx: "bt.indexed (rt_gating_pending_order ?h) (rt_gating_pending ?h)"
    using bt d by (simp add: bt.indexed_def adopt_fields)
  have "pending_ok ?h k e" if "(k, e) \<in> set (rt_gating_pending ?h)" for k e
  proof -
    have e: "e \<in> set (gs_pending s)" "gp_pending_id e = k" using adopt_get [OF d] bt_in_set_get [OF bt that] by auto
    then have "pending_valid (gs_version s = 1) s e" "not_of (rt_gating_epoch h) ''pending'' k"
      "not_of (rt_gating_epoch h) ''action'' (gp_action_id e)"
      using v assms(2) by (auto simp: foreign_def list_all_iff)
    then show ?thesis
      using valid_foreign_ids e(2) unfolding pending_ok_def pending_valid_def adopt_fields by blast
  qed
  moreover have "gate_ids ?h ''audit'' (ga_audit_id a) \<and> audit_fits ?h a" if "a \<in> set (gs_audit s)" for a
  proof -
    have "audit_valid env (gs_version s = 1) s (map gp_pending_id (gs_pending s)) a"
      "not_of (rt_gating_epoch h) ''audit'' (ga_audit_id a)" "not_of (rt_gating_epoch h) ''action'' (ga_action_id a)"
      "is_none_or (ga_pending_id a) (not_of (rt_gating_epoch h) ''pending'')"
      using v assms(2) that by (auto simp: foreign_def list_all_iff)
    then show ?thesis
      using valid_foreign_ids unfolding audit_fits_def audit_valid_def adopt_fields is_none_or_iff by blast
  qed
  moreover have "is_none_or (rt_gating_epoch h) valid_gating_epoch" using assms(3) by (simp add: gating_inv_def)
  ultimately show ?thesis
    using v idx assms(4) unfolding gating_inv_def adopt_fields by auto
qed

section \<open>The audit log states valid origins\<close>

lemma origins_cong: "rt_gating_audit h' = rt_gating_audit h \<Longrightarrow> origins_ok env h' = origins_ok env h"
  by (simp add: origins_ok_def)

lemma origins_view: "gate_view h' = gate_view h \<Longrightarrow> origins_ok env h' = origins_ok env h"
  by (rule origins_cong) (rule gate_viewD)

lemma origins_same [simp]:
  "origins_ok env (h\<lparr>rt_tick := t\<rparr>) = origins_ok env h"
  "origins_ok env (flush_gating_notices h) = origins_ok env h"
  "origins_ok env (remove_pending k h) = origins_ok env h"
  "origins_ok env (announce n h) = origins_ok env h"
  "origins_ok env (upsert_gating_pending_entry e h) = origins_ok env h"
  "origins_ok env (note_delivery c p d h) = origins_ok env h"
  by (rule origins_cong, simp add: flush_fields remove_pending_def announce_def upsert_fields note_delivery_fields)+

lemma origins_mint: "mint_gating_id kind h = (r, h') \<Longrightarrow> origins_ok env h' = origins_ok env h"
  by (rule origins_cong) (rule mint_fields)

lemma origins_record:
  assumes "origins_ok env h" and "validate_audit_origin env a = Inr ()"
  shows "origins_ok env (record_gating_audit env' i a h)"
proof -
  let ?a = "a\<lparr>ga_audit_id := i, ga_timestamp_ms := env_clock env' (rt_tick h)\<rparr>"
  have "validate_audit_origin env ?a = Inr ()" using assms(2) by (simp add: validate_audit_origin_def)
  then have "\<forall>x \<in> set (rt_gating_audit h @ [?a]). validate_audit_origin env x = Inr ()"
    using assms(1) by (simp add: origins_ok_def)
  then have "\<forall>x \<in> set (drop_oldest GATING_AUDIT_MAX_RETAINED (rt_gating_audit h @ [?a])). validate_audit_origin env x = Inr ()"
    by (meson set_drop_oldest_subset subsetD)
  then show ?thesis by (simp add: origins_ok_def record_gating_audit_eq)
qed

lemma origins_append:
  assumes "append_gating_audit env' a h = (r, h')" and "origins_ok env h" and "validate_audit_origin env a = Inr ()"
  shows "origins_ok env h'"
proof -
  obtain m h1 where m: "mint_gating_id ''audit'' h = (m, h1)" by fastforce
  have "origins_ok env h1" using origins_mint [OF m] assms(2) by simp
  then show ?thesis
    using assms(1,3) m origins_record by (auto simp: append_gating_audit_def split: sum.splits)
qed

lemmas origins_audited = origins_append [OF audited_eq]

lemma origins_settle_expired:
  "origin_codec env \<Longrightarrow> gating_inv h \<Longrightarrow> origins_ok env h \<Longrightarrow> origins_ok env (settle_expired env' ids h)"
proof (induction env' ids h rule: settle_expired.induct)
  case (2 env' k rest h)
  obtain m h1 where m: "mint_gating_id ''audit'' h = (m, h1)" by fastforce
  note inv = gating_inv_mint [OF "2.prems"(2) m] and f = mint_fields [OF m]
  have ok1: "origins_ok env h1" using origins_mint [OF m] "2.prems"(3) by simp
  show ?case
  proof (cases m)
    case (Inl e)
    then show ?thesis using m ok1 by simp
  next
    case (Inr i)
    have "i \<notin> ga_audit_id ` set (rt_gating_audit h1)"
      using inv(2) [OF Inr] "2.prems"(2) f(3) by (auto simp: gating_inv_def)
    then have inv': "gating_inv (settle_timeout env' i k h1)"
      using gating_inv_settle_timeout [OF inv(1)] inv(2) [OF Inr] by blast
    have "origins_ok env (settle_timeout env' i k h1)"
    proof (cases "bt_get (rt_gating_pending h1) k")
      case (Some e)
      let ?a = "audit_entry ''timeout_fallback'' (gp_action_id e) (Some k) (gp_actor_id e) (gp_risk_tier e) SafeDraft
        (json_object [(''fallback'', JString ''safe_draft''), (''reason'', JString ''approval_timeout''),
          (''origin'', json_option origin_json (gp_origin e))])"
      have "states_origin (gp_origin e) ?a" by (simp add: states_origin_def json_get_object)
      moreover have "is_none_or (gp_origin e) valid_gating_origin"
        using gating_inv_pending [OF inv(1) Some] by (simp add: pending_ok_def)
      ultimately have "validate_audit_origin env ?a = Inr ()" using states_origin_valid [OF "2.prems"(1)] by blast
      then show ?thesis using origins_record ok1 by (simp add: settle_timeout_eq Some)
    qed (simp add: settle_timeout_eq ok1)
    then show ?thesis using "2.IH" [OF m [symmetric] Inr "2.prems"(1) inv'] m Inr by simp
  qed
qed simp

lemma origins_base: "origin_codec env \<Longrightarrow> gating_inv h \<Longrightarrow> origins_ok env h \<Longrightarrow> origins_ok env (decision_base env' h)"
  unfolding decision_base_def refresh_gating_timeouts_at_def by (rule origins_settle_expired) simp_all

lemma origins_decide:
  assumes "origin_codec env" and "gating_inv h" and "origins_ok env h" and "decide_gating_action_as env' rq d h = (r, h')"
  shows "origins_ok env h'"
  using assms(4)
proof (cases rule: decide_cases)
  case (refused e)
  then show ?thesis using origins_base [OF assms(1-3)] by simp
next
  case (committed entry successor)
  let ?k = "trim (gd_pending_id rq)"
  have ok: "origins_ok env (decision_base env' h)" by (rule origins_base [OF assms(1-3)])
  have org: "is_none_or (gp_origin entry) valid_gating_origin"
    using gating_inv_pending [OF gating_inv_base [OF assms(2)] committed(3)] by (simp add: pending_ok_def)
  have dec: "validate_audit_origin env (decision_audit rq d entry k nx) = Inr ()" for k nx
    by (rule states_origin_valid [OF assms(1) org origin_stated(2)])
  from committed(5,1) show ?thesis
  proof (cases rule: commit_decision_cases)
    case final
    then show ?thesis using origins_audited [OF _ dec] ok by simp
  next
    case (escalate i h1)
    let ?e = "successor_entry entry i successor (decision_now env' h)"
    have "is_none_or (gp_origin ?e) valid_gating_origin" using org by (simp add: successor_entry_def)
    then have suc: "validate_audit_origin env (successor_audit ?k ?e) = Inr ()"
      by (rule states_origin_valid [OF assms(1) _ origin_stated(1)])
    have "origins_ok env h1" using origins_mint [OF escalate(3)] ok by simp
    then have "origins_ok env (escalated env' entry ?k ?e h1)"
      unfolding escalated_def by (intro origins_audited suc) simp
    then show ?thesis using origins_audited [OF _ dec] escalate(6) by simp
  qed
qed

lemma origins_conflict_block:
  "conflict_block env c h = (Some (reason, a), h') \<Longrightarrow> states_origin (gc_origin c) a"
  by (auto simp: conflict_block_def gate_audit_def states_origin_def json_get_object
      split: if_splits prod.splits sum.splits option.splits)

lemma origins_audited_result:
  assumes "audited_result env' a x h = (r, h')" and "origins_ok env h" and "validate_audit_origin env a = Inr ()"
  shows "origins_ok env h'"
proof -
  obtain m h1 where "append_gating_audit env' a h = (m, h1)" by fastforce
  with assms(1) have "append_gating_audit env' a h = (m, h')" by (auto simp: audited_result_def split: sum.splits)
  then show ?thesis by (rule origins_append) (rule assms(2,3))+
qed

lemma origins_publish:
  assumes "origin_codec env" and "is_none_or (gc_origin c) valid_gating_origin" and "origins_ok env h"
    and "publish_approval env' c entry res err h = (r, h')"
  shows "origins_ok env h'"
proof -
  have note_ok: "validate_audit_origin env (notification_audit c k disp ro i er) = Inr ()" for k disp ro i er
    by (rule states_origin_valid [OF assms(1,2) origin_stated(4)])
  show ?thesis
  proof (cases res)
    case None
    then show ?thesis
      using assms(3,4) origins_append [OF _ _ note_ok] by (auto simp: publish_approval_def split: option.splits)
  next
    case (Some resolution)
    obtain sent h1 where s: "send_delivery env' (approval_send_request c entry resolution) h = (sent, h1)" by fastforce
    have ok1: "origins_ok env h1" using origins_view [OF gate_view_send [OF s]] assms(3) by simp
    obtain h2 disp ro i er where h2: "h2 = h1 \<or> (\<exists>d. h2 = note_delivery c (gp_pending_id entry) d h1)"
      "append_gating_audit env' (notification_audit c (gp_pending_id entry) disp ro i er) h2 = (r, h')"
      using assms(4) s Some by (auto simp: publish_approval_def Let_def case_prod_beta split: if_splits) blast+
    have "origins_ok env h2" using h2(1) ok1 by auto
    then show ?thesis using origins_append [OF h2(2) _ note_ok] by blast
  qed
qed

lemma origins_request:
  assumes "origin_codec env" and "is_none_or (gc_origin c) valid_gating_origin" and "origins_ok env h"
    and "request_approval env' rq c h = (r, h')"
  shows "origins_ok env h'"
proof -
  obtain m h1 where m: "mint_gating_id ''pending'' h = (m, h1)" by fastforce
  have ok1: "origins_ok env h1" using origins_mint [OF m] assms(3) by simp
  show ?thesis
  proof (cases m)
    case (Inl e)
    then show ?thesis using assms(4) m ok1 by (simp add: request_approval_def)
  next
    case (Inr i)
    let ?t = "h1\<lparr>rt_tick := Suc (rt_tick h1)\<rparr>"
    obtain resolution err h2 where ro: "resolve_approval_route env' (trimmed_some (ge_approval_recipient rq))
        (trimmed_some (ge_approval_channel rq)) ?t = (resolution, err, h2)"
      using prod_cases3 by blast
    have ok2: "origins_ok env h2" using origins_view [OF gate_view_route [OF ro]] ok1 by simp
    let ?e = "new_pending_entry rq c i (env_clock env' (rt_tick h1)) resolution"
    obtain b h3 where a: "append_gating_audit env' (pending_created_audit c ?e err) (upsert_gating_pending_entry ?e h2) = (b, h3)"
      by fastforce
    have "is_none_or (gp_origin ?e) valid_gating_origin" using assms(2) by (simp add: new_pending_entry_def)
    then have "validate_audit_origin env (pending_created_audit c ?e err) = Inr ()"
      by (rule states_origin_valid [OF assms(1) _ origin_stated(3)])
    then have ok3: "origins_ok env h3" using origins_append [OF a] ok2 by simp
    obtain p h4 where p: "publish_approval env' c ?e resolution err h3 = (p, h4)" by fastforce
    have "h' = h3 \<or> h' = h4"
      using assms(4) m Inr ro a p
      by (auto simp: request_approval_def current_time_ms_def Let_def split: sum.splits)
    then show ?thesis using ok3 origins_publish [OF assms(1,2) ok3 p] by auto
  qed
qed

lemma origins_evaluate_checked:
  assumes "origin_codec env" and "origins_ok env h" and "evaluate_checked env' rq c h = (r, h')"
  shows "origins_ok env h'"
proof (cases "is_none_or (gc_origin c) valid_gating_origin")
  case False
  then show ?thesis using assms(2,3) by (auto simp: evaluate_checked_def is_none_or_iff is_some_and_iff)
next
  case True
  then have no: "\<not> is_some_and (gc_origin c) (\<lambda>origin. \<not> valid_gating_origin origin)"
    by (auto simp: is_none_or_iff is_some_and_iff)
  note sound = states_origin_valid [OF assms(1) True]
  have tier: "origins_ok env h''" if "evaluate_tier env' rq c g = (r, h'')" "origins_ok env g" for g h''
    using that origins_request [OF assms(1) True that(2)] sound
    by (auto simp: evaluate_tier_def states_origin_def gate_audit_def json_get_object
        split: GatingRiskTier.splits elim!: origins_audited_result)
  obtain b h1 where b: "conflict_block env' c h = (b, h1)" by fastforce
  have ok1: "origins_ok env h1" using origins_view [OF gate_view_conflict_block [OF b]] assms(2) by simp
  show ?thesis
    using assms(2,3) no b ok1 tier sound origins_conflict_block [of env' c h]
    by (auto simp: evaluate_checked_def split: if_splits option.splits elim!: origins_audited_result)
qed

lemma origins_evaluate:
  assumes "origin_codec env" and "gating_inv h" and "origins_ok env h"
    and "evaluate_gating_action_with_origin env' rq origin h = (res, h')"
  shows "origins_ok env h'"
proof -
  obtain x h2 where e: "evaluate_gating_action_minting env' rq origin h = (x, h2)" by fastforce
  have base: "origins_ok env (refresh_gating_timeouts env' h)" unfolding refresh_base by (rule origins_base [OF assms(1-3)])
  from e have "origins_ok env h2"
  proof (cases rule: evaluate_minting_cases)
    case (minted i h1)
    have "origins_ok env h1" using origins_mint [OF minted(2)] base by simp
    then show ?thesis by (rule origins_evaluate_checked [OF assms(1) _ minted(4)])
  qed (use base in simp)
  moreover have "h' = flush_gating_notices h2"
    using assms(4) e by (simp add: evaluate_gating_action_with_origin_def)
  ultimately show ?thesis by simp
qed

section \<open>Snapshot and restore\<close>

lemma map_filter_ids:
  "(\<And>k. k \<in> set ks \<Longrightarrow> \<exists>e. get k = Some e \<and> f e = k) \<Longrightarrow> map f (List.map_filter get ks) = ks"
  by (induction ks) (fastforce simp: List.map_filter_simps)+

lemma pending_in_order_ids:
  assumes "gating_inv h"
  shows "map gp_pending_id (pending_in_order h) = rt_gating_pending_order h"
  unfolding pending_in_order_def
  by (rule map_filter_ids) (use gating_inv_order [OF assms] gating_inv_pending [OF assms] in \<open>unfold pending_ok_def, blast\<close>)

text \<open>A snapshot of a well-formed gate passes validation.\<close>

lemma snapshot_validates:
  assumes "gating_inv h" and "origins_ok env h"
    and "s = \<lparr>gs_version = 2, gs_owner_epoch = rt_gating_epoch h, gs_next_sequence = rt_gating_sequence h,
      gs_pending = pending_in_order h, gs_audit = rt_gating_audit h\<rparr>"
  shows "validate_gating_snapshot env s = Inr ()"
proof -
  have f: "gs_version s = 2" "gs_owner_epoch s = rt_gating_epoch h" "gs_next_sequence s = rt_gating_sequence h"
    "gs_pending s = pending_in_order h" "gs_audit s = rt_gating_audit h" by (simp_all add: assms(3))
  note i = assms(1) [unfolded gating_inv_def]
  note ids = pending_in_order_ids [OF assms(1)]
  have sid: "valid_snapshot_id False s v ''gate-pending-'' = gate_ids h ''pending'' v"
    "valid_snapshot_id False s v ''gate-action-'' = gate_ids h ''action'' v"
    "valid_snapshot_id False s v ''gate-audit-'' = gate_ids h ''audit'' v" for v
    unfolding gate_prefixes [symmetric] valid_snapshot_id_gate f by (rule refl)+
  have "pending_valid False s e" if "e \<in> set (pending_in_order h)" for e
    using gating_inv_pending [OF assms(1)] that
    unfolding set_pending_in_order [OF assms(1)] pending_valid_def sid pending_ok_def by blast
  moreover have "distinct (map gp_pending_id (pending_in_order h))" using i unfolding ids bt.indexed_def by blast
  ultimately have p: "validate_pending False s [] (gs_pending s) = Inr (rev (rt_gating_pending_order h))"
    unfolding validate_pending_ok f ids by simp
  have "audit_valid env False s (rt_gating_pending_order h) a" if "a \<in> set (rt_gating_audit h)" for a
    using i assms(2) that unfolding audit_valid_def sid audit_fits_def is_none_or_iff origins_ok_def by blast
  then have "validate_audit env False s (rev (rt_gating_pending_order h)) [] (gs_audit s) = Inr ()"
    using i unfolding validate_audit_ok f audit_valid_rev by simp
  moreover have "\<not> is_some_and (gs_owner_epoch s) (\<lambda>epoch. \<not> valid_gating_epoch epoch)"
    using i by (auto simp: f is_none_or_iff is_some_and_iff)
  moreover have "length (pending_in_order h) \<le> GATING_PENDING_MAX_RETAINED"
    using i ids by (metis length_map)
  moreover have "length (gs_audit s) \<le> GATING_AUDIT_MAX_RETAINED" using i f by simp
  ultimately show ?thesis using p by (simp add: validate_gating_snapshot_def Let_def f)
qed

lemma adopt_roundtrip:
  assumes "gating_inv h" and "gs_pending s = pending_in_order h"
  shows "rt_gating_pending (adopt_snapshot s g) = rt_gating_pending h"
proof (rule bt_ext)
  note i = assms(1) [unfolded gating_inv_def bt.indexed_def]
  have d: "distinct (map gp_pending_id (gs_pending s))" using i by (simp add: assms(2) pending_in_order_ids [OF assms(1)])
  show "bt_inv (rt_gating_pending (adopt_snapshot s g))" by (simp add: adopt_snapshot_def bt_of_list_facts)
  show "bt_inv (rt_gating_pending h)" using i by blast
  have "bt_get (rt_gating_pending (adopt_snapshot s g)) k = Some e \<longleftrightarrow> bt_get (rt_gating_pending h) k = Some e" for k e
    using gating_inv_pending [OF assms(1), of k e]
    unfolding adopt_get [OF d] assms(2) set_pending_in_order [OF assms(1)] pending_ok_def by blast
  then show "bt_get (rt_gating_pending (adopt_snapshot s g)) = bt_get (rt_gating_pending h)"
    by (metis ext not_None_eq)
qed

text \<open>
  C33. A snapshot round-trips: the snapshot a well-formed gate takes of itself, none of whose
  requests has expired by the time of the restore, is accepted by a pristine runtime, which then
  holds exactly the same requests in the same order with the same audit log, while it keeps
  its own epoch and starts its own sequence.
\<close>

theorem gating_snapshot_roundtrip:
  assumes "origin_codec env" and "gating_inv h" and "origins_ok env h" and "gating_state_snapshot env h = (s, h')"
    and "pristine g" and "\<forall>e \<in> set (gs_pending s). env_clock env (rt_tick g) < gp_deadline_at_ms e"
  shows "\<exists>g'. restore_gating_state env s g = (Inr (), g') \<and> rt_gating_pending g' = rt_gating_pending h'
      \<and> rt_gating_pending_order g' = rt_gating_pending_order h' \<and> rt_gating_audit g' = rt_gating_audit h'
      \<and> rt_gating_epoch g' = rt_gating_epoch g \<and> rt_gating_sequence g' = 0"
proof -
  have h': "h' = flush_gating_notices (decision_base env h)"
    and s: "s = \<lparr>gs_version = 2, gs_owner_epoch = rt_gating_epoch h', gs_next_sequence = rt_gating_sequence h',
      gs_pending = pending_in_order h', gs_audit = rt_gating_audit h'\<rparr>"
    using assms(4) by (auto simp: gating_state_snapshot_def refresh_base Let_def)
  have inv: "gating_inv h'" using gating_inv_base [OF assms(2)] by (simp add: h')
  have org: "origins_ok env h'" using origins_base [OF assms(1-3)] by (simp add: h')
  note valid = snapshot_validates [OF inv org s]
  let ?g = "adopt_snapshot s g"
  have pend: "rt_gating_pending ?g = rt_gating_pending h'" by (rule adopt_roundtrip [OF inv]) (simp add: s)
  have "distinct (map gp_pending_id (gs_pending s))"
    using validate_gating_snapshot_valid [OF valid] by (simp add: snapshot_valid_def)
  note got = adopt_get [OF this, of g]
  have bt: "bt_inv (rt_gating_pending ?g)" by (simp add: adopt_snapshot_def bt_of_list_facts)
  have "\<forall>(k, e) \<in> set (rt_gating_pending ?g). env_clock env (rt_tick g) < gp_deadline_at_ms e"
    using bt_in_set_get [OF bt] got assms(6) by fastforce
  then have none: "expired_ids (env_clock env (rt_tick g)) (?g\<lparr>rt_tick := t\<rparr>) = []" for t
    by (auto simp: expired_ids_def filter_empty_conv not_le)
  have "rt_tick ?g = rt_tick g" by (simp add: adopt_snapshot_def)
  then have "restore_gating_state env s g = (Inr (), flush_gating_notices (?g\<lparr>rt_tick := Suc (rt_tick g)\<rparr>))"
    using assms(5) valid none
    by (simp add: restore_gating_state_def refresh_base decision_base_def decision_now_def refresh_gating_timeouts_at_def)
  moreover have "rt_gating_sequence g = 0" using assms(5) by (simp add: pristine_def)
  ultimately show ?thesis
    using pend pending_in_order_ids [OF inv] by (simp add: flush_fields adopt_fields s)
qed

text \<open>A decoder that inverts the encoding.\<close>

definition demo_decode_origin :: "json \<Rightarrow> GatingOrigin option" where
  "demo_decode_origin v = map_option
     (\<lambda>identity. \<lparr>go_identity = identity,
        go_conversation_id = Option.bind (json_get v ''conversation_id'') as_str,
        go_interaction_id = Option.bind (json_get v ''interaction_id'') as_str\<rparr>)
     (Option.bind (json_get v ''identity'') as_str)"

definition codec_env :: Env where
  "codec_env = demo_env\<lparr>env_decode_origin := demo_decode_origin\<rparr>"

lemma codec_clock: "env_clock codec_env t = 120000"
  by (simp add: codec_env_def demo_env_def)

lemma codec_env_codec: "origin_codec codec_env"
proof -
  have "demo_decode_origin (origin_json o1) = Some o1" for o1
    by (cases o1; cases "go_conversation_id o1"; cases "go_interaction_id o1")
      (simp_all add: demo_decode_origin_def origin_json_def json_get_object json_some_def)
  then show ?thesis by (simp add: origin_codec_def codec_env_def)
qed

lemma demo_waiting_origins: "origins_ok codec_env demo_waiting"
  unfolding demo_waiting_def evaluate_gating_action_def
  by (rule origins_evaluate [OF codec_env_codec demo_gate_inv _ prod.collapse [symmetric]])
    (simp add: origins_ok_def demo_gate_def demo_handle_def sample_handle_def)

lemma demo_gate_pristine: "pristine demo_gate" "resolved demo_gate = []"
  by (simp_all add: pristine_def resolved_def demo_gate_def demo_handle_def sample_handle_def)

theorem gating_snapshot_roundtrip_witness:
  "let (s, h') = gating_state_snapshot codec_env demo_waiting in
   origin_codec codec_env \<and> gating_inv demo_waiting \<and> origins_ok codec_env demo_waiting \<and> pristine demo_gate
   \<and> (\<exists>g'. restore_gating_state codec_env s demo_gate = (Inr (), g') \<and> rt_gating_pending g' = rt_gating_pending h'
        \<and> rt_gating_audit g' = rt_gating_audit h')"
proof -
  obtain s h' where sn: "gating_state_snapshot codec_env demo_waiting = (s, h')" by fastforce
  have "list_all (\<lambda>e. 120000 < gp_deadline_at_ms e) (gs_pending (fst (gating_state_snapshot codec_env demo_waiting)))"
    unfolding demo_waiting_def by code_simp
  then have "\<forall>e \<in> set (gs_pending s). env_clock codec_env (rt_tick demo_gate) < gp_deadline_at_ms e"
    by (simp add: sn list_all_iff codec_clock)
  from gating_snapshot_roundtrip [OF codec_env_codec demo_waiting_inv demo_waiting_origins sn demo_gate_pristine(1) this]
  show ?thesis using codec_env_codec demo_waiting_inv demo_waiting_origins demo_gate_pristine(1) by (auto simp: sn)
qed

lemma restore_cases:
  assumes "restore_gating_state env s h = (r, h')"
  obtains (refused) e where "r = Inl e" "h' = h"
  | (adopted) "pristine h" "validate_gating_snapshot env s = Inr ()" "r = Inr ()"
      "h' = flush_gating_notices (decision_base env (adopt_snapshot s h))"
proof (cases "pristine h \<and> validate_gating_snapshot env s = Inr ()")
  case False
  then consider "\<not> pristine h" | e where "pristine h" "validate_gating_snapshot env s = Inl e"
    using unit_sum_cases by blast
  then have "\<exists>e. restore_gating_state env s h = (Inl e, h)" by cases (simp_all add: restore_gating_state_def)
  then show ?thesis using assms refused by auto
next
  case True
  then have "restore_gating_state env s h = (Inr (), flush_gating_notices (decision_base env (adopt_snapshot s h)))"
    by (simp add: restore_gating_state_def refresh_base)
  with assms have "r = Inr ()" "h' = flush_gating_notices (decision_base env (adopt_snapshot s h))" by simp_all
  with True show ?thesis by (intro adopted) auto
qed

text \<open>
  Restore fails closed: a snapshot that is refused leaves the runtime as it was, only a
  pristine runtime accepts one, and whatever an accepted snapshot contains, the restored gate
  satisfies the gate's invariant, holds only requests of the snapshot and keeps every one
  whose deadline lies ahead, provided that no id of the snapshot was minted under the
  restoring runtime's own fresh epoch.
\<close>

theorem restore_gating_state_sound:
  assumes "gating_inv h" and "resolved h = []" and "foreign (rt_gating_epoch h) s"
    and "restore_gating_state env s h = (r, h')"
  shows "gating_inv h' \<and>
    (case r of
       Inl e \<Rightarrow> h' = h
     | Inr _ \<Rightarrow> pristine h
         \<and> (\<forall>k e. bt_get (rt_gating_pending h') k = Some e \<longrightarrow> e \<in> set (gs_pending s) \<and> gp_pending_id e = k)
         \<and> (\<forall>e \<in> set (gs_pending s). env_clock env (rt_tick h) < gp_deadline_at_ms e \<longrightarrow>
              bt_get (rt_gating_pending h') (gp_pending_id e) = Some e))"
  using assms(4)
proof (cases rule: restore_cases)
  case (refused e)
  then show ?thesis using assms(1) by simp
next
  case adopted
  let ?g = "adopt_snapshot s h"
  note r = adopted(3,4)
  have valid: "snapshot_valid env s" by (rule validate_gating_snapshot_valid [OF adopted(2)])
  then have d: "distinct (map gp_pending_id (gs_pending s))" by (simp add: snapshot_valid_def)
  have inv: "gating_inv ?g" by (rule gating_inv_adopt [OF valid assms(3,1,2)])
  have "gating_inv h'" using gating_inv_base [OF inv] by (simp add: r)
  moreover have "e \<in> set (gs_pending s) \<and> gp_pending_id e = k" if "bt_get (rt_gating_pending h') k = Some e" for k e
    using base_pending [of env ?g k e] that unfolding r flush_fields adopt_get [OF d] by blast
  moreover have "bt_get (rt_gating_pending h') (gp_pending_id e) = Some e"
    if "e \<in> set (gs_pending s)" "env_clock env (rt_tick h) < gp_deadline_at_ms e" for e
  proof -
    have "rt_tick ?g = rt_tick h" by (simp add: adopt_snapshot_def)
    moreover have "bt_get (rt_gating_pending ?g) (gp_pending_id e) = Some e" unfolding adopt_get [OF d] using that by simp
    moreover have "bt_inv (rt_gating_pending ?g)" by (simp add: adopt_snapshot_def bt_of_list_facts)
    ultimately show ?thesis
      using refresh_keeps_live [of "?g\<lparr>rt_tick := Suc (rt_tick h)\<rparr>" "gp_pending_id e" e "env_clock env (rt_tick h)" env] that(2)
      by (simp add: r flush_fields decision_base_def decision_now_def)
  qed
  ultimately show ?thesis using adopted(1) r(1) by simp
qed

definition demo_snapshot :: GatingStateSnapshot where
  "demo_snapshot = fst (gating_state_snapshot codec_env (demo_waiting))"

lemma not_of_minted: "valid_gating_epoch epoch \<Longrightarrow> owner \<noteq> Some epoch \<Longrightarrow> not_of owner kind (gate_id kind epoch n)"
  unfolding not_of_def parse_minted by simp

lemma foreign_ids:
  "foreign owner s \<longleftrightarrow> list_all (not_of owner ''pending'') (map gp_pending_id (gs_pending s))
     \<and> list_all (not_of owner ''action'') (map gp_action_id (gs_pending s))
     \<and> list_all (not_of owner ''audit'') (map ga_audit_id (gs_audit s))
     \<and> list_all (not_of owner ''action'') (map ga_action_id (gs_audit s))
     \<and> list_all (\<lambda>p. is_none_or p (not_of owner ''pending'')) (map ga_pending_id (gs_audit s))"
  by (auto simp: foreign_def list_all_iff)

lemma demo_snapshot_ids:
  "map gp_pending_id (gs_pending demo_snapshot) = [gate_id ''pending'' demo_epoch 1]"
  "map gp_action_id (gs_pending demo_snapshot) = [gate_id ''action'' demo_epoch 0]"
  "map ga_audit_id (gs_audit demo_snapshot) = [gate_id ''audit'' demo_epoch 2]"
  "map ga_action_id (gs_audit demo_snapshot) = [gate_id ''action'' demo_epoch 0]"
  "map ga_pending_id (gs_audit demo_snapshot) = [Some (gate_id ''pending'' demo_epoch 1)]"
  unfolding demo_snapshot_def demo_waiting_def by code_simp+

theorem restore_gating_state_sound_witness:
  "let g = demo_gate\<lparr>rt_gating_epoch := Some (replicate 32 (CHR ''f''))\<rparr>;
       result = restore_gating_state codec_env demo_snapshot g in
   gating_inv g \<and> resolved g = [] \<and> foreign (rt_gating_epoch g) demo_snapshot \<and> gating_inv (snd result)"
proof -
  let ?g = "demo_gate\<lparr>rt_gating_epoch := Some (replicate 32 (CHR ''f''))\<rparr>"
  have "valid_gating_epoch (replicate 32 (CHR ''f''))" by code_simp
  then have inv: "gating_inv ?g"
    by (simp add: gating_inv_def demo_gate_def demo_handle_def sample_handle_def resolved_def bt.indexed_def fun_eq_iff)
  have res: "resolved ?g = []" using demo_gate_pristine by (simp add: resolved_def)
  have "valid_gating_epoch demo_epoch" "Some (replicate 32 (CHR ''f'')) \<noteq> Some demo_epoch" by code_simp+
  note other = not_of_minted [OF this]
  have "rt_gating_epoch ?g = Some (replicate 32 (CHR ''f''))" by simp
  then have fr: "foreign (rt_gating_epoch ?g) demo_snapshot"
    unfolding foreign_ids demo_snapshot_ids by (simp only: list.pred_inject is_none_or_simps other simp_thms)
  obtain r h' where e: "restore_gating_state codec_env demo_snapshot ?g = (r, h')" by fastforce
  from restore_gating_state_sound [OF inv res fr e] inv res fr show ?thesis by (simp add: e)
qed

end
