(* ===== verification/Gating_Lifecycle.thy ===== *)
theory Gating_Lifecycle
  imports Gating_Snapshot
begin

text \<open>
  The life of an approval request as an abstract machine: a request is opened, waits, and is
  closed once with a verdict, or drops out of the bounded table while it waits. The gate of the
  runtime refines this machine: every call of the gate is a sequence of its steps.
\<close>

section \<open>The abstract machine\<close>

datatype approval = Waiting | Closed bool string

type_synonym board = "string \<Rightarrow> approval option"

text \<open>A verdict approves exactly when its cause is an approval decision.\<close>

definition verdict_ok :: "bool \<Rightarrow> string \<Rightarrow> bool" where
  "verdict_ok approved cause \<longleftrightarrow> cause \<in> set resolution_events \<and> (approved \<longleftrightarrow> cause = ''approval_decided'')"

inductive approval_step :: "board \<Rightarrow> board \<Rightarrow> bool" where
  step_open: "b i = None \<Longrightarrow> approval_step b (b(i \<mapsto> Waiting))"
| step_close: "b i = Some Waiting \<Longrightarrow> verdict_ok approved cause \<Longrightarrow> approval_step b (b(i \<mapsto> Closed approved cause))"
| step_drop: "b i = Some Waiting \<Longrightarrow> approval_step b (b(i := None))"

inductive_cases approval_stepE: "approval_step b b'"

text \<open>A verdict is final.\<close>

lemma closed_final:
  assumes "approval_step\<^sup>*\<^sup>* b b'" and "b i = Some (Closed v c)"
  shows "b' i = Some (Closed v c)"
  using assms by (induction rule: rtranclp_induct) (auto elim!: approval_stepE)

section \<open>The board of a gate\<close>

definition board :: "string list \<Rightarrow> GatingResolutionNotice list \<Rightarrow> board" where
  "board order notices i =
     (if i \<in> set order then Some Waiting
      else map_option (\<lambda>n. Closed (gn_approved n) (gn_cause n)) (find (\<lambda>n. gn_pending_id n = i) notices))"

definition board_of :: "MetaRuntimeHandle \<Rightarrow> board" where
  "board_of h = board (rt_gating_pending_order h) (resolved h)"

lemma find_notice_None [simp]: "find (\<lambda>n. gn_pending_id n = i) ns = None \<longleftrightarrow> i \<notin> gn_pending_id ` set ns"
  by (auto simp: find_None_iff)

lemma board_set: "set ord = set ord' \<Longrightarrow> board ord ns = board ord' ns"
  by (simp add: board_def fun_eq_iff)

lemma board_open:
  assumes "i \<notin> set ord" and "i \<notin> gn_pending_id ` set ns"
  shows "approval_step (board ord ns) (board (ord @ [i]) ns)"
proof -
  have "board (ord @ [i]) ns = (board ord ns)(i \<mapsto> Waiting)" by (auto simp: board_def fun_eq_iff)
  moreover have "board ord ns i = None" using assms by (simp add: board_def)
  ultimately show ?thesis using step_open by metis
qed

lemma board_close:
  assumes "gn_pending_id n \<in> set ord" and "gn_pending_id n \<notin> gn_pending_id ` set ns"
    and "verdict_ok (gn_approved n) (gn_cause n)"
  shows "approval_step (board ord ns) (board (filter (\<lambda>c. c \<noteq> gn_pending_id n) ord) (ns @ [n]))"
proof -
  let ?k = "gn_pending_id n"
  have "find (\<lambda>m. gn_pending_id m = ?k) ns = None" using assms(2) by simp
  then have "board (filter (\<lambda>c. c \<noteq> ?k) ord) (ns @ [n]) = (board ord ns)(?k \<mapsto> Closed (gn_approved n) (gn_cause n))"
    by (auto simp: board_def fun_eq_iff find_append simp del: find_notice_None split: option.split)
  moreover have "board ord ns ?k = Some Waiting" using assms(1) by (simp add: board_def)
  ultimately show ?thesis using step_close assms(3) by metis
qed

lemma board_drop:
  assumes "x \<notin> set ord" and "x \<notin> gn_pending_id ` set ns"
  shows "approval_step (board (x # ord) ns) (board ord ns)"
proof -
  have "find (\<lambda>m. gn_pending_id m = x) ns = None" using assms(2) by simp
  then have "board ord ns = (board (x # ord) ns)(x := None)" using assms(1)
    by (auto simp: board_def fun_eq_iff simp del: find_notice_None)
  moreover have "board (x # ord) ns x = Some Waiting" by (simp add: board_def)
  ultimately show ?thesis using step_drop by metis
qed

lemma board_evict:
  assumes "distinct ord" and "\<forall>x \<in> set ord. x \<notin> gn_pending_id ` set ns"
  shows "approval_step\<^sup>*\<^sup>* (board ord ns) (board (drop k ord) ns)"
  using assms
proof (induction ord arbitrary: k)
  case (Cons x ord)
  show ?case
  proof (cases k)
    case (Suc j)
    have "approval_step (board (x # ord) ns) (board ord ns)" using board_drop Cons.prems by simp
    then show ?thesis using Cons Suc by (auto intro: converse_rtranclp_into_rtranclp)
  qed simp
qed simp

section \<open>Refinement\<close>

lemma inv_disjoint:
  "gating_inv h \<Longrightarrow> k \<in> set (rt_gating_pending_order h) \<Longrightarrow> k \<notin> gn_pending_id ` set (resolved h)"
  unfolding gating_inv_def by auto

lemma inv_order_dom: "gating_inv h \<Longrightarrow> set (rt_gating_pending_order h) = dom (bt_get (rt_gating_pending h))"
  by (simp add: gating_inv_def bt.indexed_def)

text \<open>Same requests and same verdicts, same board.\<close>

lemma board_of_same:
  assumes "gating_inv h" and "gating_inv h'" and "rt_gating_pending h' = rt_gating_pending h" and "resolved h' = resolved h"
  shows "board_of h' = board_of h"
  unfolding board_of_def assms(4)
  by (rule board_set) (use inv_order_dom [OF assms(1)] inv_order_dom [OF assms(2)] assms(3) in simp)

lemma board_of_flush [simp]: "board_of (flush_gating_notices h) = board_of h"
  by (simp add: board_of_def flush_fields)

lemma board_of_tick [simp]: "board_of (h\<lparr>rt_tick := t\<rparr>) = board_of h"
  by (simp add: board_of_def resolved_def)

lemma refines_settle_expired:
  "gating_inv h \<Longrightarrow> approval_step\<^sup>*\<^sup>* (board_of h) (board_of (settle_expired env ids h))"
proof (induction env ids h rule: settle_expired.induct)
  case (2 env k rest h)
  obtain m h1 where m: "mint_gating_id ''audit'' h = (m, h1)" by fastforce
  note inv = gating_inv_mint [OF "2.prems" m] and f = mint_fields [OF m]
  have b1: "board_of h1 = board_of h" by (simp add: board_of_def f)
  show ?case
  proof (cases m)
    case (Inl e)
    then show ?thesis using m b1 by simp
  next
    case (Inr i)
    have "i \<notin> ga_audit_id ` set (rt_gating_audit h1)"
      using inv(2) [OF Inr] "2.prems" f(3) by (auto simp: gating_inv_def)
    then have inv': "gating_inv (settle_timeout env i k h1)"
      using gating_inv_settle_timeout [OF inv(1)] inv(2) [OF Inr] by blast
    have "approval_step\<^sup>*\<^sup>* (board_of h1) (board_of (settle_timeout env i k h1))"
    proof (cases "bt_get (rt_gating_pending h1) k")
      case (Some e)
      have k: "k \<in> set (rt_gating_pending_order h1)" using gating_inv_pending [OF inv(1) Some] by blast
      have "approval_step (board_of h1) (board_of (settle_timeout env i k h1))"
        using board_close [of "timeout_notice k e" "rt_gating_pending_order h1" "resolved h1"] k inv_disjoint [OF inv(1) k]
        by (simp add: board_of_def settle_timeout_eq Some announce_def record_gating_audit_eq remove_pending_def resolved_def
            timeout_notice_def verdict_ok_def resolution_events_def)
      then show ?thesis by blast
    qed (simp add: settle_timeout_eq)
    then show ?thesis
      using "2.IH" [OF m [symmetric] Inr inv'] m Inr b1 by simp
  qed
qed simp

lemma refines_base: "gating_inv h \<Longrightarrow> approval_step\<^sup>*\<^sup>* (board_of h) (board_of (decision_base env h))"
  using refines_settle_expired [of "h\<lparr>rt_tick := Suc (rt_tick h)\<rparr>"]
  by (simp add: decision_base_def refresh_gating_timeouts_at_def)

lemma board_open_evict:
  assumes "i \<notin> set ord" and "i \<notin> gn_pending_id ` set ns" and "distinct ord"
    and "\<forall>x \<in> set ord. x \<notin> gn_pending_id ` set ns"
  shows "approval_step\<^sup>*\<^sup>* (board ord ns) (board (drop_oldest cap (ord @ [i])) ns)"
proof -
  have "approval_step (board ord ns) (board (ord @ [i]) ns)" by (rule board_open [OF assms(1,2)])
  also have "approval_step\<^sup>*\<^sup>* (board (ord @ [i]) ns) (board (drop_oldest cap (ord @ [i])) ns)"
    unfolding drop_oldest_eq by (rule board_evict) (use assms in auto)
  finally show ?thesis .
qed

lemma refines_commit:
  assumes "commit_decision env rq d entry k successor now h = (r, h')" and "can_mint 3 h" and "gating_inv h"
    and "bt_get (rt_gating_pending h) k = Some entry" and "now \<le> gp_deadline_at_ms entry"
  shows "approval_step\<^sup>*\<^sup>* (board_of h) (board_of h')"
proof -
  have k: "k \<in> set (rt_gating_pending_order h)" using gating_inv_pending [OF assms(3,4)] by blast
  have verdict: "verdict_ok (gn_approved (decision_notice rq entry k nx)) (gn_cause (decision_notice rq entry k nx))" for nx
    by (cases "gd_decision rq") (simp_all add: decision_notice_def verdict_ok_def resolution_events_def)
  have closing: "approval_step (board_of h)
      (board (filter (\<lambda>c. c \<noteq> k) (rt_gating_pending_order h)) (resolved h @ [decision_notice rq entry k nx]))" for nx
    using board_close [OF _ _ verdict, where ord = "rt_gating_pending_order h" and nx1 = nx and ns = "resolved h"] k inv_disjoint [OF assms(3) k]
    by (simp add: board_of_def decision_notice_def)
  have ann: "resolved (announce n g) = resolved g @ [n]" "rt_gating_pending_order (announce n g) = rt_gating_pending_order g"
    "resolved (remove_pending k g) = resolved g"
    "rt_gating_pending_order (remove_pending k g) = filter (\<lambda>c. c \<noteq> k) (rt_gating_pending_order g)" for n g
    by (simp_all add: announce_def remove_pending_def resolved_def)
  from assms(1,2) show ?thesis
  proof (cases rule: commit_decision_cases)
    case final
    then have "board_of h' = board (filter (\<lambda>c. c \<noteq> k) (rt_gating_pending_order h)) (resolved h @ [decision_notice rq entry k None])"
      by (simp add: board_of_def ann audited_fields)
    then show ?thesis using closing by (metis r_into_rtranclp)
  next
    case (escalate i h1)
    let ?e = "successor_entry entry i successor now" and ?n = "decision_notice rq entry k (Some i)"
    let ?ord = "filter (\<lambda>c. c \<noteq> k) (rt_gating_pending_order h)"
    note ready = escalate_ready [OF assms(3-5) escalate(3)] and f = mint_fields [OF escalate(3)]
    have new: "i \<notin> set ?ord" "i \<notin> gn_pending_id ` set (resolved h)"
      using ready(2) by (auto simp: unused_def f ann)
    have "gn_pending_id ?n = k" by (simp add: decision_notice_def)
    then have "approval_step\<^sup>*\<^sup>* (board ?ord (resolved h @ [?n]))
        (board (drop_oldest GATING_PENDING_MAX_RETAINED (?ord @ [i])) (resolved h @ [?n]))"
      using new ready(4) inv_disjoint [OF assms(3)] assms(3)
      by (intro board_open_evict) (auto simp: gating_inv_def bt.indexed_def)
    moreover have "filter (\<lambda>c. c \<noteq> i) ?ord = ?ord" by (rule filter_True) (use new(1) in auto)
    then have "board_of h' = board (drop_oldest GATING_PENDING_MAX_RETAINED (?ord @ [i])) (resolved h @ [?n])"
      by (simp add: board_of_def escalate(6) ann audited_fields escalated_def upsert_fields successor_entry_def f del: filter_filter)
    ultimately show ?thesis using closing by (metis converse_rtranclp_into_rtranclp)
  qed
qed

lemma refines_decide:
  assumes "gating_inv h" and "decide_gating_action_as env rq d h = (r, h')"
  shows "approval_step\<^sup>*\<^sup>* (board_of h) (board_of h')"
  using assms(2)
proof (cases rule: decide_cases)
  case (refused e)
  then show ?thesis using refines_base [OF assms(1)] by simp
next
  case (committed entry successor)
  have "decision_now env h \<le> gp_deadline_at_ms entry" using base_live [OF committed(3,1)] by simp
  from refines_commit [OF committed(5,1) gating_inv_base [OF assms(1)] committed(3) this] refines_base [OF assms(1)]
  show ?thesis by (meson rtranclp_trans)
qed

lemma refines_evaluate:
  assumes "gating_inv h" and "evaluate_gating_action_with_origin env rq origin h = (res, h')"
  shows "approval_step\<^sup>*\<^sup>* (board_of h) (board_of h')"
proof -
  obtain x h1 where e: "evaluate_gating_action_minting env rq origin h = (x, h1)" by fastforce
  have h': "board_of h' = board_of h1"
    using assms(2) e by (auto simp: evaluate_gating_action_with_origin_def)
  let ?b = "refresh_gating_timeouts env h"
  have base: "approval_step\<^sup>*\<^sup>* (board_of h) (board_of ?b)" unfolding refresh_base by (rule refines_base [OF assms(1)])
  from e have "approval_step\<^sup>*\<^sup>* (board_of ?b) (board_of h1)"
  proof (cases rule: evaluate_minting_cases)
    case (minted i h2)
    note m = gating_inv_mint [OF gating_inv_refresh [OF assms(1)] minted(2)] and f = mint_fields [OF minted(2)]
    have b2: "board_of h2 = board_of ?b" by (simp add: board_of_def f)
    have act: "gate_ids h2 ''action'' (gc_action_id (gate_call rq origin i))" using m(2) [OF refl] by simp
    from minted(4,3) m(1) act have "approval_step\<^sup>*\<^sup>* (board_of h2) (board_of h1)"
    proof (cases rule: evaluate_checked_cases)
      case (requested g)
      have bg: "board_of g = board_of h2"
        using gate_viewD [OF gate_view_conflict_block [OF requested(2)]] by (simp add: board_of_def)
      obtain k where k: "resolved h1 = resolved g"
        "rt_gating_pending_order h1 = drop_oldest GATING_PENDING_MAX_RETAINED (rt_gating_pending_order g @ [k])"
        "k \<notin> set (rt_gating_pending_order g)" "\<not> gate_ids g ''pending'' k"
        by (rule request_approval_ok [OF requested(3-6,1,7)]) blast
      have "k \<notin> gn_pending_id ` set (resolved g)" using k(4) requested(5) unfolding gating_inv_def by auto
      then have "approval_step\<^sup>*\<^sup>* (board_of g) (board_of h1)"
        unfolding board_of_def k(1,2)
        using k(3) inv_disjoint [OF requested(5)] requested(5)
        by (intro board_open_evict) (auto simp: gating_inv_def bt.indexed_def)
      then show ?thesis by (simp add: bg)
    qed (use m(1) board_of_same [of h2 h1] in auto)
    then show ?thesis by (simp add: b2)
  qed simp
  then show ?thesis using base unfolding h' by (meson rtranclp_trans)
qed

end
