(* ===== verification/Runtime_System.thy ===== *)
theory Runtime_System
  imports Gating_Lifecycle Transition_Systems
begin

text \<open>
  The runtime as one state machine: the handle that startup builds (\<open>runtime/bootstrap.rs\<close>)
  and every operation of the routing, delivery, event, memory and gating modules as a step.
  The invariants of the modules hold together in every reachable state, because each operation
  leaves the parts of the other modules alone or calls them through their own operations.
\<close>

section \<open>Startup\<close>

text \<open>
  The handle startup returns: the configuration, the modules that came up with their events,
  the ledger read from the backend, and everything else empty. The epoch is the random owner
  epoch, or none when the generator fails.
\<close>

definition started_runtime ::
  "MetaConfig \<Rightarrow> string set \<Rightarrow> EventEnvelope list \<Rightarrow> EventEnvelope list \<Rightarrow> PersistedMemoryState \<Rightarrow> bool
     \<Rightarrow> string option \<Rightarrow> u64 \<Rightarrow> nat \<Rightarrow> MetaRuntimeHandle" where
  "started_runtime config loaded_modules module_events agent_events persisted_memory backend epoch now tick =
     restore_memory persisted_memory
       \<lparr>rt_config = config, rt_loaded_modules = loaded_modules,
        rt_merged_events = merge_unified_events module_events agent_events,
        rt_routing_sequence = 0, rt_routing_resolutions = [], rt_routing_resolution_order = [],
        rt_runtime_routes = [], rt_delivery_sequence = 0, rt_delivery_runtime_epoch_ms = now,
        rt_delivery_now_floor_ms = 0, rt_delivery_clock_ms = 0, rt_delivery_history = [],
        rt_delivery_idempotency = [], rt_delivery_idempotency_by_delivery = [],
        rt_delivery_rate_window_counts = [], rt_gating_epoch = epoch, rt_gating_sequence = 0,
        rt_gating_pending = [], rt_gating_pending_order = [], rt_gating_audit = [],
        rt_gating_notice_queue = [], rt_gating_delivered = [],
        rt_gating_escalation_routes = \<lparr>er_default = None, er_routes = []\<rparr>,
        rt_memory_sequence = 0, rt_memory_assertions = [], rt_memory_conflicts = [],
        rt_memory_backend = backend, rt_tick = tick\<rparr>"

definition runtime_init :: "MetaRuntimeHandle \<Rightarrow> bool" where
  "runtime_init h \<longleftrightarrow> (\<exists>config loaded ms as persisted backend epoch now tick.
     h = started_runtime config loaded ms as persisted backend epoch now tick \<and> is_none_or epoch valid_gating_epoch)"

section \<open>Steps\<close>

inductive runtime_step :: "Env \<Rightarrow> MetaRuntimeHandle \<Rightarrow> MetaRuntimeHandle \<Rightarrow> bool" for env where
  step_resolve: "resolve_routing env rq h = (r, h') \<Longrightarrow> runtime_step env h h'"
| step_add_route: "add_runtime_route route h = (r, h') \<Longrightarrow> runtime_step env h h'"
| step_delete_route: "delete_runtime_route key h = (r, h') \<Longrightarrow> runtime_step env h h'"
| step_send: "send_delivery env sq h = (s, h') \<Longrightarrow> runtime_step env h h'"
| step_event: "append_normalized_event event h = (e, h') \<Longrightarrow> runtime_step env h h'"
| step_index: "memory_index env mq h = (m, h') \<Longrightarrow> runtime_step env h h'"
| step_evaluate: "evaluate_gating_action_with_origin env gq origin h = (g, h') \<Longrightarrow> runtime_step env h h'"
| step_decide: "decide_gating_action env dq h = (d, h') \<Longrightarrow> runtime_step env h h'"
| step_decide_for: "decide_gating_action_for env dq decider h = (d, h') \<Longrightarrow> runtime_step env h h'"
| step_authorized:
    "decide_gating_action_authorized env dq authorize h = (a :: unit + _, notices, h1) \<Longrightarrow>
     runtime_step env h (deliver_notices notices h1)"
| step_list: "list_gating_pending env h = (l, h') \<Longrightarrow> runtime_step env h h'"
| step_audit_page: "gating_audit_after env cursor h = (p, h') \<Longrightarrow> runtime_step env h h'"
| step_audit_tail: "gating_audit_entries env limit h = (t, h') \<Longrightarrow> runtime_step env h h'"
| step_routes: "runtime_step env h (set_gating_escalation_routes routes h)"
| step_snapshot: "gating_state_snapshot env h = (s, h') \<Longrightarrow> runtime_step env h h'"
| step_restore: "restore_gating_state env s h = (x, h') \<Longrightarrow> foreign (rt_gating_epoch h) s \<Longrightarrow> runtime_step env h h'"

section \<open>The invariants of the services\<close>

definition services_inv :: "MetaRuntimeHandle \<Rightarrow> bool" where
  "services_inv h \<longleftrightarrow> routing_inv h \<and> delivery_inv h \<and> rate_inv h \<and> route_scoped h \<and> memory_inv h"

lemma services_cong:
  assumes "rt_merged_events h' = rt_merged_events h" "rt_routing_sequence h' = rt_routing_sequence h"
    "rt_routing_resolutions h' = rt_routing_resolutions h"
    "rt_routing_resolution_order h' = rt_routing_resolution_order h" "rt_runtime_routes h' = rt_runtime_routes h"
    "rt_delivery_sequence h' = rt_delivery_sequence h" "rt_delivery_history h' = rt_delivery_history h"
    "rt_delivery_idempotency h' = rt_delivery_idempotency h"
    "rt_delivery_idempotency_by_delivery h' = rt_delivery_idempotency_by_delivery h"
    "rt_delivery_rate_window_counts h' = rt_delivery_rate_window_counts h"
    "rt_memory_assertions h' = rt_memory_assertions h" "rt_memory_conflicts h' = rt_memory_conflicts h"
  shows "services_inv h' = services_inv h"
  unfolding services_inv_def routing_inv_def resolutions_inv_def delivery_inv_def rate_inv_def route_scoped_def
    memory_inv_def assms ..

lemma services_frame: "gating_frame h h' \<Longrightarrow> services_inv h' = services_inv h"
  by (rule services_cong; erule gating_frameD)

lemma services_resolve: "resolve_routing env rq h = (r, h') \<Longrightarrow> services_inv h \<Longrightarrow> services_inv h'"
  using routing_inv_resolve delivery_inv_resolve rate_inv_resolve route_scoped_resolve
    routing_frameD(18,19) [OF resolve_routing_frame]
  unfolding services_inv_def memory_inv_def by metis

lemma services_send: "send_delivery env rq h = (r, h') \<Longrightarrow> services_inv h \<Longrightarrow> services_inv h'"
  using routing_inv_send delivery_inv_send rate_inv_send route_scoped_send
    delivery_frameD(16,17) [OF send_delivery_frame]
  unfolding services_inv_def memory_inv_def routing_inv_def by metis

interpretation services: gate_host env services_inv for env
  by unfold_locales (auto simp: services_frame intro: services_resolve services_send)

lemmas services_defs = services_inv_def routing_inv_def resolutions_inv_def delivery_inv_def rate_inv_def route_scoped_def
  memory_inv_def

lemma services_set_routes: "services_inv h \<Longrightarrow> routes_inv rs \<Longrightarrow> services_inv (h\<lparr>rt_runtime_routes := rs\<rparr>)"
  unfolding services_defs by simp

lemma services_set_events: "services_inv h \<Longrightarrow> events_sorted es \<Longrightarrow> services_inv (h\<lparr>rt_merged_events := es\<rparr>)"
  unfolding services_defs by simp

lemma services_parts: "services_inv h \<Longrightarrow> routes_inv (rt_runtime_routes h) \<and> events_sorted (rt_merged_events h)"
  by (simp add: services_inv_def routing_inv_def)

lemma services_add_route:
  assumes "add_runtime_route route h = (r, h')" and "services_inv h"
  shows "services_inv h'"
proof (cases "canonical_route route")
  case (Inl e)
  then show ?thesis using assms by (simp add: add_runtime_route_def)
next
  case (Inr canon)
  have "routes_inv (bt_insert (ro_route_key canon) canon (rt_runtime_routes h))"
    using routes_inv_insert canonical_route_ok [OF Inr] services_parts [OF assms(2)] by blast
  then show ?thesis using services_set_routes [OF assms(2)] assms(1) Inr by (auto simp: add_runtime_route_def)
qed

lemma services_delete_route:
  assumes "delete_runtime_route key h = (r, h')" and "services_inv h"
  shows "services_inv h'"
proof -
  have "h' = h \<or> h' = h\<lparr>rt_runtime_routes := bt_remove (trim key) (rt_runtime_routes h)\<rparr>"
    using assms(1) by (auto simp: delete_runtime_route_def Let_def split: if_splits option.splits)
  then show ?thesis
    using assms(2) services_set_routes routes_inv_remove services_parts by blast
qed

lemma services_event:
  assumes "append_normalized_event event h = (r, h')" and "services_inv h"
  shows "services_inv h'"
proof -
  have "h' = h \<or> (\<exists>e. h' = h\<lparr>rt_merged_events := insert_event_sorted e (rt_merged_events h)\<rparr>)"
    using assms(1) by (auto simp: append_normalized_event_def split: sum.splits)
  then show ?thesis
    using assms(2) services_set_events insert_event_sorted_sorted services_parts by blast
qed

text \<open>Indexing leaves everything outside the ledger alone.\<close>

lemma memory_index_frame:
  assumes "memory_index env rq h = (r, h')"
  shows "\<exists>t q a c. h' = h\<lparr>rt_tick := t, rt_memory_sequence := q, rt_memory_assertions := a, rt_memory_conflicts := c\<rparr>"
  using assms
proof (cases rule: memory_index_cases)
  case (refused e)
  then show ?thesis
    by (intro exI [of _ "rt_tick h"] exI [of _ "rt_memory_sequence h"] exI [of _ "rt_memory_assertions h"]
        exI [of _ "rt_memory_conflicts h"]) simp
next
  case (unwritten e)
  have "h\<lparr>rt_tick := rt_tick h'\<rparr> = h\<lparr>rt_tick := rt_tick h', rt_memory_sequence := rt_memory_sequence h,
      rt_memory_assertions := rt_memory_assertions h, rt_memory_conflicts := rt_memory_conflicts h\<rparr>" by simp
  from trans [OF unwritten(2) this] show ?thesis by blast
next
  case (ok entity topic store stated conflict t1 t2 res)
  then show ?thesis by blast
qed

lemma services_index:
  assumes "memory_index env rq h = (r, h')" and "services_inv h"
  shows "services_inv h'"
proof -
  have m: "memory_inv h'" using memory_inv_index [OF assms(1)] assms(2) by (simp add: services_inv_def)
  obtain t q a c where h': "h' = h\<lparr>rt_tick := t, rt_memory_sequence := q, rt_memory_assertions := a, rt_memory_conflicts := c\<rparr>"
    using memory_index_frame [OF assms(1)] by blast
  show ?thesis
    using assms(2) m unfolding h' services_inv_def
    by (simp add: routing_inv_def resolutions_inv_def delivery_inv_def rate_inv_def route_scoped_def)
qed

section \<open>What a step does to the gate\<close>

lemma gate_view_index: "memory_index env rq h = (r, h') \<Longrightarrow> gate_view h' = gate_view h"
  by (drule memory_index_frame) (auto simp: gate_view_def)

lemma gate_view_services:
  "add_runtime_route route h = (r, h') \<Longrightarrow> gate_view h' = gate_view h"
  "delete_runtime_route key h = (r, h') \<Longrightarrow> gate_view h' = gate_view h"
  "append_normalized_event event h = (e, h') \<Longrightarrow> gate_view h' = gate_view h"
  by (auto simp: add_runtime_route_def delete_runtime_route_def append_normalized_event_def gate_view_def Let_def
      split: sum.splits if_splits option.splits)

lemma authorized_flush:
  assumes "decide_gating_action_authorized env rq authorize h = (a, notices, h1)"
  obtains (refused) "deliver_notices notices h1 = flush_gating_notices (decision_base env h)"
  | (decided) decider r g where "decide_gating_action_as env rq (Some decider) (decision_base env h) = (r, g)"
      "deliver_notices notices h1 = flush_gating_notices g"
proof (cases "authorize (bt_get (rt_gating_pending (decision_base env h)) (trim (gd_pending_id rq)))")
  case (Inl e)
  then show ?thesis
    using assms refused
    by (simp add: decide_gating_action_authorized_def refresh_base Let_def take_gating_notices_def flush_gating_notices_def)
next
  case (Inr decider)
  obtain r g where d: "decide_gating_action_as env rq (Some decider) (decision_base env h) = (r, g)" by fastforce
  show ?thesis
    by (rule decided [OF d])
      (use assms Inr d in \<open>auto simp: decide_gating_action_authorized_def refresh_base Let_def take_gating_notices_def
        flush_gating_notices_def\<close>)
qed

text \<open>The configuration and the loaded modules change under supervision only.\<close>

definition modules_view :: "MetaRuntimeHandle \<Rightarrow> MetaConfig \<times> string set" where
  "modules_view h = (rt_config h, rt_loaded_modules h)"

lemma modules_frame: "gating_frame h h' \<Longrightarrow> modules_view h' = modules_view h"
  by (simp add: modules_view_def gating_frameD)

lemma modules_services:
  "resolve_routing env rq h = (r, h') \<Longrightarrow> modules_view h' = modules_view h"
  "send_delivery env sq h = (s, h') \<Longrightarrow> modules_view h' = modules_view h"
  "memory_index env mq h = (m, h') \<Longrightarrow> modules_view h' = modules_view h"
  "add_runtime_route route h = (a, h') \<Longrightarrow> modules_view h' = modules_view h"
  "delete_runtime_route key h = (d, h') \<Longrightarrow> modules_view h' = modules_view h"
  "append_normalized_event event h = (e, h') \<Longrightarrow> modules_view h' = modules_view h"
  using routing_frameD(2,3) [OF resolve_routing_frame] delivery_frameD(1,2) [OF send_delivery_frame]
  by (auto simp: modules_view_def add_runtime_route_def delete_runtime_route_def append_normalized_event_def Let_def
      split: sum.splits if_splits option.splits dest!: memory_index_frame)

interpretation modules: gate_host env "\<lambda>h. modules_view h = v" for env v
  by unfold_locales (simp_all add: modules_frame modules_services)

text \<open>Every step falls into one of six classes, as far as the gate is concerned.\<close>

lemma runtime_step_cases:
  assumes "runtime_step env h h'"
  obtains (service) "gate_view h' = gate_view h" "services_inv h \<Longrightarrow> services_inv h'" "modules_view h' = modules_view h"
  | (evaluated) rq origin r where "evaluate_gating_action_with_origin env rq origin h = (r, h')"
  | (decided) rq d r h0 g where "h0 = h \<or> h0 = decision_base env h" "decide_gating_action_as env rq d h0 = (r, g)"
      "h' = flush_gating_notices g"
  | (read) "h' = flush_gating_notices (decision_base env h)"
  | (routes) routes where "h' = h\<lparr>rt_gating_escalation_routes := routes\<rparr>"
  | (restored) s r where "restore_gating_state env s h = (r, h')" "foreign (rt_gating_epoch h) s"
  using assms
proof (cases rule: runtime_step.cases)
  case (step_resolve rq r)
  then show ?thesis using service gate_view_resolve services_resolve modules_services(1) by blast
next
  case (step_add_route route r)
  then show ?thesis using service gate_view_services(1) services_add_route modules_services(4) by blast
next
  case (step_delete_route key r)
  then show ?thesis using service gate_view_services(2) services_delete_route modules_services(5) by blast
next
  case (step_send sq s)
  then show ?thesis using service gate_view_send services_send modules_services(2) by blast
next
  case (step_event event e)
  then show ?thesis using service gate_view_services(3) services_event modules_services(6) by blast
next
  case (step_index mq m)
  then show ?thesis using service gate_view_index services_index modules_services(3) by blast
next
  case (step_evaluate gq origin g)
  then show ?thesis using evaluated by blast
next
  case (step_decide dq d)
  obtain r g where e: "decide_gating_action_as env dq None h = (r, g)" by fastforce
  with step_decide have "h' = flush_gating_notices g" by (simp add: decide_gating_action_def)
  with e show ?thesis using decided by blast
next
  case (step_decide_for dq decider d)
  obtain r g where e: "decide_gating_action_as env dq (Some decider) h = (r, g)" by fastforce
  with step_decide_for have "h' = flush_gating_notices g" by (simp add: decide_gating_action_for_def)
  with e show ?thesis using decided by blast
next
  case (step_authorized dq authorize a notices h1)
  from step_authorized(2) show ?thesis
  proof (cases rule: authorized_flush)
    case refused
    then show ?thesis using step_authorized(1) read by simp
  next
    case (decided decider r g)
    then show ?thesis using step_authorized(1) that(3) by blast
  qed
next
  case (step_list l)
  then show ?thesis using read by (auto simp: list_gating_pending_def refresh_base Let_def)
next
  case (step_audit_page cursor p)
  then show ?thesis using read by (auto simp: gating_audit_after_def refresh_base Let_def)
next
  case (step_audit_tail limit t)
  then show ?thesis using read by (auto simp: gating_audit_entries_def refresh_base Let_def)
next
  case (step_routes routes)
  then show ?thesis using routes by (simp add: set_gating_escalation_routes_def)
next
  case (step_snapshot s)
  then show ?thesis using read by (auto simp: gating_state_snapshot_def refresh_base Let_def)
next
  case (step_restore s x)
  then show ?thesis using restored by blast
qed

section \<open>The invariant of the runtime\<close>

definition runtime_inv :: "Env \<Rightarrow> MetaRuntimeHandle \<Rightarrow> bool" where
  "runtime_inv env h \<longleftrightarrow> services_inv h \<and> gating_inv h \<and> (origin_codec env \<longrightarrow> origins_ok env h)"

lemma frame_commit:
  assumes "commit_decision env rq d entry k successor now h = (r, h')" and "can_mint 3 h"
  shows "gating_frame h h'"
proof -
  have ann: "gating_frame g (announce n g)" for n g by (simp add: announce_def gating_frame_def)
  have aud: "gating_frame g (audited env a g)" for a g by (rule frame_append [OF audited_eq])
  from assms show ?thesis
  proof (cases rule: commit_decision_cases)
    case final
    then show ?thesis using frame_remove_pending aud ann gating_frame_trans by metis
  next
    case (escalate i h1)
    have "gating_frame h h1" by (rule gating_frame_trans [OF frame_remove_pending frame_mint [OF escalate(3)]])
    moreover have "gating_frame h1 (escalated env entry k (successor_entry entry i successor now) h1)"
      unfolding escalated_def by (rule gating_frame_trans [OF frame_upsert aud])
    ultimately show ?thesis unfolding escalate(6) using aud ann gating_frame_trans by metis
  qed
qed

lemma frame_base: "gating_frame h (decision_base env h)"
  unfolding refresh_base [symmetric] by (rule frame_refresh)

lemma frame_decide:
  assumes "decide_gating_action_as env rq d h = (r, h')"
  shows "gating_frame h h'"
  using assms
proof (cases rule: decide_cases)
  case (refused e)
  then show ?thesis using frame_base by simp
next
  case (committed entry successor)
  show ?thesis by (rule gating_frame_trans [OF frame_base frame_commit [OF committed(5,1)]])
qed

lemma frame_adopt: "gating_frame h (adopt_snapshot s h)"
  by (simp add: adopt_snapshot_def gating_frame_def)

text \<open>A pristine gate has resolved nothing.\<close>

lemma pristine_unresolved: "gating_inv h \<Longrightarrow> pristine h \<Longrightarrow> resolved h = []"
  by (auto simp: gating_inv_def pristine_def)

lemma runtime_inv_init: "runtime_init h \<Longrightarrow> runtime_inv env h"
proof -
  assume "runtime_init h"
  then obtain config loaded ms as persisted backend epoch now tick where
    h: "h = started_runtime config loaded ms as persisted backend epoch now tick" "is_none_or epoch valid_gating_epoch"
    by (auto simp: runtime_init_def)
  have mem: "memory_inv h" unfolding h(1) started_runtime_def by (rule memory_inv_restore)
  have "routing_inv h"
    by (simp add: h(1) started_runtime_def restore_memory_def Let_def routing_inv_def resolutions_inv_def routes_inv_def
        merge_unified_events_sorted bt.indexed_def fun_eq_iff)
  moreover have "delivery_inv h" "rate_inv h" "route_scoped h"
    by (simp_all add: h(1) started_runtime_def restore_memory_def Let_def delivery_inv_def idem_inv_def rate_inv_def
        route_scoped_def)
  moreover have "gating_inv h"
    using h(2) by (simp add: h(1) started_runtime_def restore_memory_def Let_def gating_inv_def resolved_def
        bt.indexed_def fun_eq_iff)
  moreover have "origins_ok env h" by (simp add: h(1) started_runtime_def restore_memory_def Let_def origins_ok_def)
  ultimately show ?thesis using mem by (simp add: runtime_inv_def services_inv_def)
qed

lemma runtime_inv_base: "runtime_inv env h \<Longrightarrow> runtime_inv env (decision_base env h)"
  using services_frame [OF frame_base] gating_inv_base origins_base by (auto simp: runtime_inv_def)

lemma runtime_inv_flush [simp]: "runtime_inv env (flush_gating_notices h) = runtime_inv env h"
  using services_frame [OF frame_flush] by (simp add: runtime_inv_def)

lemma runtime_inv_decide:
  "decide_gating_action_as env rq d h = (r, h') \<Longrightarrow> runtime_inv env h \<Longrightarrow> runtime_inv env h'"
  using services_frame [OF frame_decide] gating_inv_decide origins_decide by (auto simp: runtime_inv_def)

lemma runtime_inv_adopt:
  assumes "runtime_inv env h" and "pristine h" and "validate_gating_snapshot env s = Inr ()" and "foreign (rt_gating_epoch h) s"
  shows "runtime_inv env (adopt_snapshot s h)"
proof -
  have v: "snapshot_valid env s" by (rule validate_gating_snapshot_valid [OF assms(3)])
  have g: "gating_inv h" using assms(1) by (simp add: runtime_inv_def)
  have "gating_inv (adopt_snapshot s h)" by (rule gating_inv_adopt [OF v assms(4) g pristine_unresolved [OF g assms(2)]])
  moreover have "origins_ok env (adopt_snapshot s h)"
    using v by (auto simp: origins_ok_def adopt_fields snapshot_valid_def audit_valid_def)
  ultimately show ?thesis using assms(1) services_frame [OF frame_adopt] by (simp add: runtime_inv_def)
qed

lemma runtime_inv_step:
  assumes "runtime_inv env h" and "runtime_step env h h'"
  shows "runtime_inv env h'"
  using assms(2)
proof (cases rule: runtime_step_cases)
  case service
  then show ?thesis
    using assms(1) gate_viewD(8) [OF service(1)] origins_view [OF service(1), of env] unfolding runtime_inv_def by blast
next
  case (evaluated rq origin r)
  then show ?thesis
    using assms(1) services.host_evaluate gating_inv_evaluate origins_evaluate unfolding runtime_inv_def by metis
next
  case (decided rq d r h0 g)
  have "runtime_inv env h0" using decided(1) assms(1) runtime_inv_base by auto
  then show ?thesis using runtime_inv_decide [OF decided(2)] decided(3) by simp
next
  case read
  then show ?thesis using runtime_inv_base [OF assms(1)] by simp
next
  case (routes rs)
  have "services_inv h'" using assms(1) services_cong [of h' h] by (simp add: routes runtime_inv_def)
  moreover have "gating_inv h' = gating_inv h" by (rule gating_inv_cong) (simp_all add: routes resolved_def)
  moreover have "origins_ok env h' = origins_ok env h" by (rule origins_cong) (simp add: routes)
  ultimately show ?thesis using assms(1) by (simp add: runtime_inv_def)
next
  case (restored s r)
  from restored(1) show ?thesis
  proof (cases rule: restore_cases)
    case (refused e)
    then show ?thesis using assms(1) by simp
  next
    case adopted
    then show ?thesis using runtime_inv_base runtime_inv_adopt [OF assms(1) adopted(1,2) restored(2)] by simp
  qed
qed

lemma runtime_step_modules:
  assumes "runtime_step env h h'"
  shows "modules_view h' = modules_view h"
  using assms
proof (cases rule: runtime_step_cases)
  case (evaluated rq origin r)
  then show ?thesis by (rule modules.host_evaluate) simp
next
  case (decided rq d r h0 g)
  then show ?thesis
    using modules_frame [OF frame_flush] modules_frame [OF frame_decide [OF decided(2)]] modules_frame [OF frame_base] by auto
next
  case read
  then show ?thesis using modules_frame [OF frame_flush] modules_frame [OF frame_base] by simp
next
  case (routes rs)
  then show ?thesis by (simp add: modules_view_def)
next
  case (restored s r)
  from restored(1) show ?thesis
    by (cases rule: restore_cases)
      (simp_all add: modules_frame [OF frame_flush] modules_frame [OF frame_base] modules_frame [OF frame_adopt])
qed

interpretation runtime: step_invariant runtime_init "runtime_step env" "runtime_inv env" for env
  by unfold_locales (auto intro: runtime_inv_init runtime_inv_step)

section \<open>The runtime refines the approval machine\<close>

lemma board_opens:
  assumes "distinct ks" and "\<forall>k \<in> set ks. k \<notin> gn_pending_id ` set ns"
  shows "approval_step\<^sup>*\<^sup>* (board [] ns) (board ks ns)"
  using assms
proof (induction ks rule: rev_induct)
  case (snoc k ks)
  then have "approval_step (board ks ns) (board (ks @ [k]) ns)" by (intro board_open) auto
  then show ?case using snoc by (auto intro: rtranclp.rtrancl_into_rtrancl)
qed simp

lemma refines_step:
  assumes "gating_inv h" and "runtime_step env h h'"
  shows "approval_step\<^sup>*\<^sup>* (board_of h) (board_of h')"
  using assms(2)
proof (cases rule: runtime_step_cases)
  case service
  then show ?thesis using gate_viewD(4,6) [of h' h] by (simp add: board_of_def)
next
  case (evaluated rq origin r)
  then show ?thesis using refines_evaluate [OF assms(1)] by blast
next
  case (decided rq d r h0 g)
  have "gating_inv h0" "approval_step\<^sup>*\<^sup>* (board_of h) (board_of h0)"
    using decided(1) assms(1) gating_inv_base refines_base by auto
  then show ?thesis using refines_decide [OF _ decided(2)] decided(3) by (simp add: rtranclp_trans)
next
  case read
  then show ?thesis using refines_base [OF assms(1)] by simp
next
  case (routes rs)
  then show ?thesis by (simp add: board_of_def resolved_def)
next
  case (restored s r)
  from restored(1) show ?thesis
  proof (cases rule: restore_cases)
    case (refused e)
    then show ?thesis by simp
  next
    case adopted
    let ?g = "adopt_snapshot s h"
    have v: "snapshot_valid env s" by (rule validate_gating_snapshot_valid [OF adopted(2)])
    have none: "resolved h = []" by (rule pristine_unresolved [OF assms(1) adopted(1)])
    have inv: "gating_inv ?g" by (rule gating_inv_adopt [OF v restored(2) assms(1) none])
    have "approval_step\<^sup>*\<^sup>* (board [] []) (board (map gp_pending_id (gs_pending s)) [])"
      by (rule board_opens) (use v in \<open>simp_all add: snapshot_valid_def\<close>)
    moreover have "board_of h = board [] []" using adopted(1) none by (simp add: board_of_def pristine_def)
    moreover have "board_of ?g = board (map gp_pending_id (gs_pending s)) []" by (simp add: board_of_def adopt_fields none)
    ultimately show ?thesis using refines_base [OF inv, of env] adopted(4) by (simp add: rtranclp_trans)
  qed
qed

interpretation gate_life: simulation runtime_init "runtime_step env" "runtime_inv env" board_of approval_step for env
  by unfold_locales (auto simp: runtime_inv_def intro: refines_step)

end
