(* ===== verification/Supervisor.thy ===== *)
theory Supervisor
  imports Module_Process Runtime_System
begin

text \<open>
  Module supervision (\<open>runtime/supervisor.rs\<close> and the startup of \<open>runtime/bootstrap.rs\<close>): start
  attempts with their retry budgets, the health transitions they report, spawning and
  reconciling members, and shutdown. Processes are owned as in \<open>Module_Process\<close>; the rest of the
  handle is the one of \<open>Runtime_Types\<close>. The start loop may run forever when the budget is the
  largest \<open>u32\<close>, so it is a partial function: not returning is \<open>None\<close>.
\<close>

section \<open>Types\<close>

datatype ModuleHealthState = Starting | Healthy | Failed | Restarting | Stopped

record ModuleHealthTransition =
  ht_module_id :: string
  ht_from :: "ModuleHealthState option"
  ht_to :: ModuleHealthState
  ht_attempt :: u32

datatype LifecycleStage = MobStarted | ModulesStarted | MergedStreamStarted | ShutdownRequested | ShutdownComplete

record LifecycleEvent =
  le_seq :: u64
  le_stage :: LifecycleStage

text \<open>The options that supervision reads; the restart backoff only sleeps.\<close>

record RuntimeOptions =
  op_on_failure_retry_budget :: u32
  op_always_restart_budget :: u32
  op_force_terminate_failure :: bool

datatype ConfigResolutionError = ModuleNotConfigured string | ModuleNotDiscovered string

datatype RuntimeFromConfigError = FromConfig ConfigResolutionError | FromRuntime RuntimeBoundaryError

datatype RuntimeMutationError = MutationConfig ConfigResolutionError | MutationRuntime RuntimeBoundaryError

datatype MetaRuntimeError = StartConfig ConfigResolutionError | StartMemoryBackend LocalJsonMemoryStoreError

record RuntimeShutdownReport =
  sd_terminated_modules :: "string list"
  sd_orphan_processes :: u32
  sd_physical_cleanup :: ModuleCleanupObservation

text \<open>A start attempt sequence: its first event and live child, or its terminal error.\<close>

record SuperviseModuleStartResult =
  sr_event :: "EventEnvelope option"
  sr_child :: "ModuleProcess option"
  sr_transitions :: "ModuleHealthTransition list"
  sr_terminal_error :: "RuntimeBoundaryError option"
  sr_retained :: "ModuleProcess list"

text \<open>The handle with the fields of process supervision; its tick is the one of the services.\<close>

record SupervisedRuntime =
  sv_handle :: MetaRuntimeHandle
  sv_options :: RuntimeOptions
  sv_live_children :: "(string, ModuleProcess) btree"
  sv_retained_cleanup :: "ModuleProcess list"
  sv_lifecycle_events :: "LifecycleEvent list"
  sv_transitions :: "ModuleHealthTransition list"
  sv_running :: bool

section \<open>Events\<close>

text \<open>A \<open>u64\<close> in decimal; evaluation goes through integers.\<close>

definition fmt_u64 :: "u64 \<Rightarrow> string" where
  "fmt_u64 n = nat_decimal (unat n)"

function int_decimal :: "int \<Rightarrow> string" where
  "int_decimal n = (if n < 10 then [char_of (48 + nat n)] else int_decimal (n div 10) @ [char_of (48 + nat (n mod 10))])"
  by pat_completeness auto
termination by (relation "measure nat") auto

declare int_decimal.simps [simp del]

lemma int_decimal_nat: "int_decimal (int n) = nat_decimal n"
proof (induction n rule: nat_decimal.induct)
  case (1 n)
  show ?case
  proof (cases "n < 10")
    case True
    then show ?thesis by (subst int_decimal.simps, subst nat_decimal.simps) simp
  next
    case False
    then have "int_decimal (int n div 10) = nat_decimal (n div 10)" using 1 by (simp add: zdiv_int)
    then show ?thesis
      using False by (subst int_decimal.simps, subst nat_decimal.simps) (simp add: nat_mod_distrib)
  qed
qed

lemma fmt_u64_code [code]: "fmt_u64 n = int_decimal (uint n)"
  using int_decimal_nat [of "unat n"] by (simp add: fmt_u64_def)

definition supervisor_warning_event :: "Env \<Rightarrow> string \<Rightarrow> RuntimeBoundaryError \<Rightarrow> nat \<Rightarrow> EventEnvelope" where
  "supervisor_warning_event env module_id error t =
     (let timestamp_ms = env_clock env t in
      \<lparr>ev_event_id = ''evt-supervisor-warning-'' @ module_id @ ''-'' @ fmt_u64 timestamp_ms,
       ev_source = ''module'', ev_timestamp_ms = timestamp_ms,
       ev_event = ModuleEv \<lparr>me_module = module_id, me_event_type = ''supervisor.warning'',
         me_payload = json_object [(''error'', JString (env_debug_boundary env error))]\<rparr>\<rparr>)"

definition mcp_ready_event :: "Env \<Rightarrow> ModuleConfig \<Rightarrow> string list \<Rightarrow> nat \<Rightarrow> EventEnvelope" where
  "mcp_ready_event env module tools t =
     (let timestamp_ms = env_clock env t in
      \<lparr>ev_event_id = ''evt-mcp-ready-'' @ mc_id module @ ''-'' @ fmt_u64 timestamp_ms,
       ev_source = ''module'', ev_timestamp_ms = timestamp_ms,
       ev_event = ModuleEv \<lparr>me_module = mc_id module, me_event_type = ''mcp.ready'',
         me_payload = json_object [(''tools'', JArray (map JString tools))]\<rparr>\<rparr>)"

section \<open>Starting a module\<close>

text \<open>The line without its terminator.\<close>

definition pop_line_end :: "string \<Rightarrow> string" where
  "pop_line_end line =
     (case strip_suffix line [CHR 0x0A] of
        None \<Rightarrow> line
      | Some line \<Rightarrow> (case strip_suffix line [CHR 0x0D] of None \<Rightarrow> line | Some line \<Rightarrow> line))"

text \<open>What the first line gives: an event, or the context and error of a failure.\<close>

definition first_event ::
  "Env \<Rightarrow> Os \<Rightarrow> FirstLine \<Rightarrow> u64 \<Rightarrow> (string \<times> RuntimeBoundaryError) + EventEnvelope" where
  "first_event env os line timeout =
     (case line of
        Line line \<Rightarrow>
         (case normalize_event_line env (pop_line_end line) of
            Inr event \<Rightarrow> Inr event
          | Inl err \<Rightarrow> Inl (''normalize error: '' @ os_debug_normalize os err, NormalizeErr err))
      | Closed_Stdout \<Rightarrow> Inl (''empty output'', ProcessErr EmptyOutput)
      | ReadFailed err \<Rightarrow> Inl (''io read error: '' @ err, ProcessErr (ProcessIo err))
      | TimedOut \<Rightarrow>
          Inl (''timeout('' @ fmt_u64 timeout @ ''ms)'', ProcessErr (ProcessTimeout timeout)))"

definition spawn_module_capture_first_event ::
  "Env \<Rightarrow> Os \<Rightarrow> ModuleConfig \<Rightarrow> PreSpawnData option \<Rightarrow> u64 \<Rightarrow> bool \<Rightarrow> nat
     \<Rightarrow> ((RuntimeBoundaryError \<times> ModuleProcess option) + (EventEnvelope \<times> ModuleProcess)) \<times> nat" where
  "spawn_module_capture_first_event env os module pre_spawn timeout force_terminate_failure t =
     (let (spawned, t) = spawn_process os module (module_env_with_extra module pre_spawn []) t in
      case spawned of
        Inl error \<Rightarrow> (Inl (ProcessErr error, None), t)
      | Inr child \<Rightarrow>
         (case first_event env os (os_first_line os t (mp_pid child) timeout) timeout of
            Inr event \<Rightarrow> (Inr (event, child), Suc t)
          | Inl (context, error) \<Rightarrow>
             (let (terminated, child, t) = terminate os force_terminate_failure child (Suc t) in
              case terminated of
                Inl terminate_err \<Rightarrow>
                  (Inl (ProcessErr (ProcessIo (''cleanup terminate failed after '' @ context @ '': '' @ terminate_err)),
                     Some child), t)
              | Inr _ \<Rightarrow> (Inl (error, None), t))))"

definition transition :: "ModuleConfig \<Rightarrow> ModuleHealthState option \<Rightarrow> ModuleHealthState \<Rightarrow> u32 \<Rightarrow> ModuleHealthTransition" where
  "transition module from to attempt =
     \<lparr>ht_module_id = mc_id module, ht_from = from, ht_to = to, ht_attempt = attempt\<rparr>"

definition should_restart :: "ModuleConfig \<Rightarrow> RuntimeOptions \<Rightarrow> u32 \<Rightarrow> bool" where
  "should_restart module options attempts =
     (case mc_restart_policy module of
        RestartAlways \<Rightarrow> attempts \<le> op_always_restart_budget options
      | _ \<Rightarrow> False)"

definition should_retry :: "ModuleConfig \<Rightarrow> RuntimeOptions \<Rightarrow> u32 \<Rightarrow> bool" where
  "should_retry module options attempts =
     (case mc_restart_policy module of
        RestartNever \<Rightarrow> False
      | RestartOnFailure \<Rightarrow> attempts \<le> op_on_failure_retry_budget options
      | RestartAlways \<Rightarrow> attempts \<le> op_always_restart_budget options)"

text \<open>
  The body of the loop after the attempt counter was advanced: it returns a result, or goes on
  in the state \<open>Restarting\<close> with more transitions and retained processes.
\<close>

definition supervise_attempt ::
  "Env \<Rightarrow> Os \<Rightarrow> ModuleConfig \<Rightarrow> PreSpawnData option \<Rightarrow> u64 \<Rightarrow> RuntimeOptions \<Rightarrow> u32 \<Rightarrow> ModuleHealthState
     \<Rightarrow> ModuleHealthTransition list \<Rightarrow> ModuleProcess list \<Rightarrow> nat
     \<Rightarrow> (SuperviseModuleStartResult + ModuleHealthTransition list \<times> ModuleProcess list) \<times> nat" where
  "supervise_attempt env os module pre_spawn timeout options attempts state transitions retained t =
     (let force = op_force_terminate_failure options;
          (result, t) = spawn_module_capture_first_event env os module pre_spawn timeout force t in
      case result of
        Inr (event, child) \<Rightarrow>
         (let transitions = transitions @ [transition module (Some state) Healthy attempts] in
          if should_restart module options attempts then
            let transitions = transitions @ [transition module (Some Healthy) Restarting attempts];
                (terminated, child, t) = terminate os force child t in
            (case terminated of
               Inl err \<Rightarrow>
                 (Inl \<lparr>sr_event = Some event, sr_child = Some child,
                    sr_transitions = transitions @ [transition module (Some Restarting) Failed attempts,
                      transition module (Some Failed) Healthy attempts],
                    sr_terminal_error = Some (ProcessErr (ProcessIo (''terminate child failed during restart: '' @ err))),
                    sr_retained = retained\<rparr>, t)
             | Inr _ \<Rightarrow> (Inr (transitions, retained), t))
          else
            (Inl \<lparr>sr_event = Some event, sr_child = Some child, sr_transitions = transitions,
               sr_terminal_error = None, sr_retained = retained\<rparr>, t))
      | Inl (err, unconfirmed) \<Rightarrow>
         (let retained = retained @ (case unconfirmed of None \<Rightarrow> [] | Some p \<Rightarrow> [p]);
              transitions = transitions @ [transition module (Some state) Failed attempts] in
          if should_retry module options attempts then
            (Inr (transitions @ [transition module (Some Failed) Restarting attempts], retained), t)
          else
            (Inl \<lparr>sr_event = None, sr_child = None,
               sr_transitions = transitions @ [transition module (Some Failed) Stopped attempts],
               sr_terminal_error = Some err, sr_retained = retained\<rparr>, t)))"

partial_function (option) supervise_loop ::
  "Env \<Rightarrow> Os \<Rightarrow> ModuleConfig \<Rightarrow> PreSpawnData option \<Rightarrow> u64 \<Rightarrow> RuntimeOptions \<Rightarrow> u32 \<Rightarrow> ModuleHealthState
     \<Rightarrow> ModuleHealthTransition list \<Rightarrow> ModuleProcess list \<Rightarrow> nat \<Rightarrow> (SuperviseModuleStartResult \<times> nat) option" where
  "supervise_loop env os module pre_spawn timeout options attempts state transitions retained t =
     (let attempts = attempts + 1 in
      case supervise_attempt env os module pre_spawn timeout options attempts state transitions retained t of
        (Inl result, t) \<Rightarrow> Some (result, t)
      | (Inr (transitions, retained), t) \<Rightarrow>
          supervise_loop env os module pre_spawn timeout options attempts Restarting transitions retained t)"

declare supervise_loop.simps [code]

definition supervise_mcp_module_start ::
  "Env \<Rightarrow> ModuleConfig \<Rightarrow> PreSpawnData option \<Rightarrow> u64 \<Rightarrow> nat \<Rightarrow> SuperviseModuleStartResult \<times> nat" where
  "supervise_mcp_module_start env module pre_spawn timeout t =
     (let transitions = [transition module None Starting 0] in
      case probe_module_mcp_tools env t module pre_spawn timeout of
        Inr tools \<Rightarrow>
          (\<lparr>sr_event = Some (mcp_ready_event env module tools (t + 1)), sr_child = None,
             sr_transitions = transitions @ [transition module (Some Starting) Healthy 1],
             sr_terminal_error = None, sr_retained = []\<rparr>, t + 2)
      | Inl error \<Rightarrow>
          (\<lparr>sr_event = None, sr_child = None,
             sr_transitions = transitions @ [transition module (Some Starting) Failed 1,
               transition module (Some Failed) Stopped 1],
             sr_terminal_error = Some error, sr_retained = []\<rparr>, t + 1))"

definition supervise_module_start ::
  "Env \<Rightarrow> Os \<Rightarrow> ModuleConfig \<Rightarrow> PreSpawnData option \<Rightarrow> u64 \<Rightarrow> RuntimeOptions \<Rightarrow> nat
     \<Rightarrow> (SuperviseModuleStartResult \<times> nat) option" where
  "supervise_module_start env os module pre_spawn timeout options t =
     (if module_uses_mcp module pre_spawn then Some (supervise_mcp_module_start env module pre_spawn timeout t)
      else supervise_loop env os module pre_spawn timeout options 0 Starting [transition module None Starting 0] [] t)"

section \<open>Members of a running handle\<close>

definition sv_tick :: "SupervisedRuntime \<Rightarrow> nat" where
  "sv_tick sv = rt_tick (sv_handle sv)"

definition at_tick :: "nat \<Rightarrow> SupervisedRuntime \<Rightarrow> SupervisedRuntime" where
  "at_tick t sv = sv\<lparr>sv_handle := (sv_handle sv)\<lparr>rt_tick := t\<rparr>\<rparr>"

definition log_event :: "EventEnvelope \<Rightarrow> SupervisedRuntime \<Rightarrow> SupervisedRuntime" where
  "log_event event sv =
     sv\<lparr>sv_handle := (sv_handle sv)\<lparr>rt_merged_events := insert_event_sorted event (rt_merged_events (sv_handle sv))\<rparr>\<rparr>"

text \<open>A warning in the log, with the time of its own clock reading.\<close>

definition warn :: "Env \<Rightarrow> string \<Rightarrow> RuntimeBoundaryError \<Rightarrow> SupervisedRuntime \<Rightarrow> SupervisedRuntime" where
  "warn env module_id error sv =
     at_tick (Suc (sv_tick sv)) (log_event (supervisor_warning_event env module_id error (sv_tick sv)) sv)"

definition load_module :: "string \<Rightarrow> SupervisedRuntime \<Rightarrow> SupervisedRuntime" where
  "load_module module_id sv =
     sv\<lparr>sv_handle := (sv_handle sv)\<lparr>rt_loaded_modules := insert module_id (rt_loaded_modules (sv_handle sv))\<rparr>\<rparr>"

definition set_discovery :: "string list \<Rightarrow> SupervisedRuntime \<Rightarrow> SupervisedRuntime" where
  "set_discovery modules sv =
     (let config = rt_config (sv_handle sv) in
      sv\<lparr>sv_handle := (sv_handle sv)\<lparr>rt_config := config\<lparr>mk_discovery := (mk_discovery config)\<lparr>ds_modules := modules\<rparr>\<rparr>\<rparr>\<rparr>)"

definition discover :: "string \<Rightarrow> SupervisedRuntime \<Rightarrow> SupervisedRuntime" where
  "discover module_id sv =
     (let modules = ds_modules (mk_discovery (rt_config (sv_handle sv))) in
      if list_ex (\<lambda>configured. configured = module_id) modules then sv
      else set_discovery (modules @ [module_id]) sv)"

text \<open>
  The child that is live for the module is removed and terminated; when that is not confirmed
  it is put back and the error is returned.
\<close>

definition replace_existing :: "Os \<Rightarrow> string \<Rightarrow> SupervisedRuntime \<Rightarrow> (string + unit) \<times> SupervisedRuntime" where
  "replace_existing os module_id sv =
     (case bt_get (sv_live_children sv) module_id of
        None \<Rightarrow> (Inr (), sv)
      | Some existing_child \<Rightarrow>
         (let removed = bt_remove module_id (sv_live_children sv);
              (terminated, existing_child, t) =
                terminate os (op_force_terminate_failure (sv_options sv)) existing_child (sv_tick sv) in
          case terminated of
            Inr _ \<Rightarrow> (Inr (), at_tick t (sv\<lparr>sv_live_children := removed\<rparr>))
          | Inl err \<Rightarrow>
              (Inl err, at_tick t (sv\<lparr>sv_live_children := bt_insert module_id existing_child removed\<rparr>))))"

text \<open>What follows a start that gave an event: the process becomes the live child.\<close>

definition adopt_child ::
  "Env \<Rightarrow> Os \<Rightarrow> string \<Rightarrow> EventEnvelope \<Rightarrow> ModuleProcess \<Rightarrow> SupervisedRuntime
     \<Rightarrow> (RuntimeMutationError + unit) \<times> SupervisedRuntime" where
  "adopt_child env os module_id event child sv =
     (let (replaced, sv) = replace_existing os module_id sv in
      case replaced of
        Inl err \<Rightarrow>
         (let error_message = ''failed to terminate existing child before respawn: '' @ err;
              (terminated, child, t) = terminate os False child (sv_tick sv);
              sv = at_tick t sv;
              (error_message, sv) =
                (case terminated of
                   Inl replacement_err \<Rightarrow>
                     (error_message @ ''; failed to terminate replacement child after aborted respawn: '' @ replacement_err,
                      sv\<lparr>sv_retained_cleanup := retain child (sv_retained_cleanup sv)\<rparr>)
                 | Inr _ \<Rightarrow> (error_message, sv));
              runtime_error = ProcessErr (ProcessIo error_message) in
          (Inl (MutationRuntime runtime_error), warn env module_id runtime_error sv))
      | Inr _ \<Rightarrow>
         (let sv = load_module module_id sv in
          (Inr (), log_event event (sv\<lparr>sv_live_children := bt_insert module_id child (sv_live_children sv)\<rparr>))))"

definition adopt_mcp ::
  "Env \<Rightarrow> Os \<Rightarrow> string \<Rightarrow> EventEnvelope \<Rightarrow> SupervisedRuntime
     \<Rightarrow> (RuntimeMutationError + unit) \<times> SupervisedRuntime" where
  "adopt_mcp env os module_id event sv =
     (let (replaced, sv) = replace_existing os module_id sv in
      case replaced of
        Inl err \<Rightarrow>
         (let runtime_error = ProcessErr (ProcessIo
                (''failed to terminate existing child before MCP respawn: '' @ err)) in
          (Inl (MutationRuntime runtime_error), warn env module_id runtime_error sv))
      | Inr _ \<Rightarrow> (Inr (), log_event event (load_module module_id sv)))"

definition start_failed :: "SuperviseModuleStartResult \<Rightarrow> RuntimeMutationError" where
  "start_failed result = MutationRuntime (unwrap_or (sr_terminal_error result) (ProcessErr EmptyOutput))"

text \<open>The report of a start, and its retained processes, taken over by the handle.\<close>

definition take_over :: "Env \<Rightarrow> string \<Rightarrow> SuperviseModuleStartResult \<Rightarrow> nat \<Rightarrow> SupervisedRuntime \<Rightarrow> SupervisedRuntime" where
  "take_over env module_id result t sv =
     (let sv = at_tick t (sv\<lparr>sv_transitions := sv_transitions sv @ sr_transitions result,
            sv_retained_cleanup := fold retain (sr_retained result) (sv_retained_cleanup sv)\<rparr>) in
      case sr_terminal_error result of None \<Rightarrow> sv | Some error \<Rightarrow> warn env module_id error sv)"

definition spawn_member ::
  "Env \<Rightarrow> Os \<Rightarrow> string \<Rightarrow> u64 \<Rightarrow> SupervisedRuntime \<Rightarrow> ((RuntimeMutationError + unit) \<times> SupervisedRuntime) option" where
  "spawn_member env os module_id timeout sv =
     (case module_and_prespawn (sv_handle sv) module_id of
        None \<Rightarrow> Some (Inl (MutationConfig (ModuleNotConfigured module_id)), sv)
      | Some (module, pre_spawn) \<Rightarrow>
         (case supervise_module_start env os module pre_spawn timeout (sv_options sv) (sv_tick sv) of
            None \<Rightarrow> None
          | Some (result, t) \<Rightarrow>
             (let sv = take_over env module_id result t sv in
              Some
                (case sr_event result of
                   None \<Rightarrow> (Inl (start_failed result), sv)
                 | Some event \<Rightarrow>
                    (let sv = discover module_id sv in
                     if \<not> module_uses_mcp module pre_spawn then
                       (case sr_child result of
                          None \<Rightarrow> (Inl (start_failed result), sv)
                        | Some child \<Rightarrow> adopt_child env os module_id event child sv)
                     else adopt_mcp env os module_id event sv)))))"

text \<open>The loop of \<open>reconcile_modules\<close>, with the number of modules added so far.\<close>

fun reconcile_loop ::
  "Env \<Rightarrow> Os \<Rightarrow> string list \<Rightarrow> u64 \<Rightarrow> nat \<Rightarrow> SupervisedRuntime
     \<Rightarrow> ((RuntimeMutationError + nat) \<times> SupervisedRuntime) option" where
  "reconcile_loop env os [] timeout added sv = Some (Inr added, sv)"
| "reconcile_loop env os (module_id # modules) timeout added sv =
     (if is_module_loaded (sv_handle sv) module_id then reconcile_loop env os modules timeout added sv
      else case spawn_member env os module_id timeout sv of
        None \<Rightarrow> None
      | Some (Inl e, sv) \<Rightarrow> Some (Inl e, sv)
      | Some (Inr _, sv) \<Rightarrow> reconcile_loop env os modules timeout (added + 1) sv)"

definition unconfigured :: "MetaConfig \<Rightarrow> string list \<Rightarrow> string option" where
  "unconfigured config modules =
     List.find (\<lambda>module_id. list_all (\<lambda>configured. mc_id configured \<noteq> module_id) (mk_modules config)) modules"

definition reconcile_modules ::
  "Env \<Rightarrow> Os \<Rightarrow> string list \<Rightarrow> u64 \<Rightarrow> SupervisedRuntime
     \<Rightarrow> ((RuntimeMutationError + nat) \<times> SupervisedRuntime) option" where
  "reconcile_modules env os modules timeout sv =
     (case unconfigured (rt_config (sv_handle sv)) modules of
        Some module_id \<Rightarrow> Some (Inl (MutationConfig (ModuleNotConfigured module_id)), sv)
      | None \<Rightarrow> reconcile_loop env os modules timeout 0 (set_discovery modules sv))"

definition run_discovered_module_once ::
  "Env \<Rightarrow> nat \<Rightarrow> MetaConfig \<Rightarrow> string \<Rightarrow> RuntimeFromConfigError + EventEnvelope" where
  "run_discovered_module_once env tick config module_id =
     (case List.find (\<lambda>module. mc_id module = module_id) (mk_modules config) of
        None \<Rightarrow> Inl (FromConfig (ModuleNotConfigured module_id))
      | Some module \<Rightarrow>
          if \<not> list_ex (\<lambda>i. i = module_id) (ds_modules (mk_discovery config))
          then Inl (FromConfig (ModuleNotDiscovered module_id))
          else case run_module_boundary_once env tick module
                 (List.find (\<lambda>data. ps_module_id data = module_id) (mk_pre_spawn config)) of
              Inl e \<Rightarrow> Inl (FromRuntime e)
            | Inr event \<Rightarrow> Inr event)"

section \<open>Shutdown and cleanup\<close>

text \<open>The loop over the children: failed terminations, confirmed reaps, and the retained set.\<close>

fun shutdown_children ::
  "Os \<Rightarrow> ModuleProcess list \<Rightarrow> u32 \<Rightarrow> ModuleCleanupReapedProcess list \<Rightarrow> ModuleProcess list \<Rightarrow> nat
     \<Rightarrow> u32 \<times> ModuleCleanupReapedProcess list \<times> ModuleProcess list \<times> nat" where
  "shutdown_children os [] orphans reaped retained t = (orphans, reaped, retained, t)"
| "shutdown_children os (child # children) orphans reaped retained t =
     (let (terminated, child, t) = terminate os False child t in
      case terminated of
        Inr _ \<Rightarrow> shutdown_children os children orphans (reaped @ [reaped_process child]) retained t
      | Inl _ \<Rightarrow> shutdown_children os children (orphans + 1) reaped (retain child retained) t)"

definition shutdown_events :: "LifecycleEvent list \<Rightarrow> LifecycleEvent list" where
  "shutdown_events events =
     (let seq = (if events = [] then 0 else le_seq (last events) + 1) in
      events @ [\<lparr>le_seq = seq, le_stage = ShutdownRequested\<rparr>, \<lparr>le_seq = seq + 1, le_stage = ShutdownComplete\<rparr>])"

definition shutdown :: "Os \<Rightarrow> SupervisedRuntime \<Rightarrow> RuntimeShutdownReport \<times> SupervisedRuntime" where
  "shutdown os sv =
     (let terminated_modules = sorted_list_of_set (rt_loaded_modules (sv_handle sv));
          (orphans, reaped, retained, t) =
            shutdown_children os (map snd (sv_live_children sv)) 0 [] (sv_retained_cleanup sv) (sv_tick sv);
          (cleanup, retained, t) = progress os retained t;
          cleanup = cleanup\<lparr>co_reaped := reaped @ co_reaped cleanup\<rparr>;
          orphans = max orphans (of_nat (length (co_outstanding cleanup))) in
      (\<lparr>sd_terminated_modules = terminated_modules, sd_orphan_processes = orphans, sd_physical_cleanup = cleanup\<rparr>,
       at_tick t (sv\<lparr>sv_handle := (sv_handle sv)\<lparr>rt_loaded_modules := {}\<rparr>, sv_live_children := [],
         sv_retained_cleanup := retained, sv_lifecycle_events := shutdown_events (sv_lifecycle_events sv),
         sv_running := False\<rparr>)))"

definition module_cleanup_observation :: "SupervisedRuntime \<Rightarrow> ModuleCleanupObservation" where
  "module_cleanup_observation sv = cleanup_observation (sv_retained_cleanup sv) []"

definition progress_module_cleanup :: "Os \<Rightarrow> SupervisedRuntime \<Rightarrow> ModuleCleanupObservation \<times> SupervisedRuntime" where
  "progress_module_cleanup os sv =
     (let (cleanup, retained, t) = progress os (sv_retained_cleanup sv) (sv_tick sv) in
      (cleanup, at_tick t (sv\<lparr>sv_retained_cleanup := retained\<rparr>)))"

section \<open>Startup\<close>

text \<open>What the module loop of startup collects.\<close>

record StartingModules =
  sm_transitions :: "ModuleHealthTransition list"
  sm_retained :: "ModuleProcess list"
  sm_events :: "EventEnvelope list"
  sm_loaded :: "string set"
  sm_live :: "(string, ModuleProcess) btree"

text \<open>The child of an earlier start of the same module is dropped when it is overwritten.\<close>

definition start_module ::
  "Env \<Rightarrow> Os \<Rightarrow> string \<Rightarrow> SuperviseModuleStartResult \<Rightarrow> nat \<Rightarrow> StartingModules \<Rightarrow> StartingModules \<times> nat" where
  "start_module env os module_id result t sm =
     (let sm = sm\<lparr>sm_transitions := sm_transitions sm @ sr_transitions result,
            sm_retained := fold retain (sr_retained result) (sm_retained sm)\<rparr>;
          (sm, t) = (case sr_terminal_error result of
             None \<Rightarrow> (sm, t)
           | Some error \<Rightarrow> (sm\<lparr>sm_events := sm_events sm @ [supervisor_warning_event env module_id error t]\<rparr>, Suc t)) in
      case sr_event result of
        None \<Rightarrow> (sm, t)
      | Some event \<Rightarrow>
         (let sm = sm\<lparr>sm_loaded := insert module_id (sm_loaded sm)\<rparr>;
              (sm, t) = (case sr_child result of
                 None \<Rightarrow> (sm, t)
               | Some child \<Rightarrow>
                   (sm\<lparr>sm_live := bt_insert module_id child (sm_live sm)\<rparr>,
                    case bt_get (sm_live sm) module_id of None \<Rightarrow> t | Some old \<Rightarrow> snd (release os old t))) in
          (sm\<lparr>sm_events := sm_events sm @ [event]\<rparr>, t)))"

fun start_modules ::
  "Env \<Rightarrow> Os \<Rightarrow> MetaConfig \<Rightarrow> u64 \<Rightarrow> RuntimeOptions \<Rightarrow> string list \<Rightarrow> StartingModules \<Rightarrow> nat
     \<Rightarrow> (ConfigResolutionError + StartingModules \<times> nat) option" where
  "start_modules env os config timeout options [] sm t = Some (Inr (sm, t))"
| "start_modules env os config timeout options (module_id # ids) sm t =
     (case List.find (\<lambda>module. mc_id module = module_id) (mk_modules config) of
        None \<Rightarrow> Some (Inl (ModuleNotConfigured module_id))
      | Some module \<Rightarrow>
         (case supervise_module_start env os module
                 (List.find (\<lambda>data. ps_module_id data = module_id) (mk_pre_spawn config)) timeout options t of
            None \<Rightarrow> None
          | Some (result, t) \<Rightarrow>
             (let (sm, t) = start_module env os module_id result t sm in
              start_modules env os config timeout options ids sm t)))"

text \<open>
  \<open>ledger\<close> is what building the configured backend and reading its state gave, \<open>None\<close> without a
  backend; \<open>epoch\<close> is the random owner epoch.
\<close>

definition start_meta_runtime_with_options ::
  "Env \<Rightarrow> Os \<Rightarrow> (LocalJsonMemoryStoreError + PersistedMemoryState) option \<Rightarrow> string option \<Rightarrow> MetaConfig
     \<Rightarrow> EventEnvelope list \<Rightarrow> u64 \<Rightarrow> RuntimeOptions \<Rightarrow> nat \<Rightarrow> (MetaRuntimeError + SupervisedRuntime) option" where
  "start_meta_runtime_with_options env os ledger epoch config agent_events timeout options t =
     (let delivery_runtime_epoch_ms = env_clock env t in
      case unconfigured config (ds_modules (mk_discovery config)) of
        Some module_id \<Rightarrow> Some (Inl (StartConfig (ModuleNotConfigured module_id)))
      | None \<Rightarrow>
         (case unwrap_or ledger (Inr \<lparr>pm_assertions = [], pm_conflicts = []\<rparr>) of
            Inl e \<Rightarrow> Some (Inl (StartMemoryBackend e))
          | Inr persisted_memory \<Rightarrow>
             (case start_modules env os config timeout options (ds_modules (mk_discovery config))
                 \<lparr>sm_transitions = [], sm_retained = [], sm_events = [], sm_loaded = {}, sm_live = []\<rparr> (t + 1) of
                None \<Rightarrow> None
              | Some (Inl e) \<Rightarrow> Some (Inl (StartConfig e))
              | Some (Inr (sm, t)) \<Rightarrow>
                 Some (Inr
                   \<lparr>sv_handle = started_runtime config (sm_loaded sm) (sm_events sm) agent_events persisted_memory
                      (ledger \<noteq> None) epoch delivery_runtime_epoch_ms t,
                    sv_options = options, sv_live_children = sm_live sm, sv_retained_cleanup = sm_retained sm,
                    sv_lifecycle_events = [\<lparr>le_seq = 0, le_stage = MobStarted\<rparr>, \<lparr>le_seq = 1, le_stage = ModulesStarted\<rparr>,
                      \<lparr>le_seq = 2, le_stage = MergedStreamStarted\<rparr>],
                    sv_transitions = sm_transitions sm, sv_running = True\<rparr>))))"

end
