(* ===== verification/Supervisor_Custody.thy ===== *)
theory Supervisor_Custody
  imports Supervisor
begin

text \<open>
  What supervision guarantees: a start settles within its budget and reports a legal chain of
  health states; no operation loses a process whose exit the system has not confirmed; and
  shutdown accounts for every process.
\<close>

section \<open>Health\<close>

text \<open>The transitions a supervised module may report.\<close>

fun health_edge :: "ModuleHealthState option \<Rightarrow> ModuleHealthState \<Rightarrow> bool" where
  "health_edge None Starting = True"
| "health_edge (Some Starting) s = (s = Healthy \<or> s = Failed)"
| "health_edge (Some Healthy) s = (s = Restarting)"
| "health_edge (Some Restarting) s = (s = Healthy \<or> s = Failed)"
| "health_edge (Some Failed) s = (s = Restarting \<or> s = Stopped \<or> s = Healthy)"
| "health_edge _ _ = False"

fun health_chain :: "ModuleHealthState option \<Rightarrow> ModuleHealthTransition list \<Rightarrow> ModuleHealthState option \<Rightarrow> bool" where
  "health_chain s [] e = (s = e)"
| "health_chain s (x # xs) e = (ht_from x = s \<and> health_edge s (ht_to x) \<and> health_chain (Some (ht_to x)) xs e)"

lemma health_chain_append: "health_chain s xs m \<Longrightarrow> health_chain m ys e \<Longrightarrow> health_chain s (xs @ ys) e"
  by (induction s xs m rule: health_chain.induct) auto

lemma transition_sel [simp]:
  "ht_module_id (transition m f s a) = mc_id m" "ht_from (transition m f s a) = f"
  "ht_to (transition m f s a) = s" "ht_attempt (transition m f s a) = a"
  by (simp_all add: transition_def)

definition restart_budget :: "ModuleConfig \<Rightarrow> RuntimeOptions \<Rightarrow> u32" where
  "restart_budget module options =
     (case mc_restart_policy module of
        RestartNever \<Rightarrow> 0
      | RestartOnFailure \<Rightarrow> op_on_failure_retry_budget options
      | RestartAlways \<Rightarrow> op_always_restart_budget options)"

lemma retry_in_budget:
  "should_retry module options a \<Longrightarrow> a \<le> restart_budget module options"
  "should_restart module options a \<Longrightarrow> a \<le> restart_budget module options"
  by (auto simp: should_retry_def should_restart_def restart_budget_def split: RestartPolicy.splits)

text \<open>The report of attempts so far: a chain to the given state, about this module, within the attempts.\<close>

definition report_ok :: "ModuleConfig \<Rightarrow> nat \<Rightarrow> ModuleHealthTransition list \<Rightarrow> ModuleHealthState \<Rightarrow> bool" where
  "report_ok module n ts s \<longleftrightarrow>
     health_chain None ts (Some s) \<and> (\<forall>x \<in> set ts. ht_module_id x = mc_id module \<and> unat (ht_attempt x) \<le> n)"

lemma report_extend:
  assumes "report_ok module n ts s" and "health_chain (Some s) xs (Some s')" and "n \<le> m"
    and "\<forall>x \<in> set xs. ht_module_id x = mc_id module \<and> unat (ht_attempt x) \<le> m"
  shows "report_ok module m (ts @ xs) s'"
  using assms health_chain_append unfolding report_ok_def by fastforce

text \<open>A start that succeeded ends healthy with its event and child; one that failed ends stopped.\<close>

definition result_ok :: "ModuleConfig \<Rightarrow> nat \<Rightarrow> SuperviseModuleStartResult \<Rightarrow> bool" where
  "result_ok module n r \<longleftrightarrow>
     report_ok module n (sr_transitions r) (if sr_event r = None then Stopped else Healthy)
     \<and> (sr_event r = None \<longleftrightarrow> sr_child r = None) \<and> (sr_event r = None \<longrightarrow> sr_terminal_error r \<noteq> None)"

text \<open>How one attempt can end: no process, an event with its running child, or a failure whose child
  is handed back or was confirmed gone.\<close>

lemma spawn_attempt_cases:
  assumes "spawn_module_capture_first_event env os module pre_spawn timeout force t = (r, t')"
  obtains (none) e m where "os_spawn os t module (module_env_with_extra module pre_spawn []) = Inl m" "r = Inl (e, None)" "t \<le> t'"
  | (started) event child where "os_spawn os t module (module_env_with_extra module pre_spawn []) = Inr (mp_pid child)"
      "r = Inr (event, child)" "mp_state child = Running" "t \<le> t'"
  | (left) e child where "os_spawn os t module (module_env_with_extra module pre_spawn []) = Inr (mp_pid child)"
      "r = Inl (e, Some child)" "mp_state child = Running" "t \<le> t'"
  | (gone) e pid where "os_spawn os t module (module_env_with_extra module pre_spawn []) = Inr pid"
      "r = Inl (e, None)" "confirmed os t t' pid" "t \<le> t'"
proof (cases "os_spawn os t module (module_env_with_extra module pre_spawn [])")
  case (Inl m)
  then show ?thesis
    using assms none by (auto simp: spawn_module_capture_first_event_def spawn_process_def)
next
  case (Inr p)
  define child0 where "child0 = \<lparr>mp_module_id = mc_id module, mp_pid = p, mp_state = Running, mp_kill_sent = False,
    mp_failure = None :: ModuleCleanupFailure option\<rparr>"
  obtain x c t1 where x: "terminate os force child0 (Suc (Suc t)) = (x, c, t1)" by (metis prod_cases3)
  note f = terminate_facts [OF x]
  have c0: "mp_pid child0 = p" "mp_state child0 = Running" by (simp_all add: child0_def)
  have spawn: "spawn_process os module (module_env_with_extra module pre_spawn []) t = (Inr child0, Suc t)"
    using Inr by (simp add: spawn_process_def child0_def)
  show ?thesis
  proof (cases "first_event env os (os_first_line os (Suc t) p timeout) timeout")
    case (Inr event)
    then show ?thesis
      using started [of child0 event] assms spawn c0 \<open>os_spawn os t _ _ = Inr p\<close>
      by (simp add: spawn_module_capture_first_event_def)
  next
    case (Inl failure)
    obtain why error where failure: "failure = (why, error)" by fastforce
    show ?thesis
    proof (cases x)
      case (Inl m)
      have "(\<exists>e. r = Inl (e, Some c)) \<and> t' = t1"
        using assms spawn Inl \<open>first_event _ _ _ _ = _\<close> x failure c0(1) by (simp add: spawn_module_capture_first_event_def) blast
      then show ?thesis using left f Inl c0 \<open>os_spawn os t _ _ = Inr p\<close> by auto
    next
      case (Inr u)
      have "confirmed os t t1 p"
        using f(4) Inr c0 confirmed_mono [of os "Suc (Suc t)" t1 p t t1] by auto
      then show ?thesis
        using gone [of p error] assms spawn c0 f(3) Inr \<open>os_spawn os t _ _ = Inr p\<close> \<open>first_event _ _ _ _ = _\<close> x failure
        by (simp add: spawn_module_capture_first_event_def)
    qed
  qed
qed

text \<open>The processes a result hands over: its child, and those whose termination was not confirmed.\<close>

definition handed :: "SuperviseModuleStartResult \<Rightarrow> ModuleProcess list" where
  "handed r = (case sr_child r of None \<Rightarrow> [] | Some p \<Rightarrow> [p]) @ sr_retained r"

abbreviation all_running :: "ModuleProcess list \<Rightarrow> bool" where
  "all_running ps \<equiv> (\<forall>p \<in> set ps. mp_state p = Running)"

definition attempt_ok ::
  "ModuleConfig \<Rightarrow> RuntimeOptions \<Rightarrow> nat \<Rightarrow> u32 \<Rightarrow> ModuleProcess list
     \<Rightarrow> SuperviseModuleStartResult + ModuleHealthTransition list \<times> ModuleProcess list \<Rightarrow> bool" where
  "attempt_ok module options m attempts retained r =
     (case r of
        Inl result \<Rightarrow> result_ok module m result \<and> all_running (handed result)
          \<and> set retained \<subseteq> set (sr_retained result)
      | Inr (ts, kept) \<Rightarrow> report_ok module m ts Restarting \<and> attempts \<le> restart_budget module options
          \<and> all_running kept \<and> set retained \<subseteq> set kept)"

lemma attempt_facts:
  assumes a: "supervise_attempt env os module pre_spawn timeout options attempts state ts retained t = (r, t')"
    and rep: "report_ok module n ts state" and state: "state = Starting \<or> state = Restarting"
    and n: "n \<le> m" "unat attempts \<le> m" and run: "all_running retained"
  shows "t \<le> t' \<and> attempt_ok module options m attempts retained r"
proof -
  let ?force = "op_force_terminate_failure options"
  obtain x t1 where x: "spawn_module_capture_first_event env os module pre_spawn timeout ?force t = (x, t1)" by fastforce
  have ext: "report_ok module m (ts @ xs) s'"
    if "health_chain (Some state) xs (Some s')" "\<forall>y \<in> set xs. ht_module_id y = mc_id module \<and> ht_attempt y = attempts" for xs s'
    using report_extend [OF rep that(1) n(1)] that(2) n(2) by simp
  have failed: "t \<le> t' \<and> attempt_ok module options m attempts retained r"
    if "x = Inl (e, u)" "t \<le> t1" "\<forall>p \<in> set_option u. mp_state p = Running" for e u
    using a x that run state retry_in_budget(1) [of module options attempts]
    by (auto simp: supervise_attempt_def Let_def attempt_ok_def result_ok_def handed_def split: if_splits option.splits
        intro!: ext)
  from x show ?thesis
  proof (cases rule: spawn_attempt_cases)
    case (started event child)
    obtain y c t2 where y: "terminate os ?force child t1 = (y, c, t2)" by (metis prod_cases3)
    note f = terminate_facts [OF y]
    show ?thesis
    proof (cases "should_restart module options attempts")
      case False
      then show ?thesis
        using a x started run state
        by (auto simp: supervise_attempt_def Let_def attempt_ok_def result_ok_def handed_def intro!: ext)
    next
      case True
      then show ?thesis
        using a x y started run state f(3,5) retry_in_budget(2) [OF True]
        by (cases y) (auto simp: supervise_attempt_def Let_def attempt_ok_def result_ok_def handed_def intro!: ext)
    qed
  qed (use failed in auto)
qed

section \<open>The start loop\<close>

text \<open>What the loop returns, whenever it returns.\<close>

definition loop_ready :: "ModuleConfig \<Rightarrow> nat \<Rightarrow> ModuleHealthState \<Rightarrow> ModuleHealthTransition list \<Rightarrow> ModuleProcess list \<Rightarrow> bool" where
  "loop_ready module n state ts retained \<longleftrightarrow>
     report_ok module n ts state \<and> (state = Starting \<or> state = Restarting) \<and> all_running retained"

definition loop_done :: "ModuleConfig \<Rightarrow> nat \<Rightarrow> ModuleProcess list \<Rightarrow> nat \<Rightarrow> SuperviseModuleStartResult \<times> nat \<Rightarrow> bool" where
  "loop_done module n retained t y \<longleftrightarrow>
     t \<le> snd y \<and> result_ok module n (fst y) \<and> all_running (handed (fst y)) \<and> set retained \<subseteq> set (sr_retained (fst y))"

lemma attempt_step:
  assumes "supervise_attempt env os module pre_spawn timeout options attempts state ts retained t = (r, t')"
    and "loop_ready module n state ts retained" and "n \<le> m" "unat attempts \<le> m"
  shows "case r of Inl result \<Rightarrow> loop_done module m retained t (result, t')
    | Inr (ts', kept) \<Rightarrow> loop_ready module m Restarting ts' kept \<and> set retained \<subseteq> set kept \<and> t \<le> t'
        \<and> attempts \<le> restart_budget module options"
  using attempt_facts [OF assms(1), of n m] assms(2-)
  by (auto simp: loop_ready_def loop_done_def attempt_ok_def split: sum.splits)

lemma loop_done_from:
  "loop_done module n kept t1 y \<Longrightarrow> set retained \<subseteq> set kept \<Longrightarrow> t \<le> t1 \<Longrightarrow> loop_done module n retained t y"
  by (auto simp: loop_done_def)

lemma supervise_loop_result:
  assumes "supervise_loop env os module pre_spawn timeout options attempts state ts retained t = Some y"
  shows "loop_ready module (2 ^ 32 - 1) state ts retained \<Longrightarrow> loop_done module (2 ^ 32 - 1) retained t y"
proof (rule supervise_loop.raw_induct
    [where P = "\<lambda>env os module pre_spawn timeout options attempts state ts retained t y.
        loop_ready module (2 ^ 32 - 1) state ts retained \<longrightarrow> loop_done module (2 ^ 32 - 1) retained t y",
      OF _ assms, rule_format])
  fix loop env os module pre_spawn timeout options attempts state ts retained t y
  assume IH: "\<And>env os module pre_spawn timeout options attempts state ts retained t y.
      loop env os module pre_spawn timeout options attempts state ts retained t = Some y \<Longrightarrow>
      loop_ready module (2 ^ 32 - 1) state ts retained \<Longrightarrow> loop_done module (2 ^ 32 - 1) retained t y"
    and eq: "(let attempts = attempts + 1 in
      case supervise_attempt env os module pre_spawn timeout options attempts state ts retained t of
        (Inl result, t) \<Rightarrow> Some (result, t)
      | (Inr (ts, retained), t) \<Rightarrow>
          loop env os module pre_spawn timeout options attempts Restarting ts retained t) = Some y"
    and ready: "loop_ready module (2 ^ 32 - 1) state ts retained"
  obtain r t1 where a: "supervise_attempt env os module pre_spawn timeout options (attempts + 1) state ts retained t = (r, t1)"
    by fastforce
  have "unat (attempts + 1) < 2 ^ LENGTH(32)" by (rule unsigned_less)
  then have "unat (attempts + 1) \<le> 2 ^ 32 - 1" by simp
  note step = attempt_step [OF a ready order_refl this]
  show "loop_done module (2 ^ 32 - 1) retained t y"
  proof (cases r)
    case (Inl result)
    then show ?thesis using eq a step by simp
  next
    case (Inr p)
    then obtain ts1 kept where p: "p = (ts1, kept)" by fastforce
    have l: "loop env os module pre_spawn timeout options (attempts + 1) Restarting ts1 kept t1 = Some y"
      using eq a Inr p by simp
    have r: "loop_ready module (2 ^ 32 - 1) Restarting ts1 kept" "set retained \<subseteq> set kept" "t \<le> t1"
      using step Inr p by simp_all
    show ?thesis by (rule loop_done_from [OF IH [OF l r(1)] r(2,3)])
  qed
qed assumption

text \<open>With a budget below the largest \<open>u32\<close> the loop returns, after at most one more attempt than the budget.\<close>

lemma supervise_loop_returns:
  assumes "unat (restart_budget module options) < 2 ^ 32 - 1" and "attempts \<le> restart_budget module options"
    and "loop_ready module (unat attempts) state ts retained"
  shows "\<exists>y. supervise_loop env os module pre_spawn timeout options attempts state ts retained t = Some y
    \<and> loop_done module (Suc (unat (restart_budget module options))) retained t y"
  using assms(2,3)
proof (induction "unat (restart_budget module options) - unat attempts" arbitrary: attempts state ts retained t
    rule: less_induct)
  case less
  let ?b = "restart_budget module options"
  have le: "unat attempts \<le> unat ?b" using less.prems(1) by (simp add: word_le_nat_alt)
  have succ: "unat (attempts + 1) = Suc (unat attempts)"
    using le assms(1) unat_add_no_overflow [of attempts 1] by simp
  obtain r t1 where a: "supervise_attempt env os module pre_spawn timeout options (attempts + 1) state ts retained t = (r, t1)"
    by fastforce
  note unfold = supervise_loop.simps [of env os module pre_spawn timeout options attempts state ts retained t]
  show ?case
  proof (cases r)
    case (Inl result)
    have "loop_done module (Suc (unat ?b)) retained t (result, t1)"
      using attempt_step [OF a less.prems(2), of "Suc (unat ?b)"] le succ Inl by simp
    then show ?thesis using unfold a Inl by simp
  next
    case (Inr p)
    then obtain ts1 kept where p: "p = (ts1, kept)" by fastforce
    have next_ready: "loop_ready module (unat (attempts + 1)) Restarting ts1 kept \<and> set retained \<subseteq> set kept \<and> t \<le> t1
        \<and> attempts + 1 \<le> ?b"
      using attempt_step [OF a less.prems(2), of "unat (attempts + 1)"] succ Inr p by simp
    then have "unat ?b - unat (attempts + 1) < unat ?b - unat attempts" by (auto simp: succ word_le_nat_alt)
    from less.hyps [OF this] next_ready obtain y where
      "supervise_loop env os module pre_spawn timeout options (attempts + 1) Restarting ts1 kept t1 = Some y"
      "loop_done module (Suc (unat ?b)) kept t1 y" by blast
    then show ?thesis using unfold a Inr p next_ready loop_done_from by auto
  qed
qed

lemma loop_ready_start: "loop_ready module n Starting [transition module None Starting 0] []"
  by (simp add: loop_ready_def report_ok_def)

lemma mcp_start_facts:
  assumes "supervise_mcp_module_start env module pre_spawn timeout t = (r, t')"
  shows "t \<le> t'" "handed r = []" "sr_event r = None \<longrightarrow> sr_terminal_error r \<noteq> None"
    "report_ok module 1 (sr_transitions r) (if sr_event r = None then Stopped else Healthy)"
  using assms
  by (auto simp: supervise_mcp_module_start_def Let_def handed_def report_ok_def split: sum.splits)

lemma start_facts:
  assumes "supervise_module_start env os module pre_spawn timeout options t = Some (r, t')"
  shows "t \<le> t'" "all_running (handed r)" "\<not> module_uses_mcp module pre_spawn \<Longrightarrow> sr_event r \<noteq> None \<Longrightarrow> sr_child r \<noteq> None"
    "module_uses_mcp module pre_spawn \<Longrightarrow> sr_child r = None" "sr_event r = None \<Longrightarrow> sr_child r = None"
proof -
  have "t \<le> t' \<and> all_running (handed r) \<and> (\<not> module_uses_mcp module pre_spawn \<longrightarrow> sr_event r \<noteq> None \<longrightarrow> sr_child r \<noteq> None)
     \<and> (module_uses_mcp module pre_spawn \<longrightarrow> sr_child r = None) \<and> (sr_event r = None \<longrightarrow> sr_child r = None)"
  proof (cases "module_uses_mcp module pre_spawn")
    case True
    then have "supervise_mcp_module_start env module pre_spawn timeout t = (r, t')"
      using assms by (simp add: supervise_module_start_def)
    from mcp_start_facts [OF this] show ?thesis using True by (simp add: handed_def split: option.splits)
  next
    case False
    then have "loop_done module (2 ^ 32 - 1) [] t (r, t')"
      using assms supervise_loop_result loop_ready_start by (simp add: supervise_module_start_def)
    then show ?thesis using False by (auto simp: loop_done_def result_ok_def)
  qed
  then show "t \<le> t'" "all_running (handed r)" "\<not> module_uses_mcp module pre_spawn \<Longrightarrow> sr_event r \<noteq> None \<Longrightarrow> sr_child r \<noteq> None"
    "module_uses_mcp module pre_spawn \<Longrightarrow> sr_child r = None" "sr_event r = None \<Longrightarrow> sr_child r = None"
    by auto
qed

section \<open>Custody and the invariant of supervision\<close>

definition owned :: "SupervisedRuntime \<Rightarrow> ModuleProcess list" where
  "owned sv = map snd (sv_live_children sv) @ sv_retained_cleanup sv"

definition sup_inv :: "SupervisedRuntime \<Rightarrow> bool" where
  "sup_inv sv \<longleftrightarrow>
     bt_inv (sv_live_children sv) \<and> fst ` set (sv_live_children sv) \<subseteq> rt_loaded_modules (sv_handle sv)
     \<and> all_running (owned sv) \<and> rt_loaded_modules (sv_handle sv) \<subseteq> mc_id ` set (mk_modules (rt_config (sv_handle sv)))"

text \<open>Nothing owned is lost: it is still owned, or the system confirmed its exit meanwhile.\<close>

definition custody :: "Os \<Rightarrow> u32 set \<Rightarrow> nat \<Rightarrow> SupervisedRuntime \<Rightarrow> bool" where
  "custody os pids t sv \<longleftrightarrow>
     t \<le> sv_tick sv \<and> (\<forall>pid \<in> pids. pid \<in> mp_pid ` set (owned sv) \<or> confirmed os t (sv_tick sv) pid)"

abbreviation owned_pids :: "SupervisedRuntime \<Rightarrow> u32 set" where
  "owned_pids sv \<equiv> mp_pid ` set (owned sv)"

text \<open>What supervision may do to the handle of the services.\<close>

definition handle_moves :: "MetaRuntimeHandle \<Rightarrow> MetaRuntimeHandle \<Rightarrow> bool" where
  "handle_moves h h' \<longleftrightarrow>
     mk_modules (rt_config h') = mk_modules (rt_config h) \<and> gate_view h' = gate_view h
     \<and> (services_inv h \<longrightarrow> services_inv h')"

definition supervises :: "Os \<Rightarrow> SupervisedRuntime \<Rightarrow> SupervisedRuntime \<Rightarrow> bool" where
  "supervises os sv sv' \<longleftrightarrow>
     (sup_inv sv \<longrightarrow> sup_inv sv' \<and> custody os (owned_pids sv) (sv_tick sv) sv' \<and> handle_moves (sv_handle sv) (sv_handle sv'))"

named_theorems supv

lemma handle_moves_refl: "handle_moves h h"
  by (simp add: handle_moves_def)

lemma handle_moves_trans: "handle_moves h h1 \<Longrightarrow> handle_moves h1 h2 \<Longrightarrow> handle_moves h h2"
  by (simp add: handle_moves_def)

lemma custody_trans:
  assumes "custody os pids t sv1" and "custody os (owned_pids sv1) (sv_tick sv1) sv2"
  shows "custody os pids t sv2"
  using assms confirmed_mono [of os "sv_tick sv1" "sv_tick sv2" _ t "sv_tick sv2"]
    confirmed_mono [of os t "sv_tick sv1" _ t "sv_tick sv2"]
  unfolding custody_def by (meson le_trans order_refl)

lemma supervises_refl [supv]: "supervises os sv sv"
  by (simp add: supervises_def custody_def handle_moves_refl)

lemma supervises_trans: "supervises os sv sv1 \<Longrightarrow> supervises os sv1 sv2 \<Longrightarrow> supervises os sv sv2"
  unfolding supervises_def using custody_trans handle_moves_trans by blast

lemma supervises_handle:
  assumes "handle_moves (sv_handle sv) h'" and "sv_tick sv \<le> rt_tick h'"
    and "rt_loaded_modules (sv_handle sv) \<subseteq> rt_loaded_modules h'"
    and "sup_inv sv \<Longrightarrow> rt_loaded_modules h' \<subseteq> mc_id ` set (mk_modules (rt_config (sv_handle sv)))"
  shows "supervises os sv (sv\<lparr>sv_handle := h'\<rparr>)"
  using assms
  by (auto simp: supervises_def sup_inv_def custody_def owned_def sv_tick_def handle_moves_def)

lemma supervises_tick [supv]: "sv_tick sv \<le> t \<Longrightarrow> supervises os sv (at_tick t sv)"
  unfolding at_tick_def
  by (rule supervises_handle) (auto simp: handle_moves_def gate_view_def sup_inv_def services_defs)

lemma supervises_log [supv]: "supervises os sv (log_event event sv)"
  unfolding log_event_def
  by (rule supervises_handle)
    (auto simp: handle_moves_def gate_view_def sup_inv_def sv_tick_def
      intro: services_set_events insert_event_sorted_sorted dest: services_parts)

lemma sv_tick_at [simp]: "sv_tick (at_tick t sv) = t" "sv_tick (log_event e sv) = sv_tick sv"
  by (simp_all add: sv_tick_def at_tick_def log_event_def)

lemma supervises_warn [supv]: "supervises os sv (warn env module_id error sv)"
  unfolding warn_def by (rule supervises_trans [OF supervises_log supervises_tick]) simp

lemma supervises_discovery [supv]: "supervises os sv (set_discovery modules sv)"
  unfolding set_discovery_def Let_def
  by (rule supervises_handle) (auto simp: handle_moves_def gate_view_def sup_inv_def sv_tick_def services_defs)

lemma supervises_discover [supv]: "supervises os sv (discover module_id sv)"
  by (auto simp: discover_def Let_def intro: supv)

lemma supervises_load:
  "module_id \<in> mc_id ` set (mk_modules (rt_config (sv_handle sv))) \<Longrightarrow> supervises os sv (load_module module_id sv)"
  unfolding load_module_def
  by (rule supervises_handle) (auto simp: handle_moves_def gate_view_def sup_inv_def sv_tick_def services_defs)

text \<open>Taking over running processes adds to what is owned.\<close>

lemma fold_retain [simp]: "all_running ps \<Longrightarrow> fold retain ps rs = rs @ ps"
  by (induction ps arbitrary: rs) (auto simp: retain_def)

lemma supervises_retained:
  "all_running ps \<Longrightarrow> supervises os sv (sv\<lparr>sv_retained_cleanup := sv_retained_cleanup sv @ ps\<rparr>)"
  by (auto simp: supervises_def sup_inv_def custody_def owned_def sv_tick_def handle_moves_refl)

lemma supervises_transitions [supv]: "supervises os sv (sv\<lparr>sv_transitions := ts\<rparr>)"
  by (auto simp: supervises_def sup_inv_def custody_def owned_def sv_tick_def handle_moves_refl)

lemma supervises_take_over:
  assumes "all_running (sr_retained r)" and "sv_tick sv \<le> t"
  shows "supervises os sv (take_over env module_id r t sv)"
    and "mp_pid ` set (sr_retained r) \<subseteq> owned_pids (take_over env module_id r t sv)"
proof -
  let ?sv1 = "sv\<lparr>sv_transitions := sv_transitions sv @ sr_transitions r\<rparr>"
  let ?sv2 = "?sv1\<lparr>sv_retained_cleanup := sv_retained_cleanup ?sv1 @ sr_retained r\<rparr>"
  have "sv_tick ?sv2 = sv_tick sv" by (simp add: sv_tick_def)
  then have "supervises os ?sv2 (at_tick t ?sv2)" using assms(2) by (intro supervises_tick) simp
  then have "supervises os sv (at_tick t ?sv2)"
    by (rule supervises_trans [OF supervises_trans [OF supervises_transitions supervises_retained [OF assms(1)]]])
  moreover have eq: "take_over env module_id r t sv
      = (case sr_terminal_error r of None \<Rightarrow> at_tick t ?sv2 | Some error \<Rightarrow> warn env module_id error (at_tick t ?sv2))"
    using assms(1) by (simp add: take_over_def Let_def split: option.split)
  ultimately show "supervises os sv (take_over env module_id r t sv)"
    using supervises_warn supervises_trans by (auto split: option.splits)
  show "mp_pid ` set (sr_retained r) \<subseteq> owned_pids (take_over env module_id r t sv)"
    unfolding eq by (auto simp: owned_def warn_def at_tick_def log_event_def split: option.splits)
qed

lemma live_owned: "bt_get (sv_live_children sv) m = Some p \<Longrightarrow> p \<in> set (owned sv)"
  by (auto simp: owned_def dest: bt_get_in_set intro: rev_image_eqI)

text \<open>The live children as a set, when the child of one module changes.\<close>

lemma live_insert: "bt_inv m \<Longrightarrow> set (bt_insert k v m) = insert (k, v) {e \<in> set m. fst e \<noteq> k}"
  by (auto simp: bt_get_set_eq bt_inv_insert bt_get_insert split: if_splits)

lemma set_owned: "set (owned sv) = snd ` set (sv_live_children sv) \<union> set (sv_retained_cleanup sv)"
  by (simp add: owned_def)

lemma supervises_live:
  assumes "\<And>e. sup_inv sv \<Longrightarrow> e \<in> set (sv_live_children sv) \<Longrightarrow> fst e = m \<Longrightarrow>
      mp_pid (snd e) = mp_pid p \<or> confirmed os (sv_tick sv) t (mp_pid (snd e))"
    and "mp_state p = Running" and "sup_inv sv \<Longrightarrow> m \<in> rt_loaded_modules (sv_handle sv)" and "sv_tick sv \<le> t"
  shows "supervises os sv (at_tick t (sv\<lparr>sv_live_children := bt_insert m p (sv_live_children sv)\<rparr>))"
proof -
  let ?sv1 = "at_tick t (sv\<lparr>sv_live_children := bt_insert m p (sv_live_children sv)\<rparr>)"
  have mv: "handle_moves (sv_handle sv) (sv_handle ?sv1)"
    by (auto simp: handle_moves_def gate_view_def at_tick_def services_defs)
  show ?thesis
  proof (unfold supervises_def, intro impI conjI mv)
    assume inv: "sup_inv sv"
    then have set: "set (sv_live_children ?sv1) = insert (m, p) {e \<in> set (sv_live_children sv). fst e \<noteq> m}"
      by (simp add: at_tick_def sup_inv_def live_insert)
    have rest: "sv_retained_cleanup ?sv1 = sv_retained_cleanup sv" by (simp add: at_tick_def)
    show "sup_inv ?sv1" using inv assms(2,3) set
      by (auto simp: sup_inv_def set_owned rest at_tick_def bt_inv_insert)
    show "custody os (owned_pids sv) (sv_tick sv) ?sv1"
      using assms(1) [OF inv] assms(4) by (auto simp: custody_def set_owned set rest image_iff)
  qed
qed

lemma replace_existing_facts:
  assumes "replace_existing os m sv = (r, sv1)"
  shows "supervises os sv sv1"
    and "r = Inr u \<Longrightarrow> sup_inv sv \<Longrightarrow> \<forall>e \<in> set (sv_live_children sv1). fst e \<noteq> m"
proof -
  have "supervises os sv sv1 \<and> (r = Inr u \<longrightarrow> sup_inv sv \<longrightarrow> (\<forall>e \<in> set (sv_live_children sv1). fst e \<noteq> m))"
  proof (cases "bt_get (sv_live_children sv) m")
    case None
    then show ?thesis using assms supervises_refl
      by (auto simp: replace_existing_def sup_inv_def dest: bt_in_set_get)
  next
    case (Some p)
    obtain x p1 t where x: "terminate os (op_force_terminate_failure (sv_options sv)) p (sv_tick sv) = (x, p1, t)"
      by (metis prod_cases3)
    note f = terminate_facts [OF x]
    have p: "mp_state p = Running" if "sup_inv sv" using that live_owned [OF Some] by (auto simp: sup_inv_def)
    have only: "snd e = p" if "sup_inv sv" "e \<in> set (sv_live_children sv)" "fst e = m" for e
      using that Some bt_in_set_get [of "sv_live_children sv" m "snd e"] by (auto simp: sup_inv_def)
    show ?thesis
    proof (cases x)
      case (Inl err)
      have "bt_insert m p1 (bt_remove m (sv_live_children sv)) = bt_insert m p1 (sv_live_children sv)" if "sup_inv sv"
        using that by (intro bt_ext) (auto simp: sup_inv_def bt_inv_insert bt_inv_remove bt_get_insert bt_get_remove)
      then have "sv1 = at_tick t (sv\<lparr>sv_live_children := bt_insert m p1 (sv_live_children sv)\<rparr>)" if "sup_inv sv"
        using that assms Some x Inl by (simp add: replace_existing_def)
      moreover have "supervises os sv (at_tick t (sv\<lparr>sv_live_children := bt_insert m p1 (sv_live_children sv)\<rparr>))"
      proof (rule supervises_live)
        show "mp_pid (snd e) = mp_pid p1 \<or> confirmed os (sv_tick sv) t (mp_pid (snd e))"
          if "sup_inv sv" "e \<in> set (sv_live_children sv)" "fst e = m" for e using only [OF that] f(1) by simp
        show "mp_state p1 = Running" using f(5) Inl by simp
        show "m \<in> rt_loaded_modules (sv_handle sv)" if "sup_inv sv"
          using that bt_get_in_set [OF Some] by (auto simp: sup_inv_def)
      qed (rule f(3))
      ultimately show ?thesis using assms Some x Inl by (auto simp: supervises_def replace_existing_def)
    next
      case (Inr v)
      have sv1: "r = Inr ()" "sv1 = at_tick t (sv\<lparr>sv_live_children := bt_remove m (sv_live_children sv)\<rparr>)"
        using assms Some x Inr by (simp_all add: replace_existing_def)
      have gone: "confirmed os (sv_tick sv) t (mp_pid p)" if "sup_inv sv" using f(4) Inr p [OF that] by simp
      have "handle_moves (sv_handle sv) (sv_handle sv1)"
        by (auto simp: sv1 handle_moves_def gate_view_def at_tick_def services_defs)
      moreover have "sup_inv sv1" if "sup_inv sv"
        using that by (auto simp: sv1 sup_inv_def set_owned at_tick_def bt_inv_remove)
      moreover have "custody os (owned_pids sv) (sv_tick sv) sv1" if "sup_inv sv"
        using that gone only f(3) by (fastforce simp: sv1 custody_def set_owned at_tick_def sv_tick_def)
      ultimately show ?thesis by (auto simp: supervises_def sv1 at_tick_def)
    qed
  qed
  then show "supervises os sv sv1" "r = Inr u \<Longrightarrow> sup_inv sv \<Longrightarrow> \<forall>e \<in> set (sv_live_children sv1). fst e \<noteq> m"
    by blast+
qed

text \<open>Making a fresh process the live child: it becomes owned, or was confirmed gone.\<close>

lemma terminate_retained:
  assumes "terminate os False child (sv_tick sv) = (x, child1, t)" and "mp_state child = Running"
    and "sv1 = (case x of Inl e \<Rightarrow> (at_tick t sv)\<lparr>sv_retained_cleanup := retain child1 (sv_retained_cleanup sv)\<rparr>
      | Inr _ \<Rightarrow> at_tick t sv)"
  shows "supervises os sv sv1 \<and> custody os {mp_pid child} (sv_tick sv) sv1"
proof -
  note f = terminate_facts [OF assms(1)]
  show ?thesis
  proof (cases x)
    case (Inl e)
    have "sv1 = at_tick t (sv\<lparr>sv_retained_cleanup := sv_retained_cleanup sv @ [child1]\<rparr>)"
      using assms(3) Inl f(5) by (simp add: retain_def at_tick_def)
    moreover have "all_running [child1]" using f(5) Inl by simp
    ultimately show ?thesis
      using supervises_trans [OF supervises_retained supervises_tick, of "[child1]" sv t os] f(1,3)
      by (auto simp: custody_def sv_tick_def owned_def at_tick_def)
  next
    case (Inr u)
    then show ?thesis using assms(2,3) f(3,4) supervises_tick by (simp add: custody_def)
  qed
qed

lemma custody_then:
  assumes "custody os pids t sv1" and "supervises os sv1 sv2" and "sup_inv sv1"
  shows "custody os pids t sv2"
  using assms custody_trans by (auto simp: supervises_def)

lemma custody_earlier: "custody os pids t1 sv \<Longrightarrow> t \<le> t1 \<Longrightarrow> custody os pids t sv"
  using confirmed_mono [of os t1 "sv_tick sv" _ t "sv_tick sv"] by (auto simp: custody_def)

lemma supervisesD:
  assumes "supervises os sv sv'" and "sup_inv sv"
  shows "sup_inv sv'" "custody os (owned_pids sv) (sv_tick sv) sv'" "handle_moves (sv_handle sv) (sv_handle sv')"
    "sv_tick sv \<le> sv_tick sv'"
  using assms by (auto simp: supervises_def custody_def)

lemma adopt_child_facts:
  assumes a: "adopt_child env os m event child sv = (r, sv')" and run: "mp_state child = Running"
    and m: "m \<in> mc_id ` set (mk_modules (rt_config (sv_handle sv)))" and inv: "sup_inv sv"
  shows "supervises os sv sv' \<and> custody os {mp_pid child} (sv_tick sv) sv'"
proof -
  obtain x sv1 where x: "replace_existing os m sv = (x, sv1)" by fastforce
  note e = replace_existing_facts [OF x]
  note d = supervisesD [OF e(1) inv]
  show ?thesis
  proof (cases x)
    case (Inl err)
    obtain y c t where y: "terminate os False child (sv_tick sv1) = (y, c, t)" by (metis prod_cases3)
    define sv2 where "sv2 = (case y of Inl e \<Rightarrow> (at_tick t sv1)\<lparr>sv_retained_cleanup := retain c (sv_retained_cleanup sv1)\<rparr>
      | Inr _ \<Rightarrow> at_tick t sv1)"
    note t = terminate_retained [OF y run sv2_def]
    have "\<exists>error. sv' = warn env m error sv2"
      using a x y Inl by (auto simp: adopt_child_def sv2_def at_tick_def Let_def split: sum.splits)
    then have w: "supervises os sv2 sv'" using supervises_warn by auto
    have "custody os {mp_pid child} (sv_tick sv1) sv'"
      using t custody_then [OF _ w] supervisesD(1) [OF _ d(1)] by blast
    then show ?thesis
      using t w supervises_trans [OF e(1)] supervises_trans custody_earlier [OF _ d(4)] by blast
  next
    case (Inr u)
    let ?sv2 = "load_module m sv1"
    let ?sv3 = "at_tick (sv_tick ?sv2) (?sv2\<lparr>sv_live_children := bt_insert m child (sv_live_children ?sv2)\<rparr>)"
    have l: "supervises os sv1 ?sv2"
      using m d(3) by (intro supervises_load) (simp add: handle_moves_def)
    have "supervises os ?sv2 ?sv3"
    proof (rule supervises_live)
      show "mp_pid (snd e) = mp_pid child \<or> confirmed os (sv_tick ?sv2) (sv_tick ?sv2) (mp_pid (snd e))"
        if "e \<in> set (sv_live_children ?sv2)" "fst e = m" for e
        using that e(2) [OF Inr inv] by (auto simp: load_module_def)
    qed (simp_all add: run load_module_def)
    moreover have "sv' = log_event event ?sv3"
      using a x Inr by (simp add: adopt_child_def at_tick_def sv_tick_def Let_def)
    ultimately have s: "supervises os sv1 sv'" using supervises_trans [OF l] supervises_trans supervises_log by metis
    have "child \<in> set (owned sv')"
      using d(1) live_insert [of "sv_live_children sv1" m child] \<open>sv' = _\<close>
      by (auto simp: set_owned sup_inv_def log_event_def at_tick_def load_module_def image_iff)
    then have "custody os {mp_pid child} (sv_tick sv) sv'"
      using supervisesD(4) [OF s d(1)] d(4) by (auto simp: custody_def)
    then show ?thesis using supervises_trans [OF e(1) s] by blast
  qed
qed

lemma adopt_mcp_facts:
  assumes a: "adopt_mcp env os m event sv = (r, sv')"
    and m: "m \<in> mc_id ` set (mk_modules (rt_config (sv_handle sv)))" and inv: "sup_inv sv"
  shows "supervises os sv sv'"
proof -
  obtain x sv1 where x: "replace_existing os m sv = (x, sv1)" by fastforce
  note e = replace_existing_facts [OF x]
  have "m \<in> mc_id ` set (mk_modules (rt_config (sv_handle sv1)))"
    using m supervisesD(3) [OF e(1) inv] by (simp add: handle_moves_def)
  then have "supervises os sv1 sv'"
    using a x supervises_trans [OF supervises_load supervises_log] supervises_warn
    by (auto simp: adopt_mcp_def Let_def split: sum.splits)
  then show ?thesis using supervises_trans [OF e(1)] by blast
qed

lemma module_configured:
  "module_and_prespawn h m = Some (module, pre) \<Longrightarrow> mc_id module = m \<and> module \<in> set (mk_modules (rt_config h))"
  by (auto simp: module_and_prespawn_def find_Some_iff split: option.splits)

text \<open>
  Spawning loses no owned process, and none of the processes its start attempts handed over.
\<close>

lemma spawn_member_facts:
  assumes sp: "spawn_member env os m timeout sv = Some (r, sv')" and inv: "sup_inv sv"
  shows "supervises os sv sv'"
    and "module_and_prespawn (sv_handle sv) m = Some (module, pre) \<Longrightarrow>
      supervise_module_start env os module pre timeout (sv_options sv) (sv_tick sv) = Some (result, t) \<Longrightarrow>
      custody os (mp_pid ` set (handed result)) t sv'"
proof -
  have "supervises os sv sv' \<and> (\<forall>module pre result t. module_and_prespawn (sv_handle sv) m = Some (module, pre) \<longrightarrow>
      supervise_module_start env os module pre timeout (sv_options sv) (sv_tick sv) = Some (result, t) \<longrightarrow>
      custody os (mp_pid ` set (handed result)) t sv')"
  proof (cases "module_and_prespawn (sv_handle sv) m")
    case None
    then show ?thesis using sp supervises_refl by (auto simp: spawn_member_def)
  next
    case (Some mp)
    then obtain module pre where mp: "module_and_prespawn (sv_handle sv) m = Some (module, pre)" by fastforce
    then obtain result t where st: "supervise_module_start env os module pre timeout (sv_options sv) (sv_tick sv) = Some (result, t)"
      using sp by (auto simp: spawn_member_def split: option.splits)
    note f = start_facts [OF st]
    let ?sv1 = "take_over env m result t sv" let ?sv2 = "discover m ?sv1"
    have ret: "all_running (sr_retained result)" using f(2) by (simp add: handed_def)
    note tk = supervises_take_over [OF ret f(1), where env = env and module_id = m]
    have d: "supervises os sv ?sv2" using supervises_trans [OF tk(1) supervises_discover] .
    have i1: "sup_inv ?sv1" and i2: "sup_inv ?sv2" using supervisesD(1) tk(1) d inv by blast+
    have tick: "t \<le> sv_tick ?sv1" "sv_tick ?sv2 = sv_tick ?sv1"
      by (auto simp: take_over_def warn_def Let_def at_tick_def sv_tick_def log_event_def discover_def set_discovery_def
          split: option.split)
    have c1: "custody os (mp_pid ` set (sr_retained result)) t ?sv1" using tk(2) tick by (auto simp: custody_def)
    have conf: "m \<in> mc_id ` set (mk_modules (rt_config (sv_handle ?sv2)))"
      using module_configured [OF mp] supervisesD(3) [OF d inv] by (auto simp: handle_moves_def)
    consider (failed) "sr_event result = None" "sv' = ?sv1"
      | (child) event c where "sr_child result = Some c" "adopt_child env os m event c ?sv2 = (r, sv')"
      | (mcp) event where "sr_child result = None" "adopt_mcp env os m event ?sv2 = (r, sv')"
      using sp mp st f(3,4)
      by (fastforce simp: spawn_member_def Let_def split: option.splits if_splits)
    then have "supervises os sv sv' \<and> custody os (mp_pid ` set (handed result)) t sv'"
    proof cases
      case failed
      then show ?thesis using f(5) tk(1) c1 by (simp add: handed_def)
    next
      case (child event c)
      note ad = adopt_child_facts [OF child(2) _ conf i2]
      have "mp_state c = Running" using f(2) child(1) by (simp add: handed_def)
      note ad = ad [OF this]
      have "custody os (mp_pid ` set (sr_retained result)) t sv'"
        using custody_then [OF custody_then [OF c1 supervises_discover i1]] ad i2 by blast
      moreover have "custody os {mp_pid c} t sv'" using ad custody_earlier tick by metis
      ultimately show ?thesis using ad supervises_trans [OF d] child(1) by (auto simp: custody_def handed_def)
    next
      case (mcp event)
      note ad = adopt_mcp_facts [OF mcp(2) conf i2]
      show ?thesis
        using ad supervises_trans [OF d] mcp(1) custody_then [OF custody_then [OF c1 supervises_discover i1] ad i2]
        by (auto simp: handed_def)
    qed
    then show ?thesis using mp st by auto
  qed
  then show "supervises os sv sv'" "module_and_prespawn (sv_handle sv) m = Some (module, pre) \<Longrightarrow>
      supervise_module_start env os module pre timeout (sv_options sv) (sv_tick sv) = Some (result, t) \<Longrightarrow>
      custody os (mp_pid ` set (handed result)) t sv'"
    by blast+
qed

lemma reconcile_loop_facts:
  "reconcile_loop env os ids timeout added sv = Some (r, sv') \<Longrightarrow> sup_inv sv \<Longrightarrow> supervises os sv sv'"
proof (induction env os ids timeout added sv arbitrary: r sv' rule: reconcile_loop.induct)
  case (1 env os timeout added sv)
  then show ?case using supervises_refl by simp
next
  case (2 env os m ids timeout added sv)
  show ?case
  proof (cases "is_module_loaded (sv_handle sv) m")
    case True
    then show ?thesis using 2 by simp
  next
    case False
    then obtain x sv1 where x: "spawn_member env os m timeout sv = Some (x, sv1)"
      using "2.prems"(1) by (auto split: option.splits)
    note s = spawn_member_facts(1) [OF x "2.prems"(2)]
    show ?thesis
    proof (cases x)
      case (Inl e)
      then show ?thesis using s "2.prems"(1) x False by simp
    next
      case (Inr u)
      have "reconcile_loop env os ids timeout (added + 1) sv1 = Some (r, sv')" using "2.prems"(1) x False Inr by simp
      from "2.IH"(2) [OF False x refl Inr this supervisesD(1) [OF s "2.prems"(2)]] show ?thesis
        by (rule supervises_trans [OF s])
    qed
  qed
qed

lemma reconcile_facts:
  assumes "reconcile_modules env os modules timeout sv = Some (r, sv')" and "sup_inv sv"
  shows "supervises os sv sv'"
proof (cases "unconfigured (rt_config (sv_handle sv)) modules")
  case None
  have d: "supervises os sv (set_discovery modules sv)" by (rule supervises_discovery)
  show ?thesis
    using assms None supervises_trans [OF d] reconcile_loop_facts supervisesD(1) [OF d assms(2)]
    by (simp add: reconcile_modules_def)
next
  case (Some m)
  then show ?thesis using assms supervises_refl by (auto simp: reconcile_modules_def)
qed

section \<open>Shutdown\<close>

lemma shutdown_children_facts:
  assumes "shutdown_children os cs orphans reaped retained t = (orphans', reaped', retained', t')"
    and "all_running cs" and "all_running retained"
  shows "t \<le> t'" and "all_running retained'"
    and "mset (map mp_pid (cs @ retained)) + mset (map rp_process_id reaped)
      = mset (map mp_pid retained') + mset (map rp_process_id reaped')"
    and "\<forall>x \<in> set reaped'. x \<in> set reaped \<or> confirmed os t t' (rp_process_id x)"
    and "length retained \<le> length retained'" "orphans' = orphans + of_nat (length retained' - length retained)"
proof -
  have "t \<le> t' \<and> all_running retained'
    \<and> mset (map mp_pid (cs @ retained)) + mset (map rp_process_id reaped)
      = mset (map mp_pid retained') + mset (map rp_process_id reaped')
    \<and> (\<forall>x \<in> set reaped'. x \<in> set reaped \<or> confirmed os t t' (rp_process_id x))
    \<and> length retained \<le> length retained' \<and> orphans' = orphans + of_nat (length retained' - length retained)"
    using assms
  proof (induction os cs orphans reaped retained t rule: shutdown_children.induct)
    case (2 os c cs orphans reaped retained t)
    obtain x c1 t1 where x: "terminate os False c t = (x, c1, t1)" by (metis prod_cases3)
    note f = terminate_facts [OF x]
    have later: "confirmed os t1 t' q \<Longrightarrow> confirmed os t t' q" for q using confirmed_mono f(3) by blast
    show ?case
    proof (cases x)
      case (Inl e)
      have eq: "shutdown_children os cs (orphans + 1) reaped (retained @ [c1]) t1 = (orphans', reaped', retained', t')"
        using "2.prems"(1) x Inl f(5) by (simp add: retain_def)
      have "t1 \<le> t' \<and> all_running retained'
        \<and> mset (map mp_pid (cs @ retained @ [c1])) + mset (map rp_process_id reaped)
          = mset (map mp_pid retained') + mset (map rp_process_id reaped')
        \<and> (\<forall>x \<in> set reaped'. x \<in> set reaped \<or> confirmed os t1 t' (rp_process_id x))
        \<and> length (retained @ [c1]) \<le> length retained'
        \<and> orphans' = orphans + 1 + of_nat (length retained' - length (retained @ [c1]))"
        using "2.IH"(1) [OF x [symmetric] refl refl Inl] eq "2.prems"(2,3) f(5) Inl by (simp add: retain_def)
      moreover from this have "length retained' - length retained = Suc (length retained' - length (retained @ [c1]))"
        by auto
      ultimately show ?thesis using f(1,3) later by auto
    next
      case (Inr u)
      have eq: "shutdown_children os cs orphans (reaped @ [reaped_process c1]) retained t1 = (orphans', reaped', retained', t')"
        using "2.prems"(1) x Inr by simp
      have gone: "confirmed os t t1 (mp_pid c)" using f(4) Inr "2.prems"(2) by simp
      have "t1 \<le> t' \<and> all_running retained'
        \<and> mset (map mp_pid (cs @ retained)) + mset (map rp_process_id (reaped @ [reaped_process c1]))
          = mset (map mp_pid retained') + mset (map rp_process_id reaped')
        \<and> (\<forall>x \<in> set reaped'. x \<in> set (reaped @ [reaped_process c1]) \<or> confirmed os t1 t' (rp_process_id x))
        \<and> length retained \<le> length retained' \<and> orphans' = orphans + of_nat (length retained' - length retained)"
        using "2.IH"(2) [OF x [symmetric] refl refl Inr] eq "2.prems"(2,3) by simp
      moreover from this gone have "confirmed os t t' (mp_pid c)" using confirmed_mono [OF gone order_refl] by blast
      ultimately show ?thesis using f(1,3) later by (auto simp: reaped_process_def)
    qed
  qed simp
  then show "t \<le> t'" "all_running retained'"
    "mset (map mp_pid (cs @ retained)) + mset (map rp_process_id reaped)
      = mset (map mp_pid retained') + mset (map rp_process_id reaped')"
    "\<forall>x \<in> set reaped'. x \<in> set reaped \<or> confirmed os t t' (rp_process_id x)"
    "length retained \<le> length retained'" "orphans' = orphans + of_nat (length retained' - length retained)"
    by blast+
qed

text \<open>The cleanup report of a shutdown in terms of the processes it left.\<close>

lemma shutdown_facts:
  assumes "shutdown os sv = (report, sv')" and inv: "sup_inv sv"
  shows "sv_tick sv \<le> sv_tick sv'" and "all_running (sv_retained_cleanup sv')"
    and "mset (map mp_pid (owned sv)) = mset (map mp_pid (sv_retained_cleanup sv'))
      + mset (map rp_process_id (co_reaped (sd_physical_cleanup report)))"
    and "\<forall>x \<in> set (co_reaped (sd_physical_cleanup report)). confirmed os (sv_tick sv) (sv_tick sv') (rp_process_id x)"
    and "co_outstanding (sd_physical_cleanup report) = map process_observation (sv_retained_cleanup sv')"
    and "co_phase (sd_physical_cleanup report) = CleanupSettled \<longleftrightarrow> sv_retained_cleanup sv' = []"
    and "sd_terminated_modules report = sorted_list_of_set (rt_loaded_modules (sv_handle sv))"
    and "sv_handle sv' = (sv_handle sv)\<lparr>rt_loaded_modules := {}, rt_tick := sv_tick sv'\<rparr>"
    and "sv_live_children sv' = []" and "\<not> sv_running sv'"
    and "of_nat (length (sv_retained_cleanup sv')) \<le> sd_orphan_processes report"
proof -
  obtain o1 rd rt t1 where c:
    "shutdown_children os (map snd (sv_live_children sv)) 0 [] (sv_retained_cleanup sv) (sv_tick sv) = (o1, rd, rt, t1)"
    by (metis prod_cases4)
  obtain kept rd2 t2 where p: "progress_all os rt t1 = (kept, rd2, t2)" by (metis prod_cases3)
  have run: "all_running (map snd (sv_live_children sv))" "all_running (sv_retained_cleanup sv)"
    using inv by (auto simp: sup_inv_def owned_def)
  note f = shutdown_children_facts [OF c run] and g = progress_all_custody [OF p shutdown_children_facts(2) [OF c run]]
  have r: "sd_physical_cleanup report = (cleanup_observation kept rd2)\<lparr>co_reaped := rd @ rd2\<rparr>"
    "sd_terminated_modules report = sorted_list_of_set (rt_loaded_modules (sv_handle sv))"
    "sd_orphan_processes report = max o1 (of_nat (length kept))"
    and s: "sv' = at_tick t2 (sv\<lparr>sv_handle := (sv_handle sv)\<lparr>rt_loaded_modules := {}\<rparr>, sv_live_children := [],
         sv_retained_cleanup := kept, sv_lifecycle_events := shutdown_events (sv_lifecycle_events sv), sv_running := False\<rparr>)"
    using assms(1) c p by (auto simp: shutdown_def progress_def cleanup_observation_def Let_def)
  have tick: "sv_tick sv' = t2" by (simp add: s)
  show "sv_tick sv \<le> sv_tick sv'" using f(1) g(1) tick by simp
  show "all_running (sv_retained_cleanup sv')" using g(2) by (simp add: s at_tick_def)
  show "mset (map mp_pid (owned sv)) = mset (map mp_pid (sv_retained_cleanup sv'))
      + mset (map rp_process_id (co_reaped (sd_physical_cleanup report)))"
    using f(3) g(3) by (simp add: s r at_tick_def owned_def comp_def)
  show "\<forall>x \<in> set (co_reaped (sd_physical_cleanup report)). confirmed os (sv_tick sv) (sv_tick sv') (rp_process_id x)"
    using f(1,4) g(1,4) confirmed_mono [of os _ _ _ "sv_tick sv" t2] by (fastforce simp: r tick)
  show "co_outstanding (sd_physical_cleanup report) = map process_observation (sv_retained_cleanup sv')"
    "co_phase (sd_physical_cleanup report) = CleanupSettled \<longleftrightarrow> sv_retained_cleanup sv' = []"
    by (simp_all add: r s cleanup_observation_def at_tick_def Let_def)
  show "sd_terminated_modules report = sorted_list_of_set (rt_loaded_modules (sv_handle sv))" by (rule r(2))
  show "sv_handle sv' = (sv_handle sv)\<lparr>rt_loaded_modules := {}, rt_tick := sv_tick sv'\<rparr>" "sv_live_children sv' = []"
    "\<not> sv_running sv'" by (simp_all add: tick) (simp_all add: s at_tick_def)
  show "of_nat (length (sv_retained_cleanup sv')) \<le> sd_orphan_processes report" by (simp add: r s at_tick_def)
qed

lemma supervises_shutdown:
  assumes "shutdown os sv = (report, sv')"
  shows "supervises os sv sv'"
  unfolding supervises_def
proof (intro impI conjI)
  assume inv: "sup_inv sv"
  note f = shutdown_facts [OF assms inv]
  show "sup_inv sv'" using f(2,8,9) by (simp add: sup_inv_def set_owned)
  show "handle_moves (sv_handle sv) (sv_handle sv')"
    by (subst f(8)) (auto simp: handle_moves_def gate_view_def services_defs)
  have "owned_pids sv = set_mset (mset (map mp_pid (owned sv)))" by simp
  also have "\<dots> = mp_pid ` set (sv_retained_cleanup sv') \<union> rp_process_id ` set (co_reaped (sd_physical_cleanup report))"
    unfolding f(3) by simp
  finally show "custody os (owned_pids sv) (sv_tick sv) sv'"
    using f(1,4) by (auto simp: custody_def set_owned f(9))
qed

lemma supervises_progress:
  assumes "progress_module_cleanup os sv = (report, sv')"
  shows "supervises os sv sv'"
  unfolding supervises_def
proof (intro impI conjI)
  assume inv: "sup_inv sv"
  obtain kept rd t where p: "progress_all os (sv_retained_cleanup sv) (sv_tick sv) = (kept, rd, t)" by (metis prod_cases3)
  have run: "all_running (sv_retained_cleanup sv)" using inv by (simp add: sup_inv_def owned_def)
  note g = progress_all_custody [OF p run]
  have s: "sv' = at_tick t (sv\<lparr>sv_retained_cleanup := kept\<rparr>)"
    using assms p by (auto simp: progress_module_cleanup_def progress_def)
  show "sup_inv sv'" using inv g(2) by (auto simp: s sup_inv_def set_owned at_tick_def)
  show "handle_moves (sv_handle sv) (sv_handle sv')"
    by (auto simp: s at_tick_def handle_moves_def gate_view_def services_defs)
  have "mp_pid ` set (sv_retained_cleanup sv) = set_mset (mset (map mp_pid (sv_retained_cleanup sv)))" by simp
  also have "\<dots> = mp_pid ` set kept \<union> rp_process_id ` set rd" unfolding g(3) by simp
  finally show "custody os (owned_pids sv) (sv_tick sv) sv'"
    using g(1,4) unfolding custody_def set_owned image_Un s sv_tick_at by (simp add: at_tick_def) blast
qed

end
