(* ===== verification/Supervised_System.thy ===== *)
theory Supervised_System
  imports Supervisor_Custody
begin

text \<open>
  The runtime with its supervision as one machine: what startup builds, the supervision
  operations and the operations of the services as steps, the invariants of both, the
  refinement of the approval machine, and the properties of supervision.
\<close>

section \<open>Startup\<close>

definition starting_ok :: "MetaConfig \<Rightarrow> StartingModules \<Rightarrow> bool" where
  "starting_ok config sm \<longleftrightarrow>
     bt_inv (sm_live sm) \<and> fst ` set (sm_live sm) \<subseteq> sm_loaded sm \<and> all_running (map snd (sm_live sm) @ sm_retained sm)
     \<and> sm_loaded sm \<subseteq> mc_id ` set (mk_modules config)"

lemma start_module_fields:
  assumes "start_module env os m result t sm = (sm', t')" and "all_running (sr_retained result)"
  shows "sm_retained sm' = sm_retained sm @ sr_retained result"
    and "sm_loaded sm' = (if sr_event result = None then sm_loaded sm else insert m (sm_loaded sm))"
    and "sm_live sm' = (if sr_event result = None then sm_live sm
      else case sr_child result of None \<Rightarrow> sm_live sm | Some c \<Rightarrow> bt_insert m c (sm_live sm))"
proof -
  have sm': "sm' = fst (start_module env os m result t sm)" using assms(1) by simp
  show "sm_retained sm' = sm_retained sm @ sr_retained result"
    "sm_loaded sm' = (if sr_event result = None then sm_loaded sm else insert m (sm_loaded sm))"
    "sm_live sm' = (if sr_event result = None then sm_live sm
      else case sr_child result of None \<Rightarrow> sm_live sm | Some c \<Rightarrow> bt_insert m c (sm_live sm))"
    unfolding sm'
    by (cases "sr_terminal_error result"; cases "sr_event result"; cases "sr_child result";
        simp add: start_module_def fold_retain [OF assms(2)])+
qed

lemma starting_ok_module:
  assumes "start_module env os m result t sm = (sm', t')" and "starting_ok config sm" and "all_running (handed result)"
    and "m \<in> mc_id ` set (mk_modules config)"
  shows "starting_ok config sm'"
proof -
  have ret: "all_running (sr_retained result)" using assms(3) by (simp add: handed_def)
  note f = start_module_fields [OF assms(1) ret]
  have inv: "bt_inv (sm_live sm)" and run: "all_running (map snd (sm_live sm))"
    and keys: "fst ` set (sm_live sm) \<subseteq> sm_loaded sm" "insert m (sm_loaded sm) \<subseteq> mc_id ` set (mk_modules config)"
    using assms(2,4) by (auto simp: starting_ok_def)
  have loaded: "sm_loaded sm \<subseteq> sm_loaded sm'" "sm_loaded sm' \<subseteq> insert m (sm_loaded sm)" using f(2) by auto
  have retained: "all_running (sm_retained sm')" using assms(2) ret f(1) by (auto simp: starting_ok_def)
  show ?thesis
  proof (cases "sr_event result = None \<or> sr_child result = None")
    case True
    then have live: "sm_live sm' = sm_live sm" using f(3) by (auto split: option.splits)
    then have "fst ` set (sm_live sm') \<subseteq> sm_loaded sm'" using keys(1) loaded(1) by (simp add: subset_trans)
    then show ?thesis
      unfolding starting_ok_def using live inv run retained subset_trans [OF loaded(2) keys(2)] by (simp add: ball_Un)
  next
    case False
    then obtain c where c: "sr_child result = Some c" "sr_event result \<noteq> None" by auto
    have "mp_state c = Running" using assms(3) c by (simp add: handed_def)
    moreover have live: "sm_live sm' = bt_insert m c (sm_live sm)" using c f(3) by auto
    moreover have set: "set (sm_live sm') = insert (m, c) {e \<in> set (sm_live sm). fst e \<noteq> m}"
      using live live_insert [OF inv] by simp
    ultimately have "all_running (map snd (sm_live sm'))" using run by auto
    moreover have "fst ` set (sm_live sm') \<subseteq> sm_loaded sm'" using set keys(1) f(2) c(2) by auto
    ultimately show ?thesis
      unfolding starting_ok_def using live bt_inv_insert [OF inv] retained subset_trans [OF loaded(2) keys(2)] by (simp add: ball_Un)
  qed
qed

lemma start_modules_ok:
  "start_modules env os config timeout options ids sm t = Some (Inr (sm', t')) \<Longrightarrow> starting_ok config sm \<Longrightarrow>
   starting_ok config sm'"
proof (induction env os config timeout options ids sm t arbitrary: sm' t' rule: start_modules.induct)
  case (2 env os config timeout options m ids sm t)
  from "2.prems"(1) obtain module where m: "List.find (\<lambda>module. mc_id module = m) (mk_modules config) = Some module"
    by (auto split: option.splits)
  let ?pre = "List.find (\<lambda>data. ps_module_id data = m) (mk_pre_spawn config)"
  from "2.prems"(1) m obtain result t1 where
    s: "supervise_module_start env os module ?pre timeout options t = Some (result, t1)"
    by (auto split: option.splits)
  obtain sm1 t2 where sm1: "start_module env os m result t1 sm = (sm1, t2)" by fastforce
  have "m \<in> mc_id ` set (mk_modules config)" using m by (auto simp: find_Some_iff)
  then have "starting_ok config sm1" using starting_ok_module [OF sm1 "2.prems"(2) start_facts(2) [OF s]] by simp
  then show ?case using "2.IH" [OF m s refl sm1 [symmetric] refl] "2.prems"(1) m s sm1 by simp
qed simp

section \<open>The runtime with its supervision\<close>

definition system_init :: "Env \<Rightarrow> Os \<Rightarrow> SupervisedRuntime \<Rightarrow> bool" where
  "system_init env os sv \<longleftrightarrow> (\<exists>ledger epoch config agent_events timeout options t.
     start_meta_runtime_with_options env os ledger epoch config agent_events timeout options t = Some (Inr sv)
     \<and> is_none_or epoch valid_gating_epoch)"

inductive supervision_step :: "Env \<Rightarrow> Os \<Rightarrow> SupervisedRuntime \<Rightarrow> SupervisedRuntime \<Rightarrow> bool" for env os where
  step_spawn: "spawn_member env os m timeout sv = Some (r, sv') \<Longrightarrow> supervision_step env os sv sv'"
| step_reconcile: "reconcile_modules env os ms timeout sv = Some (n, sv') \<Longrightarrow> supervision_step env os sv sv'"
| step_shutdown: "shutdown os sv = (report, sv') \<Longrightarrow> supervision_step env os sv sv'"
| step_progress: "progress_module_cleanup os sv = (c, sv') \<Longrightarrow> supervision_step env os sv sv'"

inductive system_step :: "Env \<Rightarrow> Os \<Rightarrow> SupervisedRuntime \<Rightarrow> SupervisedRuntime \<Rightarrow> bool" for env os where
  step_supervision: "supervision_step env os sv sv' \<Longrightarrow> system_step env os sv sv'"
| step_service: "runtime_step env (sv_handle sv) h' \<Longrightarrow> system_step env os sv (sv\<lparr>sv_handle := h'\<rparr>)"

definition system_inv :: "Env \<Rightarrow> SupervisedRuntime \<Rightarrow> bool" where
  "system_inv env sv \<longleftrightarrow> sup_inv sv \<and> runtime_inv env (sv_handle sv)"

lemma supervision_step_supervises: "supervision_step env os sv sv' \<Longrightarrow> sup_inv sv \<Longrightarrow> supervises os sv sv'"
  by (erule supervision_step.cases) (auto intro: spawn_member_facts(1) reconcile_facts supervises_shutdown supervises_progress)

lemma runtime_inv_moves: "handle_moves h h' \<Longrightarrow> runtime_inv env h \<Longrightarrow> runtime_inv env h'"
  using gate_viewD(8) [of h' h] origins_view [of h' h env] unfolding handle_moves_def runtime_inv_def by blast

lemma system_inv_init:
  assumes "system_init env os sv"
  shows "system_inv env sv"
proof -
  from assms obtain ledger epoch config agent_events timeout options t where
    st: "start_meta_runtime_with_options env os ledger epoch config agent_events timeout options t = Some (Inr sv)"
    and e: "is_none_or epoch valid_gating_epoch"
    by (auto simp: system_init_def)
  let ?sm0 = "\<lparr>sm_transitions = [], sm_retained = [], sm_events = [], sm_loaded = {}, sm_live = []\<rparr> :: StartingModules"
  from st obtain persisted sm t1 where
    sm: "start_modules env os config timeout options (ds_modules (mk_discovery config)) ?sm0 (t + 1) = Some (Inr (sm, t1))"
    and h: "sv_handle sv = started_runtime config (sm_loaded sm) (sm_events sm) agent_events persisted (ledger \<noteq> None) epoch
        (env_clock env t) t1"
    and rest: "sv_live_children sv = sm_live sm" "sv_retained_cleanup sv = sm_retained sm"
    by (auto simp: start_meta_runtime_with_options_def split: option.splits sum.splits)
  have "starting_ok config sm" by (rule start_modules_ok [OF sm]) (simp add: starting_ok_def)
  moreover have "rt_loaded_modules (sv_handle sv) = sm_loaded sm" "rt_config (sv_handle sv) = config"
    by (simp_all add: h started_runtime_def restore_memory_def Let_def)
  ultimately have "sup_inv sv" by (simp add: sup_inv_def starting_ok_def owned_def rest)
  moreover have "runtime_init (sv_handle sv)" using h e unfolding runtime_init_def by blast
  ultimately show ?thesis using runtime_inv_init by (simp add: system_inv_def)
qed

lemma sup_inv_service: "modules_view h' = modules_view (sv_handle sv) \<Longrightarrow> sup_inv (sv\<lparr>sv_handle := h'\<rparr>) = sup_inv sv"
  by (simp add: sup_inv_def owned_def modules_view_def)

lemma system_inv_step:
  assumes "system_inv env sv" and "system_step env os sv sv'"
  shows "system_inv env sv'"
  using assms(2)
proof cases
  case step_supervision
  from supervision_step_supervises [OF this] assms(1) have "supervises os sv sv'" by (simp add: system_inv_def)
  then show ?thesis using assms(1) supervisesD runtime_inv_moves unfolding system_inv_def by blast
next
  case (step_service h')
  then show ?thesis
    using assms(1) sup_inv_service [OF runtime_step_modules [OF step_service(2)]] runtime_inv_step [OF _ step_service(2)]
    by (simp add: system_inv_def)
qed

interpretation system: step_invariant "system_init env os" "system_step env os" "system_inv env" for env os
  by unfold_locales (auto intro: system_inv_init system_inv_step)

lemma system_refines:
  assumes "system_inv env sv" and "system_step env os sv sv'"
  shows "approval_step\<^sup>*\<^sup>* (board_of (sv_handle sv)) (board_of (sv_handle sv'))"
  using assms(2)
proof cases
  case step_supervision
  from supervision_step_supervises [OF this] assms(1) have "supervises os sv sv'" by (simp add: system_inv_def)
  then have "gate_view (sv_handle sv') = gate_view (sv_handle sv)"
    using assms(1) supervisesD(3) by (simp add: system_inv_def handle_moves_def)
  then show ?thesis using gate_viewD(4,6) [of "sv_handle sv'" "sv_handle sv"] by (simp add: board_of_def)
next
  case (step_service h')
  then show ?thesis using assms(1) gate_life.simulates [OF _ step_service(2)] by (simp add: system_inv_def)
qed

interpretation system_life: simulation "system_init env os" "system_step env os" "system_inv env"
    "\<lambda>sv. board_of (sv_handle sv)" approval_step for env os
  by unfold_locales (rule system_refines)

section \<open>A concrete system\<close>

text \<open>
  The router and delivery modules of the routing demonstration, and a worker process that
  prints an event. The second system fails every wait after a kill, but reports the exit to
  the next probe.
\<close>

definition worker :: ModuleConfig where
  "worker = \<lparr>mc_id = ''worker'', mc_command = ''work'', mc_args = [], mc_restart_policy = RestartAlways\<rparr>"

definition worker_config :: MetaConfig where
  "worker_config = \<lparr>mk_modules = [worker], mk_discovery = \<lparr>ds_namespace = ''demo'', ds_modules = [''worker'']\<rparr>, mk_pre_spawn = []\<rparr>"

definition worker_env :: Env where
  "worker_env = demo_env\<lparr>env_decode_envelope := (\<lambda>_. Some (sample_event ''evt-1'' 5))\<rparr>"

definition demo_options :: RuntimeOptions where
  "demo_options = \<lparr>op_on_failure_retry_budget = 1, op_always_restart_budget = 1, op_force_terminate_failure = False\<rparr>"

definition demo_os :: Os where
  "demo_os = \<lparr>os_spawn = (\<lambda>t _ _. Inr (of_nat t)), os_first_line = (\<lambda>_ _ _. Line ''{}''), os_try_wait = (\<lambda>_ _. Inr False),
     os_kill = (\<lambda>_ _. Inr ()), os_wait = (\<lambda>_ _. Inr ()), os_debug_normalize = (\<lambda>_. ''normalize'')\<rparr>"

definition demo_start_result :: "Env \<Rightarrow> Os \<Rightarrow> MetaConfig \<Rightarrow> string option \<Rightarrow> SupervisedRuntime" where
  "demo_start_result env os config epoch =
     projr (the (start_meta_runtime_with_options env os None epoch config [] 1000 demo_options 0))"

lemma demo_start_init:
  assumes "case start_meta_runtime_with_options env os None epoch config [] 1000 demo_options 0 of
      Some (Inr _) \<Rightarrow> is_none_or epoch valid_gating_epoch | _ \<Rightarrow> False"
  shows "system_init env os (demo_start_result env os config epoch)"
proof -
  obtain sv where sv: "start_meta_runtime_with_options env os None epoch config [] 1000 demo_options 0 = Some (Inr sv)"
    "is_none_or epoch valid_gating_epoch"
    using assms by (auto split: option.splits sum.splits)
  then have "demo_start_result env os config epoch = sv" by (simp add: demo_start_result_def)
  with sv show ?thesis unfolding system_init_def by blast
qed

lemma worker_init: "system_init worker_env demo_os (demo_start_result worker_env demo_os worker_config None)"
  by (rule demo_start_init) code_simp


definition worker_sv :: "Os \<Rightarrow> SupervisedRuntime" where
  "worker_sv os = demo_start_result worker_env os worker_config None"

lemma worker_reachable: "reachable (system_init worker_env demo_os) (system_step worker_env demo_os) (worker_sv demo_os)"
  using worker_init reachable_init unfolding worker_sv_def by metis

section \<open>Properties\<close>

text \<open>
  C19. Starting a module settles. With a restart budget below the largest \<open>u32\<close> the supervision
  loop returns whatever the operating system does, after at most one attempt more than the
  budget. It reports a legal chain of health states that ends healthy with an event, or stopped
  with an error; a healthy module that is not an MCP server comes with its process.
\<close>

theorem supervise_module_start_settles:
  assumes "unat (restart_budget module options) < 2 ^ 32 - 1"
  shows "\<exists>result t'. supervise_module_start env os module pre_spawn timeout options t = Some (result, t') \<and> t \<le> t'
    \<and> health_chain None (sr_transitions result) (Some (if sr_event result = None then Stopped else Healthy))
    \<and> (\<forall>x \<in> set (sr_transitions result).
         ht_module_id x = mc_id module \<and> unat (ht_attempt x) \<le> Suc (unat (restart_budget module options)))
    \<and> (sr_event result = None \<longrightarrow> sr_terminal_error result \<noteq> None)
    \<and> (sr_child result \<noteq> None \<longleftrightarrow> sr_event result \<noteq> None \<and> \<not> module_uses_mcp module pre_spawn)"
proof (cases "module_uses_mcp module pre_spawn")
  case True
  obtain r t' where r: "supervise_mcp_module_start env module pre_spawn timeout t = (r, t')" by fastforce
  have "supervise_module_start env os module pre_spawn timeout options t = Some (r, t')"
    using True r by (simp add: supervise_module_start_def)
  then show ?thesis
    using mcp_start_facts [OF r] True by (fastforce simp: report_ok_def handed_def split: option.splits)
next
  case False
  obtain y where "supervise_module_start env os module pre_spawn timeout options t = Some y"
    and d: "loop_done module (Suc (unat (restart_budget module options))) [] t y"
    using supervise_loop_returns [OF assms _ loop_ready_start, of 0 env os pre_spawn timeout t] False
    by (auto simp: supervise_module_start_def)
  then show ?thesis
    using False d by (cases y) (auto simp: loop_done_def result_ok_def report_ok_def)
qed

theorem supervise_module_start_settles_witness:
  "unat (restart_budget worker demo_options) < 2 ^ 32 - 1
   \<and> (\<exists>result t'. supervise_module_start worker_env demo_os worker None 1000 demo_options 0 = Some (result, t')
       \<and> health_chain None (sr_transitions result) (Some Healthy))"
proof -
  have b: "unat (restart_budget worker demo_options) < 2 ^ 32 - 1"
    by (simp add: restart_budget_def worker_def demo_options_def)
  have "case supervise_module_start worker_env demo_os worker None 1000 demo_options 0 of
      Some (r, _) \<Rightarrow> sr_event r \<noteq> None | None \<Rightarrow> False" by code_simp
  then show ?thesis
    using b supervise_module_start_settles [OF b, of worker_env demo_os None 1000 0] by auto
qed

text \<open>
  C20. No supervision operation loses a process. Whatever the system calls answer, a process
  owned before a spawn, a reconciliation, a shutdown or a cleanup step is owned after it, or the
  operating system confirmed its exit in between; the same holds for the processes that the
  start attempts of a spawn leave behind.
\<close>

theorem supervision_keeps_custody:
  assumes "reachable (system_init env os) (system_step env os) sv" and "supervision_step env os sv sv'"
  shows "(\<forall>p \<in> set (owned sv). mp_pid p \<in> mp_pid ` set (owned sv') \<or> confirmed os (sv_tick sv) (sv_tick sv') (mp_pid p))
    \<and> (\<forall>m timeout r module pre result t.
         spawn_member env os m timeout sv = Some (r, sv') \<and> module_and_prespawn (sv_handle sv) m = Some (module, pre)
         \<and> supervise_module_start env os module pre timeout (sv_options sv) (sv_tick sv) = Some (result, t)
         \<longrightarrow> (\<forall>p \<in> set (handed result). mp_pid p \<in> mp_pid ` set (owned sv') \<or> confirmed os t (sv_tick sv') (mp_pid p)))"
proof -
  have inv: "sup_inv sv" using system.inv_reachable [OF assms(1)] by (simp add: system_inv_def)
  have all: "\<forall>p \<in> set ps. mp_pid p \<in> mp_pid ` set (owned sv') \<or> confirmed os t (sv_tick sv') (mp_pid p)"
    if "custody os (mp_pid ` set ps) t sv'" for ps t using that by (simp add: custody_def)
  have kept: "custody os (owned_pids sv) (sv_tick sv) sv'"
    using supervisesD(2) [OF supervision_step_supervises [OF assms(2) inv] inv] .
  have left: "custody os (mp_pid ` set (handed result)) t sv'"
    if "spawn_member env os m timeout sv = Some (r, sv')" "module_and_prespawn (sv_handle sv) m = Some (module, pre)"
      "supervise_module_start env os module pre timeout (sv_options sv) (sv_tick sv) = Some (result, t)"
    for m timeout r module pre result t
    using spawn_member_facts(2) [OF that(1) inv that(2,3)] .
  show ?thesis by (intro conjI allI impI all [OF kept] all; elim conjE) (rule left)
qed

theorem supervision_keeps_custody_witness:
  "reachable (system_init worker_env demo_os) (system_step worker_env demo_os) (worker_sv demo_os)
   \<and> hd (owned (worker_sv demo_os)) \<in> set (owned (worker_sv demo_os))
   \<and> (mp_pid (hd (owned (worker_sv demo_os))) \<in> mp_pid ` set (owned (snd (shutdown demo_os (worker_sv demo_os))))
      \<or> confirmed demo_os (sv_tick (worker_sv demo_os)) (sv_tick (snd (shutdown demo_os (worker_sv demo_os))))
          (mp_pid (hd (owned (worker_sv demo_os)))))"
proof -
  have "supervision_step worker_env demo_os (worker_sv demo_os) (snd (shutdown demo_os (worker_sv demo_os)))"
    by (rule step_shutdown [OF prod.collapse [symmetric]])
  moreover have "owned (worker_sv demo_os) \<noteq> []" by code_simp
  then have "hd (owned (worker_sv demo_os)) \<in> set (owned (worker_sv demo_os))" by simp
  ultimately show ?thesis using supervision_keeps_custody [OF worker_reachable] worker_reachable by blast
qed

text \<open>
  The report of a shutdown accounts for every process: each process owned before is either
  reported as reaped, and then its exit was confirmed during the shutdown, or reported as
  outstanding and still owned. The report is settled exactly when nothing is outstanding, and it
  never counts fewer orphans than processes outstanding.
\<close>

theorem shutdown_accounts:
  assumes "reachable (system_init env os) (system_step env os) sv" and "shutdown os sv = (report, sv')"
    and "length (owned sv) < 2 ^ 32"
  shows "mset (map mp_pid (owned sv)) =
      mset (map po_process_id (co_outstanding (sd_physical_cleanup report)))
      + mset (map rp_process_id (co_reaped (sd_physical_cleanup report)))
    \<and> (\<forall>x \<in> set (co_reaped (sd_physical_cleanup report)). confirmed os (sv_tick sv) (sv_tick sv') (rp_process_id x))
    \<and> co_outstanding (sd_physical_cleanup report) = map process_observation (owned sv')
    \<and> (co_phase (sd_physical_cleanup report) = CleanupSettled \<longleftrightarrow> owned sv' = [])
    \<and> length (owned sv') \<le> unat (sd_orphan_processes report)
    \<and> sd_terminated_modules report = sorted_list_of_set (rt_loaded_modules (sv_handle sv))
    \<and> rt_loaded_modules (sv_handle sv') = {} \<and> \<not> sv_running sv'"
proof -
  have inv: "sup_inv sv" using system.inv_reachable [OF assms(1)] by (simp add: system_inv_def)
  note f = shutdown_facts [OF assms(2) inv]
  have o: "owned sv' = sv_retained_cleanup sv'" by (simp add: owned_def f(9))
  have pids: "po_process_id \<circ> process_observation = mp_pid" by (simp add: fun_eq_iff process_observation_def)
  have len: "length (owned sv') \<le> length (owned sv)"
    using f(3) o by (metis add_leE le_add1 length_map size_mset size_union)
  have "unat (of_nat (length (owned sv')) :: u32) \<le> unat (sd_orphan_processes report)"
    using f(11) o by (simp add: word_le_nat_alt)
  moreover have "unat (of_nat (length (owned sv')) :: u32) = length (owned sv')"
    using len assms(3) by (simp add: unsigned_of_nat take_bit_nat_eq_self)
  moreover have "rt_loaded_modules (sv_handle sv') = {}" by (subst f(8)) simp
  ultimately show ?thesis using f(3-7,10) pids o by simp
qed

theorem shutdown_accounts_witness:
  "length (owned (worker_sv demo_os)) < 2 ^ 32
   \<and> co_phase (sd_physical_cleanup (fst (shutdown demo_os (worker_sv demo_os)))) = CleanupSettled
   \<and> owned (snd (shutdown demo_os (worker_sv demo_os))) = []"
proof -
  have "length (owned (worker_sv demo_os)) = 1" by code_simp
  then have l: "length (owned (worker_sv demo_os)) < 2 ^ 32" by simp
  have "co_phase (sd_physical_cleanup (fst (shutdown demo_os (worker_sv demo_os)))) = CleanupSettled" by code_simp
  then show ?thesis using l shutdown_accounts [OF worker_reachable prod.collapse [symmetric] l] by blast
qed

end
