(* ===== verification/Access_Model.thy ===== *)
theory Access_Model
  imports Rust_Strings Rust_Collections
begin

text \<open>
  The configuration schema of the access-control subsystem
  (\<open>crates/meerkat-meta/src/access/model.rs\<close>): the action vocabulary, the configuration
  records, the pattern language of rule actions, the migration that materializes memory-read
  grants, and the validation every accepted configuration passed. The vocabulary is the one
  of the default build (without the optional \<open>extension-state\<close> feature).
\<close>

section \<open>The action vocabulary\<close>

definition ACTION_AGENT_VIEW :: string where
  "ACTION_AGENT_VIEW = ''agent.view''"

definition ACTION_AGENT_SEND :: string where
  "ACTION_AGENT_SEND = ''agent.send''"

definition ACTION_AGENT_MEMORY_WRITE :: string where
  "ACTION_AGENT_MEMORY_WRITE = ''agent.memory.write''"

definition ACTION_AGENT_MEMORY_DELETE :: string where
  "ACTION_AGENT_MEMORY_DELETE = ''agent.memory.delete''"

definition ACTION_AGENT_MEMORY_READ :: string where
  "ACTION_AGENT_MEMORY_READ = ''agent.memory.read''"

definition ACTION_OPERATOR_MEMORY_READ :: string where
  "ACTION_OPERATOR_MEMORY_READ = ''operator.memory.read''"

definition ACTION_AGENT_MEMORY_ADMIN :: string where
  "ACTION_AGENT_MEMORY_ADMIN = ''agent.memory.admin''"

definition ACTION_MOB_MEMORY_READ :: string where
  "ACTION_MOB_MEMORY_READ = ''mob.memory.read''"

definition ACTION_MOB_MEMORY_PROPOSE :: string where
  "ACTION_MOB_MEMORY_PROPOSE = ''mob.memory.propose''"

definition ACTION_MOB_MEMORY_COMMIT :: string where
  "ACTION_MOB_MEMORY_COMMIT = ''mob.memory.commit''"

definition ACTION_MEMORY_QUARANTINE_REVIEW :: string where
  "ACTION_MEMORY_QUARANTINE_REVIEW = ''memory.quarantine.review''"

definition ACTION_AGENT_SPAWN :: string where
  "ACTION_AGENT_SPAWN = ''agent.spawn''"

definition ACTION_AGENT_RESPAWN :: string where
  "ACTION_AGENT_RESPAWN = ''agent.respawn''"

definition ACTION_AGENT_RETIRE :: string where
  "ACTION_AGENT_RETIRE = ''agent.retire''"

definition ACTION_AGENT_RESET :: string where
  "ACTION_AGENT_RESET = ''agent.reset''"

definition ACTION_GATING_VIEW :: string where
  "ACTION_GATING_VIEW = ''gating.view''"

definition ACTION_GATING_DECIDE :: string where
  "ACTION_GATING_DECIDE = ''gating.decide''"

definition ACTION_WORKGRAPH_VIEW :: string where
  "ACTION_WORKGRAPH_VIEW = ''workgraph.view''"

definition ACTION_WORKGRAPH_MANAGE :: string where
  "ACTION_WORKGRAPH_MANAGE = ''workgraph.manage''"

definition ACTION_MOB_OBSERVE :: string where
  "ACTION_MOB_OBSERVE = ''mob.observe''"

definition ACTION_RUNTIME_ADMIN :: string where
  "ACTION_RUNTIME_ADMIN = ''runtime.admin''"

definition ACTION_TOPOLOGY_VIEW :: string where
  "ACTION_TOPOLOGY_VIEW = ''topology.view''"

definition ACTION_TOPOLOGY_AUDIT :: string where
  "ACTION_TOPOLOGY_AUDIT = ''topology.audit''"

definition ACTION_TOPOLOGY_CONNECT :: string where
  "ACTION_TOPOLOGY_CONNECT = ''topology.connect''"

definition ACTION_TOPOLOGY_DISCONNECT :: string where
  "ACTION_TOPOLOGY_DISCONNECT = ''topology.disconnect''"

definition ACTION_TOPOLOGY_RECONNECT :: string where
  "ACTION_TOPOLOGY_RECONNECT = ''topology.reconnect''"

definition ACTION_TOPOLOGY_BULK :: string where
  "ACTION_TOPOLOGY_BULK = ''topology.bulk''"

definition ACTION_TOPOLOGY_CROSS_AUTHORITY :: string where
  "ACTION_TOPOLOGY_CROSS_AUTHORITY = ''topology.cross_authority''"

definition ACTION_MOBPACK_AUTHOR :: string where
  "ACTION_MOBPACK_AUTHOR = ''mobpack.author''"

definition ACTION_MOBPACK_DEPLOY :: string where
  "ACTION_MOBPACK_DEPLOY = ''mobpack.deploy''"

definition ACTION_ACCESS_ADMIN :: string where
  "ACTION_ACCESS_ADMIN = ''access.admin''"

lemmas action_defs =
  ACTION_AGENT_VIEW_def
  ACTION_AGENT_SEND_def
  ACTION_AGENT_MEMORY_WRITE_def
  ACTION_AGENT_MEMORY_DELETE_def
  ACTION_AGENT_MEMORY_READ_def
  ACTION_OPERATOR_MEMORY_READ_def
  ACTION_AGENT_MEMORY_ADMIN_def
  ACTION_MOB_MEMORY_READ_def
  ACTION_MOB_MEMORY_PROPOSE_def
  ACTION_MOB_MEMORY_COMMIT_def
  ACTION_MEMORY_QUARANTINE_REVIEW_def
  ACTION_AGENT_SPAWN_def
  ACTION_AGENT_RESPAWN_def
  ACTION_AGENT_RETIRE_def
  ACTION_AGENT_RESET_def
  ACTION_GATING_VIEW_def
  ACTION_GATING_DECIDE_def
  ACTION_WORKGRAPH_VIEW_def
  ACTION_WORKGRAPH_MANAGE_def
  ACTION_MOB_OBSERVE_def
  ACTION_RUNTIME_ADMIN_def
  ACTION_TOPOLOGY_VIEW_def
  ACTION_TOPOLOGY_AUDIT_def
  ACTION_TOPOLOGY_CONNECT_def
  ACTION_TOPOLOGY_DISCONNECT_def
  ACTION_TOPOLOGY_RECONNECT_def
  ACTION_TOPOLOGY_BULK_def
  ACTION_TOPOLOGY_CROSS_AUTHORITY_def
  ACTION_MOBPACK_AUTHOR_def
  ACTION_MOBPACK_DEPLOY_def
  ACTION_ACCESS_ADMIN_def

definition ACCESS_ACTIONS :: "string list" where
  "ACCESS_ACTIONS = [
     ACTION_AGENT_VIEW,
     ACTION_AGENT_SEND,
     ACTION_AGENT_MEMORY_WRITE,
     ACTION_AGENT_MEMORY_DELETE,
     ACTION_AGENT_MEMORY_READ,
     ACTION_AGENT_MEMORY_ADMIN,
     ACTION_OPERATOR_MEMORY_READ,
     ACTION_MOB_MEMORY_READ,
     ACTION_MOB_MEMORY_PROPOSE,
     ACTION_MOB_MEMORY_COMMIT,
     ACTION_MEMORY_QUARANTINE_REVIEW,
     ACTION_AGENT_SPAWN,
     ACTION_AGENT_RESPAWN,
     ACTION_AGENT_RETIRE,
     ACTION_AGENT_RESET,
     ACTION_GATING_VIEW,
     ACTION_GATING_DECIDE,
     ACTION_WORKGRAPH_VIEW,
     ACTION_WORKGRAPH_MANAGE,
     ACTION_MOB_OBSERVE,
     ACTION_RUNTIME_ADMIN,
     ACTION_TOPOLOGY_VIEW,
     ACTION_TOPOLOGY_AUDIT,
     ACTION_TOPOLOGY_CONNECT,
     ACTION_TOPOLOGY_DISCONNECT,
     ACTION_TOPOLOGY_RECONNECT,
     ACTION_TOPOLOGY_BULK,
     ACTION_TOPOLOGY_CROSS_AUTHORITY,
     ACTION_MOBPACK_AUTHOR,
     ACTION_MOBPACK_DEPLOY,
     ACTION_ACCESS_ADMIN]"

section \<open>The configuration\<close>

record AccessApprover =
  ap_subjects :: "string list"
  ap_groups :: "string list"

record AccessGroup =
  gr_description :: "string option"
  gr_members :: "string list"

datatype AccessEffect = EffAllow | EffDeny

record AccessRule =
  ru_id :: string
  ru_description :: "string option"
  ru_effect :: AccessEffect
  ru_subjects :: "string list"
  ru_groups :: "string list"
  ru_actions :: "string list"
  ru_agents :: "string list"
  ru_roles :: "string list"
  ru_match_labels :: "(string, string) btree"

record AccessControlConfig =
  ac_enabled :: bool
  ac_admins :: "string list"
  ac_groups :: "(string, AccessGroup) btree"
  ac_rules :: "AccessRule list"
  ac_approvers :: "(string, AccessApprover) btree"

definition default_config :: AccessControlConfig where
  "default_config = \<lparr>ac_enabled = False, ac_admins = [], ac_groups = [], ac_rules = [], ac_approvers = []\<rparr>"

definition has_resource_selector :: "AccessRule \<Rightarrow> bool" where
  "has_resource_selector rule = (ru_agents rule \<noteq> [] \<or> ru_roles rule \<noteq> [] \<or> ru_match_labels rule \<noteq> [])"

datatype AccessConfigError =
    EnabledWithoutAdmins
  | EmptyRuleId
  | DuplicateRuleId string
  | EmptyActions string
  | UnknownAction string string
  | UnknownGroup string string
  | EmptyApproverId
  | ApproverWithoutHolders string
  | UnknownApproverGroup string string
  | UnknownRule string
  | ParseError string
  | IoError string
  | RevisionExhausted

section \<open>Action patterns\<close>

definition action_pattern_is_known :: "string \<Rightarrow> bool" where
  "action_pattern_is_known pattern =
     (if pattern = ''*'' then True
      else case strip_suffix pattern ''.*'' of
        Some pfx \<Rightarrow>
          list_ex (\<lambda>action. is_some_and (strip_prefix action pfx) (\<lambda>rest. starts_with rest ''.''))
            ACCESS_ACTIONS
      | None \<Rightarrow> pattern \<in> set ACCESS_ACTIONS)"

definition action_pattern_matches :: "string \<Rightarrow> string \<Rightarrow> bool" where
  "action_pattern_matches pattern action =
     (pattern = ''*'' \<or> pattern = action
      \<or> is_some_and (strip_suffix pattern ''.*'')
          (\<lambda>pfx. is_some_and (strip_prefix action pfx) (\<lambda>rest. starts_with rest ''.'')))"

definition pattern_mentions_memory :: "string \<Rightarrow> bool" where
  "pattern_mentions_memory pattern =
     list_ex (\<lambda>segment. segment = ''memory'')
       (split_on (CHR ''.'') (unwrap_or (strip_suffix pattern ''.*'') pattern))"

text \<open>The pattern language: everything, one action, or one dotted family.\<close>

lemma is_some_and_strip_prefix:
  "is_some_and (strip_prefix s p) P \<longleftrightarrow> (\<exists>r. s = p @ r \<and> P r)"
  by (simp add: is_some_and_iff)

lemma is_some_and_strip_suffix:
  "is_some_and (strip_suffix s p) P \<longleftrightarrow> (\<exists>r. s = r @ p \<and> P r)"
  by (simp add: is_some_and_iff)

lemma action_pattern_matches_iff:
  "action_pattern_matches pattern action \<longleftrightarrow>
     pattern = ''*'' \<or> pattern = action
     \<or> (\<exists>family rest. pattern = family @ ''.*'' \<and> action = family @ ''.'' @ rest)"
  by (auto simp: action_pattern_matches_def is_some_and_strip_prefix is_some_and_strip_suffix prefix_def)

section \<open>The memory migration\<close>

definition mentions_memory :: "AccessControlConfig \<Rightarrow> bool" where
  "mentions_memory config =
     list_ex (\<lambda>rule. list_ex pattern_mentions_memory (ru_actions rule)) (ac_rules config)"

definition rule_names_action :: "AccessRule \<Rightarrow> string \<Rightarrow> bool" where
  "rule_names_action rule action =
     list_ex (\<lambda>pattern. action_pattern_matches pattern action) (ru_actions rule)"

text \<open>One iteration of the rewrite loop: the rule and whether it changed.\<close>

definition extend_rule :: "AccessRule \<Rightarrow> AccessRule \<times> bool" where
  "extend_rule rule =
     (let matches_view = rule_names_action rule ACTION_AGENT_VIEW;
          matches_read = rule_names_action rule ACTION_AGENT_MEMORY_READ in
      if matches_view \<and> \<not> matches_read
      then (rule\<lparr>ru_actions := ru_actions rule @ [ACTION_AGENT_MEMORY_READ]\<rparr>, True)
      else (rule, False))"

definition normalize_access_config_for_memory_actions ::
  "AccessControlConfig \<Rightarrow> AccessControlConfig \<times> bool" where
  "normalize_access_config_for_memory_actions config =
     (if mentions_memory config then (config, False)
      else let extended = map extend_rule (ac_rules config) in
        (config\<lparr>ac_rules := map fst extended\<rparr>, list_ex snd extended))"

abbreviation normalized :: "AccessControlConfig \<Rightarrow> AccessControlConfig" where
  "normalized config \<equiv> fst (normalize_access_config_for_memory_actions config)"

section \<open>Validation\<close>

fun validate_actions :: "string \<Rightarrow> string list \<Rightarrow> AccessConfigError + unit" where
  "validate_actions rid [] = Inr ()"
| "validate_actions rid (a # as) =
     (if action_pattern_is_known a then validate_actions rid as else Inl (UnknownAction rid a))"

fun validate_groups ::
  "(string \<Rightarrow> AccessConfigError) \<Rightarrow> (string, AccessGroup) btree \<Rightarrow> string list \<Rightarrow> AccessConfigError + unit" where
  "validate_groups err groups [] = Inr ()"
| "validate_groups err groups (g # gs) =
     (if bt_contains groups g then validate_groups err groups gs else Inl (err g))"

text \<open>The body of the rule loop; \<open>seen\<close> is \<open>seen_ids\<close>.\<close>

fun validate_rules ::
  "(string, AccessGroup) btree \<Rightarrow> string set \<Rightarrow> AccessRule list \<Rightarrow> AccessConfigError + unit" where
  "validate_rules groups seen [] = Inr ()"
| "validate_rules groups seen (rule # rules) =
     (if blank (ru_id rule) then Inl EmptyRuleId
      else if ru_id rule \<in> seen then Inl (DuplicateRuleId (ru_id rule))
      else if ru_actions rule = [] then Inl (EmptyActions (ru_id rule))
      else case validate_actions (ru_id rule) (ru_actions rule) of
        Inl e \<Rightarrow> Inl e
      | Inr _ \<Rightarrow>
         (case validate_groups (UnknownGroup (ru_id rule)) groups (ru_groups rule) of
            Inl e \<Rightarrow> Inl e
          | Inr _ \<Rightarrow> validate_rules groups (insert (ru_id rule) seen) rules))"

fun validate_approvers ::
  "(string, AccessGroup) btree \<Rightarrow> (string, AccessApprover) btree \<Rightarrow> AccessConfigError + unit" where
  "validate_approvers groups [] = Inr ()"
| "validate_approvers groups ((approver, holders) # rest) =
     (if blank approver \<or> trim approver \<noteq> approver then Inl EmptyApproverId
      else if list_all blank (ap_subjects holders) \<and> ap_groups holders = []
      then Inl (ApproverWithoutHolders approver)
      else case validate_groups (UnknownApproverGroup approver) groups (ap_groups holders) of
        Inl e \<Rightarrow> Inl e
      | Inr _ \<Rightarrow> validate_approvers groups rest)"

definition validate_access_config :: "AccessControlConfig \<Rightarrow> AccessConfigError + unit" where
  "validate_access_config config =
     (if ac_enabled config \<and> list_all blank (ac_admins config) then Inl EnabledWithoutAdmins
      else case validate_rules (ac_groups config) {} (ac_rules config) of
        Inl e \<Rightarrow> Inl e
      | Inr _ \<Rightarrow> validate_approvers (ac_groups config) (ac_approvers config))"

section \<open>What an accepted configuration satisfies\<close>

text \<open>The documented invariant, stated without the loops.\<close>

definition rule_wf :: "(string, AccessGroup) btree \<Rightarrow> AccessRule \<Rightarrow> bool" where
  "rule_wf groups rule \<longleftrightarrow>
     \<not> blank (ru_id rule) \<and> ru_actions rule \<noteq> []
     \<and> (\<forall>a \<in> set (ru_actions rule). action_pattern_is_known a)
     \<and> (\<forall>g \<in> set (ru_groups rule). bt_contains groups g)"

definition approver_wf :: "(string, AccessGroup) btree \<Rightarrow> string \<times> AccessApprover \<Rightarrow> bool" where
  "approver_wf groups entry \<longleftrightarrow>
     fst entry \<noteq> [] \<and> trim (fst entry) = fst entry
     \<and> ((\<exists>s \<in> set (ap_subjects (snd entry)). \<not> blank s) \<or> ap_groups (snd entry) \<noteq> [])
     \<and> (\<forall>g \<in> set (ap_groups (snd entry)). bt_contains groups g)"

definition config_wf :: "AccessControlConfig \<Rightarrow> bool" where
  "config_wf config \<longleftrightarrow>
     (ac_enabled config \<longrightarrow> (\<exists>a \<in> set (ac_admins config). \<not> blank a))
     \<and> distinct (map ru_id (ac_rules config))
     \<and> (\<forall>r \<in> set (ac_rules config). rule_wf (ac_groups config) r)
     \<and> (\<forall>e \<in> set (ac_approvers config). approver_wf (ac_groups config) e)"

lemma validate_actions_ok [simp]:
  "validate_actions rid as = Inr u \<longleftrightarrow> (\<forall>a \<in> set as. action_pattern_is_known a)"
  by (induction as) auto

lemma validate_groups_ok [simp]:
  "validate_groups err groups gs = Inr u \<longleftrightarrow> (\<forall>g \<in> set gs. bt_contains groups g)"
  by (induction gs) auto

lemma validate_rules_ok:
  "validate_rules groups seen rules = Inr u \<longleftrightarrow>
     distinct (map ru_id rules) \<and> ru_id ` set rules \<inter> seen = {}
     \<and> (\<forall>r \<in> set rules. rule_wf groups r)"
  by (induction rules arbitrary: seen) (auto simp: rule_wf_def)

lemma validate_approvers_ok:
  "validate_approvers groups entries = Inr u \<longleftrightarrow> (\<forall>e \<in> set entries. approver_wf groups e)"
proof (induction entries)
  case Nil
  then show ?case by simp
next
  case (Cons e entries)
  obtain a h where e: "e = (a, h)" by (cases e)
  have "blank a \<or> trim a \<noteq> a \<longleftrightarrow> \<not> (a \<noteq> [] \<and> trim a = a)"
    by (auto simp: blank_def)
  with Cons e show ?case
    by (auto simp: approver_wf_def list_all_iff)
qed

lemma validate_ok_iff: "validate_access_config config = Inr u \<longleftrightarrow> config_wf config"
  by (auto simp: validate_access_config_def config_wf_def validate_rules_ok validate_approvers_ok
      list_all_iff)

text \<open>
  Every refusal names a violation that is really there; \<open>violates\<close> reads each error.
\<close>

fun violates :: "AccessControlConfig \<Rightarrow> AccessConfigError \<Rightarrow> bool" where
  "violates c EnabledWithoutAdmins = (ac_enabled c \<and> (\<forall>a \<in> set (ac_admins c). blank a))"
| "violates c EmptyRuleId = (\<exists>r \<in> set (ac_rules c). blank (ru_id r))"
| "violates c (DuplicateRuleId i) = (\<exists>pre r post. ac_rules c = pre @ r # post \<and> ru_id r = i \<and> i \<in> ru_id ` set pre)"
| "violates c (EmptyActions i) = (\<exists>r \<in> set (ac_rules c). ru_id r = i \<and> ru_actions r = [])"
| "violates c (UnknownAction i a) =
     (\<exists>r \<in> set (ac_rules c). ru_id r = i \<and> a \<in> set (ru_actions r) \<and> \<not> action_pattern_is_known a)"
| "violates c (UnknownGroup i g) =
     (\<exists>r \<in> set (ac_rules c). ru_id r = i \<and> g \<in> set (ru_groups r) \<and> \<not> bt_contains (ac_groups c) g)"
| "violates c EmptyApproverId = (\<exists>i \<in> fst ` set (ac_approvers c). i = [] \<or> trim i \<noteq> i)"
| "violates c (ApproverWithoutHolders i) =
     (\<exists>h. (i, h) \<in> set (ac_approvers c) \<and> (\<forall>s \<in> set (ap_subjects h). blank s) \<and> ap_groups h = [])"
| "violates c (UnknownApproverGroup i g) =
     (\<exists>h. (i, h) \<in> set (ac_approvers c) \<and> g \<in> set (ap_groups h) \<and> \<not> bt_contains (ac_groups c) g)"
| "violates c _ = False"

lemma validate_actions_err:
  "validate_actions rid as = Inl e \<Longrightarrow>
     \<exists>a \<in> set as. e = UnknownAction rid a \<and> \<not> action_pattern_is_known a"
  by (induction as) (auto split: if_splits)

lemma validate_groups_err:
  "validate_groups err groups gs = Inl e \<Longrightarrow> \<exists>g \<in> set gs. e = err g \<and> \<not> bt_contains groups g"
  by (induction gs) (auto split: if_splits)

lemma validate_rules_err:
  assumes "validate_rules (ac_groups c) seen rules = Inl e"
    and "ac_rules c = pre @ rules" and "seen = ru_id ` set pre"
  shows "violates c e"
  using assms
proof (induction rules arbitrary: seen pre)
  case Nil
  then show ?case by simp
next
  case (Cons r rules)
  have tail: "ac_rules c = (pre @ [r]) @ rules" "insert (ru_id r) seen = ru_id ` set (pre @ [r])"
    using Cons.prems by auto
  have dup: "violates c (DuplicateRuleId (ru_id r))" if "ru_id r \<in> seen" using that Cons.prems by auto
  show ?case
    using Cons.prems Cons.IH [OF _ tail] dup
    by (auto simp: try_eq_Inl simp del: violates.simps(3) split: if_splits dest!: validate_actions_err validate_groups_err)
qed

lemma validate_approvers_err:
  assumes "validate_approvers (ac_groups c) entries = Inl e" and "set entries \<subseteq> set (ac_approvers c)"
  shows "violates c e"
  using assms
proof (induction entries)
  case Nil
  then show ?case by simp
next
  case (Cons first rest)
  obtain approver holders where first: "first = (approver, holders)" by (cases first)
  have entry: "(approver, holders) \<in> set (ac_approvers c)" and rest: "set rest \<subseteq> set (ac_approvers c)"
    using Cons.prems(2) first by simp_all
  have "(blank approver \<or> trim approver \<noteq> approver) \<and> e = EmptyApproverId
      \<or> list_all blank (ap_subjects holders) \<and> ap_groups holders = []
          \<and> e = ApproverWithoutHolders approver
      \<or> validate_groups (UnknownApproverGroup approver) (ac_groups c) (ap_groups holders) = Inl e
      \<or> validate_approvers (ac_groups c) rest = Inl e"
    using Cons.prems(1) unfolding first by (simp add: try_eq_Inl split: if_split_asm) blast+
  then consider (id) "blank approver \<or> trim approver \<noteq> approver" "e = EmptyApproverId"
    | (none) "list_all blank (ap_subjects holders)" "ap_groups holders = []"
        "e = ApproverWithoutHolders approver"
    | (group) "validate_groups (UnknownApproverGroup approver) (ac_groups c) (ap_groups holders) = Inl e"
    | (rest) "validate_approvers (ac_groups c) rest = Inl e"
    by blast
  then show ?case
  proof cases
    case id
    then have "approver = [] \<or> trim approver \<noteq> approver" by (auto simp: blank_def)
    with id entry show ?thesis by force
  next
    case none
    with entry show ?thesis by (auto simp: list_all_iff)
  next
    case group
    with entry show ?thesis by (auto dest!: validate_groups_err)
  next
    case rest
    then show ?thesis using Cons.IH \<open>set rest \<subseteq> _\<close> by blast
  qed
qed

lemma validate_error_sound:
  assumes "validate_access_config c = Inl e"
  shows "violates c e"
proof -
  have "e = EnabledWithoutAdmins \<and> ac_enabled c \<and> list_all blank (ac_admins c)
      \<or> validate_rules (ac_groups c) {} (ac_rules c) = Inl e
      \<or> validate_approvers (ac_groups c) (ac_approvers c) = Inl e"
    using assms by (auto simp: validate_access_config_def try_eq_Inl split: if_split_asm)
  then show ?thesis
    using validate_rules_err [of c "{}" "ac_rules c" e "[]"]
      validate_approvers_err [of c "ac_approvers c" e]
    by (auto simp: list_all_iff)
qed

section \<open>What the migration changes\<close>

lemma extend_rule_id [simp]: "ru_id (fst (extend_rule r)) = ru_id r"
  by (simp add: extend_rule_def Let_def)

lemma extend_rule_keeps [simp]:
  "ru_effect (fst (extend_rule r)) = ru_effect r"
  "ru_subjects (fst (extend_rule r)) = ru_subjects r"
  "ru_groups (fst (extend_rule r)) = ru_groups r"
  "ru_agents (fst (extend_rule r)) = ru_agents r"
  "ru_roles (fst (extend_rule r)) = ru_roles r"
  "ru_match_labels (fst (extend_rule r)) = ru_match_labels r"
  by (simp_all add: extend_rule_def Let_def)

lemma memory_read_pattern [simp]:
  "action_pattern_matches ACTION_AGENT_MEMORY_READ a \<longleftrightarrow> a = ACTION_AGENT_MEMORY_READ"
proof -
  have "ACTION_AGENT_MEMORY_READ = family @ ''.*'' \<Longrightarrow> False" for family
  proof -
    assume "ACTION_AGENT_MEMORY_READ = family @ ''.*''"
    then have "last ACTION_AGENT_MEMORY_READ = last (family @ ''.*'')" by simp
    then show False by (simp add: action_defs)
  qed
  then show ?thesis by (auto simp: action_pattern_matches_iff action_defs)
qed

text \<open>
  A pattern that covers \<open>agent.memory.read\<close> without naming the memory family is \<open>*\<close> or
  \<open>agent.*\<close>, and those cover \<open>agent.view\<close> too.
\<close>

lemma broad_read_pattern_covers_view:
  assumes "action_pattern_matches p ACTION_AGENT_MEMORY_READ" and "\<not> pattern_mentions_memory p"
  shows "action_pattern_matches p ACTION_AGENT_VIEW"
proof -
  consider "p = ''*''" | "p = ACTION_AGENT_MEMORY_READ"
    | family rest where "p = family @ ''.*''" "ACTION_AGENT_MEMORY_READ = family @ ''.'' @ rest"
    using assms(1) unfolding action_pattern_matches_iff by blast
  then show ?thesis
  proof cases
    case 1
    then show ?thesis by (simp add: action_pattern_matches_def)
  next
    case 2
    then have "pattern_mentions_memory p"
      by (simp add: pattern_mentions_memory_def action_defs strip_suffix_def strip_prefix_def)
    with assms(2) show ?thesis by simp
  next
    case 3
    have "strip_suffix p ''.*'' = Some family" using 3 by simp
    then have segments: "\<not> list_ex (\<lambda>s. s = ''memory'') (split_on (CHR ''.'') family)"
      using assms(2) unfolding pattern_mentions_memory_def by (simp only: unwrap_or_simps) simp
    have "family = ''agent'' \<or> family = ''agent.memory''"
      using 3(2) by (auto simp: action_defs Cons_eq_append_conv)
    with segments have "family = ''agent''" by auto
    with 3 show ?thesis by (auto simp: action_pattern_matches_iff action_defs)
  qed
qed

lemma extend_rule_names:
  assumes "\<not> list_ex pattern_mentions_memory (ru_actions r)"
  shows "rule_names_action (fst (extend_rule r)) a \<longleftrightarrow>
     (if a = ACTION_AGENT_MEMORY_READ then rule_names_action r ACTION_AGENT_VIEW
      else rule_names_action r a)"
proof -
  have "rule_names_action r ACTION_AGENT_MEMORY_READ \<Longrightarrow> rule_names_action r ACTION_AGENT_VIEW"
    using assms broad_read_pattern_covers_view
    by (auto simp: rule_names_action_def list_ex_iff)
  then show ?thesis
    by (auto simp: extend_rule_def Let_def rule_names_action_def)
qed

lemma memory_read_known: "action_pattern_is_known ACTION_AGENT_MEMORY_READ"
  by (simp add: action_pattern_is_known_def action_defs ACCESS_ACTIONS_def strip_suffix_def
      strip_prefix_def)

lemma normalized_fields [simp]:
  "ac_enabled (normalized c) = ac_enabled c"
  "ac_admins (normalized c) = ac_admins c"
  "ac_groups (normalized c) = ac_groups c"
  "ac_approvers (normalized c) = ac_approvers c"
  by (simp_all add: normalize_access_config_for_memory_actions_def Let_def)

lemma normalized_naive_rules:
  "\<not> mentions_memory c \<Longrightarrow> ac_rules (normalized c) = map (fst \<circ> extend_rule) (ac_rules c)"
  by (simp add: normalize_access_config_for_memory_actions_def Let_def)

lemma rule_wf_extend: "rule_wf groups r \<Longrightarrow> rule_wf groups (fst (extend_rule r))"
  by (auto simp: rule_wf_def extend_rule_def Let_def memory_read_known)

lemma normalized_wf: "config_wf c \<Longrightarrow> config_wf (normalized c)"
proof (cases "mentions_memory c")
  case True
  then show "config_wf c \<Longrightarrow> ?thesis" by (simp add: normalize_access_config_for_memory_actions_def)
next
  case False
  then show "config_wf c \<Longrightarrow> ?thesis"
    by (auto simp: config_wf_def normalized_naive_rules comp_def rule_wf_extend)
qed

lemma memory_read_mentions: "pattern_mentions_memory ACTION_AGENT_MEMORY_READ"
  by (simp add: pattern_mentions_memory_def action_defs strip_suffix_def strip_prefix_def)

lemma extend_rule_mentions:
  "snd (extend_rule r) \<Longrightarrow> list_ex pattern_mentions_memory (ru_actions (fst (extend_rule r)))"
  by (auto simp: extend_rule_def Let_def memory_read_mentions split: if_splits)

lemma extend_rule_unchanged: "\<not> snd (extend_rule r) \<Longrightarrow> fst (extend_rule r) = r"
  by (auto simp: extend_rule_def Let_def split: if_splits)

text \<open>The rewrite is self-limiting: a second pass changes nothing and reports no change.\<close>

lemma normalize_again:
  "normalize_access_config_for_memory_actions (normalized c) = (normalized c, False)"
proof (cases "mentions_memory c \<or> list_ex (snd \<circ> extend_rule) (ac_rules c)")
  case True
  have "mentions_memory (normalized c)"
  proof (cases "mentions_memory c")
    case True
    then show ?thesis by (simp add: normalize_access_config_for_memory_actions_def)
  next
    case False
    with True obtain r where "r \<in> set (ac_rules c)" "snd (extend_rule r)"
      by (auto simp: list_ex_iff)
    with extend_rule_mentions [of r] False show ?thesis
      unfolding mentions_memory_def [of "normalized c"] normalized_naive_rules [OF False]
      by (auto simp: list_ex_iff)
  qed
  then show ?thesis by (simp add: normalize_access_config_for_memory_actions_def)
next
  case False
  then have "map extend_rule (ac_rules c) = map (\<lambda>r. (r, False)) (ac_rules c)"
    by (auto simp: list_ex_iff prod_eq_iff extend_rule_unchanged)
  with False show ?thesis
    by (simp add: normalize_access_config_for_memory_actions_def Let_def comp_def list_ex_iff)
qed

section \<open>Properties\<close>

text \<open>
  C3. Validation is exact: a configuration is accepted exactly when it satisfies the documented
  well-formedness conditions (an enabled configuration names a non-blank administrator, rule
  ids are non-blank and unique, every rule has known actions and defined groups, every approver
  id is trimmed, non-empty and held by someone through defined groups), and every refusal
  reports a violation that the configuration really has.
\<close>

theorem validate_access_config_exact:
  "case validate_access_config config of
     Inr _ \<Rightarrow> config_wf config
   | Inl e \<Rightarrow> violates config e \<and> \<not> config_wf config"
proof (cases "validate_access_config config")
  case (Inl e)
  then have "\<not> config_wf config" using validate_ok_iff [of config "()"] by simp
  with Inl validate_error_sound show ?thesis by simp
next
  case (Inr u)
  then have "config_wf config" using validate_ok_iff [of config u] by blast
  with Inr show ?thesis by simp
qed

end
