(* ===== verification/Access_Engine.thy ===== *)
theory Access_Engine
  imports Access_Model
begin

text \<open>
  Rule evaluation (\<open>crates/meerkat-meta/src/access/engine.rs\<close>): principals, resources, the
  match of a rule against both, and the deny-overrides decision over an agent and its spawn
  lineage. The locale \<open>deny_overrides\<close> states the combining algorithm a rule evaluator
  promises; what follows from it (order irrelevance, the effect of adding rules) is proved
  there once and obtained for the evaluator by interpretation.
\<close>

section \<open>Principals, resources and decisions\<close>

record AccessPrincipal =
  pr_subject :: "string option"
  pr_groups :: "string set"

definition anonymous :: AccessPrincipal where
  "anonymous = \<lparr>pr_subject = None, pr_groups = {}\<rparr>"

record AccessResource =
  re_identity :: "string option"
  re_agent_id :: "string option"
  re_role :: "string option"
  re_labels :: "(string, string) btree option"

definition no_resource :: AccessResource where
  "no_resource = \<lparr>re_identity = None, re_agent_id = None, re_role = None, re_labels = None\<rparr>"

definition for_identity :: "string \<Rightarrow> AccessResource" where
  "for_identity identity = no_resource\<lparr>re_identity := Some identity\<rparr>"

definition is_present :: "AccessResource \<Rightarrow> bool" where
  "is_present resource = (re_identity resource \<noteq> None \<or> re_agent_id resource \<noteq> None)"

datatype AccessDecision = Allow | Deny string

definition is_allow :: "AccessDecision \<Rightarrow> bool" where
  "is_allow d = (case d of Allow \<Rightarrow> True | Deny _ \<Rightarrow> False)"

definition decision_reason :: "AccessDecision \<Rightarrow> string option" where
  "decision_reason d = (case d of Allow \<Rightarrow> None | Deny reason \<Rightarrow> Some reason)"

lemma is_allow_simps [simp]: "is_allow Allow" "\<not> is_allow (Deny r)"
  by (simp_all add: is_allow_def)

section \<open>Matching one rule\<close>

definition subject_matches :: "AccessRule \<Rightarrow> AccessPrincipal \<Rightarrow> bool" where
  "subject_matches rule princ =
     (if ru_subjects rule = [] \<and> ru_groups rule = [] then True
      else if is_some_and (pr_subject princ)
                (\<lambda>subject. list_ex (\<lambda>candidate. candidate = ''*'' \<or> candidate = subject) (ru_subjects rule))
      then True
      else list_ex (\<lambda>group. group \<in> pr_groups princ) (ru_groups rule))"

definition agent_listed :: "AccessRule \<Rightarrow> AccessResource \<Rightarrow> bool" where
  "agent_listed rule resource =
     list_ex (\<lambda>candidate. candidate = ''*''
         \<or> is_some_and (re_identity resource) (\<lambda>identity. identity = candidate)
         \<or> is_some_and (re_agent_id resource) (\<lambda>agent_id. agent_id = candidate))
       (ru_agents rule)"

definition role_listed :: "AccessRule \<Rightarrow> AccessResource \<Rightarrow> bool" where
  "role_listed rule resource =
     is_some_and (re_role resource)
       (\<lambda>role. list_ex (\<lambda>candidate. candidate = ''*'' \<or> candidate = role) (ru_roles rule))"

definition all_labels_match :: "AccessRule \<Rightarrow> (string, string) btree \<Rightarrow> bool" where
  "all_labels_match rule labels =
     list_all (\<lambda>(key, value). bt_get labels key = Some value) (ru_match_labels rule)"

definition resource_matches :: "AccessRule \<Rightarrow> AccessResource \<Rightarrow> bool" where
  "resource_matches rule resource =
     (if \<not> has_resource_selector rule then True
      else if \<not> is_present resource then False
      else if ru_agents rule \<noteq> [] \<and> \<not> agent_listed rule resource then False
      else if ru_roles rule \<noteq> [] \<and> \<not> role_listed rule resource then False
      else if ru_match_labels rule \<noteq> [] then
        (case re_labels resource of
           None \<Rightarrow> False
         | Some labels \<Rightarrow> all_labels_match rule labels)
      else True)"

section \<open>Evaluating the rule set\<close>

definition rule_matches ::
  "AccessPrincipal \<Rightarrow> string \<Rightarrow> AccessResource list \<Rightarrow> AccessRule \<Rightarrow> bool" where
  "rule_matches princ action resources rule =
     (rule_names_action rule action
      \<and> subject_matches rule princ
      \<and> list_ex (resource_matches rule) resources)"

text \<open>The rule loop: \<open>allowed\<close> is its accumulator and a matching deny returns at once.\<close>

fun eval_rules ::
  "AccessPrincipal \<Rightarrow> string \<Rightarrow> AccessResource list \<Rightarrow> bool \<Rightarrow> AccessRule list \<Rightarrow> AccessDecision" where
  "eval_rules princ action resources allowed [] =
     (if allowed then Allow else Deny (''no rule allows '' @ action))"
| "eval_rules princ action resources allowed (rule # rules) =
     (if \<not> rule_matches princ action resources rule
      then eval_rules princ action resources allowed rules
      else case ru_effect rule of
        EffDeny \<Rightarrow> Deny (''denied by rule '' @ ru_id rule)
      | EffAllow \<Rightarrow> eval_rules princ action resources True rules)"

definition subject_is_admin :: "AccessControlConfig \<Rightarrow> AccessPrincipal \<Rightarrow> bool" where
  "subject_is_admin config princ =
     is_some_and (pr_subject princ) (\<lambda>subject. list_ex (\<lambda>admin. admin = subject) (ac_admins config))"

definition evaluate_access_lineage ::
  "AccessControlConfig \<Rightarrow> AccessPrincipal \<Rightarrow> string \<Rightarrow> AccessResource list \<Rightarrow> AccessDecision" where
  "evaluate_access_lineage config princ action resources =
     (if \<not> ac_enabled config then Allow
      else if subject_is_admin config princ then Allow
      else eval_rules princ action resources False (ac_rules config))"

definition evaluate_access ::
  "AccessControlConfig \<Rightarrow> AccessPrincipal \<Rightarrow> string \<Rightarrow> AccessResource \<Rightarrow> AccessDecision" where
  "evaluate_access config princ action resource =
     evaluate_access_lineage config princ action [resource]"

definition principal_may_perform :: "AccessControlConfig \<Rightarrow> AccessPrincipal \<Rightarrow> string \<Rightarrow> bool" where
  "principal_may_perform config princ action =
     (if \<not> ac_enabled config then True
      else list_ex (\<lambda>rule. ru_effect rule = EffAllow \<and> rule_names_action rule action
                       \<and> subject_matches rule princ) (ac_rules config))"

definition groups_for_subject :: "AccessControlConfig \<Rightarrow> string \<Rightarrow> string set" where
  "groups_for_subject config subject =
     set (map fst (filter (\<lambda>(_, group). list_ex (\<lambda>member. member = subject) (gr_members group))
                    (ac_groups config)))"

section \<open>The deny-overrides contract\<close>

text \<open>
  A rule evaluator combines by deny-overrides when it grants exactly if some applicable rule
  allows and no applicable rule denies.
\<close>

locale deny_overrides =
  fixes grants :: "'rule list \<Rightarrow> bool"
    and applies :: "'rule \<Rightarrow> bool"
    and denies :: "'rule \<Rightarrow> bool"
  assumes grants_iff:
    "grants rules \<longleftrightarrow>
       (\<exists>r \<in> set rules. applies r \<and> \<not> denies r) \<and> \<not> (\<exists>r \<in> set rules. applies r \<and> denies r)"
begin

lemma order_irrelevant: "set rules = set rules' \<Longrightarrow> grants rules = grants rules'"
  by (simp add: grants_iff)

lemma deny_wins: "r \<in> set rules \<Longrightarrow> applies r \<Longrightarrow> denies r \<Longrightarrow> \<not> grants rules"
  by (auto simp: grants_iff)

lemma default_deny: "\<forall>r \<in> set rules. \<not> applies r \<Longrightarrow> \<not> grants rules"
  by (auto simp: grants_iff)

lemma more_denies_shrink: "\<forall>r \<in> set extra. denies r \<Longrightarrow> grants (rules @ extra) \<Longrightarrow> grants rules"
  by (auto simp: grants_iff)

lemma more_allows_grow: "\<forall>r \<in> set extra. \<not> denies r \<Longrightarrow> grants rules \<Longrightarrow> grants (rules @ extra)"
  by (auto simp: grants_iff)

end

lemma eval_rules_allow_iff:
  "is_allow (eval_rules p a rs allowed rules) \<longleftrightarrow>
     (allowed \<or> (\<exists>r \<in> set rules. rule_matches p a rs r \<and> ru_effect r \<noteq> EffDeny))
     \<and> \<not> (\<exists>r \<in> set rules. rule_matches p a rs r \<and> ru_effect r = EffDeny)"
  by (induction rules arbitrary: allowed) (auto split: AccessEffect.splits)

interpretation engine: deny_overrides "\<lambda>rules. is_allow (eval_rules p a rs False rules)"
  "rule_matches p a rs" "\<lambda>r. ru_effect r = EffDeny" for p a rs
  by unfold_locales (simp add: eval_rules_allow_iff)

section \<open>Consequences for the evaluator\<close>

lemma evaluate_allow_iff:
  "is_allow (evaluate_access_lineage c p a rs) \<longleftrightarrow>
     \<not> ac_enabled c \<or> subject_is_admin c p
     \<or> ((\<exists>r \<in> set (ac_rules c). rule_matches p a rs r \<and> ru_effect r = EffAllow)
        \<and> \<not> (\<exists>r \<in> set (ac_rules c). rule_matches p a rs r \<and> ru_effect r = EffDeny))"
proof -
  have "ru_effect r \<noteq> EffDeny \<longleftrightarrow> ru_effect r = EffAllow" for r :: AccessRule
    by (cases "ru_effect r") simp_all
  then show ?thesis by (simp add: evaluate_access_lineage_def engine.grants_iff)
qed

text \<open>An unauthenticated principal matches only rules that constrain neither subject nor group.\<close>

lemma subject_matches_anonymous [simp]:
  "subject_matches r anonymous \<longleftrightarrow> ru_subjects r = [] \<and> ru_groups r = []"
  by (auto simp: subject_matches_def anonymous_def list_ex_iff)

lemma resource_matches_none [simp]: "resource_matches r no_resource \<longleftrightarrow> \<not> has_resource_selector r"
  by (simp add: resource_matches_def is_present_def no_resource_def)

lemma subject_is_admin_anonymous [simp]: "\<not> subject_is_admin c anonymous"
  by (simp add: subject_is_admin_def anonymous_def)

text \<open>Unknown labels never satisfy a label selector.\<close>

lemma unknown_labels_fail_closed:
  "ru_match_labels r \<noteq> [] \<Longrightarrow> re_labels res = None \<Longrightarrow> \<not> resource_matches r res"
  by (simp add: resource_matches_def has_resource_selector_def)

lemma groups_for_subject_iff:
  "g \<in> groups_for_subject c s \<longleftrightarrow> (\<exists>grp. (g, grp) \<in> set (ac_groups c) \<and> s \<in> set (gr_members grp))"
  by (force simp: groups_for_subject_def list_ex_iff)

text \<open>A decision to allow is always advertised as possible.\<close>

lemma allow_may_perform:
  assumes "is_allow (evaluate_access_lineage c p a rs)"
  shows "subject_is_admin c p \<or> principal_may_perform c p a"
proof (cases "\<not> ac_enabled c \<or> subject_is_admin c p")
  case True
  then show ?thesis by (auto simp: principal_may_perform_def)
next
  case False
  with assms show ?thesis
    by (auto simp: evaluate_allow_iff principal_may_perform_def list_ex_iff rule_matches_def)
qed

text \<open>Adding resources to a lineage only adds rule matches.\<close>

lemma rule_matches_mono: "set rs \<subseteq> set rs' \<Longrightarrow> rule_matches p a rs r \<Longrightarrow> rule_matches p a rs' r"
  by (auto simp: rule_matches_def list_ex_iff)

lemma rule_matches_union:
  "rule_matches p a (rs @ rs') r \<longleftrightarrow> rule_matches p a rs r \<or> rule_matches p a rs' r"
  by (auto simp: rule_matches_def)

text \<open>The migrated configuration decides memory reads as the original decides views.\<close>

lemma rule_matches_extend:
  assumes "\<not> list_ex pattern_mentions_memory (ru_actions r)"
  shows "rule_matches p a rs (fst (extend_rule r)) \<longleftrightarrow>
    rule_matches p (if a = ACTION_AGENT_MEMORY_READ then ACTION_AGENT_VIEW else a) rs r"
proof -
  have "all_labels_match (fst (extend_rule r)) = all_labels_match r"
    "agent_listed (fst (extend_rule r)) = agent_listed r"
    "role_listed (fst (extend_rule r)) = role_listed r"
    by (simp_all add: fun_eq_iff agent_listed_def role_listed_def all_labels_match_def)
  then have "resource_matches (fst (extend_rule r)) = resource_matches r"
    by (intro ext) (simp add: resource_matches_def has_resource_selector_def split: option.split)
  moreover have "subject_matches (fst (extend_rule r)) p = subject_matches r p"
    by (simp add: subject_matches_def)
  ultimately show ?thesis using extend_rule_names [OF assms] by (simp add: rule_matches_def)
qed

lemma normalized_decision:
  assumes "\<not> mentions_memory c"
  shows "is_allow (evaluate_access_lineage (normalized c) p a rs) \<longleftrightarrow>
    is_allow (evaluate_access_lineage c p
       (if a = ACTION_AGENT_MEMORY_READ then ACTION_AGENT_VIEW else a) rs)"
proof -
  let ?a = "if a = ACTION_AGENT_MEMORY_READ then ACTION_AGENT_VIEW else a"
  have naive: "\<not> list_ex pattern_mentions_memory (ru_actions r)" if "r \<in> set (ac_rules c)" for r
    using assms that by (auto simp: mentions_memory_def list_ex_iff)
  have "(\<exists>r \<in> set (ac_rules (normalized c)). rule_matches p a rs r \<and> ru_effect r = e) \<longleftrightarrow>
      (\<exists>r \<in> set (ac_rules c). rule_matches p ?a rs r \<and> ru_effect r = e)" for e
    using naive by (auto simp: normalized_naive_rules [OF assms] rule_matches_extend)
  then show ?thesis by (simp add: evaluate_allow_iff subject_is_admin_def)
qed

section \<open>Properties\<close>

text \<open>
  C1. The decision over an agent and its lineage is deny-overrides with default deny: under an
  enabled configuration, for a principal who is not an administrator, it allows exactly when
  some allow rule matches one of the resources and no deny rule matches any of them; a disabled
  configuration and an administrator always pass.
\<close>

theorem evaluate_access_lineage_deny_overrides:
  "is_allow (evaluate_access_lineage config princ action resources) =
     (if ac_enabled config \<and> \<not> subject_is_admin config princ
      then (\<exists>rule \<in> set (ac_rules config).
              rule_matches princ action resources rule \<and> ru_effect rule = EffAllow)
           \<and> \<not> (\<exists>rule \<in> set (ac_rules config).
              rule_matches princ action resources rule \<and> ru_effect rule = EffDeny)
      else True)"
  by (auto simp: evaluate_allow_iff)

text \<open>
  C4. The memory migration preserves decisions: the normalized configuration decides
  \<open>agent.memory.read\<close> exactly as the original decides \<open>agent.view\<close> when the original
  mentions no memory action, and decides everything else, and every action of a configuration
  that does mention memory, as the original does.
\<close>

theorem normalize_reads_ride_views:
  "is_allow (evaluate_access_lineage (normalized config) princ action resources) =
   is_allow (evaluate_access_lineage config princ
     (if action = ACTION_AGENT_MEMORY_READ \<and> \<not> mentions_memory config
      then ACTION_AGENT_VIEW else action) resources)"
proof (cases "mentions_memory config")
  case True
  then show ?thesis by (simp add: normalize_access_config_for_memory_actions_def)
next
  case False
  then show ?thesis by (simp add: normalized_decision)
qed

text \<open>
  The order of the rules is irrelevant: two enabled or disabled configurations with the
  same administrators and the same rules, listed in any order, take the same decision.
\<close>

theorem evaluate_access_order_irrelevant:
  assumes "mset rules = mset (ac_rules config)"
  shows "is_allow (evaluate_access (config\<lparr>ac_rules := rules\<rparr>) princ action resource) =
    is_allow (evaluate_access config princ action resource)"
proof -
  have "set rules = set (ac_rules config)" using assms by (metis set_mset_mset)
  then show ?thesis
    using engine.order_irrelevant [of rules "ac_rules config" princ action "[resource]"]
    by (simp add: evaluate_access_def evaluate_access_lineage_def subject_is_admin_def)
qed

definition sample_rule :: "string \<Rightarrow> AccessEffect \<Rightarrow> string list \<Rightarrow> string list \<Rightarrow> AccessRule" where
  "sample_rule rid effect subjects actions =
     \<lparr>ru_id = rid, ru_description = None, ru_effect = effect, ru_subjects = subjects, ru_groups = [],
      ru_actions = actions, ru_agents = [], ru_roles = [], ru_match_labels = []\<rparr>"

theorem evaluate_access_order_irrelevant_witness:
  "let a = sample_rule ''a'' EffAllow [''bob''] [''*''];
       d = sample_rule ''d'' EffDeny [''bob''] [''agent.send''];
       config = \<lparr>ac_enabled = True, ac_admins = [''root''], ac_groups = [], ac_rules = [a, d],
                 ac_approvers = []\<rparr> in
   mset [d, a] = mset (ac_rules config)
   \<and> is_allow (evaluate_access (config\<lparr>ac_rules := [d, a]\<rparr>)
        \<lparr>pr_subject = Some ''bob'', pr_groups = {}\<rparr> ACTION_AGENT_SEND no_resource) =
     is_allow (evaluate_access config
        \<lparr>pr_subject = Some ''bob'', pr_groups = {}\<rparr> ACTION_AGENT_SEND no_resource)"
  unfolding Let_def
  by (rule conjI, simp, rule evaluate_access_order_irrelevant) simp

end
