(* ===== verification/Access_Controller.thy ===== *)
theory Access_Controller
  imports Access_Engine Transition_Systems
begin

text \<open>
  The live access-control state (\<open>crates/meerkat-meta/src/access/controller.rs\<close>): the
  configuration with its revision, the agent attribute cache, checked and unchecked edits,
  persistence through a temporary file, the per-request view and the spawn lineage an agent
  decision is evaluated over.

  Every edit holds the mutation lock from its read of the configuration to the swap, and a
  decision fence holds the read locks for one decision, so edits, attribute updates and
  fenced decisions are the atomic steps of the model. The file system is part of the state
  (\<open>ctl_disk\<close>); the outcome of each file operation and the TOML rendering are parameters.
  The joined authorization publication belongs to another crate: the state counts the owner
  changes begun on it.
\<close>

section \<open>State\<close>

record AgentResourceAttributes =
  at_identity :: string
  at_agent_id :: "string option"
  at_role :: "string option"
  at_labels :: "(string, string) btree"

record AccessEditPrecondition =
  ep_owner_instance :: string
  ep_expected_revision :: u64

datatype AccessMutation =
    Replace AccessControlConfig
  | UpsertRule AccessRule
  | DeleteRule string
  | SetGroup string AccessGroup
  | DeleteGroup string
  | SetEnabled bool

datatype AccessEditError =
    EditDenied
  | EditUnavailable
  | OwnerChanged
  | RevisionConflict u64 u64
  | EditConfig AccessConfigError

text \<open>A path is its parent directory and its final component, where it has one.\<close>

record Path =
  pa_parent :: "string option"
  pa_file_name :: "string option"

type_synonym disk = "Path \<Rightarrow> string option"

text \<open>
  The outcome of the operations one save performs: a rendering, or an error message. A failed
  write leaves some content (\<open>fs_write_failed\<close>) in the temporary file.
\<close>

record FsEnv =
  fs_render :: "AccessControlConfig \<Rightarrow> string + string"
  fs_create_dir_error :: "string option"
  fs_write_error :: "(string \<times> string option) option"
  fs_rename_error :: "string option"
  fs_display :: "Path \<Rightarrow> string"

record AccessController =
  ctl_owner_instance :: "string option"
  ctl_config :: AccessControlConfig
  ctl_revision :: u64
  ctl_persist_path :: "Path option"
  ctl_attributes :: "(string, AgentResourceAttributes) btree"
  ctl_publication :: "nat option"
  ctl_disk :: disk

section \<open>Construction\<close>

definition with_edit_identity ::
  "AccessControlConfig \<Rightarrow> string option \<Rightarrow> disk \<Rightarrow> AccessConfigError + AccessController" where
  "with_edit_identity config owner_instance disk =
     (let config = normalized config in
      case validate_access_config config of
        Inl e \<Rightarrow> Inl e
      | Inr _ \<Rightarrow> Inr \<lparr>ctl_owner_instance = owner_instance, ctl_config = config, ctl_revision = 0,
                    ctl_persist_path = None, ctl_attributes = [], ctl_publication = None,
                    ctl_disk = disk\<rparr>)"

definition with_persist_path :: "Path \<Rightarrow> AccessController \<Rightarrow> AccessController" where
  "with_persist_path path ctl = ctl\<lparr>ctl_persist_path := Some path\<rparr>"

text \<open>
  \<open>load\<close>: the file is read from the disk; \<open>parse\<close> is the TOML reader and \<open>io_error\<close> the
  message of a failed read.
\<close>

definition load ::
  "(string \<Rightarrow> string + AccessControlConfig) \<Rightarrow> (Path \<Rightarrow> string) \<Rightarrow> Path \<Rightarrow> string option \<Rightarrow> disk
     \<Rightarrow> AccessConfigError + AccessController" where
  "load parse io_error path owner_instance disk =
     (case disk path of
        None \<Rightarrow> Inl (IoError (io_error path))
      | Some raw \<Rightarrow>
         (case parse raw of
            Inl message \<Rightarrow> Inl (ParseError message)
          | Inr config \<Rightarrow>
             (case with_edit_identity config owner_instance disk of
                Inl e \<Rightarrow> Inl e
              | Inr ctl \<Rightarrow> Inr (with_persist_path path ctl))))"

definition join_authorization_publication :: "AccessController \<Rightarrow> (unit + unit) \<times> AccessController" where
  "join_authorization_publication ctl =
     (case ctl_publication ctl of
        Some _ \<Rightarrow> (Inl (), ctl)
      | None \<Rightarrow> (Inr (), ctl\<lparr>ctl_publication := Some 0\<rparr>))"

text \<open>
  The count of owner changes asked of the joined publication. The publication is not part of the
  repository; one that cannot begin a change refuses all observations under it, and the edit
  proceeds either way.
\<close>

definition publish_owner_change :: "AccessController \<Rightarrow> AccessController" where
  "publish_owner_change ctl = ctl\<lparr>ctl_publication := map_option Suc (ctl_publication ctl)\<rparr>"

section \<open>Edits\<close>

fun upsert_rule_in :: "AccessRule \<Rightarrow> AccessRule list \<Rightarrow> AccessRule list" where
  "upsert_rule_in rule [] = [rule]"
| "upsert_rule_in rule (existing # rules) =
     (if ru_id existing = ru_id rule then rule # rules else existing # upsert_rule_in rule rules)"

fun apply_mutation :: "AccessMutation \<Rightarrow> AccessControlConfig \<Rightarrow> AccessConfigError + AccessControlConfig" where
  "apply_mutation (Replace replacement) config = Inr replacement"
| "apply_mutation (UpsertRule rule) config =
     Inr (config\<lparr>ac_rules := upsert_rule_in rule (ac_rules config)\<rparr>)"
| "apply_mutation (DeleteRule rid) config =
     (let before = length (ac_rules config);
          rules = filter (\<lambda>rule. ru_id rule \<noteq> rid) (ac_rules config) in
      if length rules = before then Inl (UnknownRule rid)
      else Inr (config\<lparr>ac_rules := rules\<rparr>))"
| "apply_mutation (SetGroup name grp) config =
     Inr (config\<lparr>ac_groups := bt_insert name grp (ac_groups config)\<rparr>)"
| "apply_mutation (DeleteGroup name) config =
     Inr (config\<lparr>ac_groups := bt_remove name (ac_groups config)\<rparr>)"
| "apply_mutation (SetEnabled enabled) config = Inr (config\<lparr>ac_enabled := enabled\<rparr>)"

definition persist_header :: string where
  "persist_header =
     ''# Meta access control. Managed by the console Access panel;'' @ [CHR 0x0A]
     @ ''# hand edits are preserved until the next console save.'' @ [CHR 0x0A, CHR 0x0A]"

definition tmp_path :: "Path \<Rightarrow> string \<Rightarrow> Path" where
  "tmp_path path name = path\<lparr>pa_file_name := Some (name @ ''.tmp'')\<rparr>"

text \<open>Write the temporary sibling and rename it over the target.\<close>

definition write_and_rename :: "FsEnv \<Rightarrow> Path \<Rightarrow> string \<Rightarrow> string \<Rightarrow> disk \<Rightarrow> (AccessConfigError + unit) \<times> disk" where
  "write_and_rename env path name content disk =
     (let tmp = tmp_path path name in
      case fs_write_error env of
        Some (err, left) \<Rightarrow> (Inl (IoError err), disk(tmp := left))
      | None \<Rightarrow>
         (case fs_rename_error env of
            Some err \<Rightarrow> (Inl (IoError err), disk(tmp := Some content))
          | None \<Rightarrow> (Inr (), disk(tmp := None, path := Some content))))"

definition persist_config :: "FsEnv \<Rightarrow> Path \<Rightarrow> AccessControlConfig \<Rightarrow> disk \<Rightarrow> (AccessConfigError + unit) \<times> disk" where
  "persist_config env path config disk =
     (case fs_render env config of
        Inl err \<Rightarrow> (Inl (ParseError err), disk)
      | Inr rendered \<Rightarrow>
         (case (if is_some_and (pa_parent path) (\<lambda>parent. parent \<noteq> []) then fs_create_dir_error env else None) of
            Some err \<Rightarrow> (Inl (IoError err), disk)
          | None \<Rightarrow>
             (case pa_file_name path of
                None \<Rightarrow> (Inl (IoError (''access config path has no file name: '' @ fs_display env path)), disk)
              | Some name \<Rightarrow> write_and_rename env path name (persist_header @ rendered) disk)))"

definition commit :: "FsEnv \<Rightarrow> AccessControlConfig \<Rightarrow> AccessController \<Rightarrow> (AccessConfigError + u64) \<times> AccessController" where
  "commit env config ctl =
     (case checked_add (ctl_revision ctl) 1 of
        None \<Rightarrow> (Inl RevisionExhausted, ctl)
      | Some next_revision \<Rightarrow>
         (let (saved, disk) =
            (case ctl_persist_path ctl of
               None \<Rightarrow> (Inr (), ctl_disk ctl)
             | Some path \<Rightarrow> persist_config env path config (ctl_disk ctl));
              ctl = ctl\<lparr>ctl_disk := disk\<rparr> in
          case saved of
            Inl e \<Rightarrow> (Inl e, ctl)
          | Inr _ \<Rightarrow>
              (Inr next_revision,
               (publish_owner_change ctl)\<lparr>ctl_config := config, ctl_revision := next_revision\<rparr>)))"

definition edit_and_commit ::
  "FsEnv \<Rightarrow> AccessControlConfig \<Rightarrow> AccessMutation \<Rightarrow> AccessController
     \<Rightarrow> (AccessConfigError + u64) \<times> AccessController" where
  "edit_and_commit env config mutation ctl =
     (case apply_mutation mutation config of
        Inl e \<Rightarrow> (Inl e, ctl)
      | Inr config \<Rightarrow>
         (let config = normalized config in
          case validate_access_config config of
            Inl e \<Rightarrow> (Inl e, ctl)
          | Inr _ \<Rightarrow> commit env config ctl))"

text \<open>The trusted direct edits (\<open>replace_config\<close>, \<open>upsert_rule\<close>, \<dots>) all go through \<open>mutate\<close>.\<close>

definition mutate :: "FsEnv \<Rightarrow> AccessMutation \<Rightarrow> AccessController \<Rightarrow> (AccessConfigError + u64) \<times> AccessController" where
  "mutate env mutation ctl = edit_and_commit env (ctl_config ctl) mutation ctl"

definition replace_config where
  "replace_config env config = mutate env (Replace config)"

definition upsert_rule where
  "upsert_rule env rule = mutate env (UpsertRule rule)"

definition delete_rule where
  "delete_rule env rid = mutate env (DeleteRule rid)"

definition set_group where
  "set_group env name grp = mutate env (SetGroup name grp)"

definition delete_group where
  "delete_group env name = mutate env (DeleteGroup name)"

definition set_enabled where
  "set_enabled env enabled = mutate env (SetEnabled enabled)"

section \<open>Views\<close>

text \<open>
  A view pins a configuration and a principal; the attribute cache is read through the
  controller when a decision is made.
\<close>

record AccessView =
  vw_config :: AccessControlConfig
  vw_principal :: AccessPrincipal
  vw_is_admin :: bool

definition view_from_config :: "AccessControlConfig \<Rightarrow> string option \<Rightarrow> AccessView" where
  "view_from_config config subject =
     (let princ = (case subject of
            Some s \<Rightarrow> \<lparr>pr_subject = Some s, pr_groups = groups_for_subject config s\<rparr>
          | None \<Rightarrow> anonymous) in
      \<lparr>vw_config = config, vw_principal = princ, vw_is_admin = subject_is_admin config princ\<rparr>)"

definition view_and_revision :: "AccessController \<Rightarrow> string option \<Rightarrow> AccessView \<times> u64" where
  "view_and_revision ctl subject = (view_from_config (ctl_config ctl) subject, ctl_revision ctl)"

definition decide :: "AccessView \<Rightarrow> string \<Rightarrow> AccessResource \<Rightarrow> AccessDecision" where
  "decide view action resource = evaluate_access (vw_config view) (vw_principal view) action resource"

definition allows :: "AccessView \<Rightarrow> string \<Rightarrow> bool" where
  "allows view action = is_allow (decide view action no_resource)"

definition may_perform_anywhere :: "AccessView \<Rightarrow> string \<Rightarrow> bool" where
  "may_perform_anywhere view action =
     (vw_is_admin view \<or> principal_may_perform (vw_config view) (vw_principal view) action)"

definition can_administer :: "AccessView \<Rightarrow> bool" where
  "can_administer view =
     (if vw_is_admin view then True
      else ac_enabled (vw_config view) \<and> is_allow (decide view ACTION_ACCESS_ADMIN no_resource))"

definition held_approver_ids :: "AccessView \<Rightarrow> string set" where
  "held_approver_ids view =
     (case pr_subject (vw_principal view) of
        None \<Rightarrow> {}
      | Some subject \<Rightarrow>
          set (map fst (filter (\<lambda>(_, holders).
                 list_ex (\<lambda>holder. holder = subject) (ap_subjects holders)
                 \<or> list_ex (\<lambda>group. group \<in> pr_groups (vw_principal view)) (ap_groups holders))
               (ac_approvers (vw_config view)))))"

definition admin_config :: "AccessController \<Rightarrow> string option \<Rightarrow> AccessEditError + (AccessControlConfig \<times> u64)" where
  "admin_config ctl subject =
     (let (view, revision) = view_and_revision ctl subject in
      if \<not> can_administer view then Inl EditDenied else Inr (vw_config view, revision))"

definition admin_preview :: "AccessController \<Rightarrow> string option \<Rightarrow> string option \<Rightarrow> AccessEditError + AccessView" where
  "admin_preview ctl caller target =
     (if \<not> can_administer (view_from_config (ctl_config ctl) caller) then Inl EditDenied
      else Inr (view_from_config (ctl_config ctl) target))"

definition check_precondition ::
  "AccessEditPrecondition option \<Rightarrow> u64 \<Rightarrow> AccessController \<Rightarrow> AccessEditError + unit" where
  "check_precondition expected revision ctl =
     (case expected of
        None \<Rightarrow> Inr ()
      | Some expected \<Rightarrow>
         (case ctl_owner_instance ctl of
            None \<Rightarrow> Inl EditUnavailable
          | Some inst \<Rightarrow>
             (if inst \<noteq> ep_owner_instance expected then Inl OwnerChanged
              else if revision \<noteq> ep_expected_revision expected
              then Inl (RevisionConflict (ep_expected_revision expected) revision)
              else Inr ())))"

definition mutate_admin ::
  "FsEnv \<Rightarrow> string option \<Rightarrow> AccessEditPrecondition option \<Rightarrow> AccessMutation \<Rightarrow> AccessController
     \<Rightarrow> (AccessEditError + u64) \<times> AccessController" where
  "mutate_admin env subject expected mutation ctl =
     (case admin_config ctl subject of
        Inl e \<Rightarrow> (Inl e, ctl)
      | Inr (config, revision) \<Rightarrow>
         (case check_precondition expected revision ctl of
            Inl e \<Rightarrow> (Inl e, ctl)
          | Inr _ \<Rightarrow>
             (let (result, ctl) = edit_and_commit env config mutation ctl in
              (map_sum EditConfig id result, ctl))))"

section \<open>Agent attributes\<close>

definition records_attributes :: "AccessController \<Rightarrow> AgentResourceAttributes \<Rightarrow> bool" where
  "records_attributes ctl attributes =
     is_some_and (bt_get (ctl_attributes ctl) (at_identity attributes)) (\<lambda>recorded. recorded = attributes)"

definition record_agent_attributes :: "AgentResourceAttributes \<Rightarrow> AccessController \<Rightarrow> AccessController" where
  "record_agent_attributes attributes ctl =
     (if at_identity attributes = [] \<or> records_attributes ctl attributes then ctl
      else (publish_owner_change ctl)
             \<lparr>ctl_attributes := bt_insert (at_identity attributes) attributes (ctl_attributes ctl)\<rparr>)"

definition replace_agent_attributes :: "AgentResourceAttributes list \<Rightarrow> AccessController \<Rightarrow> AccessController" where
  "replace_agent_attributes attributes ctl =
     (let fresh = bt_of_list (map (\<lambda>entry. (at_identity entry, entry))
                    (filter (\<lambda>entry. at_identity entry \<noteq> []) attributes)) in
      if fresh = [] \<or> ctl_attributes ctl = fresh then ctl
      else (publish_owner_change ctl)\<lparr>ctl_attributes := fresh\<rparr>)"

section \<open>Spawn lineage\<close>

record LineageLink =
  li_identity :: string
  li_attributes :: "AgentResourceAttributes option"

definition MAX_LINEAGE_DEPTH :: nat where
  "MAX_LINEAGE_DEPTH = 8"

definition resolve_attributes ::
  "(string, AgentResourceAttributes) btree \<Rightarrow> string \<Rightarrow> AgentResourceAttributes option" where
  "resolve_attributes cache key =
     opt_or (bt_get cache key)
       (List.find (\<lambda>attributes. at_agent_id attributes = Some key) (bt_values cache))"

definition spawn_parent :: "LineageLink \<Rightarrow> string option" where
  "spawn_parent link =
     opt_filter (\<lambda>parent. parent \<noteq> [])
       (map_option trim
          (Option.bind (li_attributes link) (\<lambda>attributes. bt_get (at_labels attributes) ''spawned_by'')))"

function lineage_loop ::
  "(string \<Rightarrow> AgentResourceAttributes option) \<Rightarrow> string set \<Rightarrow> LineageLink list \<Rightarrow> LineageLink list" where
  "lineage_loop resolve visited lineage =
     (if length lineage < MAX_LINEAGE_DEPTH then
        (case Option.bind (if lineage = [] then None else Some (last lineage)) spawn_parent of
           None \<Rightarrow> lineage
         | Some parent \<Rightarrow>
            (let attributes = resolve parent;
                 parent_identity = unwrap_or (map_option at_identity attributes) parent in
             if parent_identity \<in> visited then lineage
             else lineage_loop resolve (insert parent_identity visited)
                    (lineage @ [\<lparr>li_identity = parent_identity, li_attributes = attributes\<rparr>])))
      else lineage)"
  by pat_completeness auto
termination
  by (relation "measure (\<lambda>(resolve, visited, lineage). MAX_LINEAGE_DEPTH - length lineage)") auto

declare lineage_loop.simps [simp del]

definition lineage_from_attributes ::
  "AgentResourceAttributes \<Rightarrow> (string \<Rightarrow> AgentResourceAttributes option) \<Rightarrow> LineageLink list" where
  "lineage_from_attributes own resolve =
     lineage_loop resolve {at_identity own} [\<lparr>li_identity = at_identity own, li_attributes = Some own\<rparr>]"

definition lineage_in :: "(string, AgentResourceAttributes) btree \<Rightarrow> string \<Rightarrow> LineageLink list" where
  "lineage_in cache identity =
     (case resolve_attributes cache identity of
        None \<Rightarrow> []
      | Some own \<Rightarrow> lineage_from_attributes own (resolve_attributes cache))"

definition lineage_for_attributes ::
  "(string, AgentResourceAttributes) btree \<Rightarrow> AgentResourceAttributes \<Rightarrow> LineageLink list" where
  "lineage_for_attributes cache attributes = lineage_from_attributes attributes (resolve_attributes cache)"

definition link_resource :: "string \<Rightarrow> nat \<times> LineageLink \<Rightarrow> AccessResource" where
  "link_resource fallback_identity = (\<lambda>(index, link).
     (case li_attributes link of
        Some attributes \<Rightarrow>
          \<lparr>re_identity = Some (at_identity attributes),
           re_agent_id = opt_or (at_agent_id attributes) (if index = 0 then Some fallback_identity else None),
           re_role = at_role attributes,
           re_labels = Some (at_labels attributes)\<rparr>
      | None \<Rightarrow> for_identity (li_identity link)))"

definition decide_agent_lineage :: "AccessView \<Rightarrow> string \<Rightarrow> string \<Rightarrow> LineageLink list \<Rightarrow> AccessDecision" where
  "decide_agent_lineage view action fallback_identity lineage =
     evaluate_access_lineage (vw_config view) (vw_principal view) action
       (map (link_resource fallback_identity) (enumerate 0 lineage))"

definition decide_agent :: "AccessController \<Rightarrow> AccessView \<Rightarrow> string \<Rightarrow> string \<Rightarrow> AccessDecision" where
  "decide_agent ctl view action identity =
     (if \<not> ac_enabled (vw_config view) then Allow
      else let lineage = lineage_in (ctl_attributes ctl) identity in
        if lineage = [] then decide view action (for_identity identity)
        else decide_agent_lineage view action identity lineage)"

definition allows_agent :: "AccessController \<Rightarrow> AccessView \<Rightarrow> string \<Rightarrow> string \<Rightarrow> bool" where
  "allows_agent ctl view action identity = is_allow (decide_agent ctl view action identity)"

definition decide_agent_with_attributes ::
  "AccessController \<Rightarrow> AccessView \<Rightarrow> string \<Rightarrow> AgentResourceAttributes \<Rightarrow> AccessDecision" where
  "decide_agent_with_attributes ctl view action attributes =
     (if \<not> ac_enabled (vw_config view) then Allow
      else decide_agent_lineage view action (at_identity attributes)
             (lineage_for_attributes (ctl_attributes ctl) attributes))"

definition knows_agent :: "AccessController \<Rightarrow> string \<Rightarrow> bool" where
  "knows_agent ctl identity =
     (bt_contains (ctl_attributes ctl) identity
      \<or> list_ex (\<lambda>attributes. at_agent_id attributes = Some identity) (bt_values (ctl_attributes ctl)))"

section \<open>The decision fence\<close>

text \<open>
  A fence holds the configuration and the attributes read-locked: one view and one copy of the
  cache, both of the state in which it was taken.
\<close>

record AccessDecisionFence =
  fe_view :: AccessView
  fe_attributes :: "(string, AgentResourceAttributes) btree"

definition decision_fence :: "AccessController \<Rightarrow> string option \<Rightarrow> AccessDecisionFence" where
  "decision_fence ctl subject =
     \<lparr>fe_view = view_from_config (ctl_config ctl) subject, fe_attributes = ctl_attributes ctl\<rparr>"

definition fence_can_view_agent :: "AccessDecisionFence \<Rightarrow> string \<Rightarrow> bool" where
  "fence_can_view_agent fence identity =
     (if \<not> ac_enabled (vw_config (fe_view fence)) then True
      else let lineage = lineage_in (fe_attributes fence) identity in
        if lineage = []
        then is_allow (decide (fe_view fence) ACTION_AGENT_VIEW (for_identity identity))
        else is_allow (decide_agent_lineage (fe_view fence) ACTION_AGENT_VIEW identity lineage))"

section \<open>One edit\<close>

text \<open>Everything but the file system: what a refused edit must leave alone.\<close>

definition same_facts :: "AccessController \<Rightarrow> AccessController \<Rightarrow> bool" where
  "same_facts ctl ctl' \<longleftrightarrow>
     ctl_config ctl' = ctl_config ctl \<and> ctl_revision ctl' = ctl_revision ctl
     \<and> ctl_attributes ctl' = ctl_attributes ctl \<and> ctl_publication ctl' = ctl_publication ctl
     \<and> ctl_owner_instance ctl' = ctl_owner_instance ctl \<and> ctl_persist_path ctl' = ctl_persist_path ctl"

lemma same_facts_refl [simp]: "same_facts ctl ctl"
  by (simp add: same_facts_def)

lemma same_facts_disk [simp]: "same_facts ctl (ctl\<lparr>ctl_disk := d\<rparr>)"
  by (simp add: same_facts_def)

lemma publish_owner_change_simps [simp]:
  "ctl_config (publish_owner_change ctl) = ctl_config ctl"
  "ctl_revision (publish_owner_change ctl) = ctl_revision ctl"
  "ctl_attributes (publish_owner_change ctl) = ctl_attributes ctl"
  "ctl_owner_instance (publish_owner_change ctl) = ctl_owner_instance ctl"
  "ctl_persist_path (publish_owner_change ctl) = ctl_persist_path ctl"
  "ctl_disk (publish_owner_change ctl) = ctl_disk ctl"
  "ctl_publication (publish_owner_change ctl) = map_option Suc (ctl_publication ctl)"
  by (simp_all add: publish_owner_change_def)

text \<open>What a committed edit makes of the state.\<close>

definition committed :: "AccessControlConfig \<Rightarrow> u64 \<Rightarrow> AccessController \<Rightarrow> AccessController \<Rightarrow> bool" where
  "committed config revision ctl ctl' \<longleftrightarrow>
     unat revision = Suc (unat (ctl_revision ctl))
     \<and> ctl_config ctl' = config \<and> ctl_revision ctl' = revision
     \<and> ctl_attributes ctl' = ctl_attributes ctl
     \<and> ctl_publication ctl' = map_option Suc (ctl_publication ctl)
     \<and> ctl_owner_instance ctl' = ctl_owner_instance ctl \<and> ctl_persist_path ctl' = ctl_persist_path ctl"

lemma commit_cases:
  assumes "commit env config ctl = (r, ctl')"
  obtains (refused) e where "r = Inl e" "same_facts ctl ctl'"
  | (ok) revision where "r = Inr revision" "committed config revision ctl ctl'"
proof (cases "checked_add (ctl_revision ctl) 1")
  case None
  with assms show ?thesis by (intro refused) (auto simp: commit_def)
next
  case (Some next_revision)
  obtain saved disk where sd:
    "(case ctl_persist_path ctl of None \<Rightarrow> (Inr (), ctl_disk ctl)
      | Some path \<Rightarrow> persist_config env path config (ctl_disk ctl)) = (saved, disk)"
    by (cases "case ctl_persist_path ctl of None \<Rightarrow> (Inr (), ctl_disk ctl)
      | Some path \<Rightarrow> persist_config env path config (ctl_disk ctl)")
  have next_rev: "unat next_revision = Suc (unat (ctl_revision ctl))"
    using checked_add_SomeD(2) [OF Some] by simp
  show ?thesis
  proof (cases saved)
    case (Inl e)
    with assms Some sd show ?thesis by (intro refused) (auto simp: commit_def)
  next
    case (Inr u)
    with assms Some sd next_rev show ?thesis
      by (intro ok [of next_revision]) (auto simp: commit_def committed_def)
  qed
qed

lemma edit_and_commit_cases:
  assumes "edit_and_commit env config mutation ctl = (r, ctl')"
  obtains (refused) e where "r = Inl e" "same_facts ctl ctl'"
  | (ok) config' revision where "r = Inr revision" "apply_mutation mutation config = Inr config'"
      "config_wf (normalized config')" "committed (normalized config') revision ctl ctl'"
proof (cases "apply_mutation mutation config")
  case (Inl e)
  with assms show ?thesis by (intro refused) (auto simp: edit_and_commit_def)
next
  case (Inr config')
  show ?thesis
  proof (cases "validate_access_config (normalized config')")
    case (Inl e)
    with \<open>apply_mutation mutation config = Inr config'\<close> assms show ?thesis
      by (intro refused) (auto simp: edit_and_commit_def)
  next
    case valid: (Inr u)
    then have "commit env (normalized config') ctl = (r, ctl')"
      using \<open>apply_mutation mutation config = Inr config'\<close> assms by (simp add: edit_and_commit_def)
    then show ?thesis
    proof (cases rule: commit_cases)
      case refused
      then show ?thesis using that(1) by blast
    next
      case ok
      then show ?thesis using that(2) Inr valid validate_ok_iff by blast
    qed
  qed
qed

text \<open>An administrative edit that succeeded was authorized and met its precondition.\<close>

definition precondition_met :: "AccessEditPrecondition option \<Rightarrow> AccessController \<Rightarrow> bool" where
  "precondition_met expected ctl \<longleftrightarrow>
     (\<forall>e. expected = Some e \<longrightarrow>
        ctl_owner_instance ctl = Some (ep_owner_instance e) \<and> ctl_revision ctl = ep_expected_revision e)"

lemma check_precondition_ok [simp]:
  "check_precondition expected (ctl_revision ctl) ctl = Inr u \<longleftrightarrow> precondition_met expected ctl"
  by (auto simp: check_precondition_def precondition_met_def split: option.splits)

lemma mutate_admin_cases:
  assumes "mutate_admin env subject expected mutation ctl = (r, ctl')"
  obtains (refused) e where "r = Inl e" "same_facts ctl ctl'"
  | (ok) config' revision where "r = Inr revision"
      "can_administer (view_from_config (ctl_config ctl) subject)" "precondition_met expected ctl"
      "apply_mutation mutation (ctl_config ctl) = Inr config'"
      "config_wf (normalized config')" "committed (normalized config') revision ctl ctl'"
proof (cases "can_administer (view_from_config (ctl_config ctl) subject)
    \<and> precondition_met expected ctl")
  case False
  have "vw_config (view_from_config (ctl_config ctl) subject) = ctl_config ctl"
    by (simp add: view_from_config_def Let_def)
  with False assms have "\<exists>e. r = Inl e \<and> ctl' = ctl"
    by (cases "check_precondition expected (ctl_revision ctl) ctl")
      (auto simp: mutate_admin_def admin_config_def view_and_revision_def split: if_splits)
  then show ?thesis using refused by auto
next
  case True
  have vw: "vw_config (view_from_config (ctl_config ctl) subject) = ctl_config ctl"
    by (simp add: view_from_config_def Let_def)
  have "check_precondition expected (ctl_revision ctl) ctl = Inr ()" using True by simp
  with assms True vw obtain res where e: "edit_and_commit env (ctl_config ctl) mutation ctl = (res, ctl')"
    and r: "r = map_sum EditConfig id res"
    by (auto simp: mutate_admin_def admin_config_def view_and_revision_def split: prod.splits)
  from e show ?thesis
  proof (cases rule: edit_and_commit_cases)
    case refused
    then show ?thesis using that(1) r by simp
  next
    case ok
    then show ?thesis using that(2) r True by simp
  qed
qed

section \<open>The state machine\<close>

inductive ctl_step :: "AccessController \<Rightarrow> AccessController \<Rightarrow> bool" where
  step_mutate: "mutate env m ctl = (r, ctl') \<Longrightarrow> ctl_step ctl ctl'"
| step_mutate_admin: "mutate_admin env subject expected m ctl = (r, ctl') \<Longrightarrow> ctl_step ctl ctl'"
| step_record: "ctl_step ctl (record_agent_attributes attributes ctl)"
| step_replace: "ctl_step ctl (replace_agent_attributes roster ctl)"
| step_join: "join_authorization_publication ctl = (j, ctl') \<Longrightarrow> ctl_step ctl ctl'"
| step_persist_path: "ctl_step ctl (with_persist_path path ctl)"

definition ctl_init :: "AccessController \<Rightarrow> bool" where
  "ctl_init ctl \<longleftrightarrow> (\<exists>config owner disk. with_edit_identity config owner disk = Inr ctl)"

definition attributes_inv :: "(string, AgentResourceAttributes) btree \<Rightarrow> bool" where
  "attributes_inv cache \<longleftrightarrow>
     bt_inv cache \<and> (\<forall>(k, a) \<in> set cache. at_identity a = k \<and> k \<noteq> [])"

definition ctl_inv :: "AccessController \<Rightarrow> bool" where
  "ctl_inv ctl \<longleftrightarrow>
     config_wf (ctl_config ctl) \<and> normalized (ctl_config ctl) = ctl_config ctl
     \<and> attributes_inv (ctl_attributes ctl)"

lemma normalized_idem [simp]: "normalized (normalized c) = normalized c"
  by (simp add: normalize_again)

lemma committed_inv:
  assumes "committed (normalized c) revision ctl ctl'" "config_wf (normalized c)" "ctl_inv ctl"
  shows "ctl_inv ctl'"
  using assms by (simp add: ctl_inv_def committed_def)

lemma same_facts_inv: "same_facts ctl ctl' \<Longrightarrow> ctl_inv ctl \<Longrightarrow> ctl_inv ctl'"
  by (simp add: ctl_inv_def same_facts_def)

lemma attributes_inv_insert:
  assumes "attributes_inv cache" "at_identity a \<noteq> []"
  shows "attributes_inv (bt_insert (at_identity a) a cache)"
  using assms set_bt_insert_subset [of "at_identity a" a cache]
  by (fastforce simp: attributes_inv_def bt_inv_insert)

lemma attributes_inv_of_list:
  assumes "\<forall>a \<in> set roster. at_identity a \<noteq> []"
  shows "attributes_inv (bt_of_list (map (\<lambda>a. (at_identity a, a)) roster))"
proof -
  have "attributes_inv (foldl (\<lambda>m (k, v). bt_insert k v m) m (map (\<lambda>a. (at_identity a, a)) roster))"
    if "attributes_inv m" for m
    using assms that by (induction roster arbitrary: m) (auto simp: attributes_inv_insert)
  from this [of "[]"] show ?thesis by (simp add: bt_of_list_def attributes_inv_def)
qed

lemma ctl_inv_init: "ctl_init ctl \<Longrightarrow> ctl_inv ctl"
  by (auto simp: ctl_init_def ctl_inv_def with_edit_identity_def Let_def validate_ok_iff attributes_inv_def)

lemma ctl_inv_step:
  assumes "ctl_inv ctl" and "ctl_step ctl ctl'"
  shows "ctl_inv ctl'"
  using assms(2,1)
proof cases
  case (step_mutate env m r)
  then show ?thesis unfolding mutate_def
    by (cases rule: edit_and_commit_cases) (auto intro: same_facts_inv committed_inv assms(1))
next
  case (step_mutate_admin env subject expected m r)
  then show ?thesis
    by (cases rule: mutate_admin_cases) (auto intro: same_facts_inv committed_inv assms(1))
next
  case (step_record attributes)
  then show ?thesis using assms(1)
    by (auto simp: ctl_inv_def record_agent_attributes_def attributes_inv_insert)
next
  case (step_replace roster)
  then show ?thesis using assms(1)
    by (auto simp: ctl_inv_def replace_agent_attributes_def Let_def attributes_inv_of_list)
next
  case (step_join j)
  then show ?thesis using assms(1)
    by (auto simp: ctl_inv_def join_authorization_publication_def split: option.splits)
next
  case (step_persist_path path)
  then show ?thesis using assms(1) by (simp add: ctl_inv_def with_persist_path_def)
qed

interpretation ctl: step_invariant ctl_init ctl_step ctl_inv
  by unfold_locales (auto intro: ctl_inv_init ctl_inv_step)

text \<open>Revisions never decrease, and the owner instance is fixed at construction.\<close>

lemma ctl_step_effect:
  assumes "ctl_step ctl ctl'"
  shows "ctl_owner_instance ctl' = ctl_owner_instance ctl"
    and "unat (ctl_revision ctl) \<le> unat (ctl_revision ctl')"
    and "ctl_config ctl' \<noteq> ctl_config ctl \<or> ctl_attributes ctl' \<noteq> ctl_attributes ctl
      \<Longrightarrow> ctl_publication ctl' = map_option Suc (ctl_publication ctl)"
    and "ctl_config ctl' \<noteq> ctl_config ctl \<Longrightarrow> unat (ctl_revision ctl) < unat (ctl_revision ctl')"
proof -
  let ?P = "ctl_owner_instance ctl' = ctl_owner_instance ctl
     \<and> unat (ctl_revision ctl) \<le> unat (ctl_revision ctl')
     \<and> (ctl_config ctl' \<noteq> ctl_config ctl \<or> ctl_attributes ctl' \<noteq> ctl_attributes ctl
         \<longrightarrow> ctl_publication ctl' = map_option Suc (ctl_publication ctl))
     \<and> (ctl_config ctl' \<noteq> ctl_config ctl \<longrightarrow> unat (ctl_revision ctl) < unat (ctl_revision ctl'))"
  have "?P" using assms
  proof cases
    case (step_mutate env m r)
    then show ?thesis unfolding mutate_def
      by (cases rule: edit_and_commit_cases) (auto simp: same_facts_def committed_def)
  next
    case (step_mutate_admin env subject expected m r)
    then show ?thesis
      by (cases rule: mutate_admin_cases) (auto simp: same_facts_def committed_def)
  next
    case (step_join j)
    then show ?thesis
      by (auto simp: join_authorization_publication_def split: option.splits)
  qed (simp_all add: record_agent_attributes_def replace_agent_attributes_def Let_def with_persist_path_def)
  then show "ctl_owner_instance ctl' = ctl_owner_instance ctl"
    and "unat (ctl_revision ctl) \<le> unat (ctl_revision ctl')"
    and "ctl_config ctl' \<noteq> ctl_config ctl \<or> ctl_attributes ctl' \<noteq> ctl_attributes ctl
      \<Longrightarrow> ctl_publication ctl' = map_option Suc (ctl_publication ctl)"
    and "ctl_config ctl' \<noteq> ctl_config ctl \<Longrightarrow> unat (ctl_revision ctl) < unat (ctl_revision ctl')"
    by auto
qed

interpretation ctl_revisions: step_monotone ctl_step "\<lambda>ctl. unat (ctl_revision ctl)"
  by unfold_locales (rule ctl_step_effect(2))

text \<open>A committed checked edit uses up its precondition: later states refuse it.\<close>

lemma stale_precondition_refused:
  assumes "mutate_admin env subject (Some pre) m ctl = (Inr revision, ctl')"
    and "ctl_step\<^sup>*\<^sup>* ctl' later"
  shows "\<not> precondition_met (Some pre) later"
  using assms(1)
proof (cases rule: mutate_admin_cases)
  case (ok config' rev)
  then have "unat (ctl_revision ctl) < unat (ctl_revision ctl')" "ctl_revision ctl = ep_expected_revision pre"
    by (auto simp: committed_def precondition_met_def)
  with ctl_revisions.quantity_steps [OF assms(2)] show ?thesis
    by (auto simp: precondition_met_def)
qed simp

section \<open>Persistence\<close>

lemma tmp_path_neq: "pa_file_name path = Some name \<Longrightarrow> path \<noteq> tmp_path path name"
  by (auto simp: tmp_path_def dest!: arg_cong [where f = pa_file_name])

lemma write_and_rename_target:
  assumes "pa_file_name path = Some name"
  shows "write_and_rename env path name content disk = (Inl e, disk') \<Longrightarrow> disk' path = disk path"
    and "write_and_rename env path name content disk = (Inr u, disk') \<Longrightarrow> disk' path = Some content"
  using tmp_path_neq [OF assms]
  by (auto simp: write_and_rename_def Let_def split: option.splits)

text \<open>The target file changes only by a completed save, which holds the header and the rendering.\<close>

lemma persist_config_target:
  "persist_config env path config disk = (Inl e, disk') \<Longrightarrow> disk' path = disk path"
  "persist_config env path config disk = (Inr u, disk') \<Longrightarrow>
     \<exists>rendered. fs_render env config = Inr rendered \<and> disk' path = Some (persist_header @ rendered)"
  by (auto simp: persist_config_def split: sum.splits option.splits if_splits
      dest: write_and_rename_target)

section \<open>Lineages\<close>

text \<open>One link is the spawn parent of the link before it.\<close>

definition parent_link :: "(string \<Rightarrow> AgentResourceAttributes option) \<Rightarrow> LineageLink \<Rightarrow> LineageLink \<Rightarrow> bool" where
  "parent_link resolve link link' \<longleftrightarrow>
     (\<exists>parent. spawn_parent link = Some parent
        \<and> link' = \<lparr>li_identity = unwrap_or (map_option at_identity (resolve parent)) parent,
                   li_attributes = resolve parent\<rparr>)"

definition lineage_ok :: "(string \<Rightarrow> AgentResourceAttributes option) \<Rightarrow> LineageLink list \<Rightarrow> bool" where
  "lineage_ok resolve lineage \<longleftrightarrow>
     length lineage \<le> MAX_LINEAGE_DEPTH \<and> distinct (map li_identity lineage)
     \<and> successively (parent_link resolve) lineage"

lemma lineage_loop_ok:
  assumes "lineage \<noteq> []" and "visited = li_identity ` set lineage" and "lineage_ok resolve lineage"
  shows "lineage_ok resolve (lineage_loop resolve visited lineage)
     \<and> prefix lineage (lineage_loop resolve visited lineage)"
  using assms
proof (induction resolve visited lineage rule: lineage_loop.induct)
  case (1 resolve visited lineage)
  show ?case
  proof (cases "length lineage < MAX_LINEAGE_DEPTH \<and> spawn_parent (last lineage) \<noteq> None")
    case False
    then have "lineage_loop resolve visited lineage = lineage"
      using "1.prems"(1) by (subst lineage_loop.simps) auto
    with "1.prems" show ?thesis by simp
  next
    case True
    then obtain parent where parent: "spawn_parent (last lineage) = Some parent" by auto
    let ?i = "unwrap_or (map_option at_identity (resolve parent)) parent"
    let ?l = "\<lparr>li_identity = ?i, li_attributes = resolve parent\<rparr>"
    show ?thesis
    proof (cases "?i \<in> visited")
      case seen: True
      then have "lineage_loop resolve visited lineage = lineage"
        using "1.prems"(1) True parent by (subst lineage_loop.simps) (simp add: Let_def)
      with "1.prems" show ?thesis by simp
    next
      case fresh: False
      have "parent_link resolve (last lineage) ?l" using parent by (auto simp: parent_link_def)
      then have ok: "lineage_ok resolve (lineage @ [?l])"
        using 1 True fresh by (auto simp: lineage_ok_def successively_append_iff)
      have eq: "lineage_loop resolve visited lineage =
          lineage_loop resolve (insert ?i visited) (lineage @ [?l])"
        using "1.prems"(1) True parent fresh
        by (subst lineage_loop.simps) (simp add: Let_def)
      have "lineage_ok resolve (lineage_loop resolve (insert ?i visited) (lineage @ [?l]))
          \<and> prefix (lineage @ [?l]) (lineage_loop resolve (insert ?i visited) (lineage @ [?l]))"
        using "1.IH" [of parent "resolve parent" ?i] "1.prems" True parent fresh ok by simp
      then show ?thesis unfolding eq using append_prefixD by blast
    qed
  qed
qed

lemma lineage_from_attributes_ok:
  "lineage_ok resolve (lineage_from_attributes own resolve)
   \<and> prefix [\<lparr>li_identity = at_identity own, li_attributes = Some own\<rparr>] (lineage_from_attributes own resolve)"
  unfolding lineage_from_attributes_def
  by (rule lineage_loop_ok) (simp_all add: lineage_ok_def MAX_LINEAGE_DEPTH_def)

lemma lineage_in_Nil: "lineage_in cache identity = [] \<longleftrightarrow> resolve_attributes cache identity = None"
proof -
  have "lineage_from_attributes own (resolve_attributes cache) \<noteq> []" for own
    using lineage_from_attributes_ok [of "resolve_attributes cache" own] by auto
  then show ?thesis by (auto simp: lineage_in_def split: option.splits)
qed

lemma resolve_attributes_None:
  assumes "attributes_inv (ctl_attributes ctl)"
  shows "resolve_attributes (ctl_attributes ctl) identity \<noteq> None \<longleftrightarrow> knows_agent ctl identity"
  by (cases "bt_get (ctl_attributes ctl) identity")
    (auto simp: resolve_attributes_def knows_agent_def bt_contains_def find_None_iff list_ex_iff
      simp del: not_None_eq)

lemma view_from_config_simps [simp]:
  "vw_config (view_from_config c s) = c"
  "vw_is_admin (view_from_config c s) = subject_is_admin c (vw_principal (view_from_config c s))"
  by (simp_all add: view_from_config_def Let_def)

text \<open>The fence decides visibility as the view does in the state the fence was taken in.\<close>

lemma fence_can_view_iff:
  "fence_can_view_agent (decision_fence ctl subject) identity \<longleftrightarrow>
     allows_agent ctl (view_from_config (ctl_config ctl) subject) ACTION_AGENT_VIEW identity"
  by (simp add: fence_can_view_agent_def decision_fence_def allows_agent_def decide_agent_def Let_def)

lemma decide_agent_allow_iff:
  assumes "ac_enabled (vw_config view)"
  shows "is_allow (decide_agent ctl view action identity) \<longleftrightarrow>
     is_allow (evaluate_access_lineage (vw_config view) (vw_principal view) action
       (let lineage = lineage_in (ctl_attributes ctl) identity in
        if lineage = [] then [for_identity identity]
        else map (link_resource identity) (enumerate 0 lineage)))"
  using assms
  by (simp add: decide_agent_def decide_def decide_agent_lineage_def evaluate_access_def Let_def)

section \<open>Properties\<close>

text \<open>
  C2. Every administrative edit either commits completely or changes no access fact: when it
  reports a revision, the caller could administer the configuration it edited, the owner and
  revision precondition held, the new configuration is the normalized, valid result of the
  requested mutation and the revision grew by exactly one; when it reports an error, the
  configuration, revision, attributes and publication are untouched.
\<close>

theorem mutate_admin_atomic:
  "case mutate_admin env subject expected mutation ctl of
     (Inl e, ctl') \<Rightarrow> same_facts ctl ctl'
   | (Inr revision, ctl') \<Rightarrow>
       can_administer (view_from_config (ctl_config ctl) subject)
       \<and> precondition_met expected ctl
       \<and> (\<exists>config. apply_mutation mutation (ctl_config ctl) = Inr config
            \<and> config_wf (normalized config) \<and> committed (normalized config) revision ctl ctl')"
proof -
  obtain r ctl' where "mutate_admin env subject expected mutation ctl = (r, ctl')" by fastforce
  moreover from this show ?thesis
    by (cases rule: mutate_admin_cases) (auto simp: calculation)
qed

text \<open>
  C21. In every reachable state of the controller the configuration is well formed, already
  normalized, and the attribute cache is keyed by the non-empty identities it holds.
\<close>

theorem controller_reachable_invariant:
  assumes "reachable ctl_init ctl_step ctl"
  shows "config_wf (ctl_config ctl) \<and> normalized (ctl_config ctl) = ctl_config ctl
    \<and> attributes_inv (ctl_attributes ctl)"
  using ctl.inv_reachable [OF assms] by (simp add: ctl_inv_def)

text \<open>A small deployment for the concrete cases: one administrator, two grants.\<close>

definition sample_config :: AccessControlConfig where
  "sample_config =
     \<lparr>ac_enabled = True, ac_admins = [''root''], ac_groups = [],
      ac_rules = [sample_rule ''view'' EffAllow [''*''] [''agent.view''],
                  sample_rule ''mem'' EffAllow [''alice''] [''agent.memory.read'']],
      ac_approvers = []\<rparr>"

definition sample_env :: FsEnv where
  "sample_env = \<lparr>fs_render = (\<lambda>_. Inr ''enabled = true''), fs_create_dir_error = None,
     fs_write_error = None, fs_rename_error = None, fs_display = (\<lambda>_. [])\<rparr>"

definition sample_ctl :: AccessController where
  "sample_ctl = \<lparr>ctl_owner_instance = Some ''00ff'', ctl_config = sample_config, ctl_revision = 0,
     ctl_persist_path = None, ctl_attributes = [], ctl_publication = None, ctl_disk = (\<lambda>_. None)\<rparr>"

lemma sample_config_valid: "validate_access_config sample_config = Inr ()"
  by code_simp

lemma sample_config_normalized: "normalized sample_config = sample_config"
  by code_simp

lemma sample_ctl_init: "ctl_init sample_ctl"
proof -
  have "with_edit_identity sample_config (Some ''00ff'') (\<lambda>_. None) = Inr sample_ctl"
    by (simp add: with_edit_identity_def Let_def sample_config_normalized sample_config_valid sample_ctl_def)
  then show ?thesis unfolding ctl_init_def by blast
qed

theorem controller_reachable_invariant_witness:
  "reachable ctl_init ctl_step (snd (mutate sample_env (SetEnabled False) sample_ctl))
   \<and> config_wf (ctl_config (snd (mutate sample_env (SetEnabled False) sample_ctl)))"
proof -
  have "ctl_step sample_ctl (snd (mutate sample_env (SetEnabled False) sample_ctl))"
    by (rule step_mutate [where env = sample_env and m = "SetEnabled False"]) (rule prod.collapse [symmetric])
  then have "reachable ctl_init ctl_step (snd (mutate sample_env (SetEnabled False) sample_ctl))"
    by (rule reachable_step [OF reachable_init [of ctl_init, OF sample_ctl_init]])
  with controller_reachable_invariant [OF this] show ?thesis by blast
qed

text \<open>
  C22. Checked edits are never lost: once an edit that named a revision has committed, the same
  owner and revision precondition is refused in every later state, however the controller was
  used in between, so two writers who read the same revision cannot both succeed.
\<close>

theorem checked_edit_no_lost_update:
  assumes "mutate_admin env subject (Some pre) mutation ctl = (Inr revision, ctl')"
    and "ctl_step\<^sup>*\<^sup>* ctl' later"
  shows "\<not> is_ok (fst (mutate_admin env' subject' (Some pre) mutation' later))"
proof -
  obtain r ctl'' where e: "mutate_admin env' subject' (Some pre) mutation' later = (r, ctl'')" by fastforce
  then show ?thesis
    using stale_precondition_refused [OF assms]
    by (cases rule: mutate_admin_cases) (simp_all add: e)
qed

lemma sample_edit:
  "mutate_admin sample_env (Some ''root'') (Some \<lparr>ep_owner_instance = ''00ff'', ep_expected_revision = 0\<rparr>)
     (DeleteRule ''mem'') sample_ctl =
   (Inr 1, snd (mutate_admin sample_env (Some ''root'')
     (Some \<lparr>ep_owner_instance = ''00ff'', ep_expected_revision = 0\<rparr>) (DeleteRule ''mem'') sample_ctl))"
proof -
  have "fst (mutate_admin sample_env (Some ''root'')
     (Some \<lparr>ep_owner_instance = ''00ff'', ep_expected_revision = 0\<rparr>) (DeleteRule ''mem'') sample_ctl) = Inr 1"
    by code_simp
  then show ?thesis by (metis prod.collapse)
qed

theorem checked_edit_no_lost_update_witness:
  "\<not> is_ok (fst (mutate_admin sample_env (Some ''root'')
     (Some \<lparr>ep_owner_instance = ''00ff'', ep_expected_revision = 0\<rparr>) (SetEnabled False)
     (snd (mutate_admin sample_env (Some ''root'')
       (Some \<lparr>ep_owner_instance = ''00ff'', ep_expected_revision = 0\<rparr>) (DeleteRule ''mem'') sample_ctl))))"
  by (rule checked_edit_no_lost_update [OF sample_edit rtranclp.rtrancl_refl])

text \<open>
  C23. A save is atomic on disk: after any edit the configured file either still holds what it
  held before (the edit was refused) or holds the header and the rendering of the configuration
  that is now live; without a configured path the disk does not change.
\<close>

theorem mutate_persists_atomically:
  "case mutate env mutation ctl of (result, ctl') \<Rightarrow>
     (case ctl_persist_path ctl of
        None \<Rightarrow> ctl_disk ctl' = ctl_disk ctl
      | Some path \<Rightarrow>
         (case result of
            Inl e \<Rightarrow> ctl_disk ctl' path = ctl_disk ctl path
          | Inr revision \<Rightarrow>
             (\<exists>rendered. fs_render env (ctl_config ctl') = Inr rendered
                \<and> ctl_disk ctl' path = Some (persist_header @ rendered))))"
proof -
  have "case commit env config ctl of (result, ctl') \<Rightarrow>
     (case ctl_persist_path ctl of
        None \<Rightarrow> ctl_disk ctl' = ctl_disk ctl
      | Some path \<Rightarrow>
         (case result of
            Inl e \<Rightarrow> ctl_disk ctl' path = ctl_disk ctl path
          | Inr revision \<Rightarrow>
             (\<exists>rendered. fs_render env (ctl_config ctl') = Inr rendered
                \<and> ctl_disk ctl' path = Some (persist_header @ rendered))))" for config
    by (auto simp: commit_def Let_def split: option.splits sum.splits prod.splits
        dest: persist_config_target)
  then show ?thesis
    by (auto simp: mutate_def edit_and_commit_def Let_def split: sum.splits option.splits)
qed

text \<open>
  The spawn lineage of an agent is a bounded, cycle-free ancestor chain: at most eight links
  with pairwise distinct identities, each the resolved spawn parent of the one before, starting
  with the agent's own record, and empty exactly when the agent is unknown.
\<close>

theorem lineage_in_chain:
  "let lineage = lineage_in cache identity in
   length lineage \<le> 8 \<and> distinct (map li_identity lineage)
   \<and> successively (parent_link (resolve_attributes cache)) lineage
   \<and> (case resolve_attributes cache identity of
        None \<Rightarrow> lineage = []
      | Some own \<Rightarrow> take 1 lineage = [\<lparr>li_identity = at_identity own, li_attributes = Some own\<rparr>])"
proof (cases "resolve_attributes cache identity")
  case None
  then show ?thesis by (simp add: lineage_in_def)
next
  case (Some own)
  with lineage_from_attributes_ok [of "resolve_attributes cache" own] show ?thesis
    by (auto simp: lineage_in_def lineage_ok_def MAX_LINEAGE_DEPTH_def prefix_def)
qed

text \<open>
  C34. An agent decision inherits from every ancestor: under enforcement and for a principal who
  is not an administrator, a deny rule that matches any link of the lineage denies the agent.
\<close>

theorem ancestor_deny_denies_descendant:
  assumes "ac_enabled config" and "\<not> subject_is_admin config (vw_principal (view_from_config config subject))"
    and "rule \<in> set (ac_rules config)" and "ru_effect rule = EffDeny"
    and "rule_names_action rule action" and "subject_matches rule (vw_principal (view_from_config config subject))"
    and "link \<in> set (enumerate 0 (lineage_in (ctl_attributes ctl) identity))"
    and "resource_matches rule (link_resource identity link)"
  shows "\<not> allows_agent ctl (view_from_config config subject) action identity"
proof -
  have "lineage_in (ctl_attributes ctl) identity \<noteq> []" using assms(7) by auto
  moreover have "rule_matches (vw_principal (view_from_config config subject)) action
      (map (link_resource identity) (enumerate 0 (lineage_in (ctl_attributes ctl) identity))) rule"
    using assms(5-8) by (auto simp: rule_matches_def list_ex_iff)
  ultimately show ?thesis
    using assms(1-4) by (auto simp: allows_agent_def decide_agent_allow_iff evaluate_allow_iff)
qed

text \<open>A helper spawned by \<open>ops\<close>, and a rule that denies sends to \<open>ops\<close>.\<close>

definition sample_cache :: "(string, AgentResourceAttributes) btree" where
  "sample_cache =
     [(''helper'', \<lparr>at_identity = ''helper'', at_agent_id = Some ''m-2'', at_role = None,
         at_labels = [(''spawned_by'', '' ops '')]\<rparr>),
      (''ops'', \<lparr>at_identity = ''ops'', at_agent_id = None, at_role = Some ''lead'', at_labels = []\<rparr>)]"

definition sample_deny :: AccessRule where
  "sample_deny = (sample_rule ''no-ops'' EffDeny [''bob''] [''agent.send''])\<lparr>ru_agents := [''ops'']\<rparr>"

definition sample_deny_config :: AccessControlConfig where
  "sample_deny_config = sample_config\<lparr>ac_rules := [sample_rule ''all'' EffAllow [] [''*''], sample_deny]\<rparr>"

theorem ancestor_deny_denies_descendant_witness:
  "\<not> allows_agent (sample_ctl\<lparr>ctl_attributes := sample_cache\<rparr>)
      (view_from_config sample_deny_config (Some ''bob'')) ''agent.send'' ''m-2''"
  by (rule ancestor_deny_denies_descendant [where rule = sample_deny
        and link = "(1, \<lparr>li_identity = ''ops'',
          li_attributes = Some \<lparr>at_identity = ''ops'', at_agent_id = None, at_role = Some ''lead'', at_labels = []\<rparr>\<rparr>)"])
    code_simp+

text \<open>
  Capability advertisement never hides an available action: whatever a view allows against
  any resource, it reports as performable somewhere.
\<close>

theorem allowed_actions_are_advertised:
  assumes "is_allow (decide (view_from_config config subject) action resource)"
  shows "may_perform_anywhere (view_from_config config subject) action"
  using allow_may_perform [of config "vw_principal (view_from_config config subject)" action "[resource]"] assms
  by (simp add: decide_def evaluate_access_def may_perform_anywhere_def)

theorem allowed_actions_are_advertised_witness:
  "is_allow (decide (view_from_config sample_config (Some ''bob'')) ACTION_AGENT_VIEW (for_identity ''ops''))
   \<and> may_perform_anywhere (view_from_config sample_config (Some ''bob'')) ACTION_AGENT_VIEW"
proof -
  have "is_allow (decide (view_from_config sample_config (Some ''bob'')) ACTION_AGENT_VIEW (for_identity ''ops''))"
    by code_simp
  with allowed_actions_are_advertised [OF this] show ?thesis by simp
qed

lemma view_decision_cong:
  assumes "ac_enabled c = ac_enabled d" "ac_admins c = ac_admins d" "ac_groups c = ac_groups d"
    and "is_allow (evaluate_access_lineage c (vw_principal (view_from_config d subject)) a [resource]) =
         is_allow (evaluate_access_lineage d (vw_principal (view_from_config d subject)) a' [resource])"
  shows "is_allow (decide (view_from_config c subject) a resource) = is_allow (decide (view_from_config d subject) a' resource)"
  using assms by (cases subject) (simp_all add: decide_def evaluate_access_def view_from_config_def groups_for_subject_def)

text \<open>
  C35. The memory migration also runs on later edits. When the rules other than the deleted one
  mention no memory action, and the deleted one did not speak about \<open>agent.view\<close>, then after the
  deletion everyone may read memory exactly where everyone could view before it, whatever the
  deleted rule had restricted reads to.
\<close>

theorem deleting_last_memory_rule_widens_reads:
  assumes "delete_rule env rid ctl = (Inr revision, ctl')"
    and "\<forall>rule \<in> set (ac_rules (ctl_config ctl)). if ru_id rule = rid then \<not> rule_names_action rule ACTION_AGENT_VIEW
           else \<not> list_ex pattern_mentions_memory (ru_actions rule)"
  shows "is_allow (decide (view_from_config (ctl_config ctl') subject) ACTION_AGENT_MEMORY_READ resource)
       = is_allow (decide (view_from_config (ctl_config ctl) subject) ACTION_AGENT_VIEW resource)"
proof -
  let ?c = "ctl_config ctl"
  let ?d = "?c\<lparr>ac_rules := filter (\<lambda>rule. ru_id rule \<noteq> rid) (ac_rules ?c)\<rparr>"
  have c': "ctl_config ctl' = normalized ?d"
    using assms(1) unfolding delete_rule_def mutate_def
    by (elim edit_and_commit_cases) (auto simp: committed_def Let_def split: if_splits)
  have naive: "\<not> mentions_memory ?d" using assms(2) by (auto simp: mentions_memory_def list_ex_iff split: if_splits)
  have same: "(\<exists>r \<in> set (ac_rules ?d). rule_matches p ACTION_AGENT_VIEW rs r \<and> ru_effect r = e) \<longleftrightarrow>
      (\<exists>r \<in> set (ac_rules ?c). rule_matches p ACTION_AGENT_VIEW rs r \<and> ru_effect r = e)" for p rs e
    using assms(2) by (auto simp: rule_matches_def split: if_splits)
  have "is_allow (evaluate_access_lineage (normalized ?d) p ACTION_AGENT_MEMORY_READ rs) =
      is_allow (evaluate_access_lineage ?c p ACTION_AGENT_VIEW rs)" for p rs
    unfolding normalized_decision [OF naive] using same by (simp add: evaluate_allow_iff subject_is_admin_def)
  then show ?thesis unfolding c' by (intro view_decision_cong) simp_all
qed

theorem deleting_last_memory_rule_widens_reads_witness:
  "\<not> is_allow (decide (view_from_config (ctl_config sample_ctl) (Some ''bob'')) ACTION_AGENT_MEMORY_READ (for_identity ''ops''))
   \<and> is_allow (decide (view_from_config (ctl_config (snd (delete_rule sample_env ''mem'' sample_ctl))) (Some ''bob''))
         ACTION_AGENT_MEMORY_READ (for_identity ''ops''))"
proof -
  have "fst (delete_rule sample_env ''mem'' sample_ctl) = Inr 1" by code_simp
  then have "delete_rule sample_env ''mem'' sample_ctl = (Inr 1, snd (delete_rule sample_env ''mem'' sample_ctl))" by (metis prod.collapse)
  moreover have "\<forall>rule \<in> set (ac_rules (ctl_config sample_ctl)). if ru_id rule = ''mem'' then \<not> rule_names_action rule ACTION_AGENT_VIEW
           else \<not> list_ex pattern_mentions_memory (ru_actions rule)" by code_simp
  moreover have "\<not> is_allow (decide (view_from_config (ctl_config sample_ctl) (Some ''bob'')) ACTION_AGENT_MEMORY_READ (for_identity ''ops''))"
    "is_allow (decide (view_from_config (ctl_config sample_ctl) (Some ''bob'')) ACTION_AGENT_VIEW (for_identity ''ops''))" by code_simp+
  ultimately show ?thesis using deleting_last_memory_rule_widens_reads [of sample_env "''mem''" sample_ctl] by blast
qed

end
