(* ===== verification/Utf8.thy ===== *)
theory Utf8
  imports Rust_Strings
begin

text \<open>
  The bytes of a Rust string are valid UTF-8. Most of the sources look at strings in a way that
  agrees with the bytes; where they iterate over \<open>chars\<close> or check bytes with
  \<open>String::from_utf8\<close>, the coding of code points is needed and is written out here.
\<close>

section \<open>Code points\<close>

definition is_scalar :: "nat \<Rightarrow> bool" where
  "is_scalar c = (c < 0xD800 \<or> (0xE000 \<le> c \<and> c < 0x110000))"

definition utf8_encode :: "nat \<Rightarrow> string" where
  "utf8_encode c = map char_of
     (if c < 0x80 then [c]
      else if c < 0x800 then [0xC0 + c div 0x40, 0x80 + c mod 0x40]
      else if c < 0x10000 then [0xE0 + c div 0x1000, 0x80 + c div 0x40 mod 0x40, 0x80 + c mod 0x40]
      else [0xF0 + c div 0x40000, 0x80 + c div 0x1000 mod 0x40, 0x80 + c div 0x40 mod 0x40, 0x80 + c mod 0x40])"

text \<open>\<open>str::chars\<close>; the value on strings that are not UTF-8 does not matter.\<close>

fun str_chars :: "string \<Rightarrow> nat list" where
  "str_chars [] = []"
| "str_chars (a # s) =
     (if byte a < 0x80 then byte a # str_chars s
      else if byte a < 0xE0 then
        (case s of b # r \<Rightarrow> (byte a mod 0x20 * 0x40 + byte b mod 0x40) # str_chars r | [] \<Rightarrow> [])
      else if byte a < 0xF0 then
        (case s of b # d # r \<Rightarrow> (byte a mod 0x10 * 0x1000 + byte b mod 0x40 * 0x40 + byte d mod 0x40) # str_chars r | _ \<Rightarrow> [])
      else
        (case s of b # d # e # r \<Rightarrow>
           (byte a mod 0x08 * 0x40000 + byte b mod 0x40 * 0x1000 + byte d mod 0x40 * 0x40 + byte e mod 0x40) # str_chars r
         | _ \<Rightarrow> []))"

definition valid_utf8 :: "string \<Rightarrow> bool" where
  "valid_utf8 s \<longleftrightarrow> list_all is_scalar (str_chars s) \<and> concat (map utf8_encode (str_chars s)) = s"

section \<open>Coding code points\<close>

lemma byte_of [simp]: "n < 256 \<Longrightarrow> byte (char_of n) = n"
  by (rule byte_char_of)

lemma str_chars_encode:
  assumes "is_scalar c"
  shows "str_chars (utf8_encode c @ s) = c # str_chars s"
proof -
  have lead: "(192 + q) mod 32 = q" if "q < 32" for q :: nat using that by (subst mod_add_left_eq [symmetric]) simp
  have lead3: "(224 + q) mod 16 = q" if "q < 16" for q :: nat using that by (subst mod_add_left_eq [symmetric]) simp
  have lead4: "(240 + q) mod 8 = q" if "q < 5" for q :: nat using that by (subst mod_add_left_eq [symmetric]) simp
  have cont: "(128 + q) mod 64 = q mod 64" for q :: nat by (subst mod_add_left_eq [symmetric]) simp
  have split: "c = c div 64 * 64 + c mod 64" "c div 64 = c div 4096 * 64 + c div 64 mod 64"
    "c div 4096 = c div 262144 * 64 + c div 4096 mod 64"
    using div_mult_mod_eq [of c 64] div_mult_mod_eq [of "c div 64" 64] div_mult_mod_eq [of "c div 4096" 64]
    by (simp_all add: div_mult2_eq [symmetric])
  have sum3: "c div 4096 * 4096 + c div 64 mod 64 * 64 + c mod 64 = c" using split(1,2) by linarith
  have sum4: "c div 262144 * 262144 + c div 4096 mod 64 * 4096 + c div 64 mod 64 * 64 + c mod 64 = c" using split by linarith
  have low: "q mod 64 < 64" for q :: nat by simp
  consider "c < 0x80" | "0x80 \<le> c" "c < 0x800" | "0x800 \<le> c" "c < 0x10000" | "0x10000 \<le> c" "c < 0x110000"
    using assms unfolding is_scalar_def by linarith
  then show ?thesis
  proof cases
    case 1
    then show ?thesis by (simp add: utf8_encode_def)
  next
    case 2
    have "c div 64 < 32" using 2 by (simp add: less_mult_imp_div_less)
    then show ?thesis using 2 low [of c] by (simp add: utf8_encode_def lead cont)
  next
    case 3
    have "c div 4096 < 16" using 3 by (simp add: less_mult_imp_div_less)
    then show ?thesis using 3 low [of c] low [of "c div 64"] sum3 by (simp add: utf8_encode_def lead3 cont)
  next
    case 4
    have "c div 262144 < 5" using 4 by (simp add: less_mult_imp_div_less)
    then show ?thesis
      using 4 low [of c] low [of "c div 64"] low [of "c div 4096"] sum4 by (simp add: utf8_encode_def lead4 cont)
  qed
qed

lemma str_chars_concat: "list_all is_scalar cs \<Longrightarrow> str_chars (concat (map utf8_encode cs)) = cs"
  by (induction cs) (simp_all add: str_chars_encode)

lemma str_chars_append: "list_all is_scalar cs \<Longrightarrow> str_chars (concat (map utf8_encode cs) @ t) = cs @ str_chars t"
  by (induction cs) (simp_all add: str_chars_encode)

lemma valid_utf8_append: "valid_utf8 s \<Longrightarrow> valid_utf8 t \<Longrightarrow> valid_utf8 (s @ t)"
  unfolding valid_utf8_def using str_chars_append [of "str_chars s" t] by simp

lemma valid_utf8_ascii: "list_all (\<lambda>c. byte c < 128) s \<Longrightarrow> valid_utf8 s"
  by (induction s) (auto simp: valid_utf8_def is_scalar_def utf8_encode_def byte_def)

section \<open>Codecs\<close>

text \<open>
  An encoding with a decoder that reads every admissible value back. A codec is injective, and
  codecs compose.
\<close>

locale codec =
  fixes ok :: "'a \<Rightarrow> bool" and enc :: "'a \<Rightarrow> 'b" and dec :: "'b \<Rightarrow> 'a option"
  assumes round_trip: "ok x \<Longrightarrow> dec (enc x) = Some x"
begin

lemma enc_eq: "ok x \<Longrightarrow> ok y \<Longrightarrow> enc x = enc y \<longleftrightarrow> x = y"
  by (metis option.inject round_trip)

lemma dec_some: "ok x \<Longrightarrow> dec (enc x) \<noteq> None"
  by (simp add: round_trip)

end

interpretation chars: codec "list_all is_scalar" "\<lambda>cs. concat (map utf8_encode cs)" "\<lambda>s. Some (str_chars s)"
  by unfold_locales (simp add: str_chars_concat)

end
