(* ===== verification/Member_Alias.thy ===== *)
theory Member_Alias
  imports Json_Value Utf8
begin

text \<open>
  Member aliases (\<open>member_comms_id.rs\<close>): the codec between public aliases and the comms-safe ids
  of the roster, durable identities, and the checks at the public and the raw member ingress.
  The escapes work on code points (\<open>Utf8\<close>). The owner of an identity is looked up in the
  identity runtime, which is a parameter.
\<close>

section \<open>Hexadecimal numbers\<close>

definition hex_digit :: "nat \<Rightarrow> char" where
  "hex_digit n = char_of (if n < 10 then 48 + n else 87 + n)"

fun nat_hex :: "nat \<Rightarrow> string" where
  "nat_hex n = (if n < 16 then [hex_digit n] else nat_hex (n div 16) @ [hex_digit (n mod 16)])"

declare nat_hex.simps [simp del]

definition hex_value :: "char \<Rightarrow> nat option" where
  "hex_value c =
     (let n = byte c in
      if 48 \<le> n \<and> n \<le> 57 then Some (n - 48)
      else if 97 \<le> n \<and> n \<le> 102 then Some (n - 87)
      else if 65 \<le> n \<and> n \<le> 70 then Some (n - 55) else None)"

definition hex_number :: "string \<Rightarrow> nat" where
  "hex_number s = foldl (\<lambda>acc c. acc * 16 + the (hex_value c)) 0 s"

text \<open>\<open>u32::from_str_radix\<close> with radix 16: an optional plus, then digits that fit.\<close>

definition u32_from_hex :: "string \<Rightarrow> nat option" where
  "u32_from_hex s =
     (let ds = (case s of c # r \<Rightarrow> if c = CHR ''+'' then r else s | [] \<Rightarrow> s) in
      if ds = [] \<or> \<not> list_all (\<lambda>c. hex_value c \<noteq> None) ds \<or> \<not> hex_number ds < 2 ^ 32 then None
      else Some (hex_number ds))"

section \<open>The codec\<close>

definition MARKER :: string where
  "MARKER = ''mk--''"

definition is_ascii_alphabetic :: "nat \<Rightarrow> bool" where
  "is_ascii_alphabetic n = ((65 \<le> n \<and> n \<le> 90) \<or> (97 \<le> n \<and> n \<le> 122))"

definition is_ascii_alphanumeric :: "nat \<Rightarrow> bool" where
  "is_ascii_alphanumeric n = (is_ascii_alphabetic n \<or> (48 \<le> n \<and> n \<le> 57))"

definition is_valid_comms_component :: "string \<Rightarrow> bool" where
  "is_valid_comms_component s =
     (case s of
        [] \<Rightarrow> False
      | first # chars \<Rightarrow>
          (is_ascii_alphabetic (byte first) \<or> first = CHR ''_'')
          \<and> list_all (\<lambda>c. is_ascii_alphanumeric (byte c) \<or> c = CHR ''-'' \<or> c = CHR ''_'') chars)"

definition escape_char :: "nat \<Rightarrow> string" where
  "escape_char c =
     (if c = 95 then ''__''
      else if c = 58 then ''_c''
      else if is_ascii_alphanumeric c \<or> c = 45 then [char_of c]
      else ''_x'' @ nat_hex c @ ''_'')"

definition escape_body :: "string \<Rightarrow> string" where
  "escape_body s = concat (map escape_char (str_chars s))"

function unescape_body :: "string \<Rightarrow> string option" where
  "unescape_body [] = Some []"
| "unescape_body (c # s) =
     (if c \<noteq> CHR ''_'' then map_option ((#) c) (unescape_body s)
      else case s of
        [] \<Rightarrow> None
      | k # r \<Rightarrow>
          if k = CHR ''_'' then map_option ((#) (CHR ''_'')) (unescape_body r)
          else if k = CHR ''c'' then map_option ((#) (CHR '':'')) (unescape_body r)
          else if k = CHR ''x'' then
            (case split_once (CHR ''_'') r of
               None \<Rightarrow> None
             | Some (hex, rest) \<Rightarrow>
                (case u32_from_hex hex of
                   None \<Rightarrow> None
                 | Some code \<Rightarrow>
                     if is_scalar code then map_option ((@) (utf8_encode code)) (unescape_body rest) else None))
          else None)"
  by pat_completeness auto
termination
  by (relation "measure length") (auto dest: split_once_SomeD)

definition mob_member_id_str :: "string \<Rightarrow> string" where
  "mob_member_id_str alias =
     (if is_valid_comms_component alias \<and> \<not> starts_with alias MARKER then alias else MARKER @ escape_body alias)"

definition runtime_alias_str :: "string \<Rightarrow> string" where
  "runtime_alias_str member_id =
     (case strip_prefix member_id MARKER of
        Some body \<Rightarrow> (case unescape_body body of Some alias \<Rightarrow> alias | None \<Rightarrow> member_id)
      | None \<Rightarrow> member_id)"

section \<open>Identities\<close>

definition is_reserved_generated_alias :: "string \<Rightarrow> bool" where
  "is_reserved_generated_alias member_id = starts_with (runtime_alias_str member_id) ''rt:''"

definition durable_identity_label :: "(string, string) btree \<Rightarrow> string option" where
  "durable_identity_label labels =
     opt_filter (\<lambda>value. value \<noteq> [] \<and> \<not> is_reserved_generated_alias value) (map_option trim (bt_get labels ''agent_identity''))"

definition validate_raw_identity_labels :: "(string, string) btree \<Rightarrow> string + unit" where
  "validate_raw_identity_labels labels =
     (if bt_contains labels ''agent_identity''
      then Inl ''labels.agent_identity is runtime-authoritative and may not be supplied by raw member creation''
      else Inr ())"

definition durable_identity_from_runtime_alias :: "string \<Rightarrow> string option" where
  "durable_identity_from_runtime_alias alias =
     (case strip_prefix alias ''rt:'' of
        None \<Rightarrow> None
      | Some rest \<Rightarrow>
         (case rsplit_once (CHR '':'') rest of
            None \<Rightarrow> None
          | Some (identity, generation) \<Rightarrow>
              if identity = [] \<or> parse_u64 generation = None then None else Some identity))"

definition logical_memory_identity :: "string \<Rightarrow> string" where
  "logical_memory_identity member_id_or_alias =
     (let alias = runtime_alias_str member_id_or_alias in
      unwrap_or (durable_identity_from_runtime_alias alias) alias)"

definition durable_identity_for_roster_member :: "string \<Rightarrow> string" where
  "durable_identity_for_roster_member member_id = logical_memory_identity member_id"

text \<open>A runtime id of the mob library is a roster identity and a generation.\<close>

definition public_runtime_alias :: "string \<Rightarrow> u64 \<Rightarrow> string" where
  "public_runtime_alias identity generation =
     (let identity = runtime_alias_str identity in
      if starts_with identity ''rt:'' then identity @ '':'' @ nat_decimal (unat generation)
      else ''rt:'' @ identity @ '':'' @ nat_decimal (unat generation))"

definition runtime_event_alias :: "string \<Rightarrow> u64 \<Rightarrow> string" where
  "runtime_event_alias identity generation = runtime_alias_str identity @ '':'' @ nat_decimal (unat generation)"

definition roster_member_id_for_supplied_id :: "string \<Rightarrow> string" where
  "roster_member_id_for_supplied_id supplied =
     (let decoded = runtime_alias_str supplied in
      mob_member_id_str (unwrap_or (durable_identity_from_runtime_alias decoded) decoded))"

definition roster_member_id_for_identity :: "string \<Rightarrow> string" where
  "roster_member_id_for_identity identity = mob_member_id_str identity"

definition live_member_is_identity :: "string \<Rightarrow> string \<Rightarrow> bool" where
  "live_member_is_identity live_member_id identity = (runtime_alias_str live_member_id = identity)"

definition live_member_names_identity_or_incarnation :: "string \<Rightarrow> string \<Rightarrow> string option \<Rightarrow> bool" where
  "live_member_names_identity_or_incarnation live_member_id identity registered_runtime_id =
     (live_member_is_identity live_member_id identity
      \<or> is_some_and registered_runtime_id (\<lambda>registered. runtime_alias_str live_member_id = registered))"

definition live_binding_matches_identity ::
  "string \<Rightarrow> string option \<Rightarrow> string \<Rightarrow> string option \<Rightarrow> string option \<Rightarrow> bool" where
  "live_binding_matches_identity live_member_id live_session_id identity registered_session_id registered_runtime_id =
     (let names_identity = live_member_is_identity live_member_id identity;
          is_registered_incarnation =
            is_some_and registered_runtime_id (\<lambda>registered. runtime_alias_str live_member_id = registered) in
      (names_identity \<or> is_registered_incarnation) \<and> live_session_id = registered_session_id)"

section \<open>Ingress checks\<close>

definition uses_reserved_roster_marker :: "string \<Rightarrow> bool" where
  "uses_reserved_roster_marker member_id = starts_with (trim member_id) MARKER"

definition validate_public_member_alias :: "string \<Rightarrow> string \<Rightarrow> string + unit" where
  "validate_public_member_alias field value =
     (if uses_reserved_roster_marker value
      then Inl (field @ '' may not use the reserved encoded roster-id namespace'') else Inr ())"

definition TARGET_FIELDS :: "string list" where
  "TARGET_FIELDS = [''identity'', ''member_id'', ''agent_id'', ''agent_identity'', ''meerkat_id'', ''local_member_id'',
     ''remote_member_id'', ''from_member_id'', ''source_member_id'', ''runtime_member_id'', ''agent_runtime_id'']"

fun validate_target_fields :: "(string, json) btree \<Rightarrow> string list \<Rightarrow> string + unit" where
  "validate_target_fields params [] = Inr ()"
| "validate_target_fields params (field # fields) =
     (case Option.bind (bt_get params field) as_str of
        None \<Rightarrow> validate_target_fields params fields
      | Some value \<Rightarrow>
         (case validate_public_member_alias field value of
            Inl e \<Rightarrow> Inl e
          | Inr _ \<Rightarrow> validate_target_fields params fields))"

definition validate_public_rpc_member_aliases :: "json \<Rightarrow> string + unit" where
  "validate_public_rpc_member_aliases params =
     (case as_object params of None \<Rightarrow> Inr () | Some params \<Rightarrow> validate_target_fields params TARGET_FIELDS)"

text \<open>
  An identity runtime, where one is installed, gives the durable identity that owns an alias
  (\<open>identity_for_member_mutation\<close>), if there is one.
\<close>

definition quoted :: "string \<Rightarrow> string" where
  "quoted s = [CHR 0x27] @ s @ [CHR 0x27]"

definition validate_raw_member_target :: "(string \<Rightarrow> string option) option \<Rightarrow> string \<Rightarrow> string + string" where
  "validate_raw_member_target identity_runtime member_id =
     (let member_id = trim member_id; alias = runtime_alias_str member_id in
      if uses_reserved_roster_marker member_id \<or> is_reserved_generated_alias alias
      then Inl (''member id '' @ quoted member_id @ '' uses an identity-runtime reserved namespace'')
      else case Option.bind identity_runtime (\<lambda>owner. owner alias) of
        Some identity \<Rightarrow> Inl (''member id '' @ quoted alias @ '' is owned by durable identity '' @ quoted identity)
      | None \<Rightarrow> Inr alias)"

fun validate_raw_targets :: "(string \<Rightarrow> string option) option \<Rightarrow> string list \<Rightarrow> string + string list" where
  "validate_raw_targets identity_runtime [] = Inr []"
| "validate_raw_targets identity_runtime (member_id # ids) =
     (case validate_raw_member_target identity_runtime member_id of
        Inl e \<Rightarrow> Inl e
      | Inr alias \<Rightarrow>
         (case validate_raw_targets identity_runtime ids of Inl e \<Rightarrow> Inl e | Inr aliases \<Rightarrow> Inr (alias # aliases)))"

text \<open>
  The targets are checked before and again after the alias locks are taken. Durable ownership
  may change while waiting for a lock, so the identity runtime is seen twice, as two arguments.
  The locks are taken in the order of the sorted distinct aliases and held by the reservation.
\<close>

record RawMemberTargetReservation =
  rr_aliases :: "string list"
  rr_alias_guards :: "string list"

definition reserve_raw_member_targets ::
  "(string \<Rightarrow> string option) option \<Rightarrow> (string \<Rightarrow> string option) option \<Rightarrow> string list
   \<Rightarrow> string + RawMemberTargetReservation" where
  "reserve_raw_member_targets runtime runtime_locked member_ids =
     (let member_ids = map trim member_ids in
      if member_ids = [] then Inl ''raw member reservation requires at least one member id''
      else case validate_raw_targets runtime member_ids of
        Inl e \<Rightarrow> Inl e
      | Inr _ \<Rightarrow>
         (let sorted_aliases = sorted_list_of_set (set (map runtime_alias_str member_ids));
              alias_guards = (case runtime of Some _ \<Rightarrow> sorted_aliases | None \<Rightarrow> []) in
          case validate_raw_targets runtime_locked member_ids of
            Inl e \<Rightarrow> Inl e
          | Inr aliases \<Rightarrow> Inr \<lparr>rr_aliases = aliases, rr_alias_guards = alias_guards\<rparr>))"

definition reserve_raw_member_target ::
  "(string \<Rightarrow> string option) option \<Rightarrow> (string \<Rightarrow> string option) option \<Rightarrow> string \<Rightarrow> string + RawMemberTargetReservation" where
  "reserve_raw_member_target runtime runtime_locked member_id = reserve_raw_member_targets runtime runtime_locked [member_id]"

definition reservation_alias :: "RawMemberTargetReservation \<Rightarrow> string" where
  "reservation_alias r = (case rr_aliases r of a # _ \<Rightarrow> a | [] \<Rightarrow> [])"

section \<open>Hexadecimal numbers round-trip\<close>

lemma hex_value_digit [simp]: "n < 16 \<Longrightarrow> hex_value (hex_digit n) = Some n"
  by (auto simp: hex_value_def hex_digit_def Let_def)

lemma hex_digit_ascii: "n < 16 \<Longrightarrow> byte (hex_digit n) \<noteq> 95 \<and> byte (hex_digit n) \<noteq> 43 \<and> is_ascii_alphanumeric (byte (hex_digit n))"
  by (auto simp: hex_digit_def is_ascii_alphanumeric_def is_ascii_alphabetic_def)

lemma nat_hex_facts:
  "nat_hex n \<noteq> []" "list_all (\<lambda>c. hex_value c \<noteq> None) (nat_hex n)" "hex_number (nat_hex n) = n"
  "\<forall>c \<in> set (nat_hex n). byte c \<noteq> 95 \<and> byte c \<noteq> 43 \<and> is_ascii_alphanumeric (byte c)"
proof (induction n rule: nat_hex.induct)
  case (1 n)
  {
    case 1
    show ?case by (subst nat_hex.simps) simp
  next
    case 2
    show ?case using "1.IH"(2) by (subst nat_hex.simps) simp
  next
    case 3
    show ?case using "1.IH"(3) by (subst nat_hex.simps) (simp add: hex_number_def)
  next
    case 4
    show ?case using "1.IH"(4) hex_digit_ascii by (subst nat_hex.simps) auto
  }
qed

lemma u32_from_hex_nat_hex: "n < 2 ^ 32 \<Longrightarrow> u32_from_hex (nat_hex n) = Some n"
proof -
  assume n: "n < 2 ^ 32"
  obtain c r where h: "nat_hex n = c # r" using nat_hex_facts(1) [of n] by (cases "nat_hex n") auto
  have "c \<noteq> CHR ''+''" using nat_hex_facts(4) [of n] h by (auto simp: byte_def)
  then show ?thesis using n nat_hex_facts(1-3) [of n] h by (simp add: u32_from_hex_def)
qed

interpretation hex: codec "\<lambda>n. n < 2 ^ 32" nat_hex u32_from_hex
  by unfold_locales (rule u32_from_hex_nat_hex)

section \<open>The codec round-trips\<close>

lemma unescape_hex:
  assumes "is_scalar c"
  shows "unescape_body (''_x'' @ nat_hex c @ ''_'' @ s) = map_option ((@) (utf8_encode c)) (unescape_body s)"
proof -
  have "CHR ''_'' \<notin> set (nat_hex c)" using nat_hex_facts(4) [of c] by (auto simp: byte_def)
  moreover have "u32_from_hex (nat_hex c) = Some c"
    using assms by (intro u32_from_hex_nat_hex) (auto simp: is_scalar_def)
  ultimately show ?thesis using assms by simp
qed

lemma unescape_escape_char:
  assumes "is_scalar c"
  shows "unescape_body (escape_char c @ s) = map_option ((@) (utf8_encode c)) (unescape_body s)"
proof (cases "c = 95 \<or> c = 58")
  case True
  have "char_of (95 :: nat) = CHR ''_''" "char_of (58 :: nat) = CHR '':''" by code_simp+
  moreover have "(@) [x] = (#) x" for x :: char by (simp add: fun_eq_iff)
  ultimately show ?thesis using True by (auto simp: escape_char_def utf8_encode_def)
next
  case False
  show ?thesis
  proof (cases "is_ascii_alphanumeric c \<or> c = 45")
    case True
    then have "c < 128" by (auto simp: is_ascii_alphanumeric_def is_ascii_alphabetic_def)
    moreover have "char_of c \<noteq> CHR ''_''"
    proof
      assume "char_of c = CHR ''_''"
      then have "byte (char_of c) = 95" by (simp add: byte_def)
      then show False using False \<open>c < 128\<close> by simp
    qed
    moreover have "(@) [x] = (#) x" for x :: char by (simp add: fun_eq_iff)
    ultimately show ?thesis using True False by (simp add: escape_char_def utf8_encode_def)
  next
    case esc: False
    show ?thesis using False esc unescape_hex [OF assms, of s] by (simp add: escape_char_def)
  qed
qed

lemma unescape_escape_body:
  assumes "valid_utf8 s"
  shows "unescape_body (escape_body s) = Some s"
proof -
  have "unescape_body (concat (map escape_char cs)) = Some (concat (map utf8_encode cs))" if "list_all is_scalar cs" for cs
    using that by (induction cs) (simp_all add: unescape_escape_char)
  then show ?thesis using assms unfolding valid_utf8_def escape_body_def by metis
qed

interpretation escape: codec valid_utf8 escape_body unescape_body
  by unfold_locales (rule unescape_escape_body)

lemma runtime_alias_plain: "\<not> starts_with s MARKER \<Longrightarrow> runtime_alias_str s = s"
  by (auto simp: runtime_alias_str_def prefix_def split: option.splits)

lemma alias_roundtrip: "valid_utf8 s \<Longrightarrow> runtime_alias_str (mob_member_id_str s) = s"
  using runtime_alias_plain [of s]
  by (auto simp: mob_member_id_str_def runtime_alias_str_def unescape_escape_body)

interpretation alias_id: codec valid_utf8 mob_member_id_str "\<lambda>s. Some (runtime_alias_str s)"
  by unfold_locales (simp add: alias_roundtrip)

lemma escape_char_component:
  "\<forall>x \<in> set (escape_char c). is_ascii_alphanumeric (byte x) \<or> x = CHR ''-'' \<or> x = CHR ''_''"
proof (cases "is_ascii_alphanumeric c \<or> c = 45")
  case True
  then have "c < 128" by (auto simp: is_ascii_alphanumeric_def is_ascii_alphabetic_def)
  moreover have "char_of (45 :: nat) = CHR ''-''" by code_simp
  ultimately show ?thesis using True by (auto simp: escape_char_def is_ascii_alphanumeric_def is_ascii_alphabetic_def byte_def)
next
  case False
  have "is_ascii_alphanumeric (byte (CHR ''c''))" "is_ascii_alphanumeric (byte (CHR ''x''))" by code_simp+
  then show ?thesis using False nat_hex_facts(4) [of c] by (auto simp: escape_char_def)
qed

lemma mob_member_id_component: "is_valid_comms_component (mob_member_id_str s)"
proof (cases "is_valid_comms_component s \<and> \<not> starts_with s MARKER")
  case True
  then show ?thesis by (simp add: mob_member_id_str_def)
next
  case False
  have m: "is_ascii_alphabetic (byte (CHR ''m''))" "is_ascii_alphanumeric (byte (CHR ''k''))" by code_simp+
  have "list_all (\<lambda>c. is_ascii_alphanumeric (byte c) \<or> c = CHR ''-'' \<or> c = CHR ''_'') (escape_body s)"
    using escape_char_component by (auto simp: list_all_iff escape_body_def)
  then show ?thesis
    using False m by (auto simp: mob_member_id_str_def MARKER_def is_valid_comms_component_def)
qed

lemma parse_u64_decimal [simp]: "parse_u64 (nat_decimal (unat g)) = Some g"
proof -
  obtain c cs where s: "nat_decimal (unat g) = c # cs" by (metis nat_decimal_nonempty neq_Nil_conv)
  then have "c \<noteq> CHR ''+''" using digits_not_plus [OF nat_decimal_digits] by blast
  with s nat_decimal_digits [of "unat g"] decimal_value_nat_decimal [of "unat g"] unsigned_less [of g] show ?thesis
    by (simp add: parse_u64_def)
qed

interpretation generation: codec "\<lambda>_. True" "\<lambda>g. nat_decimal (unat g)" parse_u64
  by unfold_locales simp

section \<open>Identities and the roster\<close>

definition generated_alias :: "string \<Rightarrow> u64 \<Rightarrow> string" where
  "generated_alias identity generation = ''rt:'' @ identity @ '':'' @ nat_decimal (unat generation)"

lemma colon_not_digit: "list_all is_digit s \<Longrightarrow> CHR '':'' \<notin> set s"
  by (auto simp: list_all_iff is_digit_def byte_def)

lemma generated_alias_identity:
  assumes "d \<noteq> []"
  shows "durable_identity_from_runtime_alias (generated_alias d g) = Some d"
proof -
  have "strip_prefix (generated_alias d g) ''rt:'' = Some (d @ '':'' @ nat_decimal (unat g))"
    by (simp only: strip_prefix_Some generated_alias_def)
  then show ?thesis
    unfolding durable_identity_from_runtime_alias_def
    using assms rsplit_once_append [OF colon_not_digit [OF nat_decimal_digits], of d "unat g"]
    by (simp del: strip_prefix_Some)
qed

lemma generated_alias_plain: "runtime_alias_str (generated_alias d g) = generated_alias d g"
  by (rule runtime_alias_plain) (simp add: generated_alias_def MARKER_def)

lemma nat_decimal_inj [simp]: "nat_decimal m = nat_decimal n \<longleftrightarrow> m = n"
  by (metis decimal_value_nat_decimal)

lemma generated_alias_inj [simp]: "generated_alias d g = generated_alias e h \<longleftrightarrow> d = e \<and> g = h" (is "?l \<longleftrightarrow> ?r")
proof
  assume ?l
  then have "rsplit_once (CHR '':'') (d @ '':'' @ nat_decimal (unat g)) = rsplit_once (CHR '':'') (e @ '':'' @ nat_decimal (unat h))"
    by (simp add: generated_alias_def)
  then show ?r
    by (simp add: rsplit_once_append colon_not_digit nat_decimal_digits word_unat_eq_iff)
qed simp

section \<open>Trimming keeps a marker at the front\<close>

lemma ws_len_rev_ascii:
  assumes "byte c < 128" "\<not> ascii_ws c"
  shows "ws_len_rev (c # s) = 0"
  using assms by (cases "c # s" rule: ws_len_rev.cases) (auto simp: ws2_def ws3_def)

lemma ws_len_rev_bounded:
  assumes "byte c < 128" "\<not> ascii_ws c"
  shows "ws_len_rev (s @ c # t) \<le> length s"
proof (cases s)
  case Nil
  then show ?thesis using ws_len_rev_ascii [OF assms] by simp
next
  case (Cons a s')
  show ?thesis
  proof (cases s')
    case Nil
    then show ?thesis using Cons assms by (cases t) (auto simp: ws2_def ws3_def)
  next
    case (Cons b s'')
    then show ?thesis using \<open>s = a # s'\<close> assms by (cases s'') (auto simp: ws2_def ws3_def)
  qed
qed

lemma strip_rev_stops:
  assumes "byte c < 128" "\<not> ascii_ws c"
  shows "\<exists>u. strip_with ws_len_rev (s @ c # t) = u @ c # t"
proof (induction s rule: length_induct)
  case (1 s)
  let ?n = "ws_len_rev (s @ c # t)"
  show ?case
  proof (cases "?n = 0")
    case True
    then show ?thesis by auto
  next
    case False
    have le: "?n \<le> length s" by (rule ws_len_rev_bounded [OF assms])
    then have "drop ?n (s @ c # t) = drop ?n s @ c # t" by simp
    moreover have "length (drop ?n s) < length s" using False le by simp
    ultimately show ?thesis using 1 False by (subst strip_with.simps) auto
  qed
qed

lemma trim_end_keeps:
  assumes "byte c < 128" "\<not> ascii_ws c"
  shows "\<exists>u. trim_end (p @ c # s) = p @ c # u"
proof -
  obtain u where "strip_with ws_len_rev (rev s @ c # rev p) = u @ c # rev p"
    using strip_rev_stops [OF assms] by blast
  then show ?thesis by (auto simp: trim_end_def intro: exI [of _ "rev u"])
qed

lemma trim_keeps_marker:
  assumes "prefix MARKER s"
  shows "prefix MARKER (trim s)"
proof -
  obtain r where s: "s = ''mk-'' @ CHR ''-'' # r" using assms by (auto simp: prefix_def MARKER_def)
  have "ws_len s = 0" unfolding s by (cases r) (auto simp: ascii_ws_def ws2_def ws3_def byte_def)
  then have "trim s = trim_end s" by (simp add: trim_def trim_start_def)
  moreover have "\<exists>u. trim_end s = ''mk-'' @ CHR ''-'' # u"
    unfolding s by (rule trim_end_keeps) (auto simp: ascii_ws_def byte_def)
  ultimately show ?thesis by (auto simp: MARKER_def)
qed

lemma unmarked_alias:
  assumes "\<not> uses_reserved_roster_marker s"
  shows "runtime_alias_str s = s" "runtime_alias_str (trim s) = trim s"
  using assms trim_keeps_marker [of s] runtime_alias_plain [of s] runtime_alias_plain [of "trim s"]
  by (auto simp: uses_reserved_roster_marker_def)

section \<open>The ingress\<close>

lemma validate_public_member_alias_ok:
  "validate_public_member_alias f v = Inr () \<longleftrightarrow> \<not> uses_reserved_roster_marker v"
  by (simp add: validate_public_member_alias_def)

lemma validate_target_fields_ok:
  "validate_target_fields ps fs = Inr () \<longleftrightarrow>
     (\<forall>f \<in> set fs. \<forall>v. Option.bind (bt_get ps f) as_str = Some v \<longrightarrow> \<not> uses_reserved_roster_marker v)"
  by (induction fs) (auto simp: validate_public_member_alias_def split: option.splits)

lemma validate_raw_member_target_ok:
  "validate_raw_member_target rt m = Inr a \<longleftrightarrow>
     a = trim m \<and> \<not> prefix MARKER a \<and> \<not> prefix ''rt:'' a \<and> Option.bind rt (\<lambda>owner. owner a) = None"
proof (cases "prefix MARKER (trim m)")
  case True
  then show ?thesis by (auto simp: validate_raw_member_target_def uses_reserved_roster_marker_def Let_def)
next
  case False
  then have "runtime_alias_str (trim m) = trim m" by (intro runtime_alias_plain) simp
  then show ?thesis using False
    by (auto simp: validate_raw_member_target_def uses_reserved_roster_marker_def is_reserved_generated_alias_def Let_def
        split: option.splits)
qed

lemma validate_raw_targets_ok:
  "validate_raw_targets rt ms = Inr as \<longleftrightarrow>
     as = map trim ms \<and> (\<forall>a \<in> set as. \<not> prefix MARKER a \<and> \<not> prefix ''rt:'' a \<and> Option.bind rt (\<lambda>owner. owner a) = None)"
  by (induction ms arbitrary: as) (auto simp: validate_raw_member_target_ok split: sum.splits)

lemma valid_utf8_generated: "valid_utf8 d \<Longrightarrow> valid_utf8 (generated_alias d g)"
proof -
  have "list_all (\<lambda>c. byte c < 128) (nat_decimal (unat g))"
    using nat_decimal_digits [of "unat g"] by (auto simp: list_all_iff is_digit_def)
  moreover have "list_all (\<lambda>c. byte c < 128) ''rt:''" "list_all (\<lambda>c. byte c < 128) '':''" by code_simp+
  ultimately show "valid_utf8 d \<Longrightarrow> valid_utf8 (generated_alias d g)"
    unfolding generated_alias_def by (simp only: valid_utf8_append valid_utf8_ascii)
qed

lemma public_runtime_alias_generated:
  "valid_utf8 d \<Longrightarrow> \<not> prefix ''rt:'' d \<Longrightarrow> public_runtime_alias (mob_member_id_str d) g = generated_alias d g"
  by (simp add: public_runtime_alias_def alias_roundtrip generated_alias_def)

section \<open>Properties\<close>

lemmas alias_eval = mob_member_id_str_def is_valid_comms_component_def is_ascii_alphanumeric_def
  is_ascii_alphabetic_def escape_body_def escape_char_def MARKER_def runtime_alias_str_def public_runtime_alias_def
  nat_decimal.simps byte_def strip_prefix_def char_of_def bit_0 Let_def

text \<open>
  C25. The codec: for every UTF-8 alias the roster id is a valid comms-name component, decoding
  it gives the alias back, and no other alias has the same roster id.
\<close>

theorem member_alias_roundtrip:
  assumes "valid_utf8 s"
  shows "is_valid_comms_component (mob_member_id_str s) \<and> runtime_alias_str (mob_member_id_str s) = s
    \<and> (\<forall>t. valid_utf8 t \<longrightarrow> mob_member_id_str t = mob_member_id_str s \<longrightarrow> t = s)"
  using mob_member_id_component alias_roundtrip [OF assms] alias_id.enc_eq [OF _ assms] by blast

theorem member_alias_roundtrip_witness:
  "runtime_alias_str (mob_member_id_str ''rt:a_b:0'') = ''rt:a_b:0'' \<and> mob_member_id_str ''rt:a_b:0'' = ''mk--rt_ca__b_c0''"
proof -
  have "valid_utf8 ''rt:a_b:0''" by (rule valid_utf8_ascii) (simp add: byte_def)
  moreover have "mob_member_id_str ''rt:a_b:0'' = ''mk--rt_ca__b_c0''" by (simp add: alias_eval)
  ultimately show ?thesis using member_alias_roundtrip [of "''rt:a_b:0''"] by blast
qed

text \<open>
  Every spelling of a member that the surfaces hand out, the durable identity, the public
  alias of any incarnation and the roster encodings of both, names the one roster row of the
  identity; but a live binding under an incarnation's alias is accepted only for the registered
  incarnation with exactly the registered session, so a stale generation is refused. (The comment
  inside \<open>live_binding_matches_identity\<close> asks for exactly this; the documentation above it says
  instead that the runtime id is not consulted.)
\<close>

theorem roster_spellings_agree:
  assumes "valid_utf8 d" "d \<noteq> []" "\<not> starts_with d ''rt:''" "\<not> starts_with d MARKER"
  shows "(\<forall>spelling \<in> {d, public_runtime_alias (mob_member_id_str d) g, mob_member_id_str d,
      mob_member_id_str (public_runtime_alias (mob_member_id_str d) g)}.
      roster_member_id_for_supplied_id spelling = roster_member_id_for_identity d)
    \<and> (live_binding_matches_identity (mob_member_id_str (public_runtime_alias (mob_member_id_str d) g)) live d registered
      (Some (public_runtime_alias (mob_member_id_str d) current)) \<longleftrightarrow> g = current \<and> live = registered)"
proof
  let ?r = "generated_alias d"
  have pub: "public_runtime_alias (mob_member_id_str d) h = ?r h" for h
    using assms by (intro public_runtime_alias_generated) auto
  have plain: "runtime_alias_str d = d" "durable_identity_from_runtime_alias d = None"
    using assms runtime_alias_plain [of d]
    by (auto simp: durable_identity_from_runtime_alias_def prefix_def split: option.splits)
  have dec: "runtime_alias_str (mob_member_id_str d) = d" "runtime_alias_str (mob_member_id_str (?r g)) = ?r g"
    using assms(1) valid_utf8_generated by (auto intro: alias_roundtrip)
  have gen: "durable_identity_from_runtime_alias (?r g) = Some d" "runtime_alias_str (?r g) = ?r g"
    using assms(2) by (auto intro: generated_alias_identity generated_alias_plain)
  show "\<forall>spelling \<in> {d, public_runtime_alias (mob_member_id_str d) g, mob_member_id_str d,
      mob_member_id_str (public_runtime_alias (mob_member_id_str d) g)}.
      roster_member_id_for_supplied_id spelling = roster_member_id_for_identity d"
    by (simp add: pub roster_member_id_for_supplied_id_def roster_member_id_for_identity_def plain dec gen)
  have "?r g \<noteq> d" using assms(3) by (auto simp: generated_alias_def prefix_def)
  then show "live_binding_matches_identity (mob_member_id_str (public_runtime_alias (mob_member_id_str d) g)) live d registered
      (Some (public_runtime_alias (mob_member_id_str d) current)) \<longleftrightarrow> g = current \<and> live = registered"
    by (auto simp: pub live_binding_matches_identity_def live_member_is_identity_def dec Let_def)
qed

theorem roster_spellings_agree_witness:
  "roster_member_id_for_supplied_id ''rt:a:b:7'' = ''mk--a_cb''
   \<and> \<not> live_binding_matches_identity ''mk--rt_ca_cb_c7'' (Some ''s'') ''a:b'' (Some ''s'') (Some ''rt:a:b:8'')"
proof -
  have v: "valid_utf8 ''a:b''" "\<not> starts_with ''a:b'' ''rt:''" "\<not> starts_with ''a:b'' MARKER"
    by (simp_all add: valid_utf8_ascii byte_def MARKER_def)
  have e: "public_runtime_alias (mob_member_id_str ''a:b'') 7 = ''rt:a:b:7''"
    "public_runtime_alias (mob_member_id_str ''a:b'') 8 = ''rt:a:b:8''"
    "roster_member_id_for_identity ''a:b'' = ''mk--a_cb''" "mob_member_id_str ''rt:a:b:7'' = ''mk--rt_ca_cb_c7''"
    "(7 :: u64) \<noteq> 8" by (simp_all add: alias_eval roster_member_id_for_identity_def)
  have "roster_member_id_for_supplied_id ''rt:a:b:7'' = roster_member_id_for_identity ''a:b''"
    using roster_spellings_agree [OF v(1) _ v(2,3), of 7] e by simp
  moreover have "\<not> live_binding_matches_identity ''mk--rt_ca_cb_c7'' (Some ''s'') ''a:b'' (Some ''s'') (Some ''rt:a:b:8'')"
    using roster_spellings_agree [OF v(1) _ v(2,3), of 7 "Some ''s''" "Some ''s''" 8] e by simp
  ultimately show ?thesis using e by simp
qed

text \<open>
  C26. A public request whose target fields pass the ingress check speaks aliases only: each
  target, trimmed or not, decodes to itself, so a policy decision made on the text as given is
  about the member that later alias resolution reaches.
\<close>

theorem public_targets_are_aliases:
  assumes "validate_public_rpc_member_aliases params = Inr ()" "field \<in> set TARGET_FIELDS"
    and "Option.bind (json_get params field) as_str = Some target"
  shows "runtime_alias_str target = target \<and> runtime_alias_str (trim target) = trim target"
proof -
  obtain m where m: "as_object params = Some m" "bt_get m field = json_get params field"
    using assms(3) by (cases "as_object params") (auto simp: json_get_def)
  then have "\<not> uses_reserved_roster_marker target"
    using assms validate_target_fields_ok [of m TARGET_FIELDS] by (auto simp: validate_public_rpc_member_aliases_def)
  then show ?thesis by (simp add: unmarked_alias)
qed

theorem public_targets_are_aliases_witness:
  "runtime_alias_str ''rt:a:0'' = ''rt:a:0'' \<and>
   validate_public_rpc_member_aliases (json_object [(''member_id'', JString '' mk--a'')])
     = Inl ''member_id may not use the reserved encoded roster-id namespace''"
proof -
  let ?p = "json_object [(''member_id'', JString ''rt:a:0'')]"
  have "validate_public_rpc_member_aliases ?p = Inr ()" "''member_id'' \<in> set TARGET_FIELDS"
    "Option.bind (json_get ?p ''member_id'') as_str = Some ''rt:a:0''"
    "validate_public_rpc_member_aliases (json_object [(''member_id'', JString '' mk--a'')])
     = Inl ''member_id may not use the reserved encoded roster-id namespace''" by code_simp+
  then show ?thesis using public_targets_are_aliases [of ?p "''member_id''" "''rt:a:0''"] by blast
qed

text \<open>
  C29. A raw reservation succeeds exactly when at least one id is given and each trimmed id is
  outside the runtime's namespaces and unowned in both looks at the identity runtime. It keeps
  the request's order, its aliases are the decoded ids, and it holds one lock per distinct alias,
  taken in ascending order.
\<close>

theorem reserve_raw_member_targets_exact:
  "reserve_raw_member_targets rt rt' ms = Inr r \<longleftrightarrow>
     ms \<noteq> [] \<and> rr_aliases r = map trim ms
     \<and> list_all (\<lambda>a. \<not> starts_with a MARKER \<and> \<not> starts_with a ''rt:''
         \<and> Option.bind rt (\<lambda>owner. owner a) = None \<and> Option.bind rt' (\<lambda>owner. owner a) = None) (rr_aliases r)
     \<and> map runtime_alias_str (rr_aliases r) = rr_aliases r
     \<and> rr_alias_guards r = (if rt = None then [] else sorted_list_of_set (set (rr_aliases r)))"
proof -
  have dec: "map runtime_alias_str (map trim ms) = map trim ms"
    if "validate_raw_targets rt (map trim ms) = Inr as" for as
    using that runtime_alias_plain by (auto simp: validate_raw_targets_ok)
  show ?thesis
  proof (cases "validate_raw_targets rt (map trim ms)")
    case (Inl e)
    then have "\<not> (\<forall>a \<in> set (map trim ms). \<not> prefix MARKER a \<and> \<not> prefix ''rt:'' a \<and> Option.bind rt (\<lambda>owner. owner a) = None)"
      using validate_raw_targets_ok [of rt "map trim ms" "map trim ms"] by (auto simp: comp_def)
    then show ?thesis using Inl by (auto simp: reserve_raw_member_targets_def list_all_iff Let_def)
  next
    case first: (Inr as)
    have ok: "as = map trim ms" "list_all (\<lambda>a. \<not> prefix MARKER a \<and> \<not> prefix ''rt:'' a \<and> Option.bind rt (\<lambda>owner. owner a) = None) (map trim ms)"
      using first by (auto simp: validate_raw_targets_ok list_all_iff)
    show ?thesis
    proof (cases "validate_raw_targets rt' (map trim ms)")
      case (Inl e)
      then have "\<not> list_all (\<lambda>a. Option.bind rt' (\<lambda>owner. owner a) = None) (map trim ms)"
        using validate_raw_targets_ok [of rt' "map trim ms" "map trim ms"] ok(2) by (auto simp: comp_def list_all_iff)
      then show ?thesis using first Inl by (auto simp: reserve_raw_member_targets_def list_all_iff Let_def)
    next
      case (Inr bs)
      then have "bs = map trim ms" "list_all (\<lambda>a. Option.bind rt' (\<lambda>owner. owner a) = None) (map trim ms)"
        by (auto simp: validate_raw_targets_ok list_all_iff)
      then show ?thesis using first Inr ok dec [OF first]
        by (cases r; cases rt) (auto simp: reserve_raw_member_targets_def list_all_iff Let_def)
    qed
  qed
qed

end
