(* ===== verification/Jwt_Auth.thy ===== *)
theory Jwt_Auth
  imports Json_Value Utf8
begin

text \<open>
  Token validation (\<open>auth/mod.rs\<close>): parsing a compact JWT, building verification keys from a
  JWKS, checking signature and claims, and the JWKS cache with its refresh on a key miss.
  Byte vectors are strings. The base64, JSON and cryptography crates, the network and the clocks
  are the fields of \<open>AuthLib\<close>; what each returns is arbitrary.
\<close>

section \<open>Types\<close>

record JwtValidationConfig =
  jv_shared_secret :: string
  jv_issuer :: "string option"
  jv_audience :: "string option"
  jv_now_epoch_seconds :: u64
  jv_leeway_seconds :: u64

record JwtClaimsValidationConfig =
  jc_issuer :: "string option"
  jc_audience :: "string option"
  jc_now_epoch_seconds :: u64
  jc_leeway_seconds :: u64

datatype JwtVerificationKey = Hs256 string | Rs256 string string | Es256P256 string

datatype JwtValidationError =
    InvalidFormat | InvalidBase64 | InvalidJson | UnsupportedAlgorithm string | InvalidSignature
  | Expired | NotYetValid | IssuerMismatch | AudienceMismatch

record ValidatedJwt =
  vj_subject :: "string option"
  vj_email :: "string option"
  vj_email_verified :: "bool option"
  vj_provider :: "string option"
  vj_actor_type :: "string option"
  vj_issuer :: "string option"
  vj_audience :: "string list"
  vj_expires_at_epoch_seconds :: "u64 option"
  vj_not_before_epoch_seconds :: "u64 option"
  vj_session_id :: "string option"

record JwtHeader =
  jh_alg :: string
  jh_kid :: "string option"

type_synonym JwtHeaderView = JwtHeader

record OidcDiscoveryDocument =
  od_issuer :: string
  od_jwks_uri :: string

record Jwk =
  jwk_kid :: "string option"
  jwk_kty :: string
  jwk_alg :: "string option"
  jwk_k :: "string option"
  jwk_n :: "string option"
  jwk_e :: "string option"
  jwk_crv :: "string option"
  jwk_x :: "string option"
  jwk_y :: "string option"

record JwksDocument =
  jd_keys :: "Jwk list"

datatype OidcContractError =
    OidcInvalidJson | MissingIssuer | MissingJwksUri | MissingKeys | OidcNoMatchingKey
  | UnsupportedKeyType string | UnsupportedJwtAlgorithm string | MissingSymmetricKeyMaterial
  | MissingRsaKeyMaterial | MissingEcKeyMaterial | InvalidKeyEncoding | InvalidSymmetricKeyMaterial
  | InvalidRsaKeyMaterial | InvalidEcKeyMaterial | UnsupportedEllipticCurve string

text \<open>
  The crates: \<open>URL_SAFE_NO_PAD.decode\<close>, the serde decoders of the header, of a JSON value and of
  the two provider documents, HMAC-SHA256 verification, RSA PKCS1 and ECDSA P-256 verification,
  and SHA-256.
\<close>

record AuthLib =
  b64_decode :: "string \<Rightarrow> string option"
  header_from_slice :: "string \<Rightarrow> JwtHeader option"
  value_from_slice :: "string \<Rightarrow> json option"
  discovery_from_str :: "string \<Rightarrow> OidcDiscoveryDocument option"
  jwks_from_str :: "string \<Rightarrow> JwksDocument option"
  hmac_sha256_verify :: "string \<Rightarrow> string \<Rightarrow> string \<Rightarrow> bool"
  rsa_verify :: "string \<Rightarrow> string \<Rightarrow> string \<Rightarrow> string \<Rightarrow> bool"
  ecdsa_verify :: "string \<Rightarrow> string \<Rightarrow> string \<Rightarrow> bool"
  sha256_digest :: "string \<Rightarrow> string"

section \<open>Keys\<close>

definition decode_key_component :: "AuthLib \<Rightarrow> string \<Rightarrow> OidcContractError + string" where
  "decode_key_component lib encoded = ok_or (b64_decode lib encoded) InvalidKeyEncoding"

definition build_hs256_key :: "AuthLib \<Rightarrow> Jwk \<Rightarrow> OidcContractError + JwtVerificationKey" where
  "build_hs256_key lib key =
     (if jwk_kty key \<noteq> ''oct'' then Inl (UnsupportedKeyType (jwk_kty key))
      else case jwk_k key of
        None \<Rightarrow> Inl MissingSymmetricKeyMaterial
      | Some encoded \<Rightarrow>
         (case b64_decode lib encoded of
            None \<Rightarrow> Inl InvalidKeyEncoding
          | Some bytes \<Rightarrow> Inr (Hs256 bytes)))"

definition build_rs256_key :: "AuthLib \<Rightarrow> Jwk \<Rightarrow> OidcContractError + JwtVerificationKey" where
  "build_rs256_key lib key =
     (if jwk_kty key \<noteq> ''RSA'' then Inl (UnsupportedKeyType (jwk_kty key))
      else case case_sum Inl (decode_key_component lib) (ok_or (jwk_n key) MissingRsaKeyMaterial) of
        Inl e \<Rightarrow> Inl e
      | Inr modulus \<Rightarrow>
         (case case_sum Inl (decode_key_component lib) (ok_or (jwk_e key) MissingRsaKeyMaterial) of
            Inl e \<Rightarrow> Inl e
          | Inr exponent \<Rightarrow>
              if modulus = [] \<or> exponent = [] then Inl InvalidRsaKeyMaterial
              else Inr (Rs256 modulus exponent)))"

definition build_es256_key :: "AuthLib \<Rightarrow> Jwk \<Rightarrow> OidcContractError + JwtVerificationKey" where
  "build_es256_key lib key =
     (if jwk_kty key \<noteq> ''EC'' then Inl (UnsupportedKeyType (jwk_kty key))
      else case jwk_crv key of
        None \<Rightarrow> Inl MissingEcKeyMaterial
      | Some curve \<Rightarrow>
          if curve \<noteq> ''P-256'' then Inl (UnsupportedEllipticCurve curve)
          else case case_sum Inl (decode_key_component lib) (ok_or (jwk_x key) MissingEcKeyMaterial) of
            Inl e \<Rightarrow> Inl e
          | Inr x \<Rightarrow>
             (case case_sum Inl (decode_key_component lib) (ok_or (jwk_y key) MissingEcKeyMaterial) of
                Inl e \<Rightarrow> Inl e
              | Inr y \<Rightarrow>
                  if length x \<noteq> 32 \<or> length y \<noteq> 32 then Inl InvalidEcKeyMaterial
                  else Inr (Es256P256 (CHR 0x04 # x @ y))))"

definition build_jwt_verification_key :: "AuthLib \<Rightarrow> Jwk \<Rightarrow> string \<Rightarrow> OidcContractError + JwtVerificationKey" where
  "build_jwt_verification_key lib key alg =
     (if alg = ''HS256'' then build_hs256_key lib key
      else if alg = ''RS256'' then build_rs256_key lib key
      else if alg = ''ES256'' then build_es256_key lib key
      else Inl (UnsupportedJwtAlgorithm alg))"

definition extract_hs256_shared_secret :: "AuthLib \<Rightarrow> Jwk \<Rightarrow> OidcContractError + string" where
  "extract_hs256_shared_secret lib key =
     (case build_hs256_key lib key of
        Inl e \<Rightarrow> Inl e
      | Inr (Hs256 bytes) \<Rightarrow> if valid_utf8 bytes then Inr bytes else Inl InvalidSymmetricKeyMaterial
      | Inr _ \<Rightarrow> Inl InvalidSymmetricKeyMaterial)"

section \<open>Tokens\<close>

record ParsedJwt =
  pj_header :: JwtHeader
  pj_claims :: json
  pj_signing_input :: string
  pj_signature :: string

definition parse_jwt :: "AuthLib \<Rightarrow> string \<Rightarrow> JwtValidationError + ParsedJwt" where
  "parse_jwt lib token =
     (case split_on (CHR ''.'') token of
        [h, p, s] \<Rightarrow>
         (case b64_decode lib h of None \<Rightarrow> Inl InvalidBase64 | Some header_bytes \<Rightarrow>
         (case b64_decode lib p of None \<Rightarrow> Inl InvalidBase64 | Some payload_bytes \<Rightarrow>
         (case b64_decode lib s of None \<Rightarrow> Inl InvalidBase64 | Some signature \<Rightarrow>
         (case header_from_slice lib header_bytes of None \<Rightarrow> Inl InvalidJson | Some header \<Rightarrow>
         (case value_from_slice lib payload_bytes of None \<Rightarrow> Inl InvalidJson | Some claims \<Rightarrow>
            Inr \<lparr>pj_header = header, pj_claims = claims, pj_signing_input = h @ ''.'' @ p, pj_signature = signature\<rparr>)))))
      | _ \<Rightarrow> Inl InvalidFormat)"

definition inspect_jwt_header :: "AuthLib \<Rightarrow> string \<Rightarrow> JwtValidationError + JwtHeaderView" where
  "inspect_jwt_header lib token =
     (case split_on (CHR ''.'') token of
        [h, p, s] \<Rightarrow>
         (case b64_decode lib h of None \<Rightarrow> Inl InvalidBase64 | Some header_bytes \<Rightarrow>
         (case header_from_slice lib header_bytes of None \<Rightarrow> Inl InvalidJson | Some header \<Rightarrow> Inr header))
      | _ \<Rightarrow> Inl InvalidFormat)"

fun key_supports_algorithm :: "JwtVerificationKey \<Rightarrow> string \<Rightarrow> bool" where
  "key_supports_algorithm (Hs256 _) alg = (alg = ''HS256'')"
| "key_supports_algorithm (Rs256 _ _) alg = (alg = ''RS256'')"
| "key_supports_algorithm (Es256P256 _) alg = (alg = ''ES256'')"

definition verify_signature ::
  "AuthLib \<Rightarrow> JwtVerificationKey \<Rightarrow> string \<Rightarrow> string \<Rightarrow> string \<Rightarrow> JwtValidationError + unit" where
  "verify_signature lib verification_key alg signing_input signature =
     (case verification_key of
        Hs256 secret \<Rightarrow>
          if alg = ''HS256'' then (if hmac_sha256_verify lib secret signing_input signature then Inr () else Inl InvalidSignature)
          else Inl (UnsupportedAlgorithm alg)
      | Rs256 modulus exponent \<Rightarrow>
          if alg = ''RS256'' then (if rsa_verify lib modulus exponent signing_input signature then Inr () else Inl InvalidSignature)
          else Inl (UnsupportedAlgorithm alg)
      | Es256P256 public_key \<Rightarrow>
          if alg = ''ES256'' then (if ecdsa_verify lib public_key signing_input signature then Inr () else Inl InvalidSignature)
          else Inl (UnsupportedAlgorithm alg))"

definition claim_str :: "json \<Rightarrow> string \<Rightarrow> string option" where
  "claim_str claims name = Option.bind (json_get claims name) as_str"

definition extract_audiences :: "json \<Rightarrow> string list" where
  "extract_audiences claims =
     (case json_get claims ''aud'' of
        Some (JString aud) \<Rightarrow> [aud]
      | Some (JArray values) \<Rightarrow> List.map_filter as_str values
      | _ \<Rightarrow> [])"

definition validate_claims :: "json \<Rightarrow> JwtClaimsValidationConfig \<Rightarrow> JwtValidationError + ValidatedJwt" where
  "validate_claims claims config =
     (let exp = Option.bind (json_get claims ''exp'') as_u64;
          nbf = Option.bind (json_get claims ''nbf'') as_u64;
          iss = claim_str claims ''iss'';
          aud = extract_audiences claims in
      if is_some_and exp (\<lambda>exp. exp < saturating_sub (jc_now_epoch_seconds config) (jc_leeway_seconds config)) then Inl Expired
      else if is_some_and nbf (\<lambda>nbf. nbf > saturating_add (jc_now_epoch_seconds config) (jc_leeway_seconds config)) then Inl NotYetValid
      else if is_some_and (jc_issuer config) (\<lambda>expected_issuer. iss \<noteq> Some expected_issuer) then Inl IssuerMismatch
      else if is_some_and (jc_audience config) (\<lambda>expected_audience. \<not> list_ex (\<lambda>entry. entry = expected_audience) aud) then Inl AudienceMismatch
      else Inr \<lparr>vj_subject = claim_str claims ''sub'', vj_email = claim_str claims ''email'',
        vj_email_verified = Option.bind (json_get claims ''email_verified'') as_bool,
        vj_provider = claim_str claims ''provider'', vj_actor_type = claim_str claims ''actor_type'',
        vj_issuer = iss, vj_audience = aud, vj_expires_at_epoch_seconds = exp, vj_not_before_epoch_seconds = nbf,
        vj_session_id = claim_str claims ''sid''\<rparr>)"

definition validate_jwt_with_verification_key ::
  "AuthLib \<Rightarrow> string \<Rightarrow> JwtVerificationKey \<Rightarrow> JwtClaimsValidationConfig \<Rightarrow> JwtValidationError + ValidatedJwt" where
  "validate_jwt_with_verification_key lib token verification_key config =
     (case parse_jwt lib token of
        Inl e \<Rightarrow> Inl e
      | Inr parsed \<Rightarrow>
          if \<not> key_supports_algorithm verification_key (jh_alg (pj_header parsed))
          then Inl (UnsupportedAlgorithm (jh_alg (pj_header parsed)))
          else case verify_signature lib verification_key (jh_alg (pj_header parsed)) (pj_signing_input parsed) (pj_signature parsed) of
            Inl e \<Rightarrow> Inl e
          | Inr _ \<Rightarrow> validate_claims (pj_claims parsed) config)"

definition validate_jwt_locally :: "AuthLib \<Rightarrow> string \<Rightarrow> JwtValidationConfig \<Rightarrow> JwtValidationError + ValidatedJwt" where
  "validate_jwt_locally lib token config =
     (let claims_config = \<lparr>jc_issuer = jv_issuer config, jc_audience = jv_audience config,
            jc_now_epoch_seconds = jv_now_epoch_seconds config, jc_leeway_seconds = jv_leeway_seconds config\<rparr>;
          key = Hs256 (jv_shared_secret config) in
      validate_jwt_with_verification_key lib token key claims_config)"

section \<open>Provider documents\<close>

definition parse_oidc_discovery_json :: "AuthLib \<Rightarrow> string \<Rightarrow> OidcContractError + OidcDiscoveryDocument" where
  "parse_oidc_discovery_json lib json_text =
     (case discovery_from_str lib json_text of
        None \<Rightarrow> Inl OidcInvalidJson
      | Some doc \<Rightarrow>
          if blank (od_issuer doc) then Inl MissingIssuer
          else if blank (od_jwks_uri doc) then Inl MissingJwksUri
          else Inr doc)"

definition parse_jwks_json :: "AuthLib \<Rightarrow> string \<Rightarrow> OidcContractError + JwksDocument" where
  "parse_jwks_json lib json_text =
     (case jwks_from_str lib json_text of
        None \<Rightarrow> Inl OidcInvalidJson
      | Some doc \<Rightarrow> if jd_keys doc = [] then Inl MissingKeys else Inr doc)"

definition select_jwk_for_token :: "JwksDocument \<Rightarrow> string option \<Rightarrow> string \<Rightarrow> OidcContractError + Jwk" where
  "select_jwk_for_token jwks kid alg =
     (case kid of
        Some kid \<Rightarrow>
          ok_or (find (\<lambda>key. jwk_kid key = Some kid \<and> is_none_or (jwk_alg key) (\<lambda>key_alg. key_alg = alg)) (jd_keys jwks))
            OidcNoMatchingKey
      | None \<Rightarrow>
          ok_or (find (\<lambda>key. is_none_or (jwk_alg key) (\<lambda>key_alg. key_alg = alg)) (jd_keys jwks)) OidcNoMatchingKey)"

section \<open>The JWKS cache\<close>

datatype JwksCacheError =
    Discovery OidcContractError | Http string | Validation JwtValidationError
  | NoMatchingKey | NotInitialized | Hs256NotAllowed | AudienceRequired

record JwksCacheConfig =
  kc_discovery_url :: string
  kc_refresh_interval :: nat
  kc_http_timeout :: nat
  kc_issuer :: "string option"
  kc_audience :: "string option"
  kc_leeway_seconds :: u64
  kc_allow_hs256 :: bool

definition JwksCacheConfig_new :: "string \<Rightarrow> JwksCacheConfig" where
  "JwksCacheConfig_new discovery_url =
     \<lparr>kc_discovery_url = discovery_url, kc_refresh_interval = 3600000, kc_http_timeout = 10000, kc_issuer = None,
      kc_audience = None, kc_leeway_seconds = 60, kc_allow_hs256 = False\<rparr>"

definition with_audience :: "string \<Rightarrow> JwksCacheConfig \<Rightarrow> JwksCacheConfig" where
  "with_audience audience config = config\<lparr>kc_audience := Some audience\<rparr>"

definition with_issuer :: "string \<Rightarrow> JwksCacheConfig \<Rightarrow> JwksCacheConfig" where
  "with_issuer issuer config = config\<lparr>kc_issuer := Some issuer\<rparr>"

definition allow_hs256 :: "bool \<Rightarrow> JwksCacheConfig \<Rightarrow> JwksCacheConfig" where
  "allow_hs256 allow config = config\<lparr>kc_allow_hs256 := allow\<rparr>"

text \<open>
  Durations and instants are milliseconds. The network and the clocks answer by tick; a tick is
  one call of either.
\<close>

record AuthNet =
  http_get :: "nat \<Rightarrow> string \<Rightarrow> string + (nat \<times> string \<times> (string + string))"
  instant_now :: "nat \<Rightarrow> nat"
  unix_seconds :: "nat \<Rightarrow> u64"

record JwksCacheInner =
  ki_jwks :: "JwksDocument option"
  ki_last_refresh :: "nat option"

record JwksCache =
  kc_inner :: JwksCacheInner
  kc_config :: JwksCacheConfig
  kc_tick :: nat

definition JwksCache_new :: "JwksCacheConfig \<Rightarrow> nat \<Rightarrow> JwksCache" where
  "JwksCache_new config tick =
     \<lparr>kc_inner = \<lparr>ki_jwks = None, ki_last_refresh = None\<rparr>, kc_config = config, kc_tick = tick\<rparr>"

definition tick_on :: "JwksCache \<Rightarrow> JwksCache" where
  "tick_on cache = cache\<lparr>kc_tick := Suc (kc_tick cache)\<rparr>"

text \<open>A response is a status, its display form, and the body or the error of reading it.\<close>

definition fetch_json :: "AuthNet \<Rightarrow> nat \<Rightarrow> string \<Rightarrow> JwksCacheError + string" where
  "fetch_json net tick url =
     (case http_get net tick url of
        Inl err \<Rightarrow> Inl (Http err)
      | Inr (status, shown, text) \<Rightarrow>
          if \<not> (200 \<le> status \<and> status < 300) then Inl (Http (''HTTP '' @ shown @ '' from '' @ url))
          else case text of Inl err \<Rightarrow> Inl (Http err) | Inr body \<Rightarrow> Inr body)"

definition refresh :: "AuthLib \<Rightarrow> AuthNet \<Rightarrow> JwksCache \<Rightarrow> (JwksCacheError + unit) \<times> JwksCache" where
  "refresh lib net cache =
     (case fetch_json net (kc_tick cache) (kc_discovery_url (kc_config cache)) of
        Inl e \<Rightarrow> (Inl e, tick_on cache)
      | Inr discovery_json \<Rightarrow>
         (case parse_oidc_discovery_json lib discovery_json of
            Inl e \<Rightarrow> (Inl (Discovery e), tick_on cache)
          | Inr discovery \<Rightarrow>
             (let cache = tick_on cache in
              case fetch_json net (kc_tick cache) (od_jwks_uri discovery) of
                Inl e \<Rightarrow> (Inl e, tick_on cache)
              | Inr jwks_json \<Rightarrow>
                 (case parse_jwks_json lib jwks_json of
                    Inl e \<Rightarrow> (Inl (Discovery e), tick_on cache)
                  | Inr jwks \<Rightarrow>
                     (let cache = tick_on cache in
                      (Inr (), tick_on (cache\<lparr>kc_inner := \<lparr>ki_jwks = Some jwks,
                         ki_last_refresh = Some (instant_now net (kc_tick cache))\<rparr>\<rparr>)))))))"

definition maybe_refresh :: "AuthLib \<Rightarrow> AuthNet \<Rightarrow> JwksCache \<Rightarrow> (JwksCacheError + unit) \<times> JwksCache" where
  "maybe_refresh lib net cache =
     (case ki_last_refresh (kc_inner cache) of
        Some refreshed \<Rightarrow>
          if kc_refresh_interval (kc_config cache) \<le> instant_now net (kc_tick cache) - refreshed
          then refresh lib net (tick_on cache) else (Inr (), tick_on cache)
      | None \<Rightarrow> refresh lib net cache)"

definition try_validate ::
  "AuthLib \<Rightarrow> AuthNet \<Rightarrow> JwksCache \<Rightarrow> string \<Rightarrow> JwtHeaderView \<Rightarrow> JwksCacheError + ValidatedJwt" where
  "try_validate lib net cache token header =
     (let config = kc_config cache in
      if eq_ignore_ascii_case (jh_alg header) ''HS256'' \<and> \<not> kc_allow_hs256 config then Inl Hs256NotAllowed
      else if is_none_or (kc_audience config) blank then Inl AudienceRequired
      else case ki_jwks (kc_inner cache) of
        None \<Rightarrow> Inl NotInitialized
      | Some jwks \<Rightarrow>
         (case select_jwk_for_token jwks (jh_kid header) (jh_alg header) of
            Inl _ \<Rightarrow> Inl NoMatchingKey
          | Inr jwk \<Rightarrow>
             (case build_jwt_verification_key lib jwk (jh_alg header) of
                Inl e \<Rightarrow> Inl (Discovery e)
              | Inr verification_key \<Rightarrow>
                 (case validate_jwt_with_verification_key lib token verification_key
                         \<lparr>jc_issuer = kc_issuer config, jc_audience = kc_audience config,
                          jc_now_epoch_seconds = unix_seconds net (kc_tick cache), jc_leeway_seconds = kc_leeway_seconds config\<rparr> of
                    Inl e \<Rightarrow> Inl (Validation e)
                  | Inr jwt \<Rightarrow> Inr jwt))))"

definition validate_token ::
  "AuthLib \<Rightarrow> AuthNet \<Rightarrow> JwksCache \<Rightarrow> string \<Rightarrow> (JwksCacheError + ValidatedJwt) \<times> JwksCache" where
  "validate_token lib net cache token =
     (case maybe_refresh lib net cache of
        (Inl e, cache) \<Rightarrow> (Inl e, cache)
      | (Inr _, cache) \<Rightarrow>
         (case inspect_jwt_header lib token of
            Inl e \<Rightarrow> (Inl (Validation e), cache)
          | Inr header \<Rightarrow>
             (case try_validate lib net cache token header of
                Inr jwt \<Rightarrow> (Inr jwt, tick_on cache)
              | Inl e \<Rightarrow>
                  if e \<noteq> NoMatchingKey then (Inl e, tick_on cache)
                  else case refresh lib net (tick_on cache) of
                    (Inl e, cache) \<Rightarrow> (Inl e, cache)
                  | (Inr _, cache) \<Rightarrow> (try_validate lib net cache token header, tick_on cache))))"

section \<open>Splitting a token\<close>

lemma split_on_one: "split_on sep s = [a] \<longleftrightarrow> s = a \<and> sep \<notin> set a"
proof (induction s arbitrary: a)
  case (Cons c s)
  show ?case
  proof (cases "c = sep")
    case False
    have "split_on sep (c # s) = [a] \<longleftrightarrow> (\<exists>a'. a = c # a' \<and> split_on sep s = [a'])"
      using False by (cases "split_on sep s") auto
    also have "\<dots> \<longleftrightarrow> (\<exists>a'. a = c # a' \<and> s = a' \<and> sep \<notin> set a')" unfolding Cons.IH ..
    finally show ?thesis using False by (auto simp del: split_on.simps)
  qed auto
qed auto

lemma split_on_more:
  "split_on sep s = a # b # r \<longleftrightarrow> (\<exists>t. s = a @ sep # t \<and> sep \<notin> set a \<and> split_on sep t = b # r)"
proof (induction s arbitrary: a)
  case Nil
  then show ?case by simp
next
  case (Cons c s)
  show ?case
  proof (cases "c = sep")
    case True
    then show ?thesis by (auto simp: Cons_eq_append_conv)
  next
    case False
    have "split_on sep (c # s) = a # b # r \<longleftrightarrow> (\<exists>a'. a = c # a' \<and> split_on sep s = a' # b # r)"
      using False by (cases "split_on sep s") auto
    then show ?thesis using Cons False by (auto simp: Cons_eq_append_conv)
  qed
qed

definition three_parts :: "string \<Rightarrow> string \<Rightarrow> string \<Rightarrow> string \<Rightarrow> bool" where
  "three_parts token h p s \<longleftrightarrow>
     token = h @ ''.'' @ p @ ''.'' @ s \<and> CHR ''.'' \<notin> set h \<and> CHR ''.'' \<notin> set p \<and> CHR ''.'' \<notin> set s"

lemma split_token: "split_on (CHR ''.'') token = [h, p, s] \<longleftrightarrow> three_parts token h p s"
  unfolding three_parts_def split_on_more split_on_one by auto

section \<open>What an accepted token has\<close>

fun signed_by :: "AuthLib \<Rightarrow> JwtVerificationKey \<Rightarrow> string \<Rightarrow> string \<Rightarrow> bool" where
  "signed_by lib (Hs256 secret) m sig = hmac_sha256_verify lib secret m sig"
| "signed_by lib (Rs256 n e) m sig = rsa_verify lib n e m sig"
| "signed_by lib (Es256P256 k) m sig = ecdsa_verify lib k m sig"

lemma verify_signature_ok:
  "verify_signature lib key alg m sig = Inr () \<longleftrightarrow> key_supports_algorithm key alg \<and> signed_by lib key m sig"
  by (cases key) (auto simp: verify_signature_def)

text \<open>The claims hold at a time within the leeway: the comparisons of the code without saturation.\<close>

definition claims_hold :: "json \<Rightarrow> JwtClaimsValidationConfig \<Rightarrow> bool" where
  "claims_hold claims config \<longleftrightarrow>
     (\<forall>e. Option.bind (json_get claims ''exp'') as_u64 = Some e \<longrightarrow>
        unat (jc_now_epoch_seconds config) \<le> unat e + unat (jc_leeway_seconds config))
     \<and> (\<forall>n. Option.bind (json_get claims ''nbf'') as_u64 = Some n \<longrightarrow>
        unat n \<le> unat (jc_now_epoch_seconds config) + unat (jc_leeway_seconds config))
     \<and> (\<forall>i. jc_issuer config = Some i \<longrightarrow> claim_str claims ''iss'' = Some i)
     \<and> (\<forall>a. jc_audience config = Some a \<longrightarrow> a \<in> set (extract_audiences claims))"

definition jwt_of :: "json \<Rightarrow> ValidatedJwt" where
  "jwt_of claims = \<lparr>vj_subject = claim_str claims ''sub'', vj_email = claim_str claims ''email'',
     vj_email_verified = Option.bind (json_get claims ''email_verified'') as_bool,
     vj_provider = claim_str claims ''provider'', vj_actor_type = claim_str claims ''actor_type'',
     vj_issuer = claim_str claims ''iss'', vj_audience = extract_audiences claims,
     vj_expires_at_epoch_seconds = Option.bind (json_get claims ''exp'') as_u64,
     vj_not_before_epoch_seconds = Option.bind (json_get claims ''nbf'') as_u64,
     vj_session_id = claim_str claims ''sid''\<rparr>"

lemma before_threshold: "(e :: u64) < saturating_sub now l \<longleftrightarrow> unat e + unat l < unat now"
  by (auto simp: word_less_nat_alt unat_saturating_sub)

lemma after_threshold: "(n :: u64) > saturating_add now l \<longleftrightarrow> unat now + unat l < unat n"
proof -
  have "unat n < 2 ^ 64" using unsigned_less [of n] by simp
  then show ?thesis by (auto simp: word_less_nat_alt unat_saturating_add)
qed

lemma validate_claims_ok:
  "validate_claims claims config = Inr jwt \<longleftrightarrow> claims_hold claims config \<and> jwt = jwt_of claims"
proof -
  have ex: "list_ex (\<lambda>entry. entry = a) as \<longleftrightarrow> a \<in> set as" for a and as :: "string list" by (auto simp: list_ex_iff)
  show ?thesis
    unfolding validate_claims_def claims_hold_def jwt_of_def Let_def before_threshold after_threshold is_some_and_iff ex
    by (auto simp: not_less)
qed

lemma parse_jwt_ok:
  "parse_jwt lib token = Inr pj \<longleftrightarrow>
     (\<exists>h p s. three_parts token h p s
        \<and> Option.bind (b64_decode lib h) (header_from_slice lib) = Some (pj_header pj)
        \<and> Option.bind (b64_decode lib p) (value_from_slice lib) = Some (pj_claims pj)
        \<and> b64_decode lib s = Some (pj_signature pj) \<and> pj_signing_input pj = h @ ''.'' @ p)"
  (is "?l \<longleftrightarrow> ?r")
proof
  assume ?l
  then obtain h p s where "split_on (CHR ''.'') token = [h, p, s]"
    by (auto simp: parse_jwt_def split: list.splits)
  with \<open>?l\<close> show ?r
    by (intro exI [of _ h] exI [of _ p] exI [of _ s])
      (auto simp: parse_jwt_def split_token [symmetric] split: option.splits)
next
  assume ?r
  then show ?l by (cases pj) (auto simp: parse_jwt_def split_token [symmetric] bind_eq_Some_conv)
qed

lemma inspect_jwt_header_ok:
  "inspect_jwt_header lib token = Inr hdr \<longleftrightarrow>
     (\<exists>h p s. three_parts token h p s \<and> Option.bind (b64_decode lib h) (header_from_slice lib) = Some hdr)"
  (is "?l \<longleftrightarrow> ?r")
proof
  assume ?l
  then obtain h p s where "split_on (CHR ''.'') token = [h, p, s]"
    by (auto simp: inspect_jwt_header_def split: list.splits)
  with \<open>?l\<close> show ?r
    by (intro exI [of _ h] exI [of _ p] exI [of _ s])
      (auto simp: inspect_jwt_header_def split_token [symmetric] split: option.splits)
qed (auto simp: inspect_jwt_header_def split_token [symmetric] bind_eq_Some_conv)

lemma three_parts_unique: "three_parts t h p s \<Longrightarrow> three_parts t h' p' s' \<Longrightarrow> h = h' \<and> p = p' \<and> s = s'"
  unfolding split_token [symmetric] by simp

lemma inspect_agrees_with_parse:
  "inspect_jwt_header lib token = Inr hdr \<Longrightarrow> parse_jwt lib token = Inr pj \<Longrightarrow> pj_header pj = hdr"
  unfolding inspect_jwt_header_ok parse_jwt_ok using three_parts_unique by fastforce

lemma build_key_supports: "build_jwt_verification_key lib key alg = Inr k \<Longrightarrow> key_supports_algorithm k alg"
  by (auto simp: build_jwt_verification_key_def build_hs256_key_def build_rs256_key_def build_es256_key_def
      split: if_splits option.splits)

lemma select_jwk_member:
  "select_jwk_for_token jwks kid alg = Inr jwk \<Longrightarrow>
     jwk \<in> set (jd_keys jwks) \<and> is_none_or kid (\<lambda>k. jwk_kid jwk = Some k) \<and> is_none_or (jwk_alg jwk) (\<lambda>a. a = alg)"
  by (auto simp: select_jwk_for_token_def ok_or_def find_Some_iff in_set_conv_nth split: option.splits)

text \<open>The whole evidence behind an accepted token, shared by every caller that accepts one.\<close>

definition token_verified :: "AuthLib \<Rightarrow> string \<Rightarrow> JwtVerificationKey \<Rightarrow> JwtClaimsValidationConfig \<Rightarrow> ValidatedJwt \<Rightarrow> bool" where
  "token_verified lib token key config jwt \<longleftrightarrow>
     (\<exists>h p s header claims sig. three_parts token h p s
        \<and> Option.bind (b64_decode lib h) (header_from_slice lib) = Some header
        \<and> Option.bind (b64_decode lib p) (value_from_slice lib) = Some claims
        \<and> b64_decode lib s = Some sig
        \<and> key_supports_algorithm key (jh_alg header) \<and> signed_by lib key (h @ ''.'' @ p) sig
        \<and> claims_hold claims config \<and> jwt = jwt_of claims)"

lemma validate_jwt_ok:
  "validate_jwt_with_verification_key lib token key config = Inr jwt \<longleftrightarrow> token_verified lib token key config jwt"
proof -
  have "validate_jwt_with_verification_key lib token key config = Inr jwt \<longleftrightarrow>
      (\<exists>pj. parse_jwt lib token = Inr pj \<and> key_supports_algorithm key (jh_alg (pj_header pj))
         \<and> signed_by lib key (pj_signing_input pj) (pj_signature pj) \<and> claims_hold (pj_claims pj) config \<and> jwt = jwt_of (pj_claims pj))"
    by (auto simp: validate_jwt_with_verification_key_def verify_signature_ok validate_claims_ok split: sum.splits)
  also have "\<dots> \<longleftrightarrow> token_verified lib token key config jwt" (is "?l \<longleftrightarrow> ?r")
  proof
    assume ?l
    then show ?r unfolding parse_jwt_ok token_verified_def by metis
  next
    assume ?r
    then obtain h p s header claims sig where *: "three_parts token h p s"
      "Option.bind (b64_decode lib h) (header_from_slice lib) = Some header"
      "Option.bind (b64_decode lib p) (value_from_slice lib) = Some claims" "b64_decode lib s = Some sig"
      "key_supports_algorithm key (jh_alg header)" "signed_by lib key (h @ ''.'' @ p) sig"
      "claims_hold claims config" "jwt = jwt_of claims" unfolding token_verified_def by blast
    let ?pj = "\<lparr>pj_header = header, pj_claims = claims, pj_signing_input = h @ ''.'' @ p, pj_signature = sig\<rparr>"
    have "parse_jwt lib token = Inr ?pj" unfolding parse_jwt_ok using *(1-4) by auto
    with *(5-8) show ?l by (intro exI [of _ ?pj]) simp
  qed
  finally show ?thesis .
qed

section \<open>The cache\<close>

text \<open>Once refreshed, the cache has keys.\<close>

definition cache_inv :: "JwksCache \<Rightarrow> bool" where
  "cache_inv cache \<longleftrightarrow>
     (ki_last_refresh (kc_inner cache) \<noteq> None \<longrightarrow> ki_jwks (kc_inner cache) \<noteq> None)
     \<and> (\<forall>jwks. ki_jwks (kc_inner cache) = Some jwks \<longrightarrow> jd_keys jwks \<noteq> [])"

text \<open>
  A step from \<open>cache\<close> to \<open>cache'\<close> keeps the configuration and either leaves the keys alone or
  replaces them by keys fetched in it.
\<close>

definition fetched :: "AuthNet \<Rightarrow> nat \<Rightarrow> JwksCache \<Rightarrow> bool" where
  "fetched net since cache \<longleftrightarrow>
     (\<exists>jwks t. kc_inner cache = \<lparr>ki_jwks = Some jwks, ki_last_refresh = Some (instant_now net t)\<rparr>
        \<and> jd_keys jwks \<noteq> [] \<and> since \<le> t \<and> t < kc_tick cache)"

lemma tick_on_simps [simp]:
  "kc_inner (tick_on c) = kc_inner c" "kc_config (tick_on c) = kc_config c" "kc_tick (tick_on c) = Suc (kc_tick c)"
  "cache_inv (tick_on c) = cache_inv c"
  by (simp_all add: tick_on_def cache_inv_def)

lemma refresh_spec:
  assumes "refresh lib net c = (r, c')"
  shows "kc_config c' = kc_config c \<and> kc_tick c < kc_tick c' \<and> kc_tick c' \<le> kc_tick c + 3
    \<and> (case r of Inl _ \<Rightarrow> kc_inner c' = kc_inner c | Inr _ \<Rightarrow> fetched net (kc_tick c) c')"
  using assms
  by (auto simp: refresh_def fetched_def parse_jwks_json_def Let_def
      intro!: exI [of _ "Suc (Suc (kc_tick c))"] split: sum.splits option.splits if_splits prod.splits)

lemma maybe_refresh_spec:
  assumes "maybe_refresh lib net c = (r, c')"
  shows "kc_config c' = kc_config c \<and> kc_tick c < kc_tick c' \<and> kc_tick c' \<le> kc_tick c + 4
    \<and> (kc_inner c' = kc_inner c \<or> fetched net (kc_tick c) c')
    \<and> (r = Inr () \<longrightarrow> ki_last_refresh (kc_inner c') \<noteq> None)"
proof (cases "ki_last_refresh (kc_inner c)")
  case None
  with assms have "refresh lib net c = (r, c')" by (simp add: maybe_refresh_def)
  from refresh_spec [OF this] show ?thesis by (auto simp: fetched_def split: sum.splits)
next
  case (Some l)
  show ?thesis
  proof (cases "kc_refresh_interval (kc_config c) \<le> instant_now net (kc_tick c) - l")
    case True
    with assms Some have "refresh lib net (tick_on c) = (r, c')" by (simp add: maybe_refresh_def)
    from refresh_spec [OF this] show ?thesis using Some by (auto simp: fetched_def split: sum.splits)
  next
    case False
    with assms Some show ?thesis by (auto simp: maybe_refresh_def)
  qed
qed

lemma fetched_inv: "fetched net n c \<Longrightarrow> cache_inv c"
  by (auto simp: fetched_def cache_inv_def)

lemma cache_inv_inner: "kc_inner c' = kc_inner c \<Longrightarrow> cache_inv c \<Longrightarrow> cache_inv c'"
  by (simp add: cache_inv_def)

lemma fetched_later: "fetched net n c \<Longrightarrow> m \<le> n \<Longrightarrow> fetched net m (tick_on c)"
  unfolding fetched_def by (metis le_trans less_SucI tick_on_simps(1,3))

lemma fetched_keys: "fetched net n c \<Longrightarrow> \<exists>jwks. ki_jwks (kc_inner c) = Some jwks"
  by (auto simp: fetched_def)

lemma fetch_json_error: "fetch_json net t url = Inl e \<Longrightarrow> \<exists>msg. e = Http msg"
  by (auto simp: fetch_json_def split: sum.splits if_splits)

lemma refresh_error: "refresh lib net c = (Inl e, c') \<Longrightarrow> e \<noteq> NoMatchingKey \<and> e \<noteq> NotInitialized"
  by (auto simp: refresh_def Let_def dest!: fetch_json_error split: sum.splits)

lemma maybe_refresh_error: "maybe_refresh lib net c = (Inl e, c') \<Longrightarrow> e \<noteq> NoMatchingKey \<and> e \<noteq> NotInitialized"
  by (auto simp: maybe_refresh_def dest: refresh_error split: option.splits if_splits)

lemma try_validate_initialized:
  "ki_jwks (kc_inner c) = Some jwks \<Longrightarrow> try_validate lib net c token header \<noteq> Inl NotInitialized"
  by (auto simp: try_validate_def Let_def split: sum.splits)

lemma try_validate_ok:
  assumes "try_validate lib net c token header = Inr jwt"
  obtains jwks jwk key aud where
    "ki_jwks (kc_inner c) = Some jwks" "select_jwk_for_token jwks (jh_kid header) (jh_alg header) = Inr jwk"
    "build_jwt_verification_key lib jwk (jh_alg header) = Inr key" "kc_audience (kc_config c) = Some aud" "\<not> blank aud"
    "eq_ignore_ascii_case (jh_alg header) ''HS256'' \<longrightarrow> kc_allow_hs256 (kc_config c)"
    "token_verified lib token key \<lparr>jc_issuer = kc_issuer (kc_config c), jc_audience = Some aud,
       jc_now_epoch_seconds = unix_seconds net (kc_tick c), jc_leeway_seconds = kc_leeway_seconds (kc_config c)\<rparr> jwt"
proof -
  obtain aud where aud: "kc_audience (kc_config c) = Some aud" "\<not> blank aud"
    using assms by (cases "kc_audience (kc_config c)") (auto simp: try_validate_def Let_def split: if_splits)
  have alg: "eq_ignore_ascii_case (jh_alg header) ''HS256'' \<longrightarrow> kc_allow_hs256 (kc_config c)"
    using assms by (auto simp: try_validate_def Let_def split: if_splits)
  then show ?thesis using assms aud that
    by (simp add: try_validate_def Let_def split: if_splits option.splits sum.splits) (metis validate_jwt_ok)
qed

definition hmac_key :: "JwtVerificationKey \<Rightarrow> bool" where
  "hmac_key key = (case key of Hs256 _ \<Rightarrow> True | _ \<Rightarrow> False)"

lemma validate_token_cases:
  assumes "validate_token lib net c token = (r, c')"
  obtains (refresh_failed) e where "r = Inl e" "maybe_refresh lib net c = (Inl e, c')"
  | (bad_header) e c1 where "maybe_refresh lib net c = (Inr (), c1)" "r = Inl (Validation e)" "c' = c1"
  | (cached) c1 header where "maybe_refresh lib net c = (Inr (), c1)" "inspect_jwt_header lib token = Inr header"
      "r = try_validate lib net c1 token header" "r \<noteq> Inl NoMatchingKey" "c' = tick_on c1"
  | (miss) c1 header e where "maybe_refresh lib net c = (Inr (), c1)" "inspect_jwt_header lib token = Inr header"
      "try_validate lib net c1 token header = Inl NoMatchingKey" "refresh lib net (tick_on c1) = (Inl e, c')" "r = Inl e"
  | (retried) c1 c2 header where "maybe_refresh lib net c = (Inr (), c1)" "inspect_jwt_header lib token = Inr header"
      "try_validate lib net c1 token header = Inl NoMatchingKey" "refresh lib net (tick_on c1) = (Inr (), c2)"
      "r = try_validate lib net c2 token header" "c' = tick_on c2"
proof -
  obtain r0 c1 where m: "maybe_refresh lib net c = (r0, c1)" by (cases "maybe_refresh lib net c")
  show ?thesis
  proof (cases r0)
    case (Inl e)
    then show ?thesis using assms m that(1) [of e] by (simp add: validate_token_def)
  next
    case (Inr u)
    then have m': "maybe_refresh lib net c = (Inr (), c1)" using m by simp
    show ?thesis
    proof (cases "inspect_jwt_header lib token")
      case (Inl e)
      then have "r = Inl (Validation e)" "c' = c1" using assms m' by (simp_all add: validate_token_def)
      then show ?thesis using m' by (intro that(2) [of c1 e])
    next
      case header: (Inr header)
      show ?thesis
      proof (cases "try_validate lib net c1 token header = Inl NoMatchingKey")
        case False
        then have "r = try_validate lib net c1 token header" "c' = tick_on c1"
          using assms m' header by (auto simp: validate_token_def split: sum.splits)
        then show ?thesis using that(3) m' header False by metis
      next
        case True
        obtain r2 c2 where r2: "refresh lib net (tick_on c1) = (r2, c2)" by (cases "refresh lib net (tick_on c1)")
        then show ?thesis using assms m' header True that(4,5) by (cases r2) (auto simp: validate_token_def)
      qed
    qed
  qed
qed

section \<open>Properties\<close>

text \<open>A provider with one RSA key, which verifies every signature, and its token.\<close>

definition demo_jwk :: Jwk where
  "demo_jwk = \<lparr>jwk_kid = Some ''k'', jwk_kty = ''RSA'', jwk_alg = None, jwk_k = None, jwk_n = Some ''n'', jwk_e = Some ''e'',
     jwk_crv = None, jwk_x = None, jwk_y = None\<rparr>"

definition demo_claims :: json where
  "demo_claims = json_object [(''iss'', JString ''http://idp''), (''aud'', JArray [JString ''app'']), (''sub'', JString ''u''),
     (''email'', JString ''u@x''), (''email_verified'', JBool True), (''exp'', JNumber (PosInt 100))]"

definition demo_lib :: AuthLib where
  "demo_lib = \<lparr>b64_decode = Some, header_from_slice = (\<lambda>_. Some \<lparr>jh_alg = ''RS256'', jh_kid = Some ''k''\<rparr>),
     value_from_slice = (\<lambda>_. Some demo_claims),
     discovery_from_str = (\<lambda>_. Some \<lparr>od_issuer = ''http://idp'', od_jwks_uri = ''http://idp/jwks''\<rparr>),
     jwks_from_str = (\<lambda>_. Some \<lparr>jd_keys = [demo_jwk]\<rparr>),
     hmac_sha256_verify = (\<lambda>_ _ _. False), rsa_verify = (\<lambda>_ _ _ _. True), ecdsa_verify = (\<lambda>_ _ _. False), sha256_digest = id\<rparr>"

definition demo_net :: AuthNet where
  "demo_net = \<lparr>http_get = (\<lambda>_ _. Inr (200, ''200 OK'', Inr ''{}'')), instant_now = id, unix_seconds = (\<lambda>_. 50)\<rparr>"

definition demo_cache :: JwksCache where
  "demo_cache = JwksCache_new (with_audience ''app'' (JwksCacheConfig_new ''http://idp'')) 0"

lemma demo_facts:
  "\<not> blank ''app''" "\<not> blank ''http://idp''" "\<not> blank ''http://idp/jwks''" "extract_audiences demo_claims = [''app'']"
  "Option.bind (json_get demo_claims ''exp'') as_u64 = Some 100" "Option.bind (json_get demo_claims ''nbf'') as_u64 = None"
  "claim_str demo_claims ''iss'' = Some ''http://idp''" "claim_str demo_claims ''sub'' = Some ''u''"
  "claim_str demo_claims ''email'' = Some ''u@x''" "\<not> eq_ignore_ascii_case ''RS256'' ''HS256''"
  "saturating_sub 50 60 = (0 :: u64)"
  by code_simp+

lemmas demo_eval = demo_facts validate_token_def maybe_refresh_def refresh_def fetch_json_def demo_lib_def demo_net_def demo_cache_def
  demo_jwk_def JwksCache_new_def with_audience_def JwksCacheConfig_new_def parse_oidc_discovery_json_def parse_jwks_json_def
  inspect_jwt_header_def try_validate_def select_jwk_for_token_def build_jwt_verification_key_def build_rs256_key_def
  decode_key_component_def validate_jwt_with_verification_key_def parse_jwt_def verify_signature_def validate_claims_def
  jwt_of_def tick_on_def Let_def

text \<open>
  C10. A token is accepted exactly when it is three dot-separated parts whose header names the
  algorithm of the given key, whose signature that key verifies over exactly the first two
  parts, and whose claims hold: not expired and not early beyond the leeway (the saturating
  comparisons agree with the unbounded ones), the configured issuer and audience. The result is
  read from the signed claims alone.
\<close>

theorem validate_jwt_exact:
  "validate_jwt_with_verification_key lib token key config = Inr jwt \<longleftrightarrow>
     (\<exists>h p s header claims sig. split_on (CHR ''.'') token = [h, p, s]
        \<and> Option.bind (b64_decode lib h) (header_from_slice lib) = Some header
        \<and> Option.bind (b64_decode lib p) (value_from_slice lib) = Some claims
        \<and> b64_decode lib s = Some sig
        \<and> key_supports_algorithm key (jh_alg header) \<and> signed_by lib key (h @ ''.'' @ p) sig
        \<and> claims_hold claims config \<and> jwt = jwt_of claims)"
  unfolding validate_jwt_ok token_verified_def split_token ..

text \<open>
  C24. A token the cache accepts was verified with a key of the key set the cache holds, the one
  the header's \<open>kid\<close> names where it names one, for a configured audience that the token carries,
  and with a shared-secret key only where that is allowed.
\<close>

theorem jwks_cache_accepts_only_verified:
  assumes "validate_token lib net cache token = (Inr jwt, cache')"
  shows "\<exists>header jwks jwk key aud now.
    inspect_jwt_header lib token = Inr header \<and> ki_jwks (kc_inner cache') = Some jwks \<and> jwk \<in> set (jd_keys jwks)
    \<and> is_none_or (jh_kid header) (\<lambda>kid. jwk_kid jwk = Some kid)
    \<and> build_jwt_verification_key lib jwk (jh_alg header) = Inr key
    \<and> kc_audience (kc_config cache) = Some aud \<and> \<not> blank aud \<and> aud \<in> set (vj_audience jwt)
    \<and> (hmac_key key \<longrightarrow> kc_allow_hs256 (kc_config cache))
    \<and> kc_tick cache \<le> now \<and> now < kc_tick cache'
    \<and> token_verified lib token key \<lparr>jc_issuer = kc_issuer (kc_config cache), jc_audience = Some aud,
        jc_now_epoch_seconds = unix_seconds net now, jc_leeway_seconds = kc_leeway_seconds (kc_config cache)\<rparr> jwt"
proof -
  obtain c1 header where *: "inspect_jwt_header lib token = Inr header" "try_validate lib net c1 token header = Inr jwt"
    "kc_inner cache' = kc_inner c1" "kc_config c1 = kc_config cache" "kc_tick cache \<le> kc_tick c1" "kc_tick c1 < kc_tick cache'"
    using assms
  proof (cases rule: validate_token_cases)
    case (cached c1 header)
    then show ?thesis using that [of header c1] maybe_refresh_spec [of lib net cache "Inr ()" c1] by auto
  next
    case (retried c1 c2 header)
    then show ?thesis
      using that [of header c2] maybe_refresh_spec [of lib net cache "Inr ()" c1] refresh_spec [of lib net "tick_on c1" "Inr ()" c2]
      by auto
  qed auto
  obtain jwks jwk key aud where k: "ki_jwks (kc_inner c1) = Some jwks" "select_jwk_for_token jwks (jh_kid header) (jh_alg header) = Inr jwk"
    "build_jwt_verification_key lib jwk (jh_alg header) = Inr key" "kc_audience (kc_config c1) = Some aud" "\<not> blank aud"
    "eq_ignore_ascii_case (jh_alg header) ''HS256'' \<longrightarrow> kc_allow_hs256 (kc_config c1)"
    "token_verified lib token key \<lparr>jc_issuer = kc_issuer (kc_config c1), jc_audience = Some aud,
       jc_now_epoch_seconds = unix_seconds net (kc_tick c1), jc_leeway_seconds = kc_leeway_seconds (kc_config c1)\<rparr> jwt"
    using try_validate_ok [OF *(2)] by metis
  have "aud \<in> set (vj_audience jwt)" using k(7) by (auto simp: token_verified_def claims_hold_def jwt_of_def)
  moreover have "hmac_key key \<longrightarrow> kc_allow_hs256 (kc_config cache)"
    using build_key_supports [OF k(3)] k(6) *(4) by (cases key) (auto simp: hmac_key_def eq_ignore_ascii_case_def)
  ultimately show ?thesis using * k select_jwk_member [OF k(2)] by (metis (no_types, lifting))
qed

theorem jwks_cache_accepts_only_verified_witness:
  "\<exists>jwt cache'. validate_token demo_lib demo_net demo_cache ''h.p.s'' = (Inr jwt, cache')
     \<and> vj_subject jwt = Some ''u'' \<and> ki_jwks (kc_inner cache') \<noteq> None"
proof -
  obtain jwt cache' where v: "validate_token demo_lib demo_net demo_cache ''h.p.s'' = (Inr jwt, cache')" "vj_subject jwt = Some ''u''"
    by (rule that [of "jwt_of demo_claims"]) (simp_all add: demo_eval)
  then show ?thesis using jwks_cache_accepts_only_verified [OF v(1)] by blast
qed

text \<open>
  C30. A validation keeps the cache usable: it never loses keys, takes a bounded number of calls to the
  network and the clocks, never reports an uninitialised cache, and reports that no key
  matches only for a key set it fetched itself.
\<close>

theorem jwks_cache_serves:
  assumes "cache_inv cache" "validate_token lib net cache token = (result, cache')"
  shows "cache_inv cache' \<and> kc_tick cache' \<le> kc_tick cache + 9
    \<and> (ki_jwks (kc_inner cache) \<noteq> None \<longrightarrow> ki_jwks (kc_inner cache') \<noteq> None)
    \<and> result \<noteq> Inl NotInitialized
    \<and> (result = Inl NoMatchingKey \<longrightarrow> fetched net (kc_tick cache) cache')"
  using assms(2)
proof (cases rule: validate_token_cases)
  case (refresh_failed e)
  then show ?thesis
    using assms(1) maybe_refresh_spec [OF refresh_failed(2)] maybe_refresh_error [OF refresh_failed(2)]
    by (auto intro: cache_inv_inner fetched_inv dest: fetched_keys)
next
  case (bad_header e c1)
  then show ?thesis using assms(1) maybe_refresh_spec [OF bad_header(1)] by (auto intro: cache_inv_inner fetched_inv dest: fetched_keys)
next
  case (cached c1 header)
  note m = maybe_refresh_spec [OF cached(1)]
  have inv: "cache_inv c1" using m assms(1) by (auto intro: cache_inv_inner fetched_inv)
  then have "result \<noteq> Inl NotInitialized" using m cached(3) try_validate_initialized [of c1] by (auto simp: cache_inv_def)
  then show ?thesis using inv m cached(4,5) by (auto dest: fetched_keys)
next
  case (miss c1 header e)
  note m = maybe_refresh_spec [OF miss(1)] refresh_spec [OF miss(4)]
  have inv: "cache_inv c1" using m(1) assms(1) by (auto intro: cache_inv_inner fetched_inv)
  then have "cache_inv cache'" using m(2) by (auto intro: cache_inv_inner)
  then show ?thesis using m refresh_error [OF miss(4)] miss(5) by (auto dest: fetched_keys)
next
  case (retried c1 c2 header)
  note m = maybe_refresh_spec [OF retried(1)] refresh_spec [OF retried(4)]
  have f: "fetched net (kc_tick cache) cache'" using m retried(6) by (auto intro: fetched_later)
  then have "result \<noteq> Inl NotInitialized"
    using retried(5,6) try_validate_initialized [of c2] by (auto dest: fetched_keys)
  then show ?thesis using f fetched_inv [OF f] m retried(6) by (auto dest: fetched_keys)
qed

theorem jwks_cache_serves_witness:
  "cache_inv (snd (validate_token demo_lib demo_net demo_cache ''h.p''))
   \<and> fst (validate_token demo_lib demo_net demo_cache ''h.p'') = Inl (Validation InvalidFormat)"
proof -
  have "cache_inv demo_cache" by (simp add: cache_inv_def demo_cache_def JwksCache_new_def)
  moreover have "fst (validate_token demo_lib demo_net demo_cache ''h.p'') = Inl (Validation InvalidFormat)"
    by (simp add: demo_eval)
  ultimately show ?thesis
    using jwks_cache_serves [of demo_cache demo_lib demo_net "''h.p''" _ _, OF _ surjective_pairing] by blast
qed

end
