(* ===== verification/Console_Config.thy ===== *)
theory Console_Config
  imports Json_Value Utf8
begin

text \<open>
  The console's view configuration (\<open>console_config.rs\<close>): the sections of the configuration and
  their normal forms, the patches a TOML document is read into, realm overlays, and the checks
  of operator panel paths and of the sandbox URL. The TOML and URL parsers are parameters.
\<close>

section \<open>Normal forms of strings\<close>

definition normalize_string_vec :: "string list \<Rightarrow> string list" where
  "normalize_string_vec values = filter (\<lambda>value. value \<noteq> []) (map trim values)"

definition normalize_optional_string :: "string option \<Rightarrow> string option" where
  "normalize_optional_string value = opt_filter (\<lambda>value. value \<noteq> []) (map_option trim value)"

section \<open>The sections\<close>

record ConsoleBrandingConfig =
  br_label :: "string option"
  br_logo_url :: "string option"
  br_logo_alt :: "string option"

definition branding_normalized :: "ConsoleBrandingConfig \<Rightarrow> ConsoleBrandingConfig" where
  "branding_normalized c =
     \<lparr>br_label = normalize_optional_string (br_label c), br_logo_url = normalize_optional_string (br_logo_url c),
      br_logo_alt = normalize_optional_string (br_logo_alt c)\<rparr>"

record ConsoleAppearanceConfig =
  ap_default_theme :: "string option"
  ap_default_variant :: "string option"

definition appearance_normalized :: "ConsoleAppearanceConfig \<Rightarrow> ConsoleAppearanceConfig" where
  "appearance_normalized c =
     \<lparr>ap_default_theme = normalize_optional_string (ap_default_theme c),
      ap_default_variant = normalize_optional_string (ap_default_variant c)\<rparr>"

record ConsoleEnvironmentConfig =
  en_label :: "string option"

definition environment_normalized :: "ConsoleEnvironmentConfig \<Rightarrow> ConsoleEnvironmentConfig" where
  "environment_normalized c = \<lparr>en_label = normalize_optional_string (en_label c)\<rparr>"

record ConsoleLayoutConfig =
  la_initial_preset :: "string option"
  la_initial_control :: "string option"
  la_initial_agent :: "string option"
  la_sidebar_collapsed :: "bool option"

definition layout_normalized :: "ConsoleLayoutConfig \<Rightarrow> ConsoleLayoutConfig" where
  "layout_normalized c =
     c\<lparr>la_initial_preset := normalize_optional_string (la_initial_preset c),
       la_initial_control := normalize_optional_string (la_initial_control c),
       la_initial_agent := normalize_optional_string (la_initial_agent c)\<rparr>"

record ConsoleRailFilterPresetConfig =
  rp_id :: string
  rp_label :: string
  rp_watched_only :: "bool option"
  rp_alert_levels :: "string list"

definition preset_normalized :: "ConsoleRailFilterPresetConfig \<Rightarrow> ConsoleRailFilterPresetConfig" where
  "preset_normalized c =
     c\<lparr>rp_id := trim (rp_id c), rp_label := trim (rp_label c), rp_alert_levels := normalize_string_vec (rp_alert_levels c)\<rparr>"

definition normalize_presets :: "ConsoleRailFilterPresetConfig list \<Rightarrow> ConsoleRailFilterPresetConfig list" where
  "normalize_presets presets = filter (\<lambda>preset. rp_id preset \<noteq> [] \<and> rp_label preset \<noteq> []) (map preset_normalized presets)"

record ConsoleRailUiConfig =
  ra_visible :: "bool option"
  ra_collapsed :: "bool option"
  ra_active_preset_id :: "string option"
  ra_empty_text :: "string option"
  ra_filter_presets :: "ConsoleRailFilterPresetConfig list"

definition rail_normalized :: "ConsoleRailUiConfig \<Rightarrow> ConsoleRailUiConfig" where
  "rail_normalized c =
     c\<lparr>ra_active_preset_id := normalize_optional_string (ra_active_preset_id c),
       ra_empty_text := normalize_optional_string (ra_empty_text c),
       ra_filter_presets := normalize_presets (ra_filter_presets c)\<rparr>"

section \<open>Operator panels\<close>

text \<open>\<open>char::is_whitespace\<close> and \<open>char::is_control\<close> on code points.\<close>

definition char_is_whitespace :: "nat \<Rightarrow> bool" where
  "char_is_whitespace c =
     ((9 \<le> c \<and> c \<le> 13) \<or> c = 0x20 \<or> c = 0x85 \<or> c = 0xA0 \<or> c = 0x1680 \<or> (0x2000 \<le> c \<and> c \<le> 0x200A)
      \<or> c = 0x2028 \<or> c = 0x2029 \<or> c = 0x202F \<or> c = 0x205F \<or> c = 0x3000)"

definition char_is_control :: "nat \<Rightarrow> bool" where
  "char_is_control c = (c < 0x20 \<or> (0x7F \<le> c \<and> c \<le> 0x9F))"

text \<open>\<open>replace("%2e", ".")\<close>\<close>

fun decode_dots :: "string \<Rightarrow> string" where
  "decode_dots (a # b # c # s) =
     (if a = CHR ''%'' \<and> b = CHR ''2'' \<and> c = CHR ''e'' then CHR ''.'' # decode_dots s else a # decode_dots (b # c # s))"
| "decode_dots s = s"

definition has_dot_segment :: "string \<Rightarrow> bool" where
  "has_dot_segment path =
     (let path = takeWhile (\<lambda>c. c \<noteq> CHR ''?'' \<and> c \<noteq> CHR ''#'') path in
      list_ex (\<lambda>segment. let decoded = decode_dots (to_ascii_lowercase segment) in decoded = ''.'' \<or> decoded = ''..'')
        (split_on (CHR ''/'') path))"

definition valid_operator_panel_path :: "string \<Rightarrow> bool" where
  "valid_operator_panel_path path =
     (starts_with path ''/'' \<and> \<not> starts_with path ''//'' \<and> length path \<le> 2048
      \<and> \<not> list_ex (\<lambda>c. char_is_whitespace c \<or> char_is_control c \<or> c = 92 \<or> c = 0xFEFF) (str_chars path)
      \<and> \<not> has_dot_segment path)"

record ConsoleSidebarButtonConfig =
  sb_id :: string
  sb_label :: string
  sb_control :: "string option"
  sb_href :: "string option"
  sb_panel :: "string option"
  sb_target :: "string option"
  sb_icon_name :: "string option"

definition button_normalized :: "ConsoleSidebarButtonConfig \<Rightarrow> ConsoleSidebarButtonConfig" where
  "button_normalized c =
     \<lparr>sb_id = trim (sb_id c), sb_label = trim (sb_label c), sb_control = normalize_optional_string (sb_control c),
      sb_href = normalize_optional_string (sb_href c), sb_panel = opt_filter (\<lambda>panel. panel \<noteq> []) (sb_panel c),
      sb_target = normalize_optional_string (sb_target c), sb_icon_name = normalize_optional_string (sb_icon_name c)\<rparr>"

definition button_is_valid :: "ConsoleSidebarButtonConfig \<Rightarrow> bool" where
  "button_is_valid c =
     (if sb_id c = [] \<or> sb_label c = [] then False
      else case sb_panel c of
        Some panel \<Rightarrow> sb_control c = None \<and> sb_href c = None \<and> valid_operator_panel_path panel
      | None \<Rightarrow> is_some_and (sb_control c) (\<lambda>value. value \<noteq> []) \<or> is_some_and (sb_href c) (\<lambda>value. value \<noteq> []))"

definition normalize_buttons :: "ConsoleSidebarButtonConfig list \<Rightarrow> ConsoleSidebarButtonConfig list" where
  "normalize_buttons buttons = filter button_is_valid (map button_normalized buttons)"

record ConsoleSidebarUiConfig =
  si_visible_controls :: "string list option"
  si_hidden_controls :: "string list"
  si_buttons :: "ConsoleSidebarButtonConfig list"

definition sidebar_normalized :: "ConsoleSidebarUiConfig \<Rightarrow> ConsoleSidebarUiConfig" where
  "sidebar_normalized c =
     \<lparr>si_visible_controls = map_option normalize_string_vec (si_visible_controls c),
      si_hidden_controls = normalize_string_vec (si_hidden_controls c), si_buttons = normalize_buttons (si_buttons c)\<rparr>"

section \<open>The agent list and the actions\<close>

record ConsoleAgentBadgeConfig =
  bg_id :: string
  bg_label :: string
  bg_field :: string
  bg_tone :: "string option"

definition badge_normalized :: "ConsoleAgentBadgeConfig \<Rightarrow> ConsoleAgentBadgeConfig" where
  "badge_normalized c =
     \<lparr>bg_id = trim (bg_id c), bg_label = trim (bg_label c), bg_field = trim (bg_field c),
      bg_tone = normalize_optional_string (bg_tone c)\<rparr>"

definition badge_is_valid :: "ConsoleAgentBadgeConfig \<Rightarrow> bool" where
  "badge_is_valid c = (bg_id c \<noteq> [] \<and> bg_label c \<noteq> [] \<and> bg_field c \<noteq> [])"

definition normalize_badges :: "ConsoleAgentBadgeConfig list \<Rightarrow> ConsoleAgentBadgeConfig list" where
  "normalize_badges badges = filter badge_is_valid (map badge_normalized badges)"

record ConsoleAgentSectionConfig =
  se_name :: string
  se_collapsed :: "bool option"
  se_empty_title :: "string option"
  se_empty_text :: "string option"

definition section_normalized :: "ConsoleAgentSectionConfig \<Rightarrow> ConsoleAgentSectionConfig" where
  "section_normalized c =
     c\<lparr>se_name := trim (se_name c), se_empty_title := normalize_optional_string (se_empty_title c),
       se_empty_text := normalize_optional_string (se_empty_text c)\<rparr>"

definition normalize_sections :: "ConsoleAgentSectionConfig list \<Rightarrow> ConsoleAgentSectionConfig list" where
  "normalize_sections sections = filter (\<lambda>section. se_name section \<noteq> []) (map section_normalized sections)"

record ConsoleAgentListConfig =
  al_group_by :: "string list"
  al_subgroup_by :: "string list"
  al_section_order :: "string list"
  al_fallback_group :: "string option"
  al_fallback_subgroup :: "string option"
  al_collapse_single_subgroup :: "bool option"
  al_default_pinned_agent_ids :: "string list"
  al_badges :: "ConsoleAgentBadgeConfig list"
  al_sections :: "ConsoleAgentSectionConfig list"

definition agent_list_normalized :: "ConsoleAgentListConfig \<Rightarrow> ConsoleAgentListConfig" where
  "agent_list_normalized c =
     c\<lparr>al_group_by := normalize_string_vec (al_group_by c), al_subgroup_by := normalize_string_vec (al_subgroup_by c),
       al_section_order := normalize_string_vec (al_section_order c),
       al_fallback_group := normalize_optional_string (al_fallback_group c),
       al_fallback_subgroup := normalize_optional_string (al_fallback_subgroup c),
       al_default_pinned_agent_ids := normalize_string_vec (al_default_pinned_agent_ids c),
       al_badges := normalize_badges (al_badges c), al_sections := normalize_sections (al_sections c)\<rparr>"

record ConsoleActionsUiConfig =
  ac_inspect_label :: "string option"
  ac_chat_label :: "string option"
  ac_send_label :: "string option"
  ac_respawn_label :: "string option"
  ac_retire_label :: "string option"
  ac_reset_label :: "string option"
  ac_show_inspect :: "bool option"
  ac_show_chat :: "bool option"
  ac_show_respawn :: "bool option"
  ac_show_retire :: "bool option"
  ac_show_reset :: "bool option"

definition actions_normalized :: "ConsoleActionsUiConfig \<Rightarrow> ConsoleActionsUiConfig" where
  "actions_normalized c =
     c\<lparr>ac_inspect_label := normalize_optional_string (ac_inspect_label c),
       ac_chat_label := normalize_optional_string (ac_chat_label c),
       ac_send_label := normalize_optional_string (ac_send_label c),
       ac_respawn_label := normalize_optional_string (ac_respawn_label c),
       ac_retire_label := normalize_optional_string (ac_retire_label c),
       ac_reset_label := normalize_optional_string (ac_reset_label c)\<rparr>"

section \<open>The configuration\<close>

record ConsoleUiConfig =
  ui_panel_modules :: "string list"
  ui_mcp_apps_sandbox_url :: "string option"
  ui_title :: "string option"
  ui_brand :: ConsoleBrandingConfig
  ui_appearance :: ConsoleAppearanceConfig
  ui_environment :: ConsoleEnvironmentConfig
  ui_layout :: ConsoleLayoutConfig
  ui_rail :: ConsoleRailUiConfig
  ui_sidebar :: ConsoleSidebarUiConfig
  ui_agent_list :: ConsoleAgentListConfig
  ui_actions :: ConsoleActionsUiConfig

definition ConsoleUiConfig_default :: ConsoleUiConfig where
  "ConsoleUiConfig_default =
     \<lparr>ui_panel_modules = [], ui_mcp_apps_sandbox_url = None, ui_title = None,
      ui_brand = \<lparr>br_label = None, br_logo_url = None, br_logo_alt = None\<rparr>,
      ui_appearance = \<lparr>ap_default_theme = None, ap_default_variant = None\<rparr>, ui_environment = \<lparr>en_label = None\<rparr>,
      ui_layout = \<lparr>la_initial_preset = None, la_initial_control = None, la_initial_agent = None, la_sidebar_collapsed = None\<rparr>,
      ui_rail = \<lparr>ra_visible = None, ra_collapsed = None, ra_active_preset_id = None, ra_empty_text = None, ra_filter_presets = []\<rparr>,
      ui_sidebar = \<lparr>si_visible_controls = None, si_hidden_controls = [], si_buttons = []\<rparr>,
      ui_agent_list = \<lparr>al_group_by = [], al_subgroup_by = [], al_section_order = [], al_fallback_group = None,
        al_fallback_subgroup = None, al_collapse_single_subgroup = None, al_default_pinned_agent_ids = [], al_badges = [],
        al_sections = []\<rparr>,
      ui_actions = \<lparr>ac_inspect_label = None, ac_chat_label = None, ac_send_label = None, ac_respawn_label = None,
        ac_retire_label = None, ac_reset_label = None, ac_show_inspect = None, ac_show_chat = None, ac_show_respawn = None,
        ac_show_retire = None, ac_show_reset = None\<rparr>\<rparr>"

definition ui_normalized :: "ConsoleUiConfig \<Rightarrow> ConsoleUiConfig" where
  "ui_normalized c =
     \<lparr>ui_panel_modules = normalize_string_vec (ui_panel_modules c),
      ui_mcp_apps_sandbox_url = normalize_optional_string (ui_mcp_apps_sandbox_url c),
      ui_title = normalize_optional_string (ui_title c), ui_brand = branding_normalized (ui_brand c),
      ui_appearance = appearance_normalized (ui_appearance c), ui_environment = environment_normalized (ui_environment c),
      ui_layout = layout_normalized (ui_layout c), ui_rail = rail_normalized (ui_rail c),
      ui_sidebar = sidebar_normalized (ui_sidebar c), ui_agent_list = agent_list_normalized (ui_agent_list c),
      ui_actions = actions_normalized (ui_actions c)\<rparr>"

datatype ConsoleConfigError = ConfigIo string | ConfigTomlParse string | ConfigInvalid string

text \<open>A parsed URL, with the accessors the check reads; parsing is \<open>reqwest::Url\<close>.\<close>

record Url =
  url_scheme :: string
  url_host :: "string option"
  url_username :: string
  url_password :: "string option"
  url_fragment :: "string option"
  url_origin :: string

definition validate_mcp_apps_sandbox ::
  "(string \<Rightarrow> Url option) \<Rightarrow> ConsoleUiConfig \<Rightarrow> string option \<Rightarrow> ConsoleConfigError + unit" where
  "validate_mcp_apps_sandbox parse_url config console_url =
     (case ui_mcp_apps_sandbox_url config of
        None \<Rightarrow> Inr ()
      | Some value \<Rightarrow>
         (let invalid = ConfigInvalid ''mcp_apps_sandbox_url requires an absolute HTTP(S) URL without credentials or a fragment'' in
          case parse_url value of
            None \<Rightarrow> Inl invalid
          | Some sandbox \<Rightarrow>
              if (url_scheme sandbox \<noteq> ''http'' \<and> url_scheme sandbox \<noteq> ''https'') \<or> url_host sandbox = None
                 \<or> url_username sandbox \<noteq> [] \<or> url_password sandbox \<noteq> None \<or> url_fragment sandbox \<noteq> None
                 \<or> list_ex char_is_whitespace (str_chars value)
              then Inl invalid
              else case console_url of
                None \<Rightarrow> Inr ()
              | Some console_url \<Rightarrow>
                 (case parse_url console_url of
                    None \<Rightarrow> Inl (ConfigInvalid ''Console origin is not an absolute URL'')
                  | Some console \<Rightarrow>
                      if url_origin sandbox = url_origin console
                      then Inl (ConfigInvalid ''mcp_apps_sandbox_url must use an origin separate from the Console'')
                      else Inr ())))"

section \<open>Patches\<close>

text \<open>\<open>if let Some(v) = patch { config = f(v) }\<close>\<close>

definition patched :: "'a option \<Rightarrow> ('a \<Rightarrow> 'b) \<Rightarrow> 'b \<Rightarrow> 'b" where
  "patched patch f old = (case patch of Some v \<Rightarrow> f v | None \<Rightarrow> old)"

abbreviation norm_str :: "string \<Rightarrow> string option" where
  "norm_str v \<equiv> normalize_optional_string (Some v)"

record ConsoleBrandingConfigPatch =
  bp_label :: "string option"
  bp_logo_url :: "string option"
  bp_logo_alt :: "string option"

definition branding_apply_to :: "ConsoleBrandingConfigPatch \<Rightarrow> ConsoleBrandingConfig \<Rightarrow> ConsoleBrandingConfig" where
  "branding_apply_to p c =
     c\<lparr>br_label := patched (bp_label p) norm_str (br_label c),
       br_logo_url := patched (bp_logo_url p) norm_str (br_logo_url c),
       br_logo_alt := patched (bp_logo_alt p) norm_str (br_logo_alt c)\<rparr>"

record ConsoleAppearanceConfigPatch =
  pp_default_theme :: "string option"
  pp_default_variant :: "string option"

definition appearance_apply_to :: "ConsoleAppearanceConfigPatch \<Rightarrow> ConsoleAppearanceConfig \<Rightarrow> ConsoleAppearanceConfig" where
  "appearance_apply_to p c =
     c\<lparr>ap_default_theme := patched (pp_default_theme p) norm_str (ap_default_theme c),
       ap_default_variant := patched (pp_default_variant p) norm_str (ap_default_variant c)\<rparr>"

record ConsoleEnvironmentConfigPatch =
  ep_label :: "string option"

definition environment_apply_to :: "ConsoleEnvironmentConfigPatch \<Rightarrow> ConsoleEnvironmentConfig \<Rightarrow> ConsoleEnvironmentConfig" where
  "environment_apply_to p c =
     c\<lparr>en_label := patched (ep_label p) norm_str (en_label c)\<rparr>"

record ConsoleLayoutConfigPatch =
  lp_initial_preset :: "string option"
  lp_initial_control :: "string option"
  lp_initial_agent :: "string option"
  lp_sidebar_collapsed :: "bool option"

definition layout_apply_to :: "ConsoleLayoutConfigPatch \<Rightarrow> ConsoleLayoutConfig \<Rightarrow> ConsoleLayoutConfig" where
  "layout_apply_to p c =
     c\<lparr>la_initial_preset := patched (lp_initial_preset p) norm_str (la_initial_preset c),
       la_initial_control := patched (lp_initial_control p) norm_str (la_initial_control c),
       la_initial_agent := patched (lp_initial_agent p) norm_str (la_initial_agent c),
       la_sidebar_collapsed := patched (lp_sidebar_collapsed p) Some (la_sidebar_collapsed c)\<rparr>"

record ConsoleRailUiConfigPatch =
  lr_visible :: "bool option"
  lr_collapsed :: "bool option"
  lr_active_preset_id :: "string option"
  lr_empty_text :: "string option"
  lr_filter_presets :: "ConsoleRailFilterPresetConfig list option"

definition rail_apply_to :: "ConsoleRailUiConfigPatch \<Rightarrow> ConsoleRailUiConfig \<Rightarrow> ConsoleRailUiConfig" where
  "rail_apply_to p c =
     c\<lparr>ra_visible := patched (lr_visible p) Some (ra_visible c),
       ra_collapsed := patched (lr_collapsed p) Some (ra_collapsed c),
       ra_active_preset_id := patched (lr_active_preset_id p) norm_str (ra_active_preset_id c),
       ra_empty_text := patched (lr_empty_text p) norm_str (ra_empty_text c),
       ra_filter_presets := patched (lr_filter_presets p) normalize_presets (ra_filter_presets c)\<rparr>"

record ConsoleSidebarUiConfigPatch =
  sp_visible_controls :: "string list option"
  sp_hidden_controls :: "string list option"
  sp_buttons :: "ConsoleSidebarButtonConfig list option"

definition sidebar_apply_to :: "ConsoleSidebarUiConfigPatch \<Rightarrow> ConsoleSidebarUiConfig \<Rightarrow> ConsoleSidebarUiConfig" where
  "sidebar_apply_to p c =
     c\<lparr>si_visible_controls := patched (sp_visible_controls p) (\<lambda>v. Some (normalize_string_vec v)) (si_visible_controls c),
       si_hidden_controls := patched (sp_hidden_controls p) normalize_string_vec (si_hidden_controls c),
       si_buttons := patched (sp_buttons p) normalize_buttons (si_buttons c)\<rparr>"

record ConsoleAgentListConfigPatch =
  gp_group_by :: "string list option"
  gp_subgroup_by :: "string list option"
  gp_section_order :: "string list option"
  gp_fallback_group :: "string option"
  gp_fallback_subgroup :: "string option"
  gp_collapse_single_subgroup :: "bool option"
  gp_default_pinned_agent_ids :: "string list option"
  gp_badges :: "ConsoleAgentBadgeConfig list option"
  gp_sections :: "ConsoleAgentSectionConfig list option"

definition agent_list_apply_to :: "ConsoleAgentListConfigPatch \<Rightarrow> ConsoleAgentListConfig \<Rightarrow> ConsoleAgentListConfig" where
  "agent_list_apply_to p c =
     c\<lparr>al_group_by := patched (gp_group_by p) normalize_string_vec (al_group_by c),
       al_subgroup_by := patched (gp_subgroup_by p) normalize_string_vec (al_subgroup_by c),
       al_section_order := patched (gp_section_order p) normalize_string_vec (al_section_order c),
       al_fallback_group := patched (gp_fallback_group p) norm_str (al_fallback_group c),
       al_fallback_subgroup := patched (gp_fallback_subgroup p) norm_str (al_fallback_subgroup c),
       al_collapse_single_subgroup := patched (gp_collapse_single_subgroup p) Some (al_collapse_single_subgroup c),
       al_default_pinned_agent_ids := patched (gp_default_pinned_agent_ids p) normalize_string_vec (al_default_pinned_agent_ids c),
       al_badges := patched (gp_badges p) normalize_badges (al_badges c),
       al_sections := patched (gp_sections p) normalize_sections (al_sections c)\<rparr>"

record ConsoleActionsUiConfigPatch =
  tp_inspect_label :: "string option"
  tp_chat_label :: "string option"
  tp_send_label :: "string option"
  tp_respawn_label :: "string option"
  tp_retire_label :: "string option"
  tp_reset_label :: "string option"
  tp_show_inspect :: "bool option"
  tp_show_chat :: "bool option"
  tp_show_respawn :: "bool option"
  tp_show_retire :: "bool option"
  tp_show_reset :: "bool option"

definition actions_apply_to :: "ConsoleActionsUiConfigPatch \<Rightarrow> ConsoleActionsUiConfig \<Rightarrow> ConsoleActionsUiConfig" where
  "actions_apply_to p c =
     c\<lparr>ac_inspect_label := patched (tp_inspect_label p) norm_str (ac_inspect_label c),
       ac_chat_label := patched (tp_chat_label p) norm_str (ac_chat_label c),
       ac_send_label := patched (tp_send_label p) norm_str (ac_send_label c),
       ac_respawn_label := patched (tp_respawn_label p) norm_str (ac_respawn_label c),
       ac_retire_label := patched (tp_retire_label p) norm_str (ac_retire_label c),
       ac_reset_label := patched (tp_reset_label p) norm_str (ac_reset_label c),
       ac_show_inspect := patched (tp_show_inspect p) Some (ac_show_inspect c),
       ac_show_chat := patched (tp_show_chat p) Some (ac_show_chat c),
       ac_show_respawn := patched (tp_show_respawn p) Some (ac_show_respawn c),
       ac_show_retire := patched (tp_show_retire p) Some (ac_show_retire c),
       ac_show_reset := patched (tp_show_reset p) Some (ac_show_reset c)\<rparr>"

datatype ConsoleUiConfigPatch = ConsoleUiConfigPatch
  (up_panel_modules: "string list option")
  (up_mcp_apps_sandbox_url: "string option")
  (up_title: "string option")
  (up_brand: "ConsoleBrandingConfigPatch option")
  (up_appearance: "ConsoleAppearanceConfigPatch option")
  (up_environment: "ConsoleEnvironmentConfigPatch option")
  (up_layout: "ConsoleLayoutConfigPatch option")
  (up_rail: "ConsoleRailUiConfigPatch option")
  (up_sidebar: "ConsoleSidebarUiConfigPatch option")
  (up_agent_list: "ConsoleAgentListConfigPatch option")
  (up_actions: "ConsoleActionsUiConfigPatch option")
  (up_realms: "(string \<times> ConsoleUiConfigPatch) list")

definition ui_apply_to :: "ConsoleUiConfigPatch \<Rightarrow> ConsoleUiConfig \<Rightarrow> ConsoleUiConfig" where
  "ui_apply_to p c =
     c\<lparr>ui_panel_modules := patched (up_panel_modules p) normalize_string_vec (ui_panel_modules c),
       ui_mcp_apps_sandbox_url := patched (up_mcp_apps_sandbox_url p) norm_str (ui_mcp_apps_sandbox_url c),
       ui_title := patched (up_title p) norm_str (ui_title c),
       ui_brand := patched (up_brand p) (\<lambda>q. branding_apply_to q (ui_brand c)) (ui_brand c),
       ui_appearance := patched (up_appearance p) (\<lambda>q. appearance_apply_to q (ui_appearance c)) (ui_appearance c),
       ui_environment := patched (up_environment p) (\<lambda>q. environment_apply_to q (ui_environment c)) (ui_environment c),
       ui_layout := patched (up_layout p) (\<lambda>q. layout_apply_to q (ui_layout c)) (ui_layout c),
       ui_rail := patched (up_rail p) (\<lambda>q. rail_apply_to q (ui_rail c)) (ui_rail c),
       ui_sidebar := patched (up_sidebar p) (\<lambda>q. sidebar_apply_to q (ui_sidebar c)) (ui_sidebar c),
       ui_agent_list := patched (up_agent_list p) (\<lambda>q. agent_list_apply_to q (ui_agent_list c)) (ui_agent_list c),
       ui_actions := patched (up_actions p) (\<lambda>q. actions_apply_to q (ui_actions c)) (ui_actions c)\<rparr>"

section \<open>Loading\<close>

record ConfigLib =
  toml_from_str :: "string \<Rightarrow> string + ConsoleUiConfigPatch"
  parse_url :: "string \<Rightarrow> Url option"
  read_to_string :: "string \<Rightarrow> string + string"

definition load_console_ui_config_from_toml_for_realm ::
  "ConfigLib \<Rightarrow> string \<Rightarrow> string option \<Rightarrow> ConsoleConfigError + ConsoleUiConfig" where
  "load_console_ui_config_from_toml_for_realm lib toml_text realm =
     (case toml_from_str lib toml_text of
        Inl err \<Rightarrow> Inl (ConfigTomlParse err)
      | Inr patch \<Rightarrow>
         (let config = ui_apply_to patch ConsoleUiConfig_default;
              config = (case opt_filter (\<lambda>value. value \<noteq> []) (map_option trim realm) of
                  Some realm \<Rightarrow>
                   (case bt_get (up_realms patch) realm of Some overlay \<Rightarrow> ui_apply_to overlay config | None \<Rightarrow> config)
                | None \<Rightarrow> config);
              config = ui_normalized config in
          case validate_mcp_apps_sandbox (parse_url lib) config None of
            Inl e \<Rightarrow> Inl e
          | Inr _ \<Rightarrow> Inr config))"

definition load_console_ui_config_from_toml :: "ConfigLib \<Rightarrow> string \<Rightarrow> ConsoleConfigError + ConsoleUiConfig" where
  "load_console_ui_config_from_toml lib toml_text = load_console_ui_config_from_toml_for_realm lib toml_text None"

definition load_console_ui_config_from_path_for_realm ::
  "ConfigLib \<Rightarrow> string \<Rightarrow> string option \<Rightarrow> ConsoleConfigError + ConsoleUiConfig" where
  "load_console_ui_config_from_path_for_realm lib path realm =
     (case read_to_string lib path of
        Inl err \<Rightarrow> Inl (ConfigIo (''failed to read '' @ path @ '': '' @ err))
      | Inr text \<Rightarrow> load_console_ui_config_from_toml_for_realm lib text realm)"

section \<open>Normal forms are stable\<close>

named_theorems ui_norms

lemma norm_vec_idem [ui_norms]: "normalize_string_vec (normalize_string_vec vs) = normalize_string_vec vs"
  by (induction vs) (auto simp: normalize_string_vec_def)

lemma norm_opt_idem [ui_norms]: "normalize_optional_string (normalize_optional_string v) = normalize_optional_string v"
  by (cases v) (auto simp: normalize_optional_string_def opt_filter_def)

lemma norm_vec_map [ui_norms]: "map_option normalize_string_vec (map_option normalize_string_vec v) = map_option normalize_string_vec v"
  by (cases v) (simp_all add: norm_vec_idem)

lemma filter_map_idem:
  assumes "\<And>x. f (f x) = f x"
  shows "filter P (map f (filter P (map f xs))) = filter P (map f xs)"
  by (induction xs) (simp_all add: assms)

lemma preset_idem: "preset_normalized (preset_normalized c) = preset_normalized c"
  by (cases c) (simp add: preset_normalized_def ui_norms)

lemma button_idem: "button_normalized (button_normalized c) = button_normalized c"
  by (cases c) (auto simp: button_normalized_def ui_norms opt_filter_def split: option.splits)

lemma badge_idem: "badge_normalized (badge_normalized c) = badge_normalized c"
  by (cases c) (simp add: badge_normalized_def ui_norms)

lemma section_idem: "section_normalized (section_normalized c) = section_normalized c"
  by (cases c) (simp add: section_normalized_def ui_norms)

lemma list_idem [ui_norms]:
  "normalize_presets (normalize_presets ps) = normalize_presets ps" "normalize_buttons (normalize_buttons bs) = normalize_buttons bs"
  "normalize_badges (normalize_badges gs) = normalize_badges gs" "normalize_sections (normalize_sections ss) = normalize_sections ss"
  unfolding normalize_presets_def normalize_buttons_def normalize_badges_def normalize_sections_def
  by (rule filter_map_idem, rule preset_idem button_idem badge_idem section_idem)+

lemma ui_idem: "ui_normalized (ui_normalized c) = ui_normalized c"
  by (simp add: ui_normalized_def branding_normalized_def appearance_normalized_def environment_normalized_def
      layout_normalized_def rail_normalized_def sidebar_normalized_def agent_list_normalized_def actions_normalized_def ui_norms)

text \<open>A patch writes normal forms, so patching a normal configuration leaves a normal one.\<close>

lemma patched_fix:
  assumes "g old = old" "\<And>v. g (f v) = f v"
  shows "g (patched p f old) = patched p f old"
  using assms by (simp add: patched_def split: option.split)

lemmas patched_norms =
  patched_fix [of normalize_optional_string, OF _ norm_opt_idem] patched_fix [of normalize_string_vec, OF _ norm_vec_idem]
  patched_fix [of "map_option normalize_string_vec" _ "\<lambda>v. Some (normalize_string_vec v)"]
  patched_fix [of normalize_presets, OF _ list_idem(1)] patched_fix [of normalize_buttons, OF _ list_idem(2)]
  patched_fix [of normalize_badges, OF _ list_idem(3)] patched_fix [of normalize_sections, OF _ list_idem(4)]

lemma branding_apply_normal: "branding_normalized c = c \<Longrightarrow> branding_normalized (branding_apply_to p c) = branding_apply_to p c"
  by (cases c) (simp add: branding_normalized_def branding_apply_to_def patched_norms norm_vec_idem)

lemma appearance_apply_normal: "appearance_normalized c = c \<Longrightarrow> appearance_normalized (appearance_apply_to p c) = appearance_apply_to p c"
  by (cases c) (simp add: appearance_normalized_def appearance_apply_to_def patched_norms norm_vec_idem)

lemma environment_apply_normal: "environment_normalized c = c \<Longrightarrow> environment_normalized (environment_apply_to p c) = environment_apply_to p c"
  by (cases c) (simp add: environment_normalized_def environment_apply_to_def patched_norms norm_vec_idem)

lemma layout_apply_normal: "layout_normalized c = c \<Longrightarrow> layout_normalized (layout_apply_to p c) = layout_apply_to p c"
  by (cases c) (simp add: layout_normalized_def layout_apply_to_def patched_norms norm_vec_idem)

lemma rail_apply_normal: "rail_normalized c = c \<Longrightarrow> rail_normalized (rail_apply_to p c) = rail_apply_to p c"
  by (cases c) (simp add: rail_normalized_def rail_apply_to_def patched_norms norm_vec_idem)

lemma sidebar_apply_normal: "sidebar_normalized c = c \<Longrightarrow> sidebar_normalized (sidebar_apply_to p c) = sidebar_apply_to p c"
  by (cases c) (simp add: sidebar_normalized_def sidebar_apply_to_def patched_norms norm_vec_idem)

lemma agent_list_apply_normal: "agent_list_normalized c = c \<Longrightarrow> agent_list_normalized (agent_list_apply_to p c) = agent_list_apply_to p c"
  by (cases c) (simp add: agent_list_normalized_def agent_list_apply_to_def patched_norms norm_vec_idem)

lemma actions_apply_normal: "actions_normalized c = c \<Longrightarrow> actions_normalized (actions_apply_to p c) = actions_apply_to p c"
  by (cases c) (simp add: actions_normalized_def actions_apply_to_def patched_norms norm_vec_idem)

lemmas section_applies = branding_apply_normal appearance_apply_normal environment_apply_normal layout_apply_normal
  rail_apply_normal sidebar_apply_normal agent_list_apply_normal actions_apply_normal

lemma apply_to_normal: "ui_normalized c = c \<Longrightarrow> ui_normalized (ui_apply_to p c) = ui_apply_to p c"
  by (cases c) (simp add: ui_normalized_def ui_apply_to_def patched_norms patched_fix section_applies)

lemma default_normal: "ui_normalized ConsoleUiConfig_default = ConsoleUiConfig_default"
  by (simp add: ui_normalized_def ConsoleUiConfig_default_def branding_normalized_def appearance_normalized_def
      environment_normalized_def layout_normalized_def rail_normalized_def sidebar_normalized_def agent_list_normalized_def
      actions_normalized_def normalize_string_vec_def normalize_optional_string_def normalize_presets_def normalize_buttons_def
      normalize_badges_def normalize_sections_def)

definition realm_overlay :: "ConsoleUiConfigPatch \<Rightarrow> string option \<Rightarrow> ConsoleUiConfigPatch option" where
  "realm_overlay patch realm = Option.bind (trimmed_some realm) (bt_get (up_realms patch))"

definition overlaid :: "ConsoleUiConfigPatch \<Rightarrow> string option \<Rightarrow> ConsoleUiConfig" where
  "overlaid patch realm =
     (let config = ui_apply_to patch ConsoleUiConfig_default in
      case realm_overlay patch realm of Some overlay \<Rightarrow> ui_apply_to overlay config | None \<Rightarrow> config)"

lemma overlaid_normal: "ui_normalized (overlaid patch realm) = overlaid patch realm"
  by (simp add: overlaid_def Let_def apply_to_normal default_normal split: option.split)

lemma load_overlaid:
  "load_console_ui_config_from_toml_for_realm lib text realm =
     (case toml_from_str lib text of
        Inl err \<Rightarrow> Inl (ConfigTomlParse err)
      | Inr patch \<Rightarrow> case_sum Inl (\<lambda>_. Inr (overlaid patch realm)) (validate_mcp_apps_sandbox (parse_url lib) (overlaid patch realm) None))"
proof (cases "toml_from_str lib text")
  case (Inr patch)
  have "(case opt_filter (\<lambda>value. value \<noteq> []) (map_option trim realm) of
      Some realm \<Rightarrow> (case bt_get (up_realms patch) realm of Some overlay \<Rightarrow> ui_apply_to overlay c | None \<Rightarrow> c) | None \<Rightarrow> c)
    = (case realm_overlay patch realm of Some overlay \<Rightarrow> ui_apply_to overlay c | None \<Rightarrow> c)" for c
    unfolding realm_overlay_def trimmed_some_def
    by (cases "opt_filter (\<lambda>value. value \<noteq> []) (map_option trim realm)") (simp_all del: opt_filter_eq_Some)
  then have e: "(case opt_filter (\<lambda>value. value \<noteq> []) (map_option trim realm) of
      Some realm \<Rightarrow> (case bt_get (up_realms patch) realm of
          Some overlay \<Rightarrow> ui_apply_to overlay (ui_apply_to patch ConsoleUiConfig_default)
        | None \<Rightarrow> ui_apply_to patch ConsoleUiConfig_default)
      | None \<Rightarrow> ui_apply_to patch ConsoleUiConfig_default) = overlaid patch realm"
    by (simp add: overlaid_def Let_def)
  show ?thesis
    unfolding load_console_ui_config_from_toml_for_realm_def Inr sum.case Let_def e overlaid_normal ..
qed (simp add: load_console_ui_config_from_toml_for_realm_def)

lemma sidebar_buttons_normalized:
  "si_buttons (ui_sidebar (ui_normalized c)) = normalize_buttons (si_buttons (ui_sidebar c))"
  by (simp add: ui_normalized_def sidebar_normalized_def)

lemma normal_buttons_valid: "ui_normalized c = c \<Longrightarrow> list_all button_is_valid (si_buttons (ui_sidebar c))"
proof -
  assume "ui_normalized c = c"
  then have "normalize_buttons (si_buttons (ui_sidebar c)) = si_buttons (ui_sidebar c)"
    by (metis sidebar_buttons_normalized)
  moreover have "list_all button_is_valid (normalize_buttons bs)" for bs
    by (simp add: normalize_buttons_def list_all_iff)
  ultimately show ?thesis by metis
qed

section \<open>Properties\<close>

text \<open>
  C31. A configuration that loads is in normal form, and normalising it again changes nothing: it is the realm's
  patch applied over the document's own, each writing normal forms. Every sidebar button it
  keeps is valid; one that opens a panel has no control and no link, and its path is same-origin, at most
  2048 bytes long, without dot segments in any spelling and without whitespace, control
  characters, backslashes or byte order marks.
\<close>

theorem loaded_config_normal:
  assumes "load_console_ui_config_from_toml_for_realm lib text realm = Inr config" "toml_from_str lib text = Inr patch"
  shows "config = overlaid patch realm \<and> ui_normalized config = config
    \<and> list_all (\<lambda>b. sb_id b \<noteq> [] \<and> sb_label b \<noteq> []
        \<and> (case sb_panel b of
             Some path \<Rightarrow> sb_control b = None \<and> sb_href b = None \<and> starts_with path ''/'' \<and> \<not> starts_with path ''//'' \<and> \<not> has_dot_segment path
               \<and> length path \<le> 2048 \<and> list_all (\<lambda>c. \<not> char_is_whitespace c \<and> \<not> char_is_control c \<and> c \<noteq> 92 \<and> c \<noteq> 0xFEFF) (str_chars path)
           | None \<Rightarrow> sb_control b \<noteq> None \<or> sb_href b \<noteq> None)) (si_buttons (ui_sidebar config))"
proof -
  have c: "config = overlaid patch realm" using assms by (simp add: load_overlaid)
  then have n: "ui_normalized config = config" by (simp add: overlaid_normal)
  have "list_all button_is_valid (si_buttons (ui_sidebar config))" by (rule normal_buttons_valid [OF n])
  then have "list_all (\<lambda>b. sb_id b \<noteq> [] \<and> sb_label b \<noteq> []
        \<and> (case sb_panel b of
             Some path \<Rightarrow> sb_control b = None \<and> sb_href b = None \<and> starts_with path ''/'' \<and> \<not> starts_with path ''//'' \<and> \<not> has_dot_segment path
               \<and> length path \<le> 2048 \<and> list_all (\<lambda>c. \<not> char_is_whitespace c \<and> \<not> char_is_control c \<and> c \<noteq> 92 \<and> c \<noteq> 0xFEFF) (str_chars path)
           | None \<Rightarrow> sb_control b \<noteq> None \<or> sb_href b \<noteq> None)) (si_buttons (ui_sidebar config))"
    by (rule list.pred_mono_strong)
      (auto simp: button_is_valid_def valid_operator_panel_path_def is_some_and_iff list_ex_iff list_all_iff split: if_splits option.splits)
  with c n show ?thesis by blast
qed

theorem loaded_config_normal_witness:
  "\<exists>config. load_console_ui_config_from_toml_for_realm
       \<lparr>toml_from_str = (\<lambda>_. Inr (ConsoleUiConfigPatch None None (Some '' T '') None None None None None None None None
           [(''prod'', ConsoleUiConfigPatch None None (Some ''P'') None None None None None None None None [])])),
        parse_url = (\<lambda>_. None), read_to_string = Inl\<rparr> [] (Some '' prod '') = Inr config
     \<and> ui_title config = Some ''P'' \<and> ui_normalized config = config"
proof -
  let ?patch = "ConsoleUiConfigPatch None None (Some '' T '') None None None None None None None None
           [(''prod'', ConsoleUiConfigPatch None None (Some ''P'') None None None None None None None None [])]"
  let ?lib = "\<lparr>toml_from_str = (\<lambda>_. Inr ?patch), parse_url = (\<lambda>_. None), read_to_string = Inl\<rparr>"
  have t: "ui_title (overlaid ?patch (Some '' prod '')) = Some ''P''"
    "ui_mcp_apps_sandbox_url (overlaid ?patch (Some '' prod '')) = None" by code_simp+
  then have l: "load_console_ui_config_from_toml_for_realm ?lib [] (Some '' prod '') = Inr (overlaid ?patch (Some '' prod ''))"
    by (simp add: load_overlaid validate_mcp_apps_sandbox_def)
  show ?thesis using loaded_config_normal [OF l] l t(1) by auto
qed

end
