(* ===== verification/Console_Auth.thy ===== *)
theory Console_Auth
  imports Runtime_Types Member_Alias Jwt_Auth Console_Config
begin

text \<open>
  Console authentication: the policy checks (\<open>decisions.rs\<close>), the decision state they assemble
  (\<open>runtime.rs\<close>), and the resolution of a bearer token to an authorized caller
  (\<open>runtime/console_ingress.rs\<close>). The parsers of the trust manifest and of the release metadata
  are parameters, like the crates of \<open>Jwt_Auth\<close>; the clock reading is an argument.
\<close>

section \<open>Policies\<close>

definition REQUIRED_RELEASE_TARGETS :: "string list" where
  "REQUIRED_RELEASE_TARGETS = [''crates.io'', ''npm'', ''pypi'', ''github-releases'']"

datatype DecisionPolicyError =
    EmptyBigQueryDataset | EmptyBigQueryTable | InvalidBigQueryName string | TomlParse string
  | MissingModuleId | MissingModuleCommand | AuthProviderMismatch | AuthProviderNotSupported
  | EmailNotAllowlisted | InvalidServiceIdentity | ServiceIdentityNotAllowlisted
  | ReplicaCountMustBeOne "16 word" | SloTargetsNotSupportedV01 | MissingReleaseTarget string
  | DuplicateReleaseTarget string | InvalidSupportMatrix string | InvalidTrustedAuthConfig string

record BigQueryNaming =
  bq_dataset :: string
  bq_table :: string

record TrustedModuleDecl =
  tm_id :: string
  tm_command :: string
  tm_args :: "string list"
  tm_restart_policy :: "RestartPolicy option"

datatype AuthProvider = GoogleOAuth | GitHubOAuth | GenericOidc | ServiceIdentity | TestProvider

record AuthPolicy =
  au_default_provider :: AuthProvider
  au_email_allowlist :: "string list"

definition AuthPolicy_default :: AuthPolicy where
  "AuthPolicy_default = \<lparr>au_default_provider = GoogleOAuth, au_email_allowlist = []\<rparr>"

record ConsolePolicy =
  cp_require_app_auth :: bool
  cp_read_only :: bool
  cp_fetch_timeout_ms :: "u64 option"
  cp_ui :: ConsoleUiConfig

definition ConsolePolicy_default :: ConsolePolicy where
  "ConsolePolicy_default =
     \<lparr>cp_require_app_auth = True, cp_read_only = False, cp_fetch_timeout_ms = None, cp_ui = ConsoleUiConfig_default\<rparr>"

record ConsoleAccessRequest =
  ar_provider :: AuthProvider
  ar_email :: string

record MetricsPolicy =
  mp_enforce_slo_targets :: bool

record RuntimeOpsPolicy =
  op_replica_count :: "16 word"
  op_metrics :: MetricsPolicy

definition RuntimeOpsPolicy_default :: RuntimeOpsPolicy where
  "RuntimeOpsPolicy_default = \<lparr>op_replica_count = 1, op_metrics = \<lparr>mp_enforce_slo_targets = False\<rparr>\<rparr>"

record ReleaseMetadata =
  rm_targets :: "string list"
  rm_support_matrix :: string

definition bigquery_char :: "char \<Rightarrow> bool" where
  "bigquery_char ch = (is_ascii_alphanumeric (byte ch) \<or> ch = CHR ''_'' \<or> ch = CHR ''-'')"

definition validate_bigquery_naming :: "BigQueryNaming \<Rightarrow> DecisionPolicyError + unit" where
  "validate_bigquery_naming naming =
     (if blank (bq_dataset naming) then Inl EmptyBigQueryDataset
      else if blank (bq_table naming) then Inl EmptyBigQueryTable
      else if \<not> list_all bigquery_char (bq_dataset naming) then Inl (InvalidBigQueryName (bq_dataset naming))
      else if \<not> list_all bigquery_char (bq_table naming) then Inl (InvalidBigQueryName (bq_table naming))
      else Inr ())"

record PolicyLib =
  trust_manifest_from_toml :: "string \<Rightarrow> string + TrustedModuleDecl list"
  release_from_json :: "string \<Rightarrow> string + ReleaseMetadata"

fun trusted_modules :: "TrustedModuleDecl list \<Rightarrow> DecisionPolicyError + ModuleConfig list" where
  "trusted_modules [] = Inr []"
| "trusted_modules (module # modules) =
     (if blank (tm_id module) then Inl MissingModuleId
      else if blank (tm_command module) then Inl MissingModuleCommand
      else case trusted_modules modules of
        Inl e \<Rightarrow> Inl e
      | Inr configs \<Rightarrow> Inr (\<lparr>mc_id = tm_id module, mc_command = tm_command module, mc_args = tm_args module,
          mc_restart_policy = unwrap_or (tm_restart_policy module) RestartOnFailure\<rparr> # configs))"

definition load_trusted_meta_modules_from_toml :: "PolicyLib \<Rightarrow> string \<Rightarrow> DecisionPolicyError + ModuleConfig list" where
  "load_trusted_meta_modules_from_toml lib toml_text =
     (case trust_manifest_from_toml lib toml_text of
        Inl err \<Rightarrow> Inl (TomlParse (''trust manifest TOML: '' @ err))
      | Inr modules \<Rightarrow> trusted_modules modules)"

definition enforce_console_route_access ::
  "AuthPolicy \<Rightarrow> ConsolePolicy \<Rightarrow> ConsoleAccessRequest \<Rightarrow> DecisionPolicyError + unit" where
  "enforce_console_route_access auth_policy console_policy request =
     (if \<not> cp_require_app_auth console_policy then Inr ()
      else if ar_provider request = ServiceIdentity then
        (if \<not> starts_with (ar_email request) ''svc:'' \<or> length (ar_email request) \<le> 4 then Inl InvalidServiceIdentity
         else if ar_email request \<notin> set (au_email_allowlist auth_policy) then Inl ServiceIdentityNotAllowlisted
         else Inr ())
      else if ar_provider request \<noteq> au_default_provider auth_policy then Inl AuthProviderMismatch
      else if ar_provider request = TestProvider then Inl AuthProviderNotSupported
      else if ar_email request \<notin> set (au_email_allowlist auth_policy) then Inl EmailNotAllowlisted
      else Inr ())"

definition validate_runtime_ops_policy :: "RuntimeOpsPolicy \<Rightarrow> DecisionPolicyError + unit" where
  "validate_runtime_ops_policy policy =
     (if op_replica_count policy \<noteq> 1 then Inl (ReplicaCountMustBeOne (op_replica_count policy))
      else if mp_enforce_slo_targets (op_metrics policy) then Inl SloTargetsNotSupportedV01
      else Inr ())"

definition parse_release_metadata_json :: "PolicyLib \<Rightarrow> string \<Rightarrow> DecisionPolicyError + ReleaseMetadata" where
  "parse_release_metadata_json lib json_text =
     (case release_from_json lib json_text of
        Inl err \<Rightarrow> Inl (TomlParse (''release metadata JSON: '' @ err))
      | Inr metadata \<Rightarrow> Inr metadata)"

fun first_duplicate :: "string list \<Rightarrow> string list \<Rightarrow> string option" where
  "first_duplicate seen [] = None"
| "first_duplicate seen (target # targets) =
     (if target \<in> set seen then Some target else first_duplicate (target # seen) targets)"

definition validate_release_metadata :: "ReleaseMetadata \<Rightarrow> DecisionPolicyError + unit" where
  "validate_release_metadata metadata =
     (case first_duplicate [] (rm_targets metadata) of
        Some target \<Rightarrow> Inl (DuplicateReleaseTarget target)
      | None \<Rightarrow>
         (case find (\<lambda>required. required \<notin> set (rm_targets metadata)) REQUIRED_RELEASE_TARGETS of
            Some required \<Rightarrow> Inl (MissingReleaseTarget required)
          | None \<Rightarrow>
              if rm_support_matrix metadata \<noteq> ''same-as-meerkat'' then Inl (InvalidSupportMatrix (rm_support_matrix metadata))
              else Inr ()))"

section \<open>The decision state\<close>

record TrustedOidcRuntimeConfig =
  to_discovery_json :: string
  to_jwks_json :: string
  to_audience :: string
  to_require_verified_email :: bool

record RuntimeDecisionInputs =
  di_bigquery :: BigQueryNaming
  di_trusted_meta_toml :: string
  di_auth :: AuthPolicy
  di_trusted_oidc :: TrustedOidcRuntimeConfig
  di_console :: ConsolePolicy
  di_ops :: RuntimeOpsPolicy
  di_release_metadata_json :: string

record RuntimeDecisionState =
  rds_bigquery :: BigQueryNaming
  rds_modules :: "ModuleConfig list"
  rds_auth :: AuthPolicy
  rds_trusted_oidc :: TrustedOidcRuntimeConfig
  rds_console :: ConsolePolicy
  rds_ops :: RuntimeOpsPolicy
  rds_release_metadata :: ReleaseMetadata

definition LOCAL_CONSOLE_DISCOVERY_JSON :: string where
  \<open>LOCAL_CONSOLE_DISCOVERY_JSON = ''{"issuer":"https://noop.example.com","authorization_endpoint":"https://noop.example.com/auth","token_endpoint":"https://noop.example.com/token","jwks_uri":"https://noop.example.com/.well-known/jwks.json","response_types_supported":["code"],"subject_types_supported":["public"],"id_token_signing_alg_values_supported":["RS256"]}''\<close>

definition LOCAL_CONSOLE_JWKS_JSON :: string where
  \<open>LOCAL_CONSOLE_JWKS_JSON = ''{"keys":[]}''\<close>

definition local_console :: "ConsolePolicy \<Rightarrow> BigQueryNaming option \<Rightarrow> RuntimeDecisionState" where
  "local_console console bigquery =
     \<lparr>rds_bigquery = unwrap_or bigquery \<lparr>bq_dataset = ''default_dataset'', bq_table = ''default_table''\<rparr>, rds_modules = [],
      rds_auth = AuthPolicy_default,
      rds_trusted_oidc = \<lparr>to_discovery_json = LOCAL_CONSOLE_DISCOVERY_JSON, to_jwks_json = LOCAL_CONSOLE_JWKS_JSON,
        to_audience = ''local-console'', to_require_verified_email = False\<rparr>,
      rds_console = console, rds_ops = RuntimeOpsPolicy_default,
      rds_release_metadata = \<lparr>rm_targets = REQUIRED_RELEASE_TARGETS, rm_support_matrix = ''same-as-meerkat''\<rparr>\<rparr>"

definition with_modules :: "ModuleConfig list \<Rightarrow> RuntimeDecisionState \<Rightarrow> RuntimeDecisionState" where
  "with_modules modules state = state\<lparr>rds_modules := modules\<rparr>"

text \<open>The messages carry the \<open>Debug\<close> form of the error, a parameter.\<close>

definition validate_trusted_oidc_runtime_config ::
  "AuthLib \<Rightarrow> (OidcContractError \<Rightarrow> string) \<Rightarrow> TrustedOidcRuntimeConfig \<Rightarrow> DecisionPolicyError + unit" where
  "validate_trusted_oidc_runtime_config lib debug config =
     (if blank (to_audience config) then Inl (InvalidTrustedAuthConfig ''trusted OIDC audience must not be empty'')
      else case parse_oidc_discovery_json lib (to_discovery_json config) of
        Inl err \<Rightarrow> Inl (InvalidTrustedAuthConfig (''invalid trusted OIDC discovery: '' @ debug err))
      | Inr _ \<Rightarrow>
         (case parse_jwks_json lib (to_jwks_json config) of
            Inl err \<Rightarrow> Inl (InvalidTrustedAuthConfig (''invalid trusted JWKS: '' @ debug err))
          | Inr _ \<Rightarrow> Inr ()))"

datatype DecisionRuntimeError = Policy DecisionPolicyError

definition build_runtime_decision_state ::
  "AuthLib \<Rightarrow> PolicyLib \<Rightarrow> (OidcContractError \<Rightarrow> string) \<Rightarrow> RuntimeDecisionInputs \<Rightarrow> DecisionRuntimeError + RuntimeDecisionState" where
  "build_runtime_decision_state lib plib debug input =
     (case validate_bigquery_naming (di_bigquery input) of Inl e \<Rightarrow> Inl (Policy e) | Inr _ \<Rightarrow>
     (case load_trusted_meta_modules_from_toml plib (di_trusted_meta_toml input) of Inl e \<Rightarrow> Inl (Policy e) | Inr modules \<Rightarrow>
     (case validate_runtime_ops_policy (di_ops input) of Inl e \<Rightarrow> Inl (Policy e) | Inr _ \<Rightarrow>
     (case parse_release_metadata_json plib (di_release_metadata_json input) of Inl e \<Rightarrow> Inl (Policy e) | Inr release_metadata \<Rightarrow>
     (case validate_release_metadata release_metadata of Inl e \<Rightarrow> Inl (Policy e) | Inr _ \<Rightarrow>
     (case if cp_require_app_auth (di_console input)
           then validate_trusted_oidc_runtime_config lib debug (di_trusted_oidc input) else Inr () of
        Inl e \<Rightarrow> Inl (Policy e)
      | Inr _ \<Rightarrow> Inr
         \<lparr>rds_bigquery = di_bigquery input, rds_modules = modules, rds_auth = di_auth input, rds_trusted_oidc = di_trusted_oidc input,
          rds_console = di_console input, rds_ops = di_ops input, rds_release_metadata = release_metadata\<rparr>))))))"

section \<open>Development issuers\<close>

fun split_once_str :: "string \<Rightarrow> string \<Rightarrow> (string \<times> string) option" where
  "split_once_str sep s =
     (if starts_with s sep then Some ([], drop (length sep) s)
      else case s of [] \<Rightarrow> None | c # cs \<Rightarrow> map_option (\<lambda>(l, r). (c # l, r)) (split_once_str sep cs))"

declare split_once_str.simps [simp del]

definition extract_uri_host :: "string \<Rightarrow> string option" where
  "extract_uri_host uri =
     (let after_scheme = (case split_once_str ''://'' uri of Some (_, rest) \<Rightarrow> rest | None \<Rightarrow> uri);
          authority_with_path = List.hd (split_on (CHR ''/'') after_scheme);
          authority = last (split_on (CHR ''@'') authority_with_path) in
      if authority = [] then None
      else case strip_prefix authority ''['' of
        Some stripped \<Rightarrow>
         (case split_once (CHR '']'') stripped of
            None \<Rightarrow> None
          | Some (ipv6_host, _) \<Rightarrow> if ipv6_host = [] then None else Some ipv6_host)
      | None \<Rightarrow>
         (let host = (case split_once (CHR '':'') authority of Some (hostname, _) \<Rightarrow> hostname | None \<Rightarrow> authority) in
          if host = [] then None else Some host))"

definition is_development_host :: "string \<Rightarrow> bool" where
  "is_development_host host =
     (let lowercase = to_ascii_lowercase host in
      lowercase = ''localhost'' \<or> lowercase = ''127.0.0.1'' \<or> lowercase = ''::1'' \<or> suffix ''.localhost'' lowercase)"

definition hs256_allowed_for_development_issuer :: "string \<Rightarrow> string \<Rightarrow> bool" where
  "hs256_allowed_for_development_issuer issuer jwks_uri =
     (case (extract_uri_host issuer, extract_uri_host jwks_uri) of
        (Some issuer_host, Some jwks_host) \<Rightarrow> is_development_host issuer_host \<and> is_development_host jwks_host
      | _ \<Rightarrow> False)"

section \<open>From a token to a caller\<close>

datatype ConsoleAuthResolutionError =
    InvalidTrustedOidcConfig | InvalidTokenHeader | JwksKeyNotFound | InvalidJwksKeyMaterial | InvalidToken
  | MissingTokenIdentity | ConsoleHs256NotAllowed | EmailNotVerified

record ConsoleHumanVerification =
  hv_decisions :: RuntimeDecisionState
  hv_token :: string

record AuthenticatedConsoleHuman =
  ah_provider :: AuthProvider
  ah_issuer :: string
  ah_subject :: string
  ah_expires_at_epoch_seconds :: "u64 option"
  ah_token_digest :: string
  ah_login_scope :: "string option"
  ah_verification :: "ConsoleHumanVerification option"

definition human_eq :: "AuthenticatedConsoleHuman \<Rightarrow> AuthenticatedConsoleHuman \<Rightarrow> bool" where
  "human_eq a b =
     (ah_provider a = ah_provider b \<and> ah_issuer a = ah_issuer b \<and> ah_subject a = ah_subject b
      \<and> ah_expires_at_epoch_seconds a = ah_expires_at_epoch_seconds b \<and> ah_token_digest a = ah_token_digest b
      \<and> ah_login_scope a = ah_login_scope b)"

definition token_principal :: "RuntimeDecisionState \<Rightarrow> ValidatedJwt \<Rightarrow> ConsoleAuthResolutionError + string" where
  "token_principal decisions claims =
     (if to_require_verified_email (rds_trusted_oidc decisions) then
        (case vj_email claims of
           None \<Rightarrow> Inl MissingTokenIdentity
         | Some email \<Rightarrow> if vj_email_verified claims \<noteq> Some True then Inl EmailNotVerified else Inr email)
      else ok_or (opt_or (vj_email claims) (vj_subject claims)) MissingTokenIdentity)"

definition token_provider :: "ValidatedJwt \<Rightarrow> string \<Rightarrow> AuthProvider" where
  "token_provider claims who =
     (if vj_actor_type claims = Some ''service'' \<or> starts_with who ''svc:'' then ServiceIdentity
      else if vj_provider claims = Some ''google_oauth'' then GoogleOAuth
      else if vj_provider claims = Some ''github_oauth'' then GitHubOAuth
      else GenericOidc)"

definition token_human ::
  "AuthLib \<Rightarrow> RuntimeDecisionState \<Rightarrow> string \<Rightarrow> string \<Rightarrow> ValidatedJwt \<Rightarrow> AuthProvider \<Rightarrow> AuthenticatedConsoleHuman option" where
  "token_human lib decisions token issuer claims provider =
     (case vj_subject claims of
        None \<Rightarrow> None
      | Some subject \<Rightarrow>
          if provider = ServiceIdentity \<or> blank subject \<or> blank issuer then None
          else Some \<lparr>ah_provider = provider, ah_issuer = issuer, ah_subject = subject,
            ah_expires_at_epoch_seconds = vj_expires_at_epoch_seconds claims, ah_token_digest = sha256_digest lib token,
            ah_login_scope = opt_filter (\<lambda>scope. \<not> blank scope) (vj_session_id claims),
            ah_verification = Some \<lparr>hv_decisions = decisions, hv_token = token\<rparr>\<rparr>)"

definition resolve_console_auth_and_human_from_token ::
  "AuthLib \<Rightarrow> u64 \<Rightarrow> RuntimeDecisionState \<Rightarrow> string
   \<Rightarrow> ConsoleAuthResolutionError + (ConsoleAccessRequest \<times> AuthenticatedConsoleHuman option)" where
  "resolve_console_auth_and_human_from_token lib now_epoch_seconds decisions token =
     (let oidc = rds_trusted_oidc decisions in
      if blank (to_audience oidc) then Inl InvalidTrustedOidcConfig else
      case parse_oidc_discovery_json lib (to_discovery_json oidc) of Inl _ \<Rightarrow> Inl InvalidTrustedOidcConfig | Inr discovery \<Rightarrow>
     (case parse_jwks_json lib (to_jwks_json oidc) of Inl _ \<Rightarrow> Inl InvalidTrustedOidcConfig | Inr jwks \<Rightarrow>
     (case inspect_jwt_header lib token of Inl _ \<Rightarrow> Inl InvalidTokenHeader | Inr header \<Rightarrow>
      if jh_alg header = ''HS256'' \<and> \<not> hs256_allowed_for_development_issuer (od_issuer discovery) (od_jwks_uri discovery)
      then Inl ConsoleHs256NotAllowed else
     (case select_jwk_for_token jwks (jh_kid header) (jh_alg header) of Inl _ \<Rightarrow> Inl JwksKeyNotFound | Inr key \<Rightarrow>
     (case build_jwt_verification_key lib key (jh_alg header) of Inl _ \<Rightarrow> Inl InvalidJwksKeyMaterial | Inr verification_key \<Rightarrow>
     (case validate_jwt_with_verification_key lib token verification_key
             \<lparr>jc_issuer = Some (od_issuer discovery), jc_audience = Some (to_audience oidc),
              jc_now_epoch_seconds = now_epoch_seconds, jc_leeway_seconds = 30\<rparr> of
        Inl _ \<Rightarrow> Inl InvalidToken
      | Inr claims \<Rightarrow>
     (case token_principal decisions claims of
        Inl e \<Rightarrow> Inl e
      | Inr who \<Rightarrow>
         (let provider = token_provider claims who in
          Inr (\<lparr>ar_provider = provider, ar_email = who\<rparr>,
               token_human lib decisions token (od_issuer discovery) claims provider)))))))))"

definition resolve_console_auth_from_token ::
  "AuthLib \<Rightarrow> u64 \<Rightarrow> RuntimeDecisionState \<Rightarrow> string \<Rightarrow> ConsoleAuthResolutionError + ConsoleAccessRequest" where
  "resolve_console_auth_from_token lib now decisions token =
     (case resolve_console_auth_and_human_from_token lib now decisions token of Inl e \<Rightarrow> Inl e | Inr (auth, _) \<Rightarrow> Inr auth)"

definition resolve_authorized_console_human_from_token ::
  "AuthLib \<Rightarrow> u64 \<Rightarrow> RuntimeDecisionState \<Rightarrow> string \<Rightarrow> (ConsoleAccessRequest \<times> AuthenticatedConsoleHuman option) option" where
  "resolve_authorized_console_human_from_token lib now decisions token =
     (case resolve_console_auth_and_human_from_token lib now decisions token of
        Inl _ \<Rightarrow> None
      | Inr (auth, human) \<Rightarrow>
         (case enforce_console_route_access (rds_auth decisions) (rds_console decisions) auth of
            Inl _ \<Rightarrow> None
          | Inr _ \<Rightarrow> Some (auth, human)))"

definition resolve_authorized_console_auth_from_token ::
  "AuthLib \<Rightarrow> u64 \<Rightarrow> RuntimeDecisionState \<Rightarrow> string \<Rightarrow> ConsoleAccessRequest option" where
  "resolve_authorized_console_auth_from_token lib now decisions token =
     map_option fst (resolve_authorized_console_human_from_token lib now decisions token)"

definition validate_console_token :: "AuthLib \<Rightarrow> u64 \<Rightarrow> RuntimeDecisionState \<Rightarrow> string \<Rightarrow> bool" where
  "validate_console_token lib now decisions token = (resolve_authorized_console_auth_from_token lib now decisions token \<noteq> None)"

definition human_current :: "AuthLib \<Rightarrow> u64 \<Rightarrow> AuthenticatedConsoleHuman \<Rightarrow> string option" where
  "human_current lib now self =
     (case ah_verification self of
        None \<Rightarrow> None
      | Some verification \<Rightarrow>
         (case resolve_authorized_console_human_from_token lib now (hv_decisions verification) (hv_token verification) of
            Some (auth, Some human) \<Rightarrow>
              if ah_issuer human = ah_issuer self \<and> ah_subject human = ah_subject self \<and> ah_login_scope human = ah_login_scope self
              then Some (ar_email auth) else None
          | _ \<Rightarrow> None))"

section \<open>The request's credentials\<close>

fun query_pairs :: "string list \<Rightarrow> (string, string) btree \<Rightarrow> (string, string) btree" where
  "query_pairs [] params = params"
| "query_pairs (part # parts) params =
     (if part = [] then query_pairs parts params
      else let (k, v) = unwrap_or (split_once (CHR ''='') part) (part, []) in
        query_pairs parts (if k \<noteq> [] then bt_insert k v params else params))"

definition split_path_and_query :: "string \<Rightarrow> string \<times> (string, string) btree" where
  "split_path_and_query path =
     (let (base, query) = unwrap_or (split_once (CHR ''?'') path) (path, []) in
      (base, query_pairs (split_on (CHR ''&'') query) []))"

definition resolve_console_auth ::
  "AuthLib \<Rightarrow> u64 \<Rightarrow> RuntimeDecisionState \<Rightarrow> ConsoleAccessRequest option \<Rightarrow> (string, string) btree
   \<Rightarrow> ConsoleAuthResolutionError + ConsoleAccessRequest option" where
  "resolve_console_auth lib now decisions explicit_auth query_params =
     (case explicit_auth of
        Some auth \<Rightarrow> Inr (Some auth)
      | None \<Rightarrow>
          if \<not> cp_require_app_auth (rds_console decisions) then Inr None
          else case bt_get query_params ''auth_token'' of
            Some token \<Rightarrow>
             (case resolve_console_auth_from_token lib now decisions token of Inl e \<Rightarrow> Inl e | Inr auth \<Rightarrow> Inr (Some auth))
          | None \<Rightarrow> Inr None)"

definition extract_bearer_token_from_header :: "string \<Rightarrow> string option" where
  "extract_bearer_token_from_header header_value =
     (case strip_prefix header_value ''Bearer '' of None \<Rightarrow> None | Some token \<Rightarrow> if token = [] then None else Some token)"

fun console_auth_error_reason :: "ConsoleAuthResolutionError \<Rightarrow> string" where
  "console_auth_error_reason InvalidTrustedOidcConfig = ''invalid_trusted_oidc_config''"
| "console_auth_error_reason InvalidTokenHeader = ''invalid_token_header''"
| "console_auth_error_reason JwksKeyNotFound = ''jwks_key_not_found''"
| "console_auth_error_reason InvalidJwksKeyMaterial = ''invalid_jwks_key_material''"
| "console_auth_error_reason InvalidToken = ''invalid_token''"
| "console_auth_error_reason MissingTokenIdentity = ''missing_token_identity''"
| "console_auth_error_reason ConsoleHs256NotAllowed = ''hs256_not_allowed''"
| "console_auth_error_reason EmailNotVerified = ''email_not_verified''"

definition auth_error_reason :: "DecisionPolicyError \<Rightarrow> string" where
  "auth_error_reason error =
     (case error of
        AuthProviderMismatch \<Rightarrow> ''provider_mismatch''
      | AuthProviderNotSupported \<Rightarrow> ''provider_not_supported''
      | EmailNotAllowlisted \<Rightarrow> ''email_not_allowlisted''
      | InvalidServiceIdentity \<Rightarrow> ''invalid_service_identity''
      | ServiceIdentityNotAllowlisted \<Rightarrow> ''service_identity_not_allowlisted''
      | _ \<Rightarrow> ''policy_denied'')"

section \<open>What a resolved token rests on\<close>

text \<open>
  The evidence behind a resolved token: the snapshot's documents, the key the token was verified
  with and the claims it carries.
\<close>

definition console_evidence ::
  "AuthLib \<Rightarrow> u64 \<Rightarrow> RuntimeDecisionState \<Rightarrow> string \<Rightarrow> OidcDiscoveryDocument \<Rightarrow> Jwk \<Rightarrow> JwtVerificationKey \<Rightarrow> ValidatedJwt \<Rightarrow> bool" where
  "console_evidence lib now decisions token discovery jwk key jwt \<longleftrightarrow>
     (\<exists>jwks header.
        parse_oidc_discovery_json lib (to_discovery_json (rds_trusted_oidc decisions)) = Inr discovery
        \<and> parse_jwks_json lib (to_jwks_json (rds_trusted_oidc decisions)) = Inr jwks \<and> jwk \<in> set (jd_keys jwks)
        \<and> inspect_jwt_header lib token = Inr header \<and> is_none_or (jh_kid header) (\<lambda>kid. jwk_kid jwk = Some kid)
        \<and> build_jwt_verification_key lib jwk (jh_alg header) = Inr key
        \<and> \<not> blank (to_audience (rds_trusted_oidc decisions)) \<and> \<not> blank (od_issuer discovery)
        \<and> (hmac_key key \<longrightarrow> hs256_allowed_for_development_issuer (od_issuer discovery) (od_jwks_uri discovery))
        \<and> token_verified lib token key \<lparr>jc_issuer = Some (od_issuer discovery),
            jc_audience = Some (to_audience (rds_trusted_oidc decisions)), jc_now_epoch_seconds = now, jc_leeway_seconds = 30\<rparr> jwt)"

lemma resolve_token_ok:
  assumes "resolve_console_auth_and_human_from_token lib now decisions token = Inr (auth, human)"
  obtains discovery jwk key jwt who where
    "console_evidence lib now decisions token discovery jwk key jwt" "token_principal decisions jwt = Inr who"
    "auth = \<lparr>ar_provider = token_provider jwt who, ar_email = who\<rparr>"
    "human = token_human lib decisions token (od_issuer discovery) jwt (token_provider jwt who)"
proof -
  let ?o = "rds_trusted_oidc decisions"
  have aud: "\<not> blank (to_audience ?o)"
    using assms by (auto simp: resolve_console_auth_and_human_from_token_def Let_def)
  obtain discovery where d: "parse_oidc_discovery_json lib (to_discovery_json ?o) = Inr discovery"
    using assms aud by (cases "parse_oidc_discovery_json lib (to_discovery_json ?o)")
      (auto simp: resolve_console_auth_and_human_from_token_def Let_def)
  obtain jwks where j: "parse_jwks_json lib (to_jwks_json ?o) = Inr jwks"
    using assms aud d by (cases "parse_jwks_json lib (to_jwks_json ?o)")
      (auto simp: resolve_console_auth_and_human_from_token_def Let_def)
  obtain header where h: "inspect_jwt_header lib token = Inr header"
    using assms aud d j by (cases "inspect_jwt_header lib token")
      (auto simp: resolve_console_auth_and_human_from_token_def Let_def)
  have hs: "jh_alg header = ''HS256'' \<longrightarrow> hs256_allowed_for_development_issuer (od_issuer discovery) (od_jwks_uri discovery)"
    using assms aud d j h by (auto simp: resolve_console_auth_and_human_from_token_def Let_def split: if_splits)
  obtain jwk where k: "select_jwk_for_token jwks (jh_kid header) (jh_alg header) = Inr jwk"
    using assms aud d j h hs by (cases "select_jwk_for_token jwks (jh_kid header) (jh_alg header)")
      (auto simp: resolve_console_auth_and_human_from_token_def Let_def)
  obtain key where v: "build_jwt_verification_key lib jwk (jh_alg header) = Inr key"
    using assms aud d j h hs k by (cases "build_jwt_verification_key lib jwk (jh_alg header)")
      (auto simp: resolve_console_auth_and_human_from_token_def Let_def)
  let ?c = "\<lparr>jc_issuer = Some (od_issuer discovery), jc_audience = Some (to_audience ?o), jc_now_epoch_seconds = now, jc_leeway_seconds = 30\<rparr>"
  obtain jwt where t: "validate_jwt_with_verification_key lib token key ?c = Inr jwt"
    using assms aud d j h hs k v by (cases "validate_jwt_with_verification_key lib token key ?c")
      (auto simp: resolve_console_auth_and_human_from_token_def Let_def)
  obtain who where w: "token_principal decisions jwt = Inr who"
    using assms aud d j h hs k v t by (cases "token_principal decisions jwt")
      (auto simp: resolve_console_auth_and_human_from_token_def Let_def)
  have "auth = \<lparr>ar_provider = token_provider jwt who, ar_email = who\<rparr>"
    "human = token_human lib decisions token (od_issuer discovery) jwt (token_provider jwt who)"
    using assms aud d j h hs k v t w by (auto simp: resolve_console_auth_and_human_from_token_def Let_def)
  moreover have "hmac_key key \<longrightarrow> jh_alg header = ''HS256''"
    using build_key_supports [OF v] by (cases key) (auto simp: hmac_key_def)
  then have "console_evidence lib now decisions token discovery jwk key jwt"
    unfolding console_evidence_def
    using aud d j h hs v select_jwk_member [OF k] t
    by (intro exI [of _ jwks] exI [of _ header]) (auto simp: validate_jwt_ok parse_oidc_discovery_json_def split: option.splits if_splits)
  ultimately show ?thesis using that w by blast
qed

lemma enforce_ok:
  "enforce_console_route_access policy console request = Inr () \<longleftrightarrow>
     (cp_require_app_auth console \<longrightarrow>
        ar_email request \<in> set (au_email_allowlist policy)
        \<and> (if ar_provider request = ServiceIdentity then starts_with (ar_email request) ''svc:'' \<and> 4 < length (ar_email request)
           else ar_provider request = au_default_provider policy \<and> ar_provider request \<noteq> TestProvider))"
  by (auto simp: enforce_console_route_access_def)

lemma resolve_authorized_ok:
  "resolve_authorized_console_human_from_token lib now decisions token = Some (auth, human) \<longleftrightarrow>
     resolve_console_auth_and_human_from_token lib now decisions token = Inr (auth, human)
     \<and> enforce_console_route_access (rds_auth decisions) (rds_console decisions) auth = Inr ()"
  by (auto simp: resolve_authorized_console_human_from_token_def split: sum.splits)

lemma token_principal_ok:
  "token_principal decisions jwt = Inr who \<Longrightarrow>
     (if to_require_verified_email (rds_trusted_oidc decisions)
      then vj_email jwt = Some who \<and> vj_email_verified jwt = Some True
      else vj_email jwt = Some who \<or> vj_email jwt = None \<and> vj_subject jwt = Some who)"
  by (cases "vj_email jwt"; cases "vj_subject jwt") (auto simp: token_principal_def split: if_splits)

lemma evidence_unexpired:
  assumes "console_evidence lib now decisions token discovery jwk key jwt" "vj_expires_at_epoch_seconds jwt = Some e"
  shows "unat now \<le> unat e + 30"
  using assms by (auto simp: console_evidence_def token_verified_def claims_hold_def jwt_of_def)

lemma token_claims_unique:
  assumes "token_verified lib token k c jwt" "token_verified lib token k' c' jwt'"
  shows "jwt = jwt'"
proof -
  obtain h p s claims where a: "three_parts token h p s" "Option.bind (b64_decode lib p) (value_from_slice lib) = Some claims" "jwt = jwt_of claims"
    using assms(1) by (auto simp: token_verified_def)
  obtain h' p' s' claims' where b: "three_parts token h' p' s'" "Option.bind (b64_decode lib p') (value_from_slice lib) = Some claims'" "jwt' = jwt_of claims'"
    using assms(2) by (auto simp: token_verified_def)
  show ?thesis using a b three_parts_unique [OF a(1) b(1)] by simp
qed

text \<open>Resolution depends on the time only through success: at any two times it gives the same caller.\<close>

lemma resolve_same:
  assumes "resolve_console_auth_and_human_from_token lib now decisions token = Inr (a, h)"
    and "resolve_console_auth_and_human_from_token lib later decisions token = Inr (a', h')"
  shows "a = a' \<and> h = h'"
proof -
  obtain discovery jwk key jwt who where x: "console_evidence lib now decisions token discovery jwk key jwt"
    "token_principal decisions jwt = Inr who" "a = \<lparr>ar_provider = token_provider jwt who, ar_email = who\<rparr>"
    "h = token_human lib decisions token (od_issuer discovery) jwt (token_provider jwt who)"
    using resolve_token_ok [OF assms(1)] by metis
  obtain discovery' jwk' key' jwt' who' where y: "console_evidence lib later decisions token discovery' jwk' key' jwt'"
    "token_principal decisions jwt' = Inr who'" "a' = \<lparr>ar_provider = token_provider jwt' who', ar_email = who'\<rparr>"
    "h' = token_human lib decisions token (od_issuer discovery') jwt' (token_provider jwt' who')"
    using resolve_token_ok [OF assms(2)] by metis
  have "discovery = discovery'" using x(1) y(1) by (auto simp: console_evidence_def)
  moreover have "jwt = jwt'" using x(1) y(1) unfolding console_evidence_def by (metis token_claims_unique)
  ultimately show ?thesis using x y by simp
qed

lemma resolve_human_facts:
  assumes "resolve_console_auth_and_human_from_token lib now decisions token = Inr (auth, Some human)"
  shows "ah_verification human = Some \<lparr>hv_decisions = decisions, hv_token = token\<rparr>"
    and "ah_expires_at_epoch_seconds human = Some e \<Longrightarrow> unat now \<le> unat e + 30"
proof -
  obtain discovery jwk key jwt who where x: "console_evidence lib now decisions token discovery jwk key jwt"
    "Some human = token_human lib decisions token (od_issuer discovery) jwt (token_provider jwt who)"
    using resolve_token_ok [OF assms] by metis
  then have "ah_verification human = Some \<lparr>hv_decisions = decisions, hv_token = token\<rparr>
      \<and> ah_expires_at_epoch_seconds human = vj_expires_at_epoch_seconds jwt"
    by (auto simp: token_human_def split: option.splits if_splits)
  then show "ah_verification human = Some \<lparr>hv_decisions = decisions, hv_token = token\<rparr>"
    "ah_expires_at_epoch_seconds human = Some e \<Longrightarrow> unat now \<le> unat e + 30"
    using evidence_unexpired [OF x(1)] by auto
qed

section \<open>Checked decisions\<close>

lemma trusted_modules_ok:
  "trusted_modules ds = Inr ms \<Longrightarrow> list_all (\<lambda>m. \<not> blank (mc_id m) \<and> \<not> blank (mc_command m)) ms"
  by (induction ds arbitrary: ms) (auto split: if_splits sum.splits)

lemma first_duplicate_None: "first_duplicate seen ts = None \<longleftrightarrow> distinct ts \<and> set ts \<inter> set seen = {}"
  by (induction ts arbitrary: seen) auto

lemma validate_release_metadata_ok:
  "validate_release_metadata m = Inr () \<longleftrightarrow>
     distinct (rm_targets m) \<and> set REQUIRED_RELEASE_TARGETS \<subseteq> set (rm_targets m) \<and> rm_support_matrix m = ''same-as-meerkat''"
proof -
  have d: "first_duplicate [] (rm_targets m) = None \<longleftrightarrow> distinct (rm_targets m)" by (simp add: first_duplicate_None)
  have f: "find (\<lambda>required. required \<notin> set (rm_targets m)) REQUIRED_RELEASE_TARGETS = None \<longleftrightarrow>
      set REQUIRED_RELEASE_TARGETS \<subseteq> set (rm_targets m)" by (auto simp: find_None_iff)
  show ?thesis
    unfolding d [symmetric] f [symmetric] validate_release_metadata_def
    by (cases "first_duplicate [] (rm_targets m)"; cases "find (\<lambda>required. required \<notin> set (rm_targets m)) REQUIRED_RELEASE_TARGETS") simp_all
qed

lemma validate_bigquery_naming_ok:
  "validate_bigquery_naming n = Inr () \<longleftrightarrow>
     \<not> blank (bq_dataset n) \<and> \<not> blank (bq_table n) \<and> list_all bigquery_char (bq_dataset n) \<and> list_all bigquery_char (bq_table n)"
  by (simp add: validate_bigquery_naming_def)

lemma local_console_rejects:
  assumes "jwks_from_str lib LOCAL_CONSOLE_JWKS_JSON = Some \<lparr>jd_keys = []\<rparr>"
  shows "resolve_console_auth_and_human_from_token lib now (local_console policy bigquery) token = Inl InvalidTrustedOidcConfig"
  using assms
  by (auto simp: resolve_console_auth_and_human_from_token_def local_console_def parse_jwks_json_def Let_def split: sum.splits)

lemma local_console_refuses: "enforce_console_route_access AuthPolicy_default ConsolePolicy_default auth \<noteq> Inr ()"
  by (simp add: enforce_ok AuthPolicy_default_def ConsolePolicy_default_def)

section \<open>Properties\<close>

text \<open>A console that trusts the demonstration provider and allowlists its one user.\<close>

definition demo_decisions :: RuntimeDecisionState where
  "demo_decisions =
     (local_console ConsolePolicy_default None)
       \<lparr>rds_auth := \<lparr>au_default_provider = GenericOidc, au_email_allowlist = [''u@x'']\<rparr>,
        rds_trusted_oidc := \<lparr>to_discovery_json = [], to_jwks_json = [], to_audience = ''app'', to_require_verified_email = True\<rparr>\<rparr>"

definition demo_human :: AuthenticatedConsoleHuman where
  "demo_human = \<lparr>ah_provider = GenericOidc, ah_issuer = ''http://idp'', ah_subject = ''u'', ah_expires_at_epoch_seconds = Some 100,
     ah_token_digest = ''h.p.s'', ah_login_scope = None, ah_verification = Some \<lparr>hv_decisions = demo_decisions, hv_token = ''h.p.s''\<rparr>\<rparr>"

lemma demo_console_facts:
  "\<not> blank ''u''" "Option.bind (json_get demo_claims ''email_verified'') as_bool = Some True"
  "claim_str demo_claims ''actor_type'' = None" "claim_str demo_claims ''provider'' = None" "claim_str demo_claims ''sid'' = None"
  "saturating_sub 50 30 = (20 :: u64)"
  by code_simp+

lemma demo_resolved:
  "resolve_authorized_console_human_from_token demo_lib 50 demo_decisions ''h.p.s''
     = Some (\<lparr>ar_provider = GenericOidc, ar_email = ''u@x''\<rparr>, Some demo_human)"
  by (simp add: resolve_authorized_console_human_from_token_def resolve_console_auth_and_human_from_token_def
      demo_decisions_def local_console_def demo_eval demo_console_facts token_principal_def token_provider_def token_human_def
      enforce_console_route_access_def ConsolePolicy_default_def demo_human_def)

text \<open>
  C9. A token the console authorizes was verified against the trusted snapshot: with one of its
  keys, for its issuer and its audience, within 30 seconds of its times, and by shared secret
  only where both hosts are development hosts. Where application authentication is
  required the caller is allowlisted under the policy's provider, or an allowlisted service
  identity; where verified email is required the caller is the verified address, never the
  subject. A human is reported only for a subject that is not a service, under the verified issuer.
\<close>

theorem console_token_authorized:
  assumes "resolve_authorized_console_human_from_token lib now decisions token = Some (auth, human)"
  shows "\<exists>discovery jwk key jwt. console_evidence lib now decisions token discovery jwk key jwt
    \<and> (cp_require_app_auth (rds_console decisions) \<longrightarrow>
         ar_email auth \<in> set (au_email_allowlist (rds_auth decisions))
         \<and> (if ar_provider auth = ServiceIdentity then starts_with (ar_email auth) ''svc:'' \<and> 4 < length (ar_email auth)
            else ar_provider auth = au_default_provider (rds_auth decisions)))
    \<and> (if to_require_verified_email (rds_trusted_oidc decisions)
       then vj_email jwt = Some (ar_email auth) \<and> vj_email_verified jwt = Some True
       else vj_email jwt = Some (ar_email auth) \<or> vj_email jwt = None \<and> vj_subject jwt = Some (ar_email auth))
    \<and> (\<forall>h. human = Some h \<longrightarrow> ah_provider h \<noteq> ServiceIdentity \<and> vj_subject jwt = Some (ah_subject h)
         \<and> ah_issuer h = od_issuer discovery \<and> vj_issuer jwt = Some (ah_issuer h)
         \<and> ah_verification h = Some \<lparr>hv_decisions = decisions, hv_token = token\<rparr>)"
proof -
  have r: "resolve_console_auth_and_human_from_token lib now decisions token = Inr (auth, human)"
    and e: "enforce_console_route_access (rds_auth decisions) (rds_console decisions) auth = Inr ()"
    using assms by (simp_all add: resolve_authorized_ok)
  obtain discovery jwk key jwt who where t: "console_evidence lib now decisions token discovery jwk key jwt"
    "token_principal decisions jwt = Inr who" "auth = \<lparr>ar_provider = token_provider jwt who, ar_email = who\<rparr>"
    "human = token_human lib decisions token (od_issuer discovery) jwt (token_provider jwt who)"
    using resolve_token_ok [OF r] by metis
  have iss: "vj_issuer jwt = Some (od_issuer discovery)"
    using t(1) by (auto simp: console_evidence_def token_verified_def claims_hold_def jwt_of_def)
  have hum: "ah_provider h \<noteq> ServiceIdentity \<and> vj_subject jwt = Some (ah_subject h) \<and> ah_issuer h = od_issuer discovery
      \<and> ah_verification h = Some \<lparr>hv_decisions = decisions, hv_token = token\<rparr>" if "human = Some h" for h
    using that t(4) by (auto simp: token_human_def split: option.splits if_splits)
  have pr: "if to_require_verified_email (rds_trusted_oidc decisions)
       then vj_email jwt = Some (ar_email auth) \<and> vj_email_verified jwt = Some True
       else vj_email jwt = Some (ar_email auth) \<or> vj_email jwt = None \<and> vj_subject jwt = Some (ar_email auth)"
    using token_principal_ok [OF t(2)] t(3) by simp
  have en: "cp_require_app_auth (rds_console decisions) \<longrightarrow>
         ar_email auth \<in> set (au_email_allowlist (rds_auth decisions))
         \<and> (if ar_provider auth = ServiceIdentity then starts_with (ar_email auth) ''svc:'' \<and> 4 < length (ar_email auth)
            else ar_provider auth = au_default_provider (rds_auth decisions))"
    using e unfolding enforce_ok by (auto split: if_splits)
  show ?thesis
  proof (intro exI conjI)
    show "console_evidence lib now decisions token discovery jwk key jwt" by (rule t(1))
    show "\<forall>h. human = Some h \<longrightarrow> ah_provider h \<noteq> ServiceIdentity \<and> vj_subject jwt = Some (ah_subject h)
         \<and> ah_issuer h = od_issuer discovery \<and> vj_issuer jwt = Some (ah_issuer h)
         \<and> ah_verification h = Some \<lparr>hv_decisions = decisions, hv_token = token\<rparr>"
      using hum iss by simp
  qed (use pr en in auto)
qed

theorem console_token_authorized_witness:
  "\<exists>discovery jwk key jwt. console_evidence demo_lib 50 demo_decisions ''h.p.s'' discovery jwk key jwt
     \<and> vj_email jwt = Some ''u@x'' \<and> vj_email_verified jwt = Some True"
proof -
  have "to_require_verified_email (rds_trusted_oidc demo_decisions)" by (simp add: demo_decisions_def)
  then show ?thesis using console_token_authorized [OF demo_resolved] by auto
qed

text \<open>
  C28. Checking a human again succeeds only if the retained token still verifies at that moment
  under the decisions it was accepted with, and gives the caller's access principal; once the
  token's expiry is past the leeway the human is never current again.
\<close>

theorem human_current_reverifies:
  assumes "resolve_authorized_console_human_from_token lib now decisions token = Some (auth, Some human)"
  shows "human_current lib later human =
      map_option (\<lambda>(auth, _). ar_email auth) (resolve_authorized_console_human_from_token lib later decisions token)
    \<and> (\<forall>e. ah_expires_at_epoch_seconds human = Some e \<longrightarrow> unat e + 30 < unat later \<longrightarrow> human_current lib later human = None)"
proof -
  have r: "resolve_console_auth_and_human_from_token lib now decisions token = Inr (auth, Some human)"
    using assms by (simp add: resolve_authorized_ok)
  note v = resolve_human_facts(1) [OF r]
  have cur: "human_current lib later human =
      map_option (\<lambda>(auth, _). ar_email auth) (resolve_authorized_console_human_from_token lib later decisions token)"
  proof (cases "resolve_authorized_console_human_from_token lib later decisions token")
    case None
    then show ?thesis by (simp add: human_current_def v)
  next
    case (Some ah)
    obtain a h where ah: "ah = (a, h)" by (cases ah)
    have "resolve_console_auth_and_human_from_token lib later decisions token = Inr (a, h)"
      using Some ah by (simp add: resolve_authorized_ok)
    then have "a = auth \<and> h = Some human" using resolve_same r by blast
    then show ?thesis using Some ah by (simp add: human_current_def v)
  qed
  moreover have "human_current lib later human = None"
    if e: "ah_expires_at_epoch_seconds human = Some e" "unat e + 30 < unat later" for e
  proof (rule ccontr)
    assume "human_current lib later human \<noteq> None"
    then obtain a h where a: "resolve_authorized_console_human_from_token lib later decisions token = Some (a, h)"
      using cur by (cases "resolve_authorized_console_human_from_token lib later decisions token") auto
    then have l: "resolve_console_auth_and_human_from_token lib later decisions token = Inr (a, h)" by (simp add: resolve_authorized_ok)
    then have "h = Some human" using resolve_same r by blast
    then have "unat later \<le> unat e + 30" using resolve_human_facts(2) l e(1) by blast
    then show False using e(2) by simp
  qed
  ultimately show ?thesis by blast
qed

theorem human_current_reverifies_witness:
  "human_current demo_lib 50 demo_human = Some ''u@x'' \<and> human_current demo_lib 131 demo_human = None"
proof -
  have "ah_expires_at_epoch_seconds demo_human = Some 100" "unat (100 :: u64) + 30 < unat (131 :: u64)"
    by (simp_all add: demo_human_def)
  then show ?thesis
    using human_current_reverifies [OF demo_resolved, of 50] human_current_reverifies [OF demo_resolved, of 131] demo_resolved by auto
qed

text \<open>
  The decision state is built exactly from inputs that pass every check, and a console that
  requires authentication then has an audience, an issuer and at least one key to verify with.
\<close>

theorem build_runtime_decision_state_checked:
  assumes "build_runtime_decision_state lib plib debug input = Inr state"
  shows "list_all bigquery_char (bq_dataset (rds_bigquery state)) \<and> list_all bigquery_char (bq_table (rds_bigquery state))
    \<and> bq_dataset (rds_bigquery state) \<noteq> [] \<and> bq_table (rds_bigquery state) \<noteq> []
    \<and> list_all (\<lambda>m. \<not> blank (mc_id m) \<and> \<not> blank (mc_command m)) (rds_modules state)
    \<and> op_replica_count (rds_ops state) = 1
    \<and> distinct (rm_targets (rds_release_metadata state)) \<and> set REQUIRED_RELEASE_TARGETS \<subseteq> set (rm_targets (rds_release_metadata state))
    \<and> (cp_require_app_auth (rds_console state) \<longrightarrow>
         (\<exists>discovery jwks. parse_oidc_discovery_json lib (to_discovery_json (rds_trusted_oidc state)) = Inr discovery
            \<and> parse_jwks_json lib (to_jwks_json (rds_trusted_oidc state)) = Inr jwks \<and> jd_keys jwks \<noteq> []
            \<and> \<not> blank (od_issuer discovery) \<and> \<not> blank (to_audience (rds_trusted_oidc state))))"
proof -
  obtain modules where m: "load_trusted_meta_modules_from_toml plib (di_trusted_meta_toml input) = Inr modules"
    and bq: "validate_bigquery_naming (di_bigquery input) = Inr ()"
    using assms by (auto simp: build_runtime_decision_state_def split: sum.splits)
  have ops: "validate_runtime_ops_policy (di_ops input) = Inr ()"
    using assms m bq by (auto simp: build_runtime_decision_state_def split: sum.splits)
  obtain rel where r: "parse_release_metadata_json plib (di_release_metadata_json input) = Inr rel" "validate_release_metadata rel = Inr ()"
    using assms m bq ops by (auto simp: build_runtime_decision_state_def split: sum.splits)
  have oidc: "cp_require_app_auth (di_console input) \<longrightarrow> validate_trusted_oidc_runtime_config lib debug (di_trusted_oidc input) = Inr ()"
    using assms m bq ops r by (auto simp: build_runtime_decision_state_def split: sum.splits)
  then have st: "state = \<lparr>rds_bigquery = di_bigquery input, rds_modules = modules, rds_auth = di_auth input,
      rds_trusted_oidc = di_trusted_oidc input, rds_console = di_console input, rds_ops = di_ops input, rds_release_metadata = rel\<rparr>"
    using assms m bq ops r by (auto simp: build_runtime_decision_state_def split: if_splits)
  have mods: "list_all (\<lambda>m. \<not> blank (mc_id m) \<and> \<not> blank (mc_command m)) modules"
    using m by (auto simp: load_trusted_meta_modules_from_toml_def dest: trusted_modules_ok split: sum.splits)
  have oidc': "\<exists>discovery jwks. parse_oidc_discovery_json lib (to_discovery_json c) = Inr discovery
      \<and> parse_jwks_json lib (to_jwks_json c) = Inr jwks \<and> jd_keys jwks \<noteq> [] \<and> \<not> blank (od_issuer discovery) \<and> \<not> blank (to_audience c)"
    if "validate_trusted_oidc_runtime_config lib debug c = Inr ()" for c
    using that by (auto simp: validate_trusted_oidc_runtime_config_def parse_oidc_discovery_json_def parse_jwks_json_def
        split: sum.splits if_splits option.splits)
  show ?thesis
    using bq ops r(2) mods oidc oidc' unfolding st validate_bigquery_naming_ok validate_release_metadata_ok
    by (auto simp: validate_runtime_ops_policy_def split: if_splits)
qed

theorem build_runtime_decision_state_checked_witness:
  "\<exists>state. build_runtime_decision_state demo_lib
       \<lparr>trust_manifest_from_toml = (\<lambda>_. Inr [\<lparr>tm_id = ''m'', tm_command = ''c'', tm_args = [], tm_restart_policy = None\<rparr>]),
        release_from_json = (\<lambda>_. Inr \<lparr>rm_targets = REQUIRED_RELEASE_TARGETS, rm_support_matrix = ''same-as-meerkat''\<rparr>)\<rparr> (\<lambda>_. [])
       \<lparr>di_bigquery = \<lparr>bq_dataset = ''d'', bq_table = ''t''\<rparr>, di_trusted_meta_toml = [], di_auth = AuthPolicy_default,
        di_trusted_oidc = rds_trusted_oidc demo_decisions, di_console = ConsolePolicy_default, di_ops = RuntimeOpsPolicy_default,
        di_release_metadata_json = []\<rparr> = Inr state
     \<and> map mc_id (rds_modules state) = [''m''] \<and> op_replica_count (rds_ops state) = 1"
proof -
  let ?plib = "\<lparr>trust_manifest_from_toml = (\<lambda>_. Inr [\<lparr>tm_id = ''m'', tm_command = ''c'', tm_args = [], tm_restart_policy = None\<rparr>]),
        release_from_json = (\<lambda>_. Inr \<lparr>rm_targets = REQUIRED_RELEASE_TARGETS, rm_support_matrix = ''same-as-meerkat''\<rparr>)\<rparr>"
  let ?in = "\<lparr>di_bigquery = \<lparr>bq_dataset = ''d'', bq_table = ''t''\<rparr>, di_trusted_meta_toml = [], di_auth = AuthPolicy_default,
        di_trusted_oidc = rds_trusted_oidc demo_decisions, di_console = ConsolePolicy_default, di_ops = RuntimeOpsPolicy_default,
        di_release_metadata_json = []\<rparr>"
  have f: "\<not> blank ''d''" "\<not> blank ''t''" "\<not> blank ''m''" "\<not> blank ''c''" by code_simp+
  have r: "validate_release_metadata \<lparr>rm_targets = REQUIRED_RELEASE_TARGETS, rm_support_matrix = ''same-as-meerkat''\<rparr> = Inr ()"
    by (simp add: validate_release_metadata_ok REQUIRED_RELEASE_TARGETS_def)
  have o: "validate_trusted_oidc_runtime_config demo_lib (\<lambda>_. []) (rds_trusted_oidc demo_decisions) = Inr ()"
    by (simp add: validate_trusted_oidc_runtime_config_def demo_decisions_def demo_eval)
  obtain state where b: "build_runtime_decision_state demo_lib ?plib (\<lambda>_. []) ?in = Inr state" "map mc_id (rds_modules state) = [''m'']"
    using f r o by (simp add: build_runtime_decision_state_def validate_bigquery_naming_def bigquery_char_def is_ascii_alphanumeric_def
        is_ascii_alphabetic_def byte_def load_trusted_meta_modules_from_toml_def validate_runtime_ops_policy_def
        RuntimeOpsPolicy_default_def parse_release_metadata_json_def)
  moreover have "op_replica_count (rds_ops state) = 1" using build_runtime_decision_state_checked [OF b(1)] by blast
  ultimately show ?thesis by (intro exI [of _ state] conjI)
qed

end
