(* ===== verification/Console_Experience.thy ===== *)
theory Console_Experience
  imports Access_Controller Console_Auth
begin

text \<open>
  The console's JSON routes (\<open>runtime/console_ingress.rs\<close>): the live snapshot, the experience
  document built from it, its intersection with the caller's grants, and the route handler with
  its authentication. The JSON form of the view configuration is a parameter. The handler primes
  the attribute cache of the access controller, so it returns the controller too.
\<close>

section \<open>Snapshots\<close>

record ConsoleModelCapabilities =
  mc_image_input :: bool

record ConsoleMember =
  cm_agent_identity :: string
  cm_role :: string
  cm_state :: string
  cm_model_capabilities :: ConsoleModelCapabilities
  cm_runtime_mode :: "string option"
  cm_session_id :: "string option"
  cm_wired_to :: "string list"
  cm_labels :: "(string, string) btree"
  cm_progress :: "json option"

record ConsoleRestJsonRequest =
  rq_method :: string
  rq_path :: string
  rq_auth :: "ConsoleAccessRequest option"

record ConsoleRestJsonResponse =
  rs_status :: nat
  rs_body :: json

record ConsoleAgentLiveSnapshot =
  ca_agent_id :: string
  ca_member_id :: string
  ca_label :: string
  ca_kind :: string
  ca_identity :: "string option"
  ca_role :: "string option"
  ca_state :: "string option"
  ca_session_id :: "string option"
  ca_model_capabilities :: ConsoleModelCapabilities
  ca_response_phase :: "string option option"
  ca_watched :: "bool option"
  ca_alert_level :: "string option"
  ca_degraded :: "bool option"
  ca_degraded_reason :: "string option"

record ConsoleLiveSnapshot =
  sn_runtime_id :: "string option"
  sn_running :: bool
  sn_loaded_modules :: "string list"
  sn_agents :: "ConsoleAgentLiveSnapshot list"
  sn_members :: "ConsoleMember list"
  sn_has_mob_runtime :: bool

definition console_member_console_identity :: "ConsoleMember \<Rightarrow> string" where
  "console_member_console_identity member = unwrap_or (durable_identity_label (cm_labels member)) (cm_agent_identity member)"

text \<open>The first of the elements with each key stays.\<close>

fun dedup_by :: "('a \<Rightarrow> 'k) \<Rightarrow> 'k list \<Rightarrow> 'a list \<Rightarrow> 'a list" where
  "dedup_by key seen [] = []"
| "dedup_by key seen (x # xs) =
     (if key x \<in> set seen then dedup_by key seen xs else x # dedup_by key (key x # seen) xs)"

definition ConsoleLiveSnapshot_new ::
  "string option \<Rightarrow> bool \<Rightarrow> string list \<Rightarrow> ConsoleAgentLiveSnapshot list \<Rightarrow> ConsoleMember list \<Rightarrow> bool \<Rightarrow> ConsoleLiveSnapshot" where
  "ConsoleLiveSnapshot_new runtime_id running loaded_modules agents members has_mob_runtime =
     \<lparr>sn_runtime_id = runtime_id, sn_running = running, sn_loaded_modules = dedup_by id [] loaded_modules,
      sn_agents = dedup_by ca_agent_id [] agents, sn_members = members, sn_has_mob_runtime = has_mob_runtime\<rparr>"

definition default_agent :: "string \<Rightarrow> ConsoleAgentLiveSnapshot" where
  "default_agent module_id =
     \<lparr>ca_agent_id = module_id, ca_member_id = module_id, ca_label = module_id, ca_kind = ''module_agent'', ca_identity = None,
      ca_role = None, ca_state = Some ''idle'', ca_session_id = None, ca_model_capabilities = \<lparr>mc_image_input = False\<rparr>,
      ca_response_phase = None, ca_watched = None, ca_alert_level = None, ca_degraded = None, ca_degraded_reason = None\<rparr>"

definition default_console_live_snapshot :: "RuntimeDecisionState \<Rightarrow> ConsoleLiveSnapshot" where
  "default_console_live_snapshot decisions =
     (let loaded_modules = map mc_id (rds_modules decisions) in
      ConsoleLiveSnapshot_new None (rds_modules decisions \<noteq> []) loaded_modules (map default_agent loaded_modules) [] False)"

section \<open>The caller's view of a snapshot\<close>

definition agent_attributes :: "ConsoleAgentLiveSnapshot \<Rightarrow> AgentResourceAttributes" where
  "agent_attributes agent =
     \<lparr>at_identity = unwrap_or (ca_identity agent) (ca_agent_id agent), at_agent_id = Some (ca_agent_id agent),
      at_role = ca_role agent, at_labels = []\<rparr>"

definition member_attributes :: "ConsoleMember \<Rightarrow> AgentResourceAttributes" where
  "member_attributes member =
     \<lparr>at_identity = console_member_console_identity member, at_agent_id = Some (cm_agent_identity member),
      at_role = Some (cm_role member), at_labels = cm_labels member\<rparr>"

definition prime_access_attributes :: "ConsoleLiveSnapshot \<Rightarrow> AccessController \<Rightarrow> AccessController" where
  "prime_access_attributes snapshot controller =
     (let controller = fold (\<lambda>agent. record_agent_attributes (agent_attributes agent)) (sn_agents snapshot) controller in
      fold (\<lambda>member. record_agent_attributes (member_attributes member)) (sn_members snapshot) controller)"

definition member_access_resource :: "ConsoleMember \<Rightarrow> AccessResource" where
  "member_access_resource member =
     \<lparr>re_identity = Some (console_member_console_identity member), re_agent_id = Some (cm_agent_identity member),
      re_role = Some (cm_role member), re_labels = Some (cm_labels member)\<rparr>"

definition enforced :: "AccessView \<Rightarrow> bool" where
  "enforced view = ac_enabled (vw_config view)"

definition filter_snapshot_for_access :: "AccessController \<Rightarrow> AccessView \<Rightarrow> ConsoleLiveSnapshot \<Rightarrow> ConsoleLiveSnapshot" where
  "filter_snapshot_for_access controller view snapshot =
     (if \<not> enforced view then snapshot
      else snapshot
        \<lparr>sn_members := filter (\<lambda>member. is_allow (decide view ACTION_AGENT_VIEW (member_access_resource member))) (sn_members snapshot),
         sn_agents := filter (\<lambda>agent. allows_agent controller view ACTION_AGENT_VIEW (unwrap_or (ca_identity agent) (ca_agent_id agent)))
           (sn_agents snapshot),
         sn_loaded_modules := filter (\<lambda>module_id. allows_agent controller view ACTION_AGENT_VIEW module_id) (sn_loaded_modules snapshot)\<rparr>)"

section \<open>Sidebar rows\<close>

definition json_capabilities :: "ConsoleModelCapabilities \<Rightarrow> json" where
  "json_capabilities c = json_object [(''image_input'', JBool (mc_image_input c))]"

definition json_strings :: "string list \<Rightarrow> json" where
  "json_strings xs = JArray (map JString xs)"

definition json_labels :: "(string, string) btree \<Rightarrow> json" where
  "json_labels labels = JObject (map (\<lambda>(k, v). (k, JString v)) labels)"

text \<open>\<open>value[key] = v\<close> on an object.\<close>

definition json_set :: "string \<Rightarrow> json \<Rightarrow> json \<Rightarrow> json" where
  "json_set key v value = (case as_object value of Some members \<Rightarrow> JObject (bt_insert key v members) | None \<Rightarrow> value)"

definition label_addressable :: "ConsoleMember \<Rightarrow> bool" where
  "label_addressable member = unwrap_or (map_option (\<lambda>v. v \<noteq> ''false'') (bt_get (cm_labels member) ''addressable'')) True"

definition member_addressable :: "ConsoleMember \<Rightarrow> bool" where
  "member_addressable member = (cm_state member = ''active'' \<and> label_addressable member)"

definition member_label :: "ConsoleMember \<Rightarrow> string" where
  "member_label member = unwrap_or (bt_get (cm_labels member) ''display_name'') (cm_agent_identity member)"

definition member_affordances :: "bool \<Rightarrow> bool \<Rightarrow> ConsoleMember \<Rightarrow> json" where
  "member_affordances is_read_only is_aggregate_console member =
     (let is_active = cm_state member = ''active'';
          addressable = member_addressable member;
          can_send_message = addressable \<and> \<not> is_read_only;
          singleton = unwrap_or (map_option (\<lambda>v. v = ''true'') (bt_get (cm_labels member) ''singleton'')) False in
      json_object [(''addressable'', JBool addressable), (''can_send_message'', JBool can_send_message),
        (''can_retire'', JBool (is_active \<and> \<not> is_read_only \<and> \<not> is_aggregate_console \<and> \<not> singleton)),
        (''can_respawn'', JBool (\<not> is_read_only \<and> \<not> is_aggregate_console)),
        (''runtime_mode'', JString (if is_aggregate_console then ''console_aggregator'' else ''mob_agent''))])"

definition label_flag :: "ConsoleMember \<Rightarrow> string \<Rightarrow> bool option" where
  "label_flag member key = map_option (\<lambda>value. value = ''true'') (bt_get (cm_labels member) key)"

definition member_fields :: "bool \<Rightarrow> bool \<Rightarrow> ConsoleMember \<Rightarrow> (string \<times> json) list" where
  "member_fields is_read_only is_aggregate_console member =
     [(''agent_id'', JString (cm_agent_identity member)),
      (''member_id'', JString (cm_agent_identity member)),
      (''identity'', JString (console_member_console_identity member)),
      (''label'', JString (member_label member)),
      (''kind'', JString ''mob_agent''),
      (''role'', JString (cm_role member)),
      (''state'', JString (cm_state member)),
      (''progress'', json_option id (cm_progress member)),
      (''model_capabilities'', json_capabilities (cm_model_capabilities member)),
      (''session_id'', json_option JString (cm_session_id member)),
      (''wired_to'', json_strings (cm_wired_to member)),
      (''labels'', json_labels (cm_labels member)),
      (''group'', JString (unwrap_or (bt_get (cm_labels member) ''group'') (cm_role member))),
      (''addressable'', JBool (member_addressable member)),
      (''watched'', json_option JBool (label_flag member ''console_watched'')),
      (''alertLevel'', json_option JString
         (opt_filter (\<lambda>value. value = ''elevated'' \<or> value = ''critical'') (bt_get (cm_labels member) ''console_alert_level''))),
      (''degraded'', json_option JBool (label_flag member ''console_degraded'')),
      (''degradedReason'', json_option JString (bt_get (cm_labels member) ''console_degraded_reason'')),
      (''affordances'', member_affordances is_read_only is_aggregate_console member)]"

definition member_row :: "bool \<Rightarrow> bool \<Rightarrow> (string, string option) btree \<Rightarrow> ConsoleMember \<Rightarrow> json" where
  "member_row is_read_only is_aggregate_console response_phases member =
     (let record = json_object (member_fields is_read_only is_aggregate_console member) in
      case bt_get response_phases (console_member_console_identity member) of
        Some phase \<Rightarrow> json_set ''response_phase'' (json_option JString phase) record
      | None \<Rightarrow> record)"

definition module_row :: "string \<Rightarrow> json" where
  "module_row module_id =
     json_object [(''agent_id'', JString module_id), (''member_id'', JString module_id), (''label'', JString module_id),
       (''kind'', JString ''module_agent'')]"

definition has_extended_agent_contract :: "ConsoleAgentLiveSnapshot \<Rightarrow> bool" where
  "has_extended_agent_contract agent =
     (ca_role agent \<noteq> None \<or> ca_session_id agent \<noteq> None \<or> ca_model_capabilities agent \<noteq> \<lparr>mc_image_input = False\<rparr>
      \<or> ca_response_phase agent \<noteq> None \<or> ca_watched agent \<noteq> None \<or> ca_alert_level agent \<noteq> None \<or> ca_degraded agent \<noteq> None
      \<or> ca_degraded_reason agent \<noteq> None \<or> ca_kind agent \<noteq> ''module_agent'' \<or> ca_member_id agent \<noteq> ca_agent_id agent
      \<or> ca_label agent \<noteq> ca_agent_id agent)"

definition aggregate_affordances :: "bool \<Rightarrow> json" where
  "aggregate_affordances is_read_only =
     json_object [(''addressable'', JBool True), (''can_send_message'', JBool (\<not> is_read_only)), (''can_retire'', JBool False),
       (''can_respawn'', JBool False), (''runtime_mode'', JString ''console_aggregator'')]"

definition agent_row :: "bool \<Rightarrow> bool \<Rightarrow> ConsoleAgentLiveSnapshot \<Rightarrow> json" where
  "agent_row is_read_only is_aggregate_console agent =
     json_object (
       [(''agent_id'', JString (ca_agent_id agent)), (''member_id'', JString (ca_member_id agent)),
        (''label'', JString (ca_label agent)), (''kind'', JString (ca_kind agent))]
       @ json_some ''role'' JString (ca_role agent)
       @ json_some ''state'' JString (ca_state agent)
       @ json_some ''identity'' JString (ca_identity agent)
       @ json_some ''session_id'' JString (ca_session_id agent)
       @ [(''model_capabilities'', json_capabilities (ca_model_capabilities agent))]
       @ json_some ''response_phase'' (json_option JString) (ca_response_phase agent)
       @ (if is_aggregate_console
          then [(''addressable'', JBool True), (''affordances'', aggregate_affordances is_read_only)] else [])
       @ json_some ''watched'' JBool (ca_watched agent)
       @ json_some ''alertLevel'' JString (ca_alert_level agent)
       @ json_some ''degraded'' JBool (ca_degraded agent)
       @ json_some ''degradedReason'' JString (ca_degraded_reason agent))"

definition response_phase_map :: "ConsoleAgentLiveSnapshot list \<Rightarrow> (string, string option) btree" where
  "response_phase_map agents =
     bt_of_list (List.map_filter (\<lambda>agent.
       map_option (\<lambda>phase. (unwrap_or (ca_identity agent) (ca_member_id agent), phase)) (ca_response_phase agent)) agents)"

definition is_aggregate :: "ConsoleLiveSnapshot \<Rightarrow> bool" where
  "is_aggregate snapshot = (sn_runtime_id snapshot = Some ''console-aggregator'')"

definition sidebar_agents :: "bool \<Rightarrow> ConsoleLiveSnapshot \<Rightarrow> json list" where
  "sidebar_agents is_read_only live_snapshot =
     (let has_roster_members = sn_has_mob_runtime live_snapshot \<and> sn_members live_snapshot \<noteq> [] in
      if has_roster_members
      then map (member_row is_read_only (is_aggregate live_snapshot) (response_phase_map (sn_agents live_snapshot)))
             (sort_key cm_agent_identity (sn_members live_snapshot))
      else if list_ex has_extended_agent_contract (sn_agents live_snapshot)
      then map (agent_row is_read_only (is_aggregate live_snapshot)) (sn_agents live_snapshot)
      else map module_row (sn_loaded_modules live_snapshot))"

definition identity_status_row :: "json \<Rightarrow> json" where
  "identity_status_row agent =
     (let field = (\<lambda>key. Option.bind (json_get agent key) as_str);
          identity = unwrap_or (opt_or (field ''identity'') (field ''member_id'')) [];
          display_name = opt_filter (\<lambda>label. label \<noteq> identity) (field ''label'');
          state = unwrap_or (field ''state'') ''unknown'';
          labels = unwrap_or (json_get agent ''labels'') (json_object []);
          addressability =
            (if unwrap_or (Option.bind (json_get agent ''addressable'') as_bool) True then ''addressable'' else ''internal_only'') in
      json_object (
        [(''identity'', JString identity), (''state'', JString state), (''addressability'', JString addressability),
         (''labels'', labels)]
        @ json_some ''display_name'' JString display_name
        @ json_some ''role'' JString (field ''role'')
        @ json_some ''generation'' json_u64 (Option.bind (json_get agent ''generation'') as_u64)
        @ json_some ''checkpoint_version'' json_u64 (Option.bind (json_get agent ''checkpoint_version'') as_u64)
        @ json_some ''lease_healthy'' JBool (Option.bind (json_get agent ''lease_healthy'') as_bool)
        @ json_some ''progress'' id (opt_filter (\<lambda>value. \<not> is_null value) (json_get agent ''progress''))
        @ json_some ''response_phase'' id (json_get agent ''response_phase'')
        @ json_some ''model_capabilities'' id (json_get agent ''model_capabilities'')
        @ json_some ''session_id'' JString (field ''session_id'')))"

definition build_identity_status_rows :: "json list \<Rightarrow> json list" where
  "build_identity_status_rows agents = map identity_status_row agents"

section \<open>Sections of the document\<close>

definition CONSOLE_EXPERIENCE_ROUTE :: string where
  "CONSOLE_EXPERIENCE_ROUTE = ''/console/experience''"

definition CONSOLE_MODULES_ROUTE :: string where
  "CONSOLE_MODULES_ROUTE = ''/console/modules''"

definition META_CONTRACT_VERSION :: string where
  "META_CONTRACT_VERSION = ''0.5.0''"

definition module_panel :: "string \<Rightarrow> json" where
  "module_panel module_id =
     json_object [(''panel_id'', JString (''module.'' @ module_id)), (''module_id'', JString module_id),
       (''title'', JString (module_id @ '' module'')), (''route'', JString (''/console/modules/'' @ module_id)),
       (''capabilities'', json_object [(''can_render'', JBool True), (''can_subscribe_activity'', JBool True)])]"

definition count_profile ::
  "ConsoleMember \<Rightarrow> (string, nat \<times> bool \<times> bool) btree \<Rightarrow> (string, nat \<times> bool \<times> bool) btree" where
  "count_profile member profiles =
     (let (count, addressable, has_wiring) = unwrap_or (bt_get profiles (cm_role member)) (0, True, False) in
      bt_insert (cm_role member) (count + 1, addressable \<and> label_addressable member, has_wiring \<or> cm_wired_to member \<noteq> []) profiles)"

definition profile_capabilities :: "ConsoleMember list \<Rightarrow> json" where
  "profile_capabilities members =
     JObject (map (\<lambda>(profile, (count, addressable, has_wiring)).
         (profile, json_object [(''instance_count'', json_usize count), (''addressable'', JBool addressable), (''has_wiring'', JBool has_wiring)]))
       (fold count_profile members []))"

definition runtime_capabilities :: "bool \<Rightarrow> ConsoleLiveSnapshot \<Rightarrow> json" where
  "runtime_capabilities is_read_only live_snapshot =
     (let is_aggregate_console = is_aggregate live_snapshot;
          has_mob = sn_has_mob_runtime live_snapshot \<and> \<not> is_aggregate_console;
          can_send_messages = \<not> is_read_only \<and> (has_mob \<or> is_aggregate_console);
          can_spawn_members = \<not> is_read_only \<and> has_mob \<and> \<not> is_aggregate_console;
          can_wire_members = \<not> is_read_only \<and> has_mob \<and> \<not> is_aggregate_console;
          can_retire_members = \<not> is_read_only \<and> has_mob \<and> \<not> is_aggregate_console in
      json_object [(''can_spawn_members'', JBool can_spawn_members), (''can_send_messages'', JBool can_send_messages),
        (''can_wire_members'', JBool can_wire_members), (''can_retire_members'', JBool can_retire_members),
        (''available_spawn_modes'', json_strings (if can_spawn_members then [''module'', ''role''] else [''module''])),
        (''profile_capabilities'', profile_capabilities (sn_members live_snapshot))])"

definition base_panel :: "ConsoleUiConfig \<Rightarrow> json" where
  "base_panel console_config =
     json_object [(''panel_id'', JString ''console.home''), (''title'', JString (unwrap_or (ui_title console_config) ''Mob Console'')),
       (''route'', JString CONSOLE_EXPERIENCE_ROUTE),
       (''capabilities'', json_object [(''can_render'', JBool True), (''surface'', JString ''console'')])]"

definition poll_refresh :: json where
  "poll_refresh = json_object [(''mode'', JString ''poll''), (''interval_ms'', json_u64 5000)]"

definition list_source_method :: "bool \<Rightarrow> bool \<Rightarrow> json" where
  "list_source_method is_aggregate_console has_mob =
     JString (if is_aggregate_console then ''meta/console/list_identities'' else if has_mob then ''meta/list_members'' else ''meta/status'')"

definition list_item_contract :: json where
  \<open>list_item_contract = json_object [
     (''fields'', json_strings [''agent_id'', ''member_id'', ''identity'', ''label'', ''kind'', ''role'', ''state'', ''progress'',
       ''model_capabilities'', ''response_phase'', ''wired_to'', ''labels'', ''group'', ''addressable'', ''affordances'', ''watched'',
       ''alertLevel'', ''degraded'', ''degradedReason'']),
     (''agent_id_field'', JString ''agent_id''), (''member_id_field'', JString ''member_id''), (''group_by_field'', JString ''group''),
     (''well_known_labels'', json_object [
       (''display_name'', JString ''human-readable label; overrides member_id in sidebar''),
       (''addressable'', JString ''set "false" to hide send-message actions for internal agents''),
       (''singleton'', JString ''set "true" to prevent retire (e.g. review, summarizer agents)''),
       (''group'', JString ''sidebar group name; overrides profile-based grouping'')]),
     (''refresh_projection'', JString (''source_method returns ConsoleMember rows (agent_identity, role, state, model_capabilities, wired_to, labels). Clients must project: agent_id=agent_identity, member_id=agent_identity, identity=labels.agent_identity||agent_identity, label=labels.display_name||agent_identity, group=labels.group||role, addressable=labels.addressable!=''
       @ quoted ''false'' @ '', model_capabilities.image_input default false, affordances derived from labels.singleton and addressable.''))]\<close>

definition agent_sidebar :: "ConsoleLiveSnapshot \<Rightarrow> json list \<Rightarrow> json" where
  "agent_sidebar live_snapshot agents =
     (let is_aggregate_console = is_aggregate live_snapshot;
          has_mob = sn_has_mob_runtime live_snapshot \<and> \<not> is_aggregate_console in
      json_object [(''panel_id'', JString ''console.agent_sidebar''), (''title'', JString ''Agents''), (''schema_version'', JString ''1''),
        (''refresh'', poll_refresh), (''source_method'', list_source_method is_aggregate_console has_mob),
        (''refresh_policy'', json_object [(''mode'', JString ''pull''), (''poll_interval_ms'', json_u64 5000)]),
        (''selection_contract'', json_object [(''selected_agent_id_field'', JString ''agent_id''),
          (''selected_member_id_field'', JString ''member_id''), (''emits_scope'', JString ''agent''),
          (''supported_scopes'', json_strings [''mob'', ''agent''])]),
        (''list_item_contract'', list_item_contract),
        (''live_snapshot'', json_object [(''agents'', JArray agents)])])"

definition identity_status :: "ConsoleLiveSnapshot \<Rightarrow> json list \<Rightarrow> json" where
  "identity_status live_snapshot rows =
     (let is_aggregate_console = is_aggregate live_snapshot;
          has_mob = sn_has_mob_runtime live_snapshot \<and> \<not> is_aggregate_console in
      json_object [(''panel_id'', JString ''console.identity_status''), (''title'', JString ''Identity Status''),
        (''schema_version'', JString ''1''), (''refresh'', poll_refresh),
        (''source_method'', list_source_method is_aggregate_console has_mob), (''rows'', JArray rows)])"

definition envelope_fields :: json where
  "envelope_fields = json_strings [''event_id'', ''interaction_id'', ''identity'', ''event_type'', ''timestamp_ms'', ''data'']"

definition stream_refresh :: "string \<Rightarrow> json" where
  "stream_refresh topic =
     json_object [(''mode'', JString ''stream''), (''topic'', JString topic), (''update_semantics'', JString ''append'')]"

definition activity_feed :: json where
  "activity_feed =
     (let nl = [CHR 0x5C, CHR ''n''] in
      json_object [(''panel_id'', JString ''console.activity_feed''), (''title'', JString ''Activity''), (''schema_version'', JString ''1''),
        (''refresh'', stream_refresh ''all_events''), (''transport'', JString ''sse''), (''source_route'', JString ''/console/timeline/stream''),
        (''request_contract'', json_object [(''last_event_id_header'', JString ''optional Last-Event-ID checkpoint from prior event_id'')]),
        (''event_contract'', json_object [(''envelope_fields'', envelope_fields), (''event_type_path'', JString ''event_type''),
          (''frame_format'', JString (''id: <event_id>'' @ nl @ ''event: <event_type>'' @ nl @ ''data: <event_json>'' @ nl @ nl))]),
        (''keep_alive'', json_object [(''interval_ms'', json_u64 15000), (''event'', JString ''keep-alive''),
          (''comment_frame'', JString ('': keep-alive'' @ [CHR 0x0A, CHR 0x0A]))]),
        (''filter_presets'', JArray [
          json_object [(''id'', JString ''all''), (''label'', JString ''All'')],
          json_object [(''id'', JString ''watched-only''), (''label'', JString ''Watched only''), (''watchedOnly'', JBool True)],
          json_object [(''id'', JString ''critical''), (''label'', JString ''Critical''), (''alertLevels'', json_strings [''critical''])]]),
        (''active_preset_id'', JString ''all'')])"

definition chat_inspector :: json where
  "chat_inspector =
     json_object [(''panel_id'', JString ''console.chat_inspector''), (''title'', JString ''Chat Inspector''),
       (''schema_version'', JString ''1''), (''refresh'', stream_refresh ''selected_identity''), (''send_method'', JString ''meta/console/send''),
       (''observe_route'', JString ''/console/timeline/stream''), (''transport'', JString ''rpc+sse''),
       (''request_contract'', json_object [(''identity'', JString ''required target identity''),
         (''content'', JString ''required user text to send''), (''origin'', JString ''required caller identifier for audit and routing'')]),
       (''response_contract'', json_object [(''interaction_id'', JString ''per-turn console correlation token''),
         (''identity'', JString ''echoed target identity'')]),
       (''event_contract'', json_object [(''envelope_fields'', envelope_fields), (''event_type_path'', JString ''event_type''),
         (''interaction_id_field'', JString ''interaction_id'')])]"

definition topology_node :: "ConsoleMember \<Rightarrow> json" where
  "topology_node member =
     json_object [(''identity'', JString (cm_agent_identity member)), (''label'', JString (member_label member)),
       (''role'', JString (cm_role member)), (''state'', JString (cm_state member)), (''wired_to'', json_strings (cm_wired_to member)),
       (''addressable'', JBool (member_addressable member))]"

definition topology_snapshot :: "ConsoleLiveSnapshot \<Rightarrow> json" where
  "topology_snapshot live_snapshot =
     (if sn_members live_snapshot = []
      then json_object [(''nodes'', json_strings (sn_loaded_modules live_snapshot)),
        (''node_count'', json_usize (length (sn_loaded_modules live_snapshot)))]
      else json_object [(''nodes'', JArray (map topology_node (sn_members live_snapshot))),
        (''node_count'', json_usize (length (sn_members live_snapshot)))])"

definition status_source_method :: "bool \<Rightarrow> json" where
  "status_source_method is_aggregate_console =
     JString (if is_aggregate_console then ''meta/console/list_identities'' else ''meta/status'')"

definition topology :: "ConsoleLiveSnapshot \<Rightarrow> json" where
  "topology live_snapshot =
     (let is_aggregate_console = is_aggregate live_snapshot in
      json_object [(''panel_id'', JString ''console.topology''), (''title'', JString ''Topology''), (''schema_version'', JString ''1''),
        (''refresh'', poll_refresh), (''source_method'', status_source_method is_aggregate_console),
        (''route_method'', if is_aggregate_console then JNull else JString ''meta/routing/routes/list''),
        (''refresh_policy'', json_object [(''mode'', JString ''pull''), (''poll_interval_ms'', json_u64 5000)]),
        (''graph_contract'', json_object [(''node_id_field'', JString ''identity''), (''edge_fields'', json_strings [''wired_to''])]),
        (''live_snapshot'', topology_snapshot live_snapshot)])"

definition health_overview :: "ConsoleLiveSnapshot \<Rightarrow> json list \<Rightarrow> json" where
  "health_overview live_snapshot rows =
     (let is_aggregate_console = is_aggregate live_snapshot in
      json_object [(''panel_id'', JString ''console.health_overview''), (''title'', JString ''Health''), (''schema_version'', JString ''1''),
        (''refresh'', poll_refresh), (''source_method'', status_source_method is_aggregate_console),
        (''activity_source_method'', if is_aggregate_console then JNull else JString ''meta/events/subscribe''),
        (''activity_source_route'', if is_aggregate_console then JString ''/console/timeline/stream'' else JNull),
        (''refresh_policy'', json_object [(''mode'', JString ''pull_and_stream''), (''poll_interval_ms'', json_u64 5000)]),
        (''status_contract'', json_object [(''running_field'', JString ''running''), (''loaded_modules_field'', JString ''loaded_modules'')]),
        (''live_snapshot'', json_object [(''running'', JBool (sn_running live_snapshot)),
          (''loaded_modules'', json_strings (sn_loaded_modules live_snapshot)),
          (''loaded_module_count'', json_usize (length (sn_loaded_modules live_snapshot))), (''identities'', JArray rows)])])"

definition flows :: json where
  "flows =
     json_object [(''panel_id'', JString ''console.flows''), (''title'', JString ''Flows''), (''schema_version'', JString ''1''),
       (''available'', JBool False),
       (''reason'', JString ''static flow scheduling is not exposed; use the durable schedule service and schedule tools'')]"

definition session_history :: "bool \<Rightarrow> json" where
  "session_history has_mob =
     json_object ([(''panel_id'', JString ''console.session_history''), (''title'', JString ''Session History''),
       (''schema_version'', JString ''1''), (''refresh'', poll_refresh)]
       @ (if has_mob then
            [(''source_method'', JString ''meta/console/query_timeline''), (''transport'', JString ''rpc''), (''available'', JBool True),
             (''request_contract'', json_object [(''session_id'', JString ''required current session id for the identity/member''),
               (''offset'', JString ''optional message offset from the start of the transcript''),
               (''limit'', JString ''optional max messages to return'')]),
             (''response_contract'', json_object [(''success'',
               JString ''result is SessionHistoryPage {session_id, message_count, offset, limit, has_more, messages}'')])]
          else [(''available'', JBool False), (''reason'', JString ''session history is projected through the console timeline'')]))"

section \<open>The document\<close>

definition console_policy_section :: "ConsolePolicy \<Rightarrow> (string \<times> json) list" where
  "console_policy_section console_policy =
     (let policy = json_some ''fetch_timeout_ms'' json_u64 (cp_fetch_timeout_ms console_policy)
            @ (if cp_read_only console_policy then [(''read_only'', JBool True)] else []) in
      if policy = [] then [] else [(''console_policy'', json_object policy)])"

definition build_console_experience_contract ::
  "(ConsoleUiConfig \<Rightarrow> json) \<Rightarrow> string list \<Rightarrow> ConsoleLiveSnapshot \<Rightarrow> ConsolePolicy \<Rightarrow> json" where
  "build_console_experience_contract ui_json modules live_snapshot console_policy =
     (let is_read_only = cp_read_only console_policy;
          has_mob = sn_has_mob_runtime live_snapshot \<and> \<not> is_aggregate live_snapshot;
          agents = sidebar_agents is_read_only live_snapshot;
          identity_status_rows = build_identity_status_rows agents in
      json_object (
        [(''contract_version'', JString META_CONTRACT_VERSION),
         (''runtime_id'', json_option JString (sn_runtime_id live_snapshot)),
         (''console_config'', ui_json (cp_ui console_policy)),
         (''voice'', json_object [(''available'', JBool False)]),
         (''runtime_capabilities'', runtime_capabilities is_read_only live_snapshot),
         (''base_panel'', base_panel (cp_ui console_policy)),
         (''module_panels'', JArray (map module_panel modules)),
         (''agent_sidebar'', agent_sidebar live_snapshot agents),
         (''identity_status'', identity_status live_snapshot identity_status_rows),
         (''activity_feed'', activity_feed),
         (''chat_inspector'', chat_inspector),
         (''topology'', topology live_snapshot),
         (''health_overview'', health_overview live_snapshot identity_status_rows),
         (''flows'', flows),
         (''session_history'', session_history has_mob)]
        @ console_policy_section console_policy))"

section \<open>The caller's grants\<close>

definition intersect_bool :: "string \<Rightarrow> bool \<Rightarrow> (string, json) btree \<Rightarrow> (string, json) btree" where
  "intersect_bool key allowed members =
     (let current = unwrap_or (Option.bind (bt_get members key) as_bool) False in
      bt_insert key (JBool (current \<and> allowed)) members)"

definition read_bool :: "string \<Rightarrow> (string, json) btree \<Rightarrow> bool" where
  "read_bool key members = unwrap_or (Option.bind (bt_get members key) as_bool) False"

text \<open>The value under a path of object members, replaced; nothing where the path does not exist.\<close>

fun json_map_at :: "string list \<Rightarrow> (json \<Rightarrow> json) \<Rightarrow> json \<Rightarrow> json" where
  "json_map_at [] f value = f value"
| "json_map_at (key # keys) f value =
     (case as_object value of
        None \<Rightarrow> value
      | Some members \<Rightarrow>
         (case bt_get members key of
            None \<Rightarrow> value
          | Some v \<Rightarrow> JObject (bt_insert key (json_map_at keys f v) members)))"

fun json_at :: "string list \<Rightarrow> json \<Rightarrow> json option" where
  "json_at [] value = Some value"
| "json_at (key # keys) value = Option.bind (json_get value key) (json_at keys)"

definition row_identity :: "json \<Rightarrow> string" where
  "row_identity agent =
     unwrap_or (Option.bind (opt_or (json_get agent ''identity'') (opt_or (json_get agent ''member_id'') (json_get agent ''agent_id''))) as_str) []"

definition row_affordances :: "json \<Rightarrow> (string, json) btree option" where
  "row_affordances agent = Option.bind (json_get agent ''affordances'') as_object"

definition intersect_row :: "AccessController \<Rightarrow> AccessView \<Rightarrow> json \<Rightarrow> json" where
  "intersect_row controller view agent =
     (let identity = row_identity agent;
          can_send = allows_agent controller view ACTION_AGENT_SEND identity;
          can_retire = allows_agent controller view ACTION_AGENT_RETIRE identity;
          can_respawn = allows_agent controller view ACTION_AGENT_RESPAWN identity in
      case row_affordances agent of
        Some affordances \<Rightarrow>
          json_set ''affordances''
            (JObject (intersect_bool ''can_respawn'' can_respawn
              (intersect_bool ''can_retire'' can_retire (intersect_bool ''can_send_message'' can_send affordances)))) agent
      | None \<Rightarrow> agent)"

text \<open>Whether a row, intersected, lets the caller send or retire.\<close>

definition row_can :: "AccessController \<Rightarrow> AccessView \<Rightarrow> string \<Rightarrow> string \<Rightarrow> json \<Rightarrow> bool" where
  "row_can controller view key action agent =
     (case row_affordances (intersect_row controller view agent) of
        Some affordances \<Rightarrow> read_bool key affordances
      | None \<Rightarrow> allows_agent controller view action (row_identity agent))"

definition sidebar_path :: "string list" where
  "sidebar_path = [''agent_sidebar'', ''live_snapshot'', ''agents'']"

definition sidebar_rows :: "json \<Rightarrow> json list" where
  "sidebar_rows body = (case json_at sidebar_path body of Some (JArray agents) \<Rightarrow> agents | _ \<Rightarrow> [])"

definition map_array :: "(json \<Rightarrow> json) \<Rightarrow> json \<Rightarrow> json" where
  "map_array f value = (case value of JArray values \<Rightarrow> JArray (map f values) | _ \<Rightarrow> value)"

definition intersect_experience :: "AccessController \<Rightarrow> AccessView \<Rightarrow> json \<Rightarrow> json" where
  "intersect_experience controller view body =
     (let any_can_send = list_ex (row_can controller view ''can_send_message'' ACTION_AGENT_SEND) (sidebar_rows body);
          any_can_retire = list_ex (row_can controller view ''can_retire'' ACTION_AGENT_RETIRE) (sidebar_rows body);
          body = json_map_at sidebar_path (map_array (intersect_row controller view)) body in
      json_map_at [''runtime_capabilities'']
        (\<lambda>value. case as_object value of
           Some capabilities \<Rightarrow>
             JObject (intersect_bool ''can_wire_members'' (allows view ACTION_RUNTIME_ADMIN)
               (intersect_bool ''can_spawn_members'' (allows view ACTION_AGENT_SPAWN)
                 (intersect_bool ''can_retire_members'' any_can_retire
                   (intersect_bool ''can_send_messages'' any_can_send capabilities))))
         | None \<Rightarrow> value) body)"

definition access_section :: "AccessView \<Rightarrow> json" where
  "access_section view =
     json_object [(''available'', JBool True), (''enabled'', JBool (enforced view)),
       (''subject'', json_option JString (pr_subject (vw_principal view))),
       (''groups'', json_strings (sorted_list_of_set (pr_groups (vw_principal view)))),
       (''can_administer'', JBool (can_administer view))]"

definition apply_access_to_experience :: "AccessController \<Rightarrow> AccessView \<Rightarrow> json \<Rightarrow> json" where
  "apply_access_to_experience controller view body =
     json_set ''access'' (access_section view) (if enforced view then intersect_experience controller view body else body)"

definition apply_memory_to_experience :: "AccessView option \<Rightarrow> bool \<Rightarrow> json \<Rightarrow> json" where
  "apply_memory_to_experience view memory_panel_available body =
     (let (can_read, can_review_quarantine) =
        (case opt_filter enforced view of
           Some view \<Rightarrow>
             (memory_panel_available \<and> (may_perform_anywhere view ACTION_AGENT_MEMORY_READ
                \<or> may_perform_anywhere view ACTION_MOB_MEMORY_READ \<or> may_perform_anywhere view ACTION_OPERATOR_MEMORY_READ),
              memory_panel_available \<and> allows view ACTION_MEMORY_QUARANTINE_REVIEW)
         | None \<Rightarrow> (memory_panel_available, memory_panel_available)) in
      json_set ''memory'' (json_object [(''available'', JBool memory_panel_available), (''can_read'', JBool can_read),
        (''can_review_quarantine'', JBool can_review_quarantine)]) body)"

definition apply_workgraph_to_experience :: "AccessView option \<Rightarrow> bool \<Rightarrow> json \<Rightarrow> json" where
  "apply_workgraph_to_experience view workgraph_available body =
     (let (can_view, can_manage) =
        (case opt_filter enforced view of
           Some view \<Rightarrow> (workgraph_available \<and> allows view ACTION_WORKGRAPH_VIEW, workgraph_available \<and> allows view ACTION_WORKGRAPH_MANAGE)
         | None \<Rightarrow> (workgraph_available, workgraph_available)) in
      json_set ''workgraph'' (json_object [(''available'', JBool workgraph_available), (''can_view'', JBool can_view),
        (''can_manage'', JBool can_manage)]) body)"

section \<open>The route\<close>

definition error_response :: "nat \<Rightarrow> (string \<times> json) list \<Rightarrow> ConsoleRestJsonResponse" where
  "error_response status body = \<lparr>rs_status = status, rs_body = json_object body\<rparr>"

definition unauthorized :: "string \<Rightarrow> ConsoleRestJsonResponse" where
  "unauthorized reason = error_response 401 [(''error'', JString ''unauthorized''), (''reason'', JString reason)]"

text \<open>The caller, or the response that refuses it.\<close>

definition authorize_route ::
  "AuthLib \<Rightarrow> u64 \<Rightarrow> RuntimeDecisionState \<Rightarrow> ConsoleAccessRequest option \<Rightarrow> (string, string) btree
   \<Rightarrow> ConsoleRestJsonResponse + ConsoleAccessRequest option" where
  "authorize_route lib now decisions explicit_auth query_params =
     (case resolve_console_auth lib now decisions explicit_auth query_params of
        Inl error \<Rightarrow> Inl (unauthorized (console_auth_error_reason error))
      | Inr (Some auth) \<Rightarrow>
         (case enforce_console_route_access (rds_auth decisions) (rds_console decisions) auth of
            Inl error \<Rightarrow> Inl (unauthorized (auth_error_reason error))
          | Inr _ \<Rightarrow> Inr (Some auth))
      | Inr None \<Rightarrow> if cp_require_app_auth (rds_console decisions) then Inl (unauthorized ''missing_credentials'') else Inr None)"

definition access_subject ::
  "AuthLib \<Rightarrow> u64 \<Rightarrow> RuntimeDecisionState \<Rightarrow> (string, string) btree \<Rightarrow> ConsoleAccessRequest option \<Rightarrow> string option" where
  "access_subject lib now decisions query_params resolved_auth =
     (case resolved_auth of
        Some auth \<Rightarrow> Some (ar_email auth)
      | None \<Rightarrow>
          if \<not> cp_require_app_auth (rds_console decisions) then
            (case bt_get query_params ''auth_token'' of
               Some token \<Rightarrow> map_option ar_email (resolve_authorized_console_auth_from_token lib now decisions token)
             | None \<Rightarrow> None)
          else None)"

record ConsoleEnv =
  ce_lib :: AuthLib
  ce_now :: u64
  ce_ui_json :: "ConsoleUiConfig \<Rightarrow> json"

definition handle_console_rest_json_route_with_snapshot_access_memory_and_workgraph ::
  "ConsoleEnv \<Rightarrow> RuntimeDecisionState \<Rightarrow> ConsoleRestJsonRequest \<Rightarrow> ConsoleLiveSnapshot option \<Rightarrow> AccessController option \<Rightarrow> bool \<Rightarrow> bool
   \<Rightarrow> ConsoleRestJsonResponse \<times> AccessController option" where
  "handle_console_rest_json_route_with_snapshot_access_memory_and_workgraph env decisions request live_snapshot access
     memory_panel_available workgraph_available =
     (let (base_path, query_params) = split_path_and_query (rq_path request) in
      if rq_method request \<noteq> ''GET'' \<or> (base_path \<noteq> CONSOLE_MODULES_ROUTE \<and> base_path \<noteq> CONSOLE_EXPERIENCE_ROUTE)
      then (error_response 404 [(''error'', JString ''not_found'')], access)
      else case authorize_route (ce_lib env) (ce_now env) decisions (rq_auth request) query_params of
        Inl response \<Rightarrow> (response, access)
      | Inr resolved_auth \<Rightarrow>
         (let subject = access_subject (ce_lib env) (ce_now env) decisions query_params resolved_auth;
              view = map_option (\<lambda>controller. view_from_config (ctl_config controller) subject) access;
              modules = map mc_id (rds_modules decisions);
              snapshot = unwrap_or live_snapshot (default_console_live_snapshot decisions);
              access = map_option (prime_access_attributes snapshot) access;
              snapshot = (case (access, view) of
                  (Some controller, Some view) \<Rightarrow> filter_snapshot_for_access controller view snapshot | _ \<Rightarrow> snapshot);
              body = (if base_path = CONSOLE_EXPERIENCE_ROUTE
                then let body = build_console_experience_contract (ce_ui_json env) modules snapshot (rds_console decisions);
                         body = (case (access, view) of
                             (Some controller, Some view) \<Rightarrow> apply_access_to_experience controller view body | _ \<Rightarrow> body) in
                     apply_workgraph_to_experience view workgraph_available (apply_memory_to_experience view memory_panel_available body)
                else json_object [(''contract_version'', JString META_CONTRACT_VERSION), (''modules'', json_strings modules)]) in
          (\<lparr>rs_status = 200, rs_body = body\<rparr>, access)))"

definition handle_console_rest_json_route_with_snapshot_access_and_memory ::
  "ConsoleEnv \<Rightarrow> RuntimeDecisionState \<Rightarrow> ConsoleRestJsonRequest \<Rightarrow> ConsoleLiveSnapshot option \<Rightarrow> AccessController option \<Rightarrow> bool
   \<Rightarrow> ConsoleRestJsonResponse \<times> AccessController option" where
  "handle_console_rest_json_route_with_snapshot_access_and_memory env decisions request live_snapshot access memory_panel_available =
     handle_console_rest_json_route_with_snapshot_access_memory_and_workgraph env decisions request live_snapshot access
       memory_panel_available False"

definition handle_console_rest_json_route_with_snapshot_and_access ::
  "ConsoleEnv \<Rightarrow> RuntimeDecisionState \<Rightarrow> ConsoleRestJsonRequest \<Rightarrow> ConsoleLiveSnapshot option \<Rightarrow> AccessController option
   \<Rightarrow> ConsoleRestJsonResponse \<times> AccessController option" where
  "handle_console_rest_json_route_with_snapshot_and_access env decisions request live_snapshot access =
     handle_console_rest_json_route_with_snapshot_access_and_memory env decisions request live_snapshot access False"

definition handle_console_rest_json_route_with_snapshot ::
  "ConsoleEnv \<Rightarrow> RuntimeDecisionState \<Rightarrow> ConsoleRestJsonRequest \<Rightarrow> ConsoleLiveSnapshot option \<Rightarrow> ConsoleRestJsonResponse" where
  "handle_console_rest_json_route_with_snapshot env decisions request live_snapshot =
     fst (handle_console_rest_json_route_with_snapshot_and_access env decisions request live_snapshot None)"

definition handle_console_rest_json_route :: "ConsoleEnv \<Rightarrow> RuntimeDecisionState \<Rightarrow> ConsoleRestJsonRequest \<Rightarrow> ConsoleRestJsonResponse" where
  "handle_console_rest_json_route env decisions request = handle_console_rest_json_route_with_snapshot env decisions request None"

section \<open>Reading the document\<close>

definition is_object :: "json \<Rightarrow> bool" where
  "is_object value = (as_object value \<noteq> None)"

lemma is_object_simps [simp]: "is_object (JObject m)" "is_object (json_object l)"
  by (simp_all add: is_object_def json_object_def)

lemma is_object_set [simp]: "is_object (json_set k v value) = is_object value"
  by (auto simp: is_object_def json_set_def split: option.splits)

lemma json_get_set: "json_get (json_set k v value) k' = (if k = k' \<and> is_object value then Some v else json_get value k')"
  by (auto simp: json_get_def json_set_def is_object_def bt_get_insert split: option.splits)

lemma json_get_map_at:
  "json_get (json_map_at (key # keys) f value) k =
     (if k = key then map_option (json_map_at keys f) (json_get value key) else json_get value k)"
  by (auto simp: json_get_def bt_get_insert split: option.splits)

lemma is_object_map_at [simp]: "is_object (json_map_at (key # keys) f value) = is_object value"
  by (auto simp: is_object_def split: option.splits)

lemma json_at_map_at: "json_at keys (json_map_at keys f v) = map_option f (json_at keys v)"
proof (induction keys arbitrary: v)
  case (Cons key keys)
  show ?case
    using Cons.IH by (cases "json_get v key") (simp_all add: json_get_map_at del: json_map_at.simps)
qed simp

lemma json_at_Cons_cong: "json_get v k = json_get w k \<Longrightarrow> json_at (k # ks) v = json_at (k # ks) w"
  by simp

lemma sidebar_rows_cong: "json_get v ''agent_sidebar'' = json_get w ''agent_sidebar'' \<Longrightarrow> sidebar_rows v = sidebar_rows w"
  by (simp add: sidebar_rows_def sidebar_path_def)

lemma sidebar_rows_map:
  "sidebar_rows (json_map_at sidebar_path (map_array f) body) = map f (sidebar_rows body)"
  by (auto simp: sidebar_rows_def json_at_map_at map_array_def split: option.splits json.splits)

section \<open>Rows of the document\<close>

lemma build_sidebar_rows:
  "sidebar_rows (build_console_experience_contract ui modules snapshot policy) = sidebar_agents (cp_read_only policy) snapshot"
  by (simp add: build_console_experience_contract_def sidebar_rows_def sidebar_path_def json_get_object agent_sidebar_def
      console_policy_section_def Let_def)

lemma build_is_object [simp]: "is_object (build_console_experience_contract ui modules snapshot policy)"
  by (simp add: build_console_experience_contract_def Let_def)

lemma build_capabilities:
  "json_get (build_console_experience_contract ui modules snapshot policy) ''runtime_capabilities''
     = Some (runtime_capabilities (cp_read_only policy) snapshot)"
  by (simp add: build_console_experience_contract_def json_get_object console_policy_section_def Let_def)

lemma intersect_sidebar_rows:
  "sidebar_rows (intersect_experience controller view body) = map (intersect_row controller view) (sidebar_rows body)"
proof -
  have "sidebar_rows (json_map_at [''runtime_capabilities''] f b) = sidebar_rows b" for f b
    by (rule sidebar_rows_cong) (simp add: json_get_map_at del: json_map_at.simps)
  then show ?thesis by (simp add: intersect_experience_def Let_def sidebar_rows_map del: json_map_at.simps)
qed

lemma access_sidebar_rows:
  "sidebar_rows (apply_access_to_experience controller view body) =
     (if enforced view then map (intersect_row controller view) (sidebar_rows body) else sidebar_rows body)"
proof -
  have "sidebar_rows (json_set ''access'' v b) = sidebar_rows b" for v b
    by (rule sidebar_rows_cong) (simp add: json_get_set)
  then show ?thesis by (simp add: apply_access_to_experience_def intersect_sidebar_rows)
qed

lemma appended_sidebar_rows:
  "sidebar_rows (apply_workgraph_to_experience v w (apply_memory_to_experience v m body)) = sidebar_rows body"
proof -
  have "sidebar_rows (json_set k v b) = sidebar_rows b" if "k \<noteq> ''agent_sidebar''" for k v b
    using that by (intro sidebar_rows_cong) (simp add: json_get_set)
  then show ?thesis by (simp add: apply_workgraph_to_experience_def apply_memory_to_experience_def Let_def split: prod.split)
qed

lemma row_identity_intersect [simp]: "row_identity (intersect_row controller view row) = row_identity row"
  by (simp add: row_identity_def intersect_row_def json_get_set Let_def split: option.split)

lemma row_affordances_intersect:
  assumes "row_affordances (intersect_row controller view row) = Some aff"
  obtains aff0 where "row_affordances row = Some aff0"
    "read_bool ''can_send_message'' aff = (read_bool ''can_send_message'' aff0 \<and> allows_agent controller view ACTION_AGENT_SEND (row_identity row))"
    "read_bool ''can_retire'' aff = (read_bool ''can_retire'' aff0 \<and> allows_agent controller view ACTION_AGENT_RETIRE (row_identity row))"
    "read_bool ''can_respawn'' aff = (read_bool ''can_respawn'' aff0 \<and> allows_agent controller view ACTION_AGENT_RESPAWN (row_identity row))"
proof -
  obtain aff0 where a: "row_affordances row = Some aff0"
    using assms by (auto simp: intersect_row_def Let_def split: option.splits)
  then have "is_object row" by (cases "as_object row") (auto simp: row_affordances_def json_get_def is_object_def)
  then have "aff = intersect_bool ''can_respawn'' (allows_agent controller view ACTION_AGENT_RESPAWN (row_identity row))
      (intersect_bool ''can_retire'' (allows_agent controller view ACTION_AGENT_RETIRE (row_identity row))
        (intersect_bool ''can_send_message'' (allows_agent controller view ACTION_AGENT_SEND (row_identity row)) aff0))"
    using assms a by (simp add: intersect_row_def Let_def) (simp add: row_affordances_def json_get_set)
  then show ?thesis using that [OF a] by (simp add: intersect_bool_def read_bool_def bt_get_insert Let_def)
qed

lemma member_row_get:
  "k \<noteq> ''response_phase'' \<Longrightarrow> json_get (member_row ro agg phases m) k = map_of (rev (member_fields ro agg m)) k"
  by (auto simp: member_row_def json_get_set json_get_object Let_def split: option.split)

lemma member_row_fields:
  "json_get (member_row ro agg phases m) ''identity'' = Some (JString (console_member_console_identity m))"
  "json_get (member_row ro agg phases m) ''affordances'' = Some (member_affordances ro agg m)"
  "json_get (member_row ro agg phases m) ''wired_to'' = Some (json_strings (cm_wired_to m))"
  by (simp_all add: member_row_get member_fields_def)

lemma map_of_json_some: "map_of (rev (json_some key f x)) k = (if k = key then map_option f x else None)"
  by (cases x) (auto simp: json_some_def)

lemma agent_row_get:
  "json_get (agent_row ro agg a) ''identity'' = map_option JString (ca_identity a)"
  "json_get (agent_row ro agg a) ''member_id'' = Some (JString (ca_member_id a))"
  "json_get (agent_row ro agg a) ''affordances'' = (if agg then Some (aggregate_affordances ro) else None)"
  unfolding agent_row_def json_get_object rev_append
  by (cases "ca_identity a"; simp add: map_add_def map_of_append map_of_json_some)+

lemma row_identity_simps:
  "row_identity (member_row ro agg phases m) = console_member_console_identity m"
  "row_identity (module_row md) = md"
  "row_identity (agent_row ro agg a) = unwrap_or (ca_identity a) (ca_member_id a)"
proof -
  show "row_identity (member_row ro agg phases m) = console_member_console_identity m"
    by (simp add: row_identity_def member_row_fields)
  show "row_identity (module_row md) = md" by (simp add: row_identity_def module_row_def json_get_object)
  show "row_identity (agent_row ro agg a) = unwrap_or (ca_identity a) (ca_member_id a)"
    by (cases "ca_identity a") (simp_all add: row_identity_def agent_row_get)
qed

lemma member_row_affordances:
  "row_affordances (member_row ro agg phases m) = as_object (member_affordances ro agg m)"
  by (simp add: row_affordances_def member_row_fields)

lemma agent_row_affordances:
  "row_affordances (agent_row ro agg a) = (if agg then as_object (aggregate_affordances ro) else None)"
  by (simp add: row_affordances_def agent_row_get)

lemma module_row_affordances: "row_affordances (module_row md) = None"
  by (simp add: row_affordances_def module_row_def json_get_object)

lemma read_object: "as_object (json_object l) = Some aff \<Longrightarrow> read_bool k aff = unwrap_or (Option.bind (map_of (rev l) k) as_bool) False"
  by (auto simp: json_object_def read_bool_def bt_of_list_facts(2))

text \<open>A read-only console offers no action on any row.\<close>

lemma read_only_affordances:
  assumes "row \<in> set (sidebar_agents True snapshot)" "row_affordances row = Some aff"
  shows "\<not> read_bool ''can_send_message'' aff \<and> \<not> read_bool ''can_retire'' aff \<and> \<not> read_bool ''can_respawn'' aff"
  using assms
  by (auto simp: sidebar_agents_def Let_def member_row_affordances agent_row_affordances module_row_affordances
      member_affordances_def aggregate_affordances_def read_object split: if_splits)

lemma sidebar_row_cases:
  assumes "row \<in> set (sidebar_agents ro snapshot)"
  obtains (member) m where "m \<in> set (sn_members snapshot)" "row_identity row = console_member_console_identity m"
  | (agent) a where "a \<in> set (sn_agents snapshot)" "row_identity row = unwrap_or (ca_identity a) (ca_member_id a)"
  | (module) md where "md \<in> set (sn_loaded_modules snapshot)" "row_identity row = md"
  using assms by (auto simp: sidebar_agents_def Let_def row_identity_simps split: if_splits)

section \<open>The route\<close>

definition caller_subject :: "ConsoleEnv \<Rightarrow> RuntimeDecisionState \<Rightarrow> ConsoleRestJsonRequest \<Rightarrow> string option" where
  "caller_subject env decisions request =
     (let params = snd (split_path_and_query (rq_path request)) in
      case authorize_route (ce_lib env) (ce_now env) decisions (rq_auth request) params of
        Inl _ \<Rightarrow> None
      | Inr auth \<Rightarrow> access_subject (ce_lib env) (ce_now env) decisions params auth)"

abbreviation console_route ::
  "ConsoleEnv \<Rightarrow> RuntimeDecisionState \<Rightarrow> ConsoleRestJsonRequest \<Rightarrow> ConsoleLiveSnapshot option \<Rightarrow> AccessController option \<Rightarrow> bool \<Rightarrow> bool
   \<Rightarrow> ConsoleRestJsonResponse \<times> AccessController option" where
  "console_route \<equiv> handle_console_rest_json_route_with_snapshot_access_memory_and_workgraph"

lemmas console_route_def = handle_console_rest_json_route_with_snapshot_access_memory_and_workgraph_def

lemma authorize_refusal: "authorize_route lib now d e q = Inl r \<Longrightarrow> rs_status r = 401"
  by (auto simp: authorize_route_def unauthorized_def error_response_def split: sum.splits option.splits if_splits)

lemma authorize_ok:
  "authorize_route lib now d e q = Inr auth \<longleftrightarrow>
     resolve_console_auth lib now d e q = Inr auth
     \<and> (case auth of Some a \<Rightarrow> enforce_console_route_access (rds_auth d) (rds_console d) a = Inr ()
        | None \<Rightarrow> \<not> cp_require_app_auth (rds_console d))"
  by (auto simp: authorize_route_def split: sum.splits option.splits if_splits)

lemma console_route_status:
  assumes "split_path_and_query (rq_path request) = (base, params)"
  shows "rs_status (fst (console_route env d request snapshot access m w)) =
    (if rq_method request \<noteq> ''GET'' \<or> (base \<noteq> CONSOLE_MODULES_ROUTE \<and> base \<noteq> CONSOLE_EXPERIENCE_ROUTE) then 404
     else case authorize_route (ce_lib env) (ce_now env) d (rq_auth request) params of Inl _ \<Rightarrow> 401 | Inr _ \<Rightarrow> 200)"
proof (cases "rq_method request \<noteq> ''GET'' \<or> (base \<noteq> CONSOLE_MODULES_ROUTE \<and> base \<noteq> CONSOLE_EXPERIENCE_ROUTE)")
  case True
  then show ?thesis using assms by (simp add: console_route_def error_response_def)
next
  case False
  show ?thesis
  proof (cases "authorize_route (ce_lib env) (ce_now env) d (rq_auth request) params")
    case (Inl r)
    then show ?thesis
      using authorize_refusal [OF Inl] unfolding console_route_def assms Let_def prod.case if_not_P [OF False] by simp
  next
    case (Inr auth)
    then show ?thesis unfolding console_route_def assms Let_def prod.case if_not_P [OF False] by simp
  qed
qed

lemma console_route_open:
  assumes "console_route env d request snapshot None m w = (response, access)" "rs_status response = 200"
    and "fst (split_path_and_query (rq_path request)) = CONSOLE_EXPERIENCE_ROUTE"
  shows "rs_body response = apply_workgraph_to_experience None w (apply_memory_to_experience None m
      (build_console_experience_contract (ce_ui_json env) (map mc_id (rds_modules d))
        (unwrap_or snapshot (default_console_live_snapshot d)) (rds_console d)))"
proof -
  obtain base params where p: "split_path_and_query (rq_path request) = (base, params)" by fastforce
  have b: "base = CONSOLE_EXPERIENCE_ROUTE" using assms(3) p by simp
  have g: "\<not> (rq_method request \<noteq> ''GET'' \<or> (base \<noteq> CONSOLE_MODULES_ROUTE \<and> base \<noteq> CONSOLE_EXPERIENCE_ROUTE))"
    using assms(1,2) console_route_status [OF p, of env d snapshot None m w] by (auto split: if_splits)
  obtain auth where a: "authorize_route (ce_lib env) (ce_now env) d (rq_auth request) params = Inr auth"
    using assms(1,2) console_route_status [OF p, of env d snapshot None m w] g by (auto split: if_splits sum.splits)
  show ?thesis
    using assms(1) unfolding console_route_def p Let_def prod.case if_not_P [OF g] a sum.case by (auto simp: b)
qed

lemma console_route_experience:
  assumes "console_route env d request snapshot (Some ctl) m w = (response, access)" "rs_status response = 200"
    and "fst (split_path_and_query (rq_path request)) = CONSOLE_EXPERIENCE_ROUTE"
  defines "view \<equiv> view_from_config (ctl_config ctl) (caller_subject env d request)"
    and "snap \<equiv> unwrap_or snapshot (default_console_live_snapshot d)"
  shows "access = Some (prime_access_attributes snap ctl)
    \<and> rs_body response = apply_workgraph_to_experience (Some view) w (apply_memory_to_experience (Some view) m
        (apply_access_to_experience (prime_access_attributes snap ctl) view
          (build_console_experience_contract (ce_ui_json env) (map mc_id (rds_modules d))
            (filter_snapshot_for_access (prime_access_attributes snap ctl) view snap) (rds_console d))))"
proof -
  obtain base params where p: "split_path_and_query (rq_path request) = (base, params)" by fastforce
  have b: "base = CONSOLE_EXPERIENCE_ROUTE" using assms(3) p by simp
  have g: "\<not> (rq_method request \<noteq> ''GET'' \<or> (base \<noteq> CONSOLE_MODULES_ROUTE \<and> base \<noteq> CONSOLE_EXPERIENCE_ROUTE))"
    using assms(1,2) console_route_status [OF p, of env d snapshot "Some ctl" m w] by (auto split: if_splits)
  obtain auth where a: "authorize_route (ce_lib env) (ce_now env) d (rq_auth request) params = Inr auth"
    using assms(1,2) console_route_status [OF p, of env d snapshot "Some ctl" m w] g by (auto split: if_splits sum.splits)
  have v: "view = view_from_config (ctl_config ctl) (access_subject (ce_lib env) (ce_now env) d params auth)"
    by (simp add: view_def caller_subject_def p a)
  show ?thesis
    using assms(1) unfolding console_route_def p Let_def prod.case if_not_P [OF g] a sum.case
    by (auto simp: v snap_def b)
qed

section \<open>Capabilities\<close>

definition capability :: "json \<Rightarrow> string \<Rightarrow> bool" where
  "capability body key = is_some_and (Option.bind (json_get body ''runtime_capabilities'') as_object) (read_bool key)"

lemma capability_cong: "json_get v ''runtime_capabilities'' = json_get w ''runtime_capabilities'' \<Longrightarrow> capability v = capability w"
  by (simp add: capability_def fun_eq_iff)

lemma capability_set: "k \<noteq> ''runtime_capabilities'' \<Longrightarrow> capability (json_set k v body) = capability body"
  by (rule capability_cong) (simp add: json_get_set)

lemma read_intersect: "read_bool k (intersect_bool k' allowed ms) = (read_bool k ms \<and> (k = k' \<longrightarrow> allowed))"
  by (auto simp: read_bool_def intersect_bool_def bt_get_insert Let_def)

text \<open>Intersecting never adds a capability.\<close>

lemma capability_intersect: "capability (intersect_experience controller view body) key \<Longrightarrow> capability body key"
proof -
  let ?b = "json_map_at sidebar_path (map_array (intersect_row controller view)) body"
  have "json_get ?b ''runtime_capabilities'' = json_get body ''runtime_capabilities''"
    unfolding sidebar_path_def by (simp add: json_get_map_at del: json_map_at.simps)
  then have b: "capability ?b = capability body" by (rule capability_cong)
  assume "capability (intersect_experience controller view body) key"
  then have "capability ?b key"
    unfolding intersect_experience_def Let_def capability_def json_get_map_at
    by (cases "json_get ?b ''runtime_capabilities''") (auto simp: read_intersect is_some_and_iff split: option.splits)
  then show ?thesis by (simp add: b)
qed

lemma capability_access: "capability (apply_access_to_experience controller view body) key \<Longrightarrow> capability body key"
  by (auto simp: apply_access_to_experience_def capability_set dest: capability_intersect split: if_splits)

lemma capability_appended: "capability (apply_workgraph_to_experience v w (apply_memory_to_experience v m body)) = capability body"
  by (simp add: apply_workgraph_to_experience_def apply_memory_to_experience_def Let_def capability_set split: prod.split)

lemma capability_read_only:
  assumes "cp_read_only policy" "key \<in> {''can_send_messages'', ''can_spawn_members'', ''can_wire_members'', ''can_retire_members''}"
  shows "\<not> capability (build_console_experience_contract ui modules snapshot policy) key"
  using assms
  by (auto simp: capability_def build_capabilities runtime_capabilities_def read_object Let_def is_some_and_iff)

lemma intersected_affordances_weaker:
  assumes "row_affordances (intersect_row controller view row) = Some aff"
    and "key \<in> {''can_send_message'', ''can_retire'', ''can_respawn''}" "read_bool key aff"
  shows "\<exists>aff0. row_affordances row = Some aff0 \<and> read_bool key aff0"
  using row_affordances_intersect [OF assms(1)] assms(2,3) by auto

text \<open>
  Two members, one spawned by and wired to the other, and a caller who may not view the other.
\<close>

definition demo_member :: "string \<Rightarrow> (string, string) btree \<Rightarrow> string list \<Rightarrow> ConsoleMember" where
  "demo_member identity labels wired =
     \<lparr>cm_agent_identity = identity, cm_role = ''worker'', cm_state = ''active'', cm_model_capabilities = \<lparr>mc_image_input = False\<rparr>,
      cm_runtime_mode = None, cm_session_id = None, cm_wired_to = wired, cm_labels = labels, cm_progress = None\<rparr>"

definition console_demo_snapshot :: ConsoleLiveSnapshot where
  "console_demo_snapshot =
     ConsoleLiveSnapshot_new None True [] []
       [demo_member ''ops'' [] [''helper''], demo_member ''helper'' [(''spawned_by'', ''ops'')] [''ops'']] True"

definition console_demo_env :: ConsoleEnv where
  "console_demo_env = \<lparr>ce_lib = demo_lib, ce_now = 50, ce_ui_json = (\<lambda>_. JNull)\<rparr>"

definition console_demo_request :: ConsoleRestJsonRequest where
  "console_demo_request = \<lparr>rq_method = ''GET'', rq_path = ''/console/experience'', rq_auth = Some \<lparr>ar_provider = GenericOidc, ar_email = ''u@x''\<rparr>\<rparr>"

definition read_only_decisions :: RuntimeDecisionState where
  "read_only_decisions = demo_decisions\<lparr>rds_console := ConsolePolicy_default\<lparr>cp_read_only := True\<rparr>\<rparr>"

lemma demo_path: "split_path_and_query (rq_path console_demo_request) = (CONSOLE_EXPERIENCE_ROUTE, [])"
  by code_simp

lemma demo_authorized:
  assumes "d = demo_decisions \<or> d = read_only_decisions"
  shows "authorize_route (ce_lib console_demo_env) (ce_now console_demo_env) d (rq_auth console_demo_request) [] = Inr (rq_auth console_demo_request)"
  using assms
  by (auto simp: authorize_ok console_demo_request_def resolve_console_auth_def enforce_ok demo_decisions_def read_only_decisions_def local_console_def)

lemma demo_served:
  assumes "d = demo_decisions \<or> d = read_only_decisions"
  shows "rs_status (fst (console_route console_demo_env d console_demo_request snapshot access m w)) = 200"
  using console_route_status [OF demo_path, of console_demo_env d snapshot access m w] demo_authorized [OF assms]
  by (simp add: console_demo_request_def)

lemma demo_subject: "caller_subject console_demo_env demo_decisions console_demo_request = Some ''u@x''"
proof -
  have "rq_auth console_demo_request = Some \<lparr>ar_provider = GenericOidc, ar_email = ''u@x''\<rparr>" by (simp add: console_demo_request_def)
  then show ?thesis using demo_authorized [of demo_decisions] by (simp add: caller_subject_def demo_path access_subject_def)
qed

lemma intersect_keeps_affordances:
  assumes "row_affordances row = Some aff0"
  shows "\<exists>aff. row_affordances (intersect_row c v row) = Some aff"
proof -
  have "is_object row" using assms by (cases "as_object row") (auto simp: row_affordances_def json_get_def is_object_def)
  then show ?thesis using assms by (simp add: intersect_row_def Let_def) (simp add: row_affordances_def json_get_set)
qed

section \<open>Properties\<close>

text \<open>
  C12. The console answers only its two routes, and answers them with content exactly when the
  caller is authorized; where application authentication is required that is an allowlisted
  caller, taken from the request itself or from a token that was resolved against the trusted snapshot.
\<close>

theorem console_route_authorized:
  assumes "split_path_and_query (rq_path request) = (base, params)"
    and "rs_status (fst (handle_console_rest_json_route_with_snapshot_access_memory_and_workgraph
           env decisions request snapshot access m w)) = status"
  shows "(status = 404 \<longleftrightarrow> rq_method request \<noteq> ''GET'' \<or> base \<notin> {CONSOLE_MODULES_ROUTE, CONSOLE_EXPERIENCE_ROUTE})
    \<and> (status \<noteq> 404 \<longrightarrow> status = 401 \<or> status = 200)
    \<and> (status = 200 \<and> cp_require_app_auth (rds_console decisions) \<longrightarrow>
        (\<exists>auth. (rq_auth request = Some auth
             \<or> rq_auth request = None \<and> (\<exists>token human. bt_get params ''auth_token'' = Some token
                  \<and> resolve_authorized_console_human_from_token (ce_lib env) (ce_now env) decisions token = Some (auth, human)))
          \<and> ar_email auth \<in> set (au_email_allowlist (rds_auth decisions))))"
proof -
  note st = console_route_status [OF assms(1), of env decisions snapshot access m w, unfolded assms(2)]
  have "\<exists>auth. (rq_auth request = Some auth
             \<or> rq_auth request = None \<and> (\<exists>token human. bt_get params ''auth_token'' = Some token
                  \<and> resolve_authorized_console_human_from_token (ce_lib env) (ce_now env) decisions token = Some (auth, human)))
          \<and> ar_email auth \<in> set (au_email_allowlist (rds_auth decisions))"
    if 200: "status = 200" and req: "cp_require_app_auth (rds_console decisions)"
  proof -
    obtain a where "authorize_route (ce_lib env) (ce_now env) decisions (rq_auth request) params = Inr a"
      using st 200 by (auto split: if_splits sum.splits)
    then obtain auth where r: "resolve_console_auth (ce_lib env) (ce_now env) decisions (rq_auth request) params = Inr (Some auth)"
      and e: "enforce_console_route_access (rds_auth decisions) (rds_console decisions) auth = Inr ()"
      using req by (auto simp: authorize_ok split: option.splits)
    have "ar_email auth \<in> set (au_email_allowlist (rds_auth decisions))" using e req by (simp add: enforce_ok)
    moreover have "rq_auth request = Some auth \<or> rq_auth request = None \<and> (\<exists>token human. bt_get params ''auth_token'' = Some token
        \<and> resolve_authorized_console_human_from_token (ce_lib env) (ce_now env) decisions token = Some (auth, human))"
      using r e req by (auto simp: resolve_console_auth_def resolve_console_auth_from_token_def resolve_authorized_ok split: option.splits sum.splits)
    ultimately show ?thesis by blast
  qed
  then show ?thesis using st by (auto split: if_splits sum.splits)
qed

theorem console_route_authorized_witness:
  "rs_status (fst (handle_console_rest_json_route_with_snapshot_access_memory_and_workgraph
      console_demo_env demo_decisions console_demo_request None None False False)) = 200 \<and> ''u@x'' \<in> set (au_email_allowlist (rds_auth demo_decisions))"
proof -
  have s: "rs_status (fst (console_route console_demo_env demo_decisions console_demo_request None None False False)) = 200" by (simp add: demo_served)
  have r: "cp_require_app_auth (rds_console demo_decisions)" by (simp add: demo_decisions_def local_console_def ConsolePolicy_default_def)
  have "rq_auth console_demo_request = Some \<lparr>ar_provider = GenericOidc, ar_email = ''u@x''\<rparr>" by (simp add: console_demo_request_def)
  then show ?thesis using console_route_authorized [OF demo_path s] s r by auto
qed

text \<open>
  A console for local use under the default policy fails closed: no request is served,
  whatever identity or token it presents.
\<close>

theorem local_console_fails_closed:
  "rs_status (fst (handle_console_rest_json_route_with_snapshot_access_memory_and_workgraph
      env (local_console ConsolePolicy_default bigquery) request snapshot access m w)) \<noteq> 200"
proof -
  obtain base params where p: "split_path_and_query (rq_path request) = (base, params)" by fastforce
  let ?d = "local_console ConsolePolicy_default bigquery"
  have "\<not> is_ok (authorize_route (ce_lib env) (ce_now env) ?d (rq_auth request) params)"
  proof
    assume "is_ok (authorize_route (ce_lib env) (ce_now env) ?d (rq_auth request) params)"
    then obtain a where a: "resolve_console_auth (ce_lib env) (ce_now env) ?d (rq_auth request) params = Inr a"
      "case a of Some a \<Rightarrow> enforce_console_route_access (rds_auth ?d) (rds_console ?d) a = Inr () | None \<Rightarrow> \<not> cp_require_app_auth (rds_console ?d)"
      by (auto simp: is_ok_iff authorize_ok)
    then show False
      by (auto simp: local_console_def local_console_refuses ConsolePolicy_default_def enforce_ok AuthPolicy_default_def split: option.splits)
  qed
  then show ?thesis using console_route_status [OF p, of env ?d snapshot access m w] by (auto split: sum.splits)
qed

text \<open>
  C11. Under enforced access control the experience stays within the caller's grants: every
  sidebar row is a member, agent or module the caller's view admitted, and an action a row
  offers is one the caller may perform on the agent the row names.
\<close>

theorem console_rows_within_grants:
  assumes "handle_console_rest_json_route_with_snapshot_access_memory_and_workgraph
      env decisions request snapshot (Some ctl) m w = (response, Some ctl')"
    and "rs_status response = 200" "fst (split_path_and_query (rq_path request)) = CONSOLE_EXPERIENCE_ROUTE"
    and "enforced view" "view = view_from_config (ctl_config ctl) (caller_subject env decisions request)"
    and "snap = unwrap_or snapshot (default_console_live_snapshot decisions)"
    and "row \<in> set (sidebar_rows (rs_body response))"
  shows "((\<exists>mb \<in> set (sn_members snap). row_identity row = console_member_console_identity mb
             \<and> is_allow (decide view ACTION_AGENT_VIEW (member_access_resource mb)))
      \<or> (\<exists>ag \<in> set (sn_agents snap). row_identity row = unwrap_or (ca_identity ag) (ca_member_id ag)
             \<and> allows_agent ctl' view ACTION_AGENT_VIEW (unwrap_or (ca_identity ag) (ca_agent_id ag)))
      \<or> (row_identity row \<in> set (sn_loaded_modules snap) \<and> allows_agent ctl' view ACTION_AGENT_VIEW (row_identity row)))
    \<and> (\<forall>aff. row_affordances row = Some aff \<longrightarrow>
         (read_bool ''can_send_message'' aff \<longrightarrow> allows_agent ctl' view ACTION_AGENT_SEND (row_identity row))
         \<and> (read_bool ''can_retire'' aff \<longrightarrow> allows_agent ctl' view ACTION_AGENT_RETIRE (row_identity row))
         \<and> (read_bool ''can_respawn'' aff \<longrightarrow> allows_agent ctl' view ACTION_AGENT_RESPAWN (row_identity row)))"
proof -
  note r = console_route_experience [OF assms(1-3), folded assms(5,6)]
  have c: "ctl' = prime_access_attributes snap ctl" using r by simp
  have "sidebar_rows (rs_body response) = map (intersect_row ctl' view)
      (sidebar_agents (cp_read_only (rds_console decisions)) (filter_snapshot_for_access ctl' view snap))"
    using r assms(4) by (simp add: c appended_sidebar_rows access_sidebar_rows build_sidebar_rows)
  then obtain row0 where row0: "row0 \<in> set (sidebar_agents (cp_read_only (rds_console decisions)) (filter_snapshot_for_access ctl' view snap))"
    "row = intersect_row ctl' view row0" using assms(7) by auto
  have "(\<exists>mb \<in> set (sn_members snap). row_identity row = console_member_console_identity mb
             \<and> is_allow (decide view ACTION_AGENT_VIEW (member_access_resource mb)))
      \<or> (\<exists>ag \<in> set (sn_agents snap). row_identity row = unwrap_or (ca_identity ag) (ca_member_id ag)
             \<and> allows_agent ctl' view ACTION_AGENT_VIEW (unwrap_or (ca_identity ag) (ca_agent_id ag)))
      \<or> (row_identity row \<in> set (sn_loaded_modules snap) \<and> allows_agent ctl' view ACTION_AGENT_VIEW (row_identity row))"
    using row0(1)
  proof (cases rule: sidebar_row_cases)
    case (member mb)
    then show ?thesis using assms(4) row0(2) by (auto simp: filter_snapshot_for_access_def)
  next
    case (agent ag)
    then show ?thesis using assms(4) row0(2) by (auto simp: filter_snapshot_for_access_def)
  next
    case (module md)
    then show ?thesis using assms(4) row0(2) by (auto simp: filter_snapshot_for_access_def)
  qed
  moreover have "(read_bool ''can_send_message'' aff \<longrightarrow> allows_agent ctl' view ACTION_AGENT_SEND (row_identity row))
         \<and> (read_bool ''can_retire'' aff \<longrightarrow> allows_agent ctl' view ACTION_AGENT_RETIRE (row_identity row))
         \<and> (read_bool ''can_respawn'' aff \<longrightarrow> allows_agent ctl' view ACTION_AGENT_RESPAWN (row_identity row))"
    if "row_affordances row = Some aff" for aff
    using that row_affordances_intersect [of ctl' view row0 aff] row0(2) by auto
  ultimately show ?thesis by blast
qed

theorem console_rows_within_grants_witness:
  "\<exists>response ctl' row aff. handle_console_rest_json_route_with_snapshot_access_memory_and_workgraph
       console_demo_env demo_decisions console_demo_request (Some console_demo_snapshot) (Some sample_ctl) False False = (response, Some ctl')
     \<and> row \<in> set (sidebar_rows (rs_body response)) \<and> row_affordances row = Some aff \<and> \<not> read_bool ''can_send_message'' aff"
proof -
  let ?view = "view_from_config (ctl_config sample_ctl) (caller_subject console_demo_env demo_decisions console_demo_request)"
  let ?ctl = "prime_access_attributes console_demo_snapshot sample_ctl"
  let ?m = "demo_member ''ops'' [] [''helper'']"
  obtain response access where h: "console_route console_demo_env demo_decisions console_demo_request (Some console_demo_snapshot) (Some sample_ctl) False False
      = (response, access)" by fastforce
  have st: "rs_status response = 200"
    using demo_served [of demo_decisions "Some console_demo_snapshot" "Some sample_ctl" False False] h by simp
  have path: "fst (split_path_and_query (rq_path console_demo_request)) = CONSOLE_EXPERIENCE_ROUTE" by (simp add: demo_path)
  note r = console_route_experience [OF h st path, unfolded unwrap_or_simps]
  have en: "enforced ?view" by (simp add: enforced_def sample_ctl_def sample_config_def)
  have f: "filter_snapshot_for_access ?ctl ?view console_demo_snapshot = console_demo_snapshot" unfolding demo_subject by code_simp
  have n: "\<not> allows_agent ?ctl ?view ACTION_AGENT_SEND ''ops''" unfolding demo_subject by code_simp
  have rows: "sidebar_rows (rs_body response) = map (intersect_row ?ctl ?view) (sidebar_agents (cp_read_only (rds_console demo_decisions)) console_demo_snapshot)"
    using en by (simp add: conjunct2 [OF r] appended_sidebar_rows access_sidebar_rows build_sidebar_rows f)
  let ?row = "member_row (cp_read_only (rds_console demo_decisions)) (is_aggregate console_demo_snapshot) (response_phase_map (sn_agents console_demo_snapshot)) ?m"
  have m: "?row \<in> set (sidebar_agents (cp_read_only (rds_console demo_decisions)) console_demo_snapshot)"
    by (simp add: sidebar_agents_def console_demo_snapshot_def ConsoleLiveSnapshot_new_def)
  have row: "intersect_row ?ctl ?view ?row \<in> set (sidebar_rows (rs_body response))" using m by (simp add: rows)
  have i: "row_identity (intersect_row ?ctl ?view ?row) = ''ops''" unfolding row_identity_intersect row_identity_simps by code_simp
  obtain aff0 where "row_affordances ?row = Some aff0"
    by (auto simp: member_row_affordances member_affordances_def json_object_def Let_def)
  then obtain aff where aff: "row_affordances (intersect_row ?ctl ?view ?row) = Some aff" using intersect_keeps_affordances by blast
  have h': "console_route console_demo_env demo_decisions console_demo_request (Some console_demo_snapshot) (Some sample_ctl) False False = (response, Some ?ctl)"
    using h r by simp
  have "\<not> read_bool ''can_send_message'' aff"
    using console_rows_within_grants [OF h' st path en refl _ row, unfolded i] aff n by auto
  then show ?thesis using h' row aff by blast
qed

text \<open>
  C27. A read-only console offers nothing that changes the mob: whoever asks, no sidebar row
  lets the caller send, retire or respawn, and the runtime capabilities to send, spawn, wire and retire are off.
\<close>

theorem read_only_console_offers_nothing:
  assumes "handle_console_rest_json_route_with_snapshot_access_memory_and_workgraph
      env decisions request snapshot access m w = (response, access')"
    and "rs_status response = 200" "fst (split_path_and_query (rq_path request)) = CONSOLE_EXPERIENCE_ROUTE"
    and "cp_read_only (rds_console decisions)"
  shows "(\<forall>row \<in> set (sidebar_rows (rs_body response)). \<forall>aff. row_affordances row = Some aff \<longrightarrow>
        \<not> read_bool ''can_send_message'' aff \<and> \<not> read_bool ''can_retire'' aff \<and> \<not> read_bool ''can_respawn'' aff)
    \<and> (\<forall>key \<in> {''can_send_messages'', ''can_spawn_members'', ''can_wire_members'', ''can_retire_members''}.
        \<not> capability (rs_body response) key)"
proof (cases access)
  case None
  note r = console_route_open [OF assms(1) [unfolded None] assms(2,3)]
  have "\<not> capability (rs_body response) key"
    if "key \<in> {''can_send_messages'', ''can_spawn_members'', ''can_wire_members'', ''can_retire_members''}" for key
    using capability_read_only [OF assms(4) that] by (simp add: r capability_appended)
  moreover have "sidebar_rows (rs_body response) = sidebar_agents True (unwrap_or snapshot (default_console_live_snapshot decisions))"
    using assms(4) by (simp add: r appended_sidebar_rows build_sidebar_rows)
  ultimately show ?thesis using read_only_affordances by metis
next
  case (Some ctl)
  note r = console_route_experience [OF assms(1) [unfolded Some] assms(2,3)]
  have cap: "\<not> capability (rs_body response) key"
    if "key \<in> {''can_send_messages'', ''can_spawn_members'', ''can_wire_members'', ''can_retire_members''}" for key
    using capability_read_only [OF assms(4) that] capability_access r by (metis capability_appended)
  have aff: "\<not> read_bool key aff"
    if row: "row \<in> set (sidebar_rows (rs_body response))" "row_affordances row = Some aff"
      and key: "key \<in> {''can_send_message'', ''can_retire'', ''can_respawn''}" for row aff key
  proof
    assume t: "read_bool key aff"
    let ?v = "view_from_config (ctl_config ctl) (caller_subject env decisions request)"
    let ?s = "unwrap_or snapshot (default_console_live_snapshot decisions)"
    let ?c = "prime_access_attributes ?s ctl"
    let ?rows = "sidebar_agents True (filter_snapshot_for_access ?c ?v ?s)"
    have "sidebar_rows (rs_body response) = (if enforced ?v then map (intersect_row ?c ?v) ?rows else ?rows)"
      using assms(4) by (simp add: conjunct2 [OF r] appended_sidebar_rows access_sidebar_rows build_sidebar_rows)
    then obtain row0 where "row0 \<in> set ?rows" "row = row0 \<or> row = intersect_row ?c ?v row0"
      using row(1) by (auto split: if_splits)
    then obtain aff0 where "row_affordances row0 = Some aff0" "read_bool key aff0"
      using row(2) t intersected_affordances_weaker key by metis
    then show False using read_only_affordances [OF \<open>row0 \<in> set ?rows\<close>] key by auto
  qed
  show ?thesis
    by (intro conjI ballI allI impI) ((rule aff, assumption, assumption, simp)+, erule cap)
qed

theorem read_only_console_offers_nothing_witness:
  "\<exists>response access. handle_console_rest_json_route_with_snapshot_access_memory_and_workgraph
       console_demo_env read_only_decisions console_demo_request (Some console_demo_snapshot) None False False = (response, access)
     \<and> \<not> capability (rs_body response) ''can_send_messages''"
proof -
  obtain response access where h: "console_route console_demo_env read_only_decisions console_demo_request (Some console_demo_snapshot) None False False
      = (response, access)" by fastforce
  have st: "rs_status response = 200" using demo_served [of read_only_decisions "Some console_demo_snapshot" None False False] h by simp
  have path: "fst (split_path_and_query (rq_path console_demo_request)) = CONSOLE_EXPERIENCE_ROUTE" by (simp add: demo_path)
  have "cp_read_only (rds_console read_only_decisions)" by (simp add: read_only_decisions_def)
  from read_only_console_offers_nothing [OF h st path this] show ?thesis using h by blast
qed

end
