(* ===== verification/Agent_Memory_Records.thy ===== *)
theory Agent_Memory_Records
  imports Member_Alias
begin

text \<open>
  The durable record model of agent memory (\<open>memory/records.rs\<close>): scopes, kinds, trust tiers,
  statuses and authors, the payload of a write, field caps, the content hash and the stored
  reference of a scope. The digest function is a parameter of the content hash.
\<close>

section \<open>Scopes\<close>

datatype MemoryScope =
    ScopeIdentity (sc_realm: string) string
  | ScopeMob (sc_realm: string) string
  | ScopeOperator (sc_realm: string) string
  | ScopeRealm (sc_realm: string)

fun scope_kind_str :: "MemoryScope \<Rightarrow> string" where
  "scope_kind_str (ScopeIdentity realm identity) = ''identity''"
| "scope_kind_str (ScopeMob realm mob) = ''mob''"
| "scope_kind_str (ScopeOperator realm operator) = ''operator''"
| "scope_kind_str (ScopeRealm realm) = ''realm''"

fun scope_key :: "MemoryScope \<Rightarrow> string" where
  "scope_key (ScopeIdentity realm identity) = identity"
| "scope_key (ScopeMob realm mob) = mob"
| "scope_key (ScopeOperator realm operator) = operator"
| "scope_key (ScopeRealm realm) = []"

datatype MemoryScopeRef = ScopeRefHost (ref_owner: string) (ref_scope: string)

definition AGENT_MEMORY_TARGET_OWNER :: string where
  "AGENT_MEMORY_TARGET_OWNER = ''meta.agent_memory''"

fun escape_scope_ref_part :: "string \<Rightarrow> string" where
  "escape_scope_ref_part [] = []"
| "escape_scope_ref_part (ch # part) =
     (if ch = CHR ''%'' then ''%25'' else if ch = CHR ''/'' then ''%2F'' else [ch]) @ escape_scope_ref_part part"

definition operation_scope_ref :: "MemoryScope \<Rightarrow> MemoryScopeRef" where
  "operation_scope_ref scope =
     ScopeRefHost AGENT_MEMORY_TARGET_OWNER
       (scope_kind_str scope @ ''/'' @ escape_scope_ref_part (sc_realm scope) @ ''/'' @ escape_scope_ref_part (scope_key scope))"

section \<open>Kinds and tiers\<close>

datatype MemoryKind = Preference | Fact | Gotcha | Procedure | Relationship | OpenLoop | Reference

fun kind_as_str :: "MemoryKind \<Rightarrow> string" where
  "kind_as_str Preference = ''preference''"
| "kind_as_str Fact = ''fact''"
| "kind_as_str Gotcha = ''gotcha''"
| "kind_as_str Procedure = ''procedure''"
| "kind_as_str Relationship = ''relationship''"
| "kind_as_str OpenLoop = ''open_loop''"
| "kind_as_str Reference = ''reference''"

definition kind_parse :: "string \<Rightarrow> MemoryKind option" where
  "kind_parse v =
     (if v = ''preference'' then Some Preference
      else if v = ''fact'' then Some Fact
      else if v = ''gotcha'' then Some Gotcha
      else if v = ''procedure'' then Some Procedure
      else if v = ''relationship'' then Some Relationship
      else if v = ''open_loop'' then Some OpenLoop
      else if v = ''reference'' then Some Reference
      else None)"

datatype TrustTier = Untrusted | AgentObserved | AgentVerified | TierApplication | TierOperator

fun tier_rank :: "TrustTier \<Rightarrow> nat" where
  "tier_rank Untrusted = 0"
| "tier_rank AgentObserved = 1"
| "tier_rank AgentVerified = 2"
| "tier_rank TierApplication = 3"
| "tier_rank TierOperator = 4"

lemma tier_rank_inj [simp]: "tier_rank a = tier_rank b \<longleftrightarrow> a = b"
  by (cases a; cases b) simp_all

text \<open>The derived order: authority grows with the position of the variant.\<close>

instantiation TrustTier :: linorder
begin

definition less_eq_TrustTier :: "TrustTier \<Rightarrow> TrustTier \<Rightarrow> bool" where
  "less_eq_TrustTier a b = (tier_rank a \<le> tier_rank b)"

definition less_TrustTier :: "TrustTier \<Rightarrow> TrustTier \<Rightarrow> bool" where
  "less_TrustTier a b = (tier_rank a < tier_rank b)"

instance
  by standard (auto simp: less_eq_TrustTier_def less_TrustTier_def dest: order.antisym)

end

fun tier_as_str :: "TrustTier \<Rightarrow> string" where
  "tier_as_str Untrusted = ''untrusted''"
| "tier_as_str AgentObserved = ''agent_observed''"
| "tier_as_str AgentVerified = ''agent_verified''"
| "tier_as_str TierApplication = ''application''"
| "tier_as_str TierOperator = ''operator''"

definition tier_parse :: "string \<Rightarrow> TrustTier option" where
  "tier_parse v =
     (if v = ''untrusted'' then Some Untrusted
      else if v = ''agent_observed'' then Some AgentObserved
      else if v = ''agent_verified'' then Some AgentVerified
      else if v = ''application'' then Some TierApplication
      else if v = ''operator'' then Some TierOperator
      else None)"

definition assignable_via_staged_batch :: "TrustTier \<Rightarrow> bool" where
  "assignable_via_staged_batch tier = (tier \<noteq> TierOperator \<and> tier \<noteq> TierApplication)"

definition llm_write_ceiling :: TrustTier where
  "llm_write_ceiling = AgentObserved"

definition capped_for_tainted_provenance :: "TrustTier \<Rightarrow> TrustTier" where
  "capped_for_tainted_provenance tier = min tier AgentObserved"

lemma above_ceiling [simp]:
  "llm_write_ceiling < AgentVerified" "llm_write_ceiling < TierApplication" "llm_write_ceiling < TierOperator"
  "\<not> llm_write_ceiling < AgentObserved" "\<not> llm_write_ceiling < Untrusted"
  by (simp_all add: llm_write_ceiling_def less_TrustTier_def)

lemma above_ceiling_assignable: "llm_write_ceiling < t \<Longrightarrow> assignable_via_staged_batch t \<Longrightarrow> t = AgentVerified"
  by (cases t) (auto simp: assignable_via_staged_batch_def)

section \<open>Statuses and authors\<close>

datatype RecordStatus =
    StatusActive
  | StatusSuperseded string
  | StatusQuarantined string
  | StatusTombstoned

fun is_quarantined :: "RecordStatus \<Rightarrow> bool" where
  "is_quarantined (StatusQuarantined reason) = True"
| "is_quarantined _ = False"

fun status_kind_str :: "RecordStatus \<Rightarrow> string" where
  "status_kind_str StatusActive = ''active''"
| "status_kind_str (StatusSuperseded s) = ''superseded''"
| "status_kind_str (StatusQuarantined reason) = ''quarantined''"
| "status_kind_str StatusTombstoned = ''tombstoned''"

datatype MemoryAuthor =
    AuthorOperator
  | AuthorApplication
  | AuthorAgent string
  | AuthorSteward string
  | AuthorDistiller string

fun is_llm :: "MemoryAuthor \<Rightarrow> bool" where
  "is_llm AuthorOperator = False"
| "is_llm AuthorApplication = False"
| "is_llm (AuthorAgent identity) = True"
| "is_llm (AuthorSteward run_id) = True"
| "is_llm (AuthorDistiller run_id) = True"

fun is_steward :: "MemoryAuthor \<Rightarrow> bool" where
  "is_steward (AuthorSteward run_id) = True"
| "is_steward _ = False"

section \<open>Records\<close>

record EvidenceRef =
  ev_session_id :: string
  ev_generation :: u64
  ev_revision :: "string option"
  ev_range :: "(u64 \<times> u64) option"

record VerificationClaim =
  vc_checked :: string
  vc_evidence :: "EvidenceRef list"

record CalibrationRef =
  cr_stage :: string
  cr_bundle :: string
  cr_version :: string
  cr_model :: string

record MemoryProvenance =
  pv_evidence :: "EvidenceRef list"
  pv_author :: MemoryAuthor
  pv_profile :: "CalibrationRef option"
  pv_verification :: "VerificationClaim option"

record UsageStats =
  us_injected_count :: u64
  us_last_injected_at_ms :: "u64 option"
  us_explicit_recall_count :: u64
  us_last_recalled_at_ms :: "u64 option"
  us_judged_useful_count :: u64
  us_last_useful_at_ms :: "u64 option"

definition UsageStats_default :: UsageStats where
  "UsageStats_default = \<lparr>us_injected_count = 0, us_last_injected_at_ms = None, us_explicit_recall_count = 0,
     us_last_recalled_at_ms = None, us_judged_useful_count = 0, us_last_useful_at_ms = None\<rparr>"

record NewMemoryRecord =
  nr_kind :: MemoryKind
  nr_title :: string
  nr_description :: string
  nr_body :: string
  nr_tags :: "string list"
  nr_evidence :: "EvidenceRef list"
  nr_verification :: "VerificationClaim option"

record MemoryRecord =
  mr_id :: string
  mr_scope :: MemoryScope
  mr_kind :: MemoryKind
  mr_title :: string
  mr_description :: string
  mr_body :: string
  mr_tags :: "string list"
  mr_provenance :: MemoryProvenance
  mr_trust :: TrustTier
  mr_status :: RecordStatus
  mr_supersedes :: "string option"
  mr_derived_from :: "string list"
  mr_working_set_rank :: "u32 option"
  mr_created_at_ms :: u64
  mr_updated_at_ms :: u64
  mr_usage :: UsageStats
  mr_ever_quarantined :: bool

definition MAX_RECORD_TITLE_BYTES :: nat where
  "MAX_RECORD_TITLE_BYTES = 200"

definition MAX_RECORD_DESCRIPTION_BYTES :: nat where
  "MAX_RECORD_DESCRIPTION_BYTES = 400"

definition MAX_RECORD_BODY_BYTES :: nat where
  "MAX_RECORD_BODY_BYTES = 64 * 1024"

definition validate_record_fields :: "string \<Rightarrow> string \<Rightarrow> string \<Rightarrow> string + unit" where
  "validate_record_fields title description body =
     (if blank title then Inl ''title must not be empty''
      else if length title > MAX_RECORD_TITLE_BYTES then Inl ''title must be at most 200 bytes''
      else if length description > MAX_RECORD_DESCRIPTION_BYTES then Inl ''description must be at most 400 bytes''
      else if blank body then Inl ''body must not be empty''
      else if length body > MAX_RECORD_BODY_BYTES then Inl ''body must be at most 65536 bytes''
      else Inr ())"

section \<open>The content hash\<close>

definition u64_le_bytes :: "nat \<Rightarrow> string" where
  "u64_le_bytes n = map (\<lambda>i. char_of (n div 256 ^ i mod 256)) [0..<8]"

definition fmt_02x :: "char \<Rightarrow> string" where
  "fmt_02x b = [hex_digit (byte b div 16), hex_digit (byte b mod 16)]"

definition content_hash :: "(string \<Rightarrow> string) \<Rightarrow> string \<Rightarrow> string \<Rightarrow> string" where
  "content_hash sha256 title body =
     concat (map fmt_02x (sha256 (u64_le_bytes (length title mod 2 ^ 64) @ title @ body)))"

definition age_days :: "u64 \<Rightarrow> u64 \<Rightarrow> u64" where
  "age_days updated_at_ms now_ms = saturating_sub now_ms updated_at_ms div (24 * 60 * 60 * 1000)"

section \<open>What the texts identify\<close>

lemma kind_round_trip: "kind_parse (kind_as_str k) = Some k"
  by (cases k) (simp_all add: kind_parse_def)

lemma tier_round_trip: "tier_parse (tier_as_str t) = Some t"
  by (cases t) (simp_all add: tier_parse_def)

interpretation kind_text: codec "\<lambda>_. True" kind_as_str kind_parse
  by unfold_locales (rule kind_round_trip)

interpretation tier_text: codec "\<lambda>_. True" tier_as_str tier_parse
  by unfold_locales (rule tier_round_trip)

text \<open>The stored format of a scope reference read back, as its documentation describes it.\<close>

fun unescape_scope_ref_part :: "string \<Rightarrow> string option" where
  "unescape_scope_ref_part [] = Some []"
| "unescape_scope_ref_part (c # cs) =
     (if c \<noteq> CHR ''%'' then map_option ((#) c) (unescape_scope_ref_part cs)
      else case cs of
        a # b # rest \<Rightarrow>
          if [a, b] = ''25'' then map_option ((#) (CHR ''%'')) (unescape_scope_ref_part rest)
          else if [a, b] = ''2F'' then map_option ((#) (CHR ''/'')) (unescape_scope_ref_part rest)
          else None
      | _ \<Rightarrow> None)"

definition decode_operation_scope_ref :: "MemoryScopeRef \<Rightarrow> MemoryScope option" where
  "decode_operation_scope_ref r =
     (if ref_owner r \<noteq> AGENT_MEMORY_TARGET_OWNER then None
      else case split_on (CHR ''/'') (ref_scope r) of
        [kind, realm, key] \<Rightarrow>
          Option.bind (unescape_scope_ref_part realm) (\<lambda>realm.
            Option.bind (unescape_scope_ref_part key) (\<lambda>key.
              if kind = ''identity'' then Some (ScopeIdentity realm key)
              else if kind = ''mob'' then Some (ScopeMob realm key)
              else if kind = ''operator'' then Some (ScopeOperator realm key)
              else if kind = ''realm'' \<and> key = [] then Some (ScopeRealm realm)
              else None))
      | _ \<Rightarrow> None)"

lemma unescape_escape [simp]: "unescape_scope_ref_part (escape_scope_ref_part s) = Some s"
  by (induction s) auto

lemma slash_free_escape [simp]: "CHR ''/'' \<notin> set (escape_scope_ref_part s)"
  by (induction s) auto

lemma split_on_free: "sep \<notin> set s \<Longrightarrow> split_on sep s = [s]"
  by (induction s) (auto split: list.splits)

lemma split_on_part: "sep \<notin> set s \<Longrightarrow> split_on sep (s @ sep # r) = s # split_on sep r"
  by (induction s) (auto split: list.splits)

lemma slash_free_kind [simp]: "CHR ''/'' \<notin> set (scope_kind_str s)"
  by (cases s) simp_all

lemma decode_scope_ref: "decode_operation_scope_ref (operation_scope_ref scope) = Some scope"
  by (cases scope)
    (simp_all add: decode_operation_scope_ref_def operation_scope_ref_def split_on_part split_on_free)

interpretation scope_ref: codec "\<lambda>_. True" operation_scope_ref decode_operation_scope_ref
  by unfold_locales (rule decode_scope_ref)

text \<open>
  The stored reference of a memory scope decodes to exactly that scope, so no two scopes share
  a grant target, whatever separators and escapes their realm and key contain.
\<close>

theorem scope_reference_roundtrip:
  "decode_operation_scope_ref (operation_scope_ref scope) = Some scope
   \<and> (operation_scope_ref scope = operation_scope_ref scope' \<longleftrightarrow> scope = scope')"
  using scope_ref.round_trip scope_ref.enc_eq by simp

lemma base_256_eq:
  "(\<And>i. i < w \<Longrightarrow> m div 256 ^ i mod 256 = n div 256 ^ i mod (256 :: nat)) \<Longrightarrow> m < 256 ^ w \<Longrightarrow> n < 256 ^ w \<Longrightarrow> m = n"
proof (induction w arbitrary: m n)
  case (Suc w)
  have "m div 256 = n div 256"
  proof (rule Suc.IH)
    fix i assume "i < w"
    then show "m div 256 div 256 ^ i mod 256 = n div 256 div 256 ^ i mod 256"
      using Suc.prems(1) [of "Suc i"] by (simp add: div_mult2_eq)
  qed (use Suc.prems(2,3) in \<open>simp_all add: less_mult_imp_div_less mult.commute\<close>)
  moreover have "m mod 256 = n mod 256" using Suc.prems(1) [of 0] by simp
  ultimately show ?case by (metis div_mult_mod_eq)
qed simp

lemma u64_le_bytes_inj:
  assumes "u64_le_bytes m = u64_le_bytes n" "m < 2 ^ 64" "n < 2 ^ 64"
  shows "m = n"
proof -
  have byte_eq: "m div 256 ^ i mod 256 = n div 256 ^ i mod 256" if "i < 8" for i
  proof -
    have "u64_le_bytes m ! i = u64_le_bytes n ! i" using assms(1) by simp
    then have "char_of (m div 256 ^ i mod 256) = (char_of (n div 256 ^ i mod 256) :: char)"
      using that by (simp add: u64_le_bytes_def)
    then have "byte (char_of (m div 256 ^ i mod 256)) = byte (char_of (n div 256 ^ i mod 256))" by simp
    then show ?thesis by (simp add: byte_def of_char_of)
  qed
  show ?thesis by (rule base_256_eq [of 8]) (use byte_eq assms in auto)
qed

lemma u64_le_bytes_length [simp]: "length (u64_le_bytes n) = 8"
  by (simp add: u64_le_bytes_def)

lemma byte_less: "byte c < 256"
  using of_char_of [of "of_char c :: nat"] by (simp add: byte_def)

lemma hex_digit_inj: "hex_digit m = hex_digit n \<Longrightarrow> m < 16 \<Longrightarrow> n < 16 \<Longrightarrow> m = n"
  by (drule arg_cong [of _ _ byte]) (auto simp: hex_digit_def split: if_splits)

lemma fmt_02x_inj: "fmt_02x a = fmt_02x b \<longleftrightarrow> a = b"
proof
  assume "fmt_02x a = fmt_02x b"
  then have "byte a div 16 = byte b div 16" "byte a mod 16 = byte b mod 16"
    using byte_less [of a] byte_less [of b] by (auto simp: fmt_02x_def intro!: hex_digit_inj)
  then have "byte a = byte b" by (metis div_mult_mod_eq)
  then show "a = b" by (simp add: byte_def)
qed simp

lemma concat_fmt_02x_inj: "concat (map fmt_02x s) = concat (map fmt_02x t) \<longleftrightarrow> s = t"
proof (induction s arbitrary: t)
  case Nil
  then show ?case by (cases t) (simp_all add: fmt_02x_def)
next
  case (Cons a s)
  show ?case
  proof (cases t)
    case Nil
    then show ?thesis by (simp add: fmt_02x_def)
  next
    case (Cons b t')
    have "length (fmt_02x a) = length (fmt_02x b)" by (simp add: fmt_02x_def)
    then show ?thesis using Cons Cons.IH [of t'] fmt_02x_inj by (auto simp: append_eq_append_conv)
  qed
qed

text \<open>The hash separates title and body wherever the digest does not collide.\<close>

lemma content_hash_eq:
  assumes "\<And>x y. sha256 x = sha256 y \<Longrightarrow> x = y"
    and "length t < 2 ^ 64" "length t' < 2 ^ 64"
  shows "content_hash sha256 t b = content_hash sha256 t' b' \<longleftrightarrow> t = t' \<and> b = b'"
proof
  assume "content_hash sha256 t b = content_hash sha256 t' b'"
  then have e: "u64_le_bytes (length t) @ t @ b = u64_le_bytes (length t') @ t' @ b'"
    using assms by (simp add: content_hash_def concat_fmt_02x_inj)
  then have "u64_le_bytes (length t) = u64_le_bytes (length t')" "t @ b = t' @ b'" by simp_all
  then show "t = t' \<and> b = b'" using u64_le_bytes_inj assms(2,3) by (metis append_eq_append_conv)
qed simp

end
