(* ===== verification/Agent_Memory_Staged.thy ===== *)
theory Agent_Memory_Staged
  imports Agent_Memory_Records Agent_Memory_Secrets
begin

text \<open>
  Staged mutation batches and their validator (\<open>memory/staged.rs\<close>). Operations are checked in
  order against an overlay of the effects of the earlier ones. The store is the view the
  validator is given: a lookup of records and of tombstones. The two walks over the lineage of
  records stop only if the store is finite, so they are partial functions into \<open>option\<close>, and
  the validator with them; that they return is proved below.
\<close>

section \<open>Batches\<close>

datatype StagedOp =
    OpCreate (create_id: "string option") MemoryScope NewMemoryRecord TrustTier "string list" "string option" "u64 option" "u64 option"
  | OpSupersede (supersede_id: "string option") string NewMemoryRecord TrustTier "string list" "string option"
  | OpTombstone string "string option"
  | OpRetier string TrustTier "string option"
  | OpSetRank string "u32 option"

fun op_kind_str :: "StagedOp \<Rightarrow> string" where
  "op_kind_str (OpCreate _ _ _ _ _ _ _ _) = ''create''"
| "op_kind_str (OpSupersede _ _ _ _ _ _) = ''supersede''"
| "op_kind_str (OpTombstone _ _) = ''tombstone''"
| "op_kind_str (OpRetier _ _ _) = ''retier''"
| "op_kind_str (OpSetRank _ _) = ''set_rank''"

datatype StagedBatchKind = FreshWrite | ReviewVerdict

record StagedMutationBatch =
  sb_realm :: string
  sb_author :: MemoryAuthor
  sb_kind :: StagedBatchKind
  sb_ops :: "StagedOp list"

record StagedRecordView =
  rv_scope :: MemoryScope
  rv_trust :: TrustTier
  rv_status :: RecordStatus
  rv_supersedes :: "string option"
  rv_derived_from :: "string list"
  rv_content_hash :: string
  rv_has_verification :: bool
  rv_ever_quarantined :: bool

record StagedBatchView =
  bv_record :: "string \<Rightarrow> StagedRecordView option"
  bv_tombstoned_at_ms :: "MemoryScope \<Rightarrow> string \<Rightarrow> u64 option"

datatype StagedBatchError =
    EmptyBatch
  | TooManyOps nat nat
  | InvalidRecord nat string
  | SecretDetected nat string
  | RealmMismatch nat string string
  | ScopeNotWritable nat string
  | TierNotStagedAssignable nat TrustTier
  | TierAboveAuthorCeiling nat TrustTier TrustTier
  | TransitiveTaintCeiling nat TrustTier
  | UnverifiedRetier nat
  | UnresolvableEvidence nat string
  | UnknownRecord nat string
  | RecordExists nat string
  | NotActive nat string
  | AlreadyTombstoned nat string
  | SupersedeCycle nat string
  | TombstoneRecreation nat string

definition MAX_BATCH_OPS :: nat where
  "MAX_BATCH_OPS = 1024"

definition DEFAULT_TOMBSTONE_RECREATE_WINDOW_MS :: u64 where
  "DEFAULT_TOMBSTONE_RECREATE_WINDOW_MS = 7 * 24 * 60 * 60 * 1000"

type_synonym overlay = "string \<Rightarrow> StagedRecordView option"
type_synonym batch_state = "overlay \<times> (MemoryScope \<times> string) set"

section \<open>The checks\<close>

definition check_record_payload :: "nat \<Rightarrow> NewMemoryRecord \<Rightarrow> StagedBatchError + unit" where
  "check_record_payload op_index r =
     (case validate_record_fields (nr_title r) (nr_description r) (nr_body r) of
        Inl reason \<Rightarrow> Inl (InvalidRecord op_index reason)
      | Inr _ \<Rightarrow>
         (case detect_record_secret (nr_title r) (nr_description r) (nr_body r) (nr_tags r) of
            Some secret_class \<Rightarrow> Inl (SecretDetected op_index secret_class)
          | None \<Rightarrow> Inr ()))"

definition single_quoted :: "string \<Rightarrow> string" where
  "single_quoted s = CHR 0x27 # s @ [CHR 0x27]"

definition scope_not_writable :: "nat \<Rightarrow> string \<Rightarrow> MemoryScope \<Rightarrow> StagedBatchError" where
  "scope_not_writable op_index identity other =
     ScopeNotWritable op_index (''agent '' @ single_quoted identity @ '' may only write its own identity scope, not ''
       @ scope_kind_str other @ '' scope (mob/operator writes go through proposals)'')"

definition check_scope :: "nat \<Rightarrow> StagedMutationBatch \<Rightarrow> MemoryScope \<Rightarrow> StagedBatchError + unit" where
  "check_scope op_index batch scope =
     (if sc_realm scope \<noteq> sb_realm batch then Inl (RealmMismatch op_index (sb_realm batch) (sc_realm scope))
      else case sb_author batch of
        AuthorAgent identity \<Rightarrow>
          (case scope of
             ScopeIdentity realm scope_identity \<Rightarrow>
               if scope_identity = identity then Inr () else Inl (scope_not_writable op_index identity scope)
           | _ \<Rightarrow> Inl (scope_not_writable op_index identity scope))
      | _ \<Rightarrow> Inr ())"

definition check_tier_assignment :: "nat \<Rightarrow> StagedMutationBatch \<Rightarrow> TrustTier \<Rightarrow> bool \<Rightarrow> StagedBatchError + unit" where
  "check_tier_assignment op_index batch tier is_retier =
     (if \<not> assignable_via_staged_batch tier then Inl (TierNotStagedAssignable op_index tier)
      else if is_llm (sb_author batch) \<and> llm_write_ceiling < tier \<and> \<not> (is_retier \<and> is_steward (sb_author batch))
      then Inl (TierAboveAuthorCeiling op_index tier llm_write_ceiling)
      else Inr ())"

definition lookup_record :: "StagedBatchView \<Rightarrow> overlay \<Rightarrow> string \<Rightarrow> StagedRecordView option" where
  "lookup_record view overlay mid = (case overlay mid of Some r \<Rightarrow> Some r | None \<Rightarrow> bv_record view mid)"

definition carries_taint :: "StagedRecordView \<Rightarrow> bool" where
  "carries_taint r = (rv_trust r = Untrusted \<or> rv_ever_quarantined r \<or> is_quarantined (rv_status r))"

text \<open>The depth-first walk: the top of the stack is the head of the list.\<close>

partial_function (option) chain_loop ::
  "(string \<Rightarrow> StagedRecordView option) \<Rightarrow> string list \<Rightarrow> string set \<Rightarrow> bool option" where
  "chain_loop look stack visited =
     (case stack of
        [] \<Rightarrow> Some False
      | mid # rest \<Rightarrow>
          if mid \<in> visited then chain_loop look rest visited
          else case look mid of
            None \<Rightarrow> chain_loop look rest (insert mid visited)
          | Some r \<Rightarrow>
              if carries_taint r then Some True
              else chain_loop look (rev (rv_derived_from r) @ (case rv_supersedes r of Some prior \<Rightarrow> [prior] | None \<Rightarrow> []) @ rest)
                     (insert mid visited))"

lemma chain_loop_code [code]:
  "chain_loop look [] visited = Some False"
  "chain_loop look (mid # rest) visited =
     (if mid \<in> visited then chain_loop look rest visited
      else case look mid of
        None \<Rightarrow> chain_loop look rest (insert mid visited)
      | Some r \<Rightarrow>
          if carries_taint r then Some True
          else chain_loop look (rev (rv_derived_from r) @ (case rv_supersedes r of Some prior \<Rightarrow> [prior] | None \<Rightarrow> []) @ rest)
                 (insert mid visited))"
  by (subst chain_loop.simps; simp)+

definition chain_reaches_taint :: "StagedBatchView \<Rightarrow> overlay \<Rightarrow> string list \<Rightarrow> bool option" where
  "chain_reaches_taint view overlay start = chain_loop (lookup_record view overlay) (rev start) {}"

definition is_tombstone_recreation ::
  "MemoryAuthor \<Rightarrow> StagedBatchView \<Rightarrow> (MemoryScope \<times> string) set \<Rightarrow> MemoryScope \<Rightarrow> string \<Rightarrow> u64 \<Rightarrow> u64 \<Rightarrow> bool" where
  "is_tombstone_recreation author view batch_tombstoned scope hash window_ms now_ms =
     (is_llm author
      \<and> ((scope, hash) \<in> batch_tombstoned
         \<or> is_some_and (bv_tombstoned_at_ms view scope hash) (\<lambda>at_ms. saturating_sub now_ms at_ms \<le> window_ms)))"

text \<open>The walk along the superseded priors, with the id that closes a cycle.\<close>

partial_function (option) supersede_walk ::
  "(string \<Rightarrow> StagedRecordView option) \<Rightarrow> string option \<Rightarrow> string set \<Rightarrow> string option option" where
  "supersede_walk look cursor visited =
     (case cursor of
        None \<Rightarrow> Some None
      | Some current \<Rightarrow>
          if current \<in> visited then Some (Some current)
          else supersede_walk look (Option.bind (look current) rv_supersedes) (insert current visited))"

lemma supersede_walk_code [code]:
  "supersede_walk look None visited = Some None"
  "supersede_walk look (Some current) visited =
     (if current \<in> visited then Some (Some current)
      else supersede_walk look (Option.bind (look current) rv_supersedes) (insert current visited))"
  by (subst supersede_walk.simps; simp)+

section \<open>The operations\<close>

definition check_new_id :: "nat \<Rightarrow> (string \<Rightarrow> StagedRecordView option) \<Rightarrow> string option \<Rightarrow> StagedBatchError + unit" where
  "check_new_id op_index look mid =
     (case mid of
        Some mid \<Rightarrow> if look mid \<noteq> None then Inl (RecordExists op_index mid) else Inr ()
      | None \<Rightarrow> Inr ())"

fun check_sources :: "nat \<Rightarrow> (string \<Rightarrow> StagedRecordView option) \<Rightarrow> string list \<Rightarrow> StagedBatchError + unit" where
  "check_sources op_index look [] = Inr ()"
| "check_sources op_index look (source # sources) =
     (if look source = None then Inl (UnknownRecord op_index source) else check_sources op_index look sources)"

definition check_acyclic ::
  "nat \<Rightarrow> (string \<Rightarrow> StagedRecordView option) \<Rightarrow> string option \<Rightarrow> string \<Rightarrow> (StagedBatchError + unit) option" where
  "check_acyclic op_index look mid prior =
     (case mid of
        None \<Rightarrow> Some (Inr ())
      | Some new_id \<Rightarrow>
          map_option (\<lambda>cycle. case cycle of Some current \<Rightarrow> Inl (SupersedeCycle op_index current) | None \<Rightarrow> Inr ())
            (supersede_walk look (Some prior) {new_id}))"

definition and_then :: "'e + unit \<Rightarrow> ('e + 'a) option \<Rightarrow> ('e + 'a) option" where
  "and_then r k = (case r of Inl e \<Rightarrow> Some (Inl e) | Inr _ \<Rightarrow> k)"

definition validate_create ::
  "(string \<Rightarrow> string) \<Rightarrow> StagedBatchView \<Rightarrow> u64 \<Rightarrow> u64 \<Rightarrow> StagedMutationBatch \<Rightarrow> nat \<Rightarrow> batch_state
   \<Rightarrow> string option \<Rightarrow> MemoryScope \<Rightarrow> NewMemoryRecord \<Rightarrow> TrustTier \<Rightarrow> string list \<Rightarrow> (StagedBatchError + batch_state) option" where
  "validate_create sha view window now batch op_index st mid scope r trust derived_from =
     (let (overlay, tombstoned) = st; look = lookup_record view overlay; hash = content_hash sha (nr_title r) (nr_body r) in
      and_then (check_record_payload op_index r)
       (and_then (check_scope op_index batch scope)
        (and_then (check_tier_assignment op_index batch trust False)
         (and_then (check_new_id op_index look mid)
          (and_then (check_sources op_index look derived_from)
           (Option.bind (chain_reaches_taint view overlay derived_from) (\<lambda>tainted. Some
             (if tainted \<and> llm_write_ceiling < trust then Inl (TransitiveTaintCeiling op_index trust)
              else if is_tombstone_recreation (sb_author batch) view tombstoned scope hash window now
              then Inl (TombstoneRecreation op_index hash)
              else Inr
                ((case mid of
                    None \<Rightarrow> overlay
                  | Some mid \<Rightarrow> overlay(mid \<mapsto> \<lparr>rv_scope = scope, rv_trust = trust, rv_status = StatusActive, rv_supersedes = None,
                      rv_derived_from = derived_from, rv_content_hash = hash,
                      rv_has_verification = nr_verification r \<noteq> None, rv_ever_quarantined = tainted\<rparr>)),
                 tombstoned)))))))))"

definition validate_supersede ::
  "(string \<Rightarrow> string) \<Rightarrow> StagedBatchView \<Rightarrow> u64 \<Rightarrow> u64 \<Rightarrow> StagedMutationBatch \<Rightarrow> nat \<Rightarrow> batch_state
   \<Rightarrow> string option \<Rightarrow> string \<Rightarrow> NewMemoryRecord \<Rightarrow> TrustTier \<Rightarrow> string list \<Rightarrow> (StagedBatchError + batch_state) option" where
  "validate_supersede sha view window now batch op_index st mid prior r trust derived_from =
     (let (overlay, tombstoned) = st; look = lookup_record view overlay; hash = content_hash sha (nr_title r) (nr_body r) in
      and_then (check_record_payload op_index r)
       (and_then (check_tier_assignment op_index batch trust False)
        (case look prior of
           None \<Rightarrow> Some (Inl (UnknownRecord op_index prior))
         | Some prior_view \<Rightarrow>
             if rv_status prior_view \<noteq> StatusActive then Some (Inl (NotActive op_index prior))
             else and_then (check_scope op_index batch (rv_scope prior_view))
              (and_then (check_new_id op_index look mid)
               (and_then (check_sources op_index look derived_from)
                (Option.bind (check_acyclic op_index look mid prior) (\<lambda>acyclic. and_then acyclic
                 (Option.bind (chain_reaches_taint view overlay (prior # derived_from)) (\<lambda>tainted. Some
                   (if tainted \<and> llm_write_ceiling < trust then Inl (TransitiveTaintCeiling op_index trust)
                    else if is_tombstone_recreation (sb_author batch) view tombstoned (rv_scope prior_view) hash window now
                    then Inl (TombstoneRecreation op_index hash)
                    else Inr
                      (let overlay = overlay(prior \<mapsto> prior_view\<lparr>rv_status := StatusSuperseded (unwrap_or mid ''<pending>'')\<rparr>) in
                       (case mid of
                          None \<Rightarrow> overlay
                        | Some mid \<Rightarrow> overlay(mid \<mapsto> \<lparr>rv_scope = rv_scope prior_view, rv_trust = trust, rv_status = StatusActive,
                            rv_supersedes = Some prior, rv_derived_from = derived_from, rv_content_hash = hash,
                            rv_has_verification = nr_verification r \<noteq> None, rv_ever_quarantined = tainted\<rparr>)),
                       tombstoned)))))))))))"

definition validate_tombstone ::
  "StagedBatchView \<Rightarrow> StagedMutationBatch \<Rightarrow> nat \<Rightarrow> batch_state \<Rightarrow> string \<Rightarrow> StagedBatchError + batch_state" where
  "validate_tombstone view batch op_index st mid =
     (let (overlay, tombstoned) = st in
      case lookup_record view overlay mid of
        None \<Rightarrow> Inl (UnknownRecord op_index mid)
      | Some existing \<Rightarrow>
          if rv_status existing = StatusTombstoned then Inl (AlreadyTombstoned op_index mid)
          else case check_scope op_index batch (rv_scope existing) of
            Inl e \<Rightarrow> Inl e
          | Inr _ \<Rightarrow> Inr
              (overlay(mid \<mapsto> existing\<lparr>rv_status := StatusTombstoned,
                 rv_ever_quarantined := rv_ever_quarantined existing \<or> is_quarantined (rv_status existing)\<rparr>),
               insert (rv_scope existing, rv_content_hash existing) tombstoned))"

definition validate_retier ::
  "StagedBatchView \<Rightarrow> StagedMutationBatch \<Rightarrow> nat \<Rightarrow> batch_state \<Rightarrow> string \<Rightarrow> TrustTier \<Rightarrow> (StagedBatchError + batch_state) option" where
  "validate_retier view batch op_index st mid trust =
     (let (overlay, tombstoned) = st in
      and_then (check_tier_assignment op_index batch trust True)
       (case lookup_record view overlay mid of
          None \<Rightarrow> Some (Inl (UnknownRecord op_index mid))
        | Some existing \<Rightarrow>
            if rv_status existing = StatusTombstoned then Some (Inl (AlreadyTombstoned op_index mid))
            else and_then (check_scope op_index batch (rv_scope existing))
             (if trust = AgentVerified \<and> (\<not> is_steward (sb_author batch) \<or> \<not> rv_has_verification existing)
              then Some (Inl (UnverifiedRetier op_index))
              else Option.bind (if llm_write_ceiling < trust then chain_reaches_taint view overlay [mid] else Some False) (\<lambda>tainted. Some
                (if tainted then Inl (TransitiveTaintCeiling op_index trust)
                 else Inr (overlay(mid \<mapsto> existing\<lparr>rv_trust := trust\<rparr>), tombstoned))))))"

definition validate_set_rank ::
  "StagedBatchView \<Rightarrow> StagedMutationBatch \<Rightarrow> nat \<Rightarrow> batch_state \<Rightarrow> string \<Rightarrow> StagedBatchError + batch_state" where
  "validate_set_rank view batch op_index st mid =
     (case lookup_record view (fst st) mid of
        None \<Rightarrow> Inl (UnknownRecord op_index mid)
      | Some existing \<Rightarrow>
          if rv_status existing = StatusTombstoned then Inl (AlreadyTombstoned op_index mid)
          else case check_scope op_index batch (rv_scope existing) of Inl e \<Rightarrow> Inl e | Inr _ \<Rightarrow> Inr st)"

fun validate_op ::
  "(string \<Rightarrow> string) \<Rightarrow> StagedBatchView \<Rightarrow> u64 \<Rightarrow> u64 \<Rightarrow> StagedMutationBatch \<Rightarrow> nat \<Rightarrow> batch_state \<Rightarrow> StagedOp
   \<Rightarrow> (StagedBatchError + batch_state) option" where
  "validate_op sha view window now batch i st (OpCreate mid scope r trust derived_from _ _ _) =
     validate_create sha view window now batch i st mid scope r trust derived_from"
| "validate_op sha view window now batch i st (OpSupersede mid prior r trust derived_from _) =
     validate_supersede sha view window now batch i st mid prior r trust derived_from"
| "validate_op sha view window now batch i st (OpTombstone mid _) = Some (validate_tombstone view batch i st mid)"
| "validate_op sha view window now batch i st (OpRetier mid trust _) = validate_retier view batch i st mid trust"
| "validate_op sha view window now batch i st (OpSetRank mid _) = Some (validate_set_rank view batch i st mid)"

fun validate_ops ::
  "(string \<Rightarrow> string) \<Rightarrow> StagedBatchView \<Rightarrow> u64 \<Rightarrow> u64 \<Rightarrow> StagedMutationBatch \<Rightarrow> nat \<Rightarrow> batch_state \<Rightarrow> StagedOp list
   \<Rightarrow> (StagedBatchError + batch_state) option" where
  "validate_ops sha view window now batch i st [] = Some (Inr st)"
| "validate_ops sha view window now batch i st (op # ops) =
     Option.bind (validate_op sha view window now batch i st op) (\<lambda>r.
       case r of Inl e \<Rightarrow> Some (Inl e) | Inr st \<Rightarrow> validate_ops sha view window now batch (Suc i) st ops)"

definition validate_batch ::
  "(string \<Rightarrow> string) \<Rightarrow> StagedMutationBatch \<Rightarrow> StagedBatchView \<Rightarrow> u64 \<Rightarrow> u64 \<Rightarrow> (StagedBatchError + unit) option" where
  "validate_batch sha batch view window now =
     (if sb_ops batch = [] then Some (Inl EmptyBatch)
      else if length (sb_ops batch) > MAX_BATCH_OPS then Some (Inl (TooManyOps MAX_BATCH_OPS (length (sb_ops batch))))
      else map_option (map_sum id (\<lambda>_. ())) (validate_ops sha view window now batch 0 (Map.empty, {}) (sb_ops batch)))"

text \<open>The texts of the refusals.\<close>

definition op_text :: "nat \<Rightarrow> string \<Rightarrow> string" where
  "op_text op_index s = ''op '' @ nat_decimal op_index @ '': '' @ s"

definition section_sign :: string where
  "section_sign = [CHR 0xC2, CHR 0xA7]"

definition em_dash :: string where
  "em_dash = [CHR 0xE2, CHR 0x80, CHR 0x94]"

fun display_batch_error :: "StagedBatchError \<Rightarrow> string" where
  "display_batch_error EmptyBatch = ''staged batch must contain at least one op''"
| "display_batch_error (TooManyOps cap got) = ''staged batch has '' @ nat_decimal got @ '' ops; the cap is '' @ nat_decimal cap"
| "display_batch_error (InvalidRecord i reason) = op_text i (''invalid record: '' @ reason)"
| "display_batch_error (SecretDetected i secret_class) = op_text i (''write refused: content matches the '' @ single_quoted secret_class
     @ '' secret pattern class ('' @ section_sign @ ''10.4). Durable memory must never hold credentials '' @ em_dash
     @ '' store a reference to where the credential lives instead. Do not retry with the secret paraphrased or split.'')"
| "display_batch_error (RealmMismatch i expected got) =
     op_text i (''scope realm '' @ single_quoted got @ '' does not match batch realm '' @ single_quoted expected)"
| "display_batch_error (ScopeNotWritable i reason) = op_text i (''scope not writable: '' @ reason)"
| "display_batch_error (TierNotStagedAssignable i tier) =
     op_text i (''trust tier '' @ single_quoted (tier_as_str tier) @ '' is never assignable via a staged batch'')"
| "display_batch_error (TierAboveAuthorCeiling i tier ceil) = op_text i (''trust tier '' @ single_quoted (tier_as_str tier)
     @ '' exceeds the author'' @ [CHR 0x27] @ ''s ceiling '' @ single_quoted (tier_as_str ceil))"
| "display_batch_error (TransitiveTaintCeiling i tier) = op_text i (''trust tier '' @ single_quoted (tier_as_str tier)
     @ '' rejected: provenance chain reaches untrusted/quarantined content (capped at agent_observed)'')"
| "display_batch_error (UnverifiedRetier i) =
     op_text i ''retier to agent_verified requires a steward author and a verification claim on the record''"
| "display_batch_error (UnresolvableEvidence i reason) = op_text i (''retier to agent_verified rejected: verification evidence ''
     @ ''does not resolve against the session store ('' @ reason @ '')'')"
| "display_batch_error (UnknownRecord i mid) = op_text i (''record '' @ single_quoted mid @ '' does not exist'')"
| "display_batch_error (RecordExists i mid) = op_text i (''record '' @ single_quoted mid @ '' already exists'')"
| "display_batch_error (NotActive i mid) = op_text i (''record '' @ single_quoted mid @ '' is not active'')"
| "display_batch_error (AlreadyTombstoned i mid) = op_text i (''record '' @ single_quoted mid @ '' is already tombstoned'')"
| "display_batch_error (SupersedeCycle i mid) = op_text i (''supersede chain through '' @ single_quoted mid @ '' would form a cycle'')"
| "display_batch_error (TombstoneRecreation i hash) = op_text i (''content (hash '' @ hash
     @ '') was tombstoned within the recreation window and cannot be re-created'')"

end
