(* ===== verification/Agent_Memory_Lineage.thy ===== *)
theory Agent_Memory_Lineage
  imports Agent_Memory_Staged
begin

text \<open>
  What the staged validator guarantees: its walks return and compute reachability in the lineage
  of records, supersede chains stay acyclic, and every operation of an accepted batch respects
  the write authority of its author, the tier lattice, the provenance ceiling and secret hygiene.
\<close>

section \<open>The lineage of records\<close>

definition lineage :: "(string \<Rightarrow> StagedRecordView option) \<Rightarrow> (string \<times> string) set" where
  "lineage look = {(a, b). \<exists>r. look a = Some r \<and> (rv_supersedes r = Some b \<or> b \<in> set (rv_derived_from r))}"

definition tainted_id :: "(string \<Rightarrow> StagedRecordView option) \<Rightarrow> string \<Rightarrow> bool" where
  "tainted_id look t = is_some_and (look t) carries_taint"

definition reaches_taint :: "(string \<Rightarrow> StagedRecordView option) \<Rightarrow> string set \<Rightarrow> bool" where
  "reaches_taint look S = (\<exists>s \<in> S. \<exists>t. (s, t) \<in> (lineage look)\<^sup>* \<and> tainted_id look t)"

definition supersede_edges :: "(string \<Rightarrow> StagedRecordView option) \<Rightarrow> (string \<times> string) set" where
  "supersede_edges look = {(a, b). \<exists>r. look a = Some r \<and> rv_supersedes r = Some b}"

lemma lookup_record_map_add: "lookup_record view overlay = bv_record view ++ overlay"
  by (rule ext) (simp add: lookup_record_def map_add_def)

lemma reaches_taint_mono: "S \<subseteq> T \<Longrightarrow> reaches_taint look S \<Longrightarrow> reaches_taint look T"
  unfolding reaches_taint_def by blast

lemma reaches_taint_self: "tainted_id look s \<Longrightarrow> s \<in> S \<Longrightarrow> reaches_taint look S"
  unfolding reaches_taint_def by blast

text \<open>A set that is closed under the lineage and holds no tainted record reaches none.\<close>

lemma closed_reaches_nothing:
  assumes "\<And>v. v \<in> S \<Longrightarrow> \<not> tainted_id look v" "\<And>v w. v \<in> S \<Longrightarrow> (v, w) \<in> lineage look \<Longrightarrow> w \<in> S"
  shows "\<not> reaches_taint look S"
proof
  assume "reaches_taint look S"
  then obtain s t where st: "s \<in> S" "(s, t) \<in> (lineage look)\<^sup>*" "tainted_id look t" unfolding reaches_taint_def by blast
  have "t \<in> S" using st(2,1) by (induction rule: rtrancl_induct) (auto intro: assms(2))
  then show False using assms(1) st(3) by blast
qed

text \<open>The walk over the lineage returns, and decides whether a tainted record is reachable.\<close>

definition walk_inv :: "(string \<Rightarrow> StagedRecordView option) \<Rightarrow> string set \<Rightarrow> string list \<Rightarrow> bool" where
  "walk_inv look visited stack =
     (\<forall>v \<in> visited. \<not> tainted_id look v \<and> (\<forall>w. (v, w) \<in> lineage look \<longrightarrow> w \<in> visited \<union> set stack))"

lemma chain_loop_correct:
  assumes "finite (dom look)"
  shows "walk_inv look visited stack \<Longrightarrow> chain_loop look stack visited = Some (reaches_taint look (visited \<union> set stack))"
proof (induction "(visited, stack)" arbitrary: visited stack
    rule: wf_induct_rule [OF wf_measures [of "[\<lambda>(v, s). card (dom look - v), \<lambda>(v, s). length s]"]])
  case (1 visited stack)
  note inv = "1.prems"
  show ?case
  proof (cases stack)
    case Nil
    then have "\<not> reaches_taint look visited" using inv by (intro closed_reaches_nothing) (auto simp: walk_inv_def)
    then show ?thesis using Nil by (simp add: chain_loop.simps)
  next
    case (Cons mid rest)
    have unf: "chain_loop look stack visited =
        (if mid \<in> visited then chain_loop look rest visited
         else case look mid of None \<Rightarrow> chain_loop look rest (insert mid visited)
         | Some r \<Rightarrow> if carries_taint r then Some True
           else chain_loop look (rev (rv_derived_from r) @ (case rv_supersedes r of Some prior \<Rightarrow> [prior] | None \<Rightarrow> []) @ rest)
                  (insert mid visited))"
      by (subst chain_loop.simps) (simp add: Cons)
    show ?thesis
    proof (cases "mid \<in> visited")
      case True
      then have "walk_inv look visited rest" using inv by (auto simp: walk_inv_def Cons)
      then have "chain_loop look rest visited = Some (reaches_taint look (visited \<union> set rest))"
        by (intro "1.hyps") (simp_all add: Cons)
      moreover have "visited \<union> set stack = visited \<union> set rest" using True Cons by auto
      ultimately show ?thesis using True unf by simp
    next
      case fresh: False
      show ?thesis
      proof (cases "look mid")
        case None
        then have inv': "walk_inv look (insert mid visited) rest"
          using inv by (auto simp: walk_inv_def Cons tainted_id_def lineage_def)
        have "card (dom look - insert mid visited) = card (dom look - visited)"
          using None by (intro arg_cong [of _ _ card]) auto
        then have "chain_loop look rest (insert mid visited) = Some (reaches_taint look (insert mid visited \<union> set rest))"
          by (intro "1.hyps" inv') (simp add: Cons)
        then show ?thesis using None fresh unf by (simp add: Cons)
      next
        case (Some r)
        let ?stack = "rev (rv_derived_from r) @ (case rv_supersedes r of Some prior \<Rightarrow> [prior] | None \<Rightarrow> []) @ rest"
        have succ: "(mid, w) \<in> lineage look \<longleftrightarrow> w \<in> set (rv_derived_from r) \<or> rv_supersedes r = Some w" for w
          using Some by (auto simp: lineage_def)
        show ?thesis
        proof (cases "carries_taint r")
          case True
          then have "reaches_taint look (visited \<union> set stack)"
            using Some Cons by (intro reaches_taint_self [of _ mid]) (simp_all add: tainted_id_def)
          then show ?thesis using True Some fresh unf by simp
        next
          case False
          then have inv': "walk_inv look (insert mid visited) ?stack"
            using inv Some succ by (auto simp: walk_inv_def Cons tainted_id_def split: option.splits)
          have "card (dom look - insert mid visited) < card (dom look - visited)"
            using Some fresh assms by (intro psubset_card_mono) auto
          then have IH: "chain_loop look ?stack (insert mid visited) = Some (reaches_taint look (insert mid visited \<union> set ?stack))"
            by (intro "1.hyps" inv') simp
          have "reaches_taint look (insert mid visited \<union> set ?stack) \<longleftrightarrow> reaches_taint look (visited \<union> set stack)"
          proof
            assume "reaches_taint look (insert mid visited \<union> set ?stack)"
            then obtain s t where st: "s \<in> insert mid visited \<union> set ?stack" "(s, t) \<in> (lineage look)\<^sup>*" "tainted_id look t"
              unfolding reaches_taint_def by blast
            have "s \<in> visited \<union> set stack \<or> (mid, s) \<in> lineage look"
              unfolding succ using st(1) by (cases "rv_supersedes r") (auto simp: Cons)
            moreover have "mid \<in> visited \<union> set stack" by (simp add: Cons)
            ultimately have "\<exists>s' \<in> visited \<union> set stack. (s', t) \<in> (lineage look)\<^sup>*"
              using st(2) converse_rtrancl_into_rtrancl by metis
            then show "reaches_taint look (visited \<union> set stack)" using st(3) unfolding reaches_taint_def by blast
          next
            assume "reaches_taint look (visited \<union> set stack)"
            moreover have "visited \<union> set stack \<subseteq> insert mid visited \<union> set ?stack" by (auto simp: Cons)
            ultimately show "reaches_taint look (insert mid visited \<union> set ?stack)" by (rule reaches_taint_mono [rotated])
          qed
          then show ?thesis using False Some fresh unf IH by simp
        qed
      qed
    qed
  qed
qed

lemma chain_reaches_taint_correct:
  "finite (dom (lookup_record view overlay)) \<Longrightarrow>
   chain_reaches_taint view overlay start = Some (reaches_taint (lookup_record view overlay) (set start))"
  unfolding chain_reaches_taint_def by (subst chain_loop_correct) (auto simp: walk_inv_def)

text \<open>The walk along superseded priors returns, and a clean result rules the visited ids out.\<close>

lemma supersede_walk_correct:
  assumes "finite (dom look)"
  shows "\<exists>result. supersede_walk look cursor visited = Some result
    \<and> (result = None \<longrightarrow> (\<forall>c t. cursor = Some c \<longrightarrow> (c, t) \<in> (supersede_edges look)\<^sup>* \<longrightarrow> t \<notin> visited))"
proof (induction "(visited, cursor)" arbitrary: visited cursor
    rule: wf_induct_rule [OF wf_measures [of "[\<lambda>(v, c). card (dom look - v), \<lambda>(v, c). if c = None then 0 else 1 :: nat]"]])
  case (1 visited cursor)
  show ?case
  proof (cases cursor)
    case None
    then show ?thesis by (simp add: supersede_walk.simps)
  next
    case (Some current)
    show ?thesis
    proof (cases "current \<in> visited")
      case True
      then show ?thesis by (simp add: supersede_walk.simps Some)
    next
      case False
      let ?next = "Option.bind (look current) rv_supersedes"
      have "\<exists>result. supersede_walk look ?next (insert current visited) = Some result
        \<and> (result = None \<longrightarrow> (\<forall>c t. ?next = Some c \<longrightarrow> (c, t) \<in> (supersede_edges look)\<^sup>* \<longrightarrow> t \<notin> insert current visited))"
      proof (rule "1.hyps")
        show "((insert current visited, ?next), (visited, cursor))
          \<in> measures [\<lambda>(v, c). card (dom look - v), \<lambda>(v, c). if c = None then 0 else 1]"
        proof (cases "look current")
          case None
          then have "dom look - insert current visited = dom look - visited" by auto
          then show ?thesis using None by (simp add: Some)
        next
          case (Some r)
          then have "card (dom look - insert current visited) < card (dom look - visited)"
            using False assms by (intro psubset_card_mono) auto
          then show ?thesis by simp
        qed
      qed
      then obtain result where result: "supersede_walk look ?next (insert current visited) = Some result"
        "result = None \<Longrightarrow> ?next = Some c \<Longrightarrow> (c, t) \<in> (supersede_edges look)\<^sup>* \<Longrightarrow> t \<notin> insert current visited" for c t by blast
      have "t \<notin> visited" if "result = None" "(current, t) \<in> (supersede_edges look)\<^sup>*" for t
        using that(2)
      proof (cases rule: converse_rtranclE)
        case (step c)
        then have "?next = Some c" by (auto simp: supersede_edges_def)
        then show ?thesis using result(2) [OF that(1) _ step(2)] by blast
      qed (use False in simp)
      then show ?thesis using result(1) False by (subst supersede_walk.simps) (auto simp: Some)
    qed
  qed
qed

section \<open>Accepted operations\<close>

lemma and_then_Some_Inr [simp]: "and_then r k = Some (Inr x) \<longleftrightarrow> r = Inr () \<and> k = Some (Inr x)"
  by (cases r) (auto simp: and_then_def)

lemma and_then_total: "\<exists>x. k = Some x \<Longrightarrow> \<exists>x. and_then r k = Some x"
  by (cases r) (auto simp: and_then_def)

lemma check_new_id_ok: "check_new_id i look mid = Inr () \<longleftrightarrow> is_none_or mid (\<lambda>m. look m = None)"
  by (cases mid) (auto simp: check_new_id_def)

lemma check_sources_ok: "check_sources i look sources = Inr () \<longleftrightarrow> (\<forall>s \<in> set sources. look s \<noteq> None)"
  by (induction sources) auto

definition writable :: "StagedMutationBatch \<Rightarrow> MemoryScope \<Rightarrow> bool" where
  "writable batch scope = (sc_realm scope = sb_realm batch
     \<and> (\<forall>identity. sb_author batch = AuthorAgent identity \<longrightarrow> scope = ScopeIdentity (sb_realm batch) identity))"

lemma check_scope_ok: "check_scope i batch scope = Inr () \<longleftrightarrow> writable batch scope"
  by (cases scope) (auto simp: check_scope_def writable_def split: MemoryAuthor.splits)

definition payload_clean :: "NewMemoryRecord \<Rightarrow> bool" where
  "payload_clean r = (\<not> blank (nr_title r) \<and> length (nr_title r) \<le> 200 \<and> length (nr_description r) \<le> 400
     \<and> \<not> blank (nr_body r) \<and> length (nr_body r) \<le> 65536
     \<and> (\<forall>field \<in> set (nr_title r # nr_description r # nr_body r # nr_tags r). \<not> secret_in field))"

lemma detect_record_secret_None: "detect_record_secret title description body tags = None \<longleftrightarrow>
     (\<forall>field \<in> set (title # description # body # tags). \<not> secret_in field)"
  by (simp add: detect_record_secret_def opt_or_None find_map_None detect_secret_None)

lemma check_record_payload_ok: "check_record_payload i r = Inr () \<longleftrightarrow> payload_clean r"
  unfolding check_record_payload_def payload_clean_def detect_record_secret_None [symmetric]
  by (auto simp: validate_record_fields_def MAX_RECORD_TITLE_BYTES_def MAX_RECORD_DESCRIPTION_BYTES_def
      MAX_RECORD_BODY_BYTES_def split: option.splits)

definition tier_allowed :: "StagedMutationBatch \<Rightarrow> TrustTier \<Rightarrow> bool \<Rightarrow> bool" where
  "tier_allowed batch tier is_retier = (tier \<le> AgentVerified
     \<and> (is_llm (sb_author batch) \<and> AgentObserved < tier \<longrightarrow> is_retier \<and> is_steward (sb_author batch)))"

lemma check_tier_ok: "check_tier_assignment i batch tier is_retier = Inr () \<longleftrightarrow> tier_allowed batch tier is_retier"
  by (cases tier)
    (auto simp: check_tier_assignment_def tier_allowed_def assignable_via_staged_batch_def llm_write_ceiling_def
      less_eq_TrustTier_def less_TrustTier_def)

lemmas check_ok = check_new_id_ok check_sources_ok check_scope_ok check_record_payload_ok check_tier_ok

definition created_view :: "(string \<Rightarrow> string) \<Rightarrow> MemoryScope \<Rightarrow> NewMemoryRecord \<Rightarrow> TrustTier \<Rightarrow> string option \<Rightarrow> string list \<Rightarrow> bool \<Rightarrow> StagedRecordView" where
  "created_view sha scope r trust prior derived_from tainted =
     \<lparr>rv_scope = scope, rv_trust = trust, rv_status = StatusActive, rv_supersedes = prior, rv_derived_from = derived_from,
      rv_content_hash = content_hash sha (nr_title r) (nr_body r), rv_has_verification = nr_verification r \<noteq> None,
      rv_ever_quarantined = tainted\<rparr>"

definition put :: "string option \<Rightarrow> 'v \<Rightarrow> (string \<Rightarrow> 'v option) \<Rightarrow> string \<Rightarrow> 'v option" where
  "put mid v m = (case mid of Some k \<Rightarrow> m(k \<mapsto> v) | None \<Rightarrow> m)"

lemma validate_create_ok:
  "validate_create sha view window now batch i (overlay, tombs) mid scope r trust derived_from = Some (Inr st) \<longleftrightarrow>
   payload_clean r \<and> writable batch scope \<and> tier_allowed batch trust False
   \<and> is_none_or mid (\<lambda>m. lookup_record view overlay m = None)
   \<and> (\<forall>s \<in> set derived_from. lookup_record view overlay s \<noteq> None)
   \<and> (\<exists>tainted. chain_reaches_taint view overlay derived_from = Some tainted \<and> (tainted \<longrightarrow> trust \<le> AgentObserved)
        \<and> \<not> is_tombstone_recreation (sb_author batch) view tombs scope (content_hash sha (nr_title r) (nr_body r)) window now
        \<and> st = (put mid (created_view sha scope r trust None derived_from tainted) overlay, tombs))"
  by (cases "chain_reaches_taint view overlay derived_from"; cases mid)
    (auto simp: validate_create_def Let_def check_ok created_view_def put_def llm_write_ceiling_def not_less)

lemma check_acyclic_ok:
  "check_acyclic i look mid prior = Some (Inr ()) \<longleftrightarrow> is_none_or mid (\<lambda>m. supersede_walk look (Some prior) {m} = Some None)"
  by (cases mid; cases "supersede_walk look (Some prior) {the mid}") (auto simp: check_acyclic_def split: option.splits)

lemma bind_acyclic:
  "Option.bind (check_acyclic i look mid prior) (\<lambda>acyclic. and_then acyclic k) = Some (Inr x)
   \<longleftrightarrow> is_none_or mid (\<lambda>m. supersede_walk look (Some prior) {m} = Some None) \<and> k = Some (Inr x)"
  unfolding check_acyclic_ok [of i, symmetric]
  by (cases "check_acyclic i look mid prior") (auto simp: and_then_def split: sum.splits)

lemma validate_supersede_ok:
  "validate_supersede sha view window now batch i (overlay, tombs) mid prior r trust derived_from = Some (Inr st) \<longleftrightarrow>
   payload_clean r \<and> tier_allowed batch trust False
   \<and> (\<exists>pv. lookup_record view overlay prior = Some pv \<and> rv_status pv = StatusActive \<and> writable batch (rv_scope pv)
     \<and> is_none_or mid (\<lambda>m. lookup_record view overlay m = None)
     \<and> (\<forall>s \<in> set derived_from. lookup_record view overlay s \<noteq> None)
     \<and> is_none_or mid (\<lambda>m. supersede_walk (lookup_record view overlay) (Some prior) {m} = Some None)
     \<and> (\<exists>tainted. chain_reaches_taint view overlay (prior # derived_from) = Some tainted \<and> (tainted \<longrightarrow> trust \<le> AgentObserved)
        \<and> \<not> is_tombstone_recreation (sb_author batch) view tombs (rv_scope pv) (content_hash sha (nr_title r) (nr_body r)) window now
        \<and> st = (put mid (created_view sha (rv_scope pv) r trust (Some prior) derived_from tainted)
                 (overlay(prior \<mapsto> pv\<lparr>rv_status := StatusSuperseded (unwrap_or mid ''<pending>'')\<rparr>)), tombs)))"
  by (cases "lookup_record view overlay prior"; cases "chain_reaches_taint view overlay (prior # derived_from)"; cases mid)
    (auto simp: validate_supersede_def Let_def check_ok bind_acyclic created_view_def put_def llm_write_ceiling_def not_less)

lemma validate_tombstone_ok:
  "validate_tombstone view batch i (overlay, tombs) mid = Inr st \<longleftrightarrow>
   (\<exists>r. lookup_record view overlay mid = Some r \<and> rv_status r \<noteq> StatusTombstoned \<and> writable batch (rv_scope r)
      \<and> st = (overlay(mid \<mapsto> r\<lparr>rv_status := StatusTombstoned,
                 rv_ever_quarantined := rv_ever_quarantined r \<or> is_quarantined (rv_status r)\<rparr>),
              insert (rv_scope r, rv_content_hash r) tombs))"
  by (cases "lookup_record view overlay mid")
    (auto simp: validate_tombstone_def check_scope_ok [where i = i, symmetric] split: sum.splits)

lemma validate_retier_ok:
  "validate_retier view batch i (overlay, tombs) mid trust = Some (Inr st) \<longleftrightarrow>
   tier_allowed batch trust True
   \<and> (\<exists>r. lookup_record view overlay mid = Some r \<and> rv_status r \<noteq> StatusTombstoned \<and> writable batch (rv_scope r)
      \<and> (trust = AgentVerified \<longrightarrow> is_steward (sb_author batch) \<and> rv_has_verification r)
      \<and> (AgentObserved < trust \<longrightarrow> chain_reaches_taint view overlay [mid] = Some False)
      \<and> st = (overlay(mid \<mapsto> r\<lparr>rv_trust := trust\<rparr>), tombs))"
  by (cases "lookup_record view overlay mid"; cases "chain_reaches_taint view overlay [mid]")
    (auto simp: validate_retier_def check_ok llm_write_ceiling_def)

lemma validate_set_rank_ok:
  "validate_set_rank view batch i st mid = Inr st' \<longleftrightarrow>
   st' = st \<and> (\<exists>r. lookup_record view (fst st) mid = Some r \<and> rv_status r \<noteq> StatusTombstoned \<and> writable batch (rv_scope r))"
  by (cases "lookup_record view (fst st) mid")
    (auto simp: validate_set_rank_def check_scope_ok [where i = i, symmetric] split: sum.splits)

lemmas validate_op_ok = validate_create_ok validate_supersede_ok validate_tombstone_ok validate_retier_ok validate_set_rank_ok

section \<open>The validator returns\<close>

lemma finite_lookup: "finite (dom (bv_record view)) \<Longrightarrow> finite (dom overlay) \<Longrightarrow> finite (dom (lookup_record view overlay))"
  by (simp add: lookup_record_map_add)

lemma check_acyclic_total: "finite (dom look) \<Longrightarrow> \<exists>r. check_acyclic i look mid prior = Some r"
  using supersede_walk_correct [of look "Some prior" "{the mid}"] by (cases mid) (auto simp: check_acyclic_def)

lemma bind_total: "\<exists>x. m = Some x \<Longrightarrow> (\<And>x. \<exists>y. k x = Some y) \<Longrightarrow> \<exists>y. Option.bind m k = Some y"
  by auto

lemma validate_op_total:
  assumes "finite (dom (bv_record view))" "finite (dom (fst st))"
  shows "\<exists>r. validate_op sha view window now batch i st op = Some r"
proof -
  obtain overlay tombs where st: "st = (overlay, tombs)" by fastforce
  have fin: "finite (dom (lookup_record view overlay))" using assms st by (simp add: finite_lookup)
  note chain = chain_reaches_taint_correct [OF fin]
  show ?thesis
    by (cases op)
      (auto simp: st validate_create_def validate_supersede_def validate_retier_def chain Let_def split: option.split if_split
        intro!: and_then_total bind_total check_acyclic_total [OF fin])
qed

lemma dom_put: "dom (put mid v m) = set_option mid \<union> dom m"
  by (cases mid) (auto simp: put_def)

lemma validate_op_finite:
  assumes "validate_op sha view window now batch i st op = Some (Inr st')" "finite (dom (fst st))"
  shows "finite (dom (fst st'))"
proof -
  obtain overlay tombs where st: "st = (overlay, tombs)" by fastforce
  show ?thesis using assms unfolding st by (cases op) (auto simp: validate_op_ok dom_put)
qed

lemma validate_ops_total:
  "finite (dom (bv_record view)) \<Longrightarrow> finite (dom (fst st)) \<Longrightarrow> \<exists>r. validate_ops sha view window now batch i st ops = Some r"
proof (induction ops arbitrary: i st)
  case (Cons op ops)
  obtain r where r: "validate_op sha view window now batch i st op = Some r" using validate_op_total [OF Cons.prems] by blast
  show ?case
  proof (cases r)
    case (Inr st')
    then show ?thesis using Cons.IH [OF Cons.prems(1) validate_op_finite [OF _ Cons.prems(2)]] r by simp
  qed (simp add: r)
qed simp

lemma validate_ops_Cons_ok:
  "validate_ops sha view window now batch i st (op # ops) = Some (Inr st') \<longleftrightarrow>
   (\<exists>st1. validate_op sha view window now batch i st op = Some (Inr st1)
      \<and> validate_ops sha view window now batch (Suc i) st1 ops = Some (Inr st'))"
proof (cases "validate_op sha view window now batch i st op")
  case (Some r)
  then show ?thesis by (cases r) simp_all
qed simp

lemma validate_ops_finite:
  "validate_ops sha view window now batch i st ops = Some (Inr st') \<Longrightarrow> finite (dom (fst st)) \<Longrightarrow> finite (dom (fst st'))"
proof (induction ops arbitrary: i st)
  case (Cons op ops)
  then show ?case unfolding validate_ops_Cons_ok by (blast intro: validate_op_finite)
qed simp

lemma validate_ops_append:
  "validate_ops sha view window now batch i st (pre @ ops) = Some (Inr st') \<longleftrightarrow>
   (\<exists>mid_st. validate_ops sha view window now batch i st pre = Some (Inr mid_st)
      \<and> validate_ops sha view window now batch (i + length pre) mid_st ops = Some (Inr st'))"
proof (induction pre arbitrary: i st)
  case (Cons op pre)
  show ?case
  proof (cases "validate_op sha view window now batch i st op")
    case (Some r)
    then show ?thesis using Cons.IH [of "Suc i"] by (cases r) simp_all
  qed simp
qed simp

lemma validate_batch_ok:
  "validate_batch sha batch view window now = Some (Inr ()) \<longleftrightarrow>
   sb_ops batch \<noteq> [] \<and> length (sb_ops batch) \<le> MAX_BATCH_OPS
   \<and> (\<exists>st. validate_ops sha view window now batch 0 (Map.empty, {}) (sb_ops batch) = Some (Inr st))"
proof -
  have "map_sum id (\<lambda>_. ()) r = Inr () \<longleftrightarrow> (\<exists>st. r = Inr st)" for r :: "StagedBatchError + batch_state" by (cases r) auto
  then show ?thesis by (auto simp: validate_batch_def)
qed

section \<open>Concrete batches\<close>

definition demo_payload :: NewMemoryRecord where
  "demo_payload = \<lparr>nr_kind = Fact, nr_title = ''t'', nr_description = [], nr_body = ''b'', nr_tags = [], nr_evidence = [],
     nr_verification = Some \<lparr>vc_checked = ''c'', vc_evidence = []\<rparr>\<rparr>"

definition demo_scope :: MemoryScope where
  "demo_scope = ScopeIdentity ''r'' ''a''"

definition demo_record_view :: "TrustTier \<Rightarrow> StagedRecordView" where
  "demo_record_view trust = \<lparr>rv_scope = demo_scope, rv_trust = trust, rv_status = StatusActive, rv_supersedes = None,
     rv_derived_from = [], rv_content_hash = ''h'', rv_has_verification = True, rv_ever_quarantined = False\<rparr>"

definition demo_batch_view :: "TrustTier \<Rightarrow> StagedBatchView" where
  "demo_batch_view trust = \<lparr>bv_record = [''m1'' \<mapsto> demo_record_view trust], bv_tombstoned_at_ms = (\<lambda>_ _. None)\<rparr>"

definition steward_batch :: "StagedOp list \<Rightarrow> StagedMutationBatch" where
  "steward_batch ops = \<lparr>sb_realm = ''r'', sb_author = AuthorSteward ''run'', sb_kind = FreshWrite, sb_ops = ops\<rparr>"

definition demo_ops :: "StagedOp list" where
  "demo_ops = [OpSupersede (Some ''m2'') ''m1'' demo_payload AgentObserved [''m1''] None, OpRetier ''m2'' AgentVerified None]"

lemma demo_payload_clean: "check_record_payload i demo_payload = Inr ()"
  unfolding check_record_payload_def demo_payload_def by code_simp

lemma demo_verification: "nr_verification demo_payload = Some \<lparr>vc_checked = ''c'', vc_evidence = []\<rparr>"
  by (simp add: demo_payload_def)

lemma demo_payload_ok: "payload_clean demo_payload"
  using demo_payload_clean [of 0] by (simp only: check_record_payload_ok)

lemmas demo_memory_defs = steward_batch_def demo_batch_view_def demo_record_view_def demo_scope_def lookup_record_def
  writable_def tier_allowed_def less_eq_TrustTier_def less_TrustTier_def put_def created_view_def chain_reaches_taint_def
  chain_loop_code supersede_walk_code carries_taint_def is_tombstone_recreation_def MAX_BATCH_OPS_def

lemma demo_accepted: "validate_batch sha (steward_batch demo_ops) (demo_batch_view AgentObserved) window now = Some (Inr ())"
  by (simp add: validate_batch_def validate_supersede_def validate_retier_def and_then_def check_tier_assignment_def check_scope_def
      check_new_id_def check_acyclic_def assignable_via_staged_batch_def llm_write_ceiling_def Let_def demo_payload_clean demo_verification demo_ops_def
      demo_memory_defs)

lemma demo_view_finite: "finite (dom (bv_record (demo_batch_view trust)))"
  by (simp add: demo_batch_view_def)

lemma demo_view_acyclic: "acyclic (supersede_edges (bv_record (demo_batch_view trust)))"
  by (rule acyclic_subset [of "{}"]) (auto simp: supersede_edges_def demo_batch_view_def demo_record_view_def acyclic_def split: if_splits)

text \<open>
  On a store of finitely many records the validator always returns: neither the walk over the
  lineage nor the walk along superseded priors can run forever, whatever cycles the stored
  lineage has.
\<close>

theorem validate_batch_returns:
  assumes "finite (dom (bv_record view))"
  shows "\<exists>verdict. validate_batch sha batch view window now = Some verdict"
  using validate_ops_total [OF assms, of "(Map.empty, {})"] by (auto simp: validate_batch_def)

theorem validate_batch_returns_witness:
  "\<exists>verdict. validate_batch (\<lambda>s. s) (steward_batch demo_ops) (demo_batch_view AgentObserved) 0 0 = Some verdict"
  using validate_batch_returns [OF demo_view_finite] by blast

section \<open>Lawful operations\<close>

text \<open>Content a model may not write again: tombstoned in the batch, or at most a window ago.\<close>

definition revoked :: "StagedMutationBatch \<Rightarrow> StagedBatchView \<Rightarrow> u64 \<Rightarrow> u64 \<Rightarrow> (MemoryScope \<times> string) set \<Rightarrow> MemoryScope \<Rightarrow> string \<Rightarrow> bool" where
  "revoked batch view window now tombs scope hash = (is_llm (sb_author batch) \<and> ((scope, hash) \<in> tombs
     \<or> (\<exists>at_ms. bv_tombstoned_at_ms view scope hash = Some at_ms \<and> unat now \<le> unat at_ms + unat window)))"

lemma recreation_revoked:
  "is_tombstone_recreation (sb_author batch) view tombs scope hash window now = revoked batch view window now tombs scope hash"
  by (auto simp: is_tombstone_recreation_def revoked_def is_some_and_iff word_le_nat_alt unat_saturating_sub)

fun lawful :: "StagedMutationBatch \<Rightarrow> (MemoryScope \<Rightarrow> NewMemoryRecord \<Rightarrow> bool) \<Rightarrow> (string \<Rightarrow> StagedRecordView option) \<Rightarrow> StagedOp \<Rightarrow> bool" where
  "lawful batch gone look (OpCreate mid scope r trust derived_from _ _ _) =
     (payload_clean r \<and> writable batch scope \<and> tier_allowed batch trust False \<and> is_none_or mid (\<lambda>m. look m = None)
      \<and> set derived_from \<subseteq> dom look \<and> \<not> gone scope r
      \<and> (AgentObserved < trust \<longrightarrow> \<not> reaches_taint look (set derived_from)))"
| "lawful batch gone look (OpSupersede mid prior r trust derived_from _) =
     (payload_clean r \<and> tier_allowed batch trust False \<and> is_none_or mid (\<lambda>m. look m = None)
      \<and> set derived_from \<subseteq> dom look
      \<and> is_some_and (look prior) (\<lambda>pv. rv_status pv = StatusActive \<and> writable batch (rv_scope pv) \<and> \<not> gone (rv_scope pv) r)
      \<and> (AgentObserved < trust \<longrightarrow> \<not> reaches_taint look (insert prior (set derived_from))))"
| "lawful batch gone look (OpTombstone mid _) =
     is_some_and (look mid) (\<lambda>v. rv_status v \<noteq> StatusTombstoned \<and> writable batch (rv_scope v))"
| "lawful batch gone look (OpRetier mid trust _) =
     (tier_allowed batch trust True
      \<and> is_some_and (look mid) (\<lambda>v. rv_status v \<noteq> StatusTombstoned \<and> writable batch (rv_scope v)
          \<and> (AgentObserved < trust \<longrightarrow> is_steward (sb_author batch) \<and> rv_has_verification v))
      \<and> (AgentObserved < trust \<longrightarrow> \<not> reaches_taint look {mid}))"
| "lawful batch gone look (OpSetRank mid _) =
     is_some_and (look mid) (\<lambda>v. rv_status v \<noteq> StatusTombstoned \<and> writable batch (rv_scope v))"

lemma verified_only: "tier_allowed batch trust b \<Longrightarrow> AgentObserved < trust \<Longrightarrow> trust = AgentVerified"
  by (cases trust) (auto simp: tier_allowed_def less_eq_TrustTier_def less_TrustTier_def)

lemma validate_op_lawful:
  assumes "validate_op sha view window now batch i (overlay, tombs) op = Some (Inr st')"
    and "finite (dom (lookup_record view overlay))"
  shows "lawful batch (\<lambda>scope r. revoked batch view window now tombs scope (content_hash sha (nr_title r) (nr_body r)))
    (lookup_record view overlay) op"
  using assms(1)
  by (cases op)
    (auto simp: validate_op_ok chain_reaches_taint_correct [OF assms(2)] is_some_and_iff recreation_revoked dest: verified_only)

text \<open>
  C14. Every operation of an accepted batch is lawful in the state its predecessors leave: payloads
  are within their caps and free of secrets; agents write only their own identity scope, and
  nobody leaves the realm of the batch; only known and live records are changed, superseded or
  derived from, and new ids are new; no model writes content again that was tombstoned in
  its scope by the batch itself or at most a window ago; no model-authored write enters above \<open>agent_observed\<close>,
  the steward's endorsement of a claimed verification excepted; and no tier above it is given to
  a record whose supersede and derivation lineage reaches untrusted or quarantined content.
\<close>

theorem accepted_operation_lawful:
  assumes "finite (dom (bv_record view))"
    and "validate_batch sha batch view window now = Some (Inr ())" and "sb_ops batch = pre @ op # post"
  shows "\<exists>overlay tombs. validate_ops sha view window now batch 0 (Map.empty, {}) pre = Some (Inr (overlay, tombs))
    \<and> lawful batch (\<lambda>scope r. revoked batch view window now tombs scope (content_hash sha (nr_title r) (nr_body r)))
        (lookup_record view overlay) op"
proof -
  obtain st' where "validate_ops sha view window now batch 0 (Map.empty, {}) (pre @ op # post) = Some (Inr st')"
    using assms(2,3) by (auto simp: validate_batch_ok)
  then obtain overlay tombs st2 where o: "validate_ops sha view window now batch 0 (Map.empty, {}) pre = Some (Inr (overlay, tombs))"
    "validate_op sha view window now batch (length pre) (overlay, tombs) op = Some (Inr st2)"
    unfolding validate_ops_append validate_ops_Cons_ok by auto
  have "finite (dom overlay)" using validate_ops_finite [OF o(1)] by simp
  then show ?thesis using o validate_op_lawful [OF o(2) finite_lookup [OF assms(1)]] by blast
qed

theorem accepted_operation_lawful_witness:
  "lawful (steward_batch demo_ops) (\<lambda>scope r. revoked (steward_batch demo_ops) (demo_batch_view AgentObserved) 0 0 {} scope
       (content_hash (\<lambda>s. s) (nr_title r) (nr_body r))) (lookup_record (demo_batch_view AgentObserved) Map.empty) (hd demo_ops)
   \<and> validate_batch (\<lambda>s. s) (steward_batch demo_ops) (demo_batch_view AgentObserved) 0 0 = Some (Inr ())"
  using accepted_operation_lawful [of "demo_batch_view AgentObserved" "\<lambda>s. s" "steward_batch demo_ops" 0 0 "[]" "hd demo_ops" "tl demo_ops"]
    demo_accepted [of "\<lambda>s. s" 0 0]
  by (auto simp: demo_batch_view_def steward_batch_def demo_ops_def)

text \<open>
  The provenance ceiling does not hold for untrusted records: a steward batch that raises an
  untrusted record to \<open>agent_verified\<close> is refused, but the batch that raises it to
  \<open>agent_observed\<close> first and to \<open>agent_verified\<close> next is accepted, since nothing but the tier
  itself remembers that the record was untrusted.
\<close>

theorem untrusted_record_laundered_in_two_steps:
  "validate_batch sha (steward_batch [OpRetier ''m1'' AgentVerified None]) (demo_batch_view Untrusted) window now
     = Some (Inl (TransitiveTaintCeiling 0 AgentVerified))
   \<and> validate_batch sha (steward_batch [OpRetier ''m1'' AgentObserved None, OpRetier ''m1'' AgentVerified None])
       (demo_batch_view Untrusted) window now = Some (Inr ())"
proof
  show "validate_batch sha (steward_batch [OpRetier ''m1'' AgentVerified None]) (demo_batch_view Untrusted) window now
     = Some (Inl (TransitiveTaintCeiling 0 AgentVerified))"
    by (simp add: validate_batch_def validate_retier_def and_then_def check_tier_assignment_def check_scope_def
        assignable_via_staged_batch_def llm_write_ceiling_def demo_memory_defs)
  show "validate_batch sha (steward_batch [OpRetier ''m1'' AgentObserved None, OpRetier ''m1'' AgentVerified None])
       (demo_batch_view Untrusted) window now = Some (Inr ())"
    by (simp add: validate_batch_ok validate_ops_Cons_ok validate_op_ok demo_memory_defs del: validate_ops.simps(2))
qed

section \<open>Supersede chains\<close>

lemma supersede_edges_upd:
  "look mid = None \<or> (\<exists>r'. look mid = Some r' \<and> rv_supersedes r' = rv_supersedes r) \<Longrightarrow>
   supersede_edges (look(mid \<mapsto> r)) = supersede_edges look \<union> (case rv_supersedes r of Some p \<Rightarrow> {(mid, p)} | None \<Rightarrow> {})"
  by (auto simp: supersede_edges_def split: option.splits if_splits)

lemma lookup_upd: "lookup_record view (overlay(mid \<mapsto> r)) = (lookup_record view overlay)(mid \<mapsto> r)"
  by (simp add: lookup_record_map_add)

lemma supersede_edges_same:
  "look mid = Some r' \<Longrightarrow> rv_supersedes r = rv_supersedes r' \<Longrightarrow> supersede_edges (look(mid \<mapsto> r)) = supersede_edges look"
  by (auto simp: supersede_edges_def split: if_splits)

lemma validate_op_acyclic:
  assumes op: "validate_op sha view window now batch i (overlay, tombs) op = Some (Inr (overlay', tombs'))"
    and fin: "finite (dom (lookup_record view overlay))" and ac: "acyclic (supersede_edges (lookup_record view overlay))"
  shows "acyclic (supersede_edges (lookup_record view overlay'))"
proof (cases op)
  case (OpCreate mid scope r trust df x y z)
  then show ?thesis using op ac
    by (cases mid) (auto simp: validate_op_ok put_def lookup_upd supersede_edges_upd created_view_def)
next
  case (OpSupersede mid prior r trust df x)
  let ?look = "lookup_record view overlay"
  from op OpSupersede obtain pv tainted where pv: "?look prior = Some pv"
    and new: "is_none_or mid (\<lambda>m. ?look m = None)" "is_none_or mid (\<lambda>m. supersede_walk ?look (Some prior) {m} = Some None)"
    and o': "overlay' = put mid (created_view sha (rv_scope pv) r trust (Some prior) df tainted)
                 (overlay(prior \<mapsto> pv\<lparr>rv_status := StatusSuperseded (unwrap_or mid ''<pending>'')\<rparr>))"
    by (auto simp: validate_op_ok)
  let ?look1 = "?look(prior \<mapsto> pv\<lparr>rv_status := StatusSuperseded (unwrap_or mid ''<pending>'')\<rparr>)"
  have same: "supersede_edges ?look1 = supersede_edges ?look" by (rule supersede_edges_same) (use pv in simp_all)
  show ?thesis
  proof (cases mid)
    case None
    then show ?thesis using o' ac same by (simp add: put_def lookup_upd)
  next
    case (Some n)
    have "(prior, n) \<notin> (supersede_edges ?look)\<^sup>*"
      using supersede_walk_correct [OF fin, of "Some prior" "{n}"] new(2) Some by auto
    moreover have "?look1 n = None" using new(1) Some pv by auto
    ultimately show ?thesis
      using o' ac same Some by (simp add: put_def lookup_upd supersede_edges_upd created_view_def acyclic_insert)
  qed
next
  case (OpTombstone mid x)
  then show ?thesis using op ac by (auto simp: validate_op_ok lookup_upd supersede_edges_same)
next
  case (OpRetier mid trust x)
  then show ?thesis using op ac by (auto simp: validate_op_ok lookup_upd supersede_edges_same)
next
  case (OpSetRank mid rank)
  then show ?thesis using op ac by (auto simp: validate_op_ok)
qed

lemma validate_ops_acyclic:
  assumes "validate_ops sha view window now batch i st ops = Some (Inr st')"
    and "finite (dom (bv_record view))" "finite (dom (fst st))" "acyclic (supersede_edges (lookup_record view (fst st)))"
  shows "acyclic (supersede_edges (lookup_record view (fst st')))"
  using assms
proof (induction ops arbitrary: i st)
  case (Cons op ops)
  obtain overlay tombs where st: "st = (overlay, tombs)" by fastforce
  obtain overlay1 tombs1 where o: "validate_op sha view window now batch i st op = Some (Inr (overlay1, tombs1))"
    "validate_ops sha view window now batch (Suc i) (overlay1, tombs1) ops = Some (Inr st')"
    using Cons.prems(1) unfolding validate_ops_Cons_ok by auto
  have "acyclic (supersede_edges (lookup_record view overlay1))"
    using validate_op_acyclic [of sha view window now batch i overlay tombs op overlay1 tombs1] o(1) Cons.prems(2-4) finite_lookup
    unfolding st by simp
  then show ?case using Cons.IH [OF o(2) Cons.prems(2)] validate_op_finite [OF o(1) Cons.prems(3)] by simp
qed simp

text \<open>
  An accepted batch keeps supersede chains acyclic: if no chain of the store runs in a
  circle, none does once all operations of the batch are in effect, even where chains are
  imported under explicit ids and stored records point to ids that do not exist yet.
\<close>

theorem accepted_batch_keeps_chains_acyclic:
  assumes "finite (dom (bv_record view))" "acyclic (supersede_edges (bv_record view))"
    and "validate_batch sha batch view window now = Some (Inr ())"
  shows "\<exists>overlay tombs. validate_ops sha view window now batch 0 (Map.empty, {}) (sb_ops batch) = Some (Inr (overlay, tombs))
    \<and> acyclic (supersede_edges (lookup_record view overlay))"
proof -
  obtain overlay tombs where o: "validate_ops sha view window now batch 0 (Map.empty, {}) (sb_ops batch) = Some (Inr (overlay, tombs))"
    using assms(3) unfolding validate_batch_ok by fast
  have "lookup_record view Map.empty = bv_record view" by (simp add: lookup_record_map_add)
  then show ?thesis using o validate_ops_acyclic [OF o assms(1)] assms(2) by auto
qed

theorem accepted_batch_keeps_chains_acyclic_witness:
  "\<exists>overlay tombs. validate_ops (\<lambda>s. s) (demo_batch_view AgentObserved) 0 0 (steward_batch demo_ops) 0 (Map.empty, {})
       (sb_ops (steward_batch demo_ops)) = Some (Inr (overlay, tombs))
     \<and> acyclic (supersede_edges (lookup_record (demo_batch_view AgentObserved) overlay))"
  by (rule accepted_batch_keeps_chains_acyclic [OF demo_view_finite demo_view_acyclic demo_accepted])

end
