(* ===== verification/Agent_Memory_Events.thy ===== *)
theory Agent_Memory_Events
  imports Json_Value
begin

text \<open>
  The timeline events of the memory plane (\<open>memory/events.rs\<close>): the typed events, the wire
  name, the identity and the payload of each. An event sink is represented by the list of
  events handed to it.
\<close>

datatype MemoryTimelineEvent =
    DreamStarted string string
  | DreamCompleted string string nat json
  | DreamSkipped string string
  | RecordPromoted string string "string option" string string "string option" bool
  | QuarantineVerdict string string string "string option" "string option"
  | QuarantineReleaseBlocked string string string string
  | ConflictSignal string string string string
  | QuarantinedWrite string string string
  | TaintTransition "string option" string string string
  | EvBudgetDenied string string string
  | PromotionPendingGate string string string string string
  | HarvestCompleted string string nat nat
  | DistillationTimedOut string string string
  | HygieneProposed string string string nat "string list"
  | HygieneApplied string string string string string nat "string list"
  | HygieneBlocked string string string string
  | HygieneSkipped string string string string

fun event_type :: "MemoryTimelineEvent \<Rightarrow> string" where
  "event_type (DreamStarted _ _) = ''memory.dream.started''"
| "event_type (DreamCompleted _ _ _ _) = ''memory.dream.completed''"
| "event_type (DreamSkipped _ _) = ''memory.dream.skipped''"
| "event_type (RecordPromoted _ _ _ _ _ _ _) = ''memory.record.promoted''"
| "event_type (QuarantineVerdict _ _ _ _ _) = ''memory.quarantine.verdict''"
| "event_type (QuarantineReleaseBlocked _ _ _ _) = ''memory.quarantine.release_blocked''"
| "event_type (ConflictSignal _ _ _ _) = ''memory.conflict.signal''"
| "event_type (QuarantinedWrite _ _ _) = ''memory.write.quarantined''"
| "event_type (TaintTransition _ _ _ _) = ''memory.taint.transition''"
| "event_type (EvBudgetDenied _ _ _) = ''memory.budget.denied''"
| "event_type (PromotionPendingGate _ _ _ _ _) = ''memory.promotion.pending_gate''"
| "event_type (HarvestCompleted _ _ _ _) = ''memory.harvest.completed''"
| "event_type (DistillationTimedOut _ _ _) = ''memory.distill.timed_out''"
| "event_type (HygieneProposed _ _ _ _ _) = ''memory.hygiene.proposed''"
| "event_type (HygieneApplied _ _ _ _ _ _ _) = ''memory.hygiene.applied''"
| "event_type (HygieneBlocked _ _ _ _) = ''memory.hygiene.blocked''"
| "event_type (HygieneSkipped _ _ _ _) = ''memory.hygiene.skipped''"

fun event_identity :: "MemoryTimelineEvent \<Rightarrow> string option" where
  "event_identity (TaintTransition identity _ _ _) = identity"
| "event_identity (HarvestCompleted _ identity _ _) = Some identity"
| "event_identity (DistillationTimedOut identity _ _) = Some identity"
| "event_identity (HygieneProposed identity _ _ _ _) = Some identity"
| "event_identity (HygieneApplied identity _ _ _ _ _ _) = Some identity"
| "event_identity (HygieneBlocked identity _ _ _) = Some identity"
| "event_identity (HygieneSkipped identity _ _ _) = Some identity"
| "event_identity _ = None"

abbreviation event_strings :: "string list \<Rightarrow> json" where
  "event_strings ss \<equiv> JArray (map JString ss)"

fun event_data :: "MemoryTimelineEvent \<Rightarrow> json" where
  "event_data (DreamStarted realm run_id) = json_object [(''realm'', JString realm), (''run_id'', JString run_id)]"
| "event_data (DreamCompleted realm run_id ops_committed detail) =
     json_object [(''realm'', JString realm), (''run_id'', JString run_id), (''ops_committed'', json_usize ops_committed),
       (''detail'', detail)]"
| "event_data (DreamSkipped realm reason) = json_object [(''realm'', JString realm), (''reason'', JString reason)]"
| "event_data (RecordPromoted realm record_id source_record_id scope_kind scope_key proposal_id gated) =
     json_object [(''realm'', JString realm), (''record_id'', JString record_id), (''source_record_id'', json_opt_str source_record_id),
       (''scope_kind'', JString scope_kind), (''scope_key'', JString scope_key), (''proposal_id'', json_opt_str proposal_id),
       (''gated'', JBool gated)]"
| "event_data (QuarantineVerdict realm record_id verdict rationale successor_id) =
     json_object ([(''realm'', JString realm), (''record_id'', JString record_id), (''verdict'', JString verdict),
       (''rationale'', json_opt_str rationale)] @ json_some ''successor_id'' JString successor_id)"
| "event_data (QuarantineReleaseBlocked realm record_id verdict secret_class) =
     json_object [(''realm'', JString realm), (''record_id'', JString record_id), (''verdict'', JString verdict),
       (''class'', JString secret_class)]"
| "event_data (ConflictSignal realm entity topic reason) =
     json_object [(''realm'', JString realm), (''entity'', JString entity), (''topic'', JString topic), (''reason'', JString reason)]"
| "event_data (QuarantinedWrite realm author reason) =
     json_object [(''realm'', JString realm), (''author'', JString author), (''reason'', JString reason)]"
| "event_data (TaintTransition identity session_key kind source) =
     json_object [(''identity'', json_opt_str identity), (''session_key'', JString session_key), (''kind'', JString kind),
       (''source'', JString source)]"
| "event_data (EvBudgetDenied realm stage reason) =
     json_object [(''realm'', JString realm), (''stage'', JString stage), (''reason'', JString reason)]"
| "event_data (PromotionPendingGate realm pending_id record_id scope_kind scope_key) =
     json_object [(''realm'', JString realm), (''pending_id'', JString pending_id), (''record_id'', JString record_id),
       (''scope_kind'', JString scope_kind), (''scope_key'', JString scope_key)]"
| "event_data (HarvestCompleted realm identity promoted tombstoned) =
     json_object [(''realm'', JString realm), (''identity'', JString identity), (''promoted'', json_usize promoted),
       (''tombstoned'', json_usize tombstoned)]"
| "event_data (DistillationTimedOut identity session_key cause) =
     json_object [(''identity'', JString identity), (''session_key'', JString session_key), (''cause'', JString cause)]"
| "event_data (HygieneProposed identity session_key cause ops flagged) =
     json_object [(''identity'', JString identity), (''session_key'', JString session_key), (''cause'', JString cause),
       (''ops'', json_usize ops), (''flagged_active_records'', event_strings flagged)]"
| "event_data (HygieneApplied identity session_key cause parent_revision revision ops flagged) =
     json_object [(''identity'', JString identity), (''session_key'', JString session_key), (''cause'', JString cause),
       (''parent_revision'', JString parent_revision), (''revision'', JString revision), (''ops'', json_usize ops),
       (''flagged_active_records'', event_strings flagged)]"
| "event_data (HygieneBlocked identity session_key cause reason) =
     json_object [(''identity'', JString identity), (''session_key'', JString session_key), (''cause'', JString cause),
       (''reason'', JString reason)]"
| "event_data (HygieneSkipped identity session_key cause reason) =
     json_object [(''identity'', JString identity), (''session_key'', JString session_key), (''cause'', JString cause),
       (''reason'', JString reason)]"

text \<open>The attribution of an event agrees with the identity its payload names.\<close>

lemma event_identity_in_data:
  "event_identity e = Some identity \<Longrightarrow> Option.bind (json_get (event_data e) ''identity'') as_str = Some identity"
  by (cases e) (auto simp: json_get_object json_option_def split: option.splits)

end
