(* ===== verification/Agent_Memory_Taint.thy ===== *)
theory Agent_Memory_Taint
  imports Agent_Memory_Staged Agent_Memory_Events
begin

text \<open>
  Content taint of sessions (\<open>memory/taint.rs\<close>): which tool sources are untrusted, the tracker
  that makes a session sticky-tainted once it ingested untrusted content, the gate that
  quarantines model-authored writes, and the run budget of background work
  (\<open>memory/guards.rs\<close>). Agent events carry what the tracker reads of them. The order in which a
  hash map is listed, which decides ties when the oldest entry is evicted, and the clock are
  parameters; callbacks are the lists of what was handed to them.
\<close>

section \<open>Content trust\<close>

record ContentTrustConfig =
  ct_trusted_mcp_servers :: "string list"
  ct_untrusted_tools :: "string list"
  ct_trusted_tools :: "string list"


datatype ToolSourceKind = SourceMcp | SourceOther




definition MAX_TRACKED_TAINTED_SESSIONS :: nat where
  "MAX_TRACKED_TAINTED_SESSIONS = 4096"

fun join_with :: "string \<Rightarrow> string list \<Rightarrow> string" where
  "join_with sep [] = []"
| "join_with sep [x] = x"
| "join_with sep (x # xs) = x @ sep @ join_with sep xs"

fun collect_names :: "string \<Rightarrow> json list \<Rightarrow> string + string list" where
  "collect_names key [] = Inr []"
| "collect_names key (entry # entries) =
     (case opt_filter (\<lambda>name. name \<noteq> []) (map_option trim (as_str entry)) of
        None \<Rightarrow> Inl (''content_trust.'' @ key @ '' entries must be non-empty strings'')
      | Some name \<Rightarrow>
         (case collect_names key entries of Inl e \<Rightarrow> Inl e | Inr names \<Rightarrow> Inr (name # names)))"

fun as_array :: "json \<Rightarrow> json list option" where
  "as_array (JArray entries) = Some entries"
| "as_array _ = None"

definition parse_names :: "(string, json) btree \<Rightarrow> string \<Rightarrow> string + string list" where
  "parse_names members key =
     (case bt_get members key of
        None \<Rightarrow> Inr []
      | Some v \<Rightarrow>
         (case as_array v of
            None \<Rightarrow> Inl (''content_trust.'' @ key @ '' must be an array'')
          | Some entries \<Rightarrow> collect_names key entries))"

definition content_trust_from_json :: "json \<Rightarrow> string + ContentTrustConfig" where
  "content_trust_from_json v =
     (case as_object v of
        None \<Rightarrow> Inl ''content_trust must be an object''
      | Some members \<Rightarrow>
         (let supported = [''trusted_mcp_servers'', ''untrusted_tools'', ''trusted_tools''];
              unsupported = filter (\<lambda>key. key \<notin> set supported) (map fst members) in
          if unsupported \<noteq> [] then Inl (''unsupported content_trust fields: '' @ join_with '', '' unsupported)
          else case parse_names members ''trusted_mcp_servers'' of
            Inl e \<Rightarrow> Inl e
          | Inr servers \<Rightarrow>
             (case parse_names members ''untrusted_tools'' of
                Inl e \<Rightarrow> Inl e
              | Inr untrusted \<Rightarrow>
                 (case parse_names members ''trusted_tools'' of
                    Inl e \<Rightarrow> Inl e
                  | Inr trusted \<Rightarrow>
                      Inr \<lparr>ct_trusted_mcp_servers = servers, ct_untrusted_tools = untrusted, ct_trusted_tools = trusted\<rparr>))))"





section \<open>The tracker\<close>

record TaintState =
  ts_tainted_at_ms :: u64
  ts_source :: string

record TaintInner =
  ti_current_session :: "(string, string) btree"
  ti_tainted :: "(string, TaintState) btree"
  ti_pending_identity_taint :: "(string, TaintState) btree"
  ti_reset_boundaries :: "(string, u64) btree"

datatype SenderContentTaint = SenderTainted | SenderClean

record SessionTaintTracker =
  tk_config :: ContentTrustConfig
  tk_inner :: TaintInner
  tk_sink_wired :: bool
  tk_events :: "MemoryTimelineEvent list"
  tk_declarer_wired :: bool
  tk_declared :: "(string \<times> SenderContentTaint option) list"
  tk_tick :: nat

record TaintEnv =
  te_now_ms :: "nat \<Rightarrow> u64"
  te_hash_order :: "(string \<times> u64) list \<Rightarrow> (string \<times> u64) list"


definition set_outbound_taint_declarer :: "SessionTaintTracker \<Rightarrow> SessionTaintTracker" where
  "set_outbound_taint_declarer tr = tr\<lparr>tk_declarer_wired := True\<rparr>"

definition set_event_sink :: "SessionTaintTracker \<Rightarrow> SessionTaintTracker" where
  "set_event_sink tr = tr\<lparr>tk_sink_wired := True\<rparr>"

definition declare_outbound :: "string \<Rightarrow> SenderContentTaint option \<Rightarrow> SessionTaintTracker \<Rightarrow> SessionTaintTracker" where
  "declare_outbound identity taint tr =
     (if tk_declarer_wired tr then tr\<lparr>tk_declared := tk_declared tr @ [(identity, taint)]\<rparr> else tr)"

definition emit_taint_event :: "MemoryTimelineEvent \<Rightarrow> SessionTaintTracker \<Rightarrow> SessionTaintTracker" where
  "emit_taint_event e tr = (if tk_sink_wired tr then tr\<lparr>tk_events := tk_events tr @ [e]\<rparr> else tr)"

definition taint_now :: "TaintEnv \<Rightarrow> SessionTaintTracker \<Rightarrow> u64 \<times> SessionTaintTracker" where
  "taint_now env tr = (te_now_ms env (tk_tick tr), tr\<lparr>tk_tick := Suc (tk_tick tr)\<rparr>)"

definition update_inner :: "(TaintInner \<Rightarrow> TaintInner) \<Rightarrow> SessionTaintTracker \<Rightarrow> SessionTaintTracker" where
  "update_inner f tr = tr\<lparr>tk_inner := f (tk_inner tr)\<rparr>"

text \<open>\<open>min_by_key\<close> keeps the first of several minimal entries.\<close>

fun min_by_key :: "('a \<times> 'b::linorder) list \<Rightarrow> ('a \<times> 'b) option" where
  "min_by_key [] = None"
| "min_by_key (e # es) =
     (case min_by_key es of None \<Rightarrow> Some e | Some m \<Rightarrow> if snd m < snd e then Some m else Some e)"

definition evict_oldest :: "TaintEnv \<Rightarrow> ('v \<Rightarrow> u64) \<Rightarrow> (string, 'v) btree \<Rightarrow> (string, 'v) btree" where
  "evict_oldest env at_ms m =
     (if length m > MAX_TRACKED_TAINTED_SESSIONS
      then case min_by_key (te_hash_order env (map (\<lambda>(k, v). (k, at_ms v)) m)) of
        Some oldest \<Rightarrow> bt_remove (fst oldest) m
      | None \<Rightarrow> m
      else m)"

definition insert_taint :: "TaintEnv \<Rightarrow> string \<Rightarrow> TaintState \<Rightarrow> SessionTaintTracker \<Rightarrow> SessionTaintTracker" where
  "insert_taint env session state tr =
     (if bt_contains (ti_tainted (tk_inner tr)) session then tr
      else update_inner (\<lambda>inner. inner\<lparr>ti_tainted := evict_oldest env ts_tainted_at_ms (bt_insert session state (ti_tainted inner))\<rparr>)
        (emit_taint_event (TaintTransition None session ''tainted'' (ts_source state)) tr))"





definition evidence_quarantine_reason :: "SessionTaintTracker \<Rightarrow> string \<Rightarrow> string option" where
  "evidence_quarantine_reason tr session_key =
     (case bt_get (ti_tainted (tk_inner tr)) session_key of
        Some state \<Rightarrow> Some (''evidence session tainted by '' @ ts_source state @ '' (session-tainted ''
          @ [CHR 0xE2, CHR 0x87, CHR 0x92] @ '' range-tainted)'')
      | None \<Rightarrow>
          if bt_contains (ti_reset_boundaries (tk_inner tr)) session_key
          then Some (''evidence session closed at a reset boundary; distillates quarantine pending steward review ('' @ [CHR 0xC2, CHR 0xA7] @ ''8.4)'')
          else None)"

definition session_taint :: "SessionTaintTracker \<Rightarrow> string \<Rightarrow> TaintState option" where
  "session_taint tr session_key = bt_get (ti_tainted (tk_inner tr)) session_key"

definition identity_taint :: "SessionTaintTracker \<Rightarrow> string \<Rightarrow> TaintState option" where
  "identity_taint tr identity =
     (case bt_get (ti_pending_identity_taint (tk_inner tr)) identity of
        Some state \<Rightarrow> Some state
      | None \<Rightarrow> Option.bind (bt_get (ti_current_session (tk_inner tr)) identity) (bt_get (ti_tainted (tk_inner tr))))"











section \<open>The write gate\<close>

datatype AgentMemoryLlmWrites = WritesObserved | WritesQuarantined

record TaintLlmWriteGate =
  wg_tracker :: "SessionTaintTracker option"
  wg_llm_writes :: AgentMemoryLlmWrites

fun first_evidence_reason :: "SessionTaintTracker \<Rightarrow> EvidenceRef list \<Rightarrow> string option" where
  "first_evidence_reason tr [] = None"
| "first_evidence_reason tr (e # es) =
     (case evidence_quarantine_reason tr (ev_session_id e) of Some reason \<Rightarrow> Some reason | None \<Rightarrow> first_evidence_reason tr es)"

definition quarantine_reason ::
  "TaintLlmWriteGate \<Rightarrow> MemoryAuthor \<Rightarrow> StagedBatchKind \<Rightarrow> EvidenceRef list \<Rightarrow> string option" where
  "quarantine_reason gate author kind evidence =
     (if \<not> is_llm author then None
      else if wg_llm_writes gate = WritesQuarantined \<and> kind \<noteq> ReviewVerdict then Some ''llm_writes=quarantined policy''
      else case wg_tracker gate of
        None \<Rightarrow> None
      | Some tr \<Rightarrow>
         (case (case author of AuthorAgent identity \<Rightarrow> identity_taint tr identity | _ \<Rightarrow> None) of
            Some state \<Rightarrow> Some (''session tainted by '' @ ts_source state)
          | None \<Rightarrow> first_evidence_reason tr evidence))"

section \<open>Stickiness\<close>



abbreviation taints :: "SessionTaintTracker \<Rightarrow> (string, TaintState) btree" where
  "taints tr \<equiv> ti_tainted (tk_inner tr)"



text \<open>The taint map grew by at most the given session.\<close>

definition grew :: "string \<Rightarrow> SessionTaintTracker \<Rightarrow> SessionTaintTracker \<Rightarrow> bool" where
  "grew k tr tr' = (taints tr' = taints tr \<or> \<not> bt_contains (taints tr) k \<and> (\<exists>st. taints tr' = bt_insert k st (taints tr)))"

lemma frame_simps [simp]:
  "tk_inner (declare_outbound i t tr) = tk_inner tr" "tk_inner (emit_taint_event e tr) = tk_inner tr"
  "tk_inner (snd (taint_now env tr)) = tk_inner tr" "tk_inner (update_inner f tr) = f (tk_inner tr)"
  by (simp_all add: declare_outbound_def emit_taint_event_def taint_now_def update_inner_def)


lemma evict_small: "length m < MAX_TRACKED_TAINTED_SESSIONS \<Longrightarrow> evict_oldest env f (bt_insert k v m) = bt_insert k v m"
  using length_bt_insert_le [of k v m] by (simp add: evict_oldest_def)

lemma insert_taint_inner:
  assumes "length (taints tr) < MAX_TRACKED_TAINTED_SESSIONS"
  shows "tk_inner (insert_taint env k st tr) = (tk_inner tr)\<lparr>ti_tainted :=
    (if bt_contains (taints tr) k then taints tr else bt_insert k st (taints tr))\<rparr>"
  using evict_small [OF assms] by (simp add: insert_taint_def)

lemma grew_refl [simp]: "taints tr' = taints tr \<Longrightarrow> grew k tr tr'"
  by (simp add: grew_def)

lemma contains_insert [simp]: "bt_contains (bt_insert k v m) k"
  by (simp add: bt_contains_def bt_get_insert)





lemma insert_taint_grew: "length (taints tr) < MAX_TRACKED_TAINTED_SESSIONS \<Longrightarrow> grew k tr (insert_taint env k st tr)"
  by (auto simp: grew_def insert_taint_inner)

lemma insert_taint_contains: "length (taints tr) < MAX_TRACKED_TAINTED_SESSIONS \<Longrightarrow> bt_contains (taints (insert_taint env k st tr)) k"
  by (simp add: insert_taint_inner)



















text \<open>
  What the record store relies on of its gate (\<open>LlmWriteGate\<close>): only writes of language models
  are gated, and of the verdicts of a review that cites no evidence only those of agents.
\<close>

locale write_gate =
  fixes gate :: "MemoryAuthor \<Rightarrow> StagedBatchKind \<Rightarrow> EvidenceRef list \<Rightarrow> string option"
  assumes spares_principals: "\<not> is_llm author \<Longrightarrow> gate author kind evidence = None"
    and spares_reviews: "(\<And>identity. author \<noteq> AuthorAgent identity) \<Longrightarrow> gate author ReviewVerdict [] = None"
begin

lemma gated_author_llm: "gate author kind evidence \<noteq> None \<Longrightarrow> is_llm author"
  by (cases "is_llm author") (simp_all add: spares_principals)

end

interpretation taint_gate: write_gate "quarantine_reason gate" for gate
  by unfold_locales (auto simp: quarantine_reason_def split: option.splits MemoryAuthor.splits)




end
