(* ===== verification/Agent_Memory_Store.thy ===== *)
theory Agent_Memory_Store
  imports Agent_Memory_Lineage Agent_Memory_Taint
begin

text \<open>
  The record store of one realm (\<open>memory/sqlite_store.rs\<close>) and the quarantine review
  (\<open>memory/review.rs\<close>): staging and committing batches, direct writes, and reviews, each in one
  transaction. Tables are lists of rows in insertion order; a column holds the typed value its
  text encodes. The key constraint of the record table is modelled; that a commit of the
  database itself fails is a parameter, as are the clock, minted ids and tokens, the gate and
  the resolver of evidence. The validator can run forever only on an infinite store, so an
  operation is an \<open>option\<close>; tables being lists, it always returns.
\<close>

section \<open>Tables\<close>

record MemoryRow = MemoryRecord +
  row_content_hash :: string
  row_rank_set_at_ms :: "u64 option"
  row_tombstoned_at_ms :: "u64 option"

datatype QuarantineDecision = DecideRelease | DecideTombstone

fun decision_as_str :: "QuarantineDecision \<Rightarrow> string" where
  "decision_as_str DecideRelease = ''release''"
| "decision_as_str DecideTombstone = ''tombstone''"

definition decision_parse :: "string \<Rightarrow> QuarantineDecision option" where
  "decision_parse v = (if v = ''release'' then Some DecideRelease else if v = ''tombstone'' then Some DecideTombstone else None)"

datatype QuarantineReviewer = ReviewOperator "string option" | ReviewSteward string

fun reviewer_author :: "QuarantineReviewer \<Rightarrow> MemoryAuthor" where
  "reviewer_author (ReviewOperator p) = AuthorOperator"
| "reviewer_author (ReviewSteward run_id) = AuthorSteward run_id"

record QuarantineReviewRequest =
  qr_scope :: MemoryScope
  qr_memory_id :: string
  qr_decision :: QuarantineDecision
  qr_expected_content_hash :: string
  qr_reviewer :: QuarantineReviewer
  qr_rationale :: "string option"

record ReviewAudit =
  ra_verdict :: QuarantineDecision
  ra_reviewer :: QuarantineReviewer
  ra_origin :: string
  ra_successor :: "string option"
  ra_expected_content_hash :: string
  ra_origin_quarantine_reason :: string
  ra_expired_promotions :: "string list"
  ra_invalidated_promotions :: "string list"
  ra_rationale :: "string option"

record AuditRow =
  ad_stage_token :: string
  ad_op_index :: nat
  ad_op_kind :: string
  ad_memory_id :: string
  ad_author :: MemoryAuthor
  ad_rationale :: "string option"
  ad_quarantined :: "string option"
  ad_review :: "ReviewAudit option"
  ad_applied_at_ms :: u64

record PendingPromotion =
  pp_pending_id :: string
  pp_stage_token :: string
  pp_record_id :: string
  pp_scope_kind :: string
  pp_scope_key :: string
  pp_rationale :: "string option"
  pp_status :: string
  pp_created_at_ms :: u64
  pp_resolved_at_ms :: "u64 option"

record StageRow =
  sg_token :: string
  sg_batch :: StagedMutationBatch
  sg_created_at_ms :: u64

record RealmDb =
  db_records :: "MemoryRow list"
  db_audit :: "AuditRow list"
  db_stage :: "StageRow list"
  db_promotions :: "PendingPromotion list"

record MemoryStore =
  st_db :: RealmDb
  st_sink_wired :: bool
  st_events :: "MemoryTimelineEvent list"
  st_tick :: nat

datatype AgentMemoryError =
    MemInvalidConfig string
  | MemInvalidRecord string
  | MemIo string
  | MemParse string
  | MemTimeout string
  | MemUnsupported string

record MemoryEnv =
  me_sha256 :: "string \<Rightarrow> string"
  me_now_ms :: "nat \<Rightarrow> u64"
  me_new_memory_id :: "nat \<Rightarrow> string \<Rightarrow> string \<Rightarrow> string"
  me_mint_token :: "nat \<Rightarrow> string \<Rightarrow> string"
  me_commit_error :: "nat \<Rightarrow> string option"
  me_sql_error :: "string \<Rightarrow> string"
  me_author_debug :: "MemoryAuthor \<Rightarrow> string"
  me_gate :: "(MemoryAuthor \<Rightarrow> StagedBatchKind \<Rightarrow> EvidenceRef list \<Rightarrow> string option) option"
  me_resolver :: "(EvidenceRef \<Rightarrow> string + unit) option"

section \<open>The validator's view\<close>

definition find_row :: "RealmDb \<Rightarrow> string \<Rightarrow> MemoryRow option" where
  "find_row db mid = find (\<lambda>r. mr_id r = mid) (db_records db)"

definition row_view :: "MemoryRow \<Rightarrow> StagedRecordView" where
  "row_view r = \<lparr>rv_scope = mr_scope r, rv_trust = mr_trust r, rv_status = mr_status r, rv_supersedes = mr_supersedes r,
     rv_derived_from = mr_derived_from r, rv_content_hash = row_content_hash r,
     rv_has_verification = pv_verification (mr_provenance r) \<noteq> None, rv_ever_quarantined = mr_ever_quarantined r\<rparr>"

text \<open>\<open>MAX\<close> over a column of signed 64-bit integers.\<close>

fun max_signed :: "u64 list \<Rightarrow> u64 option" where
  "max_signed [] = None"
| "max_signed (x # xs) = (case max_signed xs of None \<Rightarrow> Some x | Some m \<Rightarrow> Some (if sint m < sint x then x else m))"

definition tombstoned_at_ms :: "RealmDb \<Rightarrow> MemoryScope \<Rightarrow> string \<Rightarrow> u64 option" where
  "tombstoned_at_ms db scope hash =
     max_signed (List.map_filter row_tombstoned_at_ms
       (filter (\<lambda>r. scope_kind_str (mr_scope r) = scope_kind_str scope \<and> scope_key (mr_scope r) = scope_key scope
          \<and> row_content_hash r = hash \<and> mr_status r = StatusTombstoned) (db_records db)))"

definition conn_view :: "RealmDb \<Rightarrow> StagedBatchView" where
  "conn_view db = \<lparr>bv_record = (\<lambda>mid. map_option row_view (find_row db mid)), bv_tombstoned_at_ms = tombstoned_at_ms db\<rparr>"

section \<open>Applying a batch\<close>

definition MAX_MEMORY_TAGS :: nat where
  "MAX_MEMORY_TAGS = 32"

definition MAX_MEMORY_TAG_BYTES :: nat where
  "MAX_MEMORY_TAG_BYTES = 64"

fun normalized_tags :: "string list \<Rightarrow> AgentMemoryError + string list" where
  "normalized_tags [] = Inr []"
| "normalized_tags (tag # tags) =
     (let tag = to_ascii_lowercase (trim tag) in
      if length tag > MAX_MEMORY_TAG_BYTES then Inl (MemInvalidRecord ''tags must be at most 64 bytes'')
      else case normalized_tags tags of
        Inl e \<Rightarrow> Inl e
      | Inr rest \<Rightarrow> Inr (if tag = [] then rest else tag # rest))"

definition normalize_tags :: "string list \<Rightarrow> AgentMemoryError + string list" where
  "normalize_tags tags =
     (if length tags > MAX_MEMORY_TAGS then Inl (MemInvalidRecord ''tags must contain at most 32 entries'')
      else map_sum id (\<lambda>ts. sort (remdups ts)) (normalized_tags tags))"

definition ancestors_reach_quarantine :: "RealmDb \<Rightarrow> string list \<Rightarrow> bool" where
  "ancestors_reach_quarantine db ancestors =
     list_ex (\<lambda>r. mr_id r \<in> set ancestors \<and> (mr_ever_quarantined r \<or> is_quarantined (mr_status r))) (db_records db)"

definition insert_record ::
  "MemoryEnv \<Rightarrow> RealmDb \<Rightarrow> string \<Rightarrow> MemoryScope \<Rightarrow> NewMemoryRecord \<Rightarrow> TrustTier \<Rightarrow> MemoryAuthor \<Rightarrow> string list \<Rightarrow> string option
   \<Rightarrow> u32 option \<Rightarrow> string option \<Rightarrow> u64 \<Rightarrow> u64 \<Rightarrow> AgentMemoryError + RealmDb" where
  "insert_record env db memory_id scope r trust author derived_from supersedes rank quarantine created_at_ms updated_at_ms =
     (case normalize_tags (nr_tags r) of
        Inl e \<Rightarrow> Inl e
      | Inr tags \<Rightarrow>
         (let ever = (quarantine \<noteq> None \<or> ancestors_reach_quarantine db (derived_from @ (case supersedes of Some prior \<Rightarrow> [prior] | None \<Rightarrow> []))) in
          if find_row db memory_id \<noteq> None then Inl (MemIo (me_sql_error env memory_id))
          else Inr (db\<lparr>db_records := db_records db @ [\<lparr>mr_id = memory_id, mr_scope = scope, mr_kind = nr_kind r, mr_title = nr_title r,
            mr_description = nr_description r, mr_body = nr_body r, mr_tags = tags,
            mr_provenance = \<lparr>pv_evidence = nr_evidence r, pv_author = author, pv_profile = None, pv_verification = nr_verification r\<rparr>,
            mr_trust = trust, mr_status = (case quarantine of Some reason \<Rightarrow> StatusQuarantined reason | None \<Rightarrow> StatusActive),
            mr_supersedes = supersedes, mr_derived_from = derived_from, mr_working_set_rank = rank,
            mr_created_at_ms = created_at_ms, mr_updated_at_ms = updated_at_ms, mr_usage = UsageStats_default,
            mr_ever_quarantined = ever, row_content_hash = content_hash (me_sha256 env) (nr_title r) (nr_body r),
            row_rank_set_at_ms = None, row_tombstoned_at_ms = None\<rparr>]\<rparr>)))"

definition update_row :: "string \<Rightarrow> (MemoryRow \<Rightarrow> MemoryRow) \<Rightarrow> RealmDb \<Rightarrow> RealmDb" where
  "update_row mid f db = db\<lparr>db_records := map (\<lambda>r. if mr_id r = mid then f r else r) (db_records db)\<rparr>"

fun apply_op ::
  "MemoryEnv \<Rightarrow> nat \<Rightarrow> RealmDb \<Rightarrow> StagedMutationBatch \<Rightarrow> StagedOp \<Rightarrow> string option \<Rightarrow> u64 \<Rightarrow> AgentMemoryError + (string \<times> RealmDb)" where
  "apply_op env tick db batch (OpCreate mid scope r trust derived_from _ created_at_ms updated_at_ms) quarantine now =
     (let memory_id = unwrap_or mid (me_new_memory_id env tick (nr_title r) (nr_body r)) in
      map_sum id (\<lambda>db. (memory_id, db))
        (insert_record env db memory_id scope r trust (sb_author batch) derived_from None None quarantine
          (unwrap_or created_at_ms now) (unwrap_or updated_at_ms now)))"
| "apply_op env tick db batch (OpSupersede mid prior r trust derived_from _) quarantine now =
     (case find_row db prior of
        None \<Rightarrow> Inl (MemIo (me_sql_error env prior))
      | Some prior_row \<Rightarrow>
         (let memory_id = unwrap_or mid (me_new_memory_id env tick (nr_title r) (nr_body r)) in
          case insert_record env db memory_id (mr_scope prior_row) r trust (sb_author batch) derived_from (Some prior)
                 (mr_working_set_rank prior_row) quarantine now now of
            Inl e \<Rightarrow> Inl e
          | Inr db \<Rightarrow> Inr (memory_id,
              if quarantine = None
              then update_row prior (\<lambda>row. row\<lparr>mr_status := StatusSuperseded memory_id, mr_updated_at_ms := now\<rparr>) db
              else db)))"
| "apply_op env tick db batch (OpTombstone mid _) quarantine now =
     Inr (mid, update_row mid (\<lambda>row. row\<lparr>mr_status := StatusTombstoned, mr_updated_at_ms := now, row_tombstoned_at_ms := Some now\<rparr>) db)"
| "apply_op env tick db batch (OpRetier mid trust _) quarantine now =
     Inr (mid, update_row mid (\<lambda>row. row\<lparr>mr_trust := trust, mr_updated_at_ms := now\<rparr>) db)"
| "apply_op env tick db batch (OpSetRank mid rank) quarantine now =
     Inr (mid, update_row mid (\<lambda>row. row\<lparr>mr_working_set_rank := rank, row_rank_set_at_ms := Some now\<rparr>) db)"

fun op_rationale :: "StagedOp \<Rightarrow> string option" where
  "op_rationale (OpCreate _ _ _ _ _ rationale _ _) = rationale"
| "op_rationale (OpSupersede _ _ _ _ _ rationale) = rationale"
| "op_rationale (OpTombstone _ rationale) = rationale"
| "op_rationale (OpRetier _ _ rationale) = rationale"
| "op_rationale (OpSetRank _ _) = None"

fun apply_ops ::
  "MemoryEnv \<Rightarrow> nat \<Rightarrow> nat \<Rightarrow> RealmDb \<Rightarrow> StagedMutationBatch \<Rightarrow> StagedOp list \<Rightarrow> string option \<Rightarrow> string \<Rightarrow> u64 \<Rightarrow> ReviewAudit option
   \<Rightarrow> AgentMemoryError + (string list \<times> RealmDb)" where
  "apply_ops env tick op_index db batch [] quarantine token now review = Inr ([], db)"
| "apply_ops env tick op_index db batch (op # ops) quarantine token now review =
     (case apply_op env (tick + op_index) db batch op quarantine now of
        Inl e \<Rightarrow> Inl e
      | Inr (memory_id, db) \<Rightarrow>
         (let db = db\<lparr>db_audit := db_audit db @ [\<lparr>ad_stage_token = token, ad_op_index = op_index, ad_op_kind = op_kind_str op,
                ad_memory_id = memory_id, ad_author = sb_author batch, ad_rationale = op_rationale op, ad_quarantined = quarantine,
                ad_review = review, ad_applied_at_ms = now\<rparr>]\<rparr> in
          map_sum id (\<lambda>(ids, db). (memory_id # ids, db)) (apply_ops env tick (Suc op_index) db batch ops quarantine token now review)))"

record CommitReceipt =
  rc_token :: string
  rc_applied_ops :: nat
  rc_memory_ids :: "string list"

definition apply_batch_in_tx ::
  "MemoryEnv \<Rightarrow> nat \<Rightarrow> RealmDb \<Rightarrow> StagedMutationBatch \<Rightarrow> string option \<Rightarrow> string \<Rightarrow> u64 \<Rightarrow> ReviewAudit option
   \<Rightarrow> (AgentMemoryError + (CommitReceipt \<times> RealmDb)) option" where
  "apply_batch_in_tx env tick db batch quarantine token now review =
     map_option (\<lambda>verdict.
       case verdict of
         Inl e \<Rightarrow> Inl (MemInvalidRecord (display_batch_error e))
       | Inr _ \<Rightarrow>
           map_sum id (\<lambda>(ids, db). (\<lparr>rc_token = token, rc_applied_ops = length (sb_ops batch), rc_memory_ids = ids\<rparr>,
               db\<lparr>db_stage := filter (\<lambda>s. sg_token s \<noteq> token) (db_stage db)\<rparr>))
             (apply_ops env tick 0 db batch (sb_ops batch) quarantine token now review))
       (validate_batch (me_sha256 env) batch (conn_view db) DEFAULT_TOMBSTONE_RECREATE_WINDOW_MS now)"

fun op_evidence :: "StagedOp \<Rightarrow> EvidenceRef list" where
  "op_evidence (OpCreate _ _ r _ _ _ _ _) = nr_evidence r"
| "op_evidence (OpSupersede _ _ r _ _ _) = nr_evidence r"
| "op_evidence _ = []"

definition gate_verdict :: "MemoryEnv \<Rightarrow> StagedMutationBatch \<Rightarrow> string option" where
  "gate_verdict env batch =
     Option.bind (me_gate env) (\<lambda>gate. gate (sb_author batch) (sb_kind batch) (concat (map op_evidence (sb_ops batch))))"

definition emit_store_event :: "MemoryTimelineEvent \<Rightarrow> MemoryStore \<Rightarrow> MemoryStore" where
  "emit_store_event e st = (if st_sink_wired st then st\<lparr>st_events := st_events st @ [e]\<rparr> else st)"

definition batch_quarantine_reason :: "MemoryEnv \<Rightarrow> StagedMutationBatch \<Rightarrow> MemoryStore \<Rightarrow> string option \<times> MemoryStore" where
  "batch_quarantine_reason env batch st =
     (case gate_verdict env batch of
        None \<Rightarrow> (None, st)
      | Some reason \<Rightarrow>
          (Some reason, emit_store_event (QuarantinedWrite (sb_realm batch) (me_author_debug env (sb_author batch)) reason) st))"

text \<open>A transaction: its database is installed when the commit goes through, and dropped otherwise.\<close>

definition tx_commit :: "MemoryEnv \<Rightarrow> RealmDb \<Rightarrow> 'a \<Rightarrow> MemoryStore \<Rightarrow> (AgentMemoryError + 'a) \<times> MemoryStore" where
  "tx_commit env db x st =
     (case me_commit_error env (st_tick st) of
        Some e \<Rightarrow> (Inl (MemIo e), st\<lparr>st_tick := Suc (st_tick st)\<rparr>)
      | None \<Rightarrow> (Inr x, st\<lparr>st_db := db, st_tick := Suc (st_tick st)\<rparr>))"

definition apply_batch_tx ::
  "MemoryEnv \<Rightarrow> StagedMutationBatch \<Rightarrow> string \<Rightarrow> u64 \<Rightarrow> MemoryStore \<Rightarrow> ((AgentMemoryError + CommitReceipt) \<times> MemoryStore) option" where
  "apply_batch_tx env batch token now st =
     (let (quarantine, st) = batch_quarantine_reason env batch st in
      map_option (\<lambda>result.
        case result of
          Inl e \<Rightarrow> (Inl e, st\<lparr>st_tick := st_tick st + length (sb_ops batch)\<rparr>)
        | Inr (receipt, db) \<Rightarrow> tx_commit env db receipt (st\<lparr>st_tick := st_tick st + length (sb_ops batch)\<rparr>))
        (apply_batch_in_tx env (st_tick st) (st_db st) batch quarantine token now None))"

section \<open>Staging and committing\<close>

fun resolve_all :: "(EvidenceRef \<Rightarrow> string + unit) \<Rightarrow> EvidenceRef list \<Rightarrow> string + unit" where
  "resolve_all resolver [] = Inr ()"
| "resolve_all resolver (e # es) = (case resolver e of Inl reason \<Rightarrow> Inl reason | Inr _ \<Rightarrow> resolve_all resolver es)"

definition retier_evidence :: "RealmDb \<Rightarrow> (EvidenceRef \<Rightarrow> string + unit) \<Rightarrow> StagedOp \<Rightarrow> string + unit" where
  "retier_evidence db resolver op =
     (case op of
        OpRetier mid trust _ \<Rightarrow>
          if trust \<noteq> AgentVerified then Inr ()
          else (case find_row db mid of
             None \<Rightarrow> Inr ()
           | Some row \<Rightarrow>
              (let evidence = (case pv_verification (mr_provenance row) of Some claim \<Rightarrow> vc_evidence claim | None \<Rightarrow> []) in
               if evidence = [] then Inl ''verification claim cites no evidence refs'' else resolve_all resolver evidence))
      | _ \<Rightarrow> Inr ())"

fun check_retiers :: "RealmDb \<Rightarrow> (EvidenceRef \<Rightarrow> string + unit) \<Rightarrow> nat \<Rightarrow> StagedOp list \<Rightarrow> AgentMemoryError + unit" where
  "check_retiers db resolver op_index [] = Inr ()"
| "check_retiers db resolver op_index (op # ops) =
     (case retier_evidence db resolver op of
        Inl reason \<Rightarrow> Inl (MemInvalidRecord (display_batch_error (UnresolvableEvidence op_index reason)))
      | Inr _ \<Rightarrow> check_retiers db resolver (Suc op_index) ops)"

definition check_verified_retier_evidence :: "MemoryEnv \<Rightarrow> RealmDb \<Rightarrow> StagedMutationBatch \<Rightarrow> AgentMemoryError + unit" where
  "check_verified_retier_evidence env db batch =
     (case me_resolver env of None \<Rightarrow> Inr () | Some resolver \<Rightarrow> check_retiers db resolver 0 (sb_ops batch))"

definition stage_blocking ::
  "MemoryEnv \<Rightarrow> StagedMutationBatch \<Rightarrow> MemoryStore \<Rightarrow> ((AgentMemoryError + string) \<times> MemoryStore) option" where
  "stage_blocking env batch st =
     map_option (\<lambda>verdict.
       case verdict of
         Inl e \<Rightarrow> (Inl (MemInvalidRecord (display_batch_error e)), st\<lparr>st_tick := Suc (st_tick st)\<rparr>)
       | Inr _ \<Rightarrow>
          (case check_verified_retier_evidence env (st_db st) batch of
             Inl e \<Rightarrow> (Inl e, st\<lparr>st_tick := Suc (st_tick st)\<rparr>)
           | Inr _ \<Rightarrow>
              (let token = me_mint_token env (Suc (st_tick st)) ''stage'' in
               if list_ex (\<lambda>s. sg_token s = token) (db_stage (st_db st))
               then (Inl (MemIo (me_sql_error env token)), st\<lparr>st_tick := st_tick st + 3\<rparr>)
               else (Inr token, st\<lparr>st_db := (st_db st)\<lparr>db_stage := db_stage (st_db st)
                  @ [\<lparr>sg_token = token, sg_batch = batch, sg_created_at_ms = me_now_ms env (st_tick st + 2)\<rparr>]\<rparr>,
                  st_tick := st_tick st + 3\<rparr>))))
       (validate_batch (me_sha256 env) batch (conn_view (st_db st)) DEFAULT_TOMBSTONE_RECREATE_WINDOW_MS (me_now_ms env (st_tick st)))"

definition commit_blocking ::
  "MemoryEnv \<Rightarrow> string \<Rightarrow> MemoryStore \<Rightarrow> ((AgentMemoryError + CommitReceipt) \<times> MemoryStore) option" where
  "commit_blocking env token st =
     (case find (\<lambda>s. sg_token s = token) (db_stage (st_db st)) of
        None \<Rightarrow> Some (Inl (MemInvalidRecord (''unknown or expired stage token '' @ single_quoted token)), st)
      | Some row \<Rightarrow>
         (case check_verified_retier_evidence env (st_db st) (sg_batch row) of
            Inl e \<Rightarrow> Some (Inl e, st)
          | Inr _ \<Rightarrow> apply_batch_tx env (sg_batch row) token (me_now_ms env (st_tick st)) (st\<lparr>st_tick := Suc (st_tick st)\<rparr>)))"

definition discard_stage :: "string \<Rightarrow> MemoryStore \<Rightarrow> MemoryStore" where
  "discard_stage token st = st\<lparr>st_db := (st_db st)\<lparr>db_stage := filter (\<lambda>s. sg_token s \<noteq> token) (db_stage (st_db st))\<rparr>\<rparr>"

section \<open>Direct writes\<close>

fun take_word :: "string \<Rightarrow> string \<times> string" where
  "take_word [] = ([], [])"
| "take_word (c # cs) =
     (if 0 < ws_len (c # cs) then ([], c # cs) else let (w, r) = take_word cs in (c # w, r))"

lemma take_word_length: "length (fst (take_word s)) + length (snd (take_word s)) = length s"
  by (induction s rule: take_word.induct) (auto simp: Let_def split: prod.splits)

lemma take_word_progress: "s \<noteq> [] \<Longrightarrow> ws_len s = 0 \<Longrightarrow> length (snd (take_word s)) < length s"
  using take_word_length [of s] by (cases s) (auto simp: Let_def split: prod.splits)

function split_whitespace :: "string \<Rightarrow> string list" where
  "split_whitespace s =
     (let s' = trim_start s in
      if s' = [] \<or> 0 < ws_len s' then [] else fst (take_word s') # split_whitespace (snd (take_word s')))"
  by pat_completeness auto
termination
proof (relation "measure length", goal_cases)
  case (2 s s')
  have "length s' \<le> length s" unfolding 2(1) trim_start_def using strip_with_suffix by (rule suffix_length_le)
  then show ?case using take_word_progress [of s'] 2(2) by simp
qed simp

declare split_whitespace.simps [simp del]

definition compact_whitespace :: "string \<Rightarrow> string" where
  "compact_whitespace v = join_with '' '' (split_whitespace v)"

record AuthoredWriteReceipt =
  wr_memory_id :: string
  wr_status :: RecordStatus

definition receipt_of_write :: "string \<Rightarrow> CommitReceipt \<Rightarrow> MemoryStore \<Rightarrow> (AgentMemoryError + AuthoredWriteReceipt) \<times> MemoryStore" where
  "receipt_of_write what receipt st =
     (case rc_memory_ids receipt of
        [] \<Rightarrow> (Inl (MemIo (what @ '' commit returned no record id'')), st)
      | memory_id # _ \<Rightarrow>
         (case find_row (st_db st) memory_id of
            None \<Rightarrow> (Inl (MemIo (what @ '' record vanished mid-commit'')), st)
          | Some row \<Rightarrow> (Inr \<lparr>wr_memory_id = memory_id, wr_status = mr_status row\<rparr>, st)))"

definition direct_batch :: "MemoryScope \<Rightarrow> MemoryAuthor \<Rightarrow> StagedOp \<Rightarrow> StagedMutationBatch" where
  "direct_batch scope author op = \<lparr>sb_realm = sc_realm scope, sb_author = author, sb_kind = FreshWrite, sb_ops = [op]\<rparr>"

definition apply_direct ::
  "MemoryEnv \<Rightarrow> StagedMutationBatch \<Rightarrow> MemoryStore \<Rightarrow> ((AgentMemoryError + CommitReceipt) \<times> MemoryStore) option" where
  "apply_direct env batch st =
     apply_batch_tx env batch (me_mint_token env (st_tick st) ''direct'') (me_now_ms env (Suc (st_tick st)))
       (st\<lparr>st_tick := st_tick st + 2\<rparr>)"

definition forget_in_scope_blocking ::
  "MemoryEnv \<Rightarrow> MemoryScope \<Rightarrow> string \<Rightarrow> MemoryAuthor \<Rightarrow> MemoryStore \<Rightarrow> ((AgentMemoryError + bool) \<times> MemoryStore) option" where
  "forget_in_scope_blocking env scope memory_id author st =
     (if \<not> is_some_and (find_row (st_db st) memory_id) (\<lambda>r. mr_scope r = scope \<and> mr_status r \<noteq> StatusTombstoned)
      then Some (Inr False, st)
      else map_option (\<lambda>(result, st). (map_sum id (\<lambda>_. True) result, st))
        (apply_direct env (direct_batch scope author (OpTombstone memory_id None)) st))"

definition supersede_with_author_blocking ::
  "MemoryEnv \<Rightarrow> MemoryScope \<Rightarrow> string \<Rightarrow> NewMemoryRecord \<Rightarrow> MemoryAuthor \<Rightarrow> MemoryStore
   \<Rightarrow> ((AgentMemoryError + AuthoredWriteReceipt) \<times> MemoryStore) option" where
  "supersede_with_author_blocking env scope prior r author st =
     (let title = compact_whitespace (nr_title r); body = trim (nr_body r) in
      case validate_record_fields title (nr_description r) body of
        Inl e \<Rightarrow> Some (Inl (MemInvalidRecord e), st)
      | Inr _ \<Rightarrow>
         (case normalize_tags (nr_tags r) of
            Inl e \<Rightarrow> Some (Inl e, st)
          | Inr tags \<Rightarrow>
             (case find_row (st_db st) prior of
                None \<Rightarrow> Some (Inl (MemInvalidRecord (''record '' @ single_quoted prior @ '' does not exist'')), st)
              | Some existing \<Rightarrow>
                  if mr_scope existing \<noteq> scope
                  then Some (Inl (MemInvalidRecord (''record '' @ single_quoted prior @ '' does not belong to the requested scope'')), st)
                  else map_option (\<lambda>(result, st). case result of
                      Inl e \<Rightarrow> (Inl e, st)
                    | Inr receipt \<Rightarrow> receipt_of_write ''supersede'' receipt st)
                    (apply_direct env (direct_batch scope author
                      (OpSupersede None prior (r\<lparr>nr_title := title, nr_body := body, nr_tags := tags\<rparr>) AgentObserved [] None)) st))))"

text \<open>The duplicate a write short-circuits to: the oldest active row of the scope with the same content hash.\<close>

definition oldest_duplicate :: "RealmDb \<Rightarrow> MemoryScope \<Rightarrow> string \<Rightarrow> MemoryRow option" where
  "oldest_duplicate db scope hash =
     map_option fst (min_by_key (map (\<lambda>r. (r, sint (mr_created_at_ms r)))
       (filter (\<lambda>r. scope_kind_str (mr_scope r) = scope_kind_str scope \<and> scope_key (mr_scope r) = scope_key scope
          \<and> row_content_hash r = hash \<and> mr_status r = StatusActive) (db_records db))))"

definition remember_authored_blocking ::
  "MemoryEnv \<Rightarrow> MemoryScope \<Rightarrow> NewMemoryRecord \<Rightarrow> MemoryAuthor \<Rightarrow> MemoryStore
   \<Rightarrow> ((AgentMemoryError + AuthoredWriteReceipt) \<times> MemoryStore) option" where
  "remember_authored_blocking env scope r author st =
     (let title = compact_whitespace (nr_title r); body = trim (nr_body r) in
      case validate_record_fields title (nr_description r) body of
        Inl e \<Rightarrow> Some (Inl (MemInvalidRecord e), st)
      | Inr _ \<Rightarrow>
         (case normalize_tags (nr_tags r) of
            Inl e \<Rightarrow> Some (Inl e, st)
          | Inr tags \<Rightarrow>
             (case oldest_duplicate (st_db st) scope (content_hash (me_sha256 env) title body) of
                Some row \<Rightarrow> Some (Inr \<lparr>wr_memory_id = mr_id row, wr_status = mr_status row\<rparr>, st)
              | None \<Rightarrow>
                  map_option (\<lambda>(result, st). case result of
                      Inl e \<Rightarrow> (Inl e, st)
                    | Inr receipt \<Rightarrow> receipt_of_write ''remember'' receipt st)
                    (apply_direct env (direct_batch scope author
                      (OpCreate None scope (r\<lparr>nr_title := title, nr_body := body, nr_tags := tags\<rparr>) AgentObserved [] None None None)) st))))"

end
