(* ===== verification/Agent_Memory_Review.thy ===== *)
theory Agent_Memory_Review
  imports Agent_Memory_Store
begin

text \<open>
  Quarantine review (\<open>memory/review.rs\<close> and the review transaction of
  \<open>memory/sqlite_store.rs\<close>): one decision over one quarantined record, in one transaction that
  reads, checks and applies. A refusal or a replay commits nothing.
\<close>

section \<open>Receipts, outcomes and refusals\<close>

record ReviewedRecordReceipt =
  rr_memory_id :: string
  rr_scope :: MemoryScope
  rr_kind :: MemoryKind
  rr_status :: RecordStatus
  rr_trust :: TrustTier
  rr_ever_quarantined :: bool
  rr_content_hash :: string
  rr_supersedes :: "string option"
  rr_derived_from :: "string list"
  rr_created_at_ms :: u64
  rr_updated_at_ms :: u64

record ReviewDecision =
  rd_audit_token :: string
  rd_decided_at_ms :: u64
  rd_review :: ReviewAudit

datatype QuarantineReviewOutcome =
    OutReleased ReviewedRecordReceipt ReviewedRecordReceipt "string option" ReviewDecision
  | OutAlreadyReleased ReviewedRecordReceipt ReviewedRecordReceipt ReviewDecision
  | OutTombstoned ReviewedRecordReceipt ReviewDecision
  | OutAlreadyTombstoned ReviewedRecordReceipt ReviewDecision

fun outcome_applied :: "QuarantineReviewOutcome \<Rightarrow> bool" where
  "outcome_applied (OutReleased _ _ _ _) = True"
| "outcome_applied (OutTombstoned _ _) = True"
| "outcome_applied _ = False"

fun outcome_origin :: "QuarantineReviewOutcome \<Rightarrow> ReviewedRecordReceipt" where
  "outcome_origin (OutReleased origin _ _ _) = origin"
| "outcome_origin (OutAlreadyReleased origin _ _) = origin"
| "outcome_origin (OutTombstoned origin _) = origin"
| "outcome_origin (OutAlreadyTombstoned origin _) = origin"

fun outcome_successor :: "QuarantineReviewOutcome \<Rightarrow> ReviewedRecordReceipt option" where
  "outcome_successor (OutReleased _ successor _ _) = Some successor"
| "outcome_successor (OutAlreadyReleased _ successor _) = Some successor"
| "outcome_successor _ = None"

fun outcome_decision :: "QuarantineReviewOutcome \<Rightarrow> ReviewDecision" where
  "outcome_decision (OutReleased _ _ _ decision) = decision"
| "outcome_decision (OutAlreadyReleased _ _ decision) = decision"
| "outcome_decision (OutTombstoned _ decision) = decision"
| "outcome_decision (OutAlreadyTombstoned _ decision) = decision"

datatype QuarantineReviewRefusal =
    RefNotFound
  | RefContentMismatch
  | RefNotQuarantined string "string option"
  | RefGatePending string u64
  | RefSuccessorConflict string
  | RefSecretDetected string
  | RefStaleUpdate string string

fun refusal_reason_str :: "QuarantineReviewRefusal \<Rightarrow> string" where
  "refusal_reason_str RefNotFound = ''not_found''"
| "refusal_reason_str RefContentMismatch = ''content_mismatch''"
| "refusal_reason_str (RefNotQuarantined _ _) = ''not_quarantined''"
| "refusal_reason_str (RefGatePending _ _) = ''gate_pending''"
| "refusal_reason_str (RefSuccessorConflict _) = ''successor_conflict''"
| "refusal_reason_str (RefSecretDetected _) = ''secret_detected''"
| "refusal_reason_str (RefStaleUpdate _ _) = ''stale_update''"

section \<open>The operations of a release\<close>

definition RELEASE_SUCCESSOR_SUFFIX :: string where
  "RELEASE_SUCCESSOR_SUFFIX = ''-released''"

definition release_successor_id :: "string \<Rightarrow> string" where
  "release_successor_id origin = origin @ RELEASE_SUCCESSOR_SUFFIX"

definition release_copy :: "MemoryRow \<Rightarrow> NewMemoryRecord" where
  "release_copy r = \<lparr>nr_kind = mr_kind r, nr_title = mr_title r, nr_description = mr_description r, nr_body = mr_body r,
     nr_tags = mr_tags r, nr_evidence = [], nr_verification = pv_verification (mr_provenance r)\<rparr>"

definition quarantine_release_ops :: "MemoryRow \<Rightarrow> string \<Rightarrow> string \<Rightarrow> StagedOp list" where
  "quarantine_release_ops origin create_rationale tombstone_rationale =
     (let successor = Some (release_successor_id (mr_id origin)) in
      [(case mr_supersedes origin of
          Some prior \<Rightarrow> OpSupersede successor prior (release_copy origin) AgentObserved [mr_id origin] (Some create_rationale)
        | None \<Rightarrow> OpCreate successor (mr_scope origin) (release_copy origin) AgentObserved [mr_id origin] (Some create_rationale) None None),
       OpTombstone (mr_id origin) (Some tombstone_rationale)])"

section \<open>The review transaction\<close>

definition GATED_PROMOTION_EXPIRY_MS :: u64 where
  "GATED_PROMOTION_EXPIRY_MS = 7 * 24 * 60 * 60 * 1000"

definition row_hash :: "MemoryEnv \<Rightarrow> MemoryRow \<Rightarrow> string" where
  "row_hash env r = content_hash (me_sha256 env) (mr_title r) (mr_body r)"

definition review_receipt :: "MemoryEnv \<Rightarrow> RealmDb \<Rightarrow> string \<Rightarrow> AgentMemoryError + ReviewedRecordReceipt" where
  "review_receipt env db memory_id =
     (case find_row db memory_id of
        None \<Rightarrow> Inl (MemIo (''reviewed record '' @ single_quoted memory_id @ '' vanished mid-review''))
      | Some r \<Rightarrow> Inr \<lparr>rr_memory_id = mr_id r, rr_scope = mr_scope r, rr_kind = mr_kind r, rr_status = mr_status r, rr_trust = mr_trust r,
          rr_ever_quarantined = mr_ever_quarantined r, rr_content_hash = row_hash env r, rr_supersedes = mr_supersedes r,
          rr_derived_from = mr_derived_from r, rr_created_at_ms = mr_created_at_ms r, rr_updated_at_ms = mr_updated_at_ms r\<rparr>)"

definition pending_promotions_for :: "RealmDb \<Rightarrow> string \<Rightarrow> PendingPromotion list" where
  "pending_promotions_for db record_id =
     sort_key (\<lambda>p. sint (pp_created_at_ms p))
       (filter (\<lambda>p. pp_record_id p = record_id \<and> pp_status p = ''pending'') (db_promotions db))"

definition expire_promotion_in_tx :: "PendingPromotion \<Rightarrow> u64 \<Rightarrow> RealmDb \<Rightarrow> RealmDb" where
  "expire_promotion_in_tx promotion now db =
     db\<lparr>db_stage := filter (\<lambda>s. sg_token s \<noteq> pp_stage_token promotion) (db_stage db),
        db_promotions := map (\<lambda>p. if pp_pending_id p = pp_pending_id promotion \<and> pp_status p = ''pending''
          then p\<lparr>pp_status := ''expired'', pp_resolved_at_ms := Some now\<rparr> else p) (db_promotions db)\<rparr>"

text \<open>The promotions a review settles: the ids it expires, the ids it invalidates, and the database.\<close>

fun settle_promotions ::
  "bool \<Rightarrow> u64 \<Rightarrow> PendingPromotion list \<Rightarrow> RealmDb \<Rightarrow> QuarantineReviewRefusal + (string list \<times> string list \<times> RealmDb)" where
  "settle_promotions operator_tombstone now [] db = Inr ([], [], db)"
| "settle_promotions operator_tombstone now (p # ps) db =
     (let expires_at_ms = saturating_add (pp_created_at_ms p) GATED_PROMOTION_EXPIRY_MS in
      if expires_at_ms \<le> now
      then map_sum id (\<lambda>(expired, invalidated, db). (pp_pending_id p # expired, invalidated, db))
             (settle_promotions operator_tombstone now ps (expire_promotion_in_tx p now db))
      else if operator_tombstone
      then map_sum id (\<lambda>(expired, invalidated, db). (expired, pp_pending_id p # invalidated, db))
             (settle_promotions operator_tombstone now ps (expire_promotion_in_tx p now db))
      else Inl (RefGatePending (pp_pending_id p) expires_at_ms))"

definition stale_update_refusal :: "RealmDb \<Rightarrow> MemoryRow \<Rightarrow> QuarantineReviewRefusal option" where
  "stale_update_refusal db origin =
     (case mr_supersedes origin of
        None \<Rightarrow> None
      | Some prior \<Rightarrow>
         (case find_row db prior of
            Some r \<Rightarrow> if mr_status r = StatusActive then None else Some (RefStaleUpdate prior (status_kind_str (mr_status r)))
          | None \<Rightarrow> Some (RefStaleUpdate prior ''missing'')))"

definition inconsistent_review :: "MemoryRow \<Rightarrow> string \<Rightarrow> AgentMemoryError" where
  "inconsistent_review origin what =
     MemIo (''quarantine review evidence for '' @ single_quoted (mr_id origin) @ '' is inconsistent: '' @ what)"

text \<open>Whether the successor an audit row names is the release it records.\<close>

definition check_recorded_release :: "MemoryEnv \<Rightarrow> RealmDb \<Rightarrow> MemoryRow \<Rightarrow> string \<Rightarrow> ReviewAudit \<Rightarrow> AgentMemoryError + unit" where
  "check_recorded_release env db origin token review =
     (case ra_successor review of
        None \<Rightarrow> Inl (inconsistent_review origin ''a release without a successor'')
      | Some successor_id \<Rightarrow>
          if \<not> is_some_and (find (\<lambda>a. ad_stage_token a = token \<and> ad_op_index a = 0) (db_audit db))
                 (\<lambda>a. ad_memory_id a = successor_id \<and> ad_op_kind a \<in> {''create'', ''supersede''})
          then Inl (inconsistent_review origin ''the successor was not written by the review'')
          else case find_row db successor_id of
            None \<Rightarrow> Inl (inconsistent_review origin ''the successor row is missing'')
          | Some successor \<Rightarrow>
              if mr_scope successor \<noteq> mr_scope origin \<or> mr_derived_from successor \<noteq> [mr_id origin]
                \<or> row_hash env successor \<noteq> row_hash env origin
              then Inl (inconsistent_review origin (''the successor is not the origin'' @ [CHR 0x27] @ ''s release''))
              else Inr ())"

fun first_review :: "MemoryEnv \<Rightarrow> RealmDb \<Rightarrow> MemoryRow \<Rightarrow> AuditRow list \<Rightarrow> AgentMemoryError + ReviewDecision option" where
  "first_review env db origin [] = Inr None"
| "first_review env db origin (a # rows) =
     (case ad_review a of
        None \<Rightarrow> first_review env db origin rows
      | Some review \<Rightarrow>
          if ra_origin review \<noteq> mr_id origin then first_review env db origin rows
          else case (if ra_verdict review = DecideRelease then check_recorded_release env db origin (ad_stage_token a) review else Inr ()) of
            Inl e \<Rightarrow> Inl e
          | Inr _ \<Rightarrow> Inr (Some \<lparr>rd_audit_token = ad_stage_token a, rd_decided_at_ms = ad_applied_at_ms a, rd_review = review\<rparr>))"

definition recorded_review :: "MemoryEnv \<Rightarrow> RealmDb \<Rightarrow> MemoryRow \<Rightarrow> AgentMemoryError + ReviewDecision option" where
  "recorded_review env db origin =
     first_review env db origin (rev (filter (\<lambda>a. ad_memory_id a = mr_id origin \<and> ad_op_kind a = ''tombstone'') (db_audit db)))"

type_synonym review_answer = "AgentMemoryError + (QuarantineReviewRefusal + QuarantineReviewOutcome)"

definition review_replay :: "MemoryEnv \<Rightarrow> RealmDb \<Rightarrow> MemoryRow \<Rightarrow> QuarantineDecision \<Rightarrow> review_answer" where
  "review_replay env db origin decision =
     (case recorded_review env db origin of
        Inl e \<Rightarrow> Inl e
      | Inr None \<Rightarrow> Inr (Inl (RefNotQuarantined (status_kind_str StatusTombstoned) None))
      | Inr (Some recorded) \<Rightarrow>
         (case (decision, ra_verdict (rd_review recorded), ra_successor (rd_review recorded)) of
            (DecideRelease, DecideRelease, Some successor) \<Rightarrow>
              (case (review_receipt env db (mr_id origin), review_receipt env db successor) of
                 (Inr o_receipt, Inr s_receipt) \<Rightarrow> Inr (Inr (OutAlreadyReleased o_receipt s_receipt recorded))
               | (Inl e, _) \<Rightarrow> Inl e
               | (_, Inl e) \<Rightarrow> Inl e)
          | (DecideTombstone, DecideTombstone, _) \<Rightarrow>
              (case review_receipt env db (mr_id origin) of
                 Inl e \<Rightarrow> Inl e
               | Inr o_receipt \<Rightarrow> Inr (Inr (OutAlreadyTombstoned o_receipt recorded)))
          | (_, _, released_as) \<Rightarrow> Inr (Inl (RefNotQuarantined (status_kind_str StatusTombstoned) released_as))))"

fun is_operator_reviewer :: "QuarantineReviewer \<Rightarrow> bool" where
  "is_operator_reviewer (ReviewOperator _) = True"
| "is_operator_reviewer (ReviewSteward _) = False"

definition reviewer_word :: "QuarantineReviewer \<Rightarrow> string" where
  "reviewer_word reviewer = (case reviewer of ReviewOperator _ \<Rightarrow> ''operator '' | ReviewSteward _ \<Rightarrow> [])"

text \<open>The operations of a decision over a quarantined origin, or the refusal of a release.\<close>

definition review_ops :: "RealmDb \<Rightarrow> QuarantineReviewRequest \<Rightarrow> MemoryRow \<Rightarrow> QuarantineReviewRefusal + StagedOp list" where
  "review_ops db request origin =
     (let rationale = (case qr_rationale request of Some r \<Rightarrow> '': '' @ r | None \<Rightarrow> []);
          who = reviewer_word (qr_reviewer request);
          successor_id = release_successor_id (mr_id origin) in
      case qr_decision request of
        DecideTombstone \<Rightarrow> Inr [OpTombstone (mr_id origin) (Some (who @ ''quarantine tombstone'' @ rationale))]
      | DecideRelease \<Rightarrow>
         (case detect_record_secret (mr_title origin) (mr_description origin) (mr_body origin) (mr_tags origin) of
            Some secret_class \<Rightarrow> Inl (RefSecretDetected secret_class)
          | None \<Rightarrow>
             (case stale_update_refusal db origin of
                Some refusal \<Rightarrow> Inl refusal
              | None \<Rightarrow>
                  if find_row db successor_id \<noteq> None then Inl (RefSuccessorConflict successor_id)
                  else Inr (quarantine_release_ops origin (who @ ''quarantine release'' @ rationale)
                              (''superseded by '' @ who @ ''quarantine release'')))))"

definition review_batch :: "QuarantineReviewRequest \<Rightarrow> StagedOp list \<Rightarrow> StagedMutationBatch" where
  "review_batch request ops = \<lparr>sb_realm = sc_realm (qr_scope request), sb_author = reviewer_author (qr_reviewer request),
     sb_kind = ReviewVerdict, sb_ops = ops\<rparr>"

definition review_audit :: "QuarantineReviewRequest \<Rightarrow> MemoryRow \<Rightarrow> string \<Rightarrow> string list \<Rightarrow> string list \<Rightarrow> ReviewAudit" where
  "review_audit request origin reason expired invalidated =
     \<lparr>ra_verdict = qr_decision request, ra_reviewer = qr_reviewer request, ra_origin = mr_id origin,
      ra_successor = (if qr_decision request = DecideRelease then Some (release_successor_id (mr_id origin)) else None),
      ra_expected_content_hash = qr_expected_content_hash request, ra_origin_quarantine_reason = reason,
      ra_expired_promotions = expired, ra_invalidated_promotions = invalidated, ra_rationale = qr_rationale request\<rparr>"

definition review_outcome :: "MemoryEnv \<Rightarrow> RealmDb \<Rightarrow> QuarantineReviewRequest \<Rightarrow> MemoryRow \<Rightarrow> ReviewDecision \<Rightarrow> review_answer" where
  "review_outcome env db request origin decision =
     (case review_receipt env db (mr_id origin) of
        Inl e \<Rightarrow> Inl e
      | Inr o_receipt \<Rightarrow>
         (case qr_decision request of
            DecideTombstone \<Rightarrow> Inr (Inr (OutTombstoned o_receipt decision))
          | DecideRelease \<Rightarrow>
             (case review_receipt env db (release_successor_id (mr_id origin)) of
                Inl e \<Rightarrow> Inl e
              | Inr s_receipt \<Rightarrow> Inr (Inr (OutReleased o_receipt s_receipt (mr_supersedes origin) decision)))))"

definition apply_review ::
  "MemoryEnv \<Rightarrow> RealmDb \<Rightarrow> QuarantineReviewRequest \<Rightarrow> MemoryRow \<Rightarrow> StagedOp list \<Rightarrow> ReviewAudit \<Rightarrow> u64 \<Rightarrow> MemoryStore
   \<Rightarrow> (review_answer \<times> RealmDb \<times> MemoryStore) option" where
  "apply_review env db request origin ops review now st =
     (let (quarantine, st) = batch_quarantine_reason env (review_batch request ops) st;
          token = me_mint_token env (st_tick st) ''review'' in
      map_option (\<lambda>applied.
        (case applied of
           Inl e \<Rightarrow> (Inl e, db, st\<lparr>st_tick := Suc (st_tick st) + length ops\<rparr>)
         | Inr (_, db) \<Rightarrow>
             (review_outcome env db request origin \<lparr>rd_audit_token = token, rd_decided_at_ms = now, rd_review = review\<rparr>, db,
              st\<lparr>st_tick := Suc (st_tick st) + length ops\<rparr>)))
        (apply_batch_in_tx env (Suc (st_tick st)) db (review_batch request ops) quarantine token now (Some review)))"

text \<open>The answer, the database of the transaction, and the store outside it (events, ticks).\<close>

definition review_in_tx ::
  "MemoryEnv \<Rightarrow> QuarantineReviewRequest \<Rightarrow> u64 \<Rightarrow> MemoryStore \<Rightarrow> (review_answer \<times> RealmDb \<times> MemoryStore) option" where
  "review_in_tx env request now st =
     (let db = st_db st in
      case find_row db (qr_memory_id request) of
        None \<Rightarrow> Some (Inr (Inl RefNotFound), db, st)
      | Some origin \<Rightarrow>
          if mr_scope origin \<noteq> qr_scope request then Some (Inr (Inl RefNotFound), db, st)
          else if row_hash env origin \<noteq> qr_expected_content_hash request then Some (Inr (Inl RefContentMismatch), db, st)
          else case mr_status origin of
            StatusTombstoned \<Rightarrow> Some (review_replay env db origin (qr_decision request), db, st)
          | StatusQuarantined reason \<Rightarrow>
             (case settle_promotions (qr_decision request = DecideTombstone \<and> is_operator_reviewer (qr_reviewer request)) now
                     (pending_promotions_for db (mr_id origin)) db of
                Inl refusal \<Rightarrow> Some (Inr (Inl refusal), db, st)
              | Inr (expired, invalidated, db) \<Rightarrow>
                 (case review_ops db request origin of
                    Inl refusal \<Rightarrow> Some (Inr (Inl refusal), db, st)
                  | Inr ops \<Rightarrow> apply_review env db request origin ops (review_audit request origin reason expired invalidated) now st))
          | status \<Rightarrow> Some (Inr (Inl (RefNotQuarantined (status_kind_str status) None)), db, st))"

definition review_event :: "QuarantineReviewRequest \<Rightarrow> review_answer \<Rightarrow> MemoryStore \<Rightarrow> MemoryStore" where
  "review_event request answer st =
     (case answer of
        Inr (Inr outcome) \<Rightarrow>
          if outcome_applied outcome
          then emit_store_event (QuarantineVerdict (sc_realm (qr_scope request)) (rr_memory_id (outcome_origin outcome))
                 (decision_as_str (ra_verdict (rd_review (outcome_decision outcome)))) None
                 (map_option rr_memory_id (outcome_successor outcome))) st
          else st
      | Inr (Inl (RefSecretDetected secret_class)) \<Rightarrow>
          emit_store_event (QuarantineReleaseBlocked (sc_realm (qr_scope request)) (qr_memory_id request)
            (decision_as_str (qr_decision request)) secret_class) st
      | _ \<Rightarrow> st)"

definition review_quarantined_blocking ::
  "MemoryEnv \<Rightarrow> QuarantineReviewRequest \<Rightarrow> MemoryStore \<Rightarrow> (review_answer \<times> MemoryStore) option" where
  "review_quarantined_blocking env request st =
     map_option (\<lambda>(answer, db, st).
       let (answer, st) =
         (case answer of
            Inr (Inr outcome) \<Rightarrow>
              if outcome_applied outcome
              then tx_commit env db (Inr outcome) st
              else (answer, st)
          | _ \<Rightarrow> (answer, st))
       in (answer, review_event request answer st))
       (review_in_tx env request (me_now_ms env (st_tick st)) (st\<lparr>st_tick := Suc (st_tick st)\<rparr>))"

end
