(* ===== verification/Agent_Memory_Provenance.thy ===== *)
theory Agent_Memory_Provenance
  imports Agent_Memory_Review Transition_Systems
begin

text \<open>
  What the record store guarantees of provenance: a record that was ever quarantined, or descends
  from one that was, never holds a tier above \<open>agent_observed\<close>, through batches, direct writes
  and reviews; failed transactions leave the database as it was.
\<close>

section \<open>Rows as a map\<close>

lemma find_row_Some: "find_row db m = Some r \<Longrightarrow> r \<in> set (db_records db) \<and> mr_id r = m"
  by (auto simp: find_row_def find_Some_iff)

lemma find_row_None: "find_row db m = None \<longleftrightarrow> m \<notin> mr_id ` set (db_records db)"
  by (auto simp: find_row_def find_None_iff)

lemma find_distinct: "distinct (map f xs) \<Longrightarrow> x \<in> set xs \<Longrightarrow> find (\<lambda>y. f y = f x) xs = Some x"
  by (induction xs) (auto simp: image_iff)

lemma find_row_mem: "distinct (map mr_id (db_records db)) \<Longrightarrow> r \<in> set (db_records db) \<Longrightarrow> find_row db (mr_id r) = Some r"
  unfolding find_row_def by (rule find_distinct)

lemma find_row_other [simp]:
  "find_row (db\<lparr>db_audit := a\<rparr>) = find_row db" "find_row (db\<lparr>db_stage := s\<rparr>) = find_row db"
  "find_row (db\<lparr>db_promotions := p\<rparr>) = find_row db"
  by (simp_all add: find_row_def fun_eq_iff)

lemma find_row_append:
  "find_row db (mr_id row) = None \<Longrightarrow> find_row (db\<lparr>db_records := db_records db @ [row]\<rparr>) = (find_row db)(mr_id row \<mapsto> row)"
  by (auto simp: find_row_def fun_eq_iff find_append split: option.split)

lemma find_map_rows:
  "(\<And>r. mr_id (f r) = mr_id r) \<Longrightarrow>
   find (\<lambda>r. mr_id r = m) (map (\<lambda>r. if mr_id r = k then f r else r) rows)
     = map_option (\<lambda>r. if m = k then f r else r) (find (\<lambda>r. mr_id r = m) rows)"
  by (induction rows) auto

lemma find_row_update:
  "(\<And>r. mr_id (f r) = mr_id r) \<Longrightarrow>
   find_row (update_row k f db) m = (if m = k then map_option f (find_row db m) else find_row db m)"
  by (simp add: find_row_def update_row_def find_map_rows option.map_ident)

lemma update_row_ids: "(\<And>r. mr_id (f r) = mr_id r) \<Longrightarrow> map mr_id (db_records (update_row k f db)) = map mr_id (db_records db)"
  by (simp add: update_row_def)

lemma finite_find_row: "finite (dom (find_row db))"
  by (rule finite_subset [of _ "mr_id ` set (db_records db)"]) (auto dest: find_row_Some)

section \<open>The invariant\<close>

definition parents :: "MemoryRow \<Rightarrow> string set" where
  "parents r = set_option (mr_supersedes r) \<union> set (mr_derived_from r)"

definition row_sound :: "(string \<Rightarrow> MemoryRow option) \<Rightarrow> MemoryRow \<Rightarrow> bool" where
  "row_sound rows r =
     ((is_quarantined (mr_status r) \<longrightarrow> mr_ever_quarantined r)
      \<and> (mr_ever_quarantined r \<longrightarrow> mr_trust r \<le> AgentObserved)
      \<and> (\<forall>p \<in> parents r. \<exists>pr. rows p = Some pr \<and> (mr_ever_quarantined pr \<longrightarrow> mr_ever_quarantined r)
            \<and> (mr_supersedes r = Some p \<longrightarrow> mr_scope pr = mr_scope r)))"

definition db_sound :: "RealmDb \<Rightarrow> bool" where
  "db_sound db = (distinct (map mr_id (db_records db)) \<and> (\<forall>m r. find_row db m = Some r \<longrightarrow> row_sound (find_row db) r))"

lemma db_sound_other [simp]:
  "db_sound (db\<lparr>db_audit := a\<rparr>) = db_sound db" "db_sound (db\<lparr>db_stage := s\<rparr>) = db_sound db"
  "db_sound (db\<lparr>db_promotions := p\<rparr>) = db_sound db"
  by (simp_all add: db_sound_def)

lemma ancestors_reach_quarantine_iff:
  assumes "db_sound db"
  shows "ancestors_reach_quarantine db as \<longleftrightarrow> (\<exists>a \<in> set as. \<exists>r. find_row db a = Some r \<and> mr_ever_quarantined r)"
proof
  assume "ancestors_reach_quarantine db as"
  then obtain r where r: "r \<in> set (db_records db)" "mr_id r \<in> set as" "mr_ever_quarantined r \<or> is_quarantined (mr_status r)"
    by (auto simp: ancestors_reach_quarantine_def list_ex_iff)
  then have "find_row db (mr_id r) = Some r" using assms find_row_mem by (auto simp: db_sound_def)
  moreover from this have "mr_ever_quarantined r" using assms r(3) by (auto simp: db_sound_def row_sound_def)
  ultimately show "\<exists>a \<in> set as. \<exists>r. find_row db a = Some r \<and> mr_ever_quarantined r" using r(2) by blast
next
  assume "\<exists>a \<in> set as. \<exists>r. find_row db a = Some r \<and> mr_ever_quarantined r"
  then show "ancestors_reach_quarantine db as"
    using find_row_Some by (fastforce simp: ancestors_reach_quarantine_def list_ex_iff)
qed

text \<open>Adding a fresh row, and changing a row in place.\<close>

lemma db_sound_append:
  assumes "db_sound db" "find_row db (mr_id row) = None"
    and "row_sound (find_row db) row"
  shows "db_sound (db\<lparr>db_records := db_records db @ [row]\<rparr>)"
proof -
  have d: "distinct (map mr_id (db_records db @ [row]))"
    using assms(1,2) by (auto simp: db_sound_def find_row_None)
  have mono: "row_sound ((find_row db)(mr_id row \<mapsto> row)) r" if "row_sound (find_row db) r" for r
    using that assms(2) by (auto simp: row_sound_def)
  show ?thesis
    using assms d mono by (auto simp: db_sound_def find_row_append split: if_splits)
qed

text \<open>Changes of a row in place that keep what the lineage is made of.\<close>

definition keeps_lineage :: "(MemoryRow \<Rightarrow> MemoryRow) \<Rightarrow> bool" where
  "keeps_lineage f = (\<forall>r. mr_id (f r) = mr_id r \<and> mr_supersedes (f r) = mr_supersedes r \<and> mr_derived_from (f r) = mr_derived_from r
     \<and> mr_scope (f r) = mr_scope r \<and> mr_ever_quarantined (f r) = mr_ever_quarantined r)"

lemma keeps_lineageD:
  assumes "keeps_lineage f"
  shows "mr_id (f r) = mr_id r" "mr_supersedes (f r) = mr_supersedes r" "mr_scope (f r) = mr_scope r" "parents (f r) = parents r"
    "mr_ever_quarantined (f r) = mr_ever_quarantined r"
  using assms by (simp_all add: keeps_lineage_def parents_def)

lemma find_row_keeps:
  "keeps_lineage f \<Longrightarrow> find_row (update_row k f db) m = (if m = k then map_option f (find_row db m) else find_row db m)"
  by (simp add: find_row_update keeps_lineageD)

lemma db_sound_update:
  assumes "db_sound db" and f: "keeps_lineage f"
    and new: "\<And>r. find_row db k = Some r \<Longrightarrow> is_quarantined (mr_status (f r)) \<longrightarrow> is_quarantined (mr_status r)"
      "\<And>r. find_row db k = Some r \<Longrightarrow> mr_ever_quarantined r \<longrightarrow> mr_trust (f r) \<le> AgentObserved"
  shows "db_sound (update_row k f db)"
proof -
  note f' = keeps_lineageD [OF f]
  have "row_sound (find_row (update_row k f db)) r" if found: "find_row (update_row k f db) m = Some r" for m r
  proof -
    obtain r0 where r0: "find_row db m = Some r0" "r = (if m = k then f r0 else r0)"
      using found by (cases "m = k") (auto simp: find_row_keeps [OF f])
    have s: "row_sound (find_row db) r0" using assms(1) r0(1) by (auto simp: db_sound_def)
    have par: "\<exists>pr. find_row (update_row k f db) p = Some pr \<and> (mr_ever_quarantined pr \<longrightarrow> mr_ever_quarantined r0)
        \<and> (mr_supersedes r0 = Some p \<longrightarrow> mr_scope pr = mr_scope r0)" if parent: "p \<in> parents r0" for p
    proof -
      obtain pr where "find_row db p = Some pr" "mr_ever_quarantined pr \<longrightarrow> mr_ever_quarantined r0"
          "mr_supersedes r0 = Some p \<longrightarrow> mr_scope pr = mr_scope r0"
        using s parent unfolding row_sound_def by blast
      then show ?thesis by (auto simp: find_row_keeps [OF f] f')
    qed
    show ?thesis
      unfolding row_sound_def using s par r0 new by (auto simp: row_sound_def f')
  qed
  then show ?thesis using assms(1) by (auto simp: db_sound_def update_row_ids f')
qed

lemma db_sound_retag:
  assumes "db_sound db" "keeps_lineage f"
    and "\<And>r. mr_trust (f r) = mr_trust r" "\<And>r. is_quarantined (mr_status (f r)) \<longrightarrow> is_quarantined (mr_status r)"
  shows "db_sound (update_row k f db)"
  using assms by (intro db_sound_update) (auto simp: db_sound_def row_sound_def)

section \<open>Batches\<close>

definition created_row ::
  "MemoryEnv \<Rightarrow> string \<Rightarrow> MemoryScope \<Rightarrow> NewMemoryRecord \<Rightarrow> TrustTier \<Rightarrow> MemoryAuthor \<Rightarrow> string list \<Rightarrow> string option
   \<Rightarrow> u32 option \<Rightarrow> string option \<Rightarrow> u64 \<Rightarrow> u64 \<Rightarrow> string list \<Rightarrow> bool \<Rightarrow> MemoryRow" where
  "created_row env memory_id scope r trust author derived_from supersedes rank quarantine created_at_ms updated_at_ms tags ever =
     \<lparr>mr_id = memory_id, mr_scope = scope, mr_kind = nr_kind r, mr_title = nr_title r,
      mr_description = nr_description r, mr_body = nr_body r, mr_tags = tags,
      mr_provenance = \<lparr>pv_evidence = nr_evidence r, pv_author = author, pv_profile = None, pv_verification = nr_verification r\<rparr>,
      mr_trust = trust, mr_status = (case quarantine of Some reason \<Rightarrow> StatusQuarantined reason | None \<Rightarrow> StatusActive),
      mr_supersedes = supersedes, mr_derived_from = derived_from, mr_working_set_rank = rank,
      mr_created_at_ms = created_at_ms, mr_updated_at_ms = updated_at_ms, mr_usage = UsageStats_default,
      mr_ever_quarantined = ever, row_content_hash = content_hash (me_sha256 env) (nr_title r) (nr_body r),
      row_rank_set_at_ms = None, row_tombstoned_at_ms = None\<rparr>"

lemma insert_record_ok:
  "insert_record env db memory_id scope r trust author df spd rank q ca ua = Inr db' \<longleftrightarrow>
   find_row db memory_id = None
   \<and> (\<exists>tags. normalize_tags (nr_tags r) = Inr tags
       \<and> db' = db\<lparr>db_records := db_records db @ [created_row env memory_id scope r trust author df spd rank q ca ua tags
            (q \<noteq> None \<or> ancestors_reach_quarantine db (df @ (case spd of Some prior \<Rightarrow> [prior] | None \<Rightarrow> [])))]\<rparr>)"
  by (auto simp: insert_record_def created_row_def split: sum.splits)

text \<open>
  How the rows follow the view of the validator. Every record the validator knows has a row, and
  the validator knows of its quarantine, unless the batch itself is quarantined and created it.
\<close>

definition tracks :: "string option \<Rightarrow> string set \<Rightarrow> (string \<Rightarrow> StagedRecordView option) \<Rightarrow> (string \<Rightarrow> MemoryRow option) \<Rightarrow> bool" where
  "tracks q created look rows =
     (\<forall>m v. look m = Some v \<longrightarrow>
       (\<exists>r. rows m = Some r \<and> (mr_ever_quarantined r \<longrightarrow> rv_ever_quarantined v \<or> q \<noteq> None \<and> m \<in> created)))"

lemma tracksD:
  assumes "tracks q created look rows" "look m = Some v"
  obtains r where "rows m = Some r" "mr_ever_quarantined r \<longrightarrow> rv_ever_quarantined v \<or> q \<noteq> None \<and> m \<in> created"
proof -
  have "\<exists>r. rows m = Some r \<and> (mr_ever_quarantined r \<longrightarrow> rv_ever_quarantined v \<or> q \<noteq> None \<and> m \<in> created)"
    using assms by (simp add: tracks_def)
  then show thesis using that by blast
qed

lemma tracks_initial: "tracks q created (bv_record (conn_view db)) (find_row db)"
  by (auto simp: tracks_def conn_view_def row_view_def)

lemma tracks_view_upd:
  "tracks q created look rows \<Longrightarrow> rows m = Some r
   \<Longrightarrow> (mr_ever_quarantined r \<longrightarrow> rv_ever_quarantined v \<or> q \<noteq> None \<and> m \<in> created) \<Longrightarrow> tracks q created (look(m \<mapsto> v)) rows"
  by (auto simp: tracks_def)

lemma tracks_fresh_row:
  "tracks q created look rows \<Longrightarrow> rows m = None \<Longrightarrow> tracks q created look (rows(m \<mapsto> r))"
  unfolding tracks_def by (metis fun_upd_apply option.distinct(1))

lemma tracks_row_upd:
  assumes "tracks q created look (find_row db)" "keeps_lineage f"
  shows "tracks q created look (find_row (update_row k f db))"
  unfolding tracks_def
proof (intro allI impI)
  fix m v assume "look m = Some v"
  then obtain r where "find_row db m = Some r" "mr_ever_quarantined r \<longrightarrow> rv_ever_quarantined v \<or> q \<noteq> None \<and> m \<in> created"
    using assms(1) unfolding tracks_def by blast
  then show "\<exists>r. find_row (update_row k f db) m = Some r \<and> (mr_ever_quarantined r \<longrightarrow> rv_ever_quarantined v \<or> q \<noteq> None \<and> m \<in> created)"
    using assms(2) by (auto simp: find_row_keeps keeps_lineageD)
qed

fun creates :: "StagedOp \<Rightarrow> string set" where
  "creates (OpCreate mid _ _ _ _ _ _ _) = set_option mid"
| "creates (OpSupersede mid _ _ _ _ _) = set_option mid"
| "creates _ = {}"

fun endorses :: "StagedOp \<Rightarrow> string set" where
  "endorses (OpRetier mid trust _) = (if AgentObserved < trust then {mid} else {})"
| "endorses _ = {}"

text \<open>A batch that raises above \<open>agent_observed\<close> only records it did not create.\<close>

definition endorses_only_others :: "StagedMutationBatch \<Rightarrow> bool" where
  "endorses_only_others batch = ((\<Union>op \<in> set (sb_ops batch). creates op) \<inter> (\<Union>op \<in> set (sb_ops batch). endorses op) = {})"

text \<open>A row created under the validator's view: its soundness, and what the view knows of it.\<close>

lemma inserted_row:
  assumes sound: "db_sound db" and tr: "tracks q created look (find_row db)"
    and known: "\<forall>p \<in> set df \<union> set_option spd. look p \<noteq> None"
    and trust: "q \<noteq> None \<Longrightarrow> trust \<le> AgentObserved" "reaches_taint look (set df \<union> set_option spd) \<Longrightarrow> trust \<le> AgentObserved"
    and scope: "\<And>prior. spd = Some prior \<Longrightarrow> \<exists>pr. find_row db prior = Some pr \<and> mr_scope pr = scope"
    and ins: "insert_record env db mid scope r trust author df spd rank q ca ua = Inr db'"
  shows "\<exists>row. db' = db\<lparr>db_records := db_records db @ [row]\<rparr> \<and> mr_id row = mid \<and> find_row db mid = None \<and> db_sound db'
    \<and> (q = None \<longrightarrow> mr_ever_quarantined row \<longrightarrow> reaches_taint look (set df \<union> set_option spd))"
proof -
  let ?ps = "df @ (case spd of Some prior \<Rightarrow> [prior] | None \<Rightarrow> [])"
  have ps: "set ?ps = set df \<union> set_option spd" by (cases spd) auto
  obtain tags where db': "find_row db mid = None"
    "db' = db\<lparr>db_records := db_records db @ [created_row env mid scope r trust author df spd rank q ca ua tags
            (q \<noteq> None \<or> ancestors_reach_quarantine db ?ps)]\<rparr>"
    using ins unfolding insert_record_ok by blast
  let ?row = "created_row env mid scope r trust author df spd rank q ca ua tags (q \<noteq> None \<or> ancestors_reach_quarantine db ?ps)"
  have row: "mr_id ?row = mid" "mr_trust ?row = trust" "mr_supersedes ?row = spd" "mr_scope ?row = scope" "parents ?row = set df \<union> set_option spd"
    "mr_ever_quarantined ?row = (q \<noteq> None \<or> ancestors_reach_quarantine db ?ps)" "is_quarantined (mr_status ?row) = (q \<noteq> None)"
    by (auto simp: created_row_def parents_def split: option.split)
  have reach: "reaches_taint look (set df \<union> set_option spd)" if silent: "q = None" and anc: "ancestors_reach_quarantine db ?ps"
  proof -
    obtain p pr where p: "p \<in> set df \<union> set_option spd" "find_row db p = Some pr" "mr_ever_quarantined pr"
      using anc unfolding ancestors_reach_quarantine_iff [OF sound] ps by blast
    obtain v where v: "look p = Some v" using known p(1) by blast
    then have "rv_ever_quarantined v" using tr p(2,3) silent by (fastforce simp: tracks_def)
    then have "tainted_id look p" using v by (simp add: tainted_id_def carries_taint_def)
    then show ?thesis using p(1) by (rule reaches_taint_self)
  qed
  have "row_sound (find_row db) ?row"
    unfolding row_sound_def row
  proof (intro conjI impI ballI)
    assume "q \<noteq> None \<or> ancestors_reach_quarantine db ?ps"
    then show "trust \<le> AgentObserved" using trust reach by blast
  next
    fix p assume p: "p \<in> set df \<union> set_option spd"
    then obtain v where "look p = Some v" using known by blast
    then obtain pr where "find_row db p = Some pr" by (rule tracksD [OF tr])
    moreover have "spd = Some p \<longrightarrow> mr_scope pr = scope" using scope calculation by auto
    ultimately show "\<exists>pr. find_row db p = Some pr \<and> (mr_ever_quarantined pr \<longrightarrow> q \<noteq> None \<or> ancestors_reach_quarantine db ?ps)
        \<and> (spd = Some p \<longrightarrow> mr_scope pr = scope)"
      using p unfolding ancestors_reach_quarantine_iff [OF sound] ps by blast
  qed simp
  then have "db_sound db'" unfolding db'(2) using db'(1) by (intro db_sound_append sound) (simp_all only: row)
  then show ?thesis using db' row reach by (intro exI [of _ ?row]) auto
qed

lemma lookup_put: "lookup_record view (put mid v overlay) = put mid v (lookup_record view overlay)"
  by (cases mid) (simp_all add: put_def lookup_upd)

lemma llm_tier: "is_llm (sb_author batch) \<Longrightarrow> tier_allowed batch trust False \<Longrightarrow> trust \<le> AgentObserved"
  by (auto simp: tier_allowed_def not_less)

lemma map_sum_Inr_iff: "map_sum id f r = Inr y \<longleftrightarrow> (\<exists>x. r = Inr x \<and> y = f x)"
  by (cases r) auto

lemma tracks_created:
  assumes "tracks q created look rows" "rows (unwrap_or mid minted) = None" "set_option mid \<subseteq> created"
    and "q = None \<longrightarrow> mr_ever_quarantined row \<longrightarrow> rv_ever_quarantined v"
  shows "tracks q created (put mid v look) (rows(unwrap_or mid minted \<mapsto> row))"
proof (cases mid)
  case None
  then show ?thesis using tracks_fresh_row [OF assms(1,2)] by (simp add: put_def)
next
  case (Some k)
  have "tracks q created (look(k \<mapsto> v)) (rows(k \<mapsto> row))"
    using assms Some by (intro tracks_view_upd [of _ _ _ _ k row] tracks_fresh_row) (auto simp: unwrap_or_def)
  then show ?thesis using Some by (simp add: put_def unwrap_or_def)
qed

lemma apply_op_sound:
  assumes val: "validate_op sha view window now batch i (overlay, tombs) op = Some (Inr (overlay', tombs'))"
    and fin: "finite (dom (lookup_record view overlay))"
    and sound: "db_sound db" and tr: "tracks q created (lookup_record view overlay) (find_row db)"
    and llm: "q \<noteq> None \<longrightarrow> is_llm (sb_author batch)"
    and cr: "creates op \<subseteq> created" and en: "q \<noteq> None \<longrightarrow> endorses op \<inter> created = {}"
    and app: "apply_op env tick db batch op q t = Inr (memory_id, db')"
  shows "db_sound db' \<and> tracks q created (lookup_record view overlay') (find_row db')"
proof -
  let ?look = "lookup_record view overlay"
  note chain = chain_reaches_taint_correct [OF fin]
  show ?thesis
  proof (cases op)
    case (OpCreate mid scope r trust df rat ca ua)
    from val OpCreate have ok: "tier_allowed batch trust False" "\<forall>s \<in> set df. ?look s \<noteq> None" "reaches_taint ?look (set df) \<longrightarrow> trust \<le> AgentObserved"
      and o': "overlay' = put mid (created_view sha scope r trust None df (reaches_taint ?look (set df))) overlay"
      by (auto simp: validate_op_ok chain)
    let ?id = "unwrap_or mid (me_new_memory_id env tick (nr_title r) (nr_body r))"
    from app OpCreate have "insert_record env db ?id scope r trust (sb_author batch) df None None q (unwrap_or ca t) (unwrap_or ua t) = Inr db'"
      by (auto simp: Let_def map_sum_Inr_iff)
    from inserted_row [OF sound tr _ _ _ _ this] obtain row where row: "db' = db\<lparr>db_records := db_records db @ [row]\<rparr>" "mr_id row = ?id"
      "find_row db ?id = None" "db_sound db'" "q = None \<longrightarrow> mr_ever_quarantined row \<longrightarrow> reaches_taint ?look (set df)"
      using ok llm_tier llm by auto
    then show ?thesis
      unfolding o' lookup_put using tracks_created [OF tr row(3)] cr OpCreate find_row_append [of db row]
      by (simp add: created_view_def)
  next
    case (OpSupersede mid prior r trust df rat)
    from val OpSupersede obtain pv where ok: "tier_allowed batch trust False" "\<forall>s \<in> set df. ?look s \<noteq> None" "?look prior = Some pv"
        "reaches_taint ?look (insert prior (set df)) \<longrightarrow> trust \<le> AgentObserved"
      and o': "overlay' = put mid (created_view sha (rv_scope pv) r trust (Some prior) df (reaches_taint ?look (insert prior (set df))))
                 (overlay(prior \<mapsto> pv\<lparr>rv_status := StatusSuperseded (unwrap_or mid ''<pending>'')\<rparr>))"
      by (auto simp: validate_op_ok chain)
    let ?id = "unwrap_or mid (me_new_memory_id env tick (nr_title r) (nr_body r))"
    from app OpSupersede obtain prow db1 where prow: "find_row db prior = Some prow"
      and ins: "insert_record env db ?id (mr_scope prow) r trust (sb_author batch) df (Some prior) (mr_working_set_rank prow) q t t = Inr db1"
      and db': "db' = (if q = None then update_row prior (\<lambda>row. row\<lparr>mr_status := StatusSuperseded ?id, mr_updated_at_ms := t\<rparr>) db1 else db1)"
      by (auto simp: Let_def split: option.splits sum.splits)
    from inserted_row [OF sound tr _ _ _ _ ins] obtain row where row: "db1 = db\<lparr>db_records := db_records db @ [row]\<rparr>" "mr_id row = ?id"
      "find_row db ?id = None" "db_sound db1" "q = None \<longrightarrow> mr_ever_quarantined row \<longrightarrow> reaches_taint ?look (insert prior (set df))"
      using ok llm_tier llm prow by (auto simp: insert_commute)
    let ?look1 = "?look(prior \<mapsto> pv\<lparr>rv_status := StatusSuperseded (unwrap_or mid ''<pending>'')\<rparr>)"
    have "tracks q created ?look1 (find_row db)"
      using tr ok(3) prow by (intro tracks_view_upd) (fastforce simp: tracks_def)+
    from tracks_created [OF this, of mid "me_new_memory_id env tick (nr_title r) (nr_body r)" row]
    have t1: "tracks q created (lookup_record view overlay') (find_row db1)"
      unfolding o' lookup_put lookup_upd using row cr OpSupersede find_row_append [of db row]
      by (simp add: created_view_def)
    show ?thesis
      using row(4) t1 unfolding db' by (auto intro!: db_sound_retag tracks_row_upd simp: keeps_lineage_def)
  next
    case (OpTombstone mid rat)
    from val OpTombstone obtain v where v: "?look mid = Some v"
      and o': "overlay' = overlay(mid \<mapsto> v\<lparr>rv_status := StatusTombstoned, rv_ever_quarantined := rv_ever_quarantined v \<or> is_quarantined (rv_status v)\<rparr>)"
      by (auto simp: validate_op_ok)
    obtain r where "find_row db mid = Some r" "mr_ever_quarantined r \<longrightarrow> rv_ever_quarantined v \<or> q \<noteq> None \<and> mid \<in> created"
      by (rule tracksD [OF tr v])
    then have "tracks q created (lookup_record view overlay') (find_row db)"
      unfolding o' lookup_upd using tr by (auto intro!: tracks_view_upd)
    then show ?thesis
      using app sound unfolding OpTombstone by (auto intro!: db_sound_retag tracks_row_upd simp: keeps_lineage_def)
  next
    case (OpRetier mid trust rat)
    from val OpRetier obtain v where v: "?look mid = Some v" "AgentObserved < trust \<longrightarrow> \<not> reaches_taint ?look {mid}"
      and o': "overlay' = overlay(mid \<mapsto> v\<lparr>rv_trust := trust\<rparr>)"
      by (auto simp: validate_op_ok chain)
    obtain r where r: "find_row db mid = Some r" "mr_ever_quarantined r \<longrightarrow> rv_ever_quarantined v \<or> q \<noteq> None \<and> mid \<in> created"
      by (rule tracksD [OF tr v(1)])
    have cap: "trust \<le> AgentObserved" if ever: "mr_ever_quarantined r"
    proof (rule ccontr)
      assume "\<not> trust \<le> AgentObserved"
      then have above: "AgentObserved < trust" by simp
      then have "\<not> rv_ever_quarantined v"
        using v reaches_taint_self [of ?look mid "{mid}"] by (auto simp: tainted_id_def carries_taint_def)
      then show False using r(2) ever en above OpRetier by auto
    qed
    have "tracks q created (lookup_record view overlay') (find_row db)"
      unfolding o' lookup_upd using tr r by (auto intro!: tracks_view_upd)
    then show ?thesis
      using app sound r cap unfolding OpRetier by (auto intro!: db_sound_update tracks_row_upd simp: keeps_lineage_def)
  next
    case (OpSetRank mid rank)
    then show ?thesis
      using app sound tr val
      by (auto intro!: db_sound_retag tracks_row_upd simp: keeps_lineage_def validate_op_ok)
  qed
qed

lemma apply_ops_sound:
  assumes "apply_ops env tick i db batch ops q token t review = Inr (ids, db')"
    and "validate_ops sha view window now batch i (overlay, tombs) ops = Some (Inr st')"
    and "finite (dom (bv_record view))" "finite (dom overlay)"
    and "db_sound db" "tracks q created (lookup_record view overlay) (find_row db)"
    and "q \<noteq> None \<longrightarrow> is_llm (sb_author batch)"
    and "(\<Union>op \<in> set ops. creates op) \<subseteq> created" "q \<noteq> None \<longrightarrow> (\<Union>op \<in> set ops. endorses op) \<inter> created = {}"
  shows "db_sound db'"
  using assms
proof (induction ops arbitrary: i db overlay tombs ids)
  case (Cons op ops)
  from Cons.prems(1) obtain mid db1 ids1 where app: "apply_op env (tick + i) db batch op q t = Inr (mid, db1)"
    and rest: "apply_ops env tick (Suc i) (db1\<lparr>db_audit := db_audit db1 @ [\<lparr>ad_stage_token = token, ad_op_index = i, ad_op_kind = op_kind_str op,
                ad_memory_id = mid, ad_author = sb_author batch, ad_rationale = op_rationale op, ad_quarantined = q,
                ad_review = review, ad_applied_at_ms = t\<rparr>]\<rparr>) batch ops q token t review = Inr (ids1, db')"
    by (auto simp: Let_def map_sum_Inr_iff split: sum.splits)
  obtain overlay1 tombs1 where val: "validate_op sha view window now batch i (overlay, tombs) op = Some (Inr (overlay1, tombs1))"
    "validate_ops sha view window now batch (Suc i) (overlay1, tombs1) ops = Some (Inr st')"
    using Cons.prems(2) unfolding validate_ops_Cons_ok by auto
  have "db_sound db1 \<and> tracks q created (lookup_record view overlay1) (find_row db1)"
    using Cons.prems(3-9) by (intro apply_op_sound [OF val(1) _ _ _ _ _ _ app]) (auto simp: finite_lookup)
  moreover have "finite (dom overlay1)" using validate_op_finite [OF val(1)] Cons.prems(4) by simp
  ultimately show ?case using Cons.prems(3,7-9) by (intro Cons.IH [OF rest val(2)]) auto
qed simp

lemma map_option_Some_iff: "map_option f m = Some y \<longleftrightarrow> (\<exists>x. m = Some x \<and> y = f x)"
  by (cases m) auto

lemma apply_batch_in_tx_ok:
  "apply_batch_in_tx env tick db batch q token now review = Some (Inr (receipt, db')) \<longleftrightarrow>
   validate_batch (me_sha256 env) batch (conn_view db) DEFAULT_TOMBSTONE_RECREATE_WINDOW_MS now = Some (Inr ())
   \<and> (\<exists>ids db1. apply_ops env tick 0 db batch (sb_ops batch) q token now review = Inr (ids, db1)
        \<and> receipt = \<lparr>rc_token = token, rc_applied_ops = length (sb_ops batch), rc_memory_ids = ids\<rparr>
        \<and> db' = db1\<lparr>db_stage := filter (\<lambda>s. sg_token s \<noteq> token) (db_stage db1)\<rparr>)"
proof (cases "validate_batch (me_sha256 env) batch (conn_view db) DEFAULT_TOMBSTONE_RECREATE_WINDOW_MS now")
  case (Some verdict)
  then show ?thesis
    by (cases verdict; cases "apply_ops env tick 0 db batch (sb_ops batch) q token now review") (auto simp: apply_batch_in_tx_def)
qed (simp add: apply_batch_in_tx_def)

lemma apply_batch_sound:
  assumes "apply_batch_in_tx env tick db batch q token now review = Some (Inr (receipt, db'))" "db_sound db"
    and "q \<noteq> None \<longrightarrow> is_llm (sb_author batch) \<and> endorses_only_others batch"
  shows "db_sound db'"
proof -
  obtain ids db1 st' where app: "apply_ops env tick 0 db batch (sb_ops batch) q token now review = Inr (ids, db1)"
    and db': "db' = db1\<lparr>db_stage := filter (\<lambda>s. sg_token s \<noteq> token) (db_stage db1)\<rparr>"
    and val: "validate_ops (me_sha256 env) (conn_view db) DEFAULT_TOMBSTONE_RECREATE_WINDOW_MS now batch 0 (Map.empty, {}) (sb_ops batch) = Some (Inr st')"
    using assms(1) unfolding apply_batch_in_tx_ok validate_batch_ok by blast
  let ?created = "\<Union>op \<in> set (sb_ops batch). creates op"
  have fin: "finite (dom (bv_record (conn_view db)))"
    using finite_find_row [of db] by (rule finite_subset [rotated]) (auto simp: conn_view_def)
  have "tracks q ?created (lookup_record (conn_view db) Map.empty) (find_row db)"
    using tracks_initial by (simp add: lookup_record_map_add)
  then have "db_sound db1"
    using assms(2,3) by (intro apply_ops_sound [OF app val fin]) (auto simp: endorses_only_others_def)
  then show ?thesis by (simp add: db')
qed

lemma insert_record_stage: "insert_record env db mid scope r trust author df spd rank q ca ua = Inr db' \<Longrightarrow> db_stage db' = db_stage db"
  by (auto simp: insert_record_ok)

lemma apply_op_stage:
  assumes "apply_op env tick db batch op q now = Inr (mid, db')"
  shows "db_stage db' = db_stage db"
  using assms insert_record_stage
proof (cases op)
  case (OpSupersede _ prior r trust df rat)
  then show ?thesis using assms
    by (auto simp: Let_def update_row_def split: option.splits sum.splits if_splits dest: insert_record_stage)
qed (auto simp: Let_def map_sum_Inr_iff update_row_def dest: insert_record_stage)

lemma apply_ops_stage: "apply_ops env tick i db batch ops q token now review = Inr (ids, db') \<Longrightarrow> db_stage db' = db_stage db"
proof (induction ops arbitrary: i db ids)
  case (Cons op ops)
  then show ?case by (auto simp: Let_def map_sum_Inr_iff split: sum.splits dest!: apply_op_stage)
qed simp

lemma apply_batch_stage:
  "apply_batch_in_tx env tick db batch q token now review = Some (Inr (receipt, db')) \<Longrightarrow> set (db_stage db') \<subseteq> set (db_stage db)"
  by (auto simp: apply_batch_in_tx_ok dest: apply_ops_stage)

section \<open>Store operations\<close>

text \<open>A store whose gate, where it has one, keeps the law of write gates.\<close>

definition gate_lawful :: "MemoryEnv \<Rightarrow> bool" where
  "gate_lawful env = (\<forall>gate. me_gate env = Some gate \<longrightarrow> write_gate gate)"

lemma gate_verdict_llm: "gate_lawful env \<Longrightarrow> gate_verdict env batch \<noteq> None \<Longrightarrow> is_llm (sb_author batch)"
  by (cases "me_gate env") (auto simp: gate_lawful_def gate_verdict_def dest: write_gate.gated_author_llm)

lemma taint_gate_lawful: "me_gate env = Some (quarantine_reason gate) \<Longrightarrow> gate_lawful env"
  by (simp add: gate_lawful_def taint_gate.write_gate_axioms)

lemma emit_store_event_db [simp]:
  "st_db (emit_store_event e st) = st_db st" "st_tick (emit_store_event e st) = st_tick st"
  by (simp_all add: emit_store_event_def)

lemma batch_quarantine_reason_simps [simp]:
  "fst (batch_quarantine_reason env batch st) = gate_verdict env batch"
  "st_db (snd (batch_quarantine_reason env batch st)) = st_db st"
  "st_tick (snd (batch_quarantine_reason env batch st)) = st_tick st"
  by (simp_all add: batch_quarantine_reason_def split: option.split)

lemma tx_commit_cases:
  assumes "tx_commit env db x st = (r, st')"
  shows "(\<exists>e. r = Inl e) \<and> st_db st' = st_db st \<or> r = Inr x \<and> st_db st' = db"
  using assms by (auto simp: tx_commit_def split: option.splits)

lemma apply_batch_tx_cases:
  assumes "apply_batch_tx env batch token now st = Some (r, st')"
  shows "(\<exists>e. r = Inl e) \<and> st_db st' = st_db st
    \<or> (\<exists>receipt. r = Inr receipt
         \<and> apply_batch_in_tx env (st_tick st) (st_db st) batch (gate_verdict env batch) token now None = Some (Inr (receipt, st_db st')))"
proof -
  obtain st0 where q: "batch_quarantine_reason env batch st = (gate_verdict env batch, st0)"
    and st0: "st_db st0 = st_db st" "st_tick st0 = st_tick st"
    using batch_quarantine_reason_simps [of env batch st] by (metis prod.collapse)
  from assms obtain result where result: "apply_batch_in_tx env (st_tick st) (st_db st) batch (gate_verdict env batch) token now None = Some result"
    "(r, st') = (case result of Inl e \<Rightarrow> (Inl e, st0\<lparr>st_tick := st_tick st + length (sb_ops batch)\<rparr>)
        | Inr (receipt, db) \<Rightarrow> tx_commit env db receipt (st0\<lparr>st_tick := st_tick st + length (sb_ops batch)\<rparr>))"
    by (auto simp: apply_batch_tx_def q st0 map_option_Some_iff)
  show ?thesis
  proof (cases result)
    case (Inr p)
    then show ?thesis using result tx_commit_cases [OF result(2) [unfolded Inr sum.case prod.case_eq_if, symmetric]] st0
      by (cases p) auto
  qed (use result st0 in auto)
qed

definition agent_memory_inv :: "MemoryStore \<Rightarrow> bool" where
  "agent_memory_inv st = (db_sound (st_db st) \<and> (\<forall>row \<in> set (db_stage (st_db st)). endorses_only_others (sg_batch row)))"

lemma agent_memory_inv_cong: "st_db st' = st_db st \<Longrightarrow> agent_memory_inv st' = agent_memory_inv st"
  by (simp add: agent_memory_inv_def)

lemma applied_batch_inv:
  assumes "apply_batch_in_tx env tick db batch (gate_verdict env batch) token now review = Some (Inr (receipt, st_db st'))"
    and "gate_lawful env" "endorses_only_others batch" "db_sound db" "\<forall>row \<in> set (db_stage db). endorses_only_others (sg_batch row)"
  shows "agent_memory_inv st'"
  unfolding agent_memory_inv_def
  using apply_batch_sound [OF assms(1,4)] apply_batch_stage [OF assms(1)] gate_verdict_llm [OF assms(2)] assms(3,5) by blast

lemma apply_batch_tx_inv:
  assumes "apply_batch_tx env batch token now st = Some (r, st')" "gate_lawful env" "endorses_only_others batch" "agent_memory_inv st"
  shows "agent_memory_inv st'"
  using apply_batch_tx_cases [OF assms(1)]
proof
  assume "\<exists>receipt. r = Inr receipt
    \<and> apply_batch_in_tx env (st_tick st) (st_db st) batch (gate_verdict env batch) token now None = Some (Inr (receipt, st_db st'))"
  then show ?thesis using assms(2-4) applied_batch_inv unfolding agent_memory_inv_def by blast
qed (use assms(4) in \<open>auto simp: agent_memory_inv_def\<close>)

text \<open>Direct writes.\<close>

lemma direct_batch_own: "endorses op = {} \<Longrightarrow> endorses_only_others (direct_batch scope author op)"
  by (simp add: endorses_only_others_def direct_batch_def)

lemma receipt_of_write_store [simp]: "snd (receipt_of_write what receipt st) = st"
  by (auto simp: receipt_of_write_def split: list.split option.split)

lemma apply_direct_inv:
  "apply_direct env batch st = Some (r, st') \<Longrightarrow> gate_lawful env \<Longrightarrow> endorses_only_others batch \<Longrightarrow> agent_memory_inv st \<Longrightarrow> agent_memory_inv st'"
  unfolding apply_direct_def by (erule apply_batch_tx_inv) (auto simp: agent_memory_inv_def)

text \<open>Every direct write leaves the store as it was, or is one accepted batch of a single operation.\<close>

definition direct_effect :: "MemoryEnv \<Rightarrow> MemoryStore \<Rightarrow> MemoryStore \<Rightarrow> bool" where
  "direct_effect env st st' = (st' = st \<or> (\<exists>scope author op r. endorses op = {} \<and> apply_direct env (direct_batch scope author op) st = Some (r, st')))"

lemma direct_effect_inv: "direct_effect env st st' \<Longrightarrow> gate_lawful env \<Longrightarrow> agent_memory_inv st \<Longrightarrow> agent_memory_inv st'"
  unfolding direct_effect_def using apply_direct_inv direct_batch_own by blast

lemma forget_effect: "forget_in_scope_blocking env scope mid author st = Some (r, st') \<Longrightarrow> direct_effect env st st'"
  unfolding forget_in_scope_blocking_def direct_effect_def
  by (auto split: if_splits simp: map_option_Some_iff)

lemma write_receipt_effect:
  assumes "map_option (\<lambda>(result, st). case result of Inl e \<Rightarrow> (Inl e, st) | Inr receipt \<Rightarrow> receipt_of_write what receipt st)
      (apply_direct env (direct_batch scope author op) st) = Some (r, st')" "endorses op = {}"
  shows "direct_effect env st st'"
proof -
  obtain result st1 where a: "apply_direct env (direct_batch scope author op) st = Some (result, st1)"
    "(r, st') = (case result of Inl e \<Rightarrow> (Inl e, st1) | Inr receipt \<Rightarrow> receipt_of_write what receipt st1)"
    using assms(1) by (auto simp: map_option_Some_iff)
  have "snd (r, st') = st1" unfolding a(2) by (cases result) simp_all
  then show ?thesis using a(1) assms(2) unfolding direct_effect_def by auto
qed

lemma supersede_effect: "supersede_with_author_blocking env scope prior rec author st = Some (r, st') \<Longrightarrow> direct_effect env st st'"
  unfolding supersede_with_author_blocking_def Let_def
  by (auto split: sum.splits option.splits if_splits elim!: write_receipt_effect simp del: map_option_eq_Some) (auto simp: direct_effect_def)

lemma remember_effect: "remember_authored_blocking env scope rec author st = Some (r, st') \<Longrightarrow> direct_effect env st st'"
  unfolding remember_authored_blocking_def Let_def
  by (auto split: sum.splits option.splits if_splits elim!: write_receipt_effect simp del: map_option_eq_Some) (auto simp: direct_effect_def)

text \<open>Reviews.\<close>

lemma settle_promotions_db:
  "settle_promotions b now ps db = Inr (expired, invalidated, db') \<Longrightarrow>
   db_records db' = db_records db \<and> db_audit db' = db_audit db \<and> set (db_stage db') \<subseteq> set (db_stage db)"
proof (induction ps arbitrary: db expired invalidated)
  case (Cons p ps)
  from Cons.prems obtain x y where "settle_promotions b now ps (expire_promotion_in_tx p now db) = Inr (x, y, db')"
    by (auto simp: Let_def map_sum_Inr_iff split: if_splits)
  from Cons.IH [OF this] show ?case by (auto simp: expire_promotion_in_tx_def)
qed simp

lemma replay_not_applied: "review_replay env db origin decision = Inr (Inr outcome) \<Longrightarrow> \<not> outcome_applied outcome"
proof (cases "recorded_review env db origin")
  case (Inr recorded)
  assume replay: "review_replay env db origin decision = Inr (Inr outcome)"
  show ?thesis
  proof (cases recorded)
    case (Some d)
    then show ?thesis using replay Inr
      by (cases decision; cases "ra_verdict (rd_review d)"; cases "ra_successor (rd_review d)")
        (auto simp: review_replay_def split: sum.splits)
  qed (use replay Inr in \<open>simp add: review_replay_def\<close>)
qed (simp add: review_replay_def)

lemma review_outcome_cases:
  "review_outcome env db request origin decision = Inr (Inr outcome) \<longleftrightarrow>
   (\<exists>o_receipt. review_receipt env db (mr_id origin) = Inr o_receipt
      \<and> (qr_decision request = DecideTombstone \<and> outcome = OutTombstoned o_receipt decision
         \<or> qr_decision request = DecideRelease
           \<and> (\<exists>s_receipt. review_receipt env db (release_successor_id (mr_id origin)) = Inr s_receipt
                \<and> outcome = OutReleased o_receipt s_receipt (mr_supersedes origin) decision)))"
  by (cases "review_receipt env db (mr_id origin)"; cases "review_receipt env db (release_successor_id (mr_id origin))"; cases "qr_decision request")
    (auto simp: review_outcome_def)

lemma apply_reviewE:
  assumes "apply_review env db request origin ops review now st = Some (Inr (Inr outcome), db', st')"
  obtains receipt where
    "apply_batch_in_tx env (Suc (st_tick st)) db (review_batch request ops) (gate_verdict env (review_batch request ops))
       (me_mint_token env (st_tick st) ''review'') now (Some review) = Some (Inr (receipt, db'))"
    "review_outcome env db' request origin
       \<lparr>rd_audit_token = me_mint_token env (st_tick st) ''review'', rd_decided_at_ms = now, rd_review = review\<rparr> = Inr (Inr outcome)"
    "st_db st' = st_db st"
proof -
  obtain st0 where q: "batch_quarantine_reason env (review_batch request ops) st = (gate_verdict env (review_batch request ops), st0)"
    and st0: "st_db st0 = st_db st" "st_tick st0 = st_tick st"
    using batch_quarantine_reason_simps [of env "review_batch request ops" st] by (metis prod.collapse)
  let ?tx = "apply_batch_in_tx env (Suc (st_tick st)) db (review_batch request ops) (gate_verdict env (review_batch request ops))
       (me_mint_token env (st_tick st) ''review'') now (Some review)"
  obtain applied where tx: "?tx = Some applied"
    using assms by (cases ?tx) (simp_all add: apply_review_def q st0)
  have a: "(case applied of Inl e \<Rightarrow> (Inl e, db, st0\<lparr>st_tick := Suc (st_tick st + length ops)\<rparr>)
      | Inr (_, db) \<Rightarrow>
          (review_outcome env db request origin
             \<lparr>rd_audit_token = me_mint_token env (st_tick st) ''review'', rd_decided_at_ms = now, rd_review = review\<rparr>, db,
           st0\<lparr>st_tick := Suc (st_tick st + length ops)\<rparr>)) = (Inr (Inr outcome), db', st')"
    using assms by (simp add: apply_review_def q st0 tx)
  then obtain receipt db1 where "applied = Inr (receipt, db1)" by (cases applied) auto
  then show thesis using a tx st0 by (intro that [of receipt]) auto
qed

lemma review_appliedE:
  assumes "review_in_tx env request now st = Some (Inr (Inr outcome), db', st')" "outcome_applied outcome"
  obtains origin reason expired invalidated db ops where
    "find_row (st_db st) (qr_memory_id request) = Some origin" "mr_scope origin = qr_scope request"
    "row_hash env origin = qr_expected_content_hash request" "mr_status origin = StatusQuarantined reason"
    "settle_promotions (qr_decision request = DecideTombstone \<and> is_operator_reviewer (qr_reviewer request)) now
       (pending_promotions_for (st_db st) (mr_id origin)) (st_db st) = Inr (expired, invalidated, db)"
    "review_ops db request origin = Inr ops"
    "apply_review env db request origin ops (review_audit request origin reason expired invalidated) now st = Some (Inr (Inr outcome), db', st')"
proof -
  from assms(1) obtain origin where o: "find_row (st_db st) (qr_memory_id request) = Some origin" "mr_scope origin = qr_scope request"
    "row_hash env origin = qr_expected_content_hash request"
    by (auto simp: review_in_tx_def Let_def split: option.splits if_splits)
  show thesis
  proof (cases "mr_status origin")
    case (StatusQuarantined reason)
    let ?settled = "settle_promotions (qr_decision request = DecideTombstone \<and> is_operator_reviewer (qr_reviewer request)) now
       (pending_promotions_for (st_db st) (mr_id origin)) (st_db st)"
    have "(case ?settled of Inl refusal \<Rightarrow> Some (Inr (Inl refusal), st_db st, st)
        | Inr (expired, invalidated, db) \<Rightarrow>
           (case review_ops db request origin of Inl refusal \<Rightarrow> Some (Inr (Inl refusal), db, st)
            | Inr ops \<Rightarrow> apply_review env db request origin ops (review_audit request origin reason expired invalidated) now st))
        = Some (Inr (Inr outcome), db', st')"
      using assms(1) o StatusQuarantined by (simp add: review_in_tx_def Let_def)
    then obtain expired invalidated db ops where "?settled = Inr (expired, invalidated, db)" "review_ops db request origin = Inr ops"
      "apply_review env db request origin ops (review_audit request origin reason expired invalidated) now st = Some (Inr (Inr outcome), db', st')"
      by (auto split: sum.splits)
    then show thesis using that o StatusQuarantined by blast
  next
    case StatusTombstoned
    then show thesis using assms o replay_not_applied by (auto simp: review_in_tx_def Let_def)
  qed (use assms(1) o in \<open>auto simp: review_in_tx_def\<close>)
qed

lemma review_ops_own: "review_ops db request origin = Inr ops \<Longrightarrow> endorses_only_others (review_batch request ops)"
  by (auto simp: review_ops_def quarantine_release_ops_def endorses_only_others_def review_batch_def Let_def
      split: QuarantineDecision.splits option.splits if_splits)

lemma review_event_db [simp]: "st_db (review_event request answer st) = st_db st"
  by (auto simp: review_event_def split: sum.splits QuarantineReviewRefusal.splits)

lemma apply_review_store:
  assumes "apply_review env db request origin ops review now st = Some (answer, db', st')"
  shows "st_db st' = st_db st"
proof -
  obtain q st0 where q: "batch_quarantine_reason env (review_batch request ops) st = (q, st0)" by fastforce
  have st0: "st_db st0 = st_db st" using batch_quarantine_reason_simps(2) [of env "review_batch request ops" st] q by simp
  let ?tx = "apply_batch_in_tx env (Suc (st_tick st0)) db (review_batch request ops) q (me_mint_token env (st_tick st0) ''review'') now (Some review)"
  obtain applied where "?tx = Some applied" using assms by (cases ?tx) (simp_all add: apply_review_def q)
  then show ?thesis using assms st0 by (cases applied) (auto simp: apply_review_def q)
qed

lemma review_in_tx_store: "review_in_tx env request now st = Some (answer, db', st') \<Longrightarrow> st_db st' = st_db st"
  by (auto simp: review_in_tx_def Let_def split: option.splits if_splits RecordStatus.splits sum.splits dest: apply_review_store)

lemma review_blocking_cases:
  assumes "review_quarantined_blocking env request st = Some (answer, st')"
  shows "st_db st' = st_db st \<and> (\<forall>outcome. answer = Inr (Inr outcome) \<longrightarrow> \<not> outcome_applied outcome)
    \<or> (\<exists>outcome st1. answer = Inr (Inr outcome) \<and> outcome_applied outcome
        \<and> review_in_tx env request (me_now_ms env (st_tick st)) (st\<lparr>st_tick := Suc (st_tick st)\<rparr>) = Some (Inr (Inr outcome), st_db st', st1))"
proof -
  obtain a db st1 where tx: "review_in_tx env request (me_now_ms env (st_tick st)) (st\<lparr>st_tick := Suc (st_tick st)\<rparr>) = Some (a, db, st1)"
    using assms by (cases "review_in_tx env request (me_now_ms env (st_tick st)) (st\<lparr>st_tick := Suc (st_tick st)\<rparr>)")
      (auto simp: review_quarantined_blocking_def)
  have st1: "st_db st1 = st_db st" using review_in_tx_store [OF tx] by simp
  show ?thesis
  proof (cases "\<exists>outcome. a = Inr (Inr outcome) \<and> outcome_applied outcome")
    case True
    then obtain outcome where a: "a = Inr (Inr outcome)" "outcome_applied outcome" by blast
    obtain r st2 where c: "tx_commit env db (Inr outcome :: QuarantineReviewRefusal + QuarantineReviewOutcome) st1 = (r, st2)" by fastforce
    have res: "answer = r" "st_db st' = st_db st2" using assms a c tx by (auto simp: review_quarantined_blocking_def)
    show ?thesis using tx_commit_cases [OF c] res a tx st1 by auto
  next
    case False
    then have "answer = a \<and> st_db st' = st_db st1"
      using assms tx by (cases a) (auto simp: review_quarantined_blocking_def split: sum.splits)
    then show ?thesis using False st1 by auto
  qed
qed

lemma review_inv:
  assumes "review_quarantined_blocking env request st = Some (answer, st')" "gate_lawful env" "agent_memory_inv st"
  shows "agent_memory_inv st'"
  using review_blocking_cases [OF assms(1)]
proof
  assume "\<exists>outcome st1. answer = Inr (Inr outcome) \<and> outcome_applied outcome
        \<and> review_in_tx env request (me_now_ms env (st_tick st)) (st\<lparr>st_tick := Suc (st_tick st)\<rparr>) = Some (Inr (Inr outcome), st_db st', st1)"
  then obtain outcome st1 where "review_in_tx env request (me_now_ms env (st_tick st)) (st\<lparr>st_tick := Suc (st_tick st)\<rparr>) = Some (Inr (Inr outcome), st_db st', st1)"
    "outcome_applied outcome" by blast
  then obtain b origin expired invalidated db ops review where
    settled: "settle_promotions b (me_now_ms env (st_tick st)) (pending_promotions_for (st_db st) (mr_id origin)) (st_db st) = Inr (expired, invalidated, db)"
    and ops: "review_ops db request origin = Inr ops"
    and app: "apply_review env db request origin ops review (me_now_ms env (st_tick st)) (st\<lparr>st_tick := Suc (st_tick st)\<rparr>) = Some (Inr (Inr outcome), st_db st', st1)"
    by (rule review_appliedE) auto
  obtain receipt where batch: "apply_batch_in_tx env (Suc (Suc (st_tick st))) db (review_batch request ops) (gate_verdict env (review_batch request ops))
       (me_mint_token env (Suc (st_tick st)) ''review'') (me_now_ms env (st_tick st)) (Some review) = Some (Inr (receipt, st_db st'))"
    by (rule apply_reviewE [OF app]) simp
  note s = settle_promotions_db [OF settled]
  have "find_row db = find_row (st_db st)" using s by (simp add: find_row_def fun_eq_iff)
  then have "db_sound db" using assms(3) s by (simp add: agent_memory_inv_def db_sound_def)
  then show ?thesis
    using applied_batch_inv [OF batch assms(2) review_ops_own [OF ops]] assms(3) s by (auto simp: agent_memory_inv_def)
qed (use assms(3) in \<open>auto simp: agent_memory_inv_def\<close>)

lemma stage_inv:
  assumes "stage_blocking env batch st = Some (r, st')" "endorses_only_others batch" "agent_memory_inv st"
  shows "agent_memory_inv st'"
proof -
  let ?v = "validate_batch (me_sha256 env) batch (conn_view (st_db st)) DEFAULT_TOMBSTONE_RECREATE_WINDOW_MS (me_now_ms env (st_tick st))"
  obtain verdict where v: "?v = Some verdict" using assms(1) by (cases ?v) (simp_all add: stage_blocking_def)
  show ?thesis
  proof (cases verdict)
    case (Inr u)
    then show ?thesis using assms v
      by (cases "check_verified_retier_evidence env (st_db st) batch")
        (auto simp: stage_blocking_def agent_memory_inv_def Let_def split: if_splits)
  qed (use assms v in \<open>auto simp: stage_blocking_def agent_memory_inv_def\<close>)
qed

lemma commit_inv:
  assumes "commit_blocking env token st = Some (r, st')" "gate_lawful env" "agent_memory_inv st"
  shows "agent_memory_inv st'"
proof (cases "find (\<lambda>s. sg_token s = token) (db_stage (st_db st))")
  case (Some row)
  then have "endorses_only_others (sg_batch row)" using assms(3) by (auto simp: agent_memory_inv_def find_Some_iff)
  moreover have "agent_memory_inv (st\<lparr>st_tick := Suc (st_tick st)\<rparr>)" using assms(3) by (simp add: agent_memory_inv_def)
  ultimately show ?thesis
    using assms Some apply_batch_tx_inv [OF _ assms(2)] by (auto simp: commit_blocking_def split: sum.splits)
qed (use assms in \<open>simp add: commit_blocking_def\<close>)

section \<open>The store as a state machine\<close>

inductive memory_step :: "MemoryEnv \<Rightarrow> MemoryStore \<Rightarrow> MemoryStore \<Rightarrow> bool" for env where
  step_stage: "stage_blocking env batch st = Some (r, st') \<Longrightarrow> endorses_only_others batch \<Longrightarrow> memory_step env st st'"
| step_commit: "commit_blocking env token st = Some (r, st') \<Longrightarrow> memory_step env st st'"
| step_discard: "memory_step env st (discard_stage token st)"
| step_remember: "remember_authored_blocking env scope rec author st = Some (r, st') \<Longrightarrow> memory_step env st st'"
| step_supersede: "supersede_with_author_blocking env scope prior rec author st = Some (r, st') \<Longrightarrow> memory_step env st st'"
| step_forget: "forget_in_scope_blocking env scope mid author st = Some (r, st') \<Longrightarrow> memory_step env st st'"
| step_review: "review_quarantined_blocking env request st = Some (answer, st') \<Longrightarrow> memory_step env st st'"

definition empty_db :: RealmDb where
  "empty_db = \<lparr>db_records = [], db_audit = [], db_stage = [], db_promotions = []\<rparr>"

definition memory_init :: "MemoryStore \<Rightarrow> bool" where
  "memory_init st = (st_db st = empty_db)"

lemma memory_step_inv: "memory_step env st st' \<Longrightarrow> gate_lawful env \<Longrightarrow> agent_memory_inv st \<Longrightarrow> agent_memory_inv st'"
proof (induction rule: memory_step.induct)
  case (step_discard st token)
  then show ?case by (simp add: discard_stage_def agent_memory_inv_def)
qed (auto intro: stage_inv commit_inv review_inv direct_effect_inv remember_effect supersede_effect forget_effect)

lemma memory_init_inv: "memory_init st \<Longrightarrow> agent_memory_inv st"
  by (simp add: memory_init_def agent_memory_inv_def db_sound_def empty_db_def find_row_def)

text \<open>The steps of a store whose gate obeys its law; the interface of state machines applies to them.\<close>

definition lawful_memory_step :: "MemoryEnv \<Rightarrow> MemoryStore \<Rightarrow> MemoryStore \<Rightarrow> bool" where
  "lawful_memory_step env st st' = (gate_lawful env \<and> memory_step env st st')"

interpretation agent_memory: step_invariant memory_init "lawful_memory_step env" agent_memory_inv for env
  by unfold_locales (auto simp: lawful_memory_step_def intro: memory_init_inv memory_step_inv)

definition row_lineage :: "RealmDb \<Rightarrow> (string \<times> string) set" where
  "row_lineage db = {(a, b). \<exists>r. find_row db a = Some r \<and> b \<in> parents r}"

lemma lineage_inherits:
  assumes "(m, a) \<in> (row_lineage db)\<^sup>*" "db_sound db" "find_row db m = Some r" "find_row db a = Some ar" "mr_ever_quarantined ar"
  shows "mr_ever_quarantined r"
  using assms(1,3)
proof (induction arbitrary: r rule: converse_rtrancl_induct)
  case base
  then show ?case using assms(4,5) by simp
next
  case (step y z)
  then obtain zr where "find_row db z = Some zr" "mr_ever_quarantined zr \<longrightarrow> mr_ever_quarantined r"
    using assms(2) by (fastforce simp: row_lineage_def db_sound_def row_sound_def)
  then show ?case using step.IH by blast
qed

text \<open>
  C13. The provenance ceiling of the record store. In every state reached from an empty store by
  staging, committing and discarding batches, direct writes and quarantine reviews, where the gate
  never gates principals and no batch endorses records it creates itself, a record whose lineage of superseded
  priors and derivation sources reaches a record that is or was quarantined never holds a
  tier above \<open>agent_observed\<close>.
\<close>

theorem quarantine_ceiling_holds:
  assumes "reachable memory_init (lawful_memory_step env) st"
    and "find_row (st_db st) m = Some r" "(m, a) \<in> (row_lineage (st_db st))\<^sup>*" "find_row (st_db st) a = Some ancestor"
    and "mr_ever_quarantined ancestor \<or> is_quarantined (mr_status ancestor)"
  shows "mr_trust r \<le> AgentObserved"
proof -
  have sound: "db_sound (st_db st)" using agent_memory.inv_reachable [OF assms(1)] by (simp add: agent_memory_inv_def)
  have "mr_ever_quarantined ancestor" using sound assms(4,5) by (auto simp: db_sound_def row_sound_def)
  from lineage_inherits [OF assms(3) sound assms(2,4) this] show ?thesis
    using sound assms(2) by (auto simp: db_sound_def row_sound_def)
qed

end
