(* ===== verification/Agent_Memory_Verdicts.thy ===== *)
theory Agent_Memory_Verdicts
  imports Agent_Memory_Provenance
begin

text \<open>
  What a quarantine review does to the store: the exact effect of an applied verdict, what a
  repeated verdict answers, and that an operator can always discard a quarantined record.
\<close>

section \<open>The rows of a verdict\<close>

definition tombstoned_row :: "u64 \<Rightarrow> MemoryRow \<Rightarrow> MemoryRow" where
  "tombstoned_row now r = r\<lparr>mr_status := StatusTombstoned, mr_updated_at_ms := now, row_tombstoned_at_ms := Some now\<rparr>"

definition superseded_row :: "string \<Rightarrow> u64 \<Rightarrow> MemoryRow \<Rightarrow> MemoryRow" where
  "superseded_row successor now r = r\<lparr>mr_status := StatusSuperseded successor, mr_updated_at_ms := now\<rparr>"

text \<open>The successor of a release: the content of the origin, observed, active, derived from the origin and marked.\<close>

definition released_row :: "MemoryEnv \<Rightarrow> QuarantineReviewRequest \<Rightarrow> RealmDb \<Rightarrow> MemoryRow \<Rightarrow> u64 \<Rightarrow> string list \<Rightarrow> MemoryRow" where
  "released_row env request db origin now tags =
     created_row env (release_successor_id (mr_id origin)) (mr_scope origin) (release_copy origin) AgentObserved
       (reviewer_author (qr_reviewer request)) [mr_id origin] (mr_supersedes origin)
       (Option.bind (mr_supersedes origin) (\<lambda>prior. Option.bind (find_row db prior) mr_working_set_rank)) None now now tags True"

lemma successor_fresh_id [simp]: "release_successor_id i \<noteq> i" "i \<noteq> release_successor_id i"
  by (auto simp: release_successor_id_def RELEASE_SUCCESSOR_SUFFIX_def)

lemma verdict_rows_keep: "keeps_lineage (tombstoned_row now)" "keeps_lineage (superseded_row s now)"
  by (simp_all add: keeps_lineage_def tombstoned_row_def superseded_row_def)

lemma reviewer_not_agent: "reviewer_author reviewer \<noteq> AuthorAgent identity"
  by (cases reviewer) simp_all

lemma review_ungated:
  assumes "gate_lawful env" "review_ops db request origin = Inr ops"
  shows "gate_verdict env (review_batch request ops) = None"
proof -
  have ev: "concat (map op_evidence ops) = []"
    using assms(2) by (auto simp: review_ops_def quarantine_release_ops_def release_copy_def Let_def
        split: QuarantineDecision.splits option.splits if_splits)
  have "gate (reviewer_author (qr_reviewer request)) ReviewVerdict [] = None" if "me_gate env = Some gate" for gate
    using assms(1) that by (intro write_gate.spares_reviews reviewer_not_agent) (simp add: gate_lawful_def)
  then show ?thesis by (cases "me_gate env") (simp_all add: gate_verdict_def review_batch_def ev)
qed

section \<open>The effect of a release\<close>

lemma first_op_effect:
  assumes sound: "db_sound db" and origin: "find_row db (mr_id origin) = Some origin" "is_quarantined (mr_status origin)"
    and active: "\<And>prior. mr_supersedes origin = Some prior \<Longrightarrow> \<exists>pr. find_row db prior = Some pr \<and> mr_status pr = StatusActive"
    and app: "apply_op env tick db (review_batch request ops) (hd (quarantine_release_ops origin a b)) None now = Inr (mid, db1)"
  shows "mid = release_successor_id (mr_id origin) \<and> find_row db mid = None \<and> db_audit db1 = db_audit db
    \<and> (\<exists>tags. normalize_tags (mr_tags origin) = Inr tags
        \<and> find_row db1 = (\<lambda>m. if m = mid then Some (released_row env request db origin now tags)
             else if mr_supersedes origin = Some m then map_option (superseded_row mid now) (find_row db m) else find_row db m))"
proof -
  let ?s = "release_successor_id (mr_id origin)"
  let ?ps = "[mr_id origin] @ (case mr_supersedes origin of Some prior \<Rightarrow> [prior] | None \<Rightarrow> [])"
  have ever: "ancestors_reach_quarantine db ?ps"
    unfolding ancestors_reach_quarantine_iff [OF sound] using origin sound by (auto simp: db_sound_def row_sound_def)
  have author: "sb_author (review_batch request ops) = reviewer_author (qr_reviewer request)" by (simp add: review_batch_def)
  have tags: "nr_tags (release_copy origin) = mr_tags origin" by (simp add: release_copy_def)
  show ?thesis
  proof (cases "mr_supersedes origin")
    case None
    have "mid = ?s" and ins: "insert_record env db ?s (mr_scope origin) (release_copy origin) AgentObserved
        (reviewer_author (qr_reviewer request)) [mr_id origin] None None None now now = Inr db1"
      using app by (auto simp: quarantine_release_ops_def None author Let_def map_sum_Inr_iff)
    moreover from ins obtain t where "find_row db ?s = None" "normalize_tags (mr_tags origin) = Inr t"
      "db1 = db\<lparr>db_records := db_records db @ [released_row env request db origin now t]\<rparr>"
      unfolding insert_record_ok tags using ever by (auto simp: None released_row_def)
    moreover have "mr_id (released_row env request db origin now t) = ?s" by (simp add: released_row_def created_row_def)
    ultimately show ?thesis
      using find_row_append [of db "released_row env request db origin now t"] by (auto simp: None fun_eq_iff)
  next
    case (Some prior)
    obtain pr where pr: "find_row db prior = Some pr" "mr_status pr = StatusActive" using active [OF Some] by blast
    have scope: "mr_scope pr = mr_scope origin"
      using sound origin(1) pr(1) Some by (fastforce simp: db_sound_def row_sound_def parents_def)
    obtain db0 where ins: "insert_record env db ?s (mr_scope origin) (release_copy origin) AgentObserved
        (reviewer_author (qr_reviewer request)) [mr_id origin] (Some prior) (mr_working_set_rank pr) None now now = Inr db0"
      and mid: "mid = ?s" and db1: "db1 = update_row prior (superseded_row ?s now) db0"
      using app by (auto simp: quarantine_release_ops_def Some author pr(1) scope Let_def superseded_row_def [abs_def] split: sum.splits)
    from ins obtain t where t: "find_row db ?s = None" "normalize_tags (mr_tags origin) = Inr t"
      "db0 = db\<lparr>db_records := db_records db @ [released_row env request db origin now t]\<rparr>"
      unfolding insert_record_ok tags using ever by (auto simp: Some pr(1) released_row_def)
    have row: "mr_id (released_row env request db origin now t) = ?s" by (simp add: released_row_def created_row_def)
    have rows: "find_row db0 = (find_row db)(?s \<mapsto> released_row env request db origin now t)"
      using find_row_append [of db "released_row env request db origin now t"] t(1,3) row by simp
    have "prior \<noteq> ?s" using pr(1) t(1) by auto
    then have "find_row db1 = (\<lambda>m. if m = ?s then Some (released_row env request db origin now t)
             else if mr_supersedes origin = Some m then map_option (superseded_row ?s now) (find_row db m) else find_row db m)"
      by (auto simp: fun_eq_iff db1 find_row_keeps [OF verdict_rows_keep(2)] rows Some)
    moreover have "db_audit db1 = db_audit db" by (simp add: db1 update_row_def t(3))
    ultimately show ?thesis using mid t(1,2) by auto
  qed
qed

definition review_audit_row :: "QuarantineReviewRequest \<Rightarrow> string \<Rightarrow> u64 \<Rightarrow> ReviewAudit \<Rightarrow> nat \<Rightarrow> StagedOp \<Rightarrow> string \<Rightarrow> AuditRow" where
  "review_audit_row request token now review i op mid =
     \<lparr>ad_stage_token = token, ad_op_index = i, ad_op_kind = op_kind_str op, ad_memory_id = mid,
      ad_author = reviewer_author (qr_reviewer request), ad_rationale = op_rationale op, ad_quarantined = None,
      ad_review = Some review, ad_applied_at_ms = now\<rparr>"

lemma release_effect:
  assumes sound: "db_sound db" and origin: "find_row db (mr_id origin) = Some origin" "is_quarantined (mr_status origin)"
    and active: "\<And>prior. mr_supersedes origin = Some prior \<Longrightarrow> \<exists>pr. find_row db prior = Some pr \<and> mr_status pr = StatusActive"
    and app: "apply_ops env tick 0 db (review_batch request ops) (quarantine_release_ops origin a b) None token now (Some review) = Inr (ids, db')"
  shows "find_row db (release_successor_id (mr_id origin)) = None
    \<and> (\<exists>tags op0 op1. normalize_tags (mr_tags origin) = Inr tags
        \<and> find_row db' = (\<lambda>m. if m = release_successor_id (mr_id origin) then Some (released_row env request db origin now tags)
             else if m = mr_id origin then Some (tombstoned_row now origin)
             else if mr_supersedes origin = Some m then map_option (superseded_row (release_successor_id (mr_id origin)) now) (find_row db m)
             else find_row db m)
        \<and> op_kind_str op0 \<in> {''create'', ''supersede''} \<and> op_kind_str op1 = ''tombstone''
        \<and> db_audit db' = db_audit db @ [review_audit_row request token now review 0 op0 (release_successor_id (mr_id origin)),
             review_audit_row request token now review 1 op1 (mr_id origin)])"
proof -
  obtain op0 where ops: "quarantine_release_ops origin a b = [op0, OpTombstone (mr_id origin) (Some b)]"
    and kind: "op_kind_str op0 \<in> {''create'', ''supersede''}"
    by (simp add: quarantine_release_ops_def Let_def split: option.split)
  let ?op1 = "OpTombstone (mr_id origin) (Some b)"
  let ?s = "release_successor_id (mr_id origin)"
  have author: "sb_author (review_batch request ops) = reviewer_author (qr_reviewer request)" by (simp add: review_batch_def)
  obtain mid db1 where first: "apply_op env tick db (review_batch request ops) op0 None now = Inr (mid, db1)"
    and rest: "db' = update_row (mr_id origin) (tombstoned_row now) db1
      \<lparr>db_audit := (db_audit db1 @ [review_audit_row request token now review 0 op0 mid])
          @ [review_audit_row request token now review 1 ?op1 (mr_id origin)]\<rparr>"
    using app unfolding ops
    by (auto simp: Let_def map_sum_Inr_iff author review_audit_row_def tombstoned_row_def [abs_def] update_row_def split: sum.splits)
  note e = first_op_effect [OF sound origin active, of env tick request ops a b now mid db1, unfolded ops list.sel(1), OF _ first]
  then obtain tags where tags: "normalize_tags (mr_tags origin) = Inr tags"
    "find_row db1 = (\<lambda>m. if m = mid then Some (released_row env request db origin now tags)
       else if mr_supersedes origin = Some m then map_option (superseded_row mid now) (find_row db m) else find_row db m)" by blast
  have mid: "mid = ?s" "find_row db ?s = None" "db_audit db1 = db_audit db" using e by auto
  have "mr_supersedes origin \<noteq> Some (mr_id origin)" using active origin by force
  then have rows: "find_row db' = (\<lambda>m. if m = ?s then Some (released_row env request db origin now tags)
             else if m = mr_id origin then Some (tombstoned_row now origin)
             else if mr_supersedes origin = Some m then map_option (superseded_row ?s now) (find_row db m)
             else find_row db m)"
    by (auto simp: fun_eq_iff rest find_row_keeps [OF verdict_rows_keep(1)] tags(2) mid(1) origin(1))
  show ?thesis
    using tags(1) rows mid kind
    by (intro conjI exI [of _ tags] exI [of _ op0] exI [of _ ?op1]) (simp_all add: rest)
qed

lemma tombstone_effect:
  assumes "apply_ops env tick 0 db (review_batch request ops) [OpTombstone (mr_id origin) rat] None token now (Some review) = Inr (ids, db')"
    and "find_row db (mr_id origin) = Some origin"
  shows "find_row db' = (find_row db)(mr_id origin \<mapsto> tombstoned_row now origin)
    \<and> db_audit db' = db_audit db @ [review_audit_row request token now review 0 (OpTombstone (mr_id origin) rat) (mr_id origin)]"
proof -
  have db': "db' = update_row (mr_id origin) (tombstoned_row now) db
      \<lparr>db_audit := db_audit db @ [review_audit_row request token now review 0 (OpTombstone (mr_id origin) rat) (mr_id origin)]\<rparr>"
    using assms(1) by (auto simp: Let_def review_audit_row_def review_batch_def tombstoned_row_def [abs_def] update_row_def)
  then show ?thesis using assms(2) by (auto simp: fun_eq_iff find_row_keeps [OF verdict_rows_keep(1)])
qed

section \<open>Applied verdicts\<close>

text \<open>What an applied review read, wrote and answered.\<close>

definition verdict_applied ::
  "MemoryEnv \<Rightarrow> QuarantineReviewRequest \<Rightarrow> RealmDb \<Rightarrow> MemoryRow \<Rightarrow> StagedOp list \<Rightarrow> string \<Rightarrow> u64 \<Rightarrow> ReviewAudit
   \<Rightarrow> RealmDb \<Rightarrow> QuarantineReviewOutcome \<Rightarrow> bool" where
  "verdict_applied env request db origin ops token now review db' outcome \<longleftrightarrow>
     find_row db (qr_memory_id request) = Some origin \<and> mr_scope origin = qr_scope request
     \<and> row_hash env origin = qr_expected_content_hash request \<and> is_quarantined (mr_status origin)
     \<and> review_ops db request origin = Inr ops \<and> ra_verdict review = qr_decision request \<and> ra_origin review = mr_id origin
     \<and> ra_successor review = (if qr_decision request = DecideRelease then Some (release_successor_id (mr_id origin)) else None)
     \<and> (\<exists>tick ids db1. apply_ops env tick 0 db (review_batch request ops) ops None token now (Some review) = Inr (ids, db1)
          \<and> find_row db' = find_row db1 \<and> db_audit db' = db_audit db1)
     \<and> review_outcome env db' request origin \<lparr>rd_audit_token = token, rd_decided_at_ms = now, rd_review = review\<rparr> = Inr (Inr outcome)"

lemma review_verdict:
  assumes "review_quarantined_blocking env request st = Some (Inr (Inr outcome), st')" "outcome_applied outcome" "gate_lawful env"
  obtains db origin ops review where
    "verdict_applied env request db origin ops (me_mint_token env (Suc (st_tick st)) ''review'') (me_now_ms env (st_tick st)) review (st_db st') outcome"
    "find_row db = find_row (st_db st)" "map mr_id (db_records db) = map mr_id (db_records (st_db st))" "db_audit db = db_audit (st_db st)"
proof -
  let ?now = "me_now_ms env (st_tick st)" and ?st = "st\<lparr>st_tick := Suc (st_tick st)\<rparr>"
  let ?token = "me_mint_token env (Suc (st_tick st)) ''review''"
  obtain st1 where tx: "review_in_tx env request ?now ?st = Some (Inr (Inr outcome), st_db st', st1)"
    using review_blocking_cases [OF assms(1)] assms(2) by auto
  obtain origin reason expired invalidated db ops where
    o: "find_row (st_db st) (qr_memory_id request) = Some origin" "mr_scope origin = qr_scope request"
      "row_hash env origin = qr_expected_content_hash request" "mr_status origin = StatusQuarantined reason"
    and settled: "settle_promotions (qr_decision request = DecideTombstone \<and> is_operator_reviewer (qr_reviewer request)) ?now
       (pending_promotions_for (st_db st) (mr_id origin)) (st_db st) = Inr (expired, invalidated, db)"
    and ops: "review_ops db request origin = Inr ops"
    and app: "apply_review env db request origin ops (review_audit request origin reason expired invalidated) ?now ?st
      = Some (Inr (Inr outcome), st_db st', st1)"
    by (rule review_appliedE [OF tx assms(2)]) simp
  let ?review = "review_audit request origin reason expired invalidated"
  note settled_db = settle_promotions_db [OF settled]
  then have rows: "find_row db = find_row (st_db st)" by (simp add: find_row_def fun_eq_iff)
  obtain receipt where batch: "apply_batch_in_tx env (Suc (Suc (st_tick st))) db (review_batch request ops) None ?token ?now (Some ?review)
      = Some (Inr (receipt, st_db st'))"
    and out: "review_outcome env (st_db st') request origin \<lparr>rd_audit_token = ?token, rd_decided_at_ms = ?now, rd_review = ?review\<rparr> = Inr (Inr outcome)"
    by (rule apply_reviewE [OF app]) (simp add: review_ungated [OF assms(3) ops])
  have "sb_ops (review_batch request ops) = ops" by (simp add: review_batch_def)
  with batch obtain ids db1 where "apply_ops env (Suc (Suc (st_tick st))) 0 db (review_batch request ops) ops None ?token ?now (Some ?review) = Inr (ids, db1)"
    "find_row (st_db st') = find_row db1" "db_audit (st_db st') = db_audit db1"
    by (auto simp: apply_batch_in_tx_ok)
  moreover have "ra_verdict ?review = qr_decision request" "ra_origin ?review = mr_id origin"
    "ra_successor ?review = (if qr_decision request = DecideRelease then Some (release_successor_id (mr_id origin)) else None)"
    by (simp_all add: review_audit_def)
  ultimately have "verdict_applied env request db origin ops ?token ?now ?review (st_db st') outcome"
    unfolding verdict_applied_def using out o ops rows by auto
  then show thesis using that rows settled_db by simp
qed

lemma review_ops_release:
  assumes "review_ops db request origin = Inr ops" "qr_decision request = DecideRelease"
  shows "\<exists>a b. ops = quarantine_release_ops origin a b"
    and "detect_record_secret (mr_title origin) (mr_description origin) (mr_body origin) (mr_tags origin) = None"
    and "mr_supersedes origin = Some prior \<Longrightarrow> \<exists>pr. find_row db prior = Some pr \<and> mr_status pr = StatusActive"
  using assms by (auto simp: review_ops_def stale_update_refusal_def Let_def split: option.splits if_splits)

lemma review_ops_tombstone:
  "review_ops db request origin = Inr ops \<Longrightarrow> qr_decision request = DecideTombstone \<Longrightarrow> \<exists>rat. ops = [OpTombstone (mr_id origin) rat]"
  by (auto simp: review_ops_def Let_def)

text \<open>The rows after a verdict.\<close>

definition released_rows :: "MemoryEnv \<Rightarrow> QuarantineReviewRequest \<Rightarrow> RealmDb \<Rightarrow> MemoryRow \<Rightarrow> u64 \<Rightarrow> string list \<Rightarrow> string \<Rightarrow> MemoryRow option" where
  "released_rows env request db origin now tags m =
     (if m = release_successor_id (mr_id origin) then Some (released_row env request db origin now tags)
      else if m = mr_id origin then Some (tombstoned_row now origin)
      else if mr_supersedes origin = Some m then map_option (superseded_row (release_successor_id (mr_id origin)) now) (find_row db m)
      else find_row db m)"

lemma released_rows_cong: "find_row db = find_row db' \<Longrightarrow> released_rows env request db origin now tags = released_rows env request db' origin now tags"
  by (simp add: fun_eq_iff released_rows_def released_row_def)

lemma verdict_release:
  assumes v: "verdict_applied env request db origin ops token now review db' outcome" and d: "qr_decision request = DecideRelease" and sound: "db_sound db"
  shows "find_row db (release_successor_id (mr_id origin)) = None
    \<and> detect_record_secret (mr_title origin) (mr_description origin) (mr_body origin) (mr_tags origin) = None
    \<and> (\<exists>tags op0 op1. normalize_tags (mr_tags origin) = Inr tags \<and> find_row db' = released_rows env request db origin now tags
        \<and> op_kind_str op0 \<in> {''create'', ''supersede''} \<and> op_kind_str op1 = ''tombstone''
        \<and> db_audit db' = db_audit db @ [review_audit_row request token now review 0 op0 (release_successor_id (mr_id origin)),
             review_audit_row request token now review 1 op1 (mr_id origin)])"
proof -
  have found: "find_row db (qr_memory_id request) = Some origin" and quarantined: "is_quarantined (mr_status origin)"
    and ro: "review_ops db request origin = Inr ops" using v by (auto simp: verdict_applied_def)
  have origin: "find_row db (mr_id origin) = Some origin" using found find_row_Some [OF found] by simp
  obtain a b where "ops = quarantine_release_ops origin a b" using review_ops_release(1) [OF ro d] by blast
  then obtain tick ids db1 where app: "apply_ops env tick 0 db (review_batch request ops) (quarantine_release_ops origin a b) None token now (Some review) = Inr (ids, db1)"
    and eqs: "find_row db' = find_row db1" "db_audit db' = db_audit db1"
    using v by (auto simp: verdict_applied_def)
  show ?thesis
    using release_effect [OF sound origin quarantined review_ops_release(3) [OF ro d] app] review_ops_release(2) [OF ro d]
    unfolding eqs released_rows_def [abs_def] by blast
qed

lemma verdict_tombstone:
  assumes v: "verdict_applied env request db origin ops token now review db' outcome" and d: "qr_decision request = DecideTombstone"
  shows "find_row db' = (find_row db)(mr_id origin \<mapsto> tombstoned_row now origin)
    \<and> (\<exists>op. op_kind_str op = ''tombstone'' \<and> db_audit db' = db_audit db @ [review_audit_row request token now review 0 op (mr_id origin)])"
proof -
  have found: "find_row db (qr_memory_id request) = Some origin" and ro: "review_ops db request origin = Inr ops"
    using v by (auto simp: verdict_applied_def)
  have origin: "find_row db (mr_id origin) = Some origin" using found find_row_Some [OF found] by simp
  obtain rat where "ops = [OpTombstone (mr_id origin) rat]" using review_ops_tombstone [OF ro d] by blast
  then obtain tick ids db1 where app: "apply_ops env tick 0 db (review_batch request ops) [OpTombstone (mr_id origin) rat] None token now (Some review) = Inr (ids, db1)"
    and eqs: "find_row db' = find_row db1" "db_audit db' = db_audit db1"
    using v by (auto simp: verdict_applied_def)
  show ?thesis unfolding eqs using tombstone_effect [OF app origin] by (intro conjI exI [of _ "OpTombstone (mr_id origin) rat"]) simp_all
qed

section \<open>Repeated verdicts\<close>

lemma hash_of_rows:
  "row_hash env (tombstoned_row now r) = row_hash env r" "row_hash env (released_row env request db r now tags) = row_hash env r"
  "mr_id (tombstoned_row now r) = mr_id r" "mr_scope (tombstoned_row now r) = mr_scope r"
  by (simp_all add: row_hash_def tombstoned_row_def released_row_def created_row_def release_copy_def)

lemma recorded_tombstone:
  assumes "db_audit db = audit @ [review_audit_row request token now review i tomb (mr_id origin)]" "op_kind_str tomb = ''tombstone''"
    and "ra_origin review = mr_id origin" "ra_verdict review = DecideTombstone"
  shows "recorded_review env db origin = Inr (Some \<lparr>rd_audit_token = token, rd_decided_at_ms = now, rd_review = review\<rparr>)"
  using assms by (simp add: recorded_review_def review_audit_row_def)

lemma recorded_release:
  assumes "db_audit db = audit @ [review_audit_row request token now review 0 first_op (release_successor_id (mr_id origin)),
             review_audit_row request token now review 1 tomb (mr_id origin)]"
    and "op_kind_str first_op \<in> {''create'', ''supersede''}" "op_kind_str tomb = ''tombstone''"
    and "ra_origin review = mr_id origin" "ra_verdict review = DecideRelease" "ra_successor review = Some (release_successor_id (mr_id origin))"
    and "token \<notin> ad_stage_token ` set audit"
    and "find_row db (release_successor_id (mr_id origin)) = Some s" "mr_scope s = mr_scope origin" "mr_derived_from s = [mr_id origin]"
      "row_hash env s = row_hash env origin"
  shows "recorded_review env db origin = Inr (Some \<lparr>rd_audit_token = token, rd_decided_at_ms = now, rd_review = review\<rparr>)"
proof -
  have "find (\<lambda>a. ad_stage_token a = token \<and> ad_op_index a = 0) audit = None" using assms(7) by (auto simp: find_None_iff)
  then have "find (\<lambda>a. ad_stage_token a = token \<and> ad_op_index a = 0) (db_audit db)
      = Some (review_audit_row request token now review 0 first_op (release_successor_id (mr_id origin)))"
    unfolding assms(1) by (simp add: find_append review_audit_row_def)
  then have "check_recorded_release env db origin token review = Inr ()"
    using assms(2,6,8-) by (simp add: check_recorded_release_def review_audit_row_def)
  then show ?thesis using assms(1,3-5) by (simp add: recorded_review_def review_audit_row_def)
qed

lemma find_receipt: "find_row db m = Some r \<Longrightarrow> \<exists>receipt. review_receipt env db m = Inr receipt"
  by (simp add: review_receipt_def)

lemma outcome_decision_of: "review_outcome env db request origin decision = Inr (Inr outcome) \<Longrightarrow> outcome_decision outcome = decision"
  by (auto simp: review_outcome_cases)

lemma verdict_replayed:
  assumes v: "verdict_applied env request db origin ops token now review (st_db st) outcome"
    and sound: "db_sound db" and fresh: "token \<notin> ad_stage_token ` set (db_audit db)"
  shows "\<exists>outcome'. review_in_tx env request now' st = Some (Inr (Inr outcome'), st_db st, st)
    \<and> \<not> outcome_applied outcome' \<and> outcome_decision outcome' = outcome_decision outcome"
proof -
  let ?decision = "\<lparr>rd_audit_token = token, rd_decided_at_ms = now, rd_review = review\<rparr>" and ?db = "st_db st"
  let ?t = "tombstoned_row now origin" and ?s = "release_successor_id (mr_id origin)"
  have facts: "find_row db (qr_memory_id request) = Some origin" "mr_scope origin = qr_scope request"
    "row_hash env origin = qr_expected_content_hash request" "ra_verdict review = qr_decision request" "ra_origin review = mr_id origin"
    "ra_successor review = (if qr_decision request = DecideRelease then Some ?s else None)"
    "review_outcome env ?db request origin ?decision = Inr (Inr outcome)"
    using v by (simp_all add: verdict_applied_def)
  have id: "qr_memory_id request = mr_id origin" using find_row_Some [OF facts(1)] by simp
  have same: "outcome_decision outcome = ?decision" by (rule outcome_decision_of [OF facts(7)])
  have "\<exists>outcome'. review_replay env ?db ?t (qr_decision request) = Inr (Inr outcome') \<and> \<not> outcome_applied outcome' \<and> outcome_decision outcome' = ?decision
      \<and> find_row ?db (mr_id origin) = Some ?t"
  proof (cases "qr_decision request")
    case DecideTombstone
    note e = verdict_tombstone [OF v DecideTombstone]
    then obtain op where op: "op_kind_str op = ''tombstone''" "db_audit ?db = db_audit db @ [review_audit_row request token now review 0 op (mr_id origin)]" by blast
    have row: "find_row ?db (mr_id origin) = Some ?t" using e by simp
    have "recorded_review env ?db ?t = Inr (Some ?decision)"
      by (rule recorded_tombstone [where i = 0 and tomb = op and audit = "db_audit db"]) (use op facts DecideTombstone in \<open>simp_all add: hash_of_rows\<close>)
    then show ?thesis
      using facts(4,6) DecideTombstone row find_receipt [OF row, of env] by (auto simp: review_replay_def hash_of_rows)
  next
    case DecideRelease
    obtain tags op0 op1 where e: "find_row ?db = released_rows env request db origin now tags"
        "op_kind_str op0 \<in> {''create'', ''supersede''}" "op_kind_str op1 = ''tombstone''"
        "db_audit ?db = db_audit db @ [review_audit_row request token now review 0 op0 ?s, review_audit_row request token now review 1 op1 (mr_id origin)]"
      using verdict_release [OF v DecideRelease sound] by blast
    have rows: "find_row ?db (mr_id origin) = Some ?t" "find_row ?db ?s = Some (released_row env request db origin now tags)"
      by (simp_all add: e(1) released_rows_def)
    have "recorded_review env ?db ?t = Inr (Some ?decision)"
      by (rule recorded_release [where audit = "db_audit db" and s = "released_row env request db origin now tags" and request = request and first_op = op0 and tomb = op1])
        (use e facts rows fresh DecideRelease in \<open>simp_all add: hash_of_rows\<close>, simp_all add: released_row_def created_row_def)
    then show ?thesis
      using facts(4,6) DecideRelease rows find_receipt [OF rows(1), of env] find_receipt [OF rows(2), of env]
      by (auto simp: review_replay_def hash_of_rows)
  qed
  then obtain outcome' where r: "review_replay env ?db ?t (qr_decision request) = Inr (Inr outcome')" "\<not> outcome_applied outcome'"
    "outcome_decision outcome' = ?decision" "find_row ?db (mr_id origin) = Some ?t" by blast
  have status: "mr_status ?t = StatusTombstoned" by (simp add: tombstoned_row_def)
  have "review_in_tx env request now' st = Some (Inr (Inr outcome'), ?db, st)"
    unfolding review_in_tx_def Let_def id r(4) option.case hash_of_rows facts(2,3) status RecordStatus.case r(1) by simp
  then show ?thesis by (intro exI [of _ outcome']) (simp add: r(2,3) same)
qed

section \<open>Properties\<close>

text \<open>
  C16. An applied review does exactly what its verdict says. It found the record in the
  authorized scope, quarantined, with the content that was reviewed. A tombstone changes that
  row and no other. A release was free of secrets and needed an active prior where the record
  updates one; it tombstones the record, adds the one successor under the derived id (the same
  content at \<open>agent_observed\<close>, active, derived from the record and marked as once quarantined),
  retires the prior, and changes nothing else.
\<close>

theorem review_verdict_exact:
  assumes "reachable memory_init (lawful_memory_step env) st" "gate_lawful env"
    and "review_quarantined_blocking env request st = Some (Inr (Inr outcome), st')" "outcome_applied outcome"
  shows "\<exists>origin. find_row (st_db st) (qr_memory_id request) = Some origin \<and> mr_scope origin = qr_scope request
    \<and> row_hash env origin = qr_expected_content_hash request \<and> is_quarantined (mr_status origin)
    \<and> (case qr_decision request of
         DecideTombstone \<Rightarrow> find_row (st_db st') = (find_row (st_db st))(mr_id origin \<mapsto> tombstoned_row (me_now_ms env (st_tick st)) origin)
       | DecideRelease \<Rightarrow>
           detect_record_secret (mr_title origin) (mr_description origin) (mr_body origin) (mr_tags origin) = None
           \<and> is_none_or (mr_supersedes origin) (\<lambda>prior. is_some_and (find_row (st_db st) prior) (\<lambda>r. mr_status r = StatusActive))
           \<and> find_row (st_db st) (release_successor_id (mr_id origin)) = None
           \<and> (\<exists>tags. normalize_tags (mr_tags origin) = Inr tags
                \<and> find_row (st_db st') = released_rows env request (st_db st) origin (me_now_ms env (st_tick st)) tags))"
proof -
  obtain db origin ops review where
    v: "verdict_applied env request db origin ops (me_mint_token env (Suc (st_tick st)) ''review'') (me_now_ms env (st_tick st)) review (st_db st') outcome"
    and rows: "find_row db = find_row (st_db st)" and ids: "map mr_id (db_records db) = map mr_id (db_records (st_db st))"
    by (rule review_verdict [OF assms(3,4,2)])
  have sound: "db_sound db"
    using agent_memory.inv_reachable [OF assms(1)] rows ids by (simp add: agent_memory_inv_def db_sound_def)
  have facts: "find_row (st_db st) (qr_memory_id request) = Some origin" "mr_scope origin = qr_scope request"
    "row_hash env origin = qr_expected_content_hash request" "is_quarantined (mr_status origin)" "review_ops db request origin = Inr ops"
    using v rows by (simp_all add: verdict_applied_def)
  show ?thesis
  proof (cases "qr_decision request")
    case DecideTombstone
    then show ?thesis using facts verdict_tombstone [OF v DecideTombstone] rows by (intro exI [of _ origin]) simp
  next
    case DecideRelease
    note e = verdict_release [OF v DecideRelease sound]
    have "is_none_or (mr_supersedes origin) (\<lambda>prior. is_some_and (find_row (st_db st) prior) (\<lambda>r. mr_status r = StatusActive))"
      using review_ops_release(3) [OF facts(5) DecideRelease] rows by (cases "mr_supersedes origin") auto
    then show ?thesis
      using facts(1-4) e DecideRelease rows released_rows_cong [OF rows, of env request origin] by (intro exI [of _ origin]) auto
  qed
qed

text \<open>
  C17. A verdict is decided once. Repeating an applied review, at any later time while nothing else
  was written, answers with the decision already recorded, reviewer, time and rationale
  included, and writes nothing. The store relies on audit tokens being minted fresh.
\<close>

theorem repeated_verdict_replays:
  assumes "reachable memory_init (lawful_memory_step env) st" "gate_lawful env"
    and "review_quarantined_blocking env request st = Some (Inr (Inr outcome), st')" "outcome_applied outcome"
    and "me_mint_token env (Suc (st_tick st)) ''review'' \<notin> ad_stage_token ` set (db_audit (st_db st))"
    and "st_db later = st_db st'"
  shows "\<exists>outcome' after. review_quarantined_blocking env request later = Some (Inr (Inr outcome'), after)
    \<and> \<not> outcome_applied outcome' \<and> outcome_decision outcome' = outcome_decision outcome \<and> st_db after = st_db later"
proof -
  obtain db origin ops review where
    v: "verdict_applied env request db origin ops (me_mint_token env (Suc (st_tick st)) ''review'') (me_now_ms env (st_tick st)) review (st_db st') outcome"
    and db: "find_row db = find_row (st_db st)" "map mr_id (db_records db) = map mr_id (db_records (st_db st))" "db_audit db = db_audit (st_db st)"
    by (rule review_verdict [OF assms(3,4,2)])
  have sound: "db_sound db"
    using agent_memory.inv_reachable [OF assms(1)] db by (simp add: agent_memory_inv_def db_sound_def)
  let ?st = "later\<lparr>st_tick := Suc (st_tick later)\<rparr>"
  have v': "verdict_applied env request db origin ops (me_mint_token env (Suc (st_tick st)) ''review'') (me_now_ms env (st_tick st)) review (st_db ?st) outcome"
    using v assms(6) by simp
  obtain outcome' where
    r: "review_in_tx env request (me_now_ms env (st_tick later)) ?st = Some (Inr (Inr outcome'), st_db ?st, ?st)"
    "\<not> outcome_applied outcome'" "outcome_decision outcome' = outcome_decision outcome"
    using verdict_replayed [OF v' sound, of "me_now_ms env (st_tick later)"] assms(5) unfolding db(3) by blast
  then show ?thesis
    by (intro exI [of _ outcome'] exI [of _ ?st]) (simp add: review_quarantined_blocking_def review_event_def)
qed

end
