(* ===== verification/Agent_Memory_Run.thy ===== *)
theory Agent_Memory_Run
  imports Agent_Memory_Verdicts
begin

text \<open>
  Operators and the memory store: a tombstone of quarantined content always goes through; and a
  concrete run of the store, on which the statements about it are applied.
\<close>

section \<open>Operator tombstones\<close>

lemma settle_operator:
  "\<exists>expired invalidated. settle_promotions True now ps db = Inr (expired, invalidated, fold (\<lambda>p. expire_promotion_in_tx p now) ps db)"
proof (induction ps arbitrary: db)
  case (Cons p ps)
  obtain e i where "settle_promotions True now ps (expire_promotion_in_tx p now db) = Inr (e, i, fold (\<lambda>p. expire_promotion_in_tx p now) ps (expire_promotion_in_tx p now db))"
    using Cons.IH by blast
  then show ?case by (simp add: Let_def)
qed simp

lemma expired_promotions:
  "set (db_promotions (fold (\<lambda>p. expire_promotion_in_tx p now) ps db)) \<subseteq>
     {q \<in> set (db_promotions db). pp_status q = ''pending'' \<longrightarrow> pp_pending_id q \<notin> pp_pending_id ` set ps} \<union> {q. pp_status q = ''expired''}"
proof (induction ps arbitrary: db)
  case (Cons p ps)
  have "set (db_promotions (expire_promotion_in_tx p now db)) \<subseteq>
      {q \<in> set (db_promotions db). pp_status q = ''pending'' \<longrightarrow> pp_pending_id q \<noteq> pp_pending_id p} \<union> {q. pp_status q = ''expired''}"
    by (auto simp: expire_promotion_in_tx_def)
  then show ?case using Cons.IH [of "expire_promotion_in_tx p now db"] by (auto 0 3)
qed auto

lemma set_pending_promotions: "set (pending_promotions_for db m) = {p \<in> set (db_promotions db). pp_record_id p = m \<and> pp_status p = ''pending''}"
  by (simp add: pending_promotions_for_def)

lemma no_pending_promotion:
  assumes "db_promotions db' = db_promotions (fold (\<lambda>p. expire_promotion_in_tx p now) (pending_promotions_for db m) db)"
  shows "pending_promotions_for db' m = []"
proof -
  have "q \<notin> set (pending_promotions_for db' m)" for q
    using expired_promotions [of now "pending_promotions_for db m" db] unfolding set_pending_promotions assms by auto
  then show ?thesis by (metis list.set_intros(1) neq_Nil_conv)
qed

lemma expired_stages:
  "db_stage (fold (\<lambda>p. expire_promotion_in_tx p now) ps db) = filter (\<lambda>s. sg_token s \<notin> pp_stage_token ` set ps) (db_stage db)"
  by (induction ps arbitrary: db) (auto simp: expire_promotion_in_tx_def conj_commute intro!: filter_cong)

lemma tombstone_accepted:
  assumes "find_row db (mr_id r) = Some r" "is_quarantined (mr_status r)" "mr_scope r = scope"
  shows "validate_batch sha \<lparr>sb_realm = sc_realm scope, sb_author = AuthorOperator, sb_kind = ReviewVerdict, sb_ops = [OpTombstone (mr_id r) rat]\<rparr>
      (conn_view db) window now = Some (Inr ())"
proof -
  have "mr_status r \<noteq> StatusTombstoned" using assms(2) by auto
  then have "\<exists>st. validate_tombstone (conn_view db) \<lparr>sb_realm = sc_realm scope, sb_author = AuthorOperator, sb_kind = ReviewVerdict,
      sb_ops = [OpTombstone (mr_id r) rat]\<rparr> 0 (Map.empty, {}) (mr_id r) = Inr st"
    unfolding validate_tombstone_ok
    using assms by (auto simp: lookup_record_def conn_view_def row_view_def writable_def)
  then show ?thesis by (auto simp: validate_batch_ok MAX_BATCH_OPS_def)
qed

lemma tombstone_tables:
  "\<exists>ids db1. apply_ops env tick 0 db batch [OpTombstone m rat] q token now review = Inr (ids, db1)
     \<and> db_promotions db1 = db_promotions db \<and> db_stage db1 = db_stage db"
  by (simp add: Let_def update_row_def)

lemma operator_tombstone:
  assumes "gate_lawful env" "\<forall>t. me_commit_error env t = None"
    and "find_row (st_db st) (qr_memory_id request) = Some origin" "mr_scope origin = qr_scope request"
    and "row_hash env origin = qr_expected_content_hash request" "is_quarantined (mr_status origin)"
    and "qr_decision request = DecideTombstone" "qr_reviewer request = ReviewOperator who"
  shows "\<exists>receipt decision st'. review_quarantined_blocking env request st = Some (Inr (Inr (OutTombstoned receipt decision)), st')
    \<and> rr_status receipt = StatusTombstoned \<and> pending_promotions_for (st_db st') (qr_memory_id request) = []
    \<and> pp_stage_token ` set (pending_promotions_for (st_db st) (qr_memory_id request)) \<inter> sg_token ` set (db_stage (st_db st')) = {}"
proof -
  let ?now = "me_now_ms env (st_tick st)" and ?token = "me_mint_token env (Suc (st_tick st)) ''review''"
  let ?st = "st\<lparr>st_tick := Suc (st_tick st)\<rparr>"
  let ?ps = "pending_promotions_for (st_db st) (mr_id origin)"
  let ?db = "fold (\<lambda>p. expire_promotion_in_tx p ?now) ?ps (st_db st)"
  have id: "qr_memory_id request = mr_id origin" using find_row_Some [OF assms(3)] by simp
  obtain reason where status: "mr_status origin = StatusQuarantined reason" using assms(6) by (cases "mr_status origin") auto
  obtain expired invalidated where settled: "settle_promotions True ?now ?ps (st_db st) = Inr (expired, invalidated, ?db)"
    using settle_operator by blast
  let ?review = "review_audit request origin reason expired invalidated"
  have rows: "find_row ?db = find_row (st_db st)" using settle_promotions_db [OF settled] by (simp add: find_row_def fun_eq_iff)
  obtain rat where ops: "review_ops ?db request origin = Inr [OpTombstone (mr_id origin) rat]" using assms(7) by (simp add: review_ops_def Let_def)
  let ?batch = "review_batch request [OpTombstone (mr_id origin) rat]"
  have batch: "?batch = \<lparr>sb_realm = sc_realm (qr_scope request), sb_author = AuthorOperator, sb_kind = ReviewVerdict, sb_ops = [OpTombstone (mr_id origin) rat]\<rparr>"
    by (simp add: review_batch_def assms(8))
  have origin: "find_row ?db (mr_id origin) = Some origin" using assms(3) rows id by simp
  have ok: "validate_batch (me_sha256 env) ?batch (conn_view ?db) DEFAULT_TOMBSTONE_RECREATE_WINDOW_MS ?now = Some (Inr ())"
    unfolding batch by (rule tombstone_accepted) (use origin assms(4,6) in simp_all)
  obtain ids db1 where app: "apply_ops env (Suc (Suc (st_tick st))) 0 ?db ?batch [OpTombstone (mr_id origin) rat] None ?token ?now (Some ?review) = Inr (ids, db1)"
    and tables: "db_promotions db1 = db_promotions ?db" "db_stage db1 = db_stage ?db"
    using tombstone_tables by blast
  let ?db' = "db1\<lparr>db_stage := filter (\<lambda>s. sg_token s \<noteq> ?token) (db_stage db1)\<rparr>"
  obtain receipt where tx: "apply_batch_in_tx env (Suc (Suc (st_tick st))) ?db ?batch None ?token ?now (Some ?review) = Some (Inr (receipt, ?db'))"
    using ok app by (auto simp: apply_batch_in_tx_ok batch)
  have "find_row ?db' (mr_id origin) = Some (tombstoned_row ?now origin)"
    using tombstone_effect [OF app origin] by simp
  then obtain o_receipt where receipt: "review_receipt env ?db' (mr_id origin) = Inr o_receipt" "rr_status o_receipt = StatusTombstoned"
    by (auto simp: review_receipt_def tombstoned_row_def)
  let ?decision = "\<lparr>rd_audit_token = ?token, rd_decided_at_ms = ?now, rd_review = ?review\<rparr>"
  have q: "batch_quarantine_reason env ?batch ?st = (None, ?st)"
    using review_ungated [OF assms(1) ops] by (simp add: batch_quarantine_reason_def)
  have "apply_review env ?db request origin [OpTombstone (mr_id origin) rat] ?review ?now ?st
      = Some (Inr (Inr (OutTombstoned o_receipt ?decision)), ?db', ?st\<lparr>st_tick := Suc (Suc (Suc (st_tick st)))\<rparr>)"
    by (simp add: apply_review_def q tx review_outcome_def receipt(1) assms(7) Let_def)
  then have "review_in_tx env request ?now ?st
      = Some (Inr (Inr (OutTombstoned o_receipt ?decision)), ?db', ?st\<lparr>st_tick := Suc (Suc (Suc (st_tick st)))\<rparr>)"
    using assms(3-5,7,8) status settled ops by (simp add: review_in_tx_def Let_def)
  then obtain st' where blocking: "review_quarantined_blocking env request st = Some (Inr (Inr (OutTombstoned o_receipt ?decision)), st')" "st_db st' = ?db'"
    using assms(2) by (simp add: review_quarantined_blocking_def tx_commit_def)
  have "pending_promotions_for (st_db st') (mr_id origin) = []"
    unfolding blocking(2) by (rule no_pending_promotion) (simp add: tables(1))
  moreover have "pp_stage_token ` set ?ps \<inter> sg_token ` set (db_stage (st_db st')) = {}"
  proof -
    have "set (db_stage (st_db st')) \<subseteq> {s. sg_token s \<notin> pp_stage_token ` set ?ps}" by (auto simp: blocking(2) tables(2) expired_stages)
    then have "x \<notin> pp_stage_token ` set ?ps" if "x \<in> sg_token ` set (db_stage (st_db st'))" for x
      using that by (elim imageE) (simp add: subset_iff)
    then show ?thesis by (simp add: disjoint_iff) metis
  qed
  ultimately show ?thesis using blocking(1) receipt(2) id by auto
qed

section \<open>A concrete run\<close>

text \<open>An agent whose writes are gated remembers something; an operator discards it.\<close>

definition memory_demo_env :: MemoryEnv where
  "memory_demo_env = \<lparr>me_sha256 = (\<lambda>s. s), me_now_ms = (\<lambda>_. 1), me_new_memory_id = (\<lambda>_ _ _. ''m''), me_mint_token = (\<lambda>_ prefix. prefix),
     me_commit_error = (\<lambda>_. None), me_sql_error = (\<lambda>s. s), me_author_debug = (\<lambda>_. []),
     me_gate = Some (quarantine_reason \<lparr>wg_tracker = None, wg_llm_writes = WritesQuarantined\<rparr>), me_resolver = None\<rparr>"

definition empty_store :: MemoryStore where
  "empty_store = \<lparr>st_db = empty_db, st_sink_wired = False, st_events = [], st_tick = 0\<rparr>"

definition policy_reason :: string where
  "policy_reason = ''llm_writes=quarantined policy''"

definition demo_row :: MemoryRow where
  "demo_row = created_row memory_demo_env ''m'' demo_scope demo_payload AgentObserved (AuthorAgent ''a'') [] None None (Some policy_reason) 1 1 [] True"

abbreviation demo_write :: StagedMutationBatch where
  "demo_write \<equiv> direct_batch demo_scope (AuthorAgent ''a'') (OpCreate None demo_scope demo_payload AgentObserved [] None None None)"

lemma demo_memory_gate: "gate_lawful memory_demo_env" "gate_verdict memory_demo_env demo_write = Some policy_reason"
  by (rule taint_gate_lawful, simp add: memory_demo_env_def)
    (simp add: gate_verdict_def memory_demo_env_def direct_batch_def quarantine_reason_def policy_reason_def)

lemma demo_normal: "compact_whitespace ''t'' = ''t''" "trim ''b'' = ''b''" "nr_tags demo_payload = []"
  "validate_record_fields ''t'' (nr_description demo_payload) ''b'' = Inr ()" "nr_title demo_payload = ''t''" "nr_body demo_payload = ''b''"
  "demo_payload\<lparr>nr_title := ''t'', nr_body := ''b'', nr_tags := []\<rparr> = demo_payload"
proof -
  show "compact_whitespace ''t'' = ''t''" "trim ''b'' = ''b''" by code_simp+
  show "validate_record_fields ''t'' (nr_description demo_payload) ''b'' = Inr ()"
    by (simp add: validate_record_fields_def demo_payload_def blank_def MAX_RECORD_TITLE_BYTES_def MAX_RECORD_DESCRIPTION_BYTES_def MAX_RECORD_BODY_BYTES_def) code_simp
qed (simp_all add: demo_payload_def)

lemma demo_write_accepted:
  "validate_batch sha demo_write (conn_view empty_db) window now = Some (Inr ())"
  using demo_payload_ok
  by (simp add: validate_batch_ok validate_ops_Cons_ok validate_op_ok direct_batch_def conn_view_def empty_db_def find_row_def
      tombstoned_at_ms_def List.map_filter_def demo_memory_defs del: validate_ops.simps(2))
    (rule exI [of _ False], simp)

lemma demo_write_applied:
  "\<exists>receipt db. apply_batch_in_tx memory_demo_env 2 empty_db demo_write (Some policy_reason) ''direct'' 1 None = Some (Inr (receipt, db))
     \<and> rc_memory_ids receipt = [''m''] \<and> find_row db = [''m'' \<mapsto> demo_row] \<and> ad_stage_token ` set (db_audit db) = {''direct''}"
proof -
  have "insert_record memory_demo_env empty_db ''m'' demo_scope demo_payload AgentObserved (AuthorAgent ''a'') [] None None (Some policy_reason) 1 1
      = Inr (empty_db\<lparr>db_records := [demo_row]\<rparr>)"
    by (simp add: insert_record_ok empty_db_def find_row_def demo_row_def demo_normal normalize_tags_def MAX_MEMORY_TAGS_def)
  moreover have "me_new_memory_id memory_demo_env n t b = ''m''" for n t b by (simp add: memory_demo_env_def)
  ultimately obtain db where app: "apply_ops memory_demo_env 2 0 empty_db demo_write (sb_ops demo_write) (Some policy_reason) ''direct'' 1 None = Inr ([''m''], db)"
    and db: "db_records db = [demo_row]" "ad_stage_token ` set (db_audit db) = {''direct''}"
    by (simp add: direct_batch_def unwrap_or_def) (simp add: empty_db_def)
  let ?db = "db\<lparr>db_stage := filter (\<lambda>s. sg_token s \<noteq> ''direct'') (db_stage db)\<rparr>"
  let ?receipt = "\<lparr>rc_token = ''direct'', rc_applied_ops = length (sb_ops demo_write), rc_memory_ids = [''m'']\<rparr>"
  have rows: "find_row db = [''m'' \<mapsto> demo_row]"
    by (simp add: fun_eq_iff find_row_def db(1)) (simp add: demo_row_def created_row_def)
  have "apply_batch_in_tx memory_demo_env 2 empty_db demo_write (Some policy_reason) ''direct'' 1 None = Some (Inr (?receipt, ?db))"
    unfolding apply_batch_in_tx_ok by (intro conjI exI [of _ "[''m'']"] exI [of _ db] demo_write_accepted app refl)
  moreover have "rc_memory_ids ?receipt = [''m'']" "find_row ?db = [''m'' \<mapsto> demo_row]" "ad_stage_token ` set (db_audit ?db) = {''direct''}"
    using rows db(2) by simp_all
  ultimately show ?thesis by blast
qed

lemma demo_quarantined:
  "\<exists>r st. remember_authored_blocking memory_demo_env demo_scope demo_payload (AuthorAgent ''a'') empty_store = Some (r, st)
     \<and> find_row (st_db st) = [''m'' \<mapsto> demo_row] \<and> ad_stage_token ` set (db_audit (st_db st)) = {''direct''}"
proof -
  obtain receipt db where b: "apply_batch_in_tx memory_demo_env 2 empty_db demo_write (Some policy_reason) ''direct'' 1 None = Some (Inr (receipt, db))"
    "find_row db = [''m'' \<mapsto> demo_row]" "ad_stage_token ` set (db_audit db) = {''direct''}"
    using demo_write_applied by (elim exE conjE) (rule that)
  let ?st = "empty_store\<lparr>st_db := db, st_tick := Suc (Suc (Suc (Suc 0)))\<rparr>"
  have q: "batch_quarantine_reason memory_demo_env demo_write st = (Some policy_reason, st)" if "\<not> st_sink_wired st" for st
    using that by (simp add: batch_quarantine_reason_def demo_memory_gate(2) emit_store_event_def)
  have env: "me_mint_token memory_demo_env n p = p" "me_now_ms memory_demo_env n = 1" "me_commit_error memory_demo_env n = None" for n p
    by (simp_all add: memory_demo_env_def)
  have ops: "length (sb_ops demo_write) = 1" by (simp add: direct_batch_def)
  have "apply_direct memory_demo_env demo_write empty_store = Some (Inr receipt, ?st)"
    using b(1) by (simp add: apply_direct_def apply_batch_tx_def env ops tx_commit_def q empty_store_def numeral_2_eq_2)
  moreover have "oldest_duplicate (st_db empty_store) demo_scope h = None" for h
    by (simp add: oldest_duplicate_def empty_store_def empty_db_def)
  ultimately have "remember_authored_blocking memory_demo_env demo_scope demo_payload (AuthorAgent ''a'') empty_store
      = Some (receipt_of_write ''remember'' receipt ?st)"
    by (simp add: remember_authored_blocking_def demo_normal normalize_tags_def MAX_MEMORY_TAGS_def Let_def)
  moreover obtain r where "receipt_of_write ''remember'' receipt ?st = (r, ?st)"
    using receipt_of_write_store [of "''remember''" receipt ?st] by (metis prod.collapse)
  ultimately show ?thesis using b(2,3) by (intro exI [of _ r] exI [of _ ?st]) simp
qed

definition demo_remembered :: MemoryStore where
  "demo_remembered = snd (the (remember_authored_blocking memory_demo_env demo_scope demo_payload (AuthorAgent ''a'') empty_store))"

lemma demo_remembered_facts:
  "reachable memory_init (lawful_memory_step memory_demo_env) demo_remembered"
  "find_row (st_db demo_remembered) = [''m'' \<mapsto> demo_row]" "ad_stage_token ` set (db_audit (st_db demo_remembered)) = {''direct''}"
proof -
  obtain r st where run: "remember_authored_blocking memory_demo_env demo_scope demo_payload (AuthorAgent ''a'') empty_store = Some (r, st)"
    "find_row (st_db st) = [''m'' \<mapsto> demo_row]" "ad_stage_token ` set (db_audit (st_db st)) = {''direct''}"
    using demo_quarantined by (elim exE conjE) (rule that)
  have st: "demo_remembered = st" by (simp add: demo_remembered_def run(1))
  have "reachable memory_init (lawful_memory_step memory_demo_env) empty_store"
    by (rule reachable_init) (simp add: memory_init_def empty_store_def)
  then show "reachable memory_init (lawful_memory_step memory_demo_env) demo_remembered"
    unfolding st by (rule reachable_step) (simp add: lawful_memory_step_def demo_memory_gate(1) step_remember [OF run(1)])
  show "find_row (st_db demo_remembered) = [''m'' \<mapsto> demo_row]" "ad_stage_token ` set (db_audit (st_db demo_remembered)) = {''direct''}"
    unfolding st by (rule run(2), rule run(3))
qed

lemma demo_row_facts:
  "mr_id demo_row = ''m''" "mr_scope demo_row = demo_scope" "is_quarantined (mr_status demo_row)" "mr_ever_quarantined demo_row"
  by (simp_all add: demo_row_def created_row_def)

definition demo_discard :: QuarantineReviewRequest where
  "demo_discard = \<lparr>qr_scope = demo_scope, qr_memory_id = ''m'', qr_decision = DecideTombstone,
     qr_expected_content_hash = row_hash memory_demo_env demo_row, qr_reviewer = ReviewOperator None, qr_rationale = None\<rparr>"

lemma demo_discard_facts:
  "qr_memory_id demo_discard = ''m''" "mr_scope demo_row = qr_scope demo_discard" "row_hash memory_demo_env demo_row = qr_expected_content_hash demo_discard"
  "qr_decision demo_discard = DecideTombstone" "qr_reviewer demo_discard = ReviewOperator None"
  "find_row (st_db demo_remembered) (qr_memory_id demo_discard) = Some demo_row" "\<forall>t. me_commit_error memory_demo_env t = None"
  by (simp_all add: demo_discard_def demo_row_facts demo_remembered_facts(2)) (simp add: memory_demo_env_def)

lemma demo_discarded:
  obtains receipt decision st' where
    "review_quarantined_blocking memory_demo_env demo_discard demo_remembered = Some (Inr (Inr (OutTombstoned receipt decision)), st')"
  using operator_tombstone [OF demo_memory_gate(1) demo_discard_facts(7,6,2,3) demo_row_facts(3) demo_discard_facts(4,5)] by (elim exE conjE) (rule that)

theorem quarantine_ceiling_holds_witness:
  "\<exists>r. find_row (st_db demo_remembered) ''m'' = Some r \<and> mr_trust r \<le> AgentObserved"
proof -
  have "mr_trust demo_row \<le> AgentObserved"
    by (rule quarantine_ceiling_holds [OF demo_remembered_facts(1), of "''m''" demo_row "''m''" demo_row])
      (simp_all add: demo_remembered_facts(2) demo_row_facts)
  then show ?thesis by (simp add: demo_remembered_facts(2))
qed

text \<open>
  C18. An operator can always discard quarantined content: a tombstone of a quarantined record that
  names the content in its scope is applied, provided the database commits, whatever promotions of
  the record are pending at the gate; afterwards none is pending and their staged batches are gone,
  so no later approval can publish the content.
\<close>

theorem operator_tombstone_applies:
  assumes "gate_lawful env" "\<forall>t. me_commit_error env t = None"
    and "find_row (st_db st) (qr_memory_id request) = Some origin" "mr_scope origin = qr_scope request"
    and "row_hash env origin = qr_expected_content_hash request" "is_quarantined (mr_status origin)"
    and "qr_decision request = DecideTombstone" "qr_reviewer request = ReviewOperator who"
  shows "\<exists>receipt decision st'. review_quarantined_blocking env request st = Some (Inr (Inr (OutTombstoned receipt decision)), st')
    \<and> rr_status receipt = StatusTombstoned \<and> pending_promotions_for (st_db st') (qr_memory_id request) = []
    \<and> pp_stage_token ` set (pending_promotions_for (st_db st) (qr_memory_id request)) \<inter> sg_token ` set (db_stage (st_db st')) = {}"
  by (rule operator_tombstone [OF assms])

theorem operator_tombstone_applies_witness:
  "\<exists>receipt decision st'. review_quarantined_blocking memory_demo_env demo_discard demo_remembered
       = Some (Inr (Inr (OutTombstoned receipt decision)), st') \<and> rr_status receipt = StatusTombstoned"
  using operator_tombstone_applies [OF demo_memory_gate(1) demo_discard_facts(7,6,2,3) demo_row_facts(3) demo_discard_facts(4,5)]
  by (elim exE conjE) (intro exI conjI)

theorem review_verdict_exact_witness:
  "\<exists>outcome st'. review_quarantined_blocking memory_demo_env demo_discard demo_remembered = Some (Inr (Inr outcome), st')
     \<and> map_option mr_status (find_row (st_db st') ''m'') = Some StatusTombstoned"
proof -
  obtain receipt decision st' where run:
    "review_quarantined_blocking memory_demo_env demo_discard demo_remembered = Some (Inr (Inr (OutTombstoned receipt decision)), st')"
    by (rule demo_discarded)
  have "outcome_applied (OutTombstoned receipt decision)" by simp
  from review_verdict_exact [OF demo_remembered_facts(1) demo_memory_gate(1) run this]
  have "map_option mr_status (find_row (st_db st') ''m'') = Some StatusTombstoned"
    unfolding demo_discard_facts(4) QuarantineDecision.case demo_discard_facts(6)
    by (elim exE conjE) (simp add: demo_row_facts(1) tombstoned_row_def)
  then show ?thesis using run by (intro exI conjI)
qed

theorem repeated_verdict_replays_witness:
  "\<exists>outcome st' outcome' after. review_quarantined_blocking memory_demo_env demo_discard demo_remembered = Some (Inr (Inr outcome), st')
     \<and> review_quarantined_blocking memory_demo_env demo_discard st' = Some (Inr (Inr outcome'), after)
     \<and> outcome_decision outcome' = outcome_decision outcome"
proof -
  obtain receipt decision st' where run:
    "review_quarantined_blocking memory_demo_env demo_discard demo_remembered = Some (Inr (Inr (OutTombstoned receipt decision)), st')"
    by (rule demo_discarded)
  have applied: "outcome_applied (OutTombstoned receipt decision)" by simp
  have fresh: "me_mint_token memory_demo_env (Suc (st_tick demo_remembered)) ''review'' \<notin> ad_stage_token ` set (db_audit (st_db demo_remembered))"
    unfolding demo_remembered_facts(3) by (simp add: memory_demo_env_def)
  obtain outcome' after where
    "review_quarantined_blocking memory_demo_env demo_discard st' = Some (Inr (Inr outcome'), after)"
    "outcome_decision outcome' = outcome_decision (OutTombstoned receipt decision)"
    using repeated_verdict_replays [OF demo_remembered_facts(1) demo_memory_gate(1) run applied fresh refl] by (elim exE conjE) (rule that)
  then show ?thesis using run by (intro exI conjI)
qed

end
