(* ===== verification/Spec2Isabelle.thy ===== *)
theory Spec2Isabelle
  imports Supervised_System Console_Experience Agent_Memory_Run
begin

text \<open>
  \<^bold>\<open>A verification of the access controller, the module runtime and the console gateway of
  meerkat-meta.\<close>

  The crate \<open>crates/meerkat-meta\<close> hosts mobs of agents. Three of its parts carry most of its own
  logic and are modelled here. The \<^emph>\<open>access controller\<close> (\<open>access/model.rs\<close>, \<open>access/engine.rs\<close>,
  \<open>access/controller.rs\<close>) decides who may do what to which agent, and edits the policy under a
  revision and owner precondition. The \<^emph>\<open>module runtime\<close> (\<open>runtime.rs\<close> and \<open>runtime/\<close>) owns one
  \<open>MetaRuntimeHandle\<close>: routes to recipients, deliveries with idempotency and rate limits, the
  merged event log, the memory ledger, the approval gate, which evaluates risky actions and
  uses routing, delivery and the ledger to do so, and the processes of the modules. The
  \<^emph>\<open>console gateway\<close> (\<open>auth/mod.rs\<close>, \<open>console_config.rs\<close>, \<open>decisions.rs\<close>,
  \<open>runtime/console_ingress.rs\<close>, \<open>member_comms_id.rs\<close>) admits a caller by a signed token and an
  allowlist, asks the access controller what the caller may see, and renders the rows and
  actions that remain.

  \<^bold>\<open>Layers.\<close>
  \<^item> \<open>Meta_Prelude\<close>, \<open>Rust_Strings\<close>, \<open>Rust_Collections\<close>, \<open>Json_Value\<close>: the parts of the Rust standard
    library and of \<open>serde_json\<close> the sources use. Integers keep their width; checked, saturating
    and clamping arithmetic is written out. Ordered maps are sorted association lists, an
    instance of the locale \<open>kv_map\<close>; vectors that remember insertion order beside a map and evict
    their oldest keys are its lemmas on \<open>indexed\<close>.
  \<^item> \<open>Transition_Systems\<close>: reachability, and the locales \<open>step_invariant\<close>, \<open>step_monotone\<close> and
    \<open>simulation\<close>.
  \<^item> \<open>Access_Model\<close>, \<open>Access_Engine\<close>, \<open>Access_Controller\<close>: configuration, validation and the memory
    migration; the rule engine, an instance of the locale \<open>deny_overrides\<close>; the controller with
    persistence, edit preconditions, cached agent attributes and spawn lineage, whose step
    relation interprets \<open>step_invariant\<close> and \<open>step_monotone\<close>.
  \<^item> \<open>Runtime_Types\<close>: the records of \<open>runtime.rs\<close> and \<open>types.rs\<close>, the handle, and the environment.
    \<open>Module_Boundary\<close> (\<open>runtime/module_boundary.rs\<close>): calls into modules over MCP with every error
    and close path. \<open>Event_Transport\<close> (\<open>runtime/event_transport.rs\<close>): the sorted log, merging,
    normalisation, replay. \<open>Routing\<close> (\<open>runtime/routing.rs\<close>), \<open>Delivery\<close> (\<open>runtime/delivery.rs\<close>),
    \<open>Memory_Ledger\<close> (\<open>runtime/memory.rs\<close> and the restore in \<open>runtime/bootstrap.rs\<close>).
  \<^item> \<open>Gating_Identity\<close>, \<open>Gating\<close>, \<open>Gating_Decisions\<close> (\<open>runtime/gating.rs\<close>): ids, evaluation, decisions,
    timeouts, audit, snapshot and restore. \<open>Gating_Invariant\<close>, \<open>Gating_Safety\<close>, \<open>Gating_Evaluation\<close>,
    \<open>Gating_Properties\<close>, \<open>Gating_Snapshot\<close>: the invariant and what follows from it.
    \<open>Gating_Lifecycle\<close>: the abstract machine of an approval request and the refinement.
  \<^item> \<open>Runtime_System\<close>: the handle of startup and every operation of the services as one step
    relation, with the invariants of all modules together; the locale \<open>gate_host\<close> carries the
    invariants of routing, delivery and memory through the gate, which calls them.
  \<^item> \<open>Module_Process\<close> (\<open>runtime/module_process.rs\<close>), \<open>Supervisor\<close> (\<open>runtime/supervisor.rs\<close>,
    \<open>runtime/bootstrap.rs\<close>): owned processes, supervised starts, spawning, reconciliation, shutdown
    and startup. \<open>Supervisor_Custody\<close>: what each of them does to the processes. \<open>Supervised_System\<close>:
    services and supervision as one machine.
  \<^item> \<open>Utf8\<close>: code points and their bytes, and the locale \<open>codec\<close> of encodings with a left inverse.
    \<open>Member_Alias\<close> (\<open>member_comms_id.rs\<close>): generated member aliases and the spellings of a member.
    \<open>Jwt_Auth\<close> (\<open>auth/mod.rs\<close>): token parsing, claims, key selection and the key set cache.
    \<open>Console_Config\<close> (\<open>console_config.rs\<close>): the configuration file and its normal form.
    \<open>Console_Auth\<close> (\<open>decisions.rs\<close> and the authorization half of \<open>runtime/console_ingress.rs\<close>):
    decision policies and route access. \<open>Console_Experience\<close> (the rest of
    \<open>runtime/console_ingress.rs\<close>): snapshots, access filtering and the console document.

  \<^bold>\<open>State and effects.\<close> An operation takes the handle and returns its result with the new handle,
  as \<open>&mut self\<close> methods do; errors are \<open>Inl\<close>. What lies outside the sources is the record \<open>Env\<close>:
  the wall clock and the answers of modules as functions of a tick that every call advances, the
  JSON text reader and printer, derived decoders, the debug text of errors, and the ledger write.
  Nothing is assumed of it, except where a statement says so: \<open>origin_codec\<close> is the round trip
  of the derived origin serializers. The file system of the access controller is \<open>FsEnv\<close>, the
  process calls of supervision are \<open>Os\<close>. The console has \<open>AuthLib\<close> and \<open>AuthNet\<close> (base64,
  the cryptographic checks, the document decoders, key fetching and its clock), \<open>PolicyLib\<close> and
  \<open>ConfigLib\<close> (TOML and URL parsing, reading a file), and \<open>ConsoleEnv\<close> (the clock and the derived
  serializer of the UI section); they are arguments of the definitions that use them.
  Resolution observers are represented by the list of notices handed to them.

  \<^bold>\<open>What is shown.\<close> Access: the engine computes deny-overrides over the lineage, whatever the
  order of the rules; validation accepts exactly the well-formed configurations; the memory
  migration keeps decisions; edits are atomic, never lose a concurrent update and never make
  memory differ from disk; lineage is cycle-safe. Events: appending and merging keep the log
  sorted, replay returns what follows a cursor. Routing: the best route wins, the table is
  canonical, resolutions are remembered and bounded. Delivery: only remembered, unforged
  resolutions are sent, an idempotency key sends once, no window exceeds its limit. Memory:
  indexing is atomic with the ledger write, restart gives the ledger back, restore sanitises
  what it reads. Gate: only entitled deciders decide, and only live requests; refusals change
  nothing but due timeouts; evaluation grants by tier with bounded deadlines; escalation keeps
  the deadline; ids never repeat; snapshots round-trip; restore fails closed; verdicts are final.
  Supervision: starts settle within their budget, no process is lost before its exit was
  confirmed, and a shutdown report accounts for every process. Console: a token is accepted
  exactly when its signature, issuer, audience and times are good; a served experience was
  authorized by a token of an allowed human or service; rows and actions stay within the
  grants of the caller, and a read-only console offers no action;
  the key cache only yields verified keys; aliases round-trip and stay apart from raw names;
  loading a configuration gives its normal form.

  \<^bold>\<open>Recursion, bounds and fuel.\<close> No fuel is used: recursion is structural, and the binary search
  of \<open>Rust_Collections\<close>, the trimming of \<open>Rust_Strings\<close> and the ancestor walk of the access
  controller, which are not, have termination proofs. The start loop of supervision is a partial
  function into \<open>option\<close>, since a budget of the largest \<open>u32\<close> never runs out; below it the loop
  is proved to return.
  Sequence counters saturate in routing, delivery and memory: their uniqueness statements exclude
  the last value. The gate refuses instead, which is proved to leave no partial request behind.

  \<^bold>\<open>Not modelled.\<close> The HTTP console and its aggregation, JSON-RPC dispatch, the mob runtime
  and its identity layer, mobpacks, stores and migrations, voice, and remote hosts: they are
  input and output or adapters over libraries whose sources are not in the repository. The
  endpoint health check of the ledger is a parameter, and so is the random owner epoch; that no
  snapshot holds ids of the restoring owner's epoch is a hypothesis of restore. Locks and the
  asynchronous interleaving of callers are represented by the order of the steps.
\<close>

section \<open>A concrete run\<close>

text \<open>The demonstration system starts its two MCP modules, is asked for an approval, and gets it.\<close>

definition demo_start :: SupervisedRuntime where
  "demo_start = demo_start_result demo_env demo_os (rt_config demo_handle) (Some demo_epoch)"

definition demo_asked :: SupervisedRuntime where
  "demo_asked = demo_start\<lparr>sv_handle := snd (evaluate_gating_action_with_origin demo_env demo_action None (sv_handle demo_start))\<rparr>"

definition demo_decided :: SupervisedRuntime where
  "demo_decided = demo_asked\<lparr>sv_handle := snd (decide_gating_action demo_env (demo_decision Approve) (sv_handle demo_asked))\<rparr>"

lemma demo_system_init: "system_init demo_env demo_os demo_start"
  unfolding demo_start_def by (rule demo_start_init) code_simp

lemma demo_steps:
  "system_step demo_env demo_os demo_start demo_asked" "system_step demo_env demo_os demo_asked demo_decided"
  unfolding demo_asked_def demo_decided_def
  by (rule step_service, rule step_evaluate [OF prod.collapse [symmetric]])
    (rule step_service, rule step_decide [OF prod.collapse [symmetric]])

lemma demo_reachable:
  "reachable (system_init demo_env demo_os) (system_step demo_env demo_os) demo_asked"
  "reachable (system_init demo_env demo_os) (system_step demo_env demo_os) demo_decided"
  by (meson demo_system_init demo_steps reachable_init reachable_step)+

section \<open>The runtime as a whole\<close>

text \<open>
  C5. In every state the runtime can reach from startup, through any sequence of routing,
  delivery, event, memory, gating and supervision operations, all invariants hold at once: the
  event log is sorted and the route table canonical, remembered resolutions are bounded and
  their own, delivery history and idempotency index agree, no rate window is over its limit,
  scoped keys cannot collide, the ledger is canonical and bounded, the gate is well formed, and
  every live child belongs to a loaded, configured module and has not been reaped.
\<close>

theorem runtime_reachable_invariants:
  assumes "reachable (system_init env os) (system_step env os) sv"
  shows "routing_inv (sv_handle sv) \<and> delivery_inv (sv_handle sv) \<and> rate_inv (sv_handle sv) \<and> route_scoped (sv_handle sv)
    \<and> memory_inv (sv_handle sv) \<and> gating_inv (sv_handle sv) \<and> sup_inv sv"
  using system.inv_reachable [OF assms] by (simp add: system_inv_def runtime_inv_def services_inv_def)

theorem runtime_reachable_invariants_witness:
  "reachable (system_init demo_env demo_os) (system_step demo_env demo_os) demo_decided
   \<and> gating_inv (sv_handle demo_decided) \<and> routing_inv (sv_handle demo_decided) \<and> sup_inv demo_decided"
  using runtime_reachable_invariants [OF demo_reachable(2)] demo_reachable(2) by blast

text \<open>
  C7. An approval request has one life: seen from outside, every run of the runtime, its
  supervision included, is a run of the abstract machine in which requests open, wait and close
  once with a verdict. So once a request was resolved, in whatever way, it stays resolved with
  the same verdict in every later state, and it is never pending again.
\<close>

theorem approval_verdict_final:
  assumes "reachable (system_init env os) (system_step env os) sv" and "(system_step env os)\<^sup>*\<^sup>* sv sv'"
  shows "approval_step\<^sup>*\<^sup>* (board_of (sv_handle sv)) (board_of (sv_handle sv'))
    \<and> (\<forall>i v c. board_of (sv_handle sv) i = Some (Closed v c) \<longrightarrow>
         board_of (sv_handle sv') i = Some (Closed v c) \<and> bt_get (rt_gating_pending (sv_handle sv')) i = None)"
proof -
  have inv: "system_inv env sv" by (rule system.inv_reachable [OF assms(1)])
  have sim: "approval_step\<^sup>*\<^sup>* (board_of (sv_handle sv)) (board_of (sv_handle sv'))"
    by (rule system_life.simulates_steps [OF assms(2) inv])
  have inv': "gating_inv (sv_handle sv')"
    using system.inv_steps [OF assms(2) inv] by (simp add: system_inv_def runtime_inv_def)
  have "bt_get (rt_gating_pending (sv_handle sv')) i = None" if "board_of (sv_handle sv') i = Some (Closed v c)" for i v c
  proof -
    have "i \<notin> set (rt_gating_pending_order (sv_handle sv'))" using that by (auto simp: board_of_def board_def split: if_splits)
    then show ?thesis using inv_order_dom [OF inv'] by auto
  qed
  then show ?thesis using sim closed_final by blast
qed

theorem approval_verdict_final_witness:
  "board_of (sv_handle demo_asked) (gate_id ''pending'' demo_epoch 1) = Some Waiting
   \<and> board_of (sv_handle demo_decided) (gate_id ''pending'' demo_epoch 1) = Some (Closed True ''approval_decided'')
   \<and> approval_step\<^sup>*\<^sup>* (board_of (sv_handle demo_asked)) (board_of (sv_handle demo_decided))"
proof -
  have "board_of (sv_handle demo_asked) (gate_id ''pending'' demo_epoch 1) = Some Waiting"
    "board_of (sv_handle demo_decided) (gate_id ''pending'' demo_epoch 1) = Some (Closed True ''approval_decided'')"
    unfolding demo_asked_def demo_decided_def demo_start_def by code_simp+
  moreover have "(system_step demo_env demo_os)\<^sup>*\<^sup>* demo_asked demo_decided" using demo_steps(2) by blast
  ultimately show ?thesis using approval_verdict_final [OF demo_reachable(1)] by blast
qed

end
